(* ===== verification/Prelude.thy ===== *)
theory Prelude
  imports Main "HOL-Library.Sublist"
begin

text \<open>
  What every component shares: time, Go errors, the functions of Go's \<open>strings\<close> and
  \<open>strconv\<close> packages the source calls, and the collections of facts the component proofs
  use.

  \<^item> Strings are Go strings: lists of bytes (\<open>char\<close>), so \<open>length\<close> is Go's \<open>len\<close>.
  \<^item> A \<open>time.Time\<close> is an \<open>int\<close>, nanoseconds since the Unix epoch; a
    \<open>time.Duration\<close> is an \<open>int\<close> of nanoseconds. Time zones are not modelled.
  \<^item> A Go function that returns \<open>(T, error)\<close> returns \<open>'a result\<close>: \<open>Inl\<close> the error or
    \<open>Inr\<close> the value. Errors keep their text, because the source tests it with
    \<open>strings.Contains\<close>, and their wrapping, because it tests that with \<open>errors.Is\<close>.
\<close>

named_theorems step_simps "unfolding of the error-handling and database combinators"
named_theorems frame_simps "operations that leave a part of the state alone"

type_synonym time = int
type_synonym duration = int

abbreviation second :: duration where "second \<equiv> 1000000000"
abbreviation minute :: duration where "minute \<equiv> 60000000000"
abbreviation hour :: duration where "hour \<equiv> 3600000000000"

section \<open>Errors\<close>

text \<open>The error values the source declares with \<open>errors.New\<close> and compares by identity.\<close>

datatype sentinel =
    ErrNoRows
  | CertificateRequestNotFoundError
  | ErrEncryptionValidationNotFound
  | ErrCertificateAuthorityNotFound
  | ErrIssuedCertificateNotFound
  | ErrInvalidEncryptionKey
  | ErrCertificateAlreadyExists
  | ErrKeyAlgorithmMismatch
  | ErrMissingAuthzHeader
  | ErrInvalidAuthzHeader
  | ErrUnsupportedAuthzScheme
  | ErrMissingAuthzToken
  | ErrInvalidServiceToken
  | ErrServiceTokenDisabled
  | ErrServiceTokenDeleted
  | ErrServiceTokenExpired

primrec sentinel_text :: "sentinel \<Rightarrow> string" where
  "sentinel_text ErrNoRows = ''no rows in result set''"
| "sentinel_text CertificateRequestNotFoundError = ''certificate request not found''"
| "sentinel_text ErrEncryptionValidationNotFound = ''encryption validation not found''"
| "sentinel_text ErrCertificateAuthorityNotFound = ''certificate authority not found''"
| "sentinel_text ErrIssuedCertificateNotFound = ''issued certificate not found''"
| "sentinel_text ErrInvalidEncryptionKey = ''invalid encryption key''"
| "sentinel_text ErrCertificateAlreadyExists = ''certificate already exists''"
| "sentinel_text ErrKeyAlgorithmMismatch = ''key algorithm mismatch with existing CA''"
| "sentinel_text ErrMissingAuthzHeader = ''missing authorization header''"
| "sentinel_text ErrInvalidAuthzHeader = ''invalid authorization header''"
| "sentinel_text ErrUnsupportedAuthzScheme = ''unsupported authorization scheme''"
| "sentinel_text ErrMissingAuthzToken = ''missing authorization token''"
| "sentinel_text ErrInvalidServiceToken = ''invalid service token''"
| "sentinel_text ErrServiceTokenDisabled = ''service account is disabled''"
| "sentinel_text ErrServiceTokenDeleted = ''service account has been deleted''"
| "sentinel_text ErrServiceTokenExpired = ''service token is expired''"

text \<open>
  \<open>Errorf\<close> is a fresh error with a text, \<open>Wrapf pre e post\<close> is
  \<open>fmt.Errorf("pre%wpost", e)\<close>. \<open>Panic\<close> is not an error value of Go but a panic: a function
  that panics does not return, and neither do its callers.
\<close>

datatype goerror = Errorf string | Sentinel sentinel | Wrapf string goerror string | Panic string

primrec error_text :: "goerror \<Rightarrow> string" where
  "error_text (Errorf s) = s"
| "error_text (Sentinel s) = sentinel_text s"
| "error_text (Wrapf pre e post) = pre @ error_text e @ post"
| "error_text (Panic s) = s"

primrec errors_Is :: "goerror \<Rightarrow> sentinel \<Rightarrow> bool" where
  "errors_Is (Errorf s) t = False"
| "errors_Is (Sentinel s) t = (s = t)"
| "errors_Is (Wrapf pre e post) t = errors_Is e t"
| "errors_Is (Panic s) t = False"

primrec is_panic :: "goerror \<Rightarrow> bool" where
  "is_panic (Errorf s) = False"
| "is_panic (Sentinel s) = False"
| "is_panic (Wrapf pre e post) = False"
| "is_panic (Panic s) = True"

definition nil_dereference :: goerror where
  "nil_dereference = Panic ''runtime error: invalid memory address or nil pointer dereference''"

lemma is_panic_nil [simp]: "is_panic nil_dereference"
  by (simp add: nil_dereference_def)

type_synonym 'a result = "goerror + 'a"

abbreviation wrap :: "string \<Rightarrow> goerror \<Rightarrow> goerror" where
  "wrap pre e \<equiv> Wrapf pre e []"

primrec is_ok :: "'a + 'b \<Rightarrow> bool" where
  "is_ok (Inl e) = False"
| "is_ok (Inr x) = True"

lemma is_ok_iff: "is_ok r \<longleftrightarrow> (\<exists>x. r = Inr x)"
  by (cases r) auto

section \<open>Strings\<close>

definition strings_Contains :: "string \<Rightarrow> string \<Rightarrow> bool" where
  "strings_Contains s sub = sublist sub s"

definition strings_HasPrefix :: "string \<Rightarrow> string \<Rightarrow> bool" where
  "strings_HasPrefix s p = prefix p s"

definition strings_TrimPrefix :: "string \<Rightarrow> string \<Rightarrow> string" where
  "strings_TrimPrefix s p = (if prefix p s then drop (length p) s else s)"

text \<open>\<open>strings.Split\<close> at a one-byte separator: always at least one part.\<close>

fun strings_Split :: "char \<Rightarrow> string \<Rightarrow> string list" where
  "strings_Split c [] = [[]]"
| "strings_Split c (x # xs) =
     (if x = c then [] # strings_Split c xs
      else (case strings_Split c xs of [] \<Rightarrow> [[x]] | p # ps \<Rightarrow> (x # p) # ps))"

text \<open>\<open>strings.SplitN(s, sep, 2)\<close>: at most two parts.\<close>

definition strings_SplitN2 :: "char \<Rightarrow> string \<Rightarrow> string list" where
  "strings_SplitN2 c s =
     (case dropWhile (\<lambda>x. x \<noteq> c) s of
        [] \<Rightarrow> [s]
      | _ # rest \<Rightarrow> [takeWhile (\<lambda>x. x \<noteq> c) s, rest])"

definition is_space :: "char \<Rightarrow> bool" where
  "is_space c \<longleftrightarrow> c \<in> {CHR '' '', CHR 0x09, CHR 0x0A, CHR 0x0B, CHR 0x0C, CHR 0x0D}"

definition strings_TrimSpace :: "string \<Rightarrow> string" where
  "strings_TrimSpace s = rev (dropWhile is_space (rev (dropWhile is_space s)))"

definition to_lower_char :: "char \<Rightarrow> char" where
  "to_lower_char c =
     (let n = (of_char c :: nat) in if 65 \<le> n \<and> n \<le> 90 then char_of (n + 32) else c)"

definition strings_ToLower :: "string \<Rightarrow> string" where
  "strings_ToLower = map to_lower_char"

definition strings_EqualFold :: "string \<Rightarrow> string \<Rightarrow> bool" where
  "strings_EqualFold s t \<longleftrightarrow> strings_ToLower s = strings_ToLower t"

text \<open>Decimal text: \<open>fmt\<close>'s \<open>%d\<close> and \<open>strconv.Atoi\<close> (on 64-bit integers).\<close>

definition digit_char :: "nat \<Rightarrow> char" where
  "digit_char d = char_of (48 + d)"

fun show_nat :: "nat \<Rightarrow> string" where
  "show_nat n = (if n < 10 then [digit_char n] else show_nat (n div 10) @ [digit_char (n mod 10)])"

declare show_nat.simps [simp del]

definition show_int :: "int \<Rightarrow> string" where
  "show_int i = (if i < 0 then CHR ''-'' # show_nat (nat (- i)) else show_nat (nat i))"

text \<open>\<open>%d\<close> between single quotes.\<close>

definition quoted_int :: "int \<Rightarrow> string" where
  "quoted_int i = CHR 0x27 # show_int i @ [CHR 0x27]"

definition digit_val :: "char \<Rightarrow> nat option" where
  "digit_val c =
     (let n = (of_char c :: nat) in if 48 \<le> n \<and> n \<le> 57 then Some (n - 48) else None)"

fun read_digits :: "nat \<Rightarrow> string \<Rightarrow> nat option" where
  "read_digits acc [] = Some acc"
| "read_digits acc (c # cs) =
     (case digit_val c of None \<Rightarrow> None | Some d \<Rightarrow> read_digits (10 * acc + d) cs)"

definition strconv_Atoi :: "string \<Rightarrow> int result" where
  "strconv_Atoi s =
     (let (neg, ds) = (case s of
            [] \<Rightarrow> (False, [])
          | c # cs \<Rightarrow> if c = CHR ''-'' then (True, cs) else if c = CHR ''+'' then (False, cs) else (False, s))
      in if ds = [] then Inl (Errorf (''strconv.Atoi: parsing '' @ s @ '': invalid syntax''))
         else (case read_digits 0 ds of
             None \<Rightarrow> Inl (Errorf (''strconv.Atoi: parsing '' @ s @ '': invalid syntax''))
           | Some n \<Rightarrow>
               (let i = (if neg then - int n else int n)
                in if - (2 ^ 63) \<le> i \<and> i < 2 ^ 63 then Inr i
                   else Inl (Errorf (''strconv.Atoi: parsing '' @ s @ '': value out of range'')))))"

section \<open>Lemmas about the string functions\<close>

lemma strings_Split_not_Nil [simp]: "strings_Split c s \<noteq> []"
  by (induction s) (auto split: list.splits)

lemma strings_Split_no_sep: "c \<notin> set s \<Longrightarrow> strings_Split c s = [s]"
  by (induction s) auto

lemma strings_Split_append:
  "c \<notin> set s \<Longrightarrow> strings_Split c (s @ c # t) = s # strings_Split c t"
  by (induction s) (auto split: list.splits)

lemma strings_Contains_self [simp]: "strings_Contains (p @ s @ q) s"
  by (auto simp: strings_Contains_def sublist_def)

lemma of_char_digit: "d < 10 \<Longrightarrow> digit_val (digit_char d) = Some d"
  by (simp add: digit_val_def digit_char_def Let_def)

lemma read_digits_append:
  "read_digits acc (s @ t) = (case read_digits acc s of None \<Rightarrow> None | Some n \<Rightarrow> read_digits n t)"
  by (induction acc s rule: read_digits.induct) (auto split: option.splits)

lemma read_show_nat: "read_digits 0 (show_nat n) = Some n"
proof (induction n rule: show_nat.induct)
  case (1 n)
  then show ?case
    by (cases "n < 10") (simp_all add: show_nat.simps [of n] read_digits_append of_char_digit)
qed

lemma show_nat_not_Nil [simp]: "show_nat n \<noteq> []"
  by (subst show_nat.simps) simp

lemma digit_val_show_nat: "c \<in> set (show_nat n) \<Longrightarrow> digit_val c \<noteq> None"
proof (induction n rule: show_nat.induct)
  case (1 n)
  then show ?case
    by (cases "n < 10") (auto simp: show_nat.simps [of n] of_char_digit)
qed

end
