(* ===== verification/Config_Schema.thy ===== *)
theory Config_Schema
  imports Prelude
begin

text \<open>
  The configuration as \<open>internal/config/schema.go\<close> declares it, one record per Go struct
  and one field per Go field, with the package's default values. A pointer field is an
  \<open>option\<close>. The scopes of \<open>internal/authorization/const.go\<close> are here too, since the
  default authorization table is made of them. A Go \<open>map[string][]string\<close> is an association
  list: the source looks keys up and, in the validation, iterates.
\<close>

section \<open>Scopes (authorization/const.go)\<close>

type_synonym scope = string

definition ScopeMTLSRequestCert :: scope where "ScopeMTLSRequestCert = ''mtls:request''"
definition ScopeMTLSReadCert :: scope where "ScopeMTLSReadCert = ''mtls:read''"
definition ScopeMTLSApproveCert :: scope where "ScopeMTLSApproveCert = ''mtls:approve''"
definition ScopeMTLSRenewCert :: scope where "ScopeMTLSRenewCert = ''mtls:renew''"
definition ScopeMTLSRevokeCert :: scope where "ScopeMTLSRevokeCert = ''mtls:revoke''"
definition ScopeMTLSDownloadCert :: scope where "ScopeMTLSDownloadCert = ''mtls:download''"
definition ScopeMTLSDownloadAllCerts :: scope where
  "ScopeMTLSDownloadAllCerts = ''mtls:download_all''"
definition ScopeMTLSReadAllCerts :: scope where "ScopeMTLSReadAllCerts = ''mtls:read_all''"
definition ScopeMTLSAutoApproveCert :: scope where
  "ScopeMTLSAutoApproveCert = ''mtls:auto_approve''"
definition ScopeMTLSSelfApproveCerts :: scope where
  "ScopeMTLSSelfApproveCerts = ''mtls:self_approve_certs''"
definition ScopeFirewallReadOwn :: scope where "ScopeFirewallReadOwn = ''firewall:read:own''"
definition ScopeFirewallRequestOwn :: scope where
  "ScopeFirewallRequestOwn = ''firewall:request:own''"
definition ScopeFirewallRevokeOwn :: scope where
  "ScopeFirewallRevokeOwn = ''firewall:revoke:own''"
definition ScopeFirewallReadAll :: scope where "ScopeFirewallReadAll = ''firewall:read:all''"
definition ScopeFirewallRevokeAll :: scope where
  "ScopeFirewallRevokeAll = ''firewall:revoke:all''"
definition ScopeFirewallBlacklist :: scope where
  "ScopeFirewallBlacklist = ''firewall:blacklist''"

lemmas scope_defs =
  ScopeMTLSRequestCert_def ScopeMTLSReadCert_def ScopeMTLSApproveCert_def
  ScopeMTLSRenewCert_def ScopeMTLSRevokeCert_def ScopeMTLSDownloadCert_def
  ScopeMTLSDownloadAllCerts_def ScopeMTLSReadAllCerts_def ScopeMTLSAutoApproveCert_def
  ScopeMTLSSelfApproveCerts_def ScopeFirewallReadOwn_def ScopeFirewallRequestOwn_def
  ScopeFirewallRevokeOwn_def ScopeFirewallReadAll_def ScopeFirewallRevokeAll_def
  ScopeFirewallBlacklist_def

definition GetAllValidScopes :: "scope list" where
  "GetAllValidScopes =
    [ScopeMTLSRequestCert, ScopeMTLSReadCert, ScopeMTLSApproveCert, ScopeMTLSRenewCert,
     ScopeMTLSRevokeCert, ScopeMTLSDownloadCert, ScopeMTLSDownloadAllCerts,
     ScopeMTLSReadAllCerts, ScopeMTLSAutoApproveCert, ScopeMTLSSelfApproveCerts,
     ScopeFirewallReadOwn, ScopeFirewallRequestOwn, ScopeFirewallRevokeOwn,
     ScopeFirewallReadAll, ScopeFirewallRevokeAll, ScopeFirewallBlacklist]"

section \<open>Configuration records (config/schema.go)\<close>

record server_debug_config =
  dbg_enabled :: bool
  dbg_host :: string
  dbg_port :: int

definition DefaultDebugConfig :: server_debug_config where
  "DefaultDebugConfig = \<lparr>dbg_enabled = False, dbg_host = ''localhost'', dbg_port = 5123\<rparr>"

record server_config =
  srv_port :: int
  srv_external_url :: string
  srv_debug :: "server_debug_config option"

definition DefaultServerConfig :: server_config where
  "DefaultServerConfig =
     \<lparr>srv_port = 8080, srv_external_url = ''localhost:8080'', srv_debug = None\<rparr>"

record oidc_config =
  oidc_client_id :: string
  oidc_client_secret :: string
  oidc_issuer_url :: string
  oidc_redirect_uri :: string
  oidc_scopes :: "string list"

definition DefaultOIDCScopes :: "string list" where
  "DefaultOIDCScopes = [''openid'', ''profile'', ''email'', ''groups'']"

record log_config =
  log_level :: string
  log_format :: string

definition DefaultLogConfig :: log_config where
  "DefaultLogConfig = \<lparr>log_level = ''info'', log_format = ''text''\<rparr>"

record cors_config =
  cors_origins :: "string list"
  cors_methods :: "string list"
  cors_headers :: "string list"
  cors_exposed :: "string list"
  cors_credentials :: bool
  cors_max_age :: int

definition DefaultCORSConfig :: cors_config where
  "DefaultCORSConfig =
     \<lparr>cors_origins = [''http://localhost:5173''],
      cors_methods = [''GET'', ''POST'', ''PUT'', ''DELETE'', ''OPTIONS''],
      cors_headers = [''*''], cors_exposed = [], cors_credentials = False, cors_max_age = 300\<rparr>"

record session_config =
  ses_store :: string
  ses_duration_source :: string
  ses_fixed_timeout :: duration
  ses_name :: string
  ses_secure :: bool

definition DefaultSessionConfig :: session_config where
  "DefaultSessionConfig =
     \<lparr>ses_store = ''memory'', ses_duration_source = ''fixed'', ses_fixed_timeout = 24 * hour,
      ses_name = ''session_id'', ses_secure = True\<rparr>"

record basic_auth =
  ba_username :: string
  ba_password :: string

record prometheus_query =
  pq_name :: string
  pq_disabled :: bool
  pq_query :: string
  pq_type :: string
  pq_ttl :: duration
  pq_range :: string
  pq_step :: string
  pq_require_auth :: bool
  pq_required_group :: string

record data_config =
  data_prometheus_url :: string
  data_basic_auth :: "basic_auth option"
  data_queries :: "prometheus_query list"
  data_fallback_interval :: duration

definition DefaultFallbackFetchInterval :: duration where
  "DefaultFallbackFetchInterval = 10 * minute"

record redis_sentinel_config =
  sen_master_name :: string
  sen_addresses :: "string list"
  sen_password :: string
  sen_username :: string

record redis_config =
  red_address :: string
  red_username :: string
  red_password :: string
  red_sentinel :: "redis_sentinel_config option"
  red_session_index :: int
  red_cache_index :: int
  red_leader_index :: int

record distributed_config =
  dist_enabled :: bool
  dist_ttl :: duration

definition DefaultDistributedTTL :: duration where
  "DefaultDistributedTTL = 30 * second"

record storage_config =
  sto_enabled :: bool
  sto_host :: string
  sto_port :: int
  sto_username :: string
  sto_password :: string
  sto_database :: string
  sto_encryption_key :: string

record certificate_issuer =
  iss_name :: string
  iss_kind :: string

record kubernetes_config =
  k8s_enabled :: bool
  k8s_namespace :: string
  k8s_kubeconfig :: string
  k8s_in_cluster :: bool
  k8s_issuer :: "certificate_issuer option"

definition DefaultMTLSManagementKubernetesConfig :: kubernetes_config where
  "DefaultMTLSManagementKubernetesConfig =
     \<lparr>k8s_enabled = False, k8s_namespace = ''conduit'', k8s_kubeconfig = '''',
      k8s_in_cluster = True, k8s_issuer = None\<rparr>"

record database_config =
  dbc_enabled :: bool
  dbc_key_algorithm :: string

definition DefaultMTLSManagementDatabaseConfig :: database_config where
  "DefaultMTLSManagementDatabaseConfig = \<lparr>dbc_enabled = False, dbc_key_algorithm = ''ECDSA-P256''\<rparr>"

record certificate_subject =
  sub_organization :: string
  sub_country :: string
  sub_locality :: string
  sub_province :: string

definition DefaultCertificateSubject :: certificate_subject where
  "DefaultCertificateSubject =
     \<lparr>sub_organization = ''Homelab Conduit'', sub_country = '''', sub_locality = '''',
      sub_province = ''''\<rparr>"

record mtls_background_job_config =
  mbj_approved_interval :: duration
  mbj_issued_interval :: duration

definition DefaultMTLSBackgroundJobConfig :: mtls_background_job_config where
  "DefaultMTLSBackgroundJobConfig =
     \<lparr>mbj_approved_interval = 30 * second, mbj_issued_interval = 30 * second\<rparr>"

record mtls_management =
  mtls_enabled :: bool
  mtls_hmac_key :: string
  mtls_auto_approve_admin :: bool
  mtls_admins_approve_own :: bool
  mtls_min_days :: int
  mtls_max_days :: int
  mtls_subject :: "certificate_subject option"
  mtls_jobs :: "mtls_background_job_config option"
  mtls_kubernetes :: "kubernetes_config option"
  mtls_database :: "database_config option"

definition DefaultMTLSIssuerConfig :: mtls_management where
  "DefaultMTLSIssuerConfig =
     \<lparr>mtls_enabled = False, mtls_hmac_key = '''', mtls_auto_approve_admin = False,
      mtls_admins_approve_own = True, mtls_min_days = 30, mtls_max_days = 365,
      mtls_subject = Some DefaultCertificateSubject,
      mtls_jobs = Some DefaultMTLSBackgroundJobConfig,
      mtls_kubernetes = Some DefaultMTLSManagementKubernetesConfig, mtls_database = None\<rparr>"

record firewall_alias_config =
  al_name :: string
  al_uuid :: string
  al_description :: string
  al_max_per_user :: int
  al_max_total :: int
  al_default_ttl :: "duration option"
  al_auth_group :: string

record firewall_background_job_config =
  fbj_sync_interval :: duration
  fbj_expiration_interval :: duration

definition DefaultFirewallBackgroundJobConfig :: firewall_background_job_config where
  "DefaultFirewallBackgroundJobConfig =
     \<lparr>fbj_sync_interval = 5 * minute, fbj_expiration_interval = 1 * hour\<rparr>"

record firewall_management =
  fw_enabled :: bool
  fw_router_endpoint :: string
  fw_router_api_key :: string
  fw_router_api_secret :: string
  fw_aliases :: "firewall_alias_config list"
  fw_jobs :: "firewall_background_job_config option"

record features_config =
  feat_mtls :: mtls_management
  feat_firewall :: firewall_management

text \<open>\<open>DefaultFeaturesConfig\<close> leaves \<open>FirewallManagement\<close> at Go's zero value.\<close>

definition DefaultFeaturesConfig :: features_config where
  "DefaultFeaturesConfig =
     \<lparr>feat_mtls = DefaultMTLSIssuerConfig,
      feat_firewall = \<lparr>fw_enabled = False, fw_router_endpoint = '''', fw_router_api_key = '''',
        fw_router_api_secret = '''', fw_aliases = [], fw_jobs = None\<rparr>\<rparr>"

type_synonym group_scopes = "(string \<times> scope list) list"

definition DefaultAuthorizationConfig :: group_scopes where
  "DefaultAuthorizationConfig =
    [(''conduit:mtls:admin'',
        [ScopeMTLSRequestCert, ScopeMTLSReadAllCerts, ScopeMTLSReadCert, ScopeMTLSApproveCert,
         ScopeMTLSRenewCert, ScopeMTLSRevokeCert, ScopeMTLSDownloadAllCerts,
         ScopeMTLSDownloadCert, ScopeMTLSAutoApproveCert]),
     (''conduit:mtls:user'',
        [ScopeMTLSRequestCert, ScopeMTLSReadCert, ScopeMTLSRenewCert, ScopeMTLSDownloadCert]),
     (''conduit:firewall:admin'',
        [ScopeFirewallReadOwn, ScopeFirewallRequestOwn, ScopeFirewallRevokeOwn,
         ScopeFirewallReadAll, ScopeFirewallRevokeAll, ScopeFirewallBlacklist])]"

record config =
  cfg_server :: server_config
  cfg_oidc :: oidc_config
  cfg_log :: log_config
  cfg_cors :: cors_config
  cfg_sessions :: session_config
  cfg_data :: data_config
  cfg_cache_type :: string
  cfg_group_scopes :: group_scopes
  cfg_redis :: "redis_config option"
  cfg_distributed :: "distributed_config option"
  cfg_storage :: "storage_config option"
  cfg_features :: "features_config option"

lemma valid_scopes_distinct: "distinct GetAllValidScopes"
  by (simp add: GetAllValidScopes_def scope_defs)

lemma default_authorization_valid:
  "list_all (\<lambda>(g, ss). ss \<noteq> [] \<and> set ss \<subseteq> set GetAllValidScopes) DefaultAuthorizationConfig"
  by (simp add: DefaultAuthorizationConfig_def GetAllValidScopes_def)

end
