(* ===== verification/Principals.thy ===== *)
theory Principals
  imports Config_Schema
begin

text \<open>
  Who makes a request: \<open>internal/models/user.go\<close>, \<open>internal/models/service_account.go\<close>
  and the \<open>Principal\<close> interface of \<open>internal/middlewares/principal.go\<close> as the sum of its
  two implementations; the scope computations (\<open>GetScopes\<close>, \<open>HasScope\<close>, \<open>dedupe\<close>,
  \<open>HasAllScopes\<close>) and \<open>deriveCommonName\<close>.
\<close>

section \<open>Data\<close>

record user =
  usr_sub :: string
  usr_iss :: string
  usr_username :: string
  usr_display_name :: string
  usr_email :: string
  usr_groups :: "string list"
  usr_is_system :: bool
  usr_last_logged_in :: time
  usr_created_at :: time

record service_account =
  sa_sub :: string
  sa_iss :: string
  sa_name :: string
  sa_lookup_id :: string
  sa_secret_hash :: string
  sa_token_expires_at :: time
  sa_scopes :: "scope list"
  sa_is_disabled :: bool
  sa_deleted_at :: "time option"
  sa_created_by_sub :: string
  sa_created_by_iss :: string
  sa_created_at :: time

datatype principal = PUser user | PServiceAccount service_account

section \<open>Scopes of a principal\<close>

text \<open>
  \<open>dedupe\<close> keeps the first occurrence of every entry; \<open>keys\<close> is the Go map of the
  entries seen, \<open>list\<close> the slice built so far.
\<close>

fun dedupe_loop :: "string list \<Rightarrow> string list \<Rightarrow> string list \<Rightarrow> string list" where
  "dedupe_loop keys list [] = list"
| "dedupe_loop keys list (entry # slice) =
     (if entry \<in> set keys then dedupe_loop keys list slice
      else dedupe_loop (entry # keys) (list @ [entry]) slice)"

definition dedupe :: "string list \<Rightarrow> string list" where
  "dedupe slice = dedupe_loop [] [] slice"

definition mapGroupToScopes :: "config \<Rightarrow> string \<Rightarrow> scope list" where
  "mapGroupToScopes cfg grp =
     (case map_of (cfg_group_scopes cfg) grp of None \<Rightarrow> [] | Some scopes \<Rightarrow> scopes)"

definition user_GetScopes :: "config \<Rightarrow> user \<Rightarrow> scope list" where
  "user_GetScopes cfg u = dedupe (concat (map (mapGroupToScopes cfg) (usr_groups u)))"

definition user_HasScope :: "config \<Rightarrow> user \<Rightarrow> scope \<Rightarrow> bool" where
  "user_HasScope cfg u s = (s \<in> set (user_GetScopes cfg u))"

definition user_MatchesOwner :: "user \<Rightarrow> string \<Rightarrow> string \<Rightarrow> bool" where
  "user_MatchesOwner u iss sub \<longleftrightarrow> usr_iss u = iss \<and> usr_sub u = sub"

definition sa_GetScopes :: "config \<Rightarrow> service_account \<Rightarrow> scope list" where
  "sa_GetScopes cfg s = sa_scopes s"

definition sa_HasScope :: "config \<Rightarrow> service_account \<Rightarrow> scope \<Rightarrow> bool" where
  "sa_HasScope cfg sa s = (s \<in> set (sa_GetScopes cfg sa))"

definition sa_MatchesOwner :: "service_account \<Rightarrow> string \<Rightarrow> string \<Rightarrow> bool" where
  "sa_MatchesOwner s iss sub \<longleftrightarrow> sa_iss s = iss \<and> sa_sub s = sub"

section \<open>The Principal interface\<close>

primrec GetIss :: "principal \<Rightarrow> string" where
  "GetIss (PUser u) = usr_iss u"
| "GetIss (PServiceAccount s) = sa_iss s"

primrec GetSub :: "principal \<Rightarrow> string" where
  "GetSub (PUser u) = usr_sub u"
| "GetSub (PServiceAccount s) = sa_sub s"

primrec GetUsername :: "principal \<Rightarrow> string" where
  "GetUsername (PUser u) = usr_username u"
| "GetUsername (PServiceAccount s) = sa_name s"

primrec GetDisplayName :: "principal \<Rightarrow> string" where
  "GetDisplayName (PUser u) = usr_display_name u"
| "GetDisplayName (PServiceAccount s) = sa_name s"

primrec GetEmail :: "principal \<Rightarrow> string" where
  "GetEmail (PUser u) = usr_email u"
| "GetEmail (PServiceAccount s) = ''''"

primrec GetGroups :: "principal \<Rightarrow> string list" where
  "GetGroups (PUser u) = usr_groups u"
| "GetGroups (PServiceAccount s) = []"

primrec GetScopes :: "config \<Rightarrow> principal \<Rightarrow> scope list" where
  "GetScopes cfg (PUser u) = user_GetScopes cfg u"
| "GetScopes cfg (PServiceAccount s) = sa_GetScopes cfg s"

primrec HasScope :: "config \<Rightarrow> principal \<Rightarrow> scope \<Rightarrow> bool" where
  "HasScope cfg (PUser u) s = user_HasScope cfg u s"
| "HasScope cfg (PServiceAccount a) s = sa_HasScope cfg a s"

primrec MatchesOwner :: "principal \<Rightarrow> string \<Rightarrow> string \<Rightarrow> bool" where
  "MatchesOwner (PUser u) iss sub = user_MatchesOwner u iss sub"
| "MatchesOwner (PServiceAccount s) iss sub = sa_MatchesOwner s iss sub"

text \<open>\<open>HasAllScopes\<close> of the service-account handler and \<open>deriveCommonName\<close> of utils.go.\<close>

definition HasAllScopes :: "scope list \<Rightarrow> scope list \<Rightarrow> bool" where
  "HasAllScopes userScopes requestedScopes = list_all (\<lambda>s. s \<in> set userScopes) requestedScopes"

definition deriveCommonName :: "principal \<Rightarrow> string" where
  "deriveCommonName p =
     (if GetDisplayName p \<noteq> '''' then GetDisplayName p
      else if GetUsername p \<noteq> '''' then GetUsername p
      else if GetEmail p \<noteq> '''' then GetEmail p
      else (let issuerDomain = strings_TrimPrefix (GetIss p) ''https://'';
                issuerDomain = strings_TrimPrefix issuerDomain ''http://''
            in GetSub p @ ''@'' @ issuerDomain))"

section \<open>Facts about dedupe\<close>

lemma set_dedupe_loop: "set keys \<subseteq> set list \<Longrightarrow> set (dedupe_loop keys list xs) = set list \<union> set xs"
  by (induction keys list xs rule: dedupe_loop.induct) auto

lemma distinct_dedupe_loop:
  "set keys = set list \<Longrightarrow> distinct list \<Longrightarrow> distinct (dedupe_loop keys list xs)"
  by (induction keys list xs rule: dedupe_loop.induct) auto

lemma dedupe_loop_distinct:
  "set keys = set list \<Longrightarrow> distinct (list @ xs) \<Longrightarrow> dedupe_loop keys list xs = list @ xs"
  by (induction keys list xs rule: dedupe_loop.induct) auto

lemma set_dedupe [simp]: "set (dedupe xs) = set xs"
  by (simp add: dedupe_def set_dedupe_loop)

lemma distinct_dedupe [simp]: "distinct (dedupe xs)"
  by (simp add: dedupe_def distinct_dedupe_loop)

lemma dedupe_idem [simp]: "distinct xs \<Longrightarrow> dedupe xs = xs"
  by (simp add: dedupe_def dedupe_loop_distinct)

section \<open>The contract of a principal\<close>

text \<open>
  What the handlers rely on: \<open>HasScope\<close> is membership in \<open>GetScopes\<close>, and ownership is
  equality of issuer and subject, so two principals that own the same object agree on both.
\<close>

locale principal_contract =
  fixes scopes_of :: "config \<Rightarrow> 'p \<Rightarrow> scope list"
    and has_scope :: "config \<Rightarrow> 'p \<Rightarrow> scope \<Rightarrow> bool"
    and iss_of :: "'p \<Rightarrow> string"
    and sub_of :: "'p \<Rightarrow> string"
    and owns :: "'p \<Rightarrow> string \<Rightarrow> string \<Rightarrow> bool"
  assumes has_scope_iff: "has_scope cfg p s \<longleftrightarrow> s \<in> set (scopes_of cfg p)"
    and owns_iff: "owns p iss sub \<longleftrightarrow> iss_of p = iss \<and> sub_of p = sub"
begin

lemma owner_unique: "owns p iss sub \<Longrightarrow> owns p iss' sub' \<Longrightarrow> iss' = iss \<and> sub' = sub"
  by (simp add: owns_iff)

lemma owns_self: "owns p (iss_of p) (sub_of p)"
  by (simp add: owns_iff)

lemma all_scopes_iff:
  "HasAllScopes (scopes_of cfg p) req \<longleftrightarrow> (\<forall>s \<in> set req. has_scope cfg p s)"
  by (simp add: HasAllScopes_def list_all_iff has_scope_iff)

end

interpretation user_principal:
  principal_contract user_GetScopes user_HasScope usr_iss usr_sub user_MatchesOwner
  by unfold_locales (simp_all add: user_HasScope_def user_MatchesOwner_def)

interpretation sa_principal:
  principal_contract sa_GetScopes sa_HasScope sa_iss sa_sub sa_MatchesOwner
  by unfold_locales (simp_all add: sa_HasScope_def sa_MatchesOwner_def)

interpretation any_principal:
  principal_contract GetScopes HasScope GetIss GetSub MatchesOwner
proof unfold_locales
  fix cfg p s
  show "HasScope cfg p s \<longleftrightarrow> s \<in> set (GetScopes cfg p)"
    by (cases p) (simp_all add: user_principal.has_scope_iff sa_principal.has_scope_iff)
next
  fix p iss sub
  show "MatchesOwner p iss sub \<longleftrightarrow> GetIss p = iss \<and> GetSub p = sub"
    by (cases p) (simp_all add: user_principal.owns_iff sa_principal.owns_iff)
qed

lemma mapGroupToScopes_iff:
  "s \<in> set (mapGroupToScopes cfg g) \<longleftrightarrow> (\<exists>ss. map_of (cfg_group_scopes cfg) g = Some ss \<and> s \<in> set ss)"
  by (cases "map_of (cfg_group_scopes cfg) g") (simp_all add: mapGroupToScopes_def)

section \<open>Properties\<close>

text \<open>
  A user holds a scope exactly when one of the user's groups has an entry in the
  configured group table that lists the scope, and the scope list the user is given has no
  duplicates.
\<close>

theorem user_scope_iff_group_grants:
  "(HasScope cfg (PUser u) s \<longleftrightarrow>
      (\<exists>g \<in> set (usr_groups u). \<exists>ss. map_of (cfg_group_scopes cfg) g = Some ss \<and> s \<in> set ss)) \<and>
   distinct (GetScopes cfg (PUser u))"
  by (auto simp: user_HasScope_def user_GetScopes_def mapGroupToScopes_iff)

end
