(* ===== verification/Database.thy ===== *)
theory Database
  imports Principals
begin

text \<open>
  The PostgreSQL database the storage provider talks to, and the way the Go code talks to it.

  The tables are those of \<open>internal/storage/migrations\<close>, one record per row and one list per
  table; a column that may be \<open>NULL\<close> and that the code writes or reads as such is an
  \<open>option\<close>. A \<open>SERIAL\<close> column takes its value from a sequence, which a rollback does not
  reset. The SQL text of the source is translated statement by statement into functions on the
  tables; the \<open>CHECK\<close>, \<open>UNIQUE\<close> and primary-key constraints that can fail for the code's
  statements make the statement an error.

  A call to the driver is one round trip. \<open>faults\<close> is the schedule of driver failures: each
  round trip takes its head, and \<open>Some msg\<close> means that this call fails with that text before
  it has any effect. All theorems hold for every schedule, so they cover every error branch.
  \<open>now\<close> is the clock that \<open>NOW()\<close> and \<open>time.Now()\<close> read.
\<close>

section \<open>Rows\<close>

record user_row =
  ur_iss :: string
  ur_sub :: string
  ur_username :: string
  ur_display_name :: string
  ur_email :: string
  ur_is_system :: bool
  ur_last_logged_in :: "time option"
  ur_created_at :: "time option"

record group_row =
  gr_iss :: string
  gr_sub :: string
  gr_name :: string

datatype cert_status =
    StatusAwaitingReview | StatusApproved | StatusRejected | StatusPending
  | StatusIssued | StatusFailed | StatusCompleted
  | StatusOther string

record cert_row =
  cr_id :: int
  cr_owner_iss :: string
  cr_owner_sub :: string
  cr_message :: string
  cr_common_name :: string
  cr_dns_names :: "string list"
  cr_ous :: "string list"
  cr_validity_days :: int
  cr_status :: cert_status
  cr_requested_at :: time
  cr_identifier :: "string option"
  cr_metadata :: "(string \<times> string) list option"
  cr_issued_at :: "time option"
  cr_expires_at :: "time option"
  cr_serial :: "string option"
  cr_pem :: "string option"

record cert_event_row =
  ce_id :: int
  ce_request_id :: int
  ce_requester_iss :: string
  ce_requester_sub :: string
  ce_reviewer_iss :: string
  ce_reviewer_sub :: string
  ce_new_status :: cert_status
  ce_notes :: string
  ce_created_at :: time

record download_row =
  dl_id :: int
  dl_request_id :: int
  dl_sub :: string
  dl_iss :: string
  dl_ip :: string
  dl_user_agent :: string
  dl_browser_name :: string
  dl_browser_version :: string
  dl_os_name :: string
  dl_os_version :: string
  dl_device_type :: string
  dl_at :: time

record issued_row =
  ic_identifier :: string
  ic_cert_pem :: string
  ic_key_pem :: "string option"
  ic_ca_pem :: string
  ic_common_name :: string
  ic_organization :: string
  ic_country :: string
  ic_locality :: string
  ic_province :: string
  ic_dns_names :: "string list"
  ic_ous :: "string list"
  ic_serial :: string
  ic_key_algorithm :: string
  ic_request_id :: int
  ic_expires_at :: time
  ic_created_at :: time
  ic_deleted_at :: "time option"

record ca_row =
  ca_is_active :: bool
  ca_cert_pem :: string
  ca_key_pem :: string
  ca_ca_pem :: string
  ca_common_name :: string
  ca_organization :: string
  ca_country :: string
  ca_locality :: string
  ca_province :: string
  ca_serial :: string
  ca_key_algorithm :: string
  ca_expires_at :: time
  ca_created_at :: time

record sa_row =
  sr_iss :: string
  sr_sub :: string
  sr_name :: string
  sr_lookup_id :: string
  sr_token_hash :: string
  sr_token_expires_at :: time
  sr_is_disabled :: bool
  sr_deleted_at :: "time option"
  sr_created_by_iss :: string
  sr_created_by_sub :: string
  sr_created_at :: time

record scope_row =
  sc_iss :: string
  sc_sub :: string
  sc_name :: scope

datatype wl_status =
    StatusRequested | StatusAdded | StatusRemoved | StatusRemovedByAdmin | StatusBlacklistedByAdmin

record whitelist_row =
  wr_id :: int
  wr_owner_iss :: string
  wr_owner_sub :: string
  wr_alias_name :: string
  wr_alias_uuid :: string
  wr_ip :: string
  wr_description :: string
  wr_status :: wl_status
  wr_requested_at :: time
  wr_added_at :: "time option"
  wr_removed_at :: "time option"
  wr_expires_at :: "time option"
  wr_removed_by_iss :: "string option"
  wr_removed_by_sub :: "string option"
  wr_removal_reason :: "string option"

record whitelist_event_row =
  we_id :: int
  we_whitelist_id :: int
  we_actor_iss :: string
  we_actor_sub :: string
  we_event_type :: string
  we_notes :: "string option"
  we_client_ip :: "string option"
  we_user_agent :: "string option"
  we_created_at :: time

record sequences =
  sq_cert_requests :: int
  sq_cert_events :: int
  sq_downloads :: int
  sq_whitelist :: int
  sq_whitelist_events :: int

record database =
  t_users :: "user_row list"
  t_groups :: "group_row list"
  t_cert_requests :: "cert_row list"
  t_cert_events :: "cert_event_row list"
  t_downloads :: "download_row list"
  t_issued :: "issued_row list"
  t_ca :: "ca_row list"
  t_encryption :: "string list"
  t_service_accounts :: "sa_row list"
  t_sa_scopes :: "scope_row list"
  t_whitelist :: "whitelist_row list"
  t_whitelist_events :: "whitelist_event_row list"
  seqs :: sequences

record world =
  db :: database
  now :: time
  faults :: "string option list"

type_synonym ('w, 'a) dbop = "'w world_scheme \<Rightarrow> 'a result \<times> 'w world_scheme"

definition empty_database :: database where
  "empty_database =
     \<lparr>t_users = [], t_groups = [], t_cert_requests = [], t_cert_events = [], t_downloads = [],
      t_issued = [], t_ca = [], t_encryption = [], t_service_accounts = [], t_sa_scopes = [],
      t_whitelist = [], t_whitelist_events = [],
      seqs = \<lparr>sq_cert_requests = 1, sq_cert_events = 1, sq_downloads = 1, sq_whitelist = 1,
              sq_whitelist_events = 1\<rparr>\<rparr>"

section \<open>Round trips\<close>

definition next_fault :: "'w world_scheme \<Rightarrow> string option" where
  "next_fault w = (case faults w of [] \<Rightarrow> None | f # _ \<Rightarrow> f)"

definition pop_fault :: "'w world_scheme \<Rightarrow> 'w world_scheme" where
  "pop_fault w = w\<lparr>faults := tl (faults w)\<rparr>"

definition roundtrip :: "(time \<Rightarrow> database \<Rightarrow> 'a result \<times> database) \<Rightarrow> ('w, 'a) dbop" where
  "roundtrip stmt w =
     (case next_fault w of
        Some msg \<Rightarrow> (Inl (Errorf msg), pop_fault w)
      | None \<Rightarrow> (let (r, d) = stmt (now w) (db w) in (r, (pop_fault w)\<lparr>db := d\<rparr>)))"

text \<open>\<open>Query\<close>: any number of rows. \<open>QueryRow().Scan\<close>: \<open>ErrNoRows\<close> when there is none.\<close>

definition db_query :: "(database \<Rightarrow> 'a) \<Rightarrow> ('w, 'a) dbop" where
  "db_query q = roundtrip (\<lambda>t d. (Inr (q d), d))"

definition db_query_row :: "(database \<Rightarrow> 'a option) \<Rightarrow> ('w, 'a) dbop" where
  "db_query_row q =
     roundtrip (\<lambda>t d. (case q d of None \<Rightarrow> Inl (Sentinel ErrNoRows) | Some x \<Rightarrow> Inr x, d))"

text \<open>Go's \<open>x, err := m; if err != nil { return nil, h(err) }; k(x)\<close>.\<close>

definition try_db :: "('w, 'a) dbop \<Rightarrow> (goerror \<Rightarrow> goerror) \<Rightarrow> ('a \<Rightarrow> ('w, 'b) dbop) \<Rightarrow> ('w, 'b) dbop" where
  "try_db m h k w =
     (case m w of (Inl e, w') \<Rightarrow> (Inl (h e), w') | (Inr x, w') \<Rightarrow> k x w')"

definition ok :: "'a \<Rightarrow> ('w, 'a) dbop" where
  "ok x w = (Inr x, w)"

definition fail :: "goerror \<Rightarrow> ('w, 'a) dbop" where
  "fail e w = (Inl e, w)"

definition lift_result :: "'a result \<Rightarrow> ('w, 'a) dbop" where
  "lift_result r w = (r, w)"

text \<open>
  \<open>tx := pool.Begin(); defer tx.Rollback(); body; tx.Commit()\<close>: an error of the body or of the
  commit puts the tables back, but not the sequences.
\<close>

definition rollback :: "database \<Rightarrow> database \<Rightarrow> database" where
  "rollback old d = old\<lparr>seqs := seqs d\<rparr>"

definition with_tx :: "(goerror \<Rightarrow> goerror) \<Rightarrow> ('w, 'a) dbop \<Rightarrow> (goerror \<Rightarrow> goerror) \<Rightarrow> ('w, 'a) dbop" where
  "with_tx hbegin body hcommit w =
     (case db_query (\<lambda>_. ()) w of
        (Inl e, w1) \<Rightarrow> (Inl (hbegin e), w1)
      | (Inr _, w1) \<Rightarrow>
          (case body w1 of
             (Inl e, w2) \<Rightarrow> (Inl e, w2\<lparr>db := rollback (db w1) (db w2)\<rparr>)
           | (Inr x, w2) \<Rightarrow>
               (case db_query (\<lambda>_. ()) w2 of
                  (Inl e, w3) \<Rightarrow> (Inl (hcommit e), w3\<lparr>db := rollback (db w1) (db w3)\<rparr>)
                | (Inr _, w3) \<Rightarrow> (Inr x, w3))))"

text \<open>A loop over a list that stops at the first error.\<close>

fun for_each :: "'a list \<Rightarrow> ('a \<Rightarrow> ('w, unit) dbop) \<Rightarrow> ('w, unit) dbop" where
  "for_each [] f = ok ()"
| "for_each (x # xs) f = try_db (f x) id (\<lambda>_. for_each xs f)"

text \<open>
  \<open>UPDATE .. SET .. WHERE\<close> on one table: the new rows and the number of rows it touched.
  \<open>sql_error\<close> is a constraint violation, with the text the server reports.
\<close>

definition upd_where :: "('r \<Rightarrow> bool) \<Rightarrow> ('r \<Rightarrow> 'r) \<Rightarrow> 'r list \<Rightarrow> 'r list" where
  "upd_where p f rows = map (\<lambda>r. if p r then f r else r) rows"

definition count_where :: "('r \<Rightarrow> bool) \<Rightarrow> 'r list \<Rightarrow> nat" where
  "count_where p rows = length (filter p rows)"

definition duplicate_key :: "string \<Rightarrow> goerror" where
  "duplicate_key name =
     Errorf (''ERROR: duplicate key value violates unique constraint '' @ name @ '' (SQLSTATE 23505)'')"

definition check_violation :: "string \<Rightarrow> goerror" where
  "check_violation name =
     Errorf (''ERROR: new row violates check constraint '' @ name @ '' (SQLSTATE 23514)'')"

definition fk_violation :: "string \<Rightarrow> goerror" where
  "fk_violation name =
     Errorf (''ERROR: insert or update violates foreign key constraint '' @ name @ '' (SQLSTATE 23503)'')"

text \<open>What pgx reports when a \<open>NULL\<close> is scanned into a Go value that is not a pointer.\<close>

definition scan_null :: goerror where
  "scan_null = Errorf ''can't scan into dest: cannot scan NULL''"

section \<open>Unfolding and frame lemmas\<close>

lemma upd_where_Nil [simp]: "upd_where p f [] = []"
  by (simp add: upd_where_def)

lemma upd_where_Cons [simp]:
  "upd_where p f (r # rs) = (if p r then f r else r) # upd_where p f rs"
  by (simp add: upd_where_def)

lemma length_upd_where [simp]: "length (upd_where p f rs) = length rs"
  by (simp add: upd_where_def)

lemma set_upd_where: "set (upd_where p f rs) = (\<lambda>r. if p r then f r else r) ` set rs"
  by (simp add: upd_where_def)

lemma upd_where_none: "(\<And>r. r \<in> set rs \<Longrightarrow> \<not> p r) \<Longrightarrow> upd_where p f rs = rs"
  by (induction rs) auto

lemma map_upd_where: "(\<And>r. g (f r) = g r) \<Longrightarrow> map g (upd_where p f rs) = map g rs"
  by (induction rs) auto

lemma image_upd_where: "(\<And>r. g (f r) = g r) \<Longrightarrow> g ` set (upd_where p f rs) = g ` set rs"
  by (metis list.set_map map_upd_where)

lemma ball_upd_where:
  "(\<forall>r \<in> set (upd_where p f rs). Q r) \<longleftrightarrow> (\<forall>r \<in> set rs. Q (if p r then f r else r))"
  by (induction rs) simp_all

lemma filter_upd_where:
  "(\<And>r. q (f r) = q r) \<Longrightarrow> filter q (upd_where p f rs) = upd_where p f (filter q rs)"
  by (induction rs) auto

lemma find_upd_where:
  "(\<And>r. q (f r) = q r) \<Longrightarrow>
   find q (upd_where p f rs) = map_option (\<lambda>r. if p r then f r else r) (find q rs)"
  by (induction rs) auto

lemma count_where_append [simp]: "count_where p (xs @ ys) = count_where p xs + count_where p ys"
  by (simp add: count_where_def)

lemma count_where_0: "count_where p rs = 0 \<longleftrightarrow> (\<forall>r \<in> set rs. \<not> p r)"
  by (auto simp: count_where_def filter_empty_conv)

lemma find_append: "find p (xs @ ys) = (case find p xs of None \<Rightarrow> find p ys | Some x \<Rightarrow> Some x)"
  by (induction xs) auto

lemma find_NoneD: "find p xs = None \<Longrightarrow> x \<in> set xs \<Longrightarrow> \<not> p x"
  by (simp add: find_None_iff)

lemma find_SomeD: "find p xs = Some x \<Longrightarrow> p x \<and> x \<in> set xs"
  by (auto simp: find_Some_iff)

lemma pop_fault_sel [simp]:
  "db (pop_fault w) = db w" "now (pop_fault w) = now w" "faults (pop_fault w) = tl (faults w)"
  by (simp_all add: pop_fault_def)

lemma next_fault_db [simp]:
  "next_fault (w\<lparr>db := d\<rparr>) = next_fault w" "pop_fault (w\<lparr>db := d\<rparr>) = (pop_fault w)\<lparr>db := d\<rparr>"
  by (simp_all add: next_fault_def pop_fault_def)

lemma no_faults [simp]: "faults w = [] \<Longrightarrow> next_fault w = None"
  by (simp add: next_fault_def)

lemma no_faults_pop [simp]: "faults w = [] \<Longrightarrow> pop_fault w = w"
  by (simp add: pop_fault_def)

lemmas [step_simps] = roundtrip_def db_query_def db_query_row_def try_db_def ok_def fail_def

lemma db_query_eq:
  "db_query q w = (case next_fault w of
     Some msg \<Rightarrow> (Inl (Errorf msg), pop_fault w) | None \<Rightarrow> (Inr (q (db w)), pop_fault w))"
  by (simp add: db_query_def roundtrip_def pop_fault_def split: option.splits)

lemma db_query_row_eq:
  "db_query_row q w = (case next_fault w of
     Some msg \<Rightarrow> (Inl (Errorf msg), pop_fault w)
   | None \<Rightarrow> (case q (db w) of None \<Rightarrow> Inl (Sentinel ErrNoRows) | Some x \<Rightarrow> Inr x, pop_fault w))"
  by (simp add: db_query_row_def roundtrip_def pop_fault_def split: option.splits)

lemma db_query_frame [frame_simps]: "db (snd (db_query q w)) = db w"
  by (simp add: db_query_eq split: option.splits)

lemma db_query_row_frame [frame_simps]: "db (snd (db_query_row q w)) = db w"
  by (simp add: db_query_row_eq split: option.splits)

lemma db_query_now [frame_simps]: "now (snd (db_query q w)) = now w"
  by (simp add: db_query_eq split: option.splits)

lemma db_query_row_now [frame_simps]: "now (snd (db_query_row q w)) = now w"
  by (simp add: db_query_row_eq split: option.splits)

text \<open>
  Inversion of a successful operation, combinator by combinator. The world after a round trip is
  given as a term of the world before it, so that these rules, used as \<open>elim!\<close>, turn a
  successful run into the sequence of its statements.
\<close>

lemma try_db_InrE:
  assumes "try_db m h k w = (Inr y, w')"
  obtains x w1 where "m w = (Inr x, w1)" and "k x w1 = (Inr y, w')"
  using assms by (auto simp: try_db_def split: sum.splits prod.splits)

lemma roundtrip_InrE:
  assumes "roundtrip stmt w = (Inr x, w')"
  obtains d where "stmt (now w) (db w) = (Inr x, d)" and "w' = (pop_fault w)\<lparr>db := d\<rparr>"
  using assms by (auto simp: roundtrip_def split: option.splits prod.splits)

lemma db_query_InrE:
  assumes "db_query q w = (Inr x, w')"
  obtains "x = q (db w)" and "w' = pop_fault w"
  using assms by (auto simp: db_query_eq split: option.splits)

lemma db_query_row_InrE:
  assumes "db_query_row q w = (Inr x, w')"
  obtains "q (db w) = Some x" and "w' = pop_fault w"
  using assms by (auto simp: db_query_row_eq split: option.splits)

lemma ok_InrE:
  assumes "ok x w = (Inr y, w')"
  obtains "y = x" and "w' = w"
  using assms by (simp add: ok_def)

lemma lift_result_InrE:
  assumes "lift_result r w = (Inr y, w')"
  obtains "r = Inr y" and "w' = w"
  using assms by (simp add: lift_result_def)

lemma fail_InrE: "fail e w = (Inr y, w') \<Longrightarrow> P"
  by (simp add: fail_def)

lemma rollback_sel [simp]:
  "seqs (rollback old d) = seqs d"
  "t_users (rollback old d) = t_users old" "t_groups (rollback old d) = t_groups old"
  "t_cert_requests (rollback old d) = t_cert_requests old"
  "t_cert_events (rollback old d) = t_cert_events old"
  "t_downloads (rollback old d) = t_downloads old" "t_issued (rollback old d) = t_issued old"
  "t_ca (rollback old d) = t_ca old" "t_encryption (rollback old d) = t_encryption old"
  "t_service_accounts (rollback old d) = t_service_accounts old"
  "t_sa_scopes (rollback old d) = t_sa_scopes old"
  "t_whitelist (rollback old d) = t_whitelist old"
  "t_whitelist_events (rollback old d) = t_whitelist_events old"
  by (simp_all add: rollback_def)

section \<open>Operations that keep an invariant\<close>

text \<open>
  \<open>keeps I m\<close>: the operation \<open>m\<close> takes a world that satisfies \<open>I\<close> to one that does,
  whatever the fault schedule. The rules below follow the combinators, so an operation's lemma
  only has to look at its statements. For a property of the tables that ignores the sequences a
  transaction needs no more than its body does.
\<close>

definition keeps :: "(database \<Rightarrow> bool) \<Rightarrow> ('w, 'a) dbop \<Rightarrow> bool" where
  "keeps I m \<longleftrightarrow> (\<forall>w. I (db w) \<longrightarrow> I (db (snd (m w))))"

lemma keepsD: "keeps I m \<Longrightarrow> I (db w) \<Longrightarrow> m w = (r, w') \<Longrightarrow> I (db w')"
  unfolding keeps_def by (metis snd_conv)

lemma keeps_snd: "keeps I m \<Longrightarrow> I (db w) \<Longrightarrow> I (db (snd (m w)))"
  by (simp add: keeps_def)

lemma keeps_query [intro]: "keeps I (db_query q)"
  by (simp add: keeps_def frame_simps)

lemma keeps_query_row [intro]: "keeps I (db_query_row q)"
  by (simp add: keeps_def frame_simps)

lemma keeps_ok [intro]: "keeps I (ok x)"
  by (simp add: keeps_def ok_def)

lemma keeps_lift [intro]: "keeps I (lift_result r)"
  by (simp add: keeps_def lift_result_def)

lemma keeps_fail [intro]: "keeps I (fail e)"
  by (simp add: keeps_def fail_def)

lemma keeps_roundtrip:
  fixes stmt :: "time \<Rightarrow> database \<Rightarrow> 'a result \<times> database"
  assumes "\<And>t d r d'. I d \<Longrightarrow> stmt t d = (r, d') \<Longrightarrow> I d'"
  shows "keeps I (roundtrip stmt :: ('w, 'a) dbop)"
  unfolding keeps_def
proof (intro allI impI)
  fix w :: "'w world_scheme" assume "I (db w)"
  then show "I (db (snd (roundtrip stmt w)))"
    by (cases "stmt (now w) (db w)")
       (auto simp: roundtrip_def split: option.splits intro: assms)
qed

lemma keeps_try:
  fixes m :: "('w, 'a) dbop" and k :: "'a \<Rightarrow> ('w, 'b) dbop"
  assumes "keeps I m" and "\<And>x. keeps I (k x)"
  shows "keeps I (try_db m h k)"
  unfolding keeps_def
proof (intro allI impI)
  fix w :: "'w world_scheme" assume I: "I (db w)"
  obtain r w' where m: "m w = (r, w')" by (cases "m w")
  with assms(1) I have "I (db w')" by (rule keepsD)
  with assms(2) m show "I (db (snd (try_db m h k w)))"
    by (cases r) (simp_all add: try_db_def keeps_def)
qed

lemma keeps_if: "keeps I a \<Longrightarrow> keeps I b \<Longrightarrow> keeps I (if c then a else b)"
  by simp

lemma keeps_for_each: "(\<And>x. x \<in> set xs \<Longrightarrow> keeps I (f x)) \<Longrightarrow> keeps I (for_each xs f)"
  by (induction xs) (auto intro: keeps_try)

lemma keeps_tx:
  fixes body :: "('w, 'a) dbop"
  assumes body: "keeps I body" and roll: "\<And>d d'. I d \<Longrightarrow> I (rollback d d')"
  shows "keeps I (with_tx hb body hc)"
  unfolding keeps_def
proof (intro allI impI)
  fix w :: "'w world_scheme" assume "I (db w)"
  moreover obtain r w2 where "body (pop_fault w) = (r, w2)" by (cases "body (pop_fault w)")
  ultimately show "I (db (snd (with_tx hb body hc w)))"
    using keepsD [OF body, of "pop_fault w" r w2] roll
    by (auto simp: with_tx_def db_query_eq split: option.splits sum.splits)
qed

text \<open>A transaction is all or nothing: on any error the tables are those it started from.\<close>

lemma with_tx_error:
  assumes "with_tx hb body hc w = (Inl e, w')"
  shows "db w' = rollback (db w) (db w')"
  using assms
  by (auto simp: with_tx_def db_query_eq rollback_def split: option.splits sum.splits prod.splits)

lemma with_tx_InrE:
  assumes "with_tx hb body hc w = (Inr x, w')"
  obtains w2 where "body (pop_fault w) = (Inr x, w2)" and "w' = pop_fault w2"
  using assms
  by (auto simp: with_tx_def db_query_eq split: option.splits sum.splits prod.splits)

lemma with_tx_cases:
  assumes "with_tx hb body hc w = (r, w')"
  obtains (rolled_back) e where "r = Inl e" and "db w' = rollback (db w) (db w')"
  | (committed) x w2 where "r = Inr x" and "body (pop_fault w) = (Inr x, w2)" and "db w' = db w2"
      and "now w' = now w2"
proof (cases r)
  case (Inl e)
  with assms have "db w' = rollback (db w) (db w')" by (auto intro: with_tx_error)
  with Inl show ?thesis by (rule rolled_back)
next
  case (Inr x)
  with assms show ?thesis by (auto elim!: with_tx_InrE intro: committed)
qed

text \<open>
  Sequences only grow: rows inserted after a rollback get fresh ids. \<open>grows\<close> is proved for an
  operation like \<open>keeps\<close>, by following its combinators.
\<close>

definition seq_le :: "sequences \<Rightarrow> sequences \<Rightarrow> bool" where
  "seq_le s t \<longleftrightarrow>
     sq_cert_requests s \<le> sq_cert_requests t \<and> sq_cert_events s \<le> sq_cert_events t \<and>
     sq_downloads s \<le> sq_downloads t \<and> sq_whitelist s \<le> sq_whitelist t \<and>
     sq_whitelist_events s \<le> sq_whitelist_events t"

lemma seq_le_refl [simp]: "seq_le s s"
  by (simp add: seq_le_def)

lemma seq_le_trans: "seq_le s t \<Longrightarrow> seq_le t u \<Longrightarrow> seq_le s u"
  by (auto simp: seq_le_def)

definition grows :: "('w, 'a) dbop \<Rightarrow> bool" where
  "grows m \<longleftrightarrow> (\<forall>w. seq_le (seqs (db w)) (seqs (db (snd (m w)))))"

lemma growsD: "grows m \<Longrightarrow> m w = (r, w') \<Longrightarrow> seq_le (seqs (db w)) (seqs (db w'))"
  unfolding grows_def by (metis snd_conv)

lemma grows_query [intro]: "grows (db_query q)" "grows (db_query_row q')"
  by (simp_all add: grows_def frame_simps)

lemma grows_ok [intro]: "grows (ok x)" "grows (fail e)"
  by (simp_all add: grows_def ok_def fail_def)

lemma grows_roundtrip:
  fixes stmt :: "time \<Rightarrow> database \<Rightarrow> 'a result \<times> database"
  assumes "\<And>t d. seq_le (seqs d) (seqs (snd (stmt t d)))"
  shows "grows (roundtrip stmt :: ('w, 'a) dbop)"
  unfolding grows_def
proof
  fix w :: "'w world_scheme"
  show "seq_le (seqs (db w)) (seqs (db (snd (roundtrip stmt w))))"
    using assms [of "db w" "now w"]
    by (cases "stmt (now w) (db w)") (simp add: roundtrip_def split: option.splits)
qed

lemma grows_try:
  fixes m :: "('w, 'a) dbop" and k :: "'a \<Rightarrow> ('w, 'b) dbop"
  assumes "grows m" and "\<And>x. grows (k x)"
  shows "grows (try_db m h k)"
  unfolding grows_def
proof
  fix w :: "'w world_scheme"
  obtain r w' where m: "m w = (r, w')" by (cases "m w")
  with assms(1) have "seq_le (seqs (db w)) (seqs (db w'))" by (rule growsD)
  moreover have "seq_le (seqs (db w')) (seqs (db (snd (k x w'))))" for x
    using assms(2) by (simp add: grows_def)
  ultimately show "seq_le (seqs (db w)) (seqs (db (snd (try_db m h k w))))"
    using m by (cases r) (auto simp: try_db_def intro: seq_le_trans)
qed

lemma grows_for_each: "(\<And>x. grows (f x)) \<Longrightarrow> grows (for_each xs f)"
  by (induction xs) (auto intro: grows_try)

lemma grows_tx:
  fixes body :: "('w, 'a) dbop"
  assumes "grows body"
  shows "grows (with_tx hb body hc)"
  unfolding grows_def
proof
  fix w :: "'w world_scheme"
  obtain r w2 where "body (pop_fault w) = (r, w2)" by (cases "body (pop_fault w)")
  with growsD [OF assms this] show "seq_le (seqs (db w)) (seqs (db (snd (with_tx hb body hc w))))"
    by (auto simp: with_tx_def db_query_eq split: option.splits sum.splits)
qed

lemma keeps_tx_grows:
  fixes body :: "('w, 'a) dbop"
  assumes roll: "\<And>d d'. I d \<Longrightarrow> seq_le (seqs d) (seqs d') \<Longrightarrow> I (rollback d d')"
    and body: "keeps I body" "grows body"
  shows "keeps I (with_tx hb body hc)"
  unfolding keeps_def
proof (intro allI impI)
  fix w :: "'w world_scheme" assume I: "I (db w)"
  obtain r w2 where run: "body (pop_fault w) = (r, w2)" by (cases "body (pop_fault w)")
  have "seq_le (seqs (db w)) (seqs (db w2))" using growsD [OF body(2) run] by simp
  then show "I (db (snd (with_tx hb body hc w)))"
    using keepsD [OF body(1) _ run] I roll [OF I] run
    by (auto simp: with_tx_def db_query_eq split: option.splits sum.splits)
qed

lemma grows_if: "grows a \<Longrightarrow> grows b \<Longrightarrow> grows (if c then a else b)"
  by simp

lemmas grows_intros = grows_if grows_try grows_tx grows_roundtrip grows_for_each grows_query grows_ok

lemma with_tx_error_grows:
  assumes "grows body" and "with_tx hb body hc w = (Inl e, w')"
  shows "db w' = rollback (db w) (db w') \<and> seq_le (seqs (db w)) (seqs (db w'))"
  using with_tx_error [OF assms(2)] growsD [OF grows_tx [OF assms(1)] assms(2)] by simp

lemmas success_elims =
  try_db_InrE roundtrip_InrE ok_InrE fail_InrE lift_result_InrE db_query_row_InrE db_query_InrE with_tx_InrE

end
