(* ===== verification/User_Store.thy ===== *)
theory User_Store
  imports Database
begin

text \<open>
  \<open>internal/storage/user_queries.go\<close> and the system-user part of
  \<open>internal/storage/database.go\<close>: \<open>CreateUser\<close>, \<open>UpsertUser\<close>, \<open>GetUserByID\<close>,
  \<open>EnsureSystemUser\<close> and \<open>GetSystemUser\<close>, over the tables \<open>users\<close> and \<open>user_groups\<close>.
\<close>

definition SystemUsername :: string where "SystemUsername = ''system''"
definition SystemDisplayName :: string where "SystemDisplayName = ''System''"
definition SystemEmail :: string where "SystemEmail = ''noreply@system''"
definition SystemSub :: string where "SystemSub = ''system''"

section \<open>Statements\<close>

definition is_user :: "string \<Rightarrow> string \<Rightarrow> user_row \<Rightarrow> bool" where
  "is_user iss sub r \<longleftrightarrow> ur_iss r = iss \<and> ur_sub r = sub"

definition in_group_of :: "string \<Rightarrow> string \<Rightarrow> group_row \<Rightarrow> bool" where
  "in_group_of iss sub g \<longleftrightarrow> gr_iss g = iss \<and> gr_sub g = sub"

definition find_user :: "string \<Rightarrow> string \<Rightarrow> database \<Rightarrow> user_row option" where
  "find_user iss sub d = find (is_user iss sub) (t_users d)"

definition user_groups :: "string \<Rightarrow> string \<Rightarrow> database \<Rightarrow> string list" where
  "user_groups iss sub d = map gr_name (filter (in_group_of iss sub) (t_groups d))"

definition sql_insert_user :: "user_row \<Rightarrow> time \<Rightarrow> database \<Rightarrow> nat result \<times> database" where
  "sql_insert_user r t d =
     (if find_user (ur_iss r) (ur_sub r) d \<noteq> None then (Inl (duplicate_key ''users_pkey''), d)
      else if ur_is_system r \<and> (\<exists>s \<in> set (t_users d). ur_is_system s)
        then (Inl (duplicate_key ''idx_users_system''), d)
      else (Inr 1, d\<lparr>t_users := t_users d @ [r]\<rparr>))"

text \<open>\<open>INSERT .. ON CONFLICT (iss, sub) DO UPDATE SET ..\<close>\<close>

definition sql_upsert_user ::
  "string \<Rightarrow> string \<Rightarrow> string \<Rightarrow> string \<Rightarrow> string \<Rightarrow> time \<Rightarrow> database \<Rightarrow> nat result \<times> database" where
  "sql_upsert_user iss sub username displayName email t d =
     (if find_user iss sub d = None
      then (Inr 1, d\<lparr>t_users := t_users d @
              [\<lparr>ur_iss = iss, ur_sub = sub, ur_username = username,
                ur_display_name = displayName, ur_email = email, ur_is_system = False,
                ur_last_logged_in = Some t, ur_created_at = Some t\<rparr>]\<rparr>)
      else (Inr 1, d\<lparr>t_users := upd_where (is_user iss sub)
              (\<lambda>r. r\<lparr>ur_username := username, ur_display_name := displayName, ur_email := email,
                     ur_last_logged_in := Some t\<rparr>) (t_users d)\<rparr>))"

definition sql_delete_groups :: "string \<Rightarrow> string \<Rightarrow> time \<Rightarrow> database \<Rightarrow> nat result \<times> database" where
  "sql_delete_groups iss sub t d =
     (Inr (count_where (in_group_of iss sub) (t_groups d)),
      d\<lparr>t_groups := filter (\<lambda>g. \<not> in_group_of iss sub g) (t_groups d)\<rparr>)"

text \<open>\<open>INSERT INTO user_groups .. unnest($3)\<close>: the primary key rejects a repeated group.\<close>

definition sql_insert_groups ::
  "string \<Rightarrow> string \<Rightarrow> string list \<Rightarrow> time \<Rightarrow> database \<Rightarrow> nat result \<times> database" where
  "sql_insert_groups iss sub groups t d =
     (if find_user iss sub d = None then (Inl (fk_violation ''user_groups_owner_fkey''), d)
      else if \<not> distinct (user_groups iss sub d @ groups)
        then (Inl (duplicate_key ''user_groups_pkey''), d)
      else (Inr (length groups),
            d\<lparr>t_groups := t_groups d @ map (\<lambda>g. \<lparr>gr_iss = iss, gr_sub = sub, gr_name = g\<rparr>) groups\<rparr>))"

section \<open>Operations\<close>

definition GetUserByID :: "string \<Rightarrow> string \<Rightarrow> ('w, user) dbop" where
  "GetUserByID iss sub =
     try_db (db_query_row (find_user iss sub))
       (\<lambda>e. if errors_Is e ErrNoRows then Errorf ''user not found''
             else wrap ''failed to get user by id: '' e)
       (\<lambda>r. case (ur_last_logged_in r, ur_created_at r) of
           (Some ll, Some ca) \<Rightarrow>
             try_db (db_query (user_groups (ur_iss r) (ur_sub r)))
               (wrap (''failed to get groups for user '' @ ur_sub r @ '':'' @ ur_iss r @ '': ''))
               (\<lambda>groups. ok \<lparr>usr_sub = ur_sub r, usr_iss = ur_iss r, usr_username = ur_username r,
                   usr_display_name = ur_display_name r, usr_email = ur_email r,
                   usr_groups = groups, usr_is_system = ur_is_system r,
                   usr_last_logged_in = ll, usr_created_at = ca\<rparr>)
         | _ \<Rightarrow> fail (wrap ''failed to get user by id: '' scan_null))"

definition CreateUser ::
  "string \<Rightarrow> string \<Rightarrow> string \<Rightarrow> string \<Rightarrow> string \<Rightarrow> ('w, user) dbop" where
  "CreateUser sub iss username displayName email w =
     try_db (roundtrip (sql_insert_user
         \<lparr>ur_iss = iss, ur_sub = sub, ur_username = username, ur_display_name = displayName,
          ur_email = email, ur_is_system = False, ur_last_logged_in = Some (now w),
          ur_created_at = Some (now w)\<rparr>))
       (wrap ''failed to create user: '')
       (\<lambda>n. if n < 1 then fail (Errorf ''failed to create user: no rows inserted'')
             else if n > 1 then fail (Errorf ''failed to create user: multiple rows inserted'')
             else GetUserByID iss sub) w"

definition upsert_tx ::
  "string \<Rightarrow> string \<Rightarrow> string \<Rightarrow> string \<Rightarrow> string \<Rightarrow> string list \<Rightarrow> ('w, unit) dbop" where
  "upsert_tx sub iss username displayName email groups =
     with_tx (wrap ''failed to begin transaction: '')
       (try_db (roundtrip (sql_upsert_user iss sub username displayName email))
          (wrap ''failed to upsert user: '')
          (\<lambda>_. try_db (roundtrip (sql_delete_groups iss sub))
             (wrap ''failed to delete old groups: '')
             (\<lambda>_. if groups \<noteq> []
                   then try_db (roundtrip (sql_insert_groups iss sub groups))
                          (wrap ''failed to insert groups: '') (\<lambda>_. ok ())
                   else ok ())))
       (wrap ''failed to commit transaction: '')"

definition UpsertUser ::
  "string \<Rightarrow> string \<Rightarrow> string \<Rightarrow> string \<Rightarrow> string \<Rightarrow> string list \<Rightarrow> ('w, user) dbop" where
  "UpsertUser sub iss username displayName email groups =
     try_db (upsert_tx sub iss username displayName email groups) id (\<lambda>_. GetUserByID iss sub)"

section \<open>The system user\<close>

definition find_system :: "database \<Rightarrow> user_row option" where
  "find_system d = find ur_is_system (t_users d)"

text \<open>
  \<open>UPDATE users SET iss = .. WHERE is_system = TRUE\<close>: the new key must be free, and the foreign
  key of \<open>user_groups\<close> does not follow an update.
\<close>

definition sql_update_system_user :: "string \<Rightarrow> time \<Rightarrow> database \<Rightarrow> nat result \<times> database" where
  "sql_update_system_user iss t d =
     (if \<exists>r \<in> set (t_users d). \<not> ur_is_system r \<and> ur_iss r = iss \<and>
            (\<exists>s \<in> set (t_users d). ur_is_system s \<and> ur_sub s = ur_sub r)
      then (Inl (duplicate_key ''users_pkey''), d)
      else if \<exists>s \<in> set (t_users d). ur_is_system s \<and> ur_iss s \<noteq> iss \<and>
                 user_groups (ur_iss s) (ur_sub s) d \<noteq> []
        then (Inl (fk_violation ''user_groups_owner_fkey''), d)
      else (Inr (count_where ur_is_system (t_users d)),
            d\<lparr>t_users := upd_where ur_is_system
               (\<lambda>r. r\<lparr>ur_iss := iss, ur_username := SystemUsername,
                      ur_display_name := SystemDisplayName, ur_email := SystemEmail\<rparr>)
               (t_users d)\<rparr>))"

definition sql_move_request_owner ::
  "string \<Rightarrow> string \<Rightarrow> string \<Rightarrow> time \<Rightarrow> database \<Rightarrow> nat result \<times> database" where
  "sql_move_request_owner new old sub t d =
     (let p = (\<lambda>r. cr_owner_iss r = old \<and> cr_owner_sub r = sub) in
      if new = '''' \<and> count_where p (t_cert_requests d) > 0
      then (Inl (check_violation ''certificate_requests_owner_not_empty''), d)
      else (Inr (count_where p (t_cert_requests d)),
            d\<lparr>t_cert_requests := upd_where p (\<lambda>r. r\<lparr>cr_owner_iss := new\<rparr>) (t_cert_requests d)\<rparr>))"

definition sql_move_event_requester ::
  "string \<Rightarrow> string \<Rightarrow> string \<Rightarrow> time \<Rightarrow> database \<Rightarrow> nat result \<times> database" where
  "sql_move_event_requester new old sub t d =
     (let p = (\<lambda>r. ce_requester_iss r = old \<and> ce_requester_sub r = sub) in
      if new = '''' \<and> count_where p (t_cert_events d) > 0
      then (Inl (check_violation ''certificate_events_requester_not_empty''), d)
      else (Inr (count_where p (t_cert_events d)),
            d\<lparr>t_cert_events := upd_where p (\<lambda>r. r\<lparr>ce_requester_iss := new\<rparr>) (t_cert_events d)\<rparr>))"

definition sql_move_event_reviewer ::
  "string \<Rightarrow> string \<Rightarrow> string \<Rightarrow> time \<Rightarrow> database \<Rightarrow> nat result \<times> database" where
  "sql_move_event_reviewer new old sub t d =
     (let p = (\<lambda>r. ce_reviewer_iss r = old \<and> ce_reviewer_sub r = sub) in
      if new = '''' \<and> count_where p (t_cert_events d) > 0
      then (Inl (check_violation ''certificate_events_reviewer_not_empty''), d)
      else (Inr (count_where p (t_cert_events d)),
            d\<lparr>t_cert_events := upd_where p (\<lambda>r. r\<lparr>ce_reviewer_iss := new\<rparr>) (t_cert_events d)\<rparr>))"

text \<open>
  \<open>EnsureSystemUser\<close>. The row query tells no row (create it), an error, or the existing system
  user; in the last case a changed external URL moves the user and the rows of the certificate
  tables that name it.
\<close>

definition create_system_user :: "string \<Rightarrow> time \<Rightarrow> ('w, unit) dbop" where
  "create_system_user externalURL t =
     try_db (roundtrip (sql_insert_user
         \<lparr>ur_iss = externalURL, ur_sub = SystemSub, ur_username = SystemUsername,
          ur_display_name = SystemDisplayName, ur_email = SystemEmail,
          ur_is_system = True, ur_last_logged_in = None, ur_created_at = Some t\<rparr>))
       (wrap ''failed to create system user: '') (\<lambda>_. ok ())"

definition move_system_user :: "string \<Rightarrow> string \<Rightarrow> ('w, unit) dbop" where
  "move_system_user externalURL existingIss =
     try_db (roundtrip (sql_update_system_user externalURL))
       (wrap ''failed to update system user: '')
       (\<lambda>_. try_db (roundtrip (sql_move_request_owner externalURL existingIss SystemSub))
          (wrap ''failed to update certificate_requests: '')
          (\<lambda>_. try_db (roundtrip (sql_move_event_requester externalURL existingIss SystemSub))
             (wrap ''failed to update certificate_events requester: '')
             (\<lambda>_. try_db (roundtrip (sql_move_event_reviewer externalURL existingIss SystemSub))
                (wrap ''failed to update certificate_events reviewer: '') (\<lambda>_. ok ()))))"

definition ensure_system_user_body :: "string \<Rightarrow> ('w, unit) dbop" where
  "ensure_system_user_body externalURL w =
     (case db_query_row find_system w of
        (Inl e, w1) \<Rightarrow>
          if errors_Is e ErrNoRows then create_system_user externalURL (now w1) w1
          else fail (wrap ''failed to check for system user: '' e) w1
      | (Inr r, w1) \<Rightarrow>
          if ur_iss r \<noteq> externalURL then move_system_user externalURL (ur_iss r) w1
          else ok () w1)"

definition EnsureSystemUser :: "string \<Rightarrow> ('w, unit) dbop" where
  "EnsureSystemUser externalURL =
     with_tx (wrap ''failed to begin transaction: '') (ensure_system_user_body externalURL) id"

definition GetSystemUser :: "('w, string \<times> string) dbop" where
  "GetSystemUser =
     try_db (db_query_row (\<lambda>d. map_option (\<lambda>r. (ur_iss r, ur_sub r)) (find_system d)))
       (\<lambda>e. if errors_Is e ErrNoRows then Errorf ''system user not found'' else e) ok"

section \<open>Lookup after an update\<close>

lemma is_user_upd [simp]:
  "is_user iss sub (r\<lparr>ur_username := a, ur_display_name := b, ur_email := c, ur_last_logged_in := l\<rparr>) =
   is_user iss sub r"
  by (simp add: is_user_def)

lemma user_groups_other:
  assumes "(iss', sub') \<noteq> (iss, sub)"
  shows "filter (\<lambda>g. \<not> in_group_of iss sub g \<and> in_group_of iss' sub' g) gs = filter (in_group_of iss' sub') gs"
  using assms by (auto simp: in_group_of_def intro!: filter_cong)

lemma new_groups_of:
  "filter (in_group_of iss' sub') (map (\<lambda>g. \<lparr>gr_iss = iss, gr_sub = sub, gr_name = g\<rparr>) gs) =
   (if iss' = iss \<and> sub' = sub then map (\<lambda>g. \<lparr>gr_iss = iss, gr_sub = sub, gr_name = g\<rparr>) gs else [])"
  by (induction gs) (auto simp: in_group_of_def)

lemma no_groups_left: "filter (\<lambda>g. \<not> in_group_of iss sub g \<and> in_group_of iss sub g) gs = []"
  by (simp add: filter_empty_conv)

definition put_user :: "string \<Rightarrow> string \<Rightarrow> string \<Rightarrow> string \<Rightarrow> string \<Rightarrow> time \<Rightarrow> database \<Rightarrow> database" where
  "put_user iss sub un dn em t d = snd (sql_upsert_user iss sub un dn em t d)"

definition put_groups :: "string \<Rightarrow> string \<Rightarrow> string list \<Rightarrow> database \<Rightarrow> database" where
  "put_groups iss sub gs d = d\<lparr>t_groups := filter (\<lambda>g. \<not> in_group_of iss sub g) (t_groups d) @
      map (\<lambda>g. \<lparr>gr_iss = iss, gr_sub = sub, gr_name = g\<rparr>) gs\<rparr>"

lemma find_put_user:
  "find_user iss' sub' (put_user iss sub un dn em t d) =
     (if iss' = iss \<and> sub' = sub
      then Some (case find_user iss sub d of
          None \<Rightarrow> \<lparr>ur_iss = iss, ur_sub = sub, ur_username = un, ur_display_name = dn, ur_email = em,
                   ur_is_system = False, ur_last_logged_in = Some t, ur_created_at = Some t\<rparr>
        | Some r \<Rightarrow> r\<lparr>ur_username := un, ur_display_name := dn, ur_email := em, ur_last_logged_in := Some t\<rparr>)
      else find_user iss' sub' d)"
proof (cases "find_user iss sub d")
  case None
  then show ?thesis
    by (auto simp: put_user_def sql_upsert_user_def find_user_def find_append is_user_def split: option.splits)
next
  case (Some r)
  let ?f = "\<lambda>r. r\<lparr>ur_username := un, ur_display_name := dn, ur_email := em, ur_last_logged_in := Some t\<rparr>"
  have "find_user iss' sub' (put_user iss sub un dn em t d) =
        map_option (\<lambda>r. if is_user iss sub r then ?f r else r) (find_user iss' sub' d)"
    using Some by (simp add: put_user_def sql_upsert_user_def find_user_def find_upd_where)
  moreover have "is_user iss sub r \<longleftrightarrow> iss' = iss \<and> sub' = sub" if "find_user iss' sub' d = Some r" for r
    using that by (auto simp: find_user_def is_user_def dest!: find_SomeD)
  ultimately show ?thesis
    using Some by (cases "find_user iss' sub' d") auto
qed

lemma user_groups_put:
  "user_groups iss' sub' (put_groups iss sub gs d) =
     (if iss' = iss \<and> sub' = sub then gs else user_groups iss' sub' d)"
  by (auto simp: user_groups_def put_groups_def new_groups_of no_groups_left user_groups_other comp_def)

lemma put_frames [simp]:
  "t_groups (put_user iss sub un dn em t d) = t_groups d"
  "user_groups i s (put_user iss sub un dn em t d) = user_groups i s d"
  "t_users (put_groups iss sub gs d) = t_users d"
  "find_user i s (put_groups iss sub gs d) = find_user i s d"
  by (simp_all add: put_user_def sql_upsert_user_def put_groups_def user_groups_def find_user_def)

lemma sql_upsert_user_eq: "sql_upsert_user iss sub un dn em t d = (Inr 1, put_user iss sub un dn em t d)"
  by (simp add: put_user_def sql_upsert_user_def)

lemma sql_delete_groups_eq:
  "sql_delete_groups iss sub t d = (Inr (count_where (in_group_of iss sub) (t_groups d)), put_groups iss sub [] d)"
  by (simp add: sql_delete_groups_def put_groups_def)

lemma sql_insert_groups_Inr:
  assumes "sql_insert_groups iss sub gs t (put_groups iss sub [] d) = (Inr n, d')"
  shows "distinct gs \<and> d' = put_groups iss sub gs d"
  using assms by (auto simp: sql_insert_groups_def put_groups_def user_groups_def no_groups_left split: if_splits)

lemma GetUserByID_success:
  assumes "GetUserByID iss sub w = (Inr u, w')"
  obtains r where "find_user iss sub (db w) = Some r" and "ur_last_logged_in r \<noteq> None"
    and "ur_created_at r \<noteq> None" and "db w' = db w"
    and "u = \<lparr>usr_sub = sub, usr_iss = iss, usr_username = ur_username r,
              usr_display_name = ur_display_name r, usr_email = ur_email r,
              usr_groups = user_groups iss sub (db w), usr_is_system = ur_is_system r,
              usr_last_logged_in = the (ur_last_logged_in r), usr_created_at = the (ur_created_at r)\<rparr>"
proof -
  have key: "ur_iss r = iss \<and> ur_sub r = sub" if "find_user iss sub (db w) = Some r" for r
    using that by (auto simp: find_user_def is_user_def dest!: find_SomeD)
  show ?thesis
    using assms unfolding GetUserByID_def
    by (auto elim!: success_elims split: option.splits intro!: that simp: key)
qed

lemma GetUserByID_frame [frame_simps]: "db (snd (GetUserByID iss sub w)) = db w"
  by (simp add: GetUserByID_def try_db_def db_query_row_eq db_query_eq ok_def fail_def
      split: sum.splits option.splits prod.splits)

lemma upsert_tx_success:
  assumes "upsert_tx sub iss un dn em gs w = (Inr x, w')"
  shows "distinct gs" and "db w' = put_groups iss sub gs (put_user iss sub un dn em (now w) (db w))"
  using assms unfolding upsert_tx_def
  by (auto elim!: success_elims dest!: sql_insert_groups_Inr
        simp: sql_upsert_user_eq sql_delete_groups_eq split: if_splits)

lemma UpsertUser_success:
  assumes "UpsertUser sub iss un dn em gs w = (Inr u, w')"
  obtains w1 where "distinct gs" and "db w1 = put_groups iss sub gs (put_user iss sub un dn em (now w) (db w))"
    and "GetUserByID iss sub w1 = (Inr u, w')"
  using assms unfolding UpsertUser_def by (metis try_db_InrE upsert_tx_success)

section \<open>Invariants of the users table\<close>

definition user_key :: "user_row \<Rightarrow> string \<times> string" where
  "user_key r = (ur_iss r, ur_sub r)"

definition user_inv :: "database \<Rightarrow> bool" where
  "user_inv d \<longleftrightarrow>
     distinct (map user_key (t_users d)) \<and> count_where ur_is_system (t_users d) \<le> 1 \<and>
     (\<forall>r \<in> set (t_users d). ur_is_system r \<longrightarrow> ur_sub r = SystemSub)"

lemma user_inv_rollback [simp]: "user_inv (rollback d d') \<longleftrightarrow> user_inv d"
  by (simp add: user_inv_def)

lemma user_inv_cong: "t_users d' = t_users d \<Longrightarrow> user_inv d \<Longrightarrow> user_inv d'"
  by (simp add: user_inv_def)

lemma user_inv_empty: "user_inv empty_database"
  by (simp add: user_inv_def empty_database_def count_where_def)

lemma find_user_None: "find_user iss sub d = None \<longleftrightarrow> (iss, sub) \<notin> user_key ` set (t_users d)"
  by (auto simp: find_user_def is_user_def find_None_iff user_key_def)

lemma distinct_map_upd_where:
  assumes "distinct (map k xs)" and "count_where p xs \<le> 1"
    and "\<And>x. x \<in> set xs \<Longrightarrow> p x \<Longrightarrow> k (f x) = k'"
    and "\<And>x. x \<in> set xs \<Longrightarrow> \<not> p x \<Longrightarrow> k x \<noteq> k'"
  shows "distinct (map k (upd_where p f xs))"
  using assms
proof (induction xs)
  case (Cons x xs)
  show ?case
  proof (cases "p x")
    case True
    with Cons.prems(2) have "\<And>y. y \<in> set xs \<Longrightarrow> \<not> p y"
      by (auto simp: count_where_def filter_empty_conv)
    then have "upd_where p f xs = xs" by (intro upd_where_none) auto
    with True Cons.prems \<open>\<And>y. y \<in> set xs \<Longrightarrow> \<not> p y\<close> show ?thesis by (auto; metis)
  next
    case False
    with Cons have "distinct (map k (upd_where p f xs))" by (auto simp: count_where_def)
    moreover have "k x \<noteq> k y" if "y \<in> set (upd_where p f xs)" for y
      using that False Cons.prems(1,3) Cons.prems(4) [of x] by (auto simp: set_upd_where)
    ultimately show ?thesis using False by auto
  qed
qed simp

lemma user_inv_insert:
  assumes "user_inv d" and "ur_is_system r \<longrightarrow> ur_sub r = SystemSub" and "sql_insert_user r t d = (res, d')"
  shows "user_inv d'"
  using assms
  by (auto simp: user_inv_def sql_insert_user_def find_user_None count_where_def user_key_def filter_empty_conv
      split: if_splits)

lemma user_inv_upsert:
  assumes "user_inv d" and "sql_upsert_user iss sub un dn em t d = (res, d')"
  shows "user_inv d'"
proof (cases "find_user iss sub d")
  case None
  with assms show ?thesis
    by (auto simp: user_inv_def sql_upsert_user_def find_user_None count_where_def user_key_def)
next
  case (Some r)
  with assms have "t_users d' = upd_where (is_user iss sub) (\<lambda>r. r\<lparr>ur_username := un,
      ur_display_name := dn, ur_email := em, ur_last_logged_in := Some t\<rparr>) (t_users d)"
    by (auto simp: sql_upsert_user_def)
  moreover have "user_key (r\<lparr>ur_username := un, ur_display_name := dn, ur_email := em,
      ur_last_logged_in := Some t\<rparr>) = user_key r" for r
    by (simp add: user_key_def)
  ultimately show ?thesis using assms(1)
    by (simp add: user_inv_def count_where_def map_upd_where filter_upd_where ball_upd_where)
qed

lemma user_inv_update_system:
  assumes inv: "user_inv d" and upd: "sql_update_system_user iss t d = (res, d')"
  shows "user_inv d'"
proof (cases res)
  case (Inl e)
  with upd inv show ?thesis by (auto simp: sql_update_system_user_def split: if_splits)
next
  case (Inr n)
  let ?f = "\<lambda>r. r\<lparr>ur_iss := iss, ur_username := SystemUsername,
      ur_display_name := SystemDisplayName, ur_email := SystemEmail\<rparr>"
  from Inr upd have users: "t_users d' = upd_where ur_is_system ?f (t_users d)"
    and free: "\<not> (\<exists>r \<in> set (t_users d). \<not> ur_is_system r \<and> ur_iss r = iss \<and>
            (\<exists>s \<in> set (t_users d). ur_is_system s \<and> ur_sub s = ur_sub r))"
    by (auto simp: sql_update_system_user_def split: if_splits)
  have "distinct (map user_key (t_users d'))"
  proof (cases "\<exists>s \<in> set (t_users d). ur_is_system s")
    case True
    with inv free have "user_key r \<noteq> (iss, SystemSub)" if "r \<in> set (t_users d)" "\<not> ur_is_system r" for r
      using that by (fastforce simp: user_inv_def user_key_def)
    with inv show ?thesis unfolding users
      by (intro distinct_map_upd_where [where k' = "(iss, SystemSub)"]) (auto simp: user_inv_def user_key_def)
  next
    case False
    then have "t_users d' = t_users d" unfolding users by (intro upd_where_none) auto
    with inv show ?thesis by (simp add: user_inv_def)
  qed
  with inv show ?thesis
    by (auto simp: user_inv_def users count_where_def filter_upd_where ball_upd_where)
qed

lemma user_inv_other_tables:
  "user_inv d \<Longrightarrow> sql_delete_groups iss sub t d = (r, d') \<Longrightarrow> user_inv d'"
  "user_inv d \<Longrightarrow> sql_insert_groups iss sub gs t d = (r, d') \<Longrightarrow> user_inv d'"
  "user_inv d \<Longrightarrow> sql_move_request_owner new old sub t d = (r, d') \<Longrightarrow> user_inv d'"
  "user_inv d \<Longrightarrow> sql_move_event_requester new old sub t d = (r, d') \<Longrightarrow> user_inv d'"
  "user_inv d \<Longrightarrow> sql_move_event_reviewer new old sub t d = (r, d') \<Longrightarrow> user_inv d'"
  by (auto simp: sql_delete_groups_def sql_insert_groups_def sql_move_request_owner_def
      sql_move_event_requester_def sql_move_event_reviewer_def Let_def user_inv_def split: if_splits)

lemmas user_keeps = keeps_if keeps_try keeps_ok keeps_fail keeps_query keeps_query_row

lemma keeps_case_query_row:
  assumes "\<And>e w1. I (db w1) \<Longrightarrow> I (db (snd (a e w1)))" and "\<And>x w1. I (db w1) \<Longrightarrow> I (db (snd (b x w1)))"
    and "\<And>w. m w = (case db_query_row q w of (Inl e, w1) \<Rightarrow> a e w1 | (Inr x, w1) \<Rightarrow> b x w1)"
  shows "keeps I m"
  using assms by (auto simp: keeps_def db_query_row_eq split: option.splits)

lemma keeps_if_snd:
  "I (db (snd (a w))) \<Longrightarrow> I (db (snd (b w))) \<Longrightarrow> I (db (snd (if c then a w else b w)))"
  by simp

lemma keeps_GetUserByID: "keeps I (GetUserByID iss sub)"
  by (simp add: keeps_def frame_simps)

lemma keeps_CreateUser: "keeps user_inv (CreateUser sub iss un dn em)"
proof -
  have "keeps user_inv (try_db (roundtrip (sql_insert_user r)) h
       (\<lambda>n. if n < 1 then fail e1 else if n > 1 then fail e2 else GetUserByID iss sub))"
    if "\<not> ur_is_system r" for r h e1 e2
    using that by (intro user_keeps keeps_GetUserByID keeps_roundtrip) (erule user_inv_insert, simp_all)
  note step = keeps_snd [OF this]
  show ?thesis
    unfolding keeps_def CreateUser_def by (intro allI impI step) simp_all
qed

lemma keeps_UpsertUser: "keeps user_inv (UpsertUser sub iss un dn em gs)"
  unfolding UpsertUser_def upsert_tx_def
  by (intro user_keeps keeps_tx keeps_GetUserByID keeps_roundtrip)
     (auto intro: user_inv_upsert user_inv_other_tables)

lemma keeps_create_system_user: "keeps user_inv (create_system_user url t)"
  unfolding create_system_user_def
  by (intro user_keeps keeps_roundtrip) (erule user_inv_insert, simp_all)

lemma keeps_move_system_user: "keeps user_inv (move_system_user url old)"
  unfolding move_system_user_def
  by (intro user_keeps keeps_roundtrip) (auto intro: user_inv_update_system user_inv_other_tables)

lemma keeps_EnsureSystemUser: "keeps user_inv (EnsureSystemUser url)"
proof -
  have "keeps user_inv (ensure_system_user_body url)"
    by (rule keeps_case_query_row [OF _ _ ensure_system_user_body_def];
        intro keeps_if_snd [where I = user_inv] keeps_snd [OF keeps_create_system_user]
          keeps_snd [OF keeps_move_system_user] keeps_snd [where I = user_inv, OF keeps_ok]
          keeps_snd [where I = user_inv, OF keeps_fail]; assumption)
  then show ?thesis unfolding EnsureSystemUser_def
    by (rule keeps_tx) simp
qed

datatype user_call =
    CallCreateUser string string string string string
  | CallUpsertUser string string string string string "string list"
  | CallEnsureSystemUser string

fun exec_user_call :: "user_call \<Rightarrow> 'w world_scheme \<Rightarrow> 'w world_scheme" where
  "exec_user_call (CallCreateUser sub iss un dn em) w = snd (CreateUser sub iss un dn em w)"
| "exec_user_call (CallUpsertUser sub iss un dn em gs) w = snd (UpsertUser sub iss un dn em gs w)"
| "exec_user_call (CallEnsureSystemUser url) w = snd (EnsureSystemUser url w)"

text \<open>Any sequence of calls, interleaved with anything that leaves \<open>users\<close> alone.\<close>

inductive user_reachable :: "database \<Rightarrow> bool" where
  start: "user_reachable empty_database"
| call: "user_reachable (db w) \<Longrightarrow> user_reachable (db (exec_user_call c (w :: world)))"
| other: "user_reachable d \<Longrightarrow> t_users d' = t_users d \<Longrightarrow> user_reachable d'"

lemma exec_user_call_inv: "user_inv (db w) \<Longrightarrow> user_inv (db (exec_user_call c w))"
  by (cases c) (simp_all add: keeps_snd [OF keeps_CreateUser] keeps_snd [OF keeps_UpsertUser]
      keeps_snd [OF keeps_EnsureSystemUser])

lemma user_reachable_inv: "user_reachable d \<Longrightarrow> user_inv d"
  by (induction rule: user_reachable.induct) (auto intro: user_inv_empty exec_user_call_inv user_inv_cong)

section \<open>What a successful EnsureSystemUser did\<close>

definition moved_system_user :: "string \<Rightarrow> string \<Rightarrow> database \<Rightarrow> database" where
  "moved_system_user url old d =
     d\<lparr>t_users := upd_where ur_is_system (\<lambda>r. r\<lparr>ur_iss := url, ur_username := SystemUsername,
              ur_display_name := SystemDisplayName, ur_email := SystemEmail\<rparr>) (t_users d),
       t_cert_requests := upd_where (\<lambda>q. cr_owner_iss q = old \<and> cr_owner_sub q = SystemSub)
              (\<lambda>q. q\<lparr>cr_owner_iss := url\<rparr>) (t_cert_requests d),
       t_cert_events := upd_where (\<lambda>e. ce_reviewer_iss e = old \<and> ce_reviewer_sub e = SystemSub)
              (\<lambda>e. e\<lparr>ce_reviewer_iss := url\<rparr>)
              (upd_where (\<lambda>e. ce_requester_iss e = old \<and> ce_requester_sub e = SystemSub)
                (\<lambda>e. e\<lparr>ce_requester_iss := url\<rparr>) (t_cert_events d))\<rparr>"

lemma moved_system_user_statements:
  assumes "sql_update_system_user url t d = (Inr n1, d1)"
    and "sql_move_request_owner url old SystemSub t d1 = (Inr n2, d2)"
    and "sql_move_event_requester url old SystemSub t d2 = (Inr n3, d3)"
    and "sql_move_event_reviewer url old SystemSub t d3 = (Inr n4, d4)"
  shows "d4 = moved_system_user url old d"
proof -
  from assms(1) have "d1 = d\<lparr>t_users := t_users (moved_system_user url old d)\<rparr>"
    by (auto simp: sql_update_system_user_def moved_system_user_def split: if_splits)
  moreover from assms(2) have "d2 = d1\<lparr>t_cert_requests := upd_where (\<lambda>q. cr_owner_iss q = old \<and> cr_owner_sub q = SystemSub)
              (\<lambda>q. q\<lparr>cr_owner_iss := url\<rparr>) (t_cert_requests d1)\<rparr>"
    by (auto simp: sql_move_request_owner_def Let_def split: if_splits)
  moreover from assms(3) have "d3 = d2\<lparr>t_cert_events := upd_where (\<lambda>e. ce_requester_iss e = old \<and> ce_requester_sub e = SystemSub)
                (\<lambda>e. e\<lparr>ce_requester_iss := url\<rparr>) (t_cert_events d2)\<rparr>"
    by (auto simp: sql_move_event_requester_def Let_def split: if_splits)
  moreover from assms(4) have "d4 = d3\<lparr>t_cert_events := upd_where (\<lambda>e. ce_reviewer_iss e = old \<and> ce_reviewer_sub e = SystemSub)
              (\<lambda>e. e\<lparr>ce_reviewer_iss := url\<rparr>) (t_cert_events d3)\<rparr>"
    by (auto simp: sql_move_event_reviewer_def Let_def split: if_splits)
  ultimately show ?thesis by (simp add: moved_system_user_def)
qed

lemma move_system_user_success:
  assumes "move_system_user url old w = (Inr u, w')"
  shows "db w' = moved_system_user url old (db w)"
  using assms unfolding move_system_user_def
  by (elim try_db_InrE roundtrip_InrE ok_InrE) (simp add: moved_system_user_statements)

lemma EnsureSystemUser_success:
  assumes "EnsureSystemUser url w = (Inr u, w')"
  obtains (created) r where "find_system (db w) = None" and "ur_is_system r" and "ur_iss r = url" and "ur_sub r = SystemSub"
      and "db w' = (db w)\<lparr>t_users := t_users (db w) @ [r]\<rparr>"
  | (kept) r where "find_system (db w) = Some r" and "ur_iss r = url" and "db w' = db w"
  | (moved) r where "find_system (db w) = Some r" and "ur_iss r \<noteq> url"
      and "db w' = moved_system_user url (ur_iss r) (db w)"
proof -
  from assms obtain w2 where body: "ensure_system_user_body url (pop_fault w) = (Inr u, w2)" and w': "w' = pop_fault w2"
    unfolding EnsureSystemUser_def by (auto elim: with_tx_InrE)
  show thesis
  proof (cases "db_query_row find_system (pop_fault w)")
    case (Pair q w1)
    show thesis
    proof (cases q)
      case (Inl e)
      with Pair have e: "errors_Is e ErrNoRows \<Longrightarrow> find_system (db w) = None" and w1: "db w1 = db w"
        by (auto simp: db_query_row_eq split: option.splits)
      from Inl Pair body have "errors_Is e ErrNoRows" and c: "create_system_user url (now w1) w1 = (Inr u, w2)"
        by (auto simp: ensure_system_user_body_def fail_def split: if_splits)
      with e have none: "find_system (db w) = None" by blast
      from c w' w1 show thesis
        unfolding create_system_user_def
        by (intro created [OF none]) (auto elim!: success_elims simp: sql_insert_user_def split: if_splits)
    next
      case (Inr r)
      with Pair have some: "find_system (db w) = Some r" and w1: "db w1 = db w"
        by (auto simp: db_query_row_eq split: option.splits)
      show thesis
      proof (cases "ur_iss r = url")
        case True
        with Inr Pair body w' w1 show thesis
          by (intro kept [OF some]) (auto simp: ensure_system_user_body_def ok_def)
      next
        case False
        with Inr Pair body have "move_system_user url (ur_iss r) w1 = (Inr u, w2)"
          by (simp add: ensure_system_user_body_def)
        with w' w1 show thesis
          by (intro moved [OF some False]) (simp add: move_system_user_success)
      qed
    qed
  qed
qed

lemma find_system_upd:
  "(\<And>r. ur_is_system (f r) = ur_is_system r) \<Longrightarrow>
   find ur_is_system (upd_where ur_is_system f rs) = map_option f (find ur_is_system rs)"
  by (induction rs) auto

lemma system_user_after_ensure:
  assumes "user_inv (db w)" and "EnsureSystemUser url w = (Inr u, w')"
  shows "\<exists>r. find_system (db w') = Some r \<and> ur_iss r = url \<and> ur_sub r = SystemSub"
  using assms(2)
proof (cases rule: EnsureSystemUser_success)
  case (created r)
  then show ?thesis by (simp add: find_system_def find_append)
next
  case (kept r)
  with assms(1) show ?thesis by (auto simp: find_system_def user_inv_def dest: find_SomeD)
next
  case (moved r)
  then have "ur_sub r = SystemSub"
    using assms(1) by (auto simp: find_system_def user_inv_def dest: find_SomeD)
  with moved show ?thesis by (simp add: find_system_def find_system_upd moved_system_user_def)
qed

lemma one_system_user:
  assumes "user_inv d" and "find_system d = Some r"
  shows "filter ur_is_system (t_users d) = [r]"
proof -
  have "length (filter ur_is_system (t_users d)) \<le> 1" using assms(1) by (simp add: user_inv_def count_where_def)
  moreover have "r \<in> set (filter ur_is_system (t_users d))"
    using assms(2) by (auto simp: find_system_def dest: find_SomeD)
  ultimately show ?thesis by (cases "filter ur_is_system (t_users d)") auto
qed

lemma upd_where_moved:
  assumes "old \<noteq> new" and "\<And>q. sel (f q) = new"
  shows "\<forall>q \<in> set (upd_where (\<lambda>q. sel q = old \<and> key q) f rs). \<not> (sel q = old \<and> key q)"
  using assms by (auto simp: ball_upd_where)

section \<open>Properties\<close>

text \<open>A world with one user, for the witnesses.\<close>

definition example_user_world :: world where
  "example_user_world =
     \<lparr>db = empty_database\<lparr>t_users := [\<lparr>ur_iss = ''https://idp'', ur_sub = ''alice'', ur_username = ''a'',
        ur_display_name = ''A'', ur_email = ''a@x'', ur_is_system = False,
        ur_last_logged_in = Some 1, ur_created_at = Some 1\<rparr>],
        t_groups := [\<lparr>gr_iss = ''https://idp'', gr_sub = ''alice'', gr_name = ''old''\<rparr>]\<rparr>,
      now = 5, faults = []\<rparr>"

text \<open>
  A login writes exactly the identity provider's claims. When \<open>UpsertUser\<close> succeeds, the
  user it returns has the given names, e-mail and exactly the given groups, the login time is the
  time of the call, the next \<open>GetUserByID\<close> finds the same row, and neither the row nor the groups
  of any other user changed.
\<close>

theorem upsert_user_exact:
  assumes "UpsertUser sub iss un dn em gs w = (Inr u, w')"
  shows "usr_iss u = iss \<and> usr_sub u = sub \<and> usr_username u = un \<and> usr_display_name u = dn \<and>
         usr_email u = em \<and> usr_groups u = gs \<and> distinct (usr_groups u) \<and> usr_last_logged_in u = now w \<and>
         (\<exists>r. find_user iss sub (db w') = Some r \<and> ur_email r = em) \<and> user_groups iss sub (db w') = gs \<and>
         (\<forall>iss' sub'. (iss', sub') = (iss, sub) \<or>
            (find_user iss' sub' (db w') = find_user iss' sub' (db w) \<and>
             user_groups iss' sub' (db w') = user_groups iss' sub' (db w)))"
  using assms
proof (rule UpsertUser_success)
  fix w1
  assume "distinct gs" and db1: "db w1 = put_groups iss sub gs (put_user iss sub un dn em (now w) (db w))"
    and "GetUserByID iss sub w1 = (Inr u, w')"
  then obtain r where "db w' = db w1" and r: "find_user iss sub (db w1) = Some r"
    and u: "u = \<lparr>usr_sub = sub, usr_iss = iss, usr_username = ur_username r,
              usr_display_name = ur_display_name r, usr_email = ur_email r,
              usr_groups = user_groups iss sub (db w1), usr_is_system = ur_is_system r,
              usr_last_logged_in = the (ur_last_logged_in r), usr_created_at = the (ur_created_at r)\<rparr>"
    by (auto elim: GetUserByID_success)
  moreover from r have "ur_username r = un \<and> ur_display_name r = dn \<and> ur_email r = em \<and>
      ur_last_logged_in r = Some (now w)"
    by (auto simp: db1 find_put_user split: option.splits)
  ultimately show ?thesis
    using \<open>distinct gs\<close> db1 by (simp add: find_put_user user_groups_put)
qed

theorem upsert_user_exact_witness:
  "\<exists>u w'. UpsertUser ''alice'' ''https://idp'' ''a2'' ''A2'' ''a2@x'' [''g1'', ''g2''] example_user_world = (Inr u, w') \<and>
     usr_groups u = [''g1'', ''g2''] \<and> usr_email u = ''a2@x''"
proof -
  obtain u w' where run:
    "UpsertUser ''alice'' ''https://idp'' ''a2'' ''A2'' ''a2@x'' [''g1'', ''g2''] example_user_world = (Inr u, w')"
    by (simp add: UpsertUser_def upsert_tx_def GetUserByID_def with_tx_def db_query_eq db_query_row_eq try_db_def roundtrip_def
        ok_def sql_upsert_user_def sql_delete_groups_def sql_insert_groups_def find_user_def is_user_def
        user_groups_def in_group_of_def example_user_world_def empty_database_def pop_fault_def)
  from upsert_user_exact [OF run] run show ?thesis by blast
qed

text \<open>
  A repeated group locks the user out. \<open>UpsertUser\<close> inserts the group list as it is into a
  table whose primary key includes the group, so with a repeated group it fails whatever the
  database holds, and leaves every table as it was.
\<close>

theorem duplicate_group_login_fails:
  assumes "\<not> distinct gs"
  shows "\<exists>e w'. UpsertUser sub iss un dn em gs w = (Inl e, w') \<and> db w' = (db w)\<lparr>seqs := seqs (db w')\<rparr>"
proof -
  obtain q w' where tx: "upsert_tx sub iss un dn em gs w = (q, w')" by fastforce
  with assms obtain e where e: "q = Inl e" by (cases q) (auto dest: upsert_tx_success)
  from tx e have "db w' = rollback (db w) (db w')"
    unfolding upsert_tx_def by (auto intro: with_tx_error)
  then have "db w' = (db w)\<lparr>seqs := seqs (db w')\<rparr>" unfolding rollback_def .
  moreover from tx e have "UpsertUser sub iss un dn em gs w = (Inl e, w')"
    by (simp add: UpsertUser_def try_db_def)
  ultimately show ?thesis by blast
qed

theorem duplicate_group_login_fails_witness:
  "\<exists>e w'. UpsertUser ''alice'' ''https://idp'' ''a2'' ''A2'' ''a2@x'' [''g1'', ''g1''] example_user_world = (Inl e, w')"
  using duplicate_group_login_fails [of "[''g1'', ''g1'']"] by fastforce

text \<open>
  There is one system user and it carries the configured external URL. From any tables the
  user operations can produce, a successful \<open>EnsureSystemUser\<close> leaves exactly one system user,
  which \<open>GetSystemUser\<close> then returns with the external URL as issuer; when the URL changed, no
  certificate request or event still names the system user under the old issuer; and calling it
  again changes nothing.
\<close>

theorem system_user_established:
  assumes "user_reachable (db w)" and "EnsureSystemUser url w = (Inr u, w')"
  shows "(\<exists>r. filter ur_is_system (t_users (db w')) = [r] \<and> ur_iss r = url \<and> ur_sub r = SystemSub) \<and>
         (faults w' = [] \<longrightarrow> fst (GetSystemUser w') = Inr (url, SystemSub)) \<and>
         (\<forall>old. find_system (db w) = Some old \<and> ur_iss old \<noteq> url \<longrightarrow>
            (\<forall>q \<in> set (t_cert_requests (db w')). \<not> (cr_owner_iss q = ur_iss old \<and> cr_owner_sub q = SystemSub)) \<and>
            (\<forall>e \<in> set (t_cert_events (db w')).
               \<not> (ce_requester_iss e = ur_iss old \<and> ce_requester_sub e = SystemSub) \<and>
               \<not> (ce_reviewer_iss e = ur_iss old \<and> ce_reviewer_sub e = SystemSub))) \<and>
         (\<forall>u2 w2. EnsureSystemUser url w' = (Inr u2, w2) \<longrightarrow> db w2 = db w')"
proof (intro conjI)
  note inv = user_reachable_inv [OF assms(1)]
  from system_user_after_ensure [OF inv assms(2)] obtain r
    where r: "find_system (db w') = Some r" "ur_iss r = url" "ur_sub r = SystemSub" by blast
  have inv': "user_inv (db w')" using keepsD [OF keeps_EnsureSystemUser inv assms(2)] .
  show "\<exists>r. filter ur_is_system (t_users (db w')) = [r] \<and> ur_iss r = url \<and> ur_sub r = SystemSub"
    using one_system_user [OF inv' r(1)] r by blast
  show "faults w' = [] \<longrightarrow> fst (GetSystemUser w') = Inr (url, SystemSub)"
    using r by (simp add: GetSystemUser_def try_db_def db_query_row_eq ok_def)
  show "\<forall>u2 w2. EnsureSystemUser url w' = (Inr u2, w2) \<longrightarrow> db w2 = db w'"
    using r by (auto elim!: EnsureSystemUser_success)
  show "\<forall>old. find_system (db w) = Some old \<and> ur_iss old \<noteq> url \<longrightarrow>
            (\<forall>q \<in> set (t_cert_requests (db w')). \<not> (cr_owner_iss q = ur_iss old \<and> cr_owner_sub q = SystemSub)) \<and>
            (\<forall>e \<in> set (t_cert_events (db w')).
               \<not> (ce_requester_iss e = ur_iss old \<and> ce_requester_sub e = SystemSub) \<and>
               \<not> (ce_reviewer_iss e = ur_iss old \<and> ce_reviewer_sub e = SystemSub))"
    using assms(2) by (cases rule: EnsureSystemUser_success) (simp_all add: ball_upd_where moved_system_user_def)
qed

definition example_system_world :: world where
  "example_system_world = exec_user_call (CallEnsureSystemUser ''https://old'') \<lparr>db = empty_database, now = 3, faults = []\<rparr>"

lemma example_system_run:
  "\<exists>u w'. EnsureSystemUser ''https://new'' example_system_world = (Inr u, w') \<and> faults w' = []"
  by (simp add: example_system_world_def EnsureSystemUser_def ensure_system_user_body_def create_system_user_def
      move_system_user_def with_tx_def db_query_eq db_query_row_eq try_db_def roundtrip_def ok_def find_system_def
      sql_insert_user_def sql_update_system_user_def sql_move_request_owner_def sql_move_event_requester_def
      sql_move_event_reviewer_def empty_database_def pop_fault_def next_fault_def find_user_def user_groups_def
      count_where_def Let_def)

theorem system_user_established_witness:
  "\<exists>u w'. EnsureSystemUser ''https://new'' example_system_world = (Inr u, w') \<and>
     fst (GetSystemUser w') = Inr (''https://new'', SystemSub)"
proof -
  have "user_reachable (db example_system_world)"
    unfolding example_system_world_def by (rule user_reachable.call) (simp add: user_reachable.start)
  with example_system_run system_user_established show ?thesis by fast
qed

end
