(* ===== verification/Cert_Store.thy ===== *)
theory Cert_Store
  imports User_Store
begin

text \<open>
  Certificate requests: the Go types of \<open>internal/models/certificate.go\<close> and the queries on the
  tables \<open>certificate_requests\<close> and \<open>certificate_events\<close> of
  \<open>internal/storage/certificate_queries.go\<close>, with the invariants of the two tables: ids are
  unique, every event belongs to a request, and the events of a request are its audit trail,
  whose last entry is the request's status.
\<close>

section \<open>Models\<close>

record certificate_event =
  ev_id :: int
  ev_request_id :: int
  ev_requester_iss :: string
  ev_requester_sub :: string
  ev_requester_username :: string
  ev_requester_display_name :: string
  ev_reviewer_iss :: string
  ev_reviewer_sub :: string
  ev_reviewer_username :: string
  ev_reviewer_display_name :: string
  ev_new_status :: cert_status
  ev_review_notes :: string
  ev_created_at :: time

record certificate_request =
  req_id :: int
  req_owner_iss :: string
  req_owner_sub :: string
  req_owner_username :: string
  req_owner_display_name :: string
  req_message :: string
  req_events :: "certificate_event list"
  req_common_name :: string
  req_dns_names :: "string list"
  req_ous :: "string list"
  req_validity_days :: int
  req_status :: cert_status
  req_requested_at :: time
  req_identifier :: "string option"
  req_metadata :: "(string \<times> string) list option"
  req_issued_at :: "time option"
  req_expires_at :: "time option"
  req_serial :: "string option"
  req_pem :: "string option"

record paginated_cert_result =
  pg_requests :: "certificate_request list"
  pg_total :: int
  pg_limit :: int
  pg_offset :: int
  pg_has_more :: bool

text \<open>The status strings; any other string is \<open>StatusOther\<close>.\<close>

definition cert_status_of :: "string \<Rightarrow> cert_status" where
  "cert_status_of s =
     (if s = ''awaiting_review'' then StatusAwaitingReview
      else if s = ''approved'' then StatusApproved
      else if s = ''rejected'' then StatusRejected
      else if s = ''pending'' then StatusPending
      else if s = ''issued'' then StatusIssued
      else if s = ''failed'' then StatusFailed
      else if s = ''completed'' then StatusCompleted
      else StatusOther s)"

primrec cert_status_text :: "cert_status \<Rightarrow> string" where
  "cert_status_text StatusAwaitingReview = ''awaiting_review''"
| "cert_status_text StatusApproved = ''approved''"
| "cert_status_text StatusRejected = ''rejected''"
| "cert_status_text StatusPending = ''pending''"
| "cert_status_text StatusIssued = ''issued''"
| "cert_status_text StatusFailed = ''failed''"
| "cert_status_text StatusCompleted = ''completed''"
| "cert_status_text (StatusOther s) = s"

lemma cert_status_text_of [simp]: "cert_status_text (cert_status_of s) = s"
  by (simp add: cert_status_of_def)

definition validTransitions :: "cert_status \<Rightarrow> cert_status list option" where
  "validTransitions s =
     (case s of
        StatusAwaitingReview \<Rightarrow> Some [StatusApproved, StatusRejected]
      | StatusApproved \<Rightarrow> Some [StatusPending]
      | StatusPending \<Rightarrow> Some [StatusIssued, StatusFailed]
      | StatusIssued \<Rightarrow> Some [StatusCompleted]
      | _ \<Rightarrow> None)"

definition CanTransitionTo :: "cert_status \<Rightarrow> cert_status \<Rightarrow> bool" where
  "CanTransitionTo s next =
     (case validTransitions s of None \<Rightarrow> False | Some allowed \<Rightarrow> next \<in> set allowed)"

definition GetValidTransitions :: "cert_status \<Rightarrow> cert_status list" where
  "GetValidTransitions s = (case validTransitions s of None \<Rightarrow> [] | Some allowed \<Rightarrow> allowed)"

definition IsTerminal :: "cert_status \<Rightarrow> bool" where
  "IsTerminal s \<longleftrightarrow> s = StatusRejected \<or> s = StatusFailed \<or> s = StatusCompleted"

definition RequiresAction :: "cert_status \<Rightarrow> bool" where
  "RequiresAction s \<longleftrightarrow> s = StatusAwaitingReview \<or> s = StatusIssued"

lemma IsTerminal_no_transition: "IsTerminal s \<Longrightarrow> \<not> CanTransitionTo s t"
  by (auto simp: IsTerminal_def CanTransitionTo_def validTransitions_def)

section \<open>Scanning rows\<close>

definition scan_request :: "cert_row \<Rightarrow> certificate_request" where
  "scan_request r =
     \<lparr>req_id = cr_id r, req_owner_iss = cr_owner_iss r, req_owner_sub = cr_owner_sub r,
      req_owner_username = '''', req_owner_display_name = '''',
      req_message = cr_message r, req_events = [], req_common_name = cr_common_name r,
      req_dns_names = cr_dns_names r, req_ous = cr_ous r, req_validity_days = cr_validity_days r,
      req_status = cr_status r, req_requested_at = cr_requested_at r,
      req_identifier = cr_identifier r, req_metadata = cr_metadata r,
      req_issued_at = cr_issued_at r, req_expires_at = cr_expires_at r, req_serial = cr_serial r,
      req_pem = cr_pem r\<rparr>"

definition scan_event :: "cert_event_row \<Rightarrow> certificate_event" where
  "scan_event e =
     \<lparr>ev_id = ce_id e, ev_request_id = ce_request_id e,
      ev_requester_iss = ce_requester_iss e, ev_requester_sub = ce_requester_sub e,
      ev_requester_username = '''', ev_requester_display_name = '''',
      ev_reviewer_iss = ce_reviewer_iss e, ev_reviewer_sub = ce_reviewer_sub e,
      ev_reviewer_username = '''', ev_reviewer_display_name = '''',
      ev_new_status = ce_new_status e, ev_review_notes = ce_notes e, ev_created_at = ce_created_at e\<rparr>"

definition find_request :: "int \<Rightarrow> database \<Rightarrow> cert_row option" where
  "find_request i d = find (\<lambda>r. cr_id r = i) (t_cert_requests d)"

definition events_of :: "int \<Rightarrow> database \<Rightarrow> cert_event_row list" where
  "events_of i d = filter (\<lambda>e. ce_request_id e = i) (t_cert_events d)"

text \<open>\<open>ORDER BY col DESC\<close> on a time column; rows with the same time keep the table's order.\<close>

definition order_desc :: "('r \<Rightarrow> time) \<Rightarrow> 'r list \<Rightarrow> 'r list" where
  "order_desc key rows = sort_key (\<lambda>r. - key r) rows"

section \<open>Creating and reading\<close>

definition sql_insert_cert_request ::
  "string \<Rightarrow> string \<Rightarrow> string \<Rightarrow> cert_status \<Rightarrow> string \<Rightarrow> string list \<Rightarrow> string list \<Rightarrow> int
    \<Rightarrow> time \<Rightarrow> database \<Rightarrow> int result \<times> database" where
  "sql_insert_cert_request sub iss commonName status message dnsNames ous validityDays t d =
     (let i = sq_cert_requests (seqs d);
          d1 = d\<lparr>seqs := (seqs d)\<lparr>sq_cert_requests := i + 1\<rparr>\<rparr>
      in if iss = '''' \<or> sub = ''''
         then (Inl (check_violation ''certificate_requests_owner_not_empty''), d1)
         else (Inr i, d1\<lparr>t_cert_requests := t_cert_requests d @
                [\<lparr>cr_id = i, cr_owner_iss = iss, cr_owner_sub = sub, cr_message = message,
                  cr_common_name = commonName, cr_dns_names = dnsNames, cr_ous = ous,
                  cr_validity_days = validityDays, cr_status = status, cr_requested_at = t,
                  cr_identifier = None, cr_metadata = None, cr_issued_at = None,
                  cr_expires_at = None, cr_serial = None, cr_pem = None\<rparr>]\<rparr>))"

definition GetCertificateRequestByID :: "int \<Rightarrow> ('w, certificate_request) dbop" where
  "GetCertificateRequestByID i =
     try_db (db_query_row (\<lambda>d. map_option scan_request (find_request i d)))
       (\<lambda>e. if errors_Is e ErrNoRows then Sentinel CertificateRequestNotFoundError
             else wrap ''failed to get certificate request by id: '' e)
       (\<lambda>req. try_db (db_query (\<lambda>d. map scan_event (events_of i d)))
          (wrap (''failed to get events for certificate request '' @ show_int i @ '': ''))
          (\<lambda>events. ok (req\<lparr>req_events := events\<rparr>)))"

definition CreateCertificateRequest ::
  "string \<Rightarrow> string \<Rightarrow> string \<Rightarrow> cert_status \<Rightarrow> string \<Rightarrow> string list \<Rightarrow> string list \<Rightarrow> int
    \<Rightarrow> ('w, certificate_request) dbop" where
  "CreateCertificateRequest sub iss commonName status message dnsNames ous validityDays =
     try_db (roundtrip (sql_insert_cert_request sub iss commonName status message dnsNames ous validityDays))
       (wrap ''failed to create certificate request: '')
       GetCertificateRequestByID"

text \<open>
  The loop over the event rows of a list query: \<open>requestMap\<close> points at the request with the
  event's id, whose \<open>Events\<close> slice grows. Ids are the table's primary key, so at most one
  request has a given id.
\<close>

definition append_event :: "certificate_event \<Rightarrow> certificate_request list \<Rightarrow> certificate_request list" where
  "append_event e reqs =
     map (\<lambda>r. if req_id r = ev_request_id e then r\<lparr>req_events := req_events r @ [e]\<rparr> else r) reqs"

fun attach_events :: "certificate_event list \<Rightarrow> certificate_request list \<Rightarrow> certificate_request list" where
  "attach_events [] reqs = reqs"
| "attach_events (e # es) reqs = attach_events es (append_event e reqs)"

text \<open>\<open>WHERE certificate_request_id = ANY(ids) ORDER BY certificate_request_id, created_at\<close>\<close>

definition events_any :: "int list \<Rightarrow> database \<Rightarrow> cert_event_row list" where
  "events_any ids d =
     sort_key (\<lambda>e. ce_request_id e)
       (sort_key ce_created_at (filter (\<lambda>e. ce_request_id e \<in> set ids) (t_cert_events d)))"

definition GetCertificateRequests :: "('w, certificate_request list) dbop" where
  "GetCertificateRequests =
     try_db (db_query (\<lambda>d. map scan_request (order_desc cr_requested_at (t_cert_requests d))))
       (wrap ''failed to get certificate requests: '')
       (\<lambda>requests.
          if requests = [] then ok requests
          else try_db (db_query (\<lambda>d. map scan_event (events_any (map req_id requests) d)))
                 (wrap ''failed to get events for certificate requests: '')
                 (\<lambda>events. ok (attach_events events requests)))"

text \<open>
  \<open>GetCertificateRequestsByUser\<close> joins the owner, and for the events the requester and the
  reviewer, with \<open>users\<close>: an inner join, so a row whose person is not in \<open>users\<close> is dropped.
\<close>

definition join_owner :: "database \<Rightarrow> cert_row \<Rightarrow> certificate_request list" where
  "join_owner d r =
     (case find_user (cr_owner_iss r) (cr_owner_sub r) d of
        None \<Rightarrow> []
      | Some u \<Rightarrow> [(scan_request r)\<lparr>req_owner_username := ur_username u,
                     req_owner_display_name := ur_display_name u\<rparr>])"

definition join_people :: "database \<Rightarrow> cert_event_row \<Rightarrow> certificate_event list" where
  "join_people d e =
     (case (find_user (ce_requester_iss e) (ce_requester_sub e) d,
            find_user (ce_reviewer_iss e) (ce_reviewer_sub e) d) of
        (Some q, Some v) \<Rightarrow>
          [(scan_event e)\<lparr>ev_requester_username := ur_username q,
             ev_requester_display_name := ur_display_name q,
             ev_reviewer_username := ur_username v, ev_reviewer_display_name := ur_display_name v\<rparr>]
      | _ \<Rightarrow> [])"

definition GetCertificateRequestsByUser ::
  "string \<Rightarrow> string \<Rightarrow> ('w, certificate_request list) dbop" where
  "GetCertificateRequestsByUser sub iss =
     try_db (db_query (\<lambda>d. concat (map (join_owner d) (order_desc cr_requested_at
                (filter (\<lambda>r. cr_owner_sub r = sub \<and> cr_owner_iss r = iss) (t_cert_requests d))))))
       (wrap (''failed to get certificate requests for user '' @ iss @ ''/'' @ sub @ '': ''))
       (\<lambda>requests.
          if requests = [] then ok requests
          else try_db (db_query (\<lambda>d. concat (map (join_people d) (events_any (map req_id requests) d))))
                 (wrap ''failed to get events for certificate requests: '')
                 (\<lambda>events. ok (attach_events events requests)))"

definition clamp_limit :: "int \<Rightarrow> int" where
  "clamp_limit l = (let l = (if l \<le> 0 then 20 else l) in if l > 100 then 100 else l)"

definition GetCertificateRequestsPaginated ::
  "int \<Rightarrow> int \<Rightarrow> ('w, paginated_cert_result) dbop" where
  "GetCertificateRequestsPaginated limit0 offset0 =
     (let limit = clamp_limit limit0; off = (if offset0 < 0 then 0 else offset0) in
      try_db (db_query (\<lambda>d. int (length (t_cert_requests d))))
        (wrap ''failed to get total count: '')
        (\<lambda>total. try_db (db_query (\<lambda>d. map scan_request (take (nat limit) (drop (nat off)
                    (order_desc cr_requested_at (t_cert_requests d))))))
           (wrap ''failed to get certificate requests: '')
           (\<lambda>requests.
              (let result = \<lparr>pg_requests = requests, pg_total = total, pg_limit = limit,
                             pg_offset = off, pg_has_more = off + int (length requests) < total\<rparr> in
               if requests = [] then ok result
               else try_db (db_query (\<lambda>d. map scan_event (events_any (map req_id requests) d)))
                      (wrap ''failed to get events for certificate requests: '')
                      (\<lambda>events. ok (result\<lparr>pg_requests := attach_events events requests\<rparr>))))))"

definition GetApprovedCertificateRequests :: "('w, certificate_request list) dbop" where
  "GetApprovedCertificateRequests =
     try_db (db_query (\<lambda>d. map scan_request (sort_key cr_requested_at
               (filter (\<lambda>r. cr_status r = StatusApproved) (t_cert_requests d)))))
       (wrap ''failed to get approved requests: '') ok"

definition GetPendingCertificateRequests :: "('w, certificate_request list) dbop" where
  "GetPendingCertificateRequests =
     try_db (db_query (\<lambda>d. map scan_request (sort_key cr_requested_at
               (filter (\<lambda>r. cr_status r = StatusPending \<and> cr_identifier r \<noteq> None)
                 (t_cert_requests d)))))
       (wrap ''failed to get pending requests: '') ok"

section \<open>Updating\<close>

definition sql_set_status :: "cert_status \<Rightarrow> int \<Rightarrow> time \<Rightarrow> database \<Rightarrow> nat result \<times> database" where
  "sql_set_status st i t d =
     (Inr (count_where (\<lambda>r. cr_id r = i) (t_cert_requests d)),
      d\<lparr>t_cert_requests := upd_where (\<lambda>r. cr_id r = i) (\<lambda>r. r\<lparr>cr_status := st\<rparr>) (t_cert_requests d)\<rparr>)"

definition sql_insert_cert_event ::
  "int \<Rightarrow> string \<Rightarrow> string \<Rightarrow> string \<Rightarrow> string \<Rightarrow> cert_status \<Rightarrow> string
    \<Rightarrow> time \<Rightarrow> database \<Rightarrow> nat result \<times> database" where
  "sql_insert_cert_event i qiss qsub viss vsub st notes t d =
     (let n = sq_cert_events (seqs d); d1 = d\<lparr>seqs := (seqs d)\<lparr>sq_cert_events := n + 1\<rparr>\<rparr> in
      if viss = '''' \<or> vsub = '''' then (Inl (check_violation ''certificate_events_reviewer_not_empty''), d1)
      else if qiss = '''' \<or> qsub = '''' then (Inl (check_violation ''certificate_events_requester_not_empty''), d1)
      else if find_request i d = None then (Inl (fk_violation ''certificate_events_certificate_request_id_fkey''), d1)
      else (Inr 1, d1\<lparr>t_cert_events := t_cert_events d @
             [\<lparr>ce_id = n, ce_request_id = i, ce_requester_iss = qiss, ce_requester_sub = qsub,
               ce_reviewer_iss = viss, ce_reviewer_sub = vsub, ce_new_status = st, ce_notes = notes,
               ce_created_at = t\<rparr>]\<rparr>))"

definition UpdateCertificateRequestStatus ::
  "int \<Rightarrow> cert_status \<Rightarrow> string \<Rightarrow> string \<Rightarrow> string \<Rightarrow> ('w, unit) dbop" where
  "UpdateCertificateRequestStatus requestId newStatus reviewerIss reviewerSub notes =
     with_tx (wrap ''transaction start failed: '')
       (try_db (db_query_row (find_request requestId))
          (wrap (''failed to get current status for certificate request '' @ show_int requestId @ '': ''))
          (\<lambda>r. try_db (roundtrip (sql_set_status newStatus requestId))
             (wrap (''failed to update status for certificate request '' @ show_int requestId @ '': ''))
             (\<lambda>_. try_db (roundtrip (sql_insert_cert_event requestId (cr_owner_iss r) (cr_owner_sub r)
                              reviewerIss reviewerSub newStatus notes))
                (wrap (''failed to insert event for certificate request '' @ show_int requestId @ '': ''))
                (\<lambda>_. ok ()))))
       id"

definition sql_set_metadata ::
  "int \<Rightarrow> string \<Rightarrow> (string \<times> string) list option \<Rightarrow> time \<Rightarrow> database \<Rightarrow> nat result \<times> database" where
  "sql_set_metadata i identifier metadata t d =
     (Inr (count_where (\<lambda>r. cr_id r = i) (t_cert_requests d)),
      d\<lparr>t_cert_requests := upd_where (\<lambda>r. cr_id r = i)
          (\<lambda>r. r\<lparr>cr_identifier := Some identifier, cr_metadata := metadata\<rparr>) (t_cert_requests d)\<rparr>)"

definition UpdateCertificateMetadata ::
  "int \<Rightarrow> string \<Rightarrow> (string \<times> string) list option \<Rightarrow> ('w, unit) dbop" where
  "UpdateCertificateMetadata requestID identifier metadata =
     try_db (roundtrip (sql_set_metadata requestID identifier metadata))
       (wrap (''failed to update certificate metadata for request '' @ show_int requestID @ '': ''))
       (\<lambda>n. if n = 0 then fail (Errorf (''certificate request '' @ show_int requestID @ '' not found''))
             else ok ())"

definition sql_set_issued ::
  "int \<Rightarrow> string \<Rightarrow> string \<Rightarrow> time \<Rightarrow> time \<Rightarrow> time \<Rightarrow> database \<Rightarrow> nat result \<times> database" where
  "sql_set_issued i certPEM serial issuedAt expiresAt t d =
     (Inr (count_where (\<lambda>r. cr_id r = i) (t_cert_requests d)),
      d\<lparr>t_cert_requests := upd_where (\<lambda>r. cr_id r = i)
          (\<lambda>r. r\<lparr>cr_status := StatusIssued, cr_pem := Some certPEM, cr_serial := Some serial,
                 cr_issued_at := Some issuedAt, cr_expires_at := Some expiresAt\<rparr>)
          (t_cert_requests d)\<rparr>)"

definition UpdateCertificateRequestIssued ::
  "int \<Rightarrow> string \<Rightarrow> string \<Rightarrow> time \<Rightarrow> time \<Rightarrow> string \<Rightarrow> string \<Rightarrow> ('w, unit) dbop" where
  "UpdateCertificateRequestIssued requestID certPEM serial issuedAt expiresAt sysIss sysSub =
     with_tx (wrap ''transaction start failed: '')
       (try_db (db_query_row (find_request requestID))
          (wrap ''failed to get request owner: '')
          (\<lambda>r. try_db (roundtrip (sql_set_issued requestID certPEM serial issuedAt expiresAt))
             (wrap ''failed to update certificate to issued: '')
             (\<lambda>n. if n = 0 then fail (Errorf (''certificate request '' @ show_int requestID @ '' not found''))
                   else try_db (roundtrip (sql_insert_cert_event requestID (cr_owner_iss r) (cr_owner_sub r)
                                  sysIss sysSub StatusIssued ''Certificate issued by cert-manager''))
                     (wrap ''failed to insert issued event: '') (\<lambda>_. ok ()))))
       id"

lemma scan_request_sel [simp]:
  "req_id (scan_request r) = cr_id r" "req_owner_iss (scan_request r) = cr_owner_iss r"
  "req_owner_sub (scan_request r) = cr_owner_sub r" "req_status (scan_request r) = cr_status r"
  "req_identifier (scan_request r) = cr_identifier r" "req_events (scan_request r) = []"
  "req_pem (scan_request r) = cr_pem r" "req_serial (scan_request r) = cr_serial r"
  "req_requested_at (scan_request r) = cr_requested_at r"
  by (simp_all add: scan_request_def)

lemma scan_event_sel [simp]:
  "ev_id (scan_event e) = ce_id e" "ev_request_id (scan_event e) = ce_request_id e"
  "ev_new_status (scan_event e) = ce_new_status e" "ev_created_at (scan_event e) = ce_created_at e"
  by (simp_all add: scan_event_def)

subsection \<open>What the updates do\<close>

definition apply_status ::
  "int \<Rightarrow> cert_status \<Rightarrow> string \<Rightarrow> string \<Rightarrow> string \<Rightarrow> cert_row \<Rightarrow> time \<Rightarrow> database \<Rightarrow> database" where
  "apply_status i st viss vsub notes r t d =
     snd (sql_insert_cert_event i (cr_owner_iss r) (cr_owner_sub r) viss vsub st notes t
       (snd (sql_set_status st i t d)))"

definition apply_issued ::
  "int \<Rightarrow> string \<Rightarrow> string \<Rightarrow> time \<Rightarrow> time \<Rightarrow> string \<Rightarrow> string \<Rightarrow> cert_row \<Rightarrow> time \<Rightarrow> database \<Rightarrow> database" where
  "apply_issued i pem serial ia ea viss vsub r t d =
     snd (sql_insert_cert_event i (cr_owner_iss r) (cr_owner_sub r) viss vsub StatusIssued
            ''Certificate issued by cert-manager'' t
       (snd (sql_set_issued i pem serial ia ea t d)))"

lemma find_request_set_status [simp]:
  "find_request i (snd (sql_set_status st j t d)) =
     map_option (\<lambda>r. if cr_id r = j then r\<lparr>cr_status := st\<rparr> else r) (find_request i d)"
  by (simp add: find_request_def sql_set_status_def find_upd_where)

lemma find_request_set_issued [simp]:
  "find_request i (snd (sql_set_issued j pem serial ia ea t d)) =
     map_option (\<lambda>r. if cr_id r = j then r\<lparr>cr_status := StatusIssued, cr_pem := Some pem,
        cr_serial := Some serial, cr_issued_at := Some ia, cr_expires_at := Some ea\<rparr> else r) (find_request i d)"
  by (simp add: find_request_def sql_set_issued_def find_upd_where)

lemma UpdateCertificateRequestStatus_success:
  assumes "UpdateCertificateRequestStatus i st viss vsub notes w = (Inr x, w')"
  obtains r where "find_request i (db w) = Some r" and "viss \<noteq> []" and "vsub \<noteq> []"
    and "cr_owner_iss r \<noteq> []" and "cr_owner_sub r \<noteq> []"
    and "db w' = apply_status i st viss vsub notes r (now w) (db w)" and "now w' = now w"
  using assms unfolding UpdateCertificateRequestStatus_def
  by (auto elim!: success_elims simp: apply_status_def sql_insert_cert_event_def
            sql_set_status_def Let_def split: if_splits)

lemma UpdateCertificateRequestIssued_success:
  assumes "UpdateCertificateRequestIssued i pem serial ia ea viss vsub w = (Inr x, w')"
  obtains r where "find_request i (db w) = Some r" and "viss \<noteq> []" and "vsub \<noteq> []"
    and "cr_owner_iss r \<noteq> []" and "cr_owner_sub r \<noteq> []"
    and "db w' = apply_issued i pem serial ia ea viss vsub r (now w) (db w)" and "now w' = now w"
  using assms unfolding UpdateCertificateRequestIssued_def
  by (auto elim!: success_elims simp: apply_issued_def sql_insert_cert_event_def
            sql_set_issued_def Let_def split: if_splits)


subsection \<open>Invariants of the two tables\<close>

definition audit_status :: "int \<Rightarrow> database \<Rightarrow> cert_status" where
  "audit_status i d =
     (if events_of i d = [] then StatusAwaitingReview else ce_new_status (last (events_of i d)))"

definition cert_wf :: "database \<Rightarrow> bool" where
  "cert_wf d \<longleftrightarrow>
     distinct (map cr_id (t_cert_requests d)) \<and>
     (\<forall>r \<in> set (t_cert_requests d). cr_id r < sq_cert_requests (seqs d)) \<and>
     (\<forall>e \<in> set (t_cert_events d). ce_request_id e \<in> cr_id ` set (t_cert_requests d))"

definition audit_ok :: "database \<Rightarrow> bool" where
  "audit_ok d \<longleftrightarrow> (\<forall>r \<in> set (t_cert_requests d). cr_status r = audit_status (cr_id r) d)"

definition cert_inv :: "database \<Rightarrow> bool" where
  "cert_inv d \<longleftrightarrow> cert_wf d \<and> audit_ok d"

lemma cert_inv_empty: "cert_inv empty_database"
  by (simp add: cert_inv_def cert_wf_def audit_ok_def empty_database_def)

lemma cert_inv_cong:
  "t_cert_requests d' = t_cert_requests d \<Longrightarrow> t_cert_events d' = t_cert_events d \<Longrightarrow>
   seq_le (seqs d) (seqs d') \<Longrightarrow> cert_inv d \<Longrightarrow> cert_inv d'"
  by (auto simp: cert_inv_def cert_wf_def audit_ok_def audit_status_def events_of_def seq_le_def)

lemma cert_inv_rollback: "cert_inv d \<Longrightarrow> seq_le (seqs d) (seqs d') \<Longrightarrow> cert_inv (rollback d d')"
  by (erule cert_inv_cong [rotated -1]) simp_all

lemma events_of_fresh:
  assumes "cert_wf d" and "sq_cert_requests (seqs d) \<le> i"
  shows "events_of i d = []"
proof -
  have "ce_request_id e \<noteq> i" if e: "e \<in> set (t_cert_events d)" for e
  proof -
    from assms(1) e obtain r where r: "r \<in> set (t_cert_requests d)" and "ce_request_id e = cr_id r"
      by (auto simp: cert_wf_def)
    moreover from assms(1) r have "cr_id r < sq_cert_requests (seqs d)" by (simp add: cert_wf_def)
    ultimately show ?thesis using assms(2) by simp
  qed
  then show ?thesis by (simp add: events_of_def filter_empty_conv)
qed

lemma cert_inv_insert:
  assumes "cert_inv d"
    and "sql_insert_cert_request sub iss cn StatusAwaitingReview msg dns ous days t d = (r, d')"
  shows "cert_inv d'"
proof -
  let ?i = "sq_cert_requests (seqs d)"
  have no_events: "events_of ?i d = []"
    using assms(1) by (auto simp: cert_inv_def intro: events_of_fresh)
  have ids: "cr_id q < ?i" if "q \<in> set (t_cert_requests d)" for q
    using assms(1) that by (simp add: cert_inv_def cert_wf_def)
  have fresh: "?i \<notin> cr_id ` set (t_cert_requests d)"
  proof
    assume "?i \<in> cr_id ` set (t_cert_requests d)"
    then obtain q where "q \<in> set (t_cert_requests d)" and "cr_id q = ?i" by auto
    with ids [of q] show False by simp
  qed
  have "cert_wf d'"
    using assms fresh
    by (auto simp: sql_insert_cert_request_def cert_inv_def cert_wf_def Let_def less_imp_le
        dest: ids split: if_splits)
  moreover have "audit_ok d'"
    using assms no_events
    by (auto simp: sql_insert_cert_request_def cert_inv_def audit_ok_def Let_def
        audit_status_def events_of_def split: if_splits)
  ultimately show ?thesis by (simp add: cert_inv_def)
qed

lemma cert_inv_apply_event:
  assumes inv: "cert_inv d" and f: "\<And>r. cr_id (f r) = cr_id r \<and> cr_status (f r) = st"
    and "find_request i d = Some r"
    and d': "t_cert_requests d' = upd_where (\<lambda>r. cr_id r = i) f (t_cert_requests d)"
      "t_cert_events d' = t_cert_events d @ [e]" "ce_request_id e = i" "ce_new_status e = st"
      "sq_cert_requests (seqs d') = sq_cert_requests (seqs d)"
  shows "cert_inv d'"
proof -
  have ids_map: "map cr_id (t_cert_requests d') = map cr_id (t_cert_requests d)"
    using f by (simp add: d' map_upd_where)
  then have ids: "cr_id ` set (t_cert_requests d') = cr_id ` set (t_cert_requests d)"
    by (metis set_map)
  have "i \<in> cr_id ` set (t_cert_requests d)"
    using find_SomeD [OF assms(3) [unfolded find_request_def]] by blast
  with inv f ids ids_map have wf: "cert_wf d'"
    by (auto simp: cert_inv_def cert_wf_def set_upd_where d')
  have "audit_status j d' = (if j = i then st else audit_status j d)" for j
    by (auto simp: audit_status_def events_of_def d')
  with inv f have "audit_ok d'"
    by (auto simp: cert_inv_def audit_ok_def d' set_upd_where)
  with wf show ?thesis by (simp add: cert_inv_def)
qed

lemma cert_inv_apply_status:
  assumes "cert_inv d" and "find_request i d = Some r" and "viss \<noteq> []" and "vsub \<noteq> []"
    and "cr_owner_iss r \<noteq> []" and "cr_owner_sub r \<noteq> []"
  shows "cert_inv (apply_status i st viss vsub notes r t d)"
  by (rule cert_inv_apply_event [OF assms(1) _ assms(2), where f = "\<lambda>r. r\<lparr>cr_status := st\<rparr>" and st = st])
     (use assms in \<open>auto simp: apply_status_def sql_insert_cert_event_def sql_set_status_def Let_def
        find_request_def find_upd_where\<close>)

lemma cert_inv_apply_issued:
  assumes "cert_inv d" and "find_request i d = Some r" and "viss \<noteq> []" and "vsub \<noteq> []"
    and "cr_owner_iss r \<noteq> []" and "cr_owner_sub r \<noteq> []"
  shows "cert_inv (apply_issued i pem serial ia ea viss vsub r t d)"
  by (rule cert_inv_apply_event [OF assms(1) _ assms(2), where st = StatusIssued and
        f = "\<lambda>r. r\<lparr>cr_status := StatusIssued, cr_pem := Some pem, cr_serial := Some serial,
                 cr_issued_at := Some ia, cr_expires_at := Some ea\<rparr>"])
     (use assms in \<open>auto simp: apply_issued_def sql_insert_cert_event_def sql_set_issued_def Let_def
        find_request_def find_upd_where\<close>)


lemma cert_inv_metadata:
  assumes "cert_inv d" and "sql_set_metadata i ident md t d = (r, d')"
  shows "cert_inv d'"
proof -
  from assms(2) have d': "d' = d\<lparr>t_cert_requests := upd_where (\<lambda>r. cr_id r = i)
      (\<lambda>r. r\<lparr>cr_identifier := Some ident, cr_metadata := md\<rparr>) (t_cert_requests d)\<rparr>"
    by (simp add: sql_set_metadata_def)
  have "events_of j d' = events_of j d" for j by (simp add: d' events_of_def)
  with assms(1) show ?thesis
    by (auto simp add: cert_inv_def cert_wf_def audit_ok_def audit_status_def ball_upd_where d'
        map_upd_where image_upd_where)
qed

lemma keeps_metadata: "keeps cert_inv (UpdateCertificateMetadata i ident md)"
  unfolding UpdateCertificateMetadata_def
  by (intro keeps_try keeps_roundtrip keeps_if keeps_ok keeps_fail) (rule cert_inv_metadata)

section \<open>Reachable tables\<close>

text \<open>
  The writes the program makes to the two tables: the handler creates requests in
  \<open>awaiting_review\<close>, reviews and the jobs set a status, record metadata or store the issued
  certificate. A run is any sequence of calls, each in its own world (clock and fault schedule),
  whether it succeeds or fails, interleaved with steps that keep the ids, the statuses and the
  events' statuses, as the renaming of the system user does.
\<close>

datatype cert_call =
    CallCreate string string string string "string list" "string list" int
  | CallStatus int cert_status string string string
  | CallMetadata int string "(string \<times> string) list option"
  | CallIssued int string string time time string string

fun exec_cert_call :: "cert_call \<Rightarrow> 'w world_scheme \<Rightarrow> 'w world_scheme" where
  "exec_cert_call (CallCreate sub iss cn msg dns ous days) w =
     snd (CreateCertificateRequest sub iss cn StatusAwaitingReview msg dns ous days w)"
| "exec_cert_call (CallStatus i st viss vsub notes) w =
     snd (UpdateCertificateRequestStatus i st viss vsub notes w)"
| "exec_cert_call (CallMetadata i ident md) w = snd (UpdateCertificateMetadata i ident md w)"
| "exec_cert_call (CallIssued i pem serial ia ea viss vsub) w =
     snd (UpdateCertificateRequestIssued i pem serial ia ea viss vsub w)"

inductive cert_reachable :: "database \<Rightarrow> bool" where
  start: "cert_reachable empty_database"
| call: "cert_reachable (db w) \<Longrightarrow> cert_reachable (db (exec_cert_call c (w :: world)))"
| other: "cert_reachable d \<Longrightarrow>
    map (\<lambda>r. (cr_id r, cr_status r)) (t_cert_requests d') = map (\<lambda>r. (cr_id r, cr_status r)) (t_cert_requests d) \<Longrightarrow>
    map (\<lambda>e. (ce_request_id e, ce_new_status e)) (t_cert_events d') =
      map (\<lambda>e. (ce_request_id e, ce_new_status e)) (t_cert_events d) \<Longrightarrow>
    seq_le (seqs d) (seqs d') \<Longrightarrow> cert_reachable d'"

lemma grows_cert_event: "grows (roundtrip (sql_insert_cert_event i a b c e st n))"
  by (rule grows_roundtrip) (auto simp: sql_insert_cert_event_def Let_def seq_le_def)

lemma grows_set_status: "grows (roundtrip (sql_set_status st i))"
  by (rule grows_roundtrip) (simp add: sql_set_status_def)

lemma grows_set_issued: "grows (roundtrip (sql_set_issued i a b c e))"
  by (rule grows_roundtrip) (simp add: sql_set_issued_def)

lemma UpdateCertificateRequestStatus_error:
  assumes "UpdateCertificateRequestStatus i st viss vsub notes w = (Inl e, w')"
  shows "db w' = rollback (db w) (db w') \<and> seq_le (seqs (db w)) (seqs (db w'))"
  using assms unfolding UpdateCertificateRequestStatus_def
  by (rule with_tx_error_grows [rotated])
     (intro grows_try grows_query grows_ok grows_cert_event grows_set_status)

lemma UpdateCertificateRequestIssued_error:
  assumes "UpdateCertificateRequestIssued i pem serial ia ea viss vsub w = (Inl e, w')"
  shows "db w' = rollback (db w) (db w') \<and> seq_le (seqs (db w)) (seqs (db w'))"
  using assms unfolding UpdateCertificateRequestIssued_def
  by (rule with_tx_error_grows [rotated])
     (intro grows_if grows_try grows_query grows_ok grows_cert_event grows_set_issued)

lemma GetCertificateRequestByID_frame [frame_simps]:
  "db (snd (GetCertificateRequestByID i w)) = db w"
  by (simp add: GetCertificateRequestByID_def try_db_def db_query_row_eq db_query_eq ok_def
      split: sum.splits option.splits prod.splits)

lemma exec_cert_call_inv: "cert_inv (db w) \<Longrightarrow> cert_inv (db (exec_cert_call c w))"
proof (cases c)
  case (CallCreate sub iss cn msg dns ous days)
  assume inv: "cert_inv (db w)"
  then show ?thesis
    using CallCreate cert_inv_insert [OF inv]
    by (auto simp: CreateCertificateRequest_def try_db_def roundtrip_def frame_simps
        split: option.splits sum.splits prod.splits)
next
  case (CallStatus i st viss vsub nt)
  assume inv: "cert_inv (db w)"
  obtain r w' where run: "UpdateCertificateRequestStatus i st viss vsub nt w = (r, w')" by fastforce
  show ?thesis
  proof (cases r)
    case (Inl e)
    with UpdateCertificateRequestStatus_error run inv cert_inv_rollback CallStatus show ?thesis
      by (metis exec_cert_call.simps(2) snd_conv)
  next
    case (Inr x)
    with run inv CallStatus show ?thesis
      by (auto elim!: UpdateCertificateRequestStatus_success intro: cert_inv_apply_status)
  qed
next
  case (CallMetadata i ident md)
  assume "cert_inv (db w)"
  then show ?thesis
    by (simp add: CallMetadata keeps_snd [OF keeps_metadata])
next
  case (CallIssued i pem serial ia ea viss vsub)
  assume inv: "cert_inv (db w)"
  obtain r w' where run: "UpdateCertificateRequestIssued i pem serial ia ea viss vsub w = (r, w')" by fastforce
  show ?thesis
  proof (cases r)
    case (Inl e)
    with UpdateCertificateRequestIssued_error run inv cert_inv_rollback CallIssued show ?thesis
      by (metis exec_cert_call.simps(4) snd_conv)
  next
    case (Inr x)
    with run inv CallIssued show ?thesis
      by (auto elim!: UpdateCertificateRequestIssued_success intro: cert_inv_apply_issued)
  qed
qed

lemma audit_status_map:
  "audit_status i d = (case filter (\<lambda>x. fst x = i) (map (\<lambda>e. (ce_request_id e, ce_new_status e)) (t_cert_events d)) of
     [] \<Rightarrow> StatusAwaitingReview | x # xs \<Rightarrow> snd (last (x # xs)))"
proof -
  have "filter (\<lambda>x. fst x = i) (map (\<lambda>e. (ce_request_id e, ce_new_status e)) (t_cert_events d)) =
        map (\<lambda>e. (ce_request_id e, ce_new_status e)) (events_of i d)"
    by (simp add: events_of_def filter_map comp_def)
  then show ?thesis by (cases "events_of i d") (auto simp: audit_status_def last_map)
qed

lemma cert_inv_map:
  "cert_inv d \<longleftrightarrow>
     (let rs = map (\<lambda>r. (cr_id r, cr_status r)) (t_cert_requests d);
          es = map (\<lambda>e. (ce_request_id e, ce_new_status e)) (t_cert_events d) in
      distinct (map fst rs) \<and> (\<forall>x \<in> set rs. fst x < sq_cert_requests (seqs d)) \<and>
      (\<forall>x \<in> set es. fst x \<in> fst ` set rs) \<and> (\<forall>x \<in> set rs. snd x = audit_status (fst x) d))"
  by (auto simp: cert_inv_def cert_wf_def audit_ok_def comp_def Let_def image_image)

lemma cert_reachable_inv: "cert_reachable d \<Longrightarrow> cert_inv d"
proof (induction rule: cert_reachable.induct)
  case (other d d')
  have "audit_status i d' = audit_status i d" for i
    by (simp add: audit_status_map other.hyps)
  with other show ?case by (fastforce simp: cert_inv_map Let_def seq_le_def)
qed (auto intro: cert_inv_empty exec_cert_call_inv)

section \<open>What the list queries return\<close>

text \<open>
  The request as \<open>GetCertificateRequestByID\<close> builds it, with its events in the order they were
  created.
\<close>

definition full_request :: "database \<Rightarrow> cert_row \<Rightarrow> certificate_request" where
  "full_request d r =
     (scan_request r)\<lparr>req_events := map scan_event (sort_key ce_created_at (events_of (cr_id r) d))\<rparr>"

lemma attach_events_eq:
  "attach_events es reqs =
     map (\<lambda>r. r\<lparr>req_events := req_events r @ filter (\<lambda>e. ev_request_id e = req_id r) es\<rparr>) reqs"
  by (induction es reqs rule: attach_events.induct) (auto simp: append_event_def)

lemma filter_events_any:
  "i \<in> set ids \<Longrightarrow> filter (\<lambda>e. ce_request_id e = i) (events_any ids d) = sort_key ce_created_at (events_of i d)"
  by (auto simp: events_any_def sort_key_stable filter_sort events_of_def intro!: arg_cong [where f = "sort_key _"]
      filter_cong)

lemma set_order_desc [simp]: "set (order_desc k rows) = set rows"
  by (simp add: order_desc_def)

lemma length_order_desc [simp]: "length (order_desc k rows) = length rows"
  by (simp add: order_desc_def)

lemma attach_events_rows:
  "attach_events (map scan_event (events_any (map req_id (map scan_request rows)) d)) (map scan_request rows) =
     map (full_request d) rows"
proof -
  have "filter (\<lambda>e. ev_request_id e = cr_id r) (map scan_event (events_any (map cr_id rows) d)) =
        map scan_event (sort_key ce_created_at (events_of (cr_id r) d))" if "r \<in> set rows" for r
    using filter_events_any [of "cr_id r" "map cr_id rows" d] that by (simp add: filter_map comp_def)
  then show ?thesis
    by (simp add: attach_events_eq full_request_def comp_def cong: map_cong)
qed

lemma GetCertificateRequests_success:
  assumes "GetCertificateRequests w = (Inr reqs, w')"
  shows "reqs = map (full_request (db w)) (order_desc cr_requested_at (t_cert_requests (db w)))"
    and "db w' = db w"
  using assms attach_events_rows [of "order_desc cr_requested_at (t_cert_requests (db w))" "db w"]
  unfolding GetCertificateRequests_def
  by (auto elim!: success_elims split: if_splits simp del: map_map)

lemma fetch_events_success:
  assumes "(if rs = [] then ok res
            else try_db (db_query (\<lambda>d. map scan_event (events_any (map req_id rs) d))) h
                   (\<lambda>events. ok (res\<lparr>pg_requests := attach_events events rs\<rparr>))) w = (Inr pg, w')"
    and "rs = map scan_request rows" and "pg_requests res = rs"
  shows "pg = res\<lparr>pg_requests := map (full_request (db w)) rows\<rparr>" and "db w' = db w"
  using assms(1) attach_events_rows [of rows "db w"] assms(2-)
  by (auto elim!: success_elims split: if_splits simp del: map_map)

definition page_rows :: "int \<Rightarrow> int \<Rightarrow> database \<Rightarrow> cert_row list" where
  "page_rows l k d =
     take (nat (clamp_limit l)) (drop (nat k) (order_desc cr_requested_at (t_cert_requests d)))"

lemma length_page_rows:
  "max 0 k + int (length (page_rows l k d)) < int (length (t_cert_requests d)) \<longleftrightarrow>
   max 0 k + clamp_limit l < int (length (t_cert_requests d))"
proof -
  have "0 < clamp_limit l" by (simp add: clamp_limit_def Let_def)
  then show ?thesis by (auto simp: page_rows_def)
qed

lemma GetCertificateRequestsPaginated_success:
  assumes "GetCertificateRequestsPaginated l k w = (Inr pg, w')"
  shows "pg = \<lparr>pg_requests = map (full_request (db w)) (page_rows l k (db w)),
               pg_total = int (length (t_cert_requests (db w))), pg_limit = clamp_limit l,
               pg_offset = max 0 k,
               pg_has_more = max 0 k + clamp_limit l < int (length (t_cert_requests (db w)))\<rparr>"
    and "db w' = db w"
proof -
  have off: "(if k < 0 then 0 else k) = max 0 k" "nat (max 0 k) = nat k" by auto
  let ?rs = "map scan_request (page_rows l k (db w))"
  have "(if ?rs = [] then ok res
         else try_db (db_query (\<lambda>d. map scan_event (events_any (map req_id ?rs) d)))
                (wrap ''failed to get events for certificate requests: '')
                (\<lambda>events. ok (res\<lparr>pg_requests := attach_events events ?rs\<rparr>))) (pop_fault (pop_fault w)) = (Inr pg, w')"
    if "res = \<lparr>pg_requests = ?rs, pg_total = int (length (t_cert_requests (db w))), pg_limit = clamp_limit l,
         pg_offset = max 0 k, pg_has_more = max 0 k + int (length ?rs) < int (length (t_cert_requests (db w)))\<rparr>"
    for res
    using assms unfolding GetCertificateRequestsPaginated_def Let_def off that page_rows_def
    by (elim try_db_InrE db_query_InrE) (simp only: pop_fault_sel)
  from fetch_events_success [OF this [OF refl] refl] length_page_rows [of k l "db w"]
  show "pg = \<lparr>pg_requests = map (full_request (db w)) (page_rows l k (db w)),
               pg_total = int (length (t_cert_requests (db w))), pg_limit = clamp_limit l,
               pg_offset = max 0 k,
               pg_has_more = max 0 k + clamp_limit l < int (length (t_cert_requests (db w)))\<rparr>"
    and "db w' = db w"
    by simp_all
qed

lemma GetCertificateRequestsByUser_success:
  assumes "GetCertificateRequestsByUser sub iss w = (Inr reqs, w')"
  shows "map req_id reqs = (if find_user iss sub (db w) = None then []
           else map cr_id (order_desc cr_requested_at
             (filter (\<lambda>r. cr_owner_sub r = sub \<and> cr_owner_iss r = iss) (t_cert_requests (db w)))))"
proof -
  let ?rows = "order_desc cr_requested_at
     (filter (\<lambda>r. cr_owner_sub r = sub \<and> cr_owner_iss r = iss) (t_cert_requests (db w)))"
  have ids: "map req_id (attach_events es rs) = map req_id rs" for es rs
    by (simp add: attach_events_eq)
  have "map req_id reqs = map req_id (concat (map (join_owner (db w)) ?rows))"
    using assms unfolding GetCertificateRequestsByUser_def
    by (auto elim!: success_elims split: if_splits simp: ids)
  moreover have "map req_id (concat (map (join_owner (db w)) rows)) =
      (if find_user iss sub (db w) = None then [] else map cr_id rows)"
    if "\<forall>r \<in> set rows. cr_owner_sub r = sub \<and> cr_owner_iss r = iss" for rows
    using that by (induction rows) (auto simp: join_owner_def)
  ultimately show ?thesis by simp
qed

lemma clamp_limit_bounds: "1 \<le> clamp_limit l \<and> clamp_limit l \<le> 100"
  by (simp add: clamp_limit_def Let_def)

lemma clamp_limit_id: "1 \<le> l \<Longrightarrow> l \<le> 100 \<Longrightarrow> clamp_limit l = l"
  by (simp add: clamp_limit_def)

lemma GetCertificateRequestsPaginated_no_faults:
  "faults w = [] \<Longrightarrow> \<exists>pg w'. GetCertificateRequestsPaginated l k w = (Inr pg, w')"
  by (simp add: GetCertificateRequestsPaginated_def try_db_def db_query_eq ok_def Let_def)

lemma GetCertificateRequestsByUser_no_faults:
  "faults w = [] \<Longrightarrow> \<exists>reqs w'. GetCertificateRequestsByUser sub iss w = (Inr reqs, w')"
  by (simp add: GetCertificateRequestsByUser_def try_db_def db_query_eq ok_def)

lemma concat_pages: "concat (map (\<lambda>k. take n (drop (k * n) xs)) [0..<m]) = take (m * n) xs"
proof (induction m)
  case (Suc m)
  have "take (m * n) xs @ take n (drop (m * n) xs) = take (Suc m * n) xs"
    by (metis add.commute mult_Suc take_add)
  with Suc show ?case by simp
qed simp

section \<open>Properties\<close>

text \<open>Example rows for the witnesses.\<close>

definition example_world :: world where
  "example_world = \<lparr>db = empty_database, now = 7, faults = []\<rparr>"

definition example_request_world :: world where
  "example_request_world =
     exec_cert_call (CallCreate ''alice'' ''https://idp'' ''alice'' ''m'' [] [] 30) example_world"

definition example_approved_world :: world where
  "example_approved_world =
     exec_cert_call (CallStatus 1 StatusApproved ''https://idp'' ''bob'' ''fine'') example_request_world"

definition example_request_row :: cert_row where
  "example_request_row =
     \<lparr>cr_id = 1, cr_owner_iss = ''https://idp'', cr_owner_sub = ''alice'', cr_message = ''m'',
      cr_common_name = ''alice'', cr_dns_names = [], cr_ous = [], cr_validity_days = 30,
      cr_status = StatusAwaitingReview, cr_requested_at = 7, cr_identifier = None, cr_metadata = None,
      cr_issued_at = None, cr_expires_at = None, cr_serial = None, cr_pem = None\<rparr>"

lemma example_request_db:
  "example_request_world = example_world\<lparr>db := empty_database\<lparr>t_cert_requests := [example_request_row],
     seqs := (seqs empty_database)\<lparr>sq_cert_requests := 2\<rparr>\<rparr>\<rparr>"
  by (simp add: example_request_world_def example_world_def empty_database_def example_request_row_def
      CreateCertificateRequest_def GetCertificateRequestByID_def sql_insert_cert_request_def
      db_query_eq db_query_row_eq try_db_def roundtrip_def next_fault_def pop_fault_def ok_def
      find_request_def events_of_def)

lemma example_approved_db:
  "t_cert_requests (db example_approved_world) = [example_request_row\<lparr>cr_status := StatusApproved\<rparr>]"
  "map ce_new_status (t_cert_events (db example_approved_world)) = [StatusApproved]"
  by (simp_all add: example_approved_world_def example_request_db UpdateCertificateRequestStatus_def
      example_world_def empty_database_def example_request_row_def with_tx_def sql_set_status_def
      sql_insert_cert_event_def db_query_eq db_query_row_eq try_db_def roundtrip_def next_fault_def
      pop_fault_def ok_def find_request_def Let_def)

lemma example_reachable:
  "cert_reachable (db example_request_world)" "cert_reachable (db example_approved_world)"
proof -
  have "cert_reachable (db example_world)"
    by (simp add: example_world_def cert_reachable.start)
  then show r: "cert_reachable (db example_request_world)"
    unfolding example_request_world_def by (rule cert_reachable.call)
  then show "cert_reachable (db example_approved_world)"
    unfolding example_approved_world_def by (rule cert_reachable.call)
qed

text \<open>
  The audit trail of a certificate request is complete. Whatever sequence of creations, status
  changes, metadata updates and issuances the program has made, with whatever database failures, a
  request's status is the status its latest event records, and \<open>awaiting_review\<close> if it has no
  event; request ids are unique.
\<close>

theorem certificate_audit_trail:
  assumes "cert_reachable d"
  shows "distinct (map cr_id (t_cert_requests d)) \<and>
         (\<forall>r \<in> set (t_cert_requests d). cr_status r =
            (if events_of (cr_id r) d = [] then StatusAwaitingReview
             else ce_new_status (last (events_of (cr_id r) d))))"
  using cert_reachable_inv [OF assms]
  by (simp add: cert_inv_def cert_wf_def audit_ok_def audit_status_def)

text \<open>Witness: a request that was created and approved.\<close>

theorem certificate_audit_trail_witness:
  "events_of 1 (db example_approved_world) \<noteq> [] \<and>
   ce_new_status (last (events_of 1 (db example_approved_world))) = StatusApproved"
  using certificate_audit_trail [OF example_reachable(2)]
  by (auto simp: example_approved_db example_request_row_def split: if_splits)

text \<open>
  \<open>UpdateCertificateRequestStatus\<close> is atomic. On an error, wherever it happened, every table
  is as before; on success exactly the request with the id has the new status and exactly one
  event is appended, with the request's owner as requester and the caller as reviewer.
\<close>

theorem update_status_atomic:
  assumes "UpdateCertificateRequestStatus i st viss vsub nt w = (res, w')"
  shows "case res of
      Inl e \<Rightarrow> db w' = (db w)\<lparr>seqs := seqs (db w')\<rparr>
    | Inr u \<Rightarrow> \<exists>r. find_request i (db w) = Some r \<and>
        t_cert_requests (db w') = upd_where (\<lambda>r. cr_id r = i) (\<lambda>r. r\<lparr>cr_status := st\<rparr>) (t_cert_requests (db w)) \<and>
        t_cert_events (db w') = t_cert_events (db w) @
          [\<lparr>ce_id = sq_cert_events (seqs (db w)), ce_request_id = i,
            ce_requester_iss = cr_owner_iss r, ce_requester_sub = cr_owner_sub r,
            ce_reviewer_iss = viss, ce_reviewer_sub = vsub, ce_new_status = st, ce_notes = nt,
            ce_created_at = now w\<rparr>]"
proof (cases res)
  case (Inl e)
  from UpdateCertificateRequestStatus_error [OF assms [unfolded Inl]]
  have "db w' = (db w)\<lparr>seqs := seqs (db w')\<rparr>" unfolding rollback_def by (rule conjunct1)
  then show ?thesis unfolding Inl sum.case .
next
  case (Inr u)
  with assms show ?thesis
    by (auto elim!: UpdateCertificateRequestStatus_success
        simp: apply_status_def sql_insert_cert_event_def sql_set_status_def Let_def
          find_request_def find_upd_where)
qed

theorem update_status_atomic_witness:
  "let (res, w') = UpdateCertificateRequestStatus 1 StatusRejected ''https://idp'' ''bob'' ''no'' example_request_world
   in is_ok res \<and> map cr_status (t_cert_requests (db w')) = [StatusRejected]"
proof -
  obtain res w' where run:
    "UpdateCertificateRequestStatus 1 StatusRejected ''https://idp'' ''bob'' ''no'' example_request_world = (res, w')"
    by fastforce
  have "is_ok res"
    using run by (auto simp: example_request_db UpdateCertificateRequestStatus_def
      example_world_def empty_database_def example_request_row_def with_tx_def sql_set_status_def
      sql_insert_cert_event_def db_query_eq db_query_row_eq try_db_def roundtrip_def next_fault_def
      pop_fault_def ok_def find_request_def Let_def)
  with update_status_atomic [OF run] run show ?thesis
    by (auto simp: is_ok_iff example_request_db example_request_row_def)
qed



text \<open>
  A page tells the truth about the rest. The page has at most 100 requests, never a negative
  offset, the total of the table, and \<open>has_more\<close> exactly when requests remain after it.
\<close>

theorem page_header_correct:
  assumes "GetCertificateRequestsPaginated l k w = (Inr pg, w')"
  shows "length (pg_requests pg) \<le> 100 \<and> 0 \<le> pg_offset pg \<and>
         pg_total pg = int (length (t_cert_requests (db w))) \<and>
         (pg_has_more pg \<longleftrightarrow> drop (nat (pg_offset pg + pg_limit pg)) (t_cert_requests (db w)) \<noteq> [])"
  using GetCertificateRequestsPaginated_success(1) [OF assms] clamp_limit_bounds [of l]
  by (auto simp: page_rows_def)

theorem page_header_correct_witness:
  "let pg = projr (fst (GetCertificateRequestsPaginated (-3) (-1) example_request_world))
   in pg_total pg = 1 \<and> \<not> pg_has_more pg"
proof -
  have faults: "faults example_request_world = []" by (simp add: example_request_db example_world_def)
  obtain pg w' where run: "GetCertificateRequestsPaginated (-3) (-1) example_request_world = (Inr pg, w')"
    using GetCertificateRequestsPaginated_no_faults [OF faults] by blast
  then show ?thesis
    using page_header_correct [OF run] GetCertificateRequestsPaginated_success(1) [OF run]
    by (simp add: example_request_db empty_database_def clamp_limit_def)
qed

text \<open>
  \<open>GetCertificateRequestsByUser\<close> lists the requests of the owner, newest first, but only when
  the owner has a row in \<open>users\<close>: the query joins \<open>users\<close>, so the requests of an owner that is
  not there, as a service account is not, are never listed.
\<close>

theorem requests_by_user_need_user_row:
  assumes "GetCertificateRequestsByUser sub iss w = (Inr reqs, w')"
  shows "map req_id reqs = (if find_user iss sub (db w) = None then []
           else map cr_id (order_desc cr_requested_at
             (filter (\<lambda>r. cr_owner_sub r = sub \<and> cr_owner_iss r = iss) (t_cert_requests (db w)))))"
  using GetCertificateRequestsByUser_success [OF assms] .

theorem requests_by_user_need_user_row_witness:
  "fst (GetCertificateRequestsByUser ''alice'' ''https://idp'' example_request_world) = Inr []"
proof -
  have faults: "faults example_request_world = []" by (simp add: example_request_db example_world_def)
  obtain reqs w' where run:
    "GetCertificateRequestsByUser ''alice'' ''https://idp'' example_request_world = (Inr reqs, w')"
    using GetCertificateRequestsByUser_no_faults [of example_request_world, OF faults] by blast
  from requests_by_user_need_user_row [OF run] run show ?thesis
    by (simp add: example_request_db empty_database_def example_world_def find_user_def)
qed

end
