(* ===== verification/Whitelist_Store.thy ===== *)
theory Whitelist_Store
  imports Cert_Store
begin

text \<open>
  The firewall IP whitelist: \<open>internal/storage/firewall_ip_whitelist_queries.go\<close>, the whitelist
  part of \<open>internal/storage/audit_queries.go\<close> and the types of
  \<open>internal/models/ip_whitelist.go\<close>, over the tables \<open>firewall_ip_whitelist_entries\<close> and
  \<open>firewall_whitelist_events\<close> of migration 003.

  The server's own types are a parameter: \<open>pg_types\<close> holds how PostgreSQL reads an \<open>INET\<close> and
  a \<open>UUID\<close> literal (\<open>None\<close> when it rejects the text), and what \<open>::text\<close> and \<open>family\<close> give
  for a stored \<open>INET\<close>. A row holds the value as read.
\<close>

record pg_types =
  inet_in :: "string \<Rightarrow> string option"
  inet_text :: "string \<Rightarrow> string"
  inet_family :: "string \<Rightarrow> int"
  uuid_in :: "string \<Rightarrow> string option"

record whitelist_event =
  fv_id :: int
  fv_whitelist_id :: int
  fv_actor_iss :: string
  fv_actor_sub :: string
  fv_actor_username :: string
  fv_actor_display_name :: string
  fv_event_type :: string
  fv_notes :: "string option"
  fv_client_ip :: "string option"
  fv_user_agent :: "string option"
  fv_created_at :: time

record whitelist_entry =
  fe_id :: int
  fe_owner_iss :: string
  fe_owner_sub :: string
  fe_owner_username :: string
  fe_owner_display_name :: string
  fe_alias_name :: string
  fe_alias_uuid :: string
  fe_ip :: string
  fe_ip_version :: int
  fe_description :: string
  fe_status :: wl_status
  fe_requested_at :: time
  fe_added_at :: "time option"
  fe_removed_at :: "time option"
  fe_expires_at :: "time option"
  fe_removed_by_iss :: "string option"
  fe_removed_by_sub :: "string option"
  fe_removal_reason :: "string option"
  fe_events :: "whitelist_event list"

section \<open>Rows and literals\<close>

definition is_active :: "whitelist_row \<Rightarrow> bool" where
  "is_active r \<longleftrightarrow> wr_status r = StatusRequested \<or> wr_status r = StatusAdded"

definition invalid_input :: "string \<Rightarrow> goerror" where
  "invalid_input ty = Errorf (''ERROR: invalid input syntax for type '' @ ty @ '' (SQLSTATE 22P02)'')"

text \<open>A statement whose parameters include a \<open>UUID\<close>, or a \<open>UUID\<close> and an \<open>INET\<close>.\<close>

definition with_uuid ::
  "pg_types \<Rightarrow> string \<Rightarrow> (string \<Rightarrow> 'a result \<times> database) \<Rightarrow> database \<Rightarrow> 'a result \<times> database" where
  "with_uuid pg u k d =
     (case uuid_in pg u of None \<Rightarrow> (Inl (invalid_input ''uuid''), d) | Some v \<Rightarrow> k v)"

definition with_inet ::
  "pg_types \<Rightarrow> string \<Rightarrow> (string \<Rightarrow> 'a result \<times> database) \<Rightarrow> database \<Rightarrow> 'a result \<times> database" where
  "with_inet pg a k d =
     (case inet_in pg a of None \<Rightarrow> (Inl (invalid_input ''inet''), d) | Some v \<Rightarrow> k v)"

definition scan_entry :: "pg_types \<Rightarrow> whitelist_row \<Rightarrow> whitelist_entry" where
  "scan_entry pg r =
     \<lparr>fe_id = wr_id r, fe_owner_iss = wr_owner_iss r, fe_owner_sub = wr_owner_sub r,
      fe_owner_username = '''', fe_owner_display_name = '''', fe_alias_name = wr_alias_name r,
      fe_alias_uuid = wr_alias_uuid r, fe_ip = inet_text pg (wr_ip r),
      fe_ip_version = inet_family pg (wr_ip r), fe_description = wr_description r,
      fe_status = wr_status r, fe_requested_at = wr_requested_at r, fe_added_at = wr_added_at r,
      fe_removed_at = wr_removed_at r, fe_expires_at = wr_expires_at r,
      fe_removed_by_iss = wr_removed_by_iss r, fe_removed_by_sub = wr_removed_by_sub r,
      fe_removal_reason = wr_removal_reason r, fe_events = []\<rparr>"

text \<open>
  The names of an event's actor: \<open>COALESCE(actor.username, sa_creator.username)\<close>, the user with
  that key or else the user who created the service account with that key.
\<close>

definition find_sa :: "string \<Rightarrow> string \<Rightarrow> database \<Rightarrow> sa_row option" where
  "find_sa iss sub d = find (\<lambda>s. sr_iss s = iss \<and> sr_sub s = sub) (t_service_accounts d)"

definition actor_row :: "database \<Rightarrow> whitelist_event_row \<Rightarrow> user_row option" where
  "actor_row d e =
     (case find_user (we_actor_iss e) (we_actor_sub e) d of
        Some u \<Rightarrow> Some u
      | None \<Rightarrow> (case find_sa (we_actor_iss e) (we_actor_sub e) d of
            None \<Rightarrow> None
          | Some s \<Rightarrow> find_user (sr_created_by_iss s) (sr_created_by_sub s) d))"

definition scan_wl_event :: "pg_types \<Rightarrow> whitelist_event_row \<Rightarrow> user_row \<Rightarrow> whitelist_event" where
  "scan_wl_event pg e u =
     \<lparr>fv_id = we_id e, fv_whitelist_id = we_whitelist_id e, fv_actor_iss = we_actor_iss e,
      fv_actor_sub = we_actor_sub e, fv_actor_username = ur_username u,
      fv_actor_display_name = ur_display_name u, fv_event_type = we_event_type e,
      fv_notes = we_notes e, fv_client_ip = map_option (inet_text pg) (we_client_ip e),
      fv_user_agent = we_user_agent e, fv_created_at = we_created_at e\<rparr>"

section \<open>Audit events\<close>

definition find_entry :: "int \<Rightarrow> database \<Rightarrow> whitelist_row option" where
  "find_entry i d = find (\<lambda>r. wr_id r = i) (t_whitelist d)"

definition sql_insert_wl_event ::
  "pg_types \<Rightarrow> int \<Rightarrow> string \<Rightarrow> string \<Rightarrow> string \<Rightarrow> string option \<Rightarrow> string option \<Rightarrow> string option
    \<Rightarrow> time \<Rightarrow> database \<Rightarrow> unit result \<times> database" where
  "sql_insert_wl_event pg i iss sub ty notes clientIP userAgent t d =
     (let n = sq_whitelist_events (seqs d);
          d1 = d\<lparr>seqs := (seqs d)\<lparr>sq_whitelist_events := n + 1\<rparr>\<rparr>;
          ip = (case clientIP of None \<Rightarrow> Some None
                | Some a \<Rightarrow> (case inet_in pg a of None \<Rightarrow> None | Some v \<Rightarrow> Some (Some v)))
      in case ip of
           None \<Rightarrow> (Inl (invalid_input ''inet''), d)
         | Some cip \<Rightarrow>
             if iss = '''' \<or> sub = '''' then (Inl (check_violation ''event_actor_not_empty''), d1)
             else if find_entry i d = None
               then (Inl (fk_violation ''firewall_whitelist_events_whitelist_id_fkey''), d1)
             else (Inr (), d1\<lparr>t_whitelist_events := t_whitelist_events d @
                    [\<lparr>we_id = n, we_whitelist_id = i, we_actor_iss = iss, we_actor_sub = sub,
                      we_event_type = ty, we_notes = notes, we_client_ip = cip,
                      we_user_agent = userAgent, we_created_at = t\<rparr>]\<rparr>))"

definition CreateWhitelistEvent ::
  "pg_types \<Rightarrow> int \<Rightarrow> string \<Rightarrow> string \<Rightarrow> string \<Rightarrow> string \<Rightarrow> string option \<Rightarrow> string option \<Rightarrow> ('w, unit) dbop" where
  "CreateWhitelistEvent pg whitelistID actorIss actorSub eventType notes clientIP userAgent =
     try_db (roundtrip (sql_insert_wl_event pg whitelistID actorIss actorSub eventType (Some notes) clientIP userAgent))
       (wrap ''failed to create whitelist event: '') ok"

text \<open>The rows of an entry, newest first; a row whose actor has no name cannot be scanned.\<close>

definition wl_events_of :: "int \<Rightarrow> database \<Rightarrow> whitelist_event_row list" where
  "wl_events_of i d = order_desc we_created_at (filter (\<lambda>e. we_whitelist_id e = i) (t_whitelist_events d))"

fun scan_wl_events :: "pg_types \<Rightarrow> database \<Rightarrow> whitelist_event_row list \<Rightarrow> whitelist_event list result" where
  "scan_wl_events pg d [] = Inr []"
| "scan_wl_events pg d (e # es) =
     (case actor_row d e of
        None \<Rightarrow> Inl (wrap ''failed to scan whitelist event: '' scan_null)
      | Some u \<Rightarrow> (case scan_wl_events pg d es of Inl err \<Rightarrow> Inl err | Inr r \<Rightarrow> Inr (scan_wl_event pg e u # r)))"

definition GetWhitelistEventsByEntry :: "pg_types \<Rightarrow> int \<Rightarrow> ('w, whitelist_event list) dbop" where
  "GetWhitelistEventsByEntry pg whitelistID =
     try_db (db_query (\<lambda>d. scan_wl_events pg d (wl_events_of whitelistID d)))
       (wrap ''failed to get whitelist events: '') lift_result"

definition GetWhitelistEntryByID :: "pg_types \<Rightarrow> int \<Rightarrow> ('w, whitelist_entry) dbop" where
  "GetWhitelistEntryByID pg i =
     try_db (db_query_row (\<lambda>d. map_option (scan_entry pg) (find_entry i d)))
       (\<lambda>e. if errors_Is e ErrNoRows then Errorf ''whitelist entry not found''
             else wrap (''failed to get whitelist entry with id '' @ quoted_int i @ '': '') e)
       (\<lambda>entry. try_db (GetWhitelistEventsByEntry pg i)
          (wrap (''failed to get events for whitelist entry '' @ quoted_int i @ '': ''))
          (\<lambda>events. ok (entry\<lparr>fe_events := events\<rparr>)))"

section \<open>Adding an entry\<close>

definition owned_active :: "string \<Rightarrow> string \<Rightarrow> string \<Rightarrow> whitelist_row \<Rightarrow> bool" where
  "owned_active iss sub uuid r \<longleftrightarrow>
     wr_owner_iss r = iss \<and> wr_owner_sub r = sub \<and> wr_alias_uuid r = uuid \<and> is_active r"

definition sql_count_user ::
  "pg_types \<Rightarrow> string \<Rightarrow> string \<Rightarrow> string \<Rightarrow> time \<Rightarrow> database \<Rightarrow> nat result \<times> database" where
  "sql_count_user pg iss sub uuid t d =
     with_uuid pg uuid (\<lambda>u. (Inr (count_where (owned_active iss sub u) (t_whitelist d)), d)) d"

definition sql_count_total :: "pg_types \<Rightarrow> string \<Rightarrow> time \<Rightarrow> database \<Rightarrow> nat result \<times> database" where
  "sql_count_total pg uuid t d =
     with_uuid pg uuid (\<lambda>u. (Inr (count_where (\<lambda>r. wr_alias_uuid r = u \<and> is_active r) (t_whitelist d)), d)) d"

definition sql_find_duplicate ::
  "pg_types \<Rightarrow> string \<Rightarrow> string \<Rightarrow> string \<Rightarrow> string \<Rightarrow> time \<Rightarrow> database \<Rightarrow> int result \<times> database" where
  "sql_find_duplicate pg iss sub uuid ip t d =
     with_uuid pg uuid (\<lambda>u. with_inet pg ip (\<lambda>a.
        (case find (\<lambda>r. owned_active iss sub u r \<and> wr_ip r = a) (t_whitelist d) of
           None \<Rightarrow> Inl (Sentinel ErrNoRows) | Some r \<Rightarrow> Inr (wr_id r), d)) d) d"

definition sql_insert_entry ::
  "pg_types \<Rightarrow> string \<Rightarrow> string \<Rightarrow> string \<Rightarrow> string \<Rightarrow> string \<Rightarrow> string \<Rightarrow> time option
    \<Rightarrow> time \<Rightarrow> database \<Rightarrow> int result \<times> database" where
  "sql_insert_entry pg iss sub aliasName uuid ip description expiresAt t d =
     with_uuid pg uuid (\<lambda>u. with_inet pg ip (\<lambda>a.
       (let n = sq_whitelist (seqs d); d1 = d\<lparr>seqs := (seqs d)\<lparr>sq_whitelist := n + 1\<rparr>\<rparr> in
        if iss = [] \<or> sub = [] then (Inl (check_violation ''whitelist_owner_not_empty''), d1)
        else if (case expiresAt of None \<Rightarrow> False | Some x \<Rightarrow> x \<le> t)
          then (Inl (check_violation ''valid_expiration''), d1)
        else if \<exists>r \<in> set (t_whitelist d). owned_active iss sub u r \<and> wr_ip r = a
          then (Inl (duplicate_key ''idx_unique_active_ip_per_user''), d1)
        else (Inr n, d1\<lparr>t_whitelist := t_whitelist d @
               [\<lparr>wr_id = n, wr_owner_iss = iss, wr_owner_sub = sub, wr_alias_name = aliasName,
                 wr_alias_uuid = u, wr_ip = a, wr_description = description,
                 wr_status = StatusRequested, wr_requested_at = t, wr_added_at = None,
                 wr_removed_at = None, wr_expires_at = expiresAt, wr_removed_by_iss = None,
                 wr_removed_by_sub = None, wr_removal_reason = None\<rparr>]\<rparr>))) d) d"

text \<open>
  The transaction of \<open>AddIPToWhitelist\<close>. The two counts are read and not used. The duplicate
  query is expected to find no row.
\<close>

definition check_duplicate ::
  "pg_types \<Rightarrow> string \<Rightarrow> string \<Rightarrow> string \<Rightarrow> string \<Rightarrow> ('w, unit) dbop" where
  "check_duplicate pg iss sub uuid ip w =
     (case roundtrip (sql_find_duplicate pg iss sub uuid ip) w of
        (Inl e, w') \<Rightarrow>
          if errors_Is e ErrNoRows then (Inr (), w')
          else (Inl (wrap ''failed to check for duplicate IP: '' e), w')
      | (Inr existingID, w') \<Rightarrow>
          (Inl (Errorf ''you already have this IP address whitelisted for this alias''), w'))"

definition add_ip_tx ::
  "pg_types \<Rightarrow> string \<Rightarrow> string \<Rightarrow> string \<Rightarrow> string \<Rightarrow> string \<Rightarrow> string \<Rightarrow> time option
    \<Rightarrow> string option \<Rightarrow> string option \<Rightarrow> ('w, int) dbop" where
  "add_ip_tx pg iss sub aliasName uuid ip description expiresAt clientIP userAgent =
     with_tx (wrap ''failed to begin transaction: '')
       (try_db (roundtrip (sql_count_user pg iss sub uuid))
          (wrap ''failed to count user active IPs: '')
          (\<lambda>userCount. try_db (roundtrip (sql_count_total pg uuid))
             (wrap ''failed to count total active IPs: '')
             (\<lambda>totalCount. try_db (check_duplicate pg iss sub uuid ip) id
                (\<lambda>_. try_db (roundtrip (sql_insert_entry pg iss sub aliasName uuid ip description expiresAt))
                   (wrap ''failed to add IP to whitelist: '')
                   (\<lambda>recordId. try_db (roundtrip (sql_insert_wl_event pg recordId iss sub ''requested''
                                    None clientIP userAgent))
                      (wrap ''failed to create requested event: '')
                      (\<lambda>_. ok recordId))))))
       (wrap ''failed to commit transaction: '')"

definition AddIPToWhitelist ::
  "pg_types \<Rightarrow> string \<Rightarrow> string \<Rightarrow> string \<Rightarrow> string \<Rightarrow> string \<Rightarrow> string \<Rightarrow> time option
    \<Rightarrow> string option \<Rightarrow> string option \<Rightarrow> ('w, whitelist_entry) dbop" where
  "AddIPToWhitelist pg iss sub aliasName uuid ip description expiresAt clientIP userAgent =
     try_db (add_ip_tx pg iss sub aliasName uuid ip description expiresAt clientIP userAgent) id
       (GetWhitelistEntryByID pg)"

definition CountUserActiveIPs :: "pg_types \<Rightarrow> string \<Rightarrow> string \<Rightarrow> string \<Rightarrow> ('w, nat) dbop" where
  "CountUserActiveIPs pg iss sub uuid =
     try_db (roundtrip (sql_count_user pg iss sub uuid)) (wrap ''failed to count user active IPs: '') ok"

definition CountTotalActiveIPs :: "pg_types \<Rightarrow> string \<Rightarrow> ('w, nat) dbop" where
  "CountTotalActiveIPs pg uuid =
     try_db (roundtrip (sql_count_total pg uuid)) (wrap ''failed to count total active IPs: '') ok"

section \<open>Removing and blacklisting\<close>

text \<open>\<open>valid_removed_at\<close> and \<open>valid_added_at\<close>: not before the request.\<close>

definition touches_future :: "(whitelist_row \<Rightarrow> bool) \<Rightarrow> time \<Rightarrow> database \<Rightarrow> bool" where
  "touches_future p t d \<longleftrightarrow> (\<exists>r \<in> set (t_whitelist d). p r \<and> t < wr_requested_at r)"

definition set_removed :: "time \<Rightarrow> whitelist_row \<Rightarrow> whitelist_row" where
  "set_removed t r = r\<lparr>wr_status := StatusRemoved, wr_removed_at := Some t\<rparr>"

definition set_blacklisted :: "string \<Rightarrow> string \<Rightarrow> string \<Rightarrow> time \<Rightarrow> whitelist_row \<Rightarrow> whitelist_row" where
  "set_blacklisted iss sub reason t r =
     r\<lparr>wr_status := StatusBlacklistedByAdmin, wr_removed_at := Some t, wr_removed_by_iss := Some iss,
       wr_removed_by_sub := Some sub, wr_removal_reason := Some reason\<rparr>"

definition sql_remove :: "(whitelist_row \<Rightarrow> bool) \<Rightarrow> time \<Rightarrow> database \<Rightarrow> nat result \<times> database" where
  "sql_remove p t d =
     (if touches_future p t d then (Inl (check_violation ''valid_removed_at''), d)
      else (Inr (count_where p (t_whitelist d)),
            d\<lparr>t_whitelist := upd_where p (set_removed t) (t_whitelist d)\<rparr>))"

definition sql_blacklist ::
  "(whitelist_row \<Rightarrow> bool) \<Rightarrow> string \<Rightarrow> string \<Rightarrow> string \<Rightarrow> time \<Rightarrow> database \<Rightarrow> nat result \<times> database" where
  "sql_blacklist p iss sub reason t d =
     (if touches_future p t d then (Inl (check_violation ''valid_removed_at''), d)
      else if (iss = [] \<or> sub = []) \<and> count_where p (t_whitelist d) > 0
        then (Inl (check_violation ''whitelist_remover_not_empty''), d)
      else (Inr (count_where p (t_whitelist d)),
            d\<lparr>t_whitelist := upd_where p (set_blacklisted iss sub reason t) (t_whitelist d)\<rparr>))"

definition RemoveIPFromWhitelist ::
  "pg_types \<Rightarrow> int \<Rightarrow> string \<Rightarrow> string \<Rightarrow> string option \<Rightarrow> string option \<Rightarrow> ('w, unit) dbop" where
  "RemoveIPFromWhitelist pg i ownerIss ownerSub clientIP userAgent =
     try_db (roundtrip (sql_remove (\<lambda>r. wr_id r = i)))
       (wrap ''failed to remove IP from whitelist: '')
       (\<lambda>n. if n = 0 then fail (Errorf ''whitelist entry not found'')
             else try_db (CreateWhitelistEvent pg i ownerIss ownerSub ''removed'' [] clientIP userAgent)
                    (wrap ''failed to create removal event: '') ok)"

definition BlacklistIP :: "pg_types \<Rightarrow> int \<Rightarrow> string \<Rightarrow> string \<Rightarrow> string \<Rightarrow> ('w, unit) dbop" where
  "BlacklistIP pg i adminIss adminSub reason =
     try_db (roundtrip (sql_blacklist (\<lambda>r. wr_id r = i) adminIss adminSub reason))
       (wrap ''failed to blacklist IP: '')
       (\<lambda>n. if n = 0 then fail (Errorf ''whitelist entry not found'')
             else try_db (CreateWhitelistEvent pg i adminIss adminSub ''blacklisted_by_admin'' reason None None)
                    (wrap ''failed to create blacklist event: '') ok)"

definition sql_select_ip ::
  "pg_types \<Rightarrow> string \<Rightarrow> string \<Rightarrow> (whitelist_row \<Rightarrow> bool) \<Rightarrow> time \<Rightarrow> database \<Rightarrow> int list result \<times> database" where
  "sql_select_ip pg uuid ip p t d =
     with_uuid pg uuid (\<lambda>u. with_inet pg ip (\<lambda>a.
       (Inr (map wr_id (filter (\<lambda>r. wr_alias_uuid r = u \<and> wr_ip r = a \<and> p r) (t_whitelist d))), d)) d) d"

definition BlacklistIPAddress ::
  "pg_types \<Rightarrow> string \<Rightarrow> string \<Rightarrow> string \<Rightarrow> string \<Rightarrow> string \<Rightarrow> ('w, nat) dbop" where
  "BlacklistIPAddress pg aliasUUID ipAddress adminIss adminSub reason =
     with_tx (wrap ''failed to begin transaction: '')
       (try_db (roundtrip (sql_select_ip pg aliasUUID ipAddress (\<lambda>r. wr_status r \<noteq> StatusBlacklistedByAdmin)))
          (wrap ''failed to get entries to blacklist: '')
          (\<lambda>entryIDs.
             if entryIDs = [] then fail (Errorf ''no entries found to blacklist'')
             else try_db (roundtrip (sql_blacklist (\<lambda>r. wr_id r \<in> set entryIDs) adminIss adminSub reason))
                    (wrap ''failed to update entries to blacklisted: '')
                    (\<lambda>_. try_db (for_each entryIDs (\<lambda>i.
                           try_db (roundtrip (sql_insert_wl_event pg i adminIss adminSub ''blacklisted_by_admin''
                                     (Some reason) None None))
                             (wrap (''failed to create blacklist event for entry '' @ show_int i @ '': '')) ok))
                       id (\<lambda>_. ok (length entryIDs)))))
       (wrap ''failed to commit transaction: '')"

definition sql_exists_blacklisted :: "pg_types \<Rightarrow> string \<Rightarrow> string \<Rightarrow> time \<Rightarrow> database \<Rightarrow> bool result \<times> database" where
  "sql_exists_blacklisted pg uuid ip t d =
     with_uuid pg uuid (\<lambda>u. with_inet pg ip (\<lambda>a.
       (Inr (\<exists>r \<in> set (t_whitelist d). wr_alias_uuid r = u \<and> wr_ip r = a \<and> wr_status r = StatusBlacklistedByAdmin), d)) d) d"

definition IsIPBlacklisted :: "pg_types \<Rightarrow> string \<Rightarrow> string \<Rightarrow> ('w, bool) dbop" where
  "IsIPBlacklisted pg aliasUUID ipAddress =
     try_db (roundtrip (sql_exists_blacklisted pg aliasUUID ipAddress))
       (wrap ''failed to check if IP is blacklisted: '') ok"

section \<open>The jobs' queries\<close>

definition sql_pending ::
  "pg_types \<Rightarrow> string \<Rightarrow> time \<Rightarrow> database \<Rightarrow> whitelist_entry list result \<times> database" where
  "sql_pending pg uuid t d =
     with_uuid pg uuid (\<lambda>u. (Inr (map (scan_entry pg) (sort_key wr_requested_at
        (filter (\<lambda>r. wr_alias_uuid r = u \<and> wr_status r = StatusRequested \<and>
             (case wr_expires_at r of None \<Rightarrow> True | Some x \<Rightarrow> t < x)) (t_whitelist d)))), d)) d"

definition GetPendingIPs :: "pg_types \<Rightarrow> string \<Rightarrow> ('w, whitelist_entry list) dbop" where
  "GetPendingIPs pg aliasUUID =
     try_db (roundtrip (sql_pending pg aliasUUID)) (wrap ''failed to get pending IPs: '') ok"

definition set_added :: "time \<Rightarrow> whitelist_row \<Rightarrow> whitelist_row" where
  "set_added t r = r\<lparr>wr_status := StatusAdded, wr_added_at := Some t\<rparr>"

definition sql_mark_added :: "int list \<Rightarrow> time \<Rightarrow> database \<Rightarrow> nat result \<times> database" where
  "sql_mark_added ids t d =
     (let p = (\<lambda>r. wr_id r \<in> set ids \<and> wr_status r = StatusRequested) in
      if touches_future p t d then (Inl (check_violation ''valid_added_at''), d)
      else (Inr (count_where p (t_whitelist d)),
            d\<lparr>t_whitelist := upd_where p (set_added t) (t_whitelist d)\<rparr>))"

definition MarkIPsAsAdded :: "pg_types \<Rightarrow> int list \<Rightarrow> string \<Rightarrow> string \<Rightarrow> ('w, unit) dbop" where
  "MarkIPsAsAdded pg ids sysIss sysSub =
     try_db (roundtrip (sql_mark_added ids)) (wrap ''failed to mark IPs as added: '')
       (\<lambda>_. for_each ids (\<lambda>i. try_db (CreateWhitelistEvent pg i sysIss sysSub ''added'' [] None None)
              (wrap (''failed to create added event for IP '' @ show_int i @ '': '')) ok))"

definition is_expired :: "time \<Rightarrow> whitelist_row \<Rightarrow> bool" where
  "is_expired t r \<longleftrightarrow>
     is_active r \<and> (case wr_expires_at r of None \<Rightarrow> False | Some x \<Rightarrow> x \<le> t)"

definition sql_select_expired :: "time \<Rightarrow> database \<Rightarrow> int list result \<times> database" where
  "sql_select_expired t d = (Inr (map wr_id (filter (is_expired t) (t_whitelist d))), d)"

definition record_expired :: "pg_types \<Rightarrow> string \<Rightarrow> string \<Rightarrow> int list \<Rightarrow> ('w, nat) dbop" where
  "record_expired pg sysIss sysSub expiredIDs =
     try_db (for_each expiredIDs (\<lambda>i.
         try_db (CreateWhitelistEvent pg i sysIss sysSub ''expired'' [] None None)
           (wrap (''failed to create expired event for IP '' @ show_int i @ '': '')) ok))
       id (\<lambda>_. ok (length expiredIDs))"

definition expire_ids :: "pg_types \<Rightarrow> string \<Rightarrow> string \<Rightarrow> int list \<Rightarrow> ('w, nat) dbop" where
  "expire_ids pg sysIss sysSub expiredIDs =
     (if expiredIDs = [] then ok 0
      else try_db (roundtrip (sql_remove (\<lambda>r. wr_id r \<in> set expiredIDs)))
             (wrap ''failed to mark IPs as expired: '')
             (\<lambda>_. record_expired pg sysIss sysSub expiredIDs))"

definition ExpireOldIPs :: "pg_types \<Rightarrow> string \<Rightarrow> string \<Rightarrow> ('w, nat) dbop" where
  "ExpireOldIPs pg sysIss sysSub =
     try_db (roundtrip sql_select_expired) (wrap ''failed to get expired IPs: '')
       (expire_ids pg sysIss sysSub)"

section \<open>Listing with events\<close>

text \<open>
  \<open>GetUserWhitelistEntries\<close> and \<open>GetAllWhitelistEntries\<close> run the same query and the same loop:
  entries joined with their owner, left-joined with their events and the events' actors, ordered by
  \<open>requested_at DESC, created_at DESC\<close> (where no event comes first). The loop keeps the entries in
  the order they first appear; it dereferences the actor's name, which is \<open>NULL\<close> when no user or
  service account has the actor's key.
\<close>

type_synonym joined_row = "whitelist_row \<times> user_row \<times> whitelist_event_row option"

definition joined_rows :: "(whitelist_row \<Rightarrow> bool) \<Rightarrow> database \<Rightarrow> joined_row list" where
  "joined_rows p d =
     concat (map (\<lambda>r.
       case find_user (wr_owner_iss r) (wr_owner_sub r) d of
         None \<Rightarrow> []
       | Some u \<Rightarrow>
           (case filter (\<lambda>e. we_whitelist_id e = wr_id r) (t_whitelist_events d) of
              [] \<Rightarrow> [(r, u, None)]
            | e # es \<Rightarrow> map (\<lambda>e. (r, u, Some e)) (e # es))) (filter p (t_whitelist d)))"

definition row_created :: "joined_row \<Rightarrow> time" where
  "row_created x = (case snd (snd x) of None \<Rightarrow> 0 | Some e \<Rightarrow> we_created_at e)"

definition ordered_rows :: "joined_row list \<Rightarrow> joined_row list" where
  "ordered_rows xs =
     order_desc (\<lambda>x. wr_requested_at (fst x))
       (filter (\<lambda>x. snd (snd x) = None) xs @ order_desc row_created (filter (\<lambda>x. snd (snd x) \<noteq> None) xs))"

definition new_entry :: "pg_types \<Rightarrow> whitelist_row \<Rightarrow> user_row \<Rightarrow> whitelist_entry" where
  "new_entry pg r u = (scan_entry pg r)\<lparr>fe_owner_username := ur_username u,
     fe_owner_display_name := ur_display_name u\<rparr>"

definition add_event_to :: "int \<Rightarrow> whitelist_event \<Rightarrow> whitelist_entry list \<Rightarrow> whitelist_entry list" where
  "add_event_to i ev entries =
     map (\<lambda>x. if fe_id x = i then x\<lparr>fe_events := fe_events x @ [ev]\<rparr> else x) entries"

fun collect_rows ::
  "pg_types \<Rightarrow> database \<Rightarrow> joined_row list \<Rightarrow> whitelist_entry list \<Rightarrow> whitelist_entry list result" where
  "collect_rows pg d [] entries = Inr entries"
| "collect_rows pg d ((r, u, ev) # rows) entries =
     (let entries1 = (if wr_id r \<in> fe_id ` set entries then entries else entries @ [new_entry pg r u]) in
      case ev of
        None \<Rightarrow> collect_rows pg d rows entries1
      | Some e \<Rightarrow>
          (case actor_row d e of
             None \<Rightarrow> Inl nil_dereference
           | Some a \<Rightarrow> collect_rows pg d rows (add_event_to (wr_id r) (scan_wl_event pg e a) entries1)))"

definition GetUserWhitelistEntries :: "pg_types \<Rightarrow> string \<Rightarrow> string \<Rightarrow> ('w, whitelist_entry list) dbop" where
  "GetUserWhitelistEntries pg ownerIss ownerSub =
     try_db (db_query (\<lambda>d. collect_rows pg d (ordered_rows (joined_rows
               (\<lambda>r. wr_owner_iss r = ownerIss \<and> wr_owner_sub r = ownerSub) d)) []))
       (wrap ''failed to get user whitelist entries: '') lift_result"

definition GetAllWhitelistEntries :: "pg_types \<Rightarrow> ('w, whitelist_entry list) dbop" where
  "GetAllWhitelistEntries pg =
     try_db (db_query (\<lambda>d. collect_rows pg d (ordered_rows (joined_rows (\<lambda>r. True) d)) []))
       (wrap ''failed to get all whitelist entries: '') lift_result"

section \<open>Invariants of the two tables\<close>

definition has_request_event :: "database \<Rightarrow> whitelist_row \<Rightarrow> bool" where
  "has_request_event d r \<longleftrightarrow>
     (\<exists>e \<in> set (t_whitelist_events d). we_whitelist_id e = wr_id r \<and> we_event_type e = ''requested'' \<and>
        we_actor_iss e = wr_owner_iss r \<and> we_actor_sub e = wr_owner_sub r)"

definition same_active :: "whitelist_row \<Rightarrow> whitelist_row \<Rightarrow> bool" where
  "same_active r s \<longleftrightarrow>
     is_active r \<and> is_active s \<and> wr_owner_iss r = wr_owner_iss s \<and> wr_owner_sub r = wr_owner_sub s \<and>
     wr_alias_uuid r = wr_alias_uuid s \<and> wr_ip r = wr_ip s"

definition wl_inv :: "database \<Rightarrow> bool" where
  "wl_inv d \<longleftrightarrow>
     distinct (map wr_id (t_whitelist d)) \<and>
     (\<forall>r \<in> set (t_whitelist d). wr_id r < sq_whitelist (seqs d)) \<and>
     (\<forall>r \<in> set (t_whitelist d). \<forall>s \<in> set (t_whitelist d). same_active r s \<longrightarrow> wr_id r = wr_id s) \<and>
     (\<forall>r \<in> set (t_whitelist d). has_request_event d r) \<and>
     (\<forall>e \<in> set (t_whitelist_events d). we_whitelist_id e \<in> wr_id ` set (t_whitelist d))"

lemma wl_inv_empty: "wl_inv empty_database"
  by (simp add: wl_inv_def empty_database_def)

lemma wl_inv_cong:
  assumes "wl_inv d" and "t_whitelist d' = t_whitelist d" and "t_whitelist_events d' = t_whitelist_events d"
    and "sq_whitelist (seqs d) \<le> sq_whitelist (seqs d')"
  shows "wl_inv d'"
proof -
  have "has_request_event d' r = has_request_event d r" for r
    by (simp add: has_request_event_def assms(3))
  with assms show ?thesis by (auto simp: wl_inv_def)
qed

lemma whitelist_events_of_update:
  "t_whitelist_events (d\<lparr>t_whitelist := rows\<rparr>) = t_whitelist_events d"
  by simp

lemma wl_inv_update:
  assumes inv: "wl_inv d"
    and f: "\<And>r. wr_id (f r) = wr_id r \<and> wr_owner_iss (f r) = wr_owner_iss r \<and> wr_owner_sub (f r) = wr_owner_sub r \<and>
              wr_alias_uuid (f r) = wr_alias_uuid r \<and> wr_ip (f r) = wr_ip r"
    and act: "\<And>r. p r \<Longrightarrow> is_active (f r) \<Longrightarrow> is_active r"
  shows "wl_inv (d\<lparr>t_whitelist := upd_where p f (t_whitelist d)\<rparr>)" (is "wl_inv ?d")
proof -
  let ?g = "\<lambda>r. if p r then f r else r"
  have sel: "wr_id (?g r) = wr_id r" "wr_owner_iss (?g r) = wr_owner_iss r" "wr_owner_sub (?g r) = wr_owner_sub r"
    "wr_alias_uuid (?g r) = wr_alias_uuid r" "wr_ip (?g r) = wr_ip r" for r
    using f by simp_all
  have actg: "is_active (?g r) \<Longrightarrow> is_active r" for r using act by (cases "p r") simp_all
  have act2: "same_active (?g r) (?g s) \<Longrightarrow> same_active r s" for r s
    using actg [of r] actg [of s] unfolding same_active_def sel by (elim conjE, intro conjI) assumption+
  have req: "has_request_event ?d (?g r) = has_request_event d r" for r
    by (simp only: has_request_event_def sel whitelist_events_of_update)
  note g = sel(1) act2 req
  have img: "wr_id ` set (upd_where p f (t_whitelist d)) = wr_id ` set (t_whitelist d)"
    using f by (intro image_upd_where) simp
  have map_id: "map wr_id (upd_where p f (t_whitelist d)) = map wr_id (t_whitelist d)"
    using f by (intro map_upd_where) simp
  have uniq: "wr_id (?g r) = wr_id (?g s)"
    if "r \<in> set (t_whitelist d)" "s \<in> set (t_whitelist d)" "same_active (?g r) (?g s)" for r s
    using inv g(2) [OF that(3)] that(1,2) by (simp only: wl_inv_def g(1))
  have tabs: "t_whitelist ?d = upd_where p f (t_whitelist d)" "t_whitelist_events ?d = t_whitelist_events d"
    "seqs ?d = seqs d" by simp_all
  note parts = inv [unfolded wl_inv_def]
  have "\<forall>r \<in> set (t_whitelist ?d). wr_id r < sq_whitelist (seqs ?d)"
    unfolding tabs ball_upd_where sel using parts by blast
  moreover have "\<forall>r \<in> set (t_whitelist ?d). \<forall>s \<in> set (t_whitelist ?d). same_active r s \<longrightarrow> wr_id r = wr_id s"
    unfolding tabs ball_upd_where using uniq by blast
  moreover have "\<forall>r \<in> set (t_whitelist ?d). has_request_event ?d r"
    unfolding tabs ball_upd_where req using parts by blast
  ultimately show ?thesis
    unfolding wl_inv_def tabs map_id img using parts by blast
qed

lemma wl_inv_event:
  assumes "wl_inv d" and "sql_insert_wl_event pg i iss sub ty n c u t d = (res, d')"
  shows "wl_inv d'"
proof -
  have mono: "has_request_event d r \<Longrightarrow> t_whitelist_events d' = t_whitelist_events d @ es \<Longrightarrow> has_request_event d' r"
    for r es by (auto simp: has_request_event_def)
  show ?thesis
  proof (cases res)
    case (Inl e)
    with assms(2) have "t_whitelist d' = t_whitelist d" "t_whitelist_events d' = t_whitelist_events d"
      "sq_whitelist (seqs d') = sq_whitelist (seqs d)"
      by (auto simp: sql_insert_wl_event_def Let_def split: option.splits if_splits)
    with assms(1) show ?thesis by (intro wl_inv_cong [OF assms(1)]) simp_all
  next
    case (Inr x)
    with assms(2) obtain e where "t_whitelist d' = t_whitelist d" "t_whitelist_events d' = t_whitelist_events d @ [e]"
      "sq_whitelist (seqs d') = sq_whitelist (seqs d)" "we_whitelist_id e = i" "find_entry i d \<noteq> None"
      by (auto simp: sql_insert_wl_event_def Let_def split: option.splits if_splits)
    moreover from \<open>find_entry i d \<noteq> None\<close> have "i \<in> wr_id ` set (t_whitelist d)"
      by (auto simp: find_entry_def dest: find_SomeD)
    ultimately show ?thesis using assms(1) mono by (auto simp: wl_inv_def)
  qed
qed

lemma wl_inv_remove: "wl_inv d \<Longrightarrow> sql_remove p t d = (r, d') \<Longrightarrow> wl_inv d'"
  by (auto simp: sql_remove_def set_removed_def is_active_def intro!: wl_inv_update split: if_splits)

lemma wl_inv_blacklist: "wl_inv d \<Longrightarrow> sql_blacklist p iss sub reason t d = (r, d') \<Longrightarrow> wl_inv d'"
  by (auto simp: sql_blacklist_def set_blacklisted_def is_active_def intro!: wl_inv_update split: if_splits)

lemma wl_inv_mark: "wl_inv d \<Longrightarrow> sql_mark_added ids t d = (r, d') \<Longrightarrow> wl_inv d'"
  by (auto simp: sql_mark_added_def set_added_def is_active_def Let_def intro!: wl_inv_update split: if_splits)

lemma sql_insert_entry_Inr:
  assumes "sql_insert_entry pg iss sub an uuid ip desc ex t d = (Inr n, d')"
  obtains u a where "uuid_in pg uuid = Some u" and "inet_in pg ip = Some a" and "n = sq_whitelist (seqs d)"
    and "iss \<noteq> []" and "sub \<noteq> []"
    and "\<forall>r \<in> set (t_whitelist d). \<not> (owned_active iss sub u r \<and> wr_ip r = a)"
    and "t_whitelist d' = t_whitelist d @
               [\<lparr>wr_id = n, wr_owner_iss = iss, wr_owner_sub = sub, wr_alias_name = an,
                 wr_alias_uuid = u, wr_ip = a, wr_description = desc,
                 wr_status = StatusRequested, wr_requested_at = t, wr_added_at = None,
                 wr_removed_at = None, wr_expires_at = ex, wr_removed_by_iss = None,
                 wr_removed_by_sub = None, wr_removal_reason = None\<rparr>]"
    and "t_whitelist_events d' = t_whitelist_events d"
    and "seqs d' = (seqs d)\<lparr>sq_whitelist := sq_whitelist (seqs d) + 1\<rparr>"
  using assms
  by (auto simp: sql_insert_entry_def with_uuid_def with_inet_def Let_def split: option.splits if_splits intro!: that)

lemma sql_insert_wl_event_Inr:
  assumes "sql_insert_wl_event pg i iss sub ty n c u t d = (Inr x, d')"
  obtains cip where "find_entry i d \<noteq> None" and "iss \<noteq> []" and "sub \<noteq> []"
    and "t_whitelist d' = t_whitelist d" and "sq_whitelist (seqs d') = sq_whitelist (seqs d)"
    and "t_whitelist_events d' = t_whitelist_events d @
      [\<lparr>we_id = sq_whitelist_events (seqs d), we_whitelist_id = i, we_actor_iss = iss, we_actor_sub = sub,
        we_event_type = ty, we_notes = n, we_client_ip = cip, we_user_agent = u, we_created_at = t\<rparr>]"
  using assms
  by (auto simp: sql_insert_wl_event_def Let_def split: option.splits if_splits intro!: that)

lemma check_duplicate_InrE:
  assumes "check_duplicate pg iss sub uuid ip w = (Inr x, w')"
  obtains "db w' = db w" and "now w' = now w"
  using assms
  by (auto simp: check_duplicate_def roundtrip_def sql_find_duplicate_def with_uuid_def with_inet_def
      split: option.splits sum.splits prod.splits if_splits)

lemma sql_count_frame [simp]:
  "snd (sql_count_user pg iss sub uuid t d) = d" "snd (sql_count_total pg uuid t d) = d"
  by (simp_all add: sql_count_user_def sql_count_total_def with_uuid_def split: option.splits)

lemma add_ip_tx_success:
  assumes "add_ip_tx pg iss sub an uuid ip desc ex ci ua w = (Inr n, w')"
  obtains u a d1 x where "sql_insert_entry pg iss sub an uuid ip desc ex (now w) (db w) = (Inr n, d1)"
    and "sql_insert_wl_event pg n iss sub ''requested'' None ci ua (now w) d1 = (Inr x, db w')" and "now w' = now w"
proof -
  have cu: "d = db v" if "sql_count_user pg iss sub uuid t (db v) = (r, d)" for t r d and v :: "'a world_scheme"
    using that sql_count_frame(1) by (metis snd_conv)
  have ct: "d = e" if "sql_count_total pg uuid t e = (r, d)" for t r d e
    using that sql_count_frame(2) by (metis snd_conv)
  from assms show thesis
    unfolding add_ip_tx_def
    by (elim with_tx_InrE try_db_InrE roundtrip_InrE check_duplicate_InrE ok_InrE)
       (auto dest!: ct cu intro: that)
qed

lemma wl_inv_add:
  assumes inv: "wl_inv d" and ins: "sql_insert_entry pg iss sub an uuid ip desc ex t d = (Inr n, d1)"
    and ev: "sql_insert_wl_event pg n iss sub ''requested'' None ci ua t d1 = (Inr x, d')"
  shows "wl_inv d'"
proof -
  from ins obtain r where r: "t_whitelist d1 = t_whitelist d @ [r]" "t_whitelist_events d1 = t_whitelist_events d"
      "wr_id r = n" "wr_owner_iss r = iss" "wr_owner_sub r = sub" "is_active r" "n = sq_whitelist (seqs d)"
      "seqs d1 = (seqs d)\<lparr>sq_whitelist := n + 1\<rparr>"
      "\<forall>s \<in> set (t_whitelist d). \<not> (owned_active iss sub (wr_alias_uuid r) s \<and> wr_ip s = wr_ip r)"
    by (elim sql_insert_entry_Inr) (auto simp: is_active_def)
  from ev obtain e where e: "t_whitelist d' = t_whitelist d1" "t_whitelist_events d' = t_whitelist_events d1 @ [e]"
      "sq_whitelist (seqs d') = sq_whitelist (seqs d1)" "we_whitelist_id e = n" "we_event_type e = ''requested''"
      "we_actor_iss e = iss" "we_actor_sub e = sub"
    by (elim sql_insert_wl_event_Inr) auto
  have uniq: "\<not> same_active r s \<and> \<not> same_active s r" if "s \<in> set (t_whitelist d)" for s
    using r that by (auto simp: same_active_def owned_active_def)
  have ids: "s \<in> set (t_whitelist d) \<Longrightarrow> wr_id s < n" for s using inv r(7) by (simp add: wl_inv_def)
  have fresh: "n \<notin> wr_id ` set (t_whitelist d)" using ids by fastforce
  have req: "has_request_event d' s" if "s \<in> set (t_whitelist d')" for s
    using that inv e r by (auto simp: wl_inv_def has_request_event_def)
  have "\<forall>s \<in> set (t_whitelist d'). wr_id s < sq_whitelist (seqs d')"
    using e r ids by (auto simp: less_imp_le intro: order.strict_trans)
  moreover have "\<forall>s \<in> set (t_whitelist d'). \<forall>q \<in> set (t_whitelist d'). same_active s q \<longrightarrow> wr_id s = wr_id q"
    using inv e r uniq by (auto simp: wl_inv_def)
  moreover have "distinct (map wr_id (t_whitelist d'))" using inv e r fresh by (simp add: wl_inv_def)
  moreover have "\<forall>v \<in> set (t_whitelist_events d'). we_whitelist_id v \<in> wr_id ` set (t_whitelist d')"
    using inv e r by (auto simp: wl_inv_def)
  ultimately show ?thesis using req by (simp add: wl_inv_def)
qed

section \<open>Reachable tables\<close>

datatype wl_call =
    CallAdd string string string string string string "time option" "string option" "string option"
  | CallRemove int string string "string option" "string option"
  | CallBlacklist int string string string
  | CallBlacklistAddress string string string string string
  | CallMarkAdded "int list" string string
  | CallExpire string string

fun exec_wl_call :: "pg_types \<Rightarrow> wl_call \<Rightarrow> 'w world_scheme \<Rightarrow> 'w world_scheme" where
  "exec_wl_call pg (CallAdd iss sub an uuid ip desc ex ci ua) w =
     snd (AddIPToWhitelist pg iss sub an uuid ip desc ex ci ua w)"
| "exec_wl_call pg (CallRemove i iss sub ci ua) w = snd (RemoveIPFromWhitelist pg i iss sub ci ua w)"
| "exec_wl_call pg (CallBlacklist i iss sub reason) w = snd (BlacklistIP pg i iss sub reason w)"
| "exec_wl_call pg (CallBlacklistAddress uuid ip iss sub reason) w =
     snd (BlacklistIPAddress pg uuid ip iss sub reason w)"
| "exec_wl_call pg (CallMarkAdded ids iss sub) w = snd (MarkIPsAsAdded pg ids iss sub w)"
| "exec_wl_call pg (CallExpire iss sub) w = snd (ExpireOldIPs pg iss sub w)"

text \<open>
  A run is any sequence of calls, each with its own clock and fault schedule, interleaved with
  anything that leaves the two tables alone.
\<close>

inductive wl_reachable :: "pg_types \<Rightarrow> database \<Rightarrow> bool" for pg where
  start: "wl_reachable pg empty_database"
| call: "wl_reachable pg (db w) \<Longrightarrow> wl_reachable pg (db (exec_wl_call pg c (w :: world)))"
| other: "wl_reachable pg d \<Longrightarrow> t_whitelist d' = t_whitelist d \<Longrightarrow> t_whitelist_events d' = t_whitelist_events d \<Longrightarrow>
    sq_whitelist (seqs d) \<le> sq_whitelist (seqs d') \<Longrightarrow> wl_reachable pg d'"

lemma grows_sql_insert_wl_event: "grows (roundtrip (sql_insert_wl_event pg i iss sub ty n c u))"
  by (rule grows_roundtrip)
     (auto simp: sql_insert_wl_event_def Let_def seq_le_def split: option.splits)

lemma grows_sql_blacklist: "grows (roundtrip (sql_blacklist p iss sub reason))"
  by (rule grows_roundtrip) (simp add: sql_blacklist_def)

lemma grows_sql_select_ip: "grows (roundtrip (sql_select_ip pg uuid ip p))"
  by (rule grows_roundtrip) (simp add: sql_select_ip_def with_uuid_def with_inet_def split: option.splits)

lemma grows_sql_insert_entry: "grows (roundtrip (sql_insert_entry pg iss sub an uuid ip desc ex))"
  by (rule grows_roundtrip)
     (auto simp: sql_insert_entry_def with_uuid_def with_inet_def Let_def seq_le_def split: option.splits)

lemma grows_sql_counts: "grows (roundtrip (sql_count_user pg iss sub uuid))" "grows (roundtrip (sql_count_total pg uuid))"
  by (rule grows_roundtrip, simp)+

lemma grows_check_duplicate: "grows (check_duplicate pg iss sub uuid ip)"
  by (auto simp: grows_def check_duplicate_def roundtrip_def sql_find_duplicate_def with_uuid_def with_inet_def
      split: option.splits sum.splits prod.splits)

lemma grows_add_ip_tx: "grows (add_ip_tx pg iss sub an uuid ip desc ex ci ua)"
  unfolding add_ip_tx_def
  by (intro grows_tx grows_try grows_ok grows_sql_insert_wl_event grows_sql_insert_entry grows_sql_counts
      grows_check_duplicate)

lemma ExpireOldIPs_cases:
  assumes "ExpireOldIPs pg iss sub w = (res, w')"
  obtains (unchanged) "db w' = db w" and "is_ok res \<Longrightarrow> filter (is_expired (now w)) (t_whitelist (db w)) = [] \<and> res = Inr 0"
  | (removed) n d1 where
      "sql_remove (\<lambda>r. wr_id r \<in> set (map wr_id (filter (is_expired (now w)) (t_whitelist (db w)))))
         (now w) (db w) = (Inr n, d1)"
      and "record_expired pg iss sub (map wr_id (filter (is_expired (now w)) (t_whitelist (db w))))
         (pop_fault (pop_fault w)\<lparr>db := d1\<rparr>) = (res, w')"
proof (cases "next_fault w")
  case (Some m)
  with assms show thesis
    by (intro unchanged) (auto simp: ExpireOldIPs_def try_db_def roundtrip_def)
next
  case None
  define ids where "ids = map wr_id (filter (is_expired (now w)) (t_whitelist (db w)))"
  have "roundtrip sql_select_expired w = (Inr ids, pop_fault w)"
    using None by (simp add: roundtrip_def sql_select_expired_def ids_def pop_fault_def)
  with assms have run: "expire_ids pg iss sub ids (pop_fault w) = (res, w')"
    by (simp add: ExpireOldIPs_def try_db_def)
  show thesis
  proof (cases "ids = []")
    case True
    with run have "res = Inr 0 \<and> w' = pop_fault w" by (simp add: expire_ids_def ok_def)
    with True show thesis by (intro unchanged) (simp_all add: ids_def)
  next
    case False
    obtain q d1 where q: "sql_remove (\<lambda>r. wr_id r \<in> set ids) (now w) (db w) = (q, d1)" by fastforce
    show thesis
    proof (cases "next_fault (pop_fault w) = None \<and> is_ok q")
      case True
      with q obtain n where "q = Inr n" by (auto simp: is_ok_iff)
      moreover from this True False run q have "record_expired pg iss sub ids (pop_fault (pop_fault w)\<lparr>db := d1\<rparr>) = (res, w')"
        by (simp add: expire_ids_def try_db_def roundtrip_def)
      ultimately show thesis using q removed unfolding ids_def by blast
    next
      case fault: False
      have "d1 = db w" if "\<not> is_ok q"
        using q that by (auto simp: sql_remove_def split: if_splits)
      with fault False run q have "db w' = db w \<and> \<not> is_ok res"
        by (cases q) (auto simp: expire_ids_def try_db_def roundtrip_def split: option.splits)
      then show thesis by (intro unchanged) simp_all
    qed
  qed
qed

text \<open>
  The contract of a property of the tables that recording an event, blacklisting, marking as added
  and rolling a transaction back keep. Every operation but adding and removing is made of these, so
  it keeps such a property; for the two others the extra step is a hypothesis.
\<close>

locale whitelist_stable =
  fixes pg :: pg_types and I :: "database \<Rightarrow> bool"
  assumes event: "I d \<Longrightarrow> sql_insert_wl_event pg i iss sub ty n c u t d = (r, d') \<Longrightarrow> I d'"
    and blacklist: "I d \<Longrightarrow> sql_blacklist p iss sub reason t d = (q, d') \<Longrightarrow> I d'"
    and mark: "I d \<Longrightarrow> sql_mark_added ids t d = (q, d') \<Longrightarrow> I d'"
    and undo: "I d \<Longrightarrow> seq_le (seqs d) (seqs d') \<Longrightarrow> I (rollback d d')"
begin

lemma keeps_event: "keeps I (roundtrip (sql_insert_wl_event pg i iss sub ty n c u))"
  by (rule keeps_roundtrip) (rule event)

lemma keeps_blacklist: "keeps I (roundtrip (sql_blacklist p iss sub reason))"
  by (rule keeps_roundtrip) (rule blacklist)

lemma keeps_mark: "keeps I (roundtrip (sql_mark_added ids))"
  by (rule keeps_roundtrip) (rule mark)

lemma keeps_select: "keeps I (roundtrip (sql_select_ip pg uuid ip p))"
  by (rule keeps_roundtrip) (auto simp: sql_select_ip_def with_uuid_def with_inet_def split: option.splits)

lemma keeps_CreateWhitelistEvent: "keeps I (CreateWhitelistEvent pg i iss sub ty n c u)"
  unfolding CreateWhitelistEvent_def by (intro keeps_try keeps_ok keeps_event)

lemma keeps_BlacklistIP: "keeps I (BlacklistIP pg i iss sub reason)"
  unfolding BlacklistIP_def
  by (intro keeps_try keeps_if keeps_ok keeps_fail keeps_blacklist keeps_CreateWhitelistEvent)

lemma keeps_BlacklistIPAddress: "keeps I (BlacklistIPAddress pg uuid ip iss sub reason)"
  unfolding BlacklistIPAddress_def
proof (rule keeps_tx_grows, rule undo, assumption, assumption, goal_cases)
  case 1
  show ?case
    by (intro keeps_try keeps_if keeps_ok keeps_fail keeps_for_each keeps_select keeps_blacklist keeps_event)
next
  case 2
  show ?case
    by (intro grows_try grows_if grows_ok grows_for_each grows_sql_select_ip grows_sql_blacklist
        grows_sql_insert_wl_event)
qed

lemma keeps_MarkIPsAsAdded: "keeps I (MarkIPsAsAdded pg ids iss sub)"
  unfolding MarkIPsAsAdded_def
  by (intro keeps_try keeps_ok keeps_for_each keeps_mark keeps_CreateWhitelistEvent)

lemma keeps_RemoveIPFromWhitelist:
  assumes "\<And>d t r d'. I d \<Longrightarrow> sql_remove (\<lambda>r. wr_id r = i) t d = (r, d') \<Longrightarrow> I d'"
  shows "keeps I (RemoveIPFromWhitelist pg i iss sub ci ua)"
  unfolding RemoveIPFromWhitelist_def
  by (intro keeps_try keeps_if keeps_ok keeps_fail keeps_CreateWhitelistEvent keeps_roundtrip) (rule assms)

lemma keeps_record_expired: "keeps I (record_expired pg iss sub ids)"
  unfolding record_expired_def
  by (intro keeps_try keeps_ok keeps_for_each keeps_CreateWhitelistEvent)

lemma expire_keeps:
  assumes inv: "I (db w)"
    and remove: "\<And>r d'. sql_remove (\<lambda>r. wr_id r \<in> set (map wr_id (filter (is_expired (now w)) (t_whitelist (db w)))))
        (now w) (db w) = (r, d') \<Longrightarrow> I d'"
    and run: "ExpireOldIPs pg iss sub w = (res, w')"
  shows "I (db w')"
  using run
proof (cases rule: ExpireOldIPs_cases)
  case unchanged
  with inv show ?thesis by simp
next
  case (removed n d1)
  from removed(1) have "I d1" by (rule remove)
  with removed(2) have "I (db (pop_fault (pop_fault w)\<lparr>db := d1\<rparr>))" by simp
  from keepsD [OF keeps_record_expired this removed(2)] show ?thesis .
qed

end

interpretation wl_invariant: whitelist_stable pg wl_inv for pg
proof unfold_locales
  show "wl_inv (rollback d d')" if "wl_inv d" "seq_le (seqs d) (seqs d')" for d d'
    using that by (auto intro!: wl_inv_cong [OF that(1)] simp: seq_le_def)
qed (rule wl_inv_event wl_inv_blacklist wl_inv_mark; assumption)+

lemma GetWhitelistEntryByID_frame [frame_simps]: "db (snd (GetWhitelistEntryByID pg i w)) = db w"
  by (simp add: GetWhitelistEntryByID_def GetWhitelistEventsByEntry_def try_db_def db_query_row_eq db_query_eq
      ok_def lift_result_def split: sum.splits option.splits prod.splits)

lemma AddIPToWhitelist_cases:
  assumes "AddIPToWhitelist pg iss sub an uuid ip desc ex ci ua w = (res, w')"
  obtains (failed) "db w' = rollback (db w) (db w')" and "seq_le (seqs (db w)) (seqs (db w'))" and "\<not> is_ok res"
  | (added) n d1 x where "sql_insert_entry pg iss sub an uuid ip desc ex (now w) (db w) = (Inr n, d1)"
      and "sql_insert_wl_event pg n iss sub ''requested'' None ci ua (now w) d1 = (Inr x, db w')"
proof -
  obtain q w1 where tx: "add_ip_tx pg iss sub an uuid ip desc ex ci ua w = (q, w1)" by fastforce
  show thesis
  proof (cases q)
    case (Inl e)
    with tx have "db w1 = rollback (db w) (db w1)" unfolding add_ip_tx_def by (auto intro: with_tx_error)
    moreover have "seq_le (seqs (db w)) (seqs (db w1))" by (rule growsD [OF grows_add_ip_tx tx])
    moreover from tx Inl assms have "w1 = w'" "\<not> is_ok res" by (auto simp: AddIPToWhitelist_def try_db_def)
    ultimately show thesis by (auto intro: failed)
  next
    case (Inr n)
    with tx assms have "GetWhitelistEntryByID pg n w1 = (res, w')" by (simp add: AddIPToWhitelist_def try_db_def)
    then have "db w' = db w1" using GetWhitelistEntryByID_frame by (metis snd_conv)
    with tx Inr show thesis by (auto elim!: add_ip_tx_success intro: added)
  qed
qed

lemma exec_wl_call_inv:
  assumes "wl_inv (db w)"
  shows "wl_inv (db (exec_wl_call pg c w))"
proof (cases c)
  case (CallAdd iss sub an uuid ip desc ex ci ua)
  obtain res w' where run: "AddIPToWhitelist pg iss sub an uuid ip desc ex ci ua w = (res, w')" by fastforce
  then have "wl_inv (db w')"
  proof (cases rule: AddIPToWhitelist_cases)
    case failed
    with wl_invariant.undo [OF assms failed(2)] show ?thesis by simp
  next
    case (added n d1 x)
    with assms show ?thesis by (auto intro: wl_inv_add)
  qed
  with run CallAdd show ?thesis by simp
next
  case (CallRemove i iss sub ci ua)
  have "keeps wl_inv (RemoveIPFromWhitelist pg i iss sub ci ua)"
    by (rule wl_invariant.keeps_RemoveIPFromWhitelist) (rule wl_inv_remove)
  with assms CallRemove show ?thesis by (auto dest: keeps_snd)
next
  case (CallBlacklist i iss sub reason)
  with assms show ?thesis by (auto intro: keeps_snd wl_invariant.keeps_BlacklistIP)
next
  case (CallBlacklistAddress uuid ip iss sub reason)
  with assms show ?thesis by (auto intro: keeps_snd wl_invariant.keeps_BlacklistIPAddress)
next
  case (CallMarkAdded ids iss sub)
  with assms show ?thesis by (auto intro: keeps_snd wl_invariant.keeps_MarkIPsAsAdded)
next
  case (CallExpire iss sub)
  obtain res w' where run: "ExpireOldIPs pg iss sub w = (res, w')" by fastforce
  have "wl_inv (db w')"
    by (rule wl_invariant.expire_keeps [OF assms _ run]) (rule wl_inv_remove [OF assms])
  with run CallExpire show ?thesis by simp
qed

lemma wl_reachable_inv: "wl_reachable pg d \<Longrightarrow> wl_inv d"
  by (induction rule: wl_reachable.induct) (auto intro: wl_inv_empty exec_wl_call_inv wl_inv_cong)

section \<open>Blacklisted addresses\<close>

definition blacklisted :: "string \<Rightarrow> string \<Rightarrow> database \<Rightarrow> bool" where
  "blacklisted u a d \<longleftrightarrow>
     (\<exists>r \<in> set (t_whitelist d). wr_alias_uuid r = u \<and> wr_ip r = a \<and> wr_status r = StatusBlacklistedByAdmin)"

lemma blacklisted_update:
  assumes "blacklisted u a d"
    and f: "\<And>r. r \<in> set (t_whitelist d) \<Longrightarrow> p r \<Longrightarrow> wr_status r = StatusBlacklistedByAdmin \<Longrightarrow>
              wr_alias_uuid (f r) = wr_alias_uuid r \<and> wr_ip (f r) = wr_ip r \<and> wr_status (f r) = StatusBlacklistedByAdmin"
  shows "blacklisted u a (d\<lparr>t_whitelist := upd_where p f (t_whitelist d)\<rparr>)"
proof -
  from assms(1) obtain r where r: "r \<in> set (t_whitelist d)" "wr_alias_uuid r = u" "wr_ip r = a"
    "wr_status r = StatusBlacklistedByAdmin" by (auto simp: blacklisted_def)
  have "(if p r then f r else r) \<in> set (upd_where p f (t_whitelist d))"
    unfolding set_upd_where using r(1) by (rule imageI)
  moreover have "wr_alias_uuid (if p r then f r else r) = u \<and> wr_ip (if p r then f r else r) = a \<and>
      wr_status (if p r then f r else r) = StatusBlacklistedByAdmin"
    using r f [OF r(1)] by (cases "p r") simp_all
  ultimately have "\<exists>q \<in> set (upd_where p f (t_whitelist d)). wr_alias_uuid q = u \<and> wr_ip q = a \<and>
      wr_status q = StatusBlacklistedByAdmin" by blast
  then show ?thesis unfolding blacklisted_def by simp
qed

lemma blacklisted_cong: "t_whitelist d' = t_whitelist d \<Longrightarrow> blacklisted u a d' = blacklisted u a d"
  by (simp add: blacklisted_def)

lemma sql_insert_wl_event_frame:
  "sql_insert_wl_event pg i iss sub ty n c u t d = (r, d') \<Longrightarrow> t_whitelist d' = t_whitelist d"
  by (auto simp: sql_insert_wl_event_def Let_def split: option.splits if_splits)

lemma blacklisted_blacklist:
  "blacklisted u a d \<Longrightarrow> sql_blacklist p iss sub reason t d = (r, d') \<Longrightarrow> blacklisted u a d'"
  by (auto simp: sql_blacklist_def set_blacklisted_def intro!: blacklisted_update split: if_splits)

lemma blacklisted_mark: "blacklisted u a d \<Longrightarrow> sql_mark_added ids t d = (r, d') \<Longrightarrow> blacklisted u a d'"
  by (auto simp: sql_mark_added_def Let_def intro!: blacklisted_update split: if_splits)

interpretation blacklist_kept: whitelist_stable pg "blacklisted u a" for pg u a
proof unfold_locales
  show "blacklisted u a d'" if "blacklisted u a d" "sql_insert_wl_event pg i iss sub ty n c v t d = (r, d')"
    for d i iss sub ty n c v t r d'
    using that blacklisted_cong [OF sql_insert_wl_event_frame [OF that(2)]] by simp
  show "blacklisted u a (rollback d d')" if "blacklisted u a d" for d d'
    using that by (simp add: blacklisted_def)
qed (rule blacklisted_blacklist blacklisted_mark; assumption)+

lemma blacklisted_expire:
  assumes inv: "wl_inv d" and "blacklisted u a d"
    and "sql_remove (\<lambda>r. wr_id r \<in> set (map wr_id (filter (is_expired t) (t_whitelist d)))) t d = (r, d')"
  shows "blacklisted u a d'"
proof -
  have "wr_status q \<noteq> StatusBlacklistedByAdmin"
    if q: "q \<in> set (t_whitelist d)" and "wr_id q \<in> set (map wr_id (filter (is_expired t) (t_whitelist d)))" for q
  proof -
    from that obtain s where s: "s \<in> set (t_whitelist d)" "is_expired t s" "wr_id s = wr_id q" by auto
    have "s = q" using inv q s by (auto simp: wl_inv_def distinct_map dest: inj_onD)
    with s(2) show ?thesis by (auto simp: is_expired_def is_active_def)
  qed
  with assms(2,3) show ?thesis
    by (auto simp: sql_remove_def intro!: blacklisted_update split: if_splits)
qed

primrec is_remove_call :: "wl_call \<Rightarrow> bool" where
  "is_remove_call (CallAdd iss sub an uuid ip desc ex ci ua) = False"
| "is_remove_call (CallRemove i iss sub ci ua) = True"
| "is_remove_call (CallBlacklist i iss sub reason) = False"
| "is_remove_call (CallBlacklistAddress uuid ip iss sub reason) = False"
| "is_remove_call (CallMarkAdded ids iss sub) = False"
| "is_remove_call (CallExpire iss sub) = False"

lemma blacklisted_call:
  assumes inv: "wl_inv (db w)" and bl: "blacklisted u a (db w)" and "\<not> is_remove_call c"
  shows "blacklisted u a (db (exec_wl_call pg c w))"
proof (cases c)
  case (CallAdd iss sub an uuid ip desc ex ci ua)
  obtain res w' where run: "AddIPToWhitelist pg iss sub an uuid ip desc ex ci ua w = (res, w')" by fastforce
  then have "blacklisted u a (db w')"
  proof (cases rule: AddIPToWhitelist_cases)
    case failed
    with blacklist_kept.undo [OF bl failed(2)] show ?thesis by simp
  next
    case (added n d1 x)
    then have "set (t_whitelist (db w)) \<subseteq> set (t_whitelist (db w'))"
      by (elim sql_insert_entry_Inr sql_insert_wl_event_Inr) auto
    with bl show ?thesis unfolding blacklisted_def by blast
  qed
  with run CallAdd show ?thesis by simp
next
  case (CallRemove i iss sub ci ua)
  with assms show ?thesis by simp
next
  case (CallBlacklist i iss sub reason)
  with bl show ?thesis by (auto intro: keeps_snd blacklist_kept.keeps_BlacklistIP)
next
  case (CallBlacklistAddress uuid ip iss sub reason)
  with bl show ?thesis by (auto intro: keeps_snd blacklist_kept.keeps_BlacklistIPAddress)
next
  case (CallMarkAdded ids iss sub)
  with bl show ?thesis by (auto intro: keeps_snd blacklist_kept.keeps_MarkIPsAsAdded)
next
  case (CallExpire iss sub)
  obtain res w' where run: "ExpireOldIPs pg iss sub w = (res, w')" by fastforce
  have "blacklisted u a (db w')"
    by (rule blacklist_kept.expire_keeps [OF bl _ run]) (rule blacklisted_expire [OF inv bl])
  with run CallExpire show ?thesis by simp
qed

inductive wl_path :: "pg_types \<Rightarrow> (wl_call \<Rightarrow> bool) \<Rightarrow> database \<Rightarrow> database \<Rightarrow> bool" for pg allowed where
  refl: "wl_path pg allowed d d"
| step: "wl_path pg allowed d (db w) \<Longrightarrow> allowed c \<Longrightarrow> wl_path pg allowed d (db (exec_wl_call pg c (w :: world)))"

lemma wl_path_inv: "wl_path pg allowed d d' \<Longrightarrow> wl_inv d \<Longrightarrow> wl_inv d'"
  by (induction rule: wl_path.induct) (auto intro: exec_wl_call_inv)

lemma wl_path_blacklisted:
  "wl_path pg (\<lambda>c. \<not> is_remove_call c) d d' \<Longrightarrow> wl_inv d \<Longrightarrow> blacklisted u a d \<Longrightarrow> blacklisted u a d'"
  by (induction rule: wl_path.induct) (auto intro: blacklisted_call wl_path_inv)

lemma IsIPBlacklisted_success:
  assumes "IsIPBlacklisted pg uuid ip w = (Inr b, w')"
  obtains u a where "uuid_in pg uuid = Some u" and "inet_in pg ip = Some a" and "b = blacklisted u a (db w)"
  using assms unfolding IsIPBlacklisted_def
  by (elim try_db_InrE roundtrip_InrE ok_InrE)
     (auto simp: sql_exists_blacklisted_def with_uuid_def with_inet_def blacklisted_def
       split: option.splits intro!: that)

lemma IsIPBlacklisted_no_faults:
  "faults w = [] \<Longrightarrow> uuid_in pg uuid = Some u \<Longrightarrow> inet_in pg ip = Some a \<Longrightarrow>
   fst (IsIPBlacklisted pg uuid ip w) = Inr (blacklisted u a (db w))"
  by (simp add: IsIPBlacklisted_def try_db_def roundtrip_def sql_exists_blacklisted_def with_uuid_def
      with_inet_def ok_def blacklisted_def)

section \<open>Blacklisting an address\<close>

lemma for_each_events:
  assumes "for_each ids (\<lambda>i. try_db (roundtrip (sql_insert_wl_event pg i iss sub ty n c u)) (h i) ok) w = (Inr x, w')"
  shows "t_whitelist (db w') = t_whitelist (db w)"
    and "map we_whitelist_id (t_whitelist_events (db w')) = map we_whitelist_id (t_whitelist_events (db w)) @ ids"
proof -
  have "t_whitelist (db w') = t_whitelist (db w) \<and>
    map we_whitelist_id (t_whitelist_events (db w')) = map we_whitelist_id (t_whitelist_events (db w)) @ ids"
    using assms
  proof (induction ids arbitrary: w)
    case Nil
    then show ?case by (simp add: ok_def)
  next
    case (Cons i ids)
    from Cons.prems obtain y d where "sql_insert_wl_event pg i iss sub ty n c u (now w) (db w) = (Inr y, d)"
      and rest: "for_each ids (\<lambda>i. try_db (roundtrip (sql_insert_wl_event pg i iss sub ty n c u)) (h i) ok)
           ((pop_fault w)\<lparr>db := d\<rparr>) = (Inr x, w')"
      unfolding for_each.simps by (elim try_db_InrE roundtrip_InrE ok_InrE) auto
    with Cons.IH [OF rest] show ?case by (elim sql_insert_wl_event_Inr) simp
  qed
  then show "t_whitelist (db w') = t_whitelist (db w)"
    "map we_whitelist_id (t_whitelist_events (db w')) = map we_whitelist_id (t_whitelist_events (db w)) @ ids" by simp_all
qed


lemma BlacklistIPAddress_success:
  assumes "BlacklistIPAddress pg uuid ip iss sub reason w = (Inr n, w')"
  obtains u a ids d1 k where "uuid_in pg uuid = Some u" and "inet_in pg ip = Some a"
    and "ids = map wr_id (filter (\<lambda>r. wr_alias_uuid r = u \<and> wr_ip r = a \<and> wr_status r \<noteq> StatusBlacklistedByAdmin)
                 (t_whitelist (db w)))"
    and "ids \<noteq> []" and "n = length ids"
    and "sql_blacklist (\<lambda>r. wr_id r \<in> set ids) iss sub reason (now w) (db w) = (Inr k, d1)"
    and "t_whitelist (db w') = t_whitelist d1"
    and "map we_whitelist_id (t_whitelist_events (db w')) = map we_whitelist_id (t_whitelist_events (db w)) @ ids"
proof -
  from assms obtain ids d k d1 w1 x where
    sel: "sql_select_ip pg uuid ip (\<lambda>r. wr_status r \<noteq> StatusBlacklistedByAdmin) (now w) (db w) = (Inr ids, d)"
    and ne: "ids \<noteq> []" and n: "n = length ids"
    and bl: "sql_blacklist (\<lambda>r. wr_id r \<in> set ids) iss sub reason (now w) d = (Inr k, d1)"
    and ev: "for_each ids (\<lambda>i. try_db (roundtrip (sql_insert_wl_event pg i iss sub ''blacklisted_by_admin''
                 (Some reason) None None))
               (wrap (''failed to create blacklist event for entry '' @ show_int i @ '': '')) ok)
             ((pop_fault (pop_fault (pop_fault w)))\<lparr>db := d1\<rparr>) = (Inr x, w1)"
    and w': "w' = pop_fault w1"
    unfolding BlacklistIPAddress_def
    by (elim with_tx_InrE try_db_InrE roundtrip_InrE) (auto split: if_splits elim!: success_elims)
  from sel obtain u a where ua: "uuid_in pg uuid = Some u" "inet_in pg ip = Some a" and "d = db w"
    and ids: "ids = map wr_id (filter (\<lambda>r. wr_alias_uuid r = u \<and> wr_ip r = a \<and> wr_status r \<noteq> StatusBlacklistedByAdmin)
                 (t_whitelist (db w)))"
    by (auto simp: sql_select_ip_def with_uuid_def with_inet_def split: option.splits)
  have "t_whitelist_events d1 = t_whitelist_events (db w)"
    using bl \<open>d = db w\<close> by (auto simp: sql_blacklist_def split: if_splits)
  with for_each_events [OF ev] ua ids ne n bl \<open>d = db w\<close> w' show thesis
    by (intro that) simp_all
qed

section \<open>Listing panics on an unknown actor\<close>

definition unnamed_actor :: "database \<Rightarrow> joined_row \<Rightarrow> bool" where
  "unnamed_actor d x \<longleftrightarrow> (case snd (snd x) of None \<Rightarrow> False | Some e \<Rightarrow> actor_row d e = None)"

lemma collect_rows_panic:
  "list_ex (unnamed_actor d) rows \<Longrightarrow> collect_rows pg d rows entries = Inl nil_dereference"
proof (induction rows arbitrary: entries)
  case (Cons x rows)
  obtain r u ev where x: "x = (r, u, ev)" by (cases x) auto
  show ?case
  proof (cases "unnamed_actor d x")
    case True
    then show ?thesis by (auto simp: x unnamed_actor_def Let_def split: option.splits)
  next
    case False
    with Cons show ?thesis by (auto simp: x unnamed_actor_def Let_def split: option.splits)
  qed
qed simp

lemma set_ordered_rows [simp]: "set (ordered_rows xs) = set xs"
  by (auto simp: ordered_rows_def)

lemma joined_rows_event:
  assumes "r \<in> set (t_whitelist d)" and "p r" and "find_user (wr_owner_iss r) (wr_owner_sub r) d \<noteq> None"
    and "e \<in> set (t_whitelist_events d)" and "we_whitelist_id e = wr_id r"
  shows "\<exists>u. (r, u, Some e) \<in> set (joined_rows p d)"
proof -
  let ?es = "filter (\<lambda>e. we_whitelist_id e = wr_id r) (t_whitelist_events d)"
  from assms(3) obtain u where u: "find_user (wr_owner_iss r) (wr_owner_sub r) d = Some u" by blast
  have "e \<in> set ?es" using assms(4,5) by simp
  then obtain x xs where es: "?es = x # xs" by (cases ?es) auto
  with \<open>e \<in> set ?es\<close> have "(r, u, Some e) \<in> set (map (\<lambda>e. (r, u, Some e)) (x # xs))" by (auto simp: es)
  with assms(1,2) u es have "(r, u, Some e) \<in> set (joined_rows p d)"
    unfolding joined_rows_def by (auto intro!: bexI [of _ r])
  then show ?thesis ..
qed

lemma find_entry_exists: "find_entry i d \<noteq> None \<longleftrightarrow> i \<in> wr_id ` set (t_whitelist d)"
  by (auto simp: find_entry_def find_None_iff)

section \<open>Properties\<close>

text \<open>Literals read as they are, and two worlds for the witnesses.\<close>

definition example_pg :: pg_types where
  "example_pg = \<lparr>inet_in = Some, inet_text = (\<lambda>a. a @ ''/32''), inet_family = (\<lambda>_. 4), uuid_in = Some\<rparr>"

definition wl_example_added :: world where
  "wl_example_added = exec_wl_call example_pg (CallAdd ''idp'' ''alice'' ''home'' ''U'' ''ip1'' ''d'' (Some 20) None None)
     \<lparr>db = empty_database, now = 10, faults = []\<rparr>"

definition wl_example_blacklisted :: world where
  "wl_example_blacklisted = exec_wl_call example_pg (CallBlacklistAddress ''U'' ''ip1'' ''idp'' ''admin'' ''abuse'') wl_example_added"

definition wl_example_row :: whitelist_row where
  "wl_example_row =
     \<lparr>wr_id = 1, wr_owner_iss = ''idp'', wr_owner_sub = ''alice'', wr_alias_name = ''home'', wr_alias_uuid = ''U'',
      wr_ip = ''ip1'', wr_description = ''d'', wr_status = StatusRequested, wr_requested_at = 10, wr_added_at = None,
      wr_removed_at = None, wr_expires_at = Some 20, wr_removed_by_iss = None, wr_removed_by_sub = None,
      wr_removal_reason = None\<rparr>"

definition wl_example_event :: whitelist_event_row where
  "wl_example_event =
     \<lparr>we_id = 1, we_whitelist_id = 1, we_actor_iss = ''idp'', we_actor_sub = ''alice'', we_event_type = ''requested'',
      we_notes = None, we_client_ip = None, we_user_agent = None, we_created_at = 10\<rparr>"

lemmas wl_eval =
  with_tx_def try_db_def roundtrip_def db_query_eq db_query_row_eq ok_def fail_def lift_result_def
  sql_count_user_def sql_count_total_def sql_find_duplicate_def sql_insert_entry_def sql_insert_wl_event_def
  sql_select_ip_def sql_blacklist_def sql_remove_def with_uuid_def with_inet_def check_duplicate_def
  next_fault_def pop_fault_def touches_future_def find_entry_def count_where_def Let_def

lemma wl_example_added_db:
  "wl_example_added = \<lparr>db = empty_database\<lparr>t_whitelist := [wl_example_row], t_whitelist_events := [wl_example_event],
      seqs := (seqs empty_database)\<lparr>sq_whitelist := 2, sq_whitelist_events := 2\<rparr>\<rparr>, now = 10, faults = []\<rparr>"
  by (simp add: wl_example_added_def AddIPToWhitelist_def add_ip_tx_def GetWhitelistEntryByID_def
      GetWhitelistEventsByEntry_def wl_eval example_pg_def empty_database_def wl_example_row_def wl_example_event_def
      split: sum.splits)

lemma wl_example_blacklisted_db:
  "t_whitelist (db wl_example_blacklisted) = [set_blacklisted ''idp'' ''admin'' ''abuse'' 10 wl_example_row]"
  "faults wl_example_blacklisted = []" "now wl_example_blacklisted = 10"
  by (simp_all add: wl_example_blacklisted_def wl_example_added_db BlacklistIPAddress_def wl_eval example_pg_def
      empty_database_def wl_example_row_def set_blacklisted_def)

lemma wl_example_reachable:
  "wl_reachable example_pg (db wl_example_added)" "wl_reachable example_pg (db wl_example_blacklisted)"
proof -
  show "wl_reachable example_pg (db wl_example_added)"
    unfolding wl_example_added_def by (rule wl_reachable.call) (simp add: wl_reachable.start)
  then show "wl_reachable example_pg (db wl_example_blacklisted)"
    unfolding wl_example_blacklisted_def by (rule wl_reachable.call)
qed

text \<open>
  Whatever calls the program made and however they failed, no owner has the same address active
  twice in an alias, every entry has an audit event saying that its owner requested it, every audit
  event belongs to an entry, and ids are unique.
\<close>

theorem whitelist_invariant:
  assumes "wl_reachable pg d"
  shows "distinct (map wr_id (t_whitelist d)) \<and>
    (\<forall>r \<in> set (t_whitelist d). \<forall>s \<in> set (t_whitelist d). same_active r s \<longrightarrow> wr_id r = wr_id s) \<and>
    (\<forall>r \<in> set (t_whitelist d). has_request_event d r) \<and>
    (\<forall>e \<in> set (t_whitelist_events d). find_entry (we_whitelist_id e) d \<noteq> None)"
  using wl_reachable_inv [OF assms] unfolding wl_inv_def find_entry_exists by blast

theorem whitelist_invariant_witness:
  "has_request_event (db wl_example_added) wl_example_row"
  using whitelist_invariant [OF wl_example_reachable(1)] by (simp add: wl_example_added_db)

text \<open>
  \<open>AddIPToWhitelist\<close> adds one entry or none. Either every table is as before and the call
  failed, or exactly one \<open>requested\<close> entry of the owner and one \<open>requested\<close> event were added, in
  which case the owner had no active entry for the address in the alias before, and has one active
  entry more.
\<close>

theorem add_ip_exact:
  assumes "AddIPToWhitelist pg iss sub an uuid ip desc ex ci ua w = (res, w')"
  shows "(\<not> is_ok res \<and> db w' = (db w)\<lparr>seqs := seqs (db w')\<rparr>) \<or>
    (\<exists>r e u a. uuid_in pg uuid = Some u \<and> inet_in pg ip = Some a \<and>
       t_whitelist (db w') = t_whitelist (db w) @ [r] \<and> t_whitelist_events (db w') = t_whitelist_events (db w) @ [e] \<and>
       owned_active iss sub u r \<and> wr_ip r = a \<and> wr_status r = StatusRequested \<and> wr_expires_at r = ex \<and>
       we_whitelist_id e = wr_id r \<and> we_event_type e = ''requested'' \<and>
       (\<forall>s \<in> set (t_whitelist (db w)). \<not> (owned_active iss sub u s \<and> wr_ip s = a)) \<and>
       count_where (owned_active iss sub u) (t_whitelist (db w')) =
         Suc (count_where (owned_active iss sub u) (t_whitelist (db w))))"
  using assms
proof (cases rule: AddIPToWhitelist_cases)
  case failed
  from failed(1) have "db w' = (db w)\<lparr>seqs := seqs (db w')\<rparr>" unfolding rollback_def .
  with failed(3) show ?thesis by blast
next
  case (added n d1 x)
  obtain r u a where r: "uuid_in pg uuid = Some u" "inet_in pg ip = Some a"
      "t_whitelist d1 = t_whitelist (db w) @ [r]" "t_whitelist_events d1 = t_whitelist_events (db w)"
      "owned_active iss sub u r" "wr_ip r = a" "wr_status r = StatusRequested" "wr_expires_at r = ex" "wr_id r = n"
      "\<forall>s \<in> set (t_whitelist (db w)). \<not> (owned_active iss sub u s \<and> wr_ip s = a)"
    by (rule sql_insert_entry_Inr [OF added(1)], rule that) (auto simp: owned_active_def is_active_def)
  from added(2) obtain e where e: "t_whitelist (db w') = t_whitelist d1"
      "t_whitelist_events (db w') = t_whitelist_events d1 @ [e]" "we_whitelist_id e = n" "we_event_type e = ''requested''"
    by (elim sql_insert_wl_event_Inr) auto
  have "count_where (owned_active iss sub u) (t_whitelist (db w')) =
        Suc (count_where (owned_active iss sub u) (t_whitelist (db w)))"
    using r e by (simp add: count_where_def)
  with r e show ?thesis by auto
qed

theorem add_ip_exact_witness:
  "\<exists>res w'. AddIPToWhitelist example_pg ''idp'' ''bob'' ''home'' ''U'' ''ip2'' ''d'' None None None wl_example_added = (res, w') \<and>
     length (t_whitelist (db w')) \<le> 2"
proof -
  obtain res w' where run:
    "AddIPToWhitelist example_pg ''idp'' ''bob'' ''home'' ''U'' ''ip2'' ''d'' None None None wl_example_added = (res, w')"
    by fastforce
  have len: "length (t_whitelist (db wl_example_added)) = 1" by (simp add: wl_example_added_db)
  from add_ip_exact [OF run] have "length (t_whitelist (db w')) \<le> 2"
  proof (elim disjE exE conjE)
    assume "db w' = (db wl_example_added)\<lparr>seqs := seqs (db w')\<rparr>"
    from arg_cong [OF this, of t_whitelist] len show ?thesis by simp
  next
    fix r assume "t_whitelist (db w') = t_whitelist (db wl_example_added) @ [r]"
    with len show ?thesis by simp
  qed
  with run show ?thesis by blast
qed

text \<open>
  A blacklisted address stays blacklisted. Once \<open>IsIPBlacklisted\<close> answers yes, it answers yes
  after any sequence of additions, blacklistings, sync markings and expirations, whatever fails; only
  \<open>RemoveIPFromWhitelist\<close> can end it.
\<close>

theorem blacklist_persists:
  assumes "wl_reachable pg (db w)" and "IsIPBlacklisted pg uuid ip w = (Inr True, w1)"
    and "wl_path pg (\<lambda>c. \<not> is_remove_call c) (db w) (db v)" and "faults v = []"
  shows "fst (IsIPBlacklisted pg uuid ip v) = Inr True"
proof -
  from assms(2) obtain u a where ua: "uuid_in pg uuid = Some u" "inet_in pg ip = Some a" "blacklisted u a (db w)"
    by (auto elim: IsIPBlacklisted_success)
  with wl_path_blacklisted [OF assms(3) wl_reachable_inv [OF assms(1)]] have "blacklisted u a (db v)" by blast
  with IsIPBlacklisted_no_faults [OF assms(4) ua(1,2)] show ?thesis by simp
qed

theorem blacklist_persists_witness:
  "fst (IsIPBlacklisted example_pg ''U'' ''ip1'' wl_example_blacklisted) = Inr True"
proof (rule blacklist_persists [OF wl_example_reachable(2) _ wl_path.refl wl_example_blacklisted_db(2)])
  show "IsIPBlacklisted example_pg ''U'' ''ip1'' wl_example_blacklisted = (Inr True, wl_example_blacklisted)"
    by (simp add: IsIPBlacklisted_def sql_exists_blacklisted_def wl_eval example_pg_def wl_example_blacklisted_db
        set_blacklisted_def wl_example_row_def)
qed

text \<open>
  Removing a blacklisted entry lifts the blacklisting. \<open>RemoveIPFromWhitelist\<close> does not look at
  the status, so a removal that reaches the database after the entry was blacklisted makes it
  \<open>removed\<close>, and the address can be requested again if no other entry is blacklisted.
\<close>

theorem remove_lifts_blacklist:
  assumes "wl_reachable pg (db w)" and "find_entry i (db w) = Some r" and "wr_status r = StatusBlacklistedByAdmin"
    and "\<forall>s \<in> set (t_whitelist (db w)). wr_alias_uuid s = wr_alias_uuid r \<and> wr_ip s = wr_ip r \<and>
           wr_status s = StatusBlacklistedByAdmin \<longrightarrow> wr_id s = i"
    and "RemoveIPFromWhitelist pg i iss sub ci ua w = (Inr x, w')"
  shows "\<not> blacklisted (wr_alias_uuid r) (wr_ip r) (db w') \<and>
         map_option wr_status (find_entry i (db w')) = Some StatusRemoved"
proof -
  from assms(5) obtain n d1 where rem: "sql_remove (\<lambda>r. wr_id r = i) (now w) (db w) = (Inr n, d1)"
    and wl: "t_whitelist (db w') = t_whitelist d1"
    unfolding RemoveIPFromWhitelist_def CreateWhitelistEvent_def
    by (elim try_db_InrE roundtrip_InrE) (auto split: if_splits elim!: success_elims dest: sql_insert_wl_event_frame)
  from rem have rows: "t_whitelist (db w') = upd_where (\<lambda>r. wr_id r = i) (set_removed (now w)) (t_whitelist (db w))"
    by (auto simp: wl sql_remove_def split: if_splits)
  have "\<not> blacklisted (wr_alias_uuid r) (wr_ip r) (db w')"
    using assms(4) unfolding blacklisted_def rows set_upd_where by (auto simp: set_removed_def split: if_splits)
  moreover have "find_entry i (db w') = map_option (set_removed (now w)) (find_entry i (db w))"
    unfolding find_entry_def rows
    by (subst find_upd_where) (auto simp: set_removed_def dest!: find_SomeD intro!: option.map_cong)
  ultimately show ?thesis using assms(2) by (simp add: set_removed_def)
qed

theorem remove_lifts_blacklist_witness:
  "\<exists>w'. RemoveIPFromWhitelist example_pg 1 ''idp'' ''alice'' None None wl_example_blacklisted = (Inr (), w') \<and>
     \<not> blacklisted ''U'' ''ip1'' (db w')"
proof -
  let ?r = "set_blacklisted ''idp'' ''admin'' ''abuse'' 10 wl_example_row"
  have r: "find_entry 1 (db wl_example_blacklisted) = Some ?r"
    "wr_alias_uuid ?r = ''U''" "wr_ip ?r = ''ip1''" "wr_status ?r = StatusBlacklistedByAdmin" "wr_id ?r = 1"
    by (simp_all add: find_entry_def wl_example_blacklisted_db set_blacklisted_def wl_example_row_def)
  obtain w' where run: "RemoveIPFromWhitelist example_pg 1 ''idp'' ''alice'' None None wl_example_blacklisted = (Inr (), w')"
    by (simp add: RemoveIPFromWhitelist_def CreateWhitelistEvent_def wl_eval wl_example_blacklisted_db example_pg_def
        set_blacklisted_def set_removed_def wl_example_row_def)
  have "\<forall>s \<in> set (t_whitelist (db wl_example_blacklisted)). wr_id s = 1"
    by (simp add: wl_example_blacklisted_db r)
  with remove_lifts_blacklist [OF wl_example_reachable(2) r(1) r(4) _ run] run r show ?thesis by auto
qed

lemma wl_ids_inj:
  assumes "wl_inv d" and "q \<in> set (t_whitelist d)" and "r \<in> set (t_whitelist d)" and "wr_id q = wr_id r"
  shows "q = r"
proof -
  have "inj_on wr_id (set (t_whitelist d))" using assms(1) unfolding wl_inv_def distinct_map by blast
  from inj_onD [OF this assms(4,2,3)] show ?thesis .
qed

lemma find_moved_None:
  assumes inv: "user_inv d" and sys: "find_system d = Some s" and ne: "ur_iss s \<noteq> url"
  shows "find_user (ur_iss s) SystemSub (moved_system_user url (ur_iss s) d) = None"
proof -
  have s: "s \<in> set (t_users d)" "ur_is_system s" using sys by (auto simp: find_system_def dest: find_SomeD)
  with inv have sub: "ur_sub s = SystemSub" by (auto simp: user_inv_def)
  have "\<not> is_user (ur_iss s) SystemSub q" if q: "q \<in> set (t_users d)" "\<not> ur_is_system q" for q
  proof
    assume "is_user (ur_iss s) SystemSub q"
    then have "user_key q = user_key s" using sub by (simp add: is_user_def user_key_def)
    with inv q(1) s(1) have "q = s" by (auto simp: user_inv_def distinct_map dest: inj_onD)
    with q(2) s(2) show False by simp
  qed
  then show ?thesis
    unfolding find_user_def find_None_iff moved_system_user_def
    using ne by (auto simp: set_upd_where is_user_def)
qed

lemma moved_keeps_other_users:
  assumes "find_user iss sub d = Some o'" and "\<not> ur_is_system o'"
  shows "find_user iss sub (moved_system_user url old d) \<noteq> None"
proof -
  from assms have "o' \<in> set (t_users d)" "is_user iss sub o'" by (auto simp: find_user_def dest: find_SomeD)
  with assms(2) have "o' \<in> set (t_users (moved_system_user url old d))"
    by (auto simp: moved_system_user_def set_upd_where intro: image_eqI [of _ _ o'])
  with \<open>is_user iss sub o'\<close> show ?thesis by (auto simp: find_user_def find_None_iff)
qed

text \<open>
  Blacklisting an address is complete and atomic. On success every entry of the alias with that
  address is blacklisted, the count is the number of entries that were not, each of those got one
  audit event, no other entry changed, and \<open>IsIPBlacklisted\<close> answers yes; on an error, also of a
  later statement, every table is as before; with no entry to blacklist it is an error.
\<close>

theorem blacklist_address_complete:
  assumes "wl_reachable pg (db w)" and "BlacklistIPAddress pg uuid ip iss sub reason w = (res, w')"
  shows "case res of
      Inl e \<Rightarrow> db w' = (db w)\<lparr>seqs := seqs (db w')\<rparr>
    | Inr n \<Rightarrow> \<exists>u a. uuid_in pg uuid = Some u \<and> inet_in pg ip = Some a \<and> blacklisted u a (db w') \<and>
        0 < n \<and> n = count_where (\<lambda>r. wr_alias_uuid r = u \<and> wr_ip r = a \<and> wr_status r \<noteq> StatusBlacklistedByAdmin)
                      (t_whitelist (db w)) \<and>
        t_whitelist (db w') = map (\<lambda>r. if wr_alias_uuid r = u \<and> wr_ip r = a \<and> wr_status r \<noteq> StatusBlacklistedByAdmin
             then set_blacklisted iss sub reason (now w) r else r) (t_whitelist (db w)) \<and>
        length (t_whitelist_events (db w')) = length (t_whitelist_events (db w)) + n"
proof (cases res)
  case (Inl e)
  with assms(2) have "db w' = rollback (db w) (db w')"
    unfolding BlacklistIPAddress_def by (auto intro: with_tx_error)
  then have "db w' = (db w)\<lparr>seqs := seqs (db w')\<rparr>" unfolding rollback_def .
  then show ?thesis unfolding Inl sum.case .
next
  case (Inr n)
  let ?hit = "\<lambda>u a r. wr_alias_uuid r = u \<and> wr_ip r = a \<and> wr_status r \<noteq> StatusBlacklistedByAdmin"
  obtain u a ids d1 k where
    ua: "uuid_in pg uuid = Some u" "inet_in pg ip = Some a"
    and ids: "ids = map wr_id (filter (?hit u a) (t_whitelist (db w)))" and n: "ids \<noteq> []" "n = length ids"
    and bl: "sql_blacklist (\<lambda>r. wr_id r \<in> set ids) iss sub reason (now w) (db w) = (Inr k, d1)"
    and wl: "t_whitelist (db w') = t_whitelist d1"
    and ev: "map we_whitelist_id (t_whitelist_events (db w')) = map we_whitelist_id (t_whitelist_events (db w)) @ ids"
    by (rule BlacklistIPAddress_success [OF assms(2) [unfolded Inr]])
  have inj: "q = r" if "q \<in> set (t_whitelist (db w))" "r \<in> set (t_whitelist (db w))" "wr_id q = wr_id r" for q r
    using wl_ids_inj [OF wl_reachable_inv [OF assms(1)] that] .
  have hit: "wr_id r \<in> set ids \<longleftrightarrow> ?hit u a r" if "r \<in> set (t_whitelist (db w))" for r
    using inj that by (auto simp: ids)
  have rows: "t_whitelist (db w') = map (\<lambda>r. if ?hit u a r then set_blacklisted iss sub reason (now w) r else r) (t_whitelist (db w))"
    using bl hit by (auto simp: wl sql_blacklist_def upd_where_def split: if_splits)
  obtain r where r: "r \<in> set (t_whitelist (db w))" "?hit u a r" using n(1) by (auto simp: ids filter_empty_conv)
  then have "set_blacklisted iss sub reason (now w) r \<in> set (t_whitelist (db w'))" by (force simp: rows)
  moreover have "wr_alias_uuid (set_blacklisted iss sub reason (now w) r) = u \<and>
      wr_ip (set_blacklisted iss sub reason (now w) r) = a \<and>
      wr_status (set_blacklisted iss sub reason (now w) r) = StatusBlacklistedByAdmin"
    using r(2) by (simp add: set_blacklisted_def)
  ultimately have "blacklisted u a (db w')" unfolding blacklisted_def by blast
  moreover have "length (t_whitelist_events (db w')) = length (t_whitelist_events (db w)) + n"
    using arg_cong [OF ev, of length] n(2) by simp
  moreover have "n = count_where (?hit u a) (t_whitelist (db w))" "0 < n"
    using n by (simp_all add: ids count_where_def)
  ultimately show ?thesis using ua rows by (auto simp: Inr)
qed

theorem blacklist_address_complete_witness:
  "\<exists>n w'. BlacklistIPAddress example_pg ''U'' ''ip1'' ''idp'' ''admin'' ''abuse'' wl_example_added = (Inr n, w') \<and>
     blacklisted ''U'' ''ip1'' (db w')"
proof -
  obtain n w' where run: "BlacklistIPAddress example_pg ''U'' ''ip1'' ''idp'' ''admin'' ''abuse'' wl_example_added = (Inr n, w')"
    by (simp add: wl_example_added_db BlacklistIPAddress_def wl_eval example_pg_def empty_database_def
        wl_example_row_def set_blacklisted_def)
  from blacklist_address_complete [OF wl_example_reachable(1) run] run show ?thesis
    by (auto simp: example_pg_def)
qed

text \<open>
  Expiration is exact. When \<open>ExpireOldIPs\<close> succeeds, no active entry with an expiry at or
  before now is left, exactly the entries that were expired and active became \<open>removed\<close>, every
  other entry is as before, and the count is their number.
\<close>

lemma expire_exact:
  assumes "wl_reachable pg (db w)" and "ExpireOldIPs pg iss sub w = (Inr n, w')"
  shows "t_whitelist (db w') = map (\<lambda>r. if is_expired (now w) r then set_removed (now w) r else r) (t_whitelist (db w)) \<and>
         list_all (\<lambda>r. \<not> is_expired (now w) r) (t_whitelist (db w')) \<and>
         n = count_where (is_expired (now w)) (t_whitelist (db w))"
proof -
  have inj: "q = r" if "q \<in> set (t_whitelist (db w))" "r \<in> set (t_whitelist (db w))" "wr_id q = wr_id r" for q r
    using wl_ids_inj [OF wl_reachable_inv [OF assms(1)] that] .
  have "t_whitelist (db w') = map (\<lambda>r. if is_expired (now w) r then set_removed (now w) r else r) (t_whitelist (db w)) \<and>
        n = count_where (is_expired (now w)) (t_whitelist (db w))"
    using assms(2)
  proof (cases rule: ExpireOldIPs_cases)
    case unchanged
    then have none: "filter (is_expired (now w)) (t_whitelist (db w)) = []" "n = 0" by simp_all
    then have "map (\<lambda>r. if is_expired (now w) r then set_removed (now w) r else r) (t_whitelist (db w)) = t_whitelist (db w)"
      by (auto simp: filter_empty_conv intro!: map_idI)
    with none unchanged(1) show ?thesis by (simp add: count_where_def)
  next
    case (removed k d1)
    let ?ids = "map wr_id (filter (is_expired (now w)) (t_whitelist (db w)))"
    have hit: "wr_id r \<in> set ?ids \<longleftrightarrow> is_expired (now w) r" if "r \<in> set (t_whitelist (db w))" for r
      using inj that by auto
    have d1: "t_whitelist d1 = map (\<lambda>r. if is_expired (now w) r then set_removed (now w) r else r) (t_whitelist (db w))"
      using removed(1) hit by (auto simp: sql_remove_def upd_where_def split: if_splits)
    from removed(2) obtain x w1 where
      ev: "for_each ?ids (\<lambda>i. try_db (CreateWhitelistEvent pg i iss sub ''expired'' [] None None)
             (wrap (''failed to create expired event for IP '' @ show_int i @ '': '')) ok)
           (pop_fault (pop_fault w)\<lparr>db := d1\<rparr>) = (Inr x, w1)" and fin: "n = length ?ids" "w' = w1"
      unfolding record_expired_def by (elim try_db_InrE ok_InrE) auto
    have "keeps (\<lambda>d. t_whitelist d = t_whitelist d1) (for_each ?ids (\<lambda>i.
        try_db (CreateWhitelistEvent pg i iss sub ''expired'' [] None None)
             (wrap (''failed to create expired event for IP '' @ show_int i @ '': '')) ok))"
      unfolding CreateWhitelistEvent_def
      by (intro keeps_for_each keeps_try keeps_ok keeps_roundtrip) (auto dest: sql_insert_wl_event_frame)
    from keepsD [OF this _ ev] have "t_whitelist (db w') = t_whitelist d1" by (simp add: fin)
    with d1 fin show ?thesis by (simp add: count_where_def)
  qed
  moreover have "\<not> is_expired t (set_removed t r)" for t r by (simp add: is_expired_def is_active_def set_removed_def)
  ultimately show ?thesis by (auto simp: list_all_iff)
qed

text \<open>
  Changing the external URL breaks the whitelist pages. \<open>EnsureSystemUser\<close> moves the system user
  and the certificate rows to the new URL but not the whitelist events; if an entry of an ordinary user
  has an event whose actor is the old system user (as the expiration and sync jobs record), then listing
  all entries, or that user's entries, dereferences a nil pointer and panics.
\<close>

theorem url_change_breaks_whitelist_listing:
  assumes "user_reachable (db w)" and "EnsureSystemUser url w = (Inr u, w')"
    and "find_system (db w) = Some s" and "ur_iss s \<noteq> url"
    and "r \<in> set (t_whitelist (db w))" and "find_user (wr_owner_iss r) (wr_owner_sub r) (db w) = Some owner"
    and "\<not> ur_is_system owner"
    and "e \<in> set (t_whitelist_events (db w))" and "we_whitelist_id e = wr_id r"
    and "we_actor_iss e = ur_iss s" and "we_actor_sub e = SystemSub"
    and "find_sa (ur_iss s) SystemSub (db w) = None" and "faults w' = []"
  shows "fst (GetAllWhitelistEntries pg w') = Inl nil_dereference \<and>
         fst (GetUserWhitelistEntries pg (wr_owner_iss r) (wr_owner_sub r) w') = Inl nil_dereference"
proof -
  from assms(2) have d: "db w' = moved_system_user url (ur_iss s) (db w)"
    by (cases rule: EnsureSystemUser_success) (use assms(3,4) in auto)
  have "find_user (ur_iss s) SystemSub (db w') = None"
    unfolding d by (rule find_moved_None [OF user_reachable_inv [OF assms(1)] assms(3,4)])
  then have actor: "actor_row (db w') e = None"
    using assms(10-12) by (simp add: actor_row_def find_sa_def d moved_system_user_def)
  have "find_user (wr_owner_iss r) (wr_owner_sub r) (db w') \<noteq> None"
    unfolding d by (rule moved_keeps_other_users [OF assms(6,7)])
  moreover have "r \<in> set (t_whitelist (db w'))" "e \<in> set (t_whitelist_events (db w'))"
    using assms(5,8) by (simp_all add: d moved_system_user_def)
  ultimately have "\<exists>v. (r, v, Some e) \<in> set (joined_rows p (db w'))" if "p r" for p
    using joined_rows_event that assms(9) by blast
  moreover have "unnamed_actor (db w') (r, v, Some e)" for v using actor by (simp add: unnamed_actor_def)
  ultimately have "list_ex (unnamed_actor (db w')) (ordered_rows (joined_rows p (db w')))" if "p r" for p
    using that unfolding list_ex_iff set_ordered_rows by blast
  from collect_rows_panic [OF this] show ?thesis
    using assms(13) by (simp add: GetAllWhitelistEntries_def GetUserWhitelistEntries_def try_db_def db_query_eq lift_result_def)
qed

definition wl_example_url :: world where
  "wl_example_url = example_system_world\<lparr>db := (db example_system_world)\<lparr>
     t_users := t_users (db example_system_world) @ [\<lparr>ur_iss = ''idp'', ur_sub = ''alice'', ur_username = ''a'',
        ur_display_name = ''A'', ur_email = ''a@x'', ur_is_system = False, ur_last_logged_in = Some 1,
        ur_created_at = Some 1\<rparr>],
     t_whitelist := [wl_example_row],
     t_whitelist_events := [wl_example_event\<lparr>we_actor_iss := ''https://old'', we_actor_sub := SystemSub,
        we_event_type := ''added''\<rparr>]\<rparr>\<rparr>"


lemma example_system_db:
  "t_users (db example_system_world) = [\<lparr>ur_iss = ''https://old'', ur_sub = SystemSub, ur_username = SystemUsername,
     ur_display_name = SystemDisplayName, ur_email = SystemEmail, ur_is_system = True, ur_last_logged_in = None,
     ur_created_at = Some 3\<rparr>]"
  "faults example_system_world = []" "t_service_accounts (db example_system_world) = []"
  "t_groups (db example_system_world) = []" "t_cert_requests (db example_system_world) = []"
  "t_cert_events (db example_system_world) = []"
  by (simp_all add: example_system_world_def EnsureSystemUser_def ensure_system_user_body_def create_system_user_def
      wl_eval find_system_def sql_insert_user_def empty_database_def find_user_def)

lemma wl_example_url_reachable: "user_reachable (db wl_example_url)"
proof -
  let ?d = "(db example_system_world)\<lparr>t_groups := []\<rparr>"
  let ?v = "\<lparr>db = ?d, now = 1, faults = []\<rparr> :: world"
  have "user_reachable (db example_system_world)"
    unfolding example_system_world_def by (rule user_reachable.call) (simp add: user_reachable.start)
  then have "user_reachable (db ?v)" by (rule user_reachable.other) simp
  then have "user_reachable (db (exec_user_call (CallUpsertUser ''alice'' ''idp'' ''a'' ''A'' ''a@x'' []) ?v))"
    by (rule user_reachable.call)
  then show ?thesis
    by (rule user_reachable.other)
       (simp add: UpsertUser_def upsert_tx_def sql_upsert_user_def sql_delete_groups_def GetUserByID_def wl_eval
         find_user_def is_user_def find_append wl_example_url_def example_system_db SystemSub_def)
qed

lemma wl_example_url_run: "\<exists>u w'. EnsureSystemUser ''https://new'' wl_example_url = (Inr u, w') \<and> faults w' = []"
  by (simp add: EnsureSystemUser_def ensure_system_user_body_def move_system_user_def wl_eval find_system_def
      sql_update_system_user_def sql_move_request_owner_def sql_move_event_requester_def
      sql_move_event_reviewer_def user_groups_def wl_example_url_def example_system_db SystemSub_def)

theorem url_change_breaks_whitelist_listing_witness:
  "\<exists>u w'. EnsureSystemUser ''https://new'' wl_example_url = (Inr u, w') \<and>
     fst (GetAllWhitelistEntries example_pg w') = Inl nil_dereference"
proof -
  obtain u w' where run: "EnsureSystemUser ''https://new'' wl_example_url = (Inr u, w')" and nf: "faults w' = []"
    using wl_example_url_run by blast
  have users: "t_users (db wl_example_url) = t_users (db example_system_world) @
      [\<lparr>ur_iss = ''idp'', ur_sub = ''alice'', ur_username = ''a'', ur_display_name = ''A'', ur_email = ''a@x'',
        ur_is_system = False, ur_last_logged_in = Some 1, ur_created_at = Some 1\<rparr>]"
    by (simp add: wl_example_url_def)
  have "fst (GetAllWhitelistEntries example_pg w') = Inl nil_dereference \<and>
     fst (GetUserWhitelistEntries example_pg (wr_owner_iss wl_example_row) (wr_owner_sub wl_example_row) w') = Inl nil_dereference"
  proof (rule url_change_breaks_whitelist_listing [OF wl_example_url_reachable run])
    show "find_system (db wl_example_url) = Some (hd (t_users (db example_system_world)))"
      "ur_iss (hd (t_users (db example_system_world))) \<noteq> ''https://new''"
      by (simp_all add: find_system_def users example_system_db)
    show "find_user (wr_owner_iss wl_example_row) (wr_owner_sub wl_example_row) (db wl_example_url) =
        Some (last (t_users (db wl_example_url)))" "\<not> ur_is_system (last (t_users (db wl_example_url)))"
      by (simp_all add: find_user_def is_user_def users example_system_db wl_example_row_def SystemSub_def)
    show "wl_example_row \<in> set (t_whitelist (db wl_example_url))"
      "hd (t_whitelist_events (db wl_example_url)) \<in> set (t_whitelist_events (db wl_example_url))"
      "we_whitelist_id (hd (t_whitelist_events (db wl_example_url))) = wr_id wl_example_row"
      "we_actor_iss (hd (t_whitelist_events (db wl_example_url))) = ur_iss (hd (t_users (db example_system_world)))"
      "we_actor_sub (hd (t_whitelist_events (db wl_example_url))) = SystemSub"
      "find_sa (ur_iss (hd (t_users (db example_system_world)))) SystemSub (db wl_example_url) = None"
      by (simp_all add: wl_example_url_def wl_example_row_def wl_example_event_def example_system_db find_sa_def)
  qed (rule nf)
  with run show ?thesis by blast
qed

end
