(* ===== verification/Service_Account_Store.thy ===== *)
theory Service_Account_Store
  imports Whitelist_Store
begin

text \<open>
  Service accounts: \<open>internal/storage/service_account_queries.go\<close> over the tables
  \<open>service_accounts\<close> and \<open>service_account_scopes\<close> of migration 002. An account is never removed
  from its table; deleting it sets \<open>deleted_at\<close> and disables it.
\<close>

section \<open>Statements\<close>

definition is_sa :: "string \<Rightarrow> string \<Rightarrow> sa_row \<Rightarrow> bool" where
  "is_sa iss sub s \<longleftrightarrow> sr_iss s = iss \<and> sr_sub s = sub"

definition sa_scope_names :: "string \<Rightarrow> string \<Rightarrow> database \<Rightarrow> scope list" where
  "sa_scope_names iss sub d = map sc_name (filter (\<lambda>c. sc_iss c = iss \<and> sc_sub c = sub) (t_sa_scopes d))"

definition scan_sa :: "sa_row \<Rightarrow> service_account" where
  "scan_sa s =
     \<lparr>sa_sub = sr_sub s, sa_iss = sr_iss s, sa_name = sr_name s, sa_lookup_id = sr_lookup_id s,
      sa_secret_hash = sr_token_hash s, sa_token_expires_at = sr_token_expires_at s, sa_scopes = [],
      sa_is_disabled = sr_is_disabled s, sa_deleted_at = sr_deleted_at s,
      sa_created_by_sub = sr_created_by_sub s, sa_created_by_iss = sr_created_by_iss s,
      sa_created_at = sr_created_at s\<rparr>"

definition sql_insert_sa :: "service_account \<Rightarrow> time \<Rightarrow> database \<Rightarrow> nat result \<times> database" where
  "sql_insert_sa a t d =
     (if length (sa_lookup_id a) < 16 then (Inl (check_violation ''lookup_id_length''), d)
      else if \<exists>s \<in> set (t_service_accounts d). sr_lookup_id s = sa_lookup_id a
        then (Inl (duplicate_key ''service_accounts_lookup_id_key''), d)
      else if find_sa (sa_iss a) (sa_sub a) d \<noteq> None
        then (Inl (duplicate_key ''idx_service_accounts_iss_sub''), d)
      else (Inr 1, d\<lparr>t_service_accounts := t_service_accounts d @
             [\<lparr>sr_iss = sa_iss a, sr_sub = sa_sub a, sr_name = sa_name a, sr_lookup_id = sa_lookup_id a,
               sr_token_hash = sa_secret_hash a, sr_token_expires_at = sa_token_expires_at a,
               sr_is_disabled = sa_is_disabled a, sr_deleted_at = None,
               sr_created_by_iss = sa_created_by_iss a, sr_created_by_sub = sa_created_by_sub a,
               sr_created_at = t\<rparr>]\<rparr>))"

definition sql_insert_sa_scope :: "string \<Rightarrow> string \<Rightarrow> scope \<Rightarrow> time \<Rightarrow> database \<Rightarrow> nat result \<times> database" where
  "sql_insert_sa_scope iss sub s t d =
     (if find_sa iss sub d = None then (Inl (fk_violation ''service_account_scopes_owner_fkey''), d)
      else if s \<in> set (sa_scope_names iss sub d) then (Inl (duplicate_key ''service_account_scopes_pkey''), d)
      else (Inr 1, d\<lparr>t_sa_scopes := t_sa_scopes d @ [\<lparr>sc_iss = iss, sc_sub = sub, sc_name = s\<rparr>]\<rparr>))"

text \<open>The three updates have \<open>WHERE iss = $1 AND sub = $2 AND deleted_at IS NULL\<close>.\<close>

definition live_sa :: "string \<Rightarrow> string \<Rightarrow> sa_row \<Rightarrow> bool" where
  "live_sa iss sub s \<longleftrightarrow> is_sa iss sub s \<and> sr_deleted_at s = None"

definition sql_update_sa ::
  "string \<Rightarrow> string \<Rightarrow> (time \<Rightarrow> sa_row \<Rightarrow> sa_row) \<Rightarrow> time \<Rightarrow> database \<Rightarrow> nat result \<times> database" where
  "sql_update_sa iss sub f t d =
     (Inr (count_where (live_sa iss sub) (t_service_accounts d)),
      d\<lparr>t_service_accounts := upd_where (live_sa iss sub) (f t) (t_service_accounts d)\<rparr>)"

section \<open>Reading\<close>

definition load_scopes :: "service_account \<Rightarrow> ('w, service_account) dbop" where
  "load_scopes a =
     try_db (db_query (sa_scope_names (sa_iss a) (sa_sub a)))
       (wrap (''failed to get scopes for service account '' @ sa_sub a @ '':'' @ sa_iss a @ '': ''))
       (\<lambda>scopes. ok (a\<lparr>sa_scopes := scopes\<rparr>))"

definition GetServiceAccountByID :: "string \<Rightarrow> string \<Rightarrow> ('w, service_account) dbop" where
  "GetServiceAccountByID iss sub =
     try_db (db_query_row (\<lambda>d. map_option scan_sa (find_sa iss sub d)))
       (\<lambda>e. if errors_Is e ErrNoRows then Errorf ''service account not found''
             else wrap ''failed to get service account by id: '' e)
       load_scopes"

definition find_lookup :: "string \<Rightarrow> database \<Rightarrow> sa_row option" where
  "find_lookup lookupId d = find (\<lambda>s. sr_lookup_id s = lookupId) (t_service_accounts d)"

definition GetServiceAccountByLookupId :: "string \<Rightarrow> ('w, service_account) dbop" where
  "GetServiceAccountByLookupId lookupId =
     try_db (db_query_row (\<lambda>d. map_option scan_sa (find_lookup lookupId d)))
       (\<lambda>e. if errors_Is e ErrNoRows then Errorf ''service account not found''
             else wrap ''failed to get service account by id: '' e)
       load_scopes"

text \<open>
  \<open>GetServiceAccountsByCreator\<close> keys its map by \<open>iss + ":" + sub\<close>; when two accounts have the same
  key the map holds the later one.
\<close>

definition sa_key :: "service_account \<Rightarrow> string" where
  "sa_key a = sa_iss a @ '':'' @ sa_sub a"

fun add_scope :: "string \<Rightarrow> scope \<Rightarrow> service_account list \<Rightarrow> service_account list" where
  "add_scope key s [] = []"
| "add_scope key s (a # as) =
     (if key \<in> sa_key ` set as then a # add_scope key s as
      else if sa_key a = key then a\<lparr>sa_scopes := sa_scopes a @ [s]\<rparr> # as
      else a # add_scope key s as)"

fun add_scopes :: "scope_row list \<Rightarrow> service_account list \<Rightarrow> service_account list" where
  "add_scopes [] as = as"
| "add_scopes (c # cs) as = add_scopes cs (add_scope (sc_iss c @ '':'' @ sc_sub c) (sc_name c) as)"

definition GetServiceAccountsByCreator :: "string \<Rightarrow> string \<Rightarrow> ('w, service_account list) dbop" where
  "GetServiceAccountsByCreator iss sub =
     try_db (db_query (\<lambda>d. map scan_sa (order_desc sr_created_at
               (filter (\<lambda>s. sr_created_by_iss s = iss \<and> sr_created_by_sub s = sub) (t_service_accounts d)))))
       (wrap (''failed to get service accounts for creator '' @ iss @ ''/'' @ sub @ '': ''))
       (\<lambda>accounts.
          if accounts = [] then ok accounts
          else try_db (db_query (\<lambda>d. filter (\<lambda>c. (sc_iss c, sc_sub c) \<in> (\<lambda>a. (sa_iss a, sa_sub a)) ` set accounts)
                        (t_sa_scopes d)))
                 (wrap ''failed to get scopes for service accounts: '')
                 (\<lambda>rows. ok (add_scopes rows accounts)))"

section \<open>Creating\<close>

definition create_sa_tx :: "service_account \<Rightarrow> ('w, unit) dbop" where
  "create_sa_tx a =
     with_tx (wrap ''failed to begin transaction: '')
       (try_db (roundtrip (sql_insert_sa a)) (wrap ''failed to create service account: '')
          (\<lambda>n. if n \<noteq> 1
                then fail (Errorf (''failed to create service account: expected 1 row, got '' @ show_int (int n)))
                else for_each (sa_scopes a) (\<lambda>s.
                       try_db (roundtrip (sql_insert_sa_scope (sa_iss a) (sa_sub a) s))
                         (wrap (''failed to insert scope '' @ s @ '': '')) (\<lambda>_. ok ()))))
       (wrap ''failed to commit transaction: '')"

definition CreateServiceAccount :: "service_account \<Rightarrow> ('w, service_account) dbop" where
  "CreateServiceAccount a = try_db (create_sa_tx a) id (\<lambda>_. GetServiceAccountByID (sa_iss a) (sa_sub a))"

section \<open>Pausing and deleting\<close>

definition one_row :: "string \<Rightarrow> string \<Rightarrow> nat \<Rightarrow> ('w, unit) dbop" where
  "one_row none several n = (if n < 1 then fail (Errorf none) else if n > 1 then fail (Errorf several) else ok ())"

definition PauseServiceAccount :: "string \<Rightarrow> string \<Rightarrow> ('w, unit) dbop" where
  "PauseServiceAccount iss sub =
     try_db (roundtrip (sql_update_sa iss sub (\<lambda>t s. s\<lparr>sr_is_disabled := True\<rparr>)))
       (wrap ''failed to pause service account: '')
       (one_row ''failed to pause service account: no rows updated''
                ''failed to pause service account: multiple rows updated'')"

definition UnpauseServiceAccount :: "string \<Rightarrow> string \<Rightarrow> ('w, unit) dbop" where
  "UnpauseServiceAccount iss sub =
     try_db (roundtrip (sql_update_sa iss sub (\<lambda>t s. s\<lparr>sr_is_disabled := False\<rparr>)))
       (wrap ''failed to unpause service account: '')
       (one_row ''failed to unpause service account: no rows updated''
                ''failed to unpause service account: multiple rows updated'')"

definition DeleteServiceAccount :: "string \<Rightarrow> string \<Rightarrow> ('w, unit) dbop" where
  "DeleteServiceAccount iss sub =
     try_db (roundtrip (sql_update_sa iss sub (\<lambda>t s. s\<lparr>sr_deleted_at := Some t, sr_is_disabled := True\<rparr>)))
       (wrap ''failed to delete service account: '')
       (one_row ''failed to delete service account: no rows updated or already deleted''
                ''failed to delete service account: multiple rows updated'')"

definition DisableServiceAccount :: "string \<Rightarrow> string \<Rightarrow> ('w, unit) dbop" where
  "DisableServiceAccount = PauseServiceAccount"

definition EnableServiceAccount :: "string \<Rightarrow> string \<Rightarrow> ('w, unit) dbop" where
  "EnableServiceAccount = UnpauseServiceAccount"

section \<open>Invariants\<close>

definition sa_row_key :: "sa_row \<Rightarrow> string \<times> string" where
  "sa_row_key s = (sr_iss s, sr_sub s)"

definition sa_inv :: "database \<Rightarrow> bool" where
  "sa_inv d \<longleftrightarrow>
     distinct (map sr_lookup_id (t_service_accounts d)) \<and> distinct (map sa_row_key (t_service_accounts d)) \<and>
     (\<forall>s \<in> set (t_service_accounts d). sr_deleted_at s \<noteq> None \<longrightarrow> sr_is_disabled s)"

lemma sa_inv_empty: "sa_inv empty_database"
  by (simp add: sa_inv_def empty_database_def)

lemma sa_inv_cong: "t_service_accounts d' = t_service_accounts d \<Longrightarrow> sa_inv d \<Longrightarrow> sa_inv d'"
  by (simp add: sa_inv_def)

lemma sa_inv_rollback [simp]: "sa_inv (rollback d d') = sa_inv d"
  by (simp add: sa_inv_def)

lemma find_sa_None: "find_sa iss sub d = None \<longleftrightarrow> (iss, sub) \<notin> sa_row_key ` set (t_service_accounts d)"
  by (auto simp: find_sa_def find_None_iff sa_row_key_def)

lemma sa_inv_insert:
  assumes "sa_inv d" and "sql_insert_sa a t d = (r, d')"
  shows "sa_inv d'"
  using assms by (auto simp: sa_inv_def sql_insert_sa_def find_sa_None sa_row_key_def split: if_splits) blast

lemma sa_inv_scope: "sa_inv d \<Longrightarrow> sql_insert_sa_scope iss sub s t d = (r, d') \<Longrightarrow> sa_inv d'"
  by (auto simp: sql_insert_sa_scope_def sa_inv_def split: if_splits)

lemma sa_inv_update:
  assumes inv: "sa_inv d" and upd: "sql_update_sa iss sub f t d = (r, d')"
    and f: "\<And>s. sr_lookup_id (f t s) = sr_lookup_id s \<and> sr_iss (f t s) = sr_iss s \<and> sr_sub (f t s) = sr_sub s"
    and del: "\<And>s. sr_deleted_at s = None \<Longrightarrow> sr_deleted_at (f t s) \<noteq> None \<Longrightarrow> sr_is_disabled (f t s)"
  shows "sa_inv d'"
proof -
  have rows: "t_service_accounts d' = upd_where (live_sa iss sub) (f t) (t_service_accounts d)"
    using upd by (auto simp: sql_update_sa_def)
  have "map sr_lookup_id (t_service_accounts d') = map sr_lookup_id (t_service_accounts d)"
    "map sa_row_key (t_service_accounts d') = map sa_row_key (t_service_accounts d)"
    using f by (simp_all add: rows map_upd_where sa_row_key_def)
  moreover have "\<forall>s \<in> set (t_service_accounts d'). sr_deleted_at s \<noteq> None \<longrightarrow> sr_is_disabled s"
    unfolding rows ball_upd_where using inv del by (auto simp: sa_inv_def live_sa_def)
  ultimately show ?thesis using inv by (simp add: sa_inv_def)
qed

section \<open>What the operations do\<close>

lemma load_scopes_frame [frame_simps]: "db (snd (load_scopes a w)) = db w"
  by (simp add: load_scopes_def try_db_def db_query_eq ok_def split: sum.splits option.splits prod.splits)

lemma load_scopes_success:
  assumes "load_scopes a w = (Inr b, w')"
  shows "b = a\<lparr>sa_scopes := sa_scope_names (sa_iss a) (sa_sub a) (db w)\<rparr>" and "db w' = db w"
  using assms unfolding load_scopes_def by (auto elim!: success_elims)

lemma GetServiceAccountByID_success:
  assumes "GetServiceAccountByID iss sub w = (Inr a, w')"
  obtains s where "find_sa iss sub (db w) = Some s" and "db w' = db w"
    and "a = (scan_sa s)\<lparr>sa_scopes := sa_scope_names iss sub (db w)\<rparr>"
proof -
  from assms obtain s where s: "find_sa iss sub (db w) = Some s" and l: "load_scopes (scan_sa s) (pop_fault w) = (Inr a, w')"
    unfolding GetServiceAccountByID_def by (elim try_db_InrE db_query_row_InrE) auto
  from s have "sr_iss s = iss \<and> sr_sub s = sub" by (auto simp: find_sa_def dest: find_SomeD)
  with load_scopes_success [OF l] s show thesis by (intro that) (auto simp: scan_sa_def)
qed

lemma GetServiceAccountByLookupId_success:
  assumes "GetServiceAccountByLookupId l w = (Inr a, w')"
  obtains s where "find_lookup l (db w) = Some s" and "db w' = db w"
    and "a = (scan_sa s)\<lparr>sa_scopes := sa_scope_names (sr_iss s) (sr_sub s) (db w)\<rparr>"
proof -
  from assms obtain s where s: "find_lookup l (db w) = Some s" and l: "load_scopes (scan_sa s) (pop_fault w) = (Inr a, w')"
    unfolding GetServiceAccountByLookupId_def by (elim try_db_InrE db_query_row_InrE) auto
  with load_scopes_success [OF l] show thesis by (intro that) (auto simp: scan_sa_def)
qed

lemma insert_scopes_success:
  assumes "for_each ss (\<lambda>s. try_db (roundtrip (sql_insert_sa_scope iss sub s)) (h s) (\<lambda>_. ok ())) w = (Inr x, w')"
  shows "t_service_accounts (db w') = t_service_accounts (db w)"
    and "t_sa_scopes (db w') = t_sa_scopes (db w) @ map (\<lambda>s. \<lparr>sc_iss = iss, sc_sub = sub, sc_name = s\<rparr>) ss"
    and "now w' = now w"
proof -
  have "t_service_accounts (db w') = t_service_accounts (db w) \<and>
    t_sa_scopes (db w') = t_sa_scopes (db w) @ map (\<lambda>s. \<lparr>sc_iss = iss, sc_sub = sub, sc_name = s\<rparr>) ss \<and> now w' = now w"
    using assms
  proof (induction ss arbitrary: w)
    case Nil
    then show ?case by (simp add: ok_def)
  next
    case (Cons s ss)
    from Cons.prems obtain n d where ins: "sql_insert_sa_scope iss sub s (now w) (db w) = (Inr n, d)"
      and rest: "for_each ss (\<lambda>s. try_db (roundtrip (sql_insert_sa_scope iss sub s)) (h s) (\<lambda>_. ok ()))
           ((pop_fault w)\<lparr>db := d\<rparr>) = (Inr x, w')"
      unfolding for_each.simps by (elim try_db_InrE roundtrip_InrE ok_InrE) auto
    from ins have "t_service_accounts d = t_service_accounts (db w) \<and>
        t_sa_scopes d = t_sa_scopes (db w) @ [\<lparr>sc_iss = iss, sc_sub = sub, sc_name = s\<rparr>]"
      by (auto simp: sql_insert_sa_scope_def split: if_splits)
    with Cons.IH [OF rest] show ?case by simp
  qed
  then show "t_service_accounts (db w') = t_service_accounts (db w)"
    "t_sa_scopes (db w') = t_sa_scopes (db w) @ map (\<lambda>s. \<lparr>sc_iss = iss, sc_sub = sub, sc_name = s\<rparr>) ss"
    "now w' = now w" by simp_all
qed

definition new_sa_row :: "service_account \<Rightarrow> time \<Rightarrow> sa_row" where
  "new_sa_row a t =
     \<lparr>sr_iss = sa_iss a, sr_sub = sa_sub a, sr_name = sa_name a, sr_lookup_id = sa_lookup_id a,
      sr_token_hash = sa_secret_hash a, sr_token_expires_at = sa_token_expires_at a,
      sr_is_disabled = sa_is_disabled a, sr_deleted_at = None, sr_created_by_iss = sa_created_by_iss a,
      sr_created_by_sub = sa_created_by_sub a, sr_created_at = t\<rparr>"

lemma create_sa_tx_success:
  assumes "create_sa_tx a w = (Inr x, w')"
  shows "find_sa (sa_iss a) (sa_sub a) (db w) = None" and "find_lookup (sa_lookup_id a) (db w) = None"
    and "t_service_accounts (db w') = t_service_accounts (db w) @ [new_sa_row a (now w)]"
    and "t_sa_scopes (db w') = t_sa_scopes (db w) @
           map (\<lambda>s. \<lparr>sc_iss = sa_iss a, sc_sub = sa_sub a, sc_name = s\<rparr>) (sa_scopes a)"
proof -
  from assms obtain n d1 w2 where ins: "sql_insert_sa a (now w) (db w) = (Inr n, d1)"
    and sc: "for_each (sa_scopes a) (\<lambda>s. try_db (roundtrip (sql_insert_sa_scope (sa_iss a) (sa_sub a) s))
               (wrap (''failed to insert scope '' @ s @ '': '')) (\<lambda>_. ok ()))
             ((pop_fault (pop_fault w))\<lparr>db := d1\<rparr>) = (Inr x, w2)" and w': "w' = pop_fault w2"
    unfolding create_sa_tx_def by (elim with_tx_InrE try_db_InrE roundtrip_InrE) (auto split: if_splits elim: fail_InrE)
  from ins have "find_sa (sa_iss a) (sa_sub a) (db w) = None \<and> find_lookup (sa_lookup_id a) (db w) = None \<and>
      t_service_accounts d1 = t_service_accounts (db w) @ [new_sa_row a (now w)] \<and> t_sa_scopes d1 = t_sa_scopes (db w)"
    by (auto simp: sql_insert_sa_def find_lookup_def find_None_iff new_sa_row_def split: if_splits)
  with insert_scopes_success [OF sc] w' show
    "find_sa (sa_iss a) (sa_sub a) (db w) = None" "find_lookup (sa_lookup_id a) (db w) = None"
    "t_service_accounts (db w') = t_service_accounts (db w) @ [new_sa_row a (now w)]"
    "t_sa_scopes (db w') = t_sa_scopes (db w) @
           map (\<lambda>s. \<lparr>sc_iss = sa_iss a, sc_sub = sa_sub a, sc_name = s\<rparr>) (sa_scopes a)"
    by simp_all
qed

section \<open>Reachable tables\<close>

datatype sa_call = CallCreateSA service_account | CallPauseSA string string | CallUnpauseSA string string
  | CallDeleteSA string string

fun exec_sa_call :: "sa_call \<Rightarrow> 'w world_scheme \<Rightarrow> 'w world_scheme" where
  "exec_sa_call (CallCreateSA a) w = snd (CreateServiceAccount a w)"
| "exec_sa_call (CallPauseSA iss sub) w = snd (PauseServiceAccount iss sub w)"
| "exec_sa_call (CallUnpauseSA iss sub) w = snd (UnpauseServiceAccount iss sub w)"
| "exec_sa_call (CallDeleteSA iss sub) w = snd (DeleteServiceAccount iss sub w)"

text \<open>Runs between two databases; other components leave the two tables alone.\<close>

inductive sa_path :: "database \<Rightarrow> database \<Rightarrow> bool" where
  refl: "sa_path d d"
| call: "sa_path d (db w) \<Longrightarrow> sa_path d (db (exec_sa_call c (w :: world)))"
| other: "sa_path d d' \<Longrightarrow> t_service_accounts d'' = t_service_accounts d' \<Longrightarrow> t_sa_scopes d'' = t_sa_scopes d' \<Longrightarrow>
    sa_path d d''"

text \<open>
  The contract of a property of the service accounts that inserting an account, adding a scope, the
  three updates and a rollback keep: every call of the component keeps it.
\<close>

locale sa_stable =
  fixes I :: "database \<Rightarrow> bool"
  assumes insert_account: "I d \<Longrightarrow> sql_insert_sa a t d = (q, d') \<Longrightarrow> I d'"
    and insert_scope: "I d \<Longrightarrow> sql_insert_sa_scope iss sub s t d = (q, d') \<Longrightarrow> I d'"
    and pause: "I d \<Longrightarrow> sql_update_sa iss sub (\<lambda>t s. s\<lparr>sr_is_disabled := b\<rparr>) t d = (q, d') \<Longrightarrow> I d'"
    and delete: "I d \<Longrightarrow> sql_update_sa iss sub (\<lambda>t s. s\<lparr>sr_deleted_at := Some t, sr_is_disabled := True\<rparr>) t d = (q, d') \<Longrightarrow> I d'"
    and undo: "I d \<Longrightarrow> I (rollback d d')"
    and frame: "I d \<Longrightarrow> t_service_accounts d' = t_service_accounts d \<Longrightarrow> t_sa_scopes d' = t_sa_scopes d \<Longrightarrow> I d'"
begin

lemma keeps_create: "keeps I (CreateServiceAccount a)"
proof -
  have "keeps I (create_sa_tx a)"
    unfolding create_sa_tx_def
    by (intro keeps_tx keeps_try keeps_if keeps_for_each keeps_ok keeps_fail keeps_roundtrip undo)
       (rule insert_account insert_scope; assumption)+
  moreover have "keeps I (GetServiceAccountByID iss sub)" for iss sub
    by (simp add: keeps_def GetServiceAccountByID_def try_db_def db_query_row_eq frame_simps split: option.splits)
  ultimately show ?thesis unfolding CreateServiceAccount_def by (rule keeps_try)
qed

lemma keeps_one_row: "keeps I (one_row a b n)"
  unfolding one_row_def by (intro keeps_if keeps_ok keeps_fail)

lemma keeps_pause: "keeps I (PauseServiceAccount iss sub)" "keeps I (UnpauseServiceAccount iss sub)"
  unfolding PauseServiceAccount_def UnpauseServiceAccount_def
  by (intro keeps_try keeps_one_row keeps_roundtrip; rule pause; assumption)+

lemma keeps_delete: "keeps I (DeleteServiceAccount iss sub)"
  unfolding DeleteServiceAccount_def
  by (intro keeps_try keeps_one_row keeps_roundtrip) (rule delete; assumption)

lemma call_keeps: "I (db w) \<Longrightarrow> I (db (exec_sa_call c w))"
  by (cases c) (simp_all add: keeps_snd [OF keeps_create] keeps_snd [OF keeps_pause(1)]
      keeps_snd [OF keeps_pause(2)] keeps_snd [OF keeps_delete])

lemma path_keeps: "sa_path d d' \<Longrightarrow> I d \<Longrightarrow> I d'"
  by (induction rule: sa_path.induct) (auto intro: call_keeps frame)

end

interpretation sa_invariant: sa_stable sa_inv
  by unfold_locales
     (auto intro: sa_inv_insert sa_inv_scope sa_inv_update sa_inv_cong)

text \<open>An account that is deleted, or disabled for good, stays so.\<close>

definition deleted_account :: "string \<Rightarrow> database \<Rightarrow> bool" where
  "deleted_account l d \<longleftrightarrow>
     (\<exists>s. find_lookup l d = Some s \<and> sr_deleted_at s \<noteq> None)"

lemma deleted_account_update:
  assumes "deleted_account l d" and "sql_update_sa iss sub f t d = (q, d')" and "\<And>s. sr_lookup_id (f t s) = sr_lookup_id s"
  shows "deleted_account l d'"
proof -
  from assms(1) obtain s where s: "find_lookup l d = Some s" "sr_deleted_at s \<noteq> None" by (auto simp: deleted_account_def)
  have "find_lookup l d' = map_option (\<lambda>s. if live_sa iss sub s then f t s else s) (find_lookup l d)"
    using assms(2,3) by (auto simp: sql_update_sa_def find_lookup_def find_upd_where)
  with s show ?thesis by (auto simp: deleted_account_def live_sa_def)
qed

lemma deleted_account_cong:
  "t_service_accounts d' = t_service_accounts d \<Longrightarrow> deleted_account l d \<Longrightarrow> deleted_account l d'"
  by (simp add: deleted_account_def find_lookup_def)

interpretation deleted_stable: sa_stable "deleted_account l" for l
proof unfold_locales
  show "deleted_account l d'" if "deleted_account l d" "sql_insert_sa a t d = (q, d')" for d a t q d'
    using that by (auto simp: deleted_account_def sql_insert_sa_def find_lookup_def find_append split: if_splits)
  show "deleted_account l d'" if "deleted_account l d" "sql_insert_sa_scope iss sub s t d = (q, d')" for d iss sub s t q d'
    using that by (auto simp: deleted_account_def sql_insert_sa_scope_def find_lookup_def split: if_splits)
  show "deleted_account l (rollback d d')" if "deleted_account l d" for d d'
    using that by (simp add: deleted_account_def find_lookup_def)
qed (auto intro: deleted_account_update deleted_account_cong)

end
