(* ===== verification/Service_Tokens.thy ===== *)
theory Service_Tokens
  imports Service_Account_Store
begin

text \<open>
  Bearer tokens of service accounts: \<open>ExtractAuthorizationHeader\<close> of \<open>internal/utils/headers.go\<close>
  and the token functions of \<open>internal/middlewares/require_auth.go\<close>. The standard library's
  \<open>base64.RawURLEncoding\<close> is modelled in full; the random bytes are arguments, and the Argon2 hash
  and its verification, which are third-party code, are a parameter.
\<close>

section \<open>base64.RawURLEncoding\<close>

definition b64_char :: "nat \<Rightarrow> char" where
  "b64_char n =
     (if n < 26 then char_of (65 + n) else if n < 52 then char_of (97 + (n - 26))
      else if n < 62 then char_of (48 + (n - 52)) else if n = 62 then CHR ''-'' else CHR ''_'')"

definition b64_val :: "char \<Rightarrow> nat option" where
  "b64_val c =
     (let n = (of_char c :: nat) in
      if 65 \<le> n \<and> n \<le> 90 then Some (n - 65) else if 97 \<le> n \<and> n \<le> 122 then Some (n - 97 + 26)
      else if 48 \<le> n \<and> n \<le> 57 then Some (n - 48 + 52) else if c = CHR ''-'' then Some 62
      else if c = CHR ''_'' then Some 63 else None)"

text \<open>Bytes are numbers below 256; three bytes make four characters.\<close>

fun EncodeToString :: "nat list \<Rightarrow> string" where
  "EncodeToString [] = []"
| "EncodeToString [a] = [b64_char (a div 4), b64_char (a mod 4 * 16)]"
| "EncodeToString [a, b] =
     [b64_char (a div 4), b64_char (a mod 4 * 16 + b div 16), b64_char (b mod 16 * 4)]"
| "EncodeToString (a # b # c # rest) =
     b64_char (a div 4) # b64_char (a mod 4 * 16 + b div 16) # b64_char (b mod 16 * 4 + c div 64) #
     b64_char (c mod 64) # EncodeToString rest"

text \<open>
  \<open>DecodeString\<close>: line breaks are skipped, any other character outside the alphabet is an error, and
  so is a last group of one character; bits that do not fill a byte are dropped.
\<close>

fun decode_vals :: "nat list \<Rightarrow> nat list option" where
  "decode_vals [] = Some []"
| "decode_vals [a] = None"
| "decode_vals [a, b] = Some [a * 4 + b div 16]"
| "decode_vals [a, b, c] = Some [a * 4 + b div 16, b mod 16 * 16 + c div 4]"
| "decode_vals (a # b # c # e # rest) =
     (case decode_vals rest of None \<Rightarrow> None
      | Some bs \<Rightarrow> Some ((a * 4 + b div 16) # (b mod 16 * 16 + c div 4) # (c mod 4 * 64 + e) # bs))"

definition DecodeString :: "string \<Rightarrow> nat list result" where
  "DecodeString s =
     (let cs = filter (\<lambda>c. c \<noteq> CHR 0x0A \<and> c \<noteq> CHR 0x0D) s in
      if list_ex (\<lambda>c. b64_val c = None) cs then Inl (Errorf ''illegal base64 data'')
      else (case decode_vals (map (the \<circ> b64_val) cs) of
              None \<Rightarrow> Inl (Errorf ''illegal base64 data'') | Some bs \<Rightarrow> Inr bs))"

section \<open>The Authorization header\<close>

definition ExtractAuthorizationHeader :: "string \<Rightarrow> string result" where
  "ExtractAuthorizationHeader authHeader =
     (if authHeader = [] then Inl (Sentinel ErrMissingAuthzHeader)
      else (let parts = strings_SplitN2 (CHR '' '') authHeader in
        if length parts \<noteq> 2 then Inl (Sentinel ErrInvalidAuthzHeader)
        else (let scheme = parts ! 0; token = parts ! 1 in
          if \<not> strings_EqualFold scheme ''Bearer''
          then Inl (Errorf (sentinel_text ErrUnsupportedAuthzScheme @ '': '' @ scheme))
          else if token = [] then Inl (Sentinel ErrMissingAuthzToken)
          else Inr token)))"

section \<open>Service tokens\<close>

definition serviceAccountTokenPrefix :: string where
  "serviceAccountTokenPrefix = ''conduit_sa''"

definition ParseServiceToken :: "string \<Rightarrow> (string \<times> string) result" where
  "ParseServiceToken s =
     (let parts = strings_Split (CHR ''.'') s in
      if length parts \<noteq> 3
      then Inl (Errorf (''invalid token format: expected 3 parts, got '' @ show_int (int (length parts))))
      else if parts ! 0 \<noteq> serviceAccountTokenPrefix
        then Inl (Errorf (''invalid token prefix: expected '' @ serviceAccountTokenPrefix @ '', got '' @ parts ! 0))
      else (let lookupId = parts ! 1; secret = parts ! 2 in
        if length lookupId \<noteq> 22
        then Inl (Errorf (''invalid lookup ID length: expected 22 characters, got '' @ show_int (int (length lookupId))))
        else if length secret \<noteq> 43
          then Inl (Errorf (''invalid secret length: expected 43 characters, got '' @ show_int (int (length secret))))
        else (case DecodeString lookupId of
            Inl e \<Rightarrow> Inl (Errorf (''invalid lookup ID encoding: '' @ error_text e))
          | Inr _ \<Rightarrow> (case DecodeString secret of
                Inl e \<Rightarrow> Inl (Errorf (''invalid secret encoding: '' @ error_text e))
              | Inr _ \<Rightarrow> Inr (lookupId, secret)))))"

text \<open>
  The Argon2 package as a parameter: \<open>argon_hash\<close> is what hashing a token encodes to (with the salt
  drawn for it), \<open>argon_match\<close> what decoding a digest and matching a token against it returns.
\<close>

record argon =
  argon_hash :: "string \<Rightarrow> string result"
  argon_match :: "string \<Rightarrow> string \<Rightarrow> bool result"

definition HashAPIToken :: "argon \<Rightarrow> string \<Rightarrow> string result" where
  "HashAPIToken ar token = argon_hash ar token"

definition VerifyAPIToken :: "argon \<Rightarrow> string \<Rightarrow> string \<Rightarrow> bool result" where
  "VerifyAPIToken ar token h = argon_match ar token h"

definition GenerateAPIToken ::
  "argon \<Rightarrow> nat list \<Rightarrow> nat list \<Rightarrow> (string \<times> string \<times> string) result" where
  "GenerateAPIToken ar secretBytes lookupBytes =
     (let encodedSecret = EncodeToString secretBytes; encodedLookup = EncodeToString lookupBytes;
          rawToken = serviceAccountTokenPrefix @ ''.'' @ encodedLookup @ ''.'' @ encodedSecret
      in case HashAPIToken ar encodedSecret of
           Inl e \<Rightarrow> Inl (Errorf (''failed to hash token: '' @ error_text e))
         | Inr hashed \<Rightarrow> Inr (rawToken, encodedLookup, hashed))"

text \<open>\<open>VerifyServiceAccount\<close>: every check in the order of the code.\<close>

definition check_account :: "argon \<Rightarrow> string \<Rightarrow> service_account \<Rightarrow> ('w, service_account) dbop" where
  "check_account ar secret a w =
     (case VerifyAPIToken ar secret (sa_secret_hash a) of
        Inl e \<Rightarrow> fail (wrap ''unable to verify api token: '' e) w
      | Inr valid \<Rightarrow>
          if \<not> valid then fail (Sentinel ErrInvalidServiceToken) w
          else if sa_deleted_at a \<noteq> None then fail (Sentinel ErrServiceTokenDeleted) w
          else if sa_is_disabled a then fail (Sentinel ErrServiceTokenDisabled) w
          else if sa_token_expires_at a < now w then fail (Sentinel ErrServiceTokenExpired) w
          else ok a w)"

definition VerifyServiceAccount :: "argon \<Rightarrow> string \<Rightarrow> ('w, service_account) dbop" where
  "VerifyServiceAccount ar token =
     (case ParseServiceToken token of
        Inl e \<Rightarrow> fail (wrap ''unable to parse service token: '' e)
      | Inr (lookupId, secret) \<Rightarrow>
          try_db (GetServiceAccountByLookupId lookupId)
            (wrap ''unable to retrieve service account from storage: '') (check_account ar secret))"

section \<open>Encoding and decoding\<close>

lemma b64_val_char: "n < 64 \<Longrightarrow> b64_val (b64_char n) = Some n"
  by (auto simp: b64_val_def b64_char_def Let_def)

lemma b64_char_plain:
  assumes "n < 64"
  shows "b64_char n \<noteq> CHR ''.''" and "b64_char n \<noteq> CHR 0x0A" and "b64_char n \<noteq> CHR 0x0D"
proof -
  have "b64_val (CHR ''.'') = None" "b64_val (CHR 0x0A) = None" "b64_val (CHR 0x0D) = None"
    by (simp_all add: b64_val_def)
  with b64_val_char [OF assms] show "b64_char n \<noteq> CHR ''.''" "b64_char n \<noteq> CHR 0x0A" "b64_char n \<noteq> CHR 0x0D"
    by (metis option.distinct(1))+
qed

definition bytes :: "nat list \<Rightarrow> bool" where
  "bytes bs \<longleftrightarrow> (\<forall>b \<in> set bs. b < 256)"

lemma bytes_simps [simp]: "bytes []" "bytes (b # bs) \<longleftrightarrow> b < 256 \<and> bytes bs"
  by (auto simp: bytes_def)

text \<open>The encoder's numbers, before they become characters.\<close>

fun encode_vals :: "nat list \<Rightarrow> nat list" where
  "encode_vals [] = []"
| "encode_vals [a] = [a div 4, a mod 4 * 16]"
| "encode_vals [a, b] = [a div 4, a mod 4 * 16 + b div 16, b mod 16 * 4]"
| "encode_vals (a # b # c # rest) =
     (a div 4) # (a mod 4 * 16 + b div 16) # (b mod 16 * 4 + c div 64) # (c mod 64) # encode_vals rest"

lemma EncodeToString_vals: "EncodeToString bs = map b64_char (encode_vals bs)"
  by (induction bs rule: encode_vals.induct) simp_all

lemma digit_split:
  assumes "(y::nat) < n"
  shows "(x * n + y) div n = x" and "(x * n + y) mod n = y"
  using assms by simp_all

lemma small_div:
  "(b::nat) < 256 \<Longrightarrow> b div 16 < 16" "(c::nat) < 256 \<Longrightarrow> c div 64 < 4" "(a::nat) < 256 \<Longrightarrow> a div 4 < 64"
  by auto

lemma six_bits:
  assumes "(a::nat) < 256" and "(b::nat) < 256" and "(c::nat) < 256"
  shows "a div 4 < 64" and "a mod 4 * 16 < 64" and "b mod 16 * 4 < 64" and "c mod 64 < 64"
    and "a mod 4 * 16 + b div 16 < 64" and "b mod 16 * 4 + c div 64 < 64"
proof -
  have "a mod 4 < 4" "b mod 16 < 16" "b div 16 < 16" "c div 64 < 4" using assms by auto
  then show "a div 4 < 64" "a mod 4 * 16 < 64" "b mod 16 * 4 < 64" "c mod 64 < 64"
    "a mod 4 * 16 + b div 16 < 64" "b mod 16 * 4 + c div 64 < 64" using assms by auto
qed

lemma encode_vals_bound: "bytes bs \<Longrightarrow> \<forall>v \<in> set (encode_vals bs). v < 64"
proof (induction bs rule: encode_vals.induct)
  case (2 a)
  then show ?case using six_bits(1,2) [of a 0 0] by simp
next
  case (3 a b)
  then show ?case using six_bits [of a b 0] by simp
next
  case (4 a b c rest)
  then show ?case using six_bits [of a b c] by simp
qed simp

lemma length_encode_vals: "length (encode_vals bs) = (4 * length bs + 2) div 3"
  by (induction bs rule: encode_vals.induct) auto

lemma join_bits:
  assumes "b < 256" and "c < 256"
  shows "a div 4 * 4 + (a mod 4 * 16 + b div 16) div 16 = (a::nat)"
    and "(a mod 4 * 16 + b div 16) mod 16 * 16 + (b mod 16 * 4 + c div 64) div 4 = b"
    and "(b mod 16 * 4 + c div 64) mod 4 * 64 + c mod 64 = (c::nat)"
  using assms by (simp_all add: digit_split small_div)

lemma decode_encode_vals: "bytes bs \<Longrightarrow> decode_vals (encode_vals bs) = Some bs"
proof (induction bs rule: encode_vals.induct)
  case (2 a)
  then show ?case using join_bits(1) [of 0 0 a] by simp
next
  case (3 a b)
  then show ?case using join_bits(1,2) [of b 0 a] by simp
next
  case (4 a b c rest)
  then show ?case using join_bits(1,2) [of b c a] join_bits(3) [of b c] by simp
qed simp

lemma map_val_char: "\<forall>v \<in> set vs. v < 64 \<Longrightarrow> map (the \<circ> b64_val \<circ> b64_char) vs = vs"
  by (induction vs) (simp_all add: b64_val_char)

lemma DecodeString_EncodeToString:
  assumes "bytes bs"
  shows "DecodeString (EncodeToString bs) = Inr bs"
proof -
  note bd = encode_vals_bound [OF assms]
  have keep: "filter (\<lambda>c. c \<noteq> CHR 0x0A \<and> c \<noteq> CHR 0x0D) (map b64_char (encode_vals bs)) = map b64_char (encode_vals bs)"
    using bd by (intro filter_True) (auto simp: b64_char_plain)
  have ok: "\<not> list_ex (\<lambda>c. b64_val c = None) (map b64_char (encode_vals bs))"
    using bd by (auto simp: list_ex_iff b64_val_char)
  show ?thesis
    unfolding DecodeString_def EncodeToString_vals keep Let_def
    using ok decode_encode_vals [OF assms] map_val_char [OF bd] by (simp add: comp_assoc)
qed

lemma EncodeToString_no_dot: "bytes bs \<Longrightarrow> CHR ''.'' \<notin> set (EncodeToString bs)"
  unfolding EncodeToString_vals using encode_vals_bound [of bs] by (auto dest!: b64_char_plain(1) bspec)

lemma length_EncodeToString: "length (EncodeToString bs) = (4 * length bs + 2) div 3"
  by (simp add: EncodeToString_vals length_encode_vals)

lemma ParseServiceToken_generated:
  assumes "bytes sb" and "bytes lb" and "length sb = 32" and "length lb = 16"
  shows "ParseServiceToken (serviceAccountTokenPrefix @ ''.'' @ EncodeToString lb @ ''.'' @ EncodeToString sb) =
         Inr (EncodeToString lb, EncodeToString sb)"
proof -
  have "CHR ''.'' \<notin> set serviceAccountTokenPrefix" by (simp add: serviceAccountTokenPrefix_def)
  then have "strings_Split (CHR ''.'') (serviceAccountTokenPrefix @ CHR ''.'' # EncodeToString lb @ CHR ''.'' # EncodeToString sb) =
      [serviceAccountTokenPrefix, EncodeToString lb, EncodeToString sb]"
    using EncodeToString_no_dot assms(1,2) by (simp add: strings_Split_append strings_Split_no_sep)
  then show ?thesis
    using assms by (simp add: ParseServiceToken_def Let_def length_EncodeToString DecodeString_EncodeToString)
qed

section \<open>What VerifyServiceAccount accepts\<close>

lemma VerifyServiceAccount_success:
  assumes "VerifyServiceAccount ar token w = (Inr a, w')"
  obtains l secret s where "ParseServiceToken token = Inr (l, secret)" and "find_lookup l (db w) = Some s"
    and "argon_match ar secret (sr_token_hash s) = Inr True" and "sr_deleted_at s = None" and "\<not> sr_is_disabled s"
    and "now w \<le> sr_token_expires_at s" and "db w' = db w"
    and "a = (scan_sa s)\<lparr>sa_scopes := sa_scope_names (sr_iss s) (sr_sub s) (db w)\<rparr>"
proof -
  from assms obtain l secret where p: "ParseServiceToken token = Inr (l, secret)"
    and run: "try_db (GetServiceAccountByLookupId l) (wrap ''unable to retrieve service account from storage: '')
        (check_account ar secret) w = (Inr a, w')"
    by (auto simp: VerifyServiceAccount_def split: sum.splits elim: fail_InrE)
  from run obtain b w1 where get: "GetServiceAccountByLookupId l w = (Inr b, w1)" and chk: "check_account ar secret b w1 = (Inr a, w')"
    by (rule try_db_InrE)
  from get obtain s where s: "find_lookup l (db w) = Some s" "db w1 = db w"
    "b = (scan_sa s)\<lparr>sa_scopes := sa_scope_names (sr_iss s) (sr_sub s) (db w)\<rparr>"
    by (rule GetServiceAccountByLookupId_success)
  have "now w1 = now w"
    using get by (auto simp: GetServiceAccountByLookupId_def load_scopes_def try_db_def db_query_row_eq db_query_eq ok_def
        split: option.splits)
  with chk s p show thesis
    by (intro that) (auto simp: check_account_def VerifyAPIToken_def ok_def fail_def scan_sa_def split: sum.splits if_splits)
qed

lemma VerifyServiceAccount_no_faults:
  assumes "ParseServiceToken token = Inr (l, secret)" and "find_lookup l (db w) = Some s" and "faults w = []"
    and "argon_match ar secret (sr_token_hash s) = Inr True" and "sr_deleted_at s = None" and "\<not> sr_is_disabled s"
    and "now w \<le> sr_token_expires_at s"
  shows "fst (VerifyServiceAccount ar token w) =
         Inr ((scan_sa s)\<lparr>sa_scopes := sa_scope_names (sr_iss s) (sr_sub s) (db w)\<rparr>)"
  using assms
  by (simp add: VerifyServiceAccount_def GetServiceAccountByLookupId_def load_scopes_def check_account_def
      VerifyAPIToken_def try_db_def db_query_row_eq db_query_eq ok_def scan_sa_def)

lemma CreateServiceAccount_success:
  assumes "CreateServiceAccount a w = (Inr b, w')"
  shows "find_lookup (sa_lookup_id a) (db w') = Some (new_sa_row a (now w))"
    and "b = (scan_sa (new_sa_row a (now w)))\<lparr>sa_scopes := sa_scope_names (sa_iss a) (sa_sub a) (db w')\<rparr>"
    and "t_service_accounts (db w') = t_service_accounts (db w) @ [new_sa_row a (now w)]"
proof -
  from assms obtain x w1 where tx: "create_sa_tx a w = (Inr x, w1)"
    and get: "GetServiceAccountByID (sa_iss a) (sa_sub a) w1 = (Inr b, w')"
    unfolding CreateServiceAccount_def by (elim try_db_InrE) simp
  note c = create_sa_tx_success [OF tx]
  from get obtain s where s: "find_sa (sa_iss a) (sa_sub a) (db w1) = Some s" "db w' = db w1"
    "b = (scan_sa s)\<lparr>sa_scopes := sa_scope_names (sa_iss a) (sa_sub a) (db w1)\<rparr>"
    by (rule GetServiceAccountByID_success)
  from s(1) c(1,3) have "s = new_sa_row a (now w)"
    by (simp add: find_sa_def find_append split: if_splits)
  with s show "b = (scan_sa (new_sa_row a (now w)))\<lparr>sa_scopes := sa_scope_names (sa_iss a) (sa_sub a) (db w')\<rparr>"
    by simp
  show "find_lookup (sa_lookup_id a) (db w') = Some (new_sa_row a (now w))"
    using c(2,3) s(2) by (simp add: find_lookup_def find_append new_sa_row_def)
  show "t_service_accounts (db w') = t_service_accounts (db w) @ [new_sa_row a (now w)]"
    using c(3) s(2) by simp
qed

section \<open>Properties\<close>

text \<open>An Argon2 that keeps the token in clear, and an account, for the witnesses.\<close>

definition example_argon :: argon where
  "example_argon = \<lparr>argon_hash = (\<lambda>s. Inr s), argon_match = (\<lambda>s h. Inr (s = h))\<rparr>"

definition example_secret :: "nat list" where "example_secret = replicate 32 7"
definition example_lookup :: "nat list" where "example_lookup = replicate 16 200"

definition example_account :: service_account where
  "example_account =
     \<lparr>sa_sub = ''s1'', sa_iss = ''https://conduit'', sa_name = ''ci'', sa_lookup_id = EncodeToString example_lookup,
      sa_secret_hash = EncodeToString example_secret, sa_token_expires_at = 100, sa_scopes = [ScopeMTLSReadCert],
      sa_is_disabled = False, sa_deleted_at = None, sa_created_by_sub = ''alice'', sa_created_by_iss = ''idp'',
      sa_created_at = 0\<rparr>"

definition example_sa_world :: world where
  "example_sa_world = exec_sa_call (CallCreateSA example_account) \<lparr>db = empty_database, now = 5, faults = []\<rparr>"

definition example_token :: string where
  "example_token = serviceAccountTokenPrefix @ ''.'' @ EncodeToString example_lookup @ ''.'' @ EncodeToString example_secret"

lemma example_lookup_length: "length (EncodeToString example_lookup) = 22"
  by (simp add: length_EncodeToString example_lookup_def)

lemma example_bytes: "bytes example_secret" "bytes example_lookup" "length example_secret = 32" "length example_lookup = 16"
  by (simp_all add: bytes_def example_secret_def example_lookup_def)

lemma example_create_run:
  "\<exists>b w'. CreateServiceAccount example_account \<lparr>db = empty_database, now = 5, faults = []\<rparr> = (Inr b, w') \<and>
     w' = example_sa_world \<and> faults w' = []"
  by (simp add: example_sa_world_def CreateServiceAccount_def create_sa_tx_def sql_insert_sa_def sql_insert_sa_scope_def
      GetServiceAccountByID_def load_scopes_def with_tx_def try_db_def roundtrip_def db_query_eq db_query_row_eq ok_def
      find_sa_def sa_scope_names_def empty_database_def pop_fault_def example_account_def example_lookup_length)

text \<open>
  The token a new service account is given parses, into exactly the lookup id and the secret that
  were generated; the secret decodes to the random bytes.
\<close>

theorem generated_token_parses:
  assumes "GenerateAPIToken ar secretBytes lookupBytes = Inr (raw, lookupId, hashed)"
    and "bytes secretBytes" and "bytes lookupBytes" and "length secretBytes = 32" and "length lookupBytes = 16"
  shows "ParseServiceToken raw = Inr (lookupId, EncodeToString secretBytes) \<and>
         DecodeString (EncodeToString secretBytes) = Inr secretBytes \<and> DecodeString lookupId = Inr lookupBytes"
  using assms
  by (auto simp: GenerateAPIToken_def Let_def ParseServiceToken_generated [simplified] DecodeString_EncodeToString split: sum.splits)

theorem generated_token_parses_witness:
  "ParseServiceToken example_token = Inr (EncodeToString example_lookup, EncodeToString example_secret)"
proof -
  have "GenerateAPIToken example_argon example_secret example_lookup =
        Inr (example_token, EncodeToString example_lookup, EncodeToString example_secret)"
    by (simp add: GenerateAPIToken_def HashAPIToken_def Let_def example_argon_def example_token_def)
  from generated_token_parses [OF this example_bytes] show ?thesis by blast
qed

text \<open>
  A created account can authenticate. If Argon2 accepts the secret it hashed, then after
  \<open>CreateServiceAccount\<close> with a generated token's lookup id and hash the token is accepted, until it
  expires, as the account that was returned, with its scopes.
\<close>

theorem created_account_authenticates:
  assumes "GenerateAPIToken ar secretBytes lookupBytes = Inr (raw, lookupId, hashed)"
    and "bytes secretBytes" and "bytes lookupBytes" and "length secretBytes = 32" and "length lookupBytes = 16"
    and "argon_match ar (EncodeToString secretBytes) hashed = Inr True"
    and "sa_lookup_id a = lookupId" and "sa_secret_hash a = hashed" and "\<not> sa_is_disabled a"
    and "CreateServiceAccount a w = (Inr b, w')"
    and "db v = db w'" and "faults v = []" and "now v \<le> sa_token_expires_at a"
  shows "fst (VerifyServiceAccount ar raw v) = Inr b"
proof -
  have p: "ParseServiceToken raw = Inr (lookupId, EncodeToString secretBytes)"
    using assms(1-5) by (auto simp: GenerateAPIToken_def Let_def ParseServiceToken_generated [simplified] split: sum.splits)
  note c = CreateServiceAccount_success [OF assms(10)]
  have "find_lookup lookupId (db v) = Some (new_sa_row a (now w))" using c(1) assms(7,11) by simp
  from VerifyServiceAccount_no_faults [OF p this assms(12)] c(2) assms show ?thesis
    by (simp add: new_sa_row_def)
qed

theorem created_account_authenticates_witness:
  "\<exists>b. fst (VerifyServiceAccount example_argon example_token example_sa_world) = Inr b \<and> sa_name b = ''ci''"
proof -
  obtain b w' where run: "CreateServiceAccount example_account \<lparr>db = empty_database, now = 5, faults = []\<rparr> = (Inr b, w')"
    and w': "w' = example_sa_world" "faults w' = []"
    using example_create_run by blast
  have n: "now example_sa_world \<le> 100"
    by (simp add: example_sa_world_def CreateServiceAccount_def create_sa_tx_def sql_insert_sa_def sql_insert_sa_scope_def
      GetServiceAccountByID_def load_scopes_def with_tx_def try_db_def roundtrip_def db_query_eq db_query_row_eq ok_def
      find_sa_def sa_scope_names_def empty_database_def pop_fault_def example_account_def example_lookup_length)
  have gen: "GenerateAPIToken example_argon example_secret example_lookup =
        Inr (example_token, EncodeToString example_lookup, EncodeToString example_secret)"
    by (simp add: GenerateAPIToken_def HashAPIToken_def Let_def example_argon_def example_token_def)
  have "fst (VerifyServiceAccount example_argon example_token example_sa_world) = Inr b"
    by (rule created_account_authenticates [OF gen example_bytes _ _ _ _ run])
       (use w' n in \<open>simp_all add: example_argon_def example_account_def\<close>)
  moreover have "sa_name b = ''ci''"
    using CreateServiceAccount_success(2) [OF run] by (simp add: scan_sa_def new_sa_row_def example_account_def)
  ultimately show ?thesis by blast
qed

text \<open>
  C2: deleting a service account revokes its token for good. After \<open>DeleteServiceAccount\<close> succeeded, no
  sequence of later calls makes \<open>VerifyServiceAccount\<close> accept a token with that account's lookup id,
  whatever the secret, the clock and the failures.
\<close>

theorem deleted_account_never_authenticates:
  assumes "sa_path empty_database (db w)" and "find_sa iss sub (db w) = Some s"
    and "DeleteServiceAccount iss sub w = (Inr u, w1)" and "sa_path (db w1) (db v)"
    and "ParseServiceToken token = Inr (sr_lookup_id s, secret)"
  shows "\<not> is_ok (fst (VerifyServiceAccount ar token v))"
proof
  have inv: "sa_inv (db w)" by (rule sa_invariant.path_keeps [OF assms(1) sa_inv_empty])
  from assms(3) obtain n d1 where upd: "sql_update_sa iss sub (\<lambda>t s. s\<lparr>sr_deleted_at := Some t, sr_is_disabled := True\<rparr>)
      (now w) (db w) = (Inr n, d1)" and n: "one_row ''failed to delete service account: no rows updated or already deleted''
      ''failed to delete service account: multiple rows updated'' n ((pop_fault w)\<lparr>db := d1\<rparr>) = (Inr u, w1)"
    unfolding DeleteServiceAccount_def by (elim try_db_InrE roundtrip_InrE) simp
  then have d1: "db w1 = d1" and pos: "0 < n" by (auto simp: one_row_def ok_def fail_def split: if_splits)
  have s: "s \<in> set (t_service_accounts (db w))" "is_sa iss sub s"
    using assms(2) by (auto simp: find_sa_def is_sa_def dest: find_SomeD)
  from pos upd obtain q where q: "q \<in> set (t_service_accounts (db w))" "live_sa iss sub q"
    by (auto simp: sql_update_sa_def count_where_def filter_empty_conv)
  have "sa_row_key q = sa_row_key s" using q(2) s(2) by (simp add: live_sa_def is_sa_def sa_row_key_def)
  with inv q(1) s(1) have "q = s" by (auto simp: sa_inv_def distinct_map dest: inj_onD)
  moreover have "find_lookup (sr_lookup_id s) (db w) = Some s"
  proof -
    obtain r where r: "find_lookup (sr_lookup_id s) (db w) = Some r" "r \<in> set (t_service_accounts (db w))"
      "sr_lookup_id r = sr_lookup_id s"
      using s(1) by (cases "find_lookup (sr_lookup_id s) (db w)")
        (auto simp: find_lookup_def find_None_iff dest: find_SomeD)
    with inv s(1) have "r = s" by (auto simp: sa_inv_def distinct_map dest: inj_onD)
    with r show ?thesis by simp
  qed
  ultimately have "deleted_account (sr_lookup_id s) (db w1)"
    using upd q(2) by (auto simp: d1 deleted_account_def sql_update_sa_def find_lookup_def find_upd_where)
  then have "deleted_account (sr_lookup_id s) (db v)" by (rule deleted_stable.path_keeps [OF assms(4)])
  moreover assume "is_ok (fst (VerifyServiceAccount ar token v))"
  ultimately show False
    using assms(5) by (cases "VerifyServiceAccount ar token v")
      (auto simp: is_ok_iff deleted_account_def elim!: VerifyServiceAccount_success)
qed

theorem deleted_account_never_authenticates_witness:
  "\<exists>w1. DeleteServiceAccount ''https://conduit'' ''s1'' example_sa_world = (Inr (), w1) \<and>
     \<not> is_ok (fst (VerifyServiceAccount example_argon example_token w1))"
proof -
  obtain b where run: "CreateServiceAccount example_account \<lparr>db = empty_database, now = 5, faults = []\<rparr> = (Inr b, example_sa_world)"
    and nf: "faults example_sa_world = []"
    using example_create_run by blast
  have rows: "t_service_accounts (db example_sa_world) = [new_sa_row example_account 5]"
    using CreateServiceAccount_success(3) [OF run] by (simp add: empty_database_def)
  have path: "sa_path empty_database (db example_sa_world)"
    unfolding example_sa_world_def by (rule sa_path.call) (simp add: sa_path.refl)
  have s: "find_sa ''https://conduit'' ''s1'' (db example_sa_world) = Some (new_sa_row example_account 5)"
    by (simp add: find_sa_def rows new_sa_row_def example_account_def)
  obtain w1 where del: "DeleteServiceAccount ''https://conduit'' ''s1'' example_sa_world = (Inr (), w1)"
    using nf by (simp add: DeleteServiceAccount_def sql_update_sa_def one_row_def try_db_def roundtrip_def ok_def fail_def
        rows count_where_def live_sa_def is_sa_def new_sa_row_def example_account_def)
  have p: "ParseServiceToken example_token = Inr (sr_lookup_id (new_sa_row example_account 5), EncodeToString example_secret)"
    using ParseServiceToken_generated [OF example_bytes] by (simp add: example_token_def new_sa_row_def example_account_def)
  from deleted_account_never_authenticates [OF path s del sa_path.refl p] del show ?thesis by blast
qed

text \<open>
  Only a live account is let in. \<open>VerifyServiceAccount\<close> accepts a token only if its lookup id is that
  of a stored account whose digest the secret matches and which is not deleted, not disabled and not
  expired, and the principal it returns has exactly the account's stored scopes.
\<close>

theorem accepted_token_is_live:
  assumes "VerifyServiceAccount ar token w = (Inr a, w')"
  shows "\<exists>l secret s. ParseServiceToken token = Inr (l, secret) \<and> s \<in> set (t_service_accounts (db w)) \<and>
           sr_lookup_id s = l \<and> argon_match ar secret (sr_token_hash s) = Inr True \<and> sr_deleted_at s = None \<and>
           \<not> sr_is_disabled s \<and> now w \<le> sr_token_expires_at s \<and> sa_iss a = sr_iss s \<and> sa_sub a = sr_sub s \<and>
           (\<forall>cfg x. HasScope cfg (PServiceAccount a) x \<longleftrightarrow> x \<in> set (sa_scope_names (sr_iss s) (sr_sub s) (db w)))"
  using assms
  by (elim VerifyServiceAccount_success)
     (auto simp: find_lookup_def scan_sa_def sa_HasScope_def sa_GetScopes_def dest!: find_SomeD)

theorem accepted_token_is_live_witness:
  "\<exists>a w'. VerifyServiceAccount example_argon example_token example_sa_world = (Inr a, w') \<and> sa_sub a = ''s1''"
proof -
  obtain b where run: "CreateServiceAccount example_account \<lparr>db = empty_database, now = 5, faults = []\<rparr> = (Inr b, example_sa_world)"
    and nf: "faults example_sa_world = []"
    using example_create_run by blast
  have rows: "t_service_accounts (db example_sa_world) = [new_sa_row example_account 5]"
    using CreateServiceAccount_success(3) [OF run] by (simp add: empty_database_def)
  have p: "ParseServiceToken example_token = Inr (EncodeToString example_lookup, EncodeToString example_secret)"
    using ParseServiceToken_generated [OF example_bytes] by (simp add: example_token_def)
  have "now example_sa_world = 5"
    by (simp add: example_sa_world_def CreateServiceAccount_def create_sa_tx_def sql_insert_sa_def sql_insert_sa_scope_def
      GetServiceAccountByID_def load_scopes_def with_tx_def try_db_def roundtrip_def db_query_eq db_query_row_eq ok_def
      find_sa_def sa_scope_names_def empty_database_def pop_fault_def example_account_def example_lookup_length)
  moreover have "find_lookup (EncodeToString example_lookup) (db example_sa_world) = Some (new_sa_row example_account 5)"
    by (simp add: find_lookup_def rows new_sa_row_def example_account_def)
  ultimately have "is_ok (fst (VerifyServiceAccount example_argon example_token example_sa_world))"
    using VerifyServiceAccount_no_faults [OF p _ nf, of "new_sa_row example_account 5" example_argon]
    by (simp add: new_sa_row_def example_account_def example_argon_def)
  then obtain a w' where ver: "VerifyServiceAccount example_argon example_token example_sa_world = (Inr a, w')"
    by (cases "VerifyServiceAccount example_argon example_token example_sa_world") (auto simp: is_ok_iff)
  from accepted_token_is_live [OF ver] rows have "sa_sub a = ''s1''"
    by (auto simp: new_sa_row_def example_account_def)
  with ver show ?thesis by blast
qed

end
