(* ===== verification/Frames.thy ===== *)
theory Frames
  imports Service_Tokens
begin

text \<open>
  What a storage operation leaves alone: a reading operation changes nothing but the fault schedule, and
  no operation touches the clock or the part of the world that the handlers add to the database. Both are
  proved along the combinators, and the handlers use them for every storage call they make.
\<close>

definition reads :: "('w, 'a) dbop \<Rightarrow> bool" where
  "reads m \<longleftrightarrow> (\<forall>w. \<exists>fs. snd (m w) = w\<lparr>faults := fs\<rparr>)"

definition framed :: "('w, 'a) dbop \<Rightarrow> bool" where
  "framed m \<longleftrightarrow> (\<forall>w. \<exists>d fs. snd (m w) = w\<lparr>db := d, faults := fs\<rparr>)"

lemma readsE:
  assumes "reads m" and "m w = (r, w')"
  obtains fs where "w' = w\<lparr>faults := fs\<rparr>"
  using assms unfolding reads_def by (metis snd_conv)

lemma framedE:
  assumes "framed m" and "m w = (r, w')"
  obtains d fs where "w' = w\<lparr>db := d, faults := fs\<rparr>"
  using assms unfolding framed_def by (metis snd_conv)

lemma reads_framed: "reads m \<Longrightarrow> framed m"
  unfolding reads_def framed_def
proof
  fix w assume "\<forall>w. \<exists>fs. snd (m w) = w\<lparr>faults := fs\<rparr>"
  then obtain fs where "snd (m w) = w\<lparr>faults := fs\<rparr>" by blast
  then have "snd (m w) = w\<lparr>db := db w, faults := fs\<rparr>" by simp
  then show "\<exists>d fs. snd (m w) = w\<lparr>db := d, faults := fs\<rparr>" by blast
qed

lemma faults_db_swap: "w\<lparr>faults := fs, db := d\<rparr> = w\<lparr>db := d, faults := fs\<rparr>"
  by (cases w) simp

section \<open>Reading\<close>

lemma pop_fault_eq: "\<exists>fs. pop_fault w = w\<lparr>faults := fs\<rparr>"
  by (auto simp: pop_fault_def)

lemma reads_query: "reads (db_query q)" "reads (db_query_row q')"
  using pop_fault_eq by (auto simp: reads_def db_query_eq db_query_row_eq split: option.splits)

lemma reads_ok: "reads (ok x)" "reads (fail e)" "reads (lift_result r)"
  unfolding reads_def ok_def fail_def lift_result_def
  by (metis snd_conv world.surjective world.update_convs(3))+

lemma reads_try:
  assumes "reads m" and "\<And>x. reads (k x)"
  shows "reads (try_db m h k)"
  unfolding reads_def
proof
  fix w
  obtain r w1 where run: "m w = (r, w1)" by (cases "m w")
  with assms(1) obtain fs where w1: "w1 = w\<lparr>faults := fs\<rparr>" by (rule readsE)
  show "\<exists>fs. snd (try_db m h k w) = w\<lparr>faults := fs\<rparr>"
  proof (cases r)
    case (Inl e)
    then show ?thesis using run w1 by (auto simp: try_db_def)
  next
    case (Inr x)
    obtain fs' where "snd (k x w1) = w1\<lparr>faults := fs'\<rparr>" using assms(2) unfolding reads_def by blast
    then show ?thesis using run w1 Inr by (auto simp: try_db_def)
  qed
qed

lemma reads_if: "reads a \<Longrightarrow> reads b \<Longrightarrow> reads (if c then a else b)"
  by simp

lemmas reads_intros = reads_try reads_if reads_query reads_ok

section \<open>Writing\<close>

lemma framed_roundtrip: "framed (roundtrip stmt)"
  unfolding framed_def
proof
  fix w
  have "\<exists>d fs. pop_fault w = w\<lparr>db := d, faults := fs\<rparr>"
    by (metis pop_fault_def world.surjective world.update_convs(1))
  moreover have "\<exists>d' fs. (pop_fault w)\<lparr>db := d\<rparr> = w\<lparr>db := d', faults := fs\<rparr>" for d
    by (auto simp: pop_fault_def faults_db_swap)
  ultimately show "\<exists>d fs. snd (roundtrip stmt w) = w\<lparr>db := d, faults := fs\<rparr>"
    by (cases "stmt (now w) (db w)") (simp add: roundtrip_def split: option.splits)
qed

lemma framed_try:
  assumes "framed m" and "\<And>x. framed (k x)"
  shows "framed (try_db m h k)"
  unfolding framed_def
proof
  fix w
  obtain r w1 where run: "m w = (r, w1)" by (cases "m w")
  with assms(1) obtain d fs where w1: "w1 = w\<lparr>db := d, faults := fs\<rparr>" by (rule framedE)
  show "\<exists>d fs. snd (try_db m h k w) = w\<lparr>db := d, faults := fs\<rparr>"
  proof (cases r)
    case (Inl e)
    then show ?thesis using run w1 by (auto simp: try_db_def)
  next
    case (Inr x)
    obtain d' fs' where "snd (k x w1) = w1\<lparr>db := d', faults := fs'\<rparr>" using assms(2) unfolding framed_def by blast
    then show ?thesis using run w1 Inr by (auto simp: try_db_def)
  qed
qed

lemma framed_if: "framed a \<Longrightarrow> framed b \<Longrightarrow> framed (if c then a else b)"
  by simp

lemma framed_for_each: "(\<And>x. framed (f x)) \<Longrightarrow> framed (for_each xs f)"
  by (induction xs) (auto intro: framed_try reads_framed reads_ok)

lemma framed_tx:
  fixes body :: "('w, 'a) dbop"
  assumes "framed body"
  shows "framed (with_tx hb body hc)"
  unfolding framed_def
proof
  fix w :: "'w world_scheme"
  obtain fs where pop: "pop_fault w = w\<lparr>faults := fs\<rparr>" using pop_fault_eq by blast
  obtain r w2 where run: "body (pop_fault w) = (r, w2)" by (cases "body (pop_fault w)")
  with assms obtain d fs2 where w2: "w2 = (pop_fault w)\<lparr>db := d, faults := fs2\<rparr>" by (rule framedE)
  have "\<exists>d fs. pop_fault w = w\<lparr>db := d, faults := fs\<rparr>"
    using pop by (metis world.surjective world.update_convs(1))
  moreover have "\<exists>d' fs. w2\<lparr>db := d''\<rparr> = w\<lparr>db := d', faults := fs\<rparr>" for d''
    using w2 pop by (auto simp: faults_db_swap)
  moreover have "\<exists>d' fs. (pop_fault w2)\<lparr>db := d''\<rparr> = w\<lparr>db := d', faults := fs\<rparr>" for d''
    using w2 pop by (auto simp: pop_fault_def faults_db_swap)
  moreover have "\<exists>d' fs. pop_fault w2 = w\<lparr>db := d', faults := fs\<rparr>"
    using w2 pop by (auto simp: pop_fault_def faults_db_swap)
  ultimately show "\<exists>d fs. snd (with_tx hb body hc w) = w\<lparr>db := d, faults := fs\<rparr>"
    using run by (cases r) (auto simp: with_tx_def db_query_eq split: option.splits)
qed

lemmas framed_read = reads_framed [OF reads_query(1)] reads_framed [OF reads_query(2)]
  reads_framed [OF reads_ok(1)] reads_framed [OF reads_ok(2)] reads_framed [OF reads_ok(3)]

lemmas framed_intros = framed_try framed_if framed_tx framed_for_each framed_roundtrip framed_read

section \<open>The storage operations\<close>

lemma reads_sa:
  "reads (GetServiceAccountByID iss sub)" "reads (GetServiceAccountByLookupId l)"
  "reads (GetServiceAccountsByCreator iss sub)" "reads (VerifyServiceAccount ar token)"
proof -
  have chk: "reads (check_account ar secret a)" for secret a
  proof -
    have "check_account ar secret a = (\<lambda>w. check_account ar secret a w)" by simp
    show ?thesis
      unfolding reads_def check_account_def ok_def fail_def
      by (auto split: sum.splits) (metis world.surjective world.update_convs(3))+
  qed
  have load: "reads (load_scopes a)" for a
    by (auto simp: load_scopes_def intro!: reads_intros)
  show "reads (GetServiceAccountByID iss sub)"
    unfolding GetServiceAccountByID_def by (intro reads_intros load)
  have lookup: "reads (GetServiceAccountByLookupId l)" for l
    unfolding GetServiceAccountByLookupId_def by (intro reads_intros load)
  then show "reads (GetServiceAccountByLookupId l)" .
  show "reads (VerifyServiceAccount ar token)"
    unfolding VerifyServiceAccount_def by (auto split: sum.splits intro: reads_intros lookup chk)
  show "reads (GetServiceAccountsByCreator iss sub)"
    by (auto simp: GetServiceAccountsByCreator_def intro!: reads_intros)
qed

lemma framed_sa:
  "framed (CreateServiceAccount a)" "framed (PauseServiceAccount iss sub)"
  "framed (UnpauseServiceAccount iss sub)" "framed (DeleteServiceAccount iss sub)"
  by (auto simp: CreateServiceAccount_def create_sa_tx_def PauseServiceAccount_def UnpauseServiceAccount_def
      DeleteServiceAccount_def one_row_def intro!: framed_intros reads_framed [OF reads_sa(1)])

end
