(* ===== verification/Sessions.thy ===== *)
theory Sessions
  imports Frames
begin

text \<open>
  The request context and the session: \<open>internal/middlewares/context.go\<close> and
  \<open>internal/authentication/session.go\<close>.

  The session manager wraps the package \<open>scs\<close>, a keyed store loaded and saved around each request;
  reading a key that is not there gives the zero value of its type. \<open>session\<close> has one field per key of
  \<open>internal/authentication/const.go\<close>. \<open>appctx\<close> is the world of the database with the session of the
  request, so every storage operation runs on it as it is. Times in a session are whole seconds.
\<close>

section \<open>Responses\<close>

text \<open>
  What a handler writes: \<open>SetJSONError\<close>, \<open>SetJSONStatus\<close>, \<open>WriteJSON\<close>, \<open>WriteText\<close> or
  \<open>http.Error\<close>, \<open>Redirect\<close>, a bare \<open>WriteHeader\<close>, a file as an attachment;
  or the handler panics.
\<close>

datatype 'j response =
    JSONError int string
  | JSONStatus int string
  | JSON int 'j
  | Text int string
  | Redirect string int
  | Header int
  | Attachment string string
  | Panicked goerror

primrec status_code :: "'j response \<Rightarrow> int option" where
  "status_code (JSONError n s) = Some n"
| "status_code (JSONStatus n s) = Some n"
| "status_code (JSON n j) = Some n"
| "status_code (Text n s) = Some n"
| "status_code (Redirect u n) = Some n"
| "status_code (Header n) = Some n"
| "status_code (Attachment name content) = Some 200"
| "status_code (Panicked e) = None"

text \<open>\<open>http.StatusText\<close> of the codes the source uses.\<close>

definition StatusText :: "int \<Rightarrow> string" where
  "StatusText n =
     (if n = 400 then ''Bad Request'' else if n = 401 then ''Unauthorized'' else if n = 403 then ''Forbidden''
      else if n = 404 then ''Not Found'' else if n = 409 then ''Conflict'' else if n = 410 then ''Gone''
      else if n = 500 then ''Internal Server Error'' else if n = 503 then ''Service Unavailable'' else [])"

abbreviation http_error :: "int \<Rightarrow> 'j response" where
  "http_error n \<equiv> JSONError n (StatusText n)"

section \<open>The context of a request\<close>

text \<open>\<open>r.URL.Query().Get(key)\<close> on the decoded query: the first value of the key, or the empty string.\<close>

type_synonym query = "(string \<times> string) list"

definition Query_Get :: "query \<Rightarrow> string \<Rightarrow> string" where
  "Query_Get q key = (case map_of q key of None \<Rightarrow> [] | Some v \<Rightarrow> v)"

record session =
  sn_user :: "user option"
  sn_authenticated :: bool
  sn_token_expiry :: int
  sn_created_at :: int
  sn_expires_at :: int
  sn_redirect_after_login :: string
  sn_oauth_state :: string
  sn_oauth_nonce :: string
  sn_code_verifier :: string

definition empty_session :: session where
  "empty_session =
     \<lparr>sn_user = None, sn_authenticated = False, sn_token_expiry = 0, sn_created_at = 0, sn_expires_at = 0,
      sn_redirect_after_login = [], sn_oauth_state = [], sn_oauth_nonce = [], sn_code_verifier = []\<rparr>"

record appctx = world +
  sess :: session

type_synonym ('w, 'j) handler = "'w appctx_scheme \<Rightarrow> 'j response \<times> 'w appctx_scheme"

definition reply :: "'j response \<Rightarrow> ('w, 'j) handler" where
  "reply r w = (r, w)"

text \<open>\<open>x, err := m; if err != nil { h(err); return }; k(x)\<close> in a handler.\<close>

definition try_http ::
  "('w appctx_scheme \<Rightarrow> 'a result \<times> 'w appctx_scheme) \<Rightarrow> (goerror \<Rightarrow> 'j response) \<Rightarrow> ('a \<Rightarrow> ('w, 'j) handler) \<Rightarrow> ('w, 'j) handler" where
  "try_http m h k w =
     (case m w of
        (Inl e, w') \<Rightarrow> (if is_panic e then Panicked e else h e, w')
      | (Inr x, w') \<Rightarrow> k x w')"

text \<open>Whether the server has a storage provider.\<close>

definition storage_enabled :: "config \<Rightarrow> bool" where
  "storage_enabled cfg = (case cfg_storage cfg of None \<Rightarrow> False | Some st \<Rightarrow> sto_enabled st)"

section \<open>Session values\<close>

definition upd_sess :: "(session \<Rightarrow> session) \<Rightarrow> 'w appctx_scheme \<Rightarrow> 'w appctx_scheme" where
  "upd_sess f w = w\<lparr>sess := f (sess w)\<rparr>"

definition Unix :: "time \<Rightarrow> int" where
  "Unix t = t div second"

definition unix_time :: "int \<Rightarrow> time option" where
  "unix_time timestamp = (if timestamp = 0 then None else Some (timestamp * second))"

definition SetUser :: "user \<Rightarrow> 'w appctx_scheme \<Rightarrow> 'w appctx_scheme" where
  "SetUser u = upd_sess (\<lambda>s. s\<lparr>sn_user := Some u\<rparr>)"

definition GetUser :: "'w appctx_scheme \<Rightarrow> user option" where
  "GetUser w = sn_user (sess w)"

definition SetAuthenticated :: "bool \<Rightarrow> 'w appctx_scheme \<Rightarrow> 'w appctx_scheme" where
  "SetAuthenticated b = upd_sess (\<lambda>s. s\<lparr>sn_authenticated := b\<rparr>)"

definition IsAuthenticated :: "'w appctx_scheme \<Rightarrow> bool" where
  "IsAuthenticated w = sn_authenticated (sess w)"

definition SetTokenExpiry :: "time \<Rightarrow> 'w appctx_scheme \<Rightarrow> 'w appctx_scheme" where
  "SetTokenExpiry t = upd_sess (\<lambda>s. s\<lparr>sn_token_expiry := Unix t\<rparr>)"

definition GetTokenExpiry :: "'w appctx_scheme \<Rightarrow> time option" where
  "GetTokenExpiry w = unix_time (sn_token_expiry (sess w))"

definition SetCreatedAt :: "time \<Rightarrow> 'w appctx_scheme \<Rightarrow> 'w appctx_scheme" where
  "SetCreatedAt t = upd_sess (\<lambda>s. s\<lparr>sn_created_at := Unix t\<rparr>)"

definition GetCreatedAt :: "'w appctx_scheme \<Rightarrow> time option" where
  "GetCreatedAt w = unix_time (sn_created_at (sess w))"

definition SetExpiresAt :: "time \<Rightarrow> 'w appctx_scheme \<Rightarrow> 'w appctx_scheme" where
  "SetExpiresAt t = upd_sess (\<lambda>s. s\<lparr>sn_expires_at := Unix t\<rparr>)"

definition GetExpiresAt :: "'w appctx_scheme \<Rightarrow> time option" where
  "GetExpiresAt w = unix_time (sn_expires_at (sess w))"

definition SetRedirectAfterLogin :: "string \<Rightarrow> 'w appctx_scheme \<Rightarrow> 'w appctx_scheme" where
  "SetRedirectAfterLogin r = upd_sess (\<lambda>s. s\<lparr>sn_redirect_after_login := r\<rparr>)"

definition GetRedirectAfterLogin :: "'w appctx_scheme \<Rightarrow> string" where
  "GetRedirectAfterLogin w = sn_redirect_after_login (sess w)"

definition SetOauthState :: "string \<Rightarrow> 'w appctx_scheme \<Rightarrow> 'w appctx_scheme" where
  "SetOauthState v = upd_sess (\<lambda>s. s\<lparr>sn_oauth_state := v\<rparr>)"

definition GetOauthState :: "'w appctx_scheme \<Rightarrow> string" where
  "GetOauthState w = sn_oauth_state (sess w)"

definition ClearOauthState :: "'w appctx_scheme \<Rightarrow> 'w appctx_scheme" where
  "ClearOauthState = upd_sess (\<lambda>s. s\<lparr>sn_oauth_state := []\<rparr>)"

definition SetOauthNonce :: "string \<Rightarrow> 'w appctx_scheme \<Rightarrow> 'w appctx_scheme" where
  "SetOauthNonce v = upd_sess (\<lambda>s. s\<lparr>sn_oauth_nonce := v\<rparr>)"

definition GetOauthNonce :: "'w appctx_scheme \<Rightarrow> string" where
  "GetOauthNonce w = sn_oauth_nonce (sess w)"

definition ClearOauthNonce :: "'w appctx_scheme \<Rightarrow> 'w appctx_scheme" where
  "ClearOauthNonce = upd_sess (\<lambda>s. s\<lparr>sn_oauth_nonce := []\<rparr>)"

definition SetOauthCodeVerifier :: "string \<Rightarrow> 'w appctx_scheme \<Rightarrow> 'w appctx_scheme" where
  "SetOauthCodeVerifier v = upd_sess (\<lambda>s. s\<lparr>sn_code_verifier := v\<rparr>)"

definition GetOauthCodeVerifier :: "'w appctx_scheme \<Rightarrow> string" where
  "GetOauthCodeVerifier w = sn_code_verifier (sess w)"

definition ClearOauthCodeVerifier :: "'w appctx_scheme \<Rightarrow> 'w appctx_scheme" where
  "ClearOauthCodeVerifier = upd_sess (\<lambda>s. s\<lparr>sn_code_verifier := []\<rparr>)"

section \<open>Creating and checking a session\<close>

definition CreateSessionWithTokenExpiry ::
  "time \<Rightarrow> user \<Rightarrow> 'w appctx_scheme \<Rightarrow> unit result \<times> 'w appctx_scheme" where
  "CreateSessionWithTokenExpiry tokenExpiry u w =
     (if tokenExpiry - now w \<le> 0 then (Inl (Errorf ''token already expired''), w)
      else (Inr (), SetExpiresAt tokenExpiry (SetCreatedAt (now w) (SetTokenExpiry tokenExpiry
                      (SetAuthenticated True (SetUser u w))))))"

definition IsSessionValid :: "'w appctx_scheme \<Rightarrow> bool" where
  "IsSessionValid w = (case GetExpiresAt w of None \<Rightarrow> False | Some expiresAt \<Rightarrow> now w < expiresAt)"

definition IsUserAuthenticated :: "'w appctx_scheme \<Rightarrow> bool" where
  "IsUserAuthenticated w =
     (if \<not> IsAuthenticated w then False
      else (case GetExpiresAt w of None \<Rightarrow> True | Some expiresAt \<Rightarrow> now w < expiresAt))"

definition GetAuthenticatedUser :: "'w appctx_scheme \<Rightarrow> user option" where
  "GetAuthenticatedUser w = (if \<not> IsUserAuthenticated w then None else GetUser w)"

text \<open>\<open>Logout\<close> destroys the session; the store may report an error, and then the session stays.\<close>

definition Logout :: "goerror option \<Rightarrow> 'w appctx_scheme \<Rightarrow> unit result \<times> 'w appctx_scheme" where
  "Logout store_error w =
     (case store_error of Some e \<Rightarrow> (Inl e, w) | None \<Rightarrow> (Inr (), upd_sess (\<lambda>_. empty_session) w))"

section \<open>The contract of a session value\<close>

text \<open>
  What the login flow relies on for the state, the nonce and the code verifier: a value is read back as
  it was put, and once cleared it reads as the empty string.
\<close>

locale session_slot =
  fixes put :: "'v list \<Rightarrow> 's \<Rightarrow> 's" and get :: "'s \<Rightarrow> 'v list" and clear :: "'s \<Rightarrow> 's"
  assumes get_put: "get (put v s) = v" and get_clear: "get (clear s) = []"
begin

lemma cleared_matches_nothing: "v \<noteq> [] \<Longrightarrow> get (clear s) \<noteq> v"
  by (simp add: get_clear)

lemma put_again: "get (put v (put u s)) = v"
  by (simp add: get_put)

end

lemma sess_upd_sess [simp]: "sess (upd_sess f w) = f (sess w)" "db (upd_sess f w) = db w"
  "now (upd_sess f w) = now w" "faults (upd_sess f w) = faults w"
  by (simp_all add: upd_sess_def)

interpretation oauth_state: session_slot SetOauthState GetOauthState ClearOauthState
  by unfold_locales (simp_all add: SetOauthState_def GetOauthState_def ClearOauthState_def)

interpretation oauth_nonce: session_slot SetOauthNonce GetOauthNonce ClearOauthNonce
  by unfold_locales (simp_all add: SetOauthNonce_def GetOauthNonce_def ClearOauthNonce_def)

interpretation code_verifier: session_slot SetOauthCodeVerifier GetOauthCodeVerifier ClearOauthCodeVerifier
  by unfold_locales (simp_all add: SetOauthCodeVerifier_def GetOauthCodeVerifier_def ClearOauthCodeVerifier_def)

lemmas session_defs =
  SetUser_def GetUser_def SetAuthenticated_def IsAuthenticated_def SetTokenExpiry_def GetTokenExpiry_def
  SetCreatedAt_def GetCreatedAt_def SetExpiresAt_def GetExpiresAt_def SetRedirectAfterLogin_def
  GetRedirectAfterLogin_def SetOauthState_def GetOauthState_def ClearOauthState_def SetOauthNonce_def
  GetOauthNonce_def ClearOauthNonce_def SetOauthCodeVerifier_def GetOauthCodeVerifier_def ClearOauthCodeVerifier_def

section \<open>Lemmas\<close>

lemma CreateSession_cases:
  assumes "CreateSessionWithTokenExpiry e u w = (r, w')"
  obtains (expired) "e \<le> now w" and "r = Inl (Errorf ''token already expired'')" and "w' = w"
  | (created) "now w < e" and "r = Inr ()" and "db w' = db w" and "now w' = now w" and "faults w' = faults w"
      and "sn_user (sess w') = Some u" and "sn_authenticated (sess w')"
      and "sn_expires_at (sess w') = Unix e" and "sn_token_expiry (sess w') = Unix e"
      and "sn_oauth_state (sess w') = sn_oauth_state (sess w)" and "sn_oauth_nonce (sess w') = sn_oauth_nonce (sess w)"
      and "sn_code_verifier (sess w') = sn_code_verifier (sess w)"
      and "sn_redirect_after_login (sess w') = sn_redirect_after_login (sess w)"
  using assms by (cases "e \<le> now w") (auto simp: CreateSessionWithTokenExpiry_def session_defs)

lemma unix_before: "t < Unix e * second \<longleftrightarrow> Unix t < Unix e"
proof
  assume "t < Unix e * second"
  then show "Unix t < Unix e" by (simp add: Unix_def div_less_iff_less_mult)
next
  assume "Unix t < Unix e"
  then show "t < Unix e * second" by (simp add: Unix_def div_less_iff_less_mult)
qed

lemma try_http_cases:
  assumes "try_http m h k w = (r, w')"
  obtains (failed) e where "m w = (Inl e, w')" and "r = (if is_panic e then Panicked e else h e)"
  | (returned) x w1 where "m w = (Inr x, w1)" and "k x w1 = (r, w')"
  using assms by (auto simp: try_http_def split: sum.splits prod.splits)

section \<open>Properties\<close>


definition example_user :: user where
  "example_user =
     \<lparr>usr_sub = ''alice'', usr_iss = ''idp'', usr_username = ''alice'', usr_display_name = ''Alice'',
      usr_email = ''alice@example.com'', usr_groups = [''conduit:mtls:admin''], usr_is_system = False,
      usr_last_logged_in = 0, usr_created_at = 0\<rparr>"

definition example_config :: config where
  "example_config =
     \<lparr>cfg_server = DefaultServerConfig,
      cfg_oidc = \<lparr>oidc_client_id = ''conduit'', oidc_client_secret = ''s'', oidc_issuer_url = ''https://idp'',
        oidc_redirect_uri = ''https://conduit/callback'', oidc_scopes = DefaultOIDCScopes\<rparr>,
      cfg_log = DefaultLogConfig, cfg_cors = DefaultCORSConfig, cfg_sessions = DefaultSessionConfig,
      cfg_data = \<lparr>data_prometheus_url = [], data_basic_auth = None, data_queries = [],
        data_fallback_interval = DefaultFallbackFetchInterval\<rparr>,
      cfg_cache_type = ''memory'', cfg_group_scopes = DefaultAuthorizationConfig, cfg_redis = None,
      cfg_distributed = None,
      cfg_storage = Some \<lparr>sto_enabled = True, sto_host = ''db'', sto_port = 5432, sto_username = ''u'',
        sto_password = ''p'', sto_database = ''conduit'', sto_encryption_key = []\<rparr>,
      cfg_features = Some DefaultFeaturesConfig\<rparr>"

definition example_ctx :: appctx where
  "example_ctx = \<lparr>db = empty_database, now = 5, faults = [], sess = empty_session\<rparr>"


end
