(* ===== verification/Auth_Middleware.thy ===== *)
theory Auth_Middleware
  imports Sessions
begin

text \<open>
  Who a request is from: the middlewares of \<open>internal/middlewares/require_auth.go\<close> and the status and
  logout handlers of \<open>internal/handlers\<close>. A middleware takes the handler it wraps; the principal that
  the context carries (\<open>SetPrincipal\<close>, \<open>GetPrincipal\<close>) is an argument of a handler. The context itself
  is always there, since \<open>AppContextMiddleware\<close> runs before all of these, so the branch for its absence
  is not modelled.
\<close>

type_synonym ('w, 'j) app_handler = "principal option \<Rightarrow> ('w, 'j) handler"

text \<open>
  The first half of \<open>OptionalAuth\<close> and \<open>RequireAuth\<close>: a well-formed \<open>Authorization\<close> header decides the
  request by itself, any other leaves it to the session.
\<close>

definition bearer_auth ::
  "config \<Rightarrow> argon \<Rightarrow> string \<Rightarrow> ('w, 'j) app_handler \<Rightarrow> ('w, 'j) handler \<Rightarrow> ('w, 'j) handler" where
  "bearer_auth cfg ar authz nxt fallback w =
     (case cfg_storage cfg of
        None \<Rightarrow> (Panicked nil_dereference, w)
      | Some st \<Rightarrow>
          if \<not> sto_enabled st then fallback w
          else (case ExtractAuthorizationHeader authz of
              Inl e \<Rightarrow> fallback w
            | Inr token \<Rightarrow>
                try_http (VerifyServiceAccount ar token) (\<lambda>e. http_error 401)
                  (\<lambda>a. nxt (Some (PServiceAccount a))) w))"

definition OptionalAuth ::
  "config \<Rightarrow> argon \<Rightarrow> string \<Rightarrow> ('w, 'j) app_handler \<Rightarrow> ('w, 'j) app_handler" where
  "OptionalAuth cfg ar authz nxt p =
     bearer_auth cfg ar authz nxt
       (\<lambda>w. case GetUser w of Some u \<Rightarrow> nxt (Some (PUser u)) w | None \<Rightarrow> nxt p w)"

definition RequireAuth ::
  "config \<Rightarrow> argon \<Rightarrow> string \<Rightarrow> ('w, 'j) app_handler \<Rightarrow> ('w, 'j) app_handler" where
  "RequireAuth cfg ar authz nxt p =
     bearer_auth cfg ar authz nxt
       (\<lambda>w. case GetUser w of
            Some u \<Rightarrow> nxt (Some (PUser u)) w
          | None \<Rightarrow> (case p of None \<Rightarrow> (Text 401 (StatusText 401), w) | Some q \<Rightarrow> nxt p w))"

definition RequireCookieAuth :: "('w, 'j) app_handler \<Rightarrow> ('w, 'j) app_handler" where
  "RequireCookieAuth nxt p w =
     (case p of Some (PUser u) \<Rightarrow> nxt p w | _ \<Rightarrow> (http_error 401, w))"

definition RequireServiceAccountAuth :: "('w, 'j) app_handler \<Rightarrow> ('w, 'j) app_handler" where
  "RequireServiceAccountAuth nxt p w =
     (case p of Some (PServiceAccount a) \<Rightarrow> nxt p w | _ \<Rightarrow> (http_error 401, w))"

section \<open>Login status and logout\<close>

record mtls_response =
  mr_enabled :: bool
  mr_subject :: "certificate_subject option"
  mr_key_algorithm :: string
  mr_provider_type :: string

record auth_status =
  as_authenticated :: bool
  as_user :: "user option"
  as_config :: "(mtls_response \<times> bool) option"

definition no_mtls :: mtls_response where
  "no_mtls = \<lparr>mr_enabled = False, mr_subject = None, mr_key_algorithm = [], mr_provider_type = []\<rparr>"

definition mtls_status :: "mtls_management \<Rightarrow> mtls_response" where
  "mtls_status m =
     (let r = \<lparr>mr_enabled = True, mr_subject = mtls_subject m, mr_key_algorithm = [], mr_provider_type = []\<rparr> in
      case mtls_kubernetes m of
        Some k \<Rightarrow>
          if k8s_enabled k then r\<lparr>mr_provider_type := ''kubernetes''\<rparr>
          else (case mtls_database m of
              Some d \<Rightarrow> if dbc_enabled d
                then r\<lparr>mr_provider_type := ''database'', mr_key_algorithm := dbc_key_algorithm d\<rparr> else r
            | None \<Rightarrow> r)
      | None \<Rightarrow>
          (case mtls_database m of
              Some d \<Rightarrow> if dbc_enabled d
                then r\<lparr>mr_provider_type := ''database'', mr_key_algorithm := dbc_key_algorithm d\<rparr> else r
            | None \<Rightarrow> r))"

definition config_status :: "config \<Rightarrow> mtls_response \<times> bool" where
  "config_status cfg =
     (case cfg_features cfg of
        None \<Rightarrow> (no_mtls, False)
      | Some f \<Rightarrow> (if mtls_enabled (feat_mtls f) then mtls_status (feat_mtls f) else no_mtls,
                   fw_enabled (feat_firewall f)))"

definition GETAuthStatusHandler :: "config \<Rightarrow> ('w, auth_status) app_handler" where
  "GETAuthStatusHandler cfg p w =
     (if \<not> IsUserAuthenticated w
      then (JSON 401 \<lparr>as_authenticated = False, as_user = None, as_config = None\<rparr>, w)
      else (case GetAuthenticatedUser w of
          None \<Rightarrow> (JSON 401 \<lparr>as_authenticated = False, as_user = None, as_config = Some (config_status cfg)\<rparr>, w)
        | Some u \<Rightarrow> (JSON 200 \<lparr>as_authenticated = True, as_user = Some u, as_config = Some (config_status cfg)\<rparr>, w)))"

definition POSTLogoutHandler :: "goerror option \<Rightarrow> ('w, 'j) app_handler" where
  "POSTLogoutHandler store_error p w =
     (if \<not> IsUserAuthenticated w then (http_error 400, w)
      else (case GetUser w of
          None \<Rightarrow> (http_error 500, w)
        | Some u \<Rightarrow> (case Logout store_error w of
              (Inl e, w') \<Rightarrow> (http_error 500, w')
            | (Inr _, w') \<Rightarrow> (JSONStatus 200 ''OK'', w'))))"

definition HandlerHealth :: "('w, 'j) app_handler" where
  "HandlerHealth p w = (JSONStatus 200 ''OK'', w)"

section \<open>What a middleware lets through\<close>

text \<open>
  \<open>caller_of\<close> is the specification of \<open>OptionalAuth\<close>: the middleware answers itself, or the request is
  anonymous, or it is from a principal.
\<close>

datatype caller = Broken | Refused goerror | Anonymous | Caller principal

definition caller_of :: "config \<Rightarrow> argon \<Rightarrow> string \<Rightarrow> 'w appctx_scheme \<Rightarrow> caller" where
  "caller_of cfg ar authz w =
     (case cfg_storage cfg of
        None \<Rightarrow> Broken
      | Some st \<Rightarrow>
          if sto_enabled st \<and> is_ok (ExtractAuthorizationHeader authz)
          then (case fst (VerifyServiceAccount ar (projr (ExtractAuthorizationHeader authz)) w) of
                  Inl e \<Rightarrow> Refused e | Inr a \<Rightarrow> Caller (PServiceAccount a))
          else (case GetUser w of None \<Rightarrow> Anonymous | Some u \<Rightarrow> Caller (PUser u)))"

text \<open>Whatever the middlewares do before the handler runs, they write nothing.\<close>

lemma bearer_auth_cases:
  assumes "bearer_auth cfg ar authz nxt fallback w = (r, w')"
  obtains (broken) "cfg_storage cfg = None" "r = Panicked nil_dereference" "w' = w"
  | (session) st where "cfg_storage cfg = Some st" "\<not> (sto_enabled st \<and> is_ok (ExtractAuthorizationHeader authz))"
      "fallback w = (r, w')"
  | (refused) st token e fs where "cfg_storage cfg = Some st" "sto_enabled st"
      "ExtractAuthorizationHeader authz = Inr token" "fst (VerifyServiceAccount ar token w) = Inl e"
      "r = (if is_panic e then Panicked e else http_error 401)" "w' = w\<lparr>faults := fs\<rparr>"
  | (account) st token a fs where "cfg_storage cfg = Some st" "sto_enabled st"
      "ExtractAuthorizationHeader authz = Inr token" "fst (VerifyServiceAccount ar token w) = Inr a"
      "nxt (Some (PServiceAccount a)) (w\<lparr>faults := fs\<rparr>) = (r, w')"
proof (cases "cfg_storage cfg")
  case None
  then show thesis using assms broken by (simp add: bearer_auth_def)
next
  case (Some st)
  show thesis
  proof (cases "sto_enabled st \<and> is_ok (ExtractAuthorizationHeader authz)")
    case False
    then have "fallback w = (r, w')" using assms Some by (auto simp: bearer_auth_def split: sum.splits if_splits)
    with Some False show thesis by (rule session)
  next
    case True
    then obtain token where tok: "ExtractAuthorizationHeader authz = Inr token" by (auto simp: is_ok_iff)
    obtain v w1 where ver: "VerifyServiceAccount ar token w = (v, w1)" by (cases "VerifyServiceAccount ar token w")
    with reads_sa(4) obtain fs where w1: "w1 = w\<lparr>faults := fs\<rparr>" by (rule readsE)
    from assms Some True tok ver have run:
      "(case v of Inl e \<Rightarrow> (if is_panic e then Panicked e else http_error 401, w1)
        | Inr a \<Rightarrow> nxt (Some (PServiceAccount a)) w1) = (r, w')"
      by (cases v) (simp_all add: bearer_auth_def try_http_def)
    show thesis
      using run Some True tok ver w1 by (cases v) (auto intro: refused account)
  qed
qed

lemma bearer_auth_caller:
  "\<exists>fs. bearer_auth cfg ar authz nxt (\<lambda>w. case GetUser w of Some u \<Rightarrow> nxt (Some (PUser u)) w | None \<Rightarrow> anon w) w =
     (case caller_of cfg ar authz w of
        Broken \<Rightarrow> (Panicked nil_dereference, w)
      | Refused e \<Rightarrow> (if is_panic e then Panicked e else http_error 401, w\<lparr>faults := fs\<rparr>)
      | Anonymous \<Rightarrow> anon w
      | Caller q \<Rightarrow> nxt (Some q) (w\<lparr>faults := fs\<rparr>))"
proof -
  obtain r w' where run: "bearer_auth cfg ar authz nxt
      (\<lambda>w. case GetUser w of Some u \<Rightarrow> nxt (Some (PUser u)) w | None \<Rightarrow> anon w) w = (r, w')"
    by fastforce
  then show ?thesis
  proof (cases rule: bearer_auth_cases)
    case broken
    then show ?thesis using run by (simp add: caller_of_def)
  next
    case (session st)
    then have "caller_of cfg ar authz w = (case GetUser w of None \<Rightarrow> Anonymous | Some u \<Rightarrow> Caller (PUser u))"
      by (auto simp: caller_of_def)
    moreover have "w = w\<lparr>faults := faults w\<rparr>" by simp
    ultimately show ?thesis using run session(3) by (cases "GetUser w") (auto intro: exI [of _ "faults w"])
  next
    case (refused st token e fs)
    then show ?thesis using run by (auto simp: caller_of_def)
  next
    case (account st token a fs)
    then show ?thesis using run by (auto simp: caller_of_def intro!: exI [of _ fs])
  qed
qed

text \<open>The account a token is verified as depends on the tables and the clock alone.\<close>

lemma VerifyServiceAccount_det:
  assumes "fst (VerifyServiceAccount ar token w) = Inr a" and "fst (VerifyServiceAccount ar token v) = Inr b"
    and "db v = db w"
  shows "b = a"
proof -
  obtain w' v' where "VerifyServiceAccount ar token w = (Inr a, w')" "VerifyServiceAccount ar token v = (Inr b, v')"
    using assms by (metis prod.collapse)
  then show ?thesis using assms(3) by (elim VerifyServiceAccount_success) simp
qed

lemma caller_of_stable:
  assumes "caller_of cfg ar authz w = Caller q" and "db v = db w" and "sess v = sess w"
  shows "caller_of cfg ar authz v = Caller q \<or> (\<exists>e. caller_of cfg ar authz v = Refused e)"
  using assms
  by (auto simp: caller_of_def GetUser_def split: option.splits if_splits sum.splits dest: VerifyServiceAccount_det)

section \<open>Properties\<close>

text \<open>A logged-in request, a request with a service token, and a handler that greets, for the witnesses.\<close>

definition logged_in_ctx :: appctx where
  "logged_in_ctx = snd (CreateSessionWithTokenExpiry (3600 * second) example_user example_ctx)"

definition bearer_ctx :: appctx where
  "bearer_ctx = \<lparr>db = db example_sa_world, now = 5, faults = [], sess = empty_session\<rparr>"

definition greet :: "(unit, unit) app_handler" where
  "greet p w = (Text 200 (case p of None \<Rightarrow> ''nobody'' | Some q \<Rightarrow> GetSub q), w)"

lemma logged_in_ctx_sel: "GetUser logged_in_ctx = Some example_user" "db logged_in_ctx = empty_database"
  "now logged_in_ctx = 5" "faults logged_in_ctx = []"
  by (simp_all add: logged_in_ctx_def CreateSessionWithTokenExpiry_def example_ctx_def session_defs)

lemma logged_in_caller: "caller_of example_config ar [] logged_in_ctx = Caller (PUser example_user)"
  by (simp add: caller_of_def example_config_def ExtractAuthorizationHeader_def logged_in_ctx_sel)

definition example_authz :: string where
  "example_authz = ''Bearer '' @ example_token"

lemma bearer_caller:
  "\<exists>a. caller_of example_config example_argon example_authz bearer_ctx = Caller (PServiceAccount a) \<and> sa_sub a = ''s1''"
proof -
  obtain b where run: "CreateServiceAccount example_account \<lparr>db = empty_database, now = 5, faults = []\<rparr> = (Inr b, example_sa_world)"
    using example_create_run by blast
  have rows: "t_service_accounts (db example_sa_world) = [new_sa_row example_account 5]"
    using CreateServiceAccount_success(3) [OF run] by (simp add: empty_database_def)
  have p: "ParseServiceToken example_token = Inr (EncodeToString example_lookup, EncodeToString example_secret)"
    using ParseServiceToken_generated [OF example_bytes] by (simp add: example_token_def)
  have "find_lookup (EncodeToString example_lookup) (db bearer_ctx) = Some (new_sa_row example_account 5)"
    by (simp add: bearer_ctx_def find_lookup_def rows new_sa_row_def example_account_def)
  from VerifyServiceAccount_no_faults [OF p this, of example_argon]
  have "fst (VerifyServiceAccount example_argon example_token bearer_ctx) =
      Inr ((scan_sa (new_sa_row example_account 5))\<lparr>sa_scopes := sa_scope_names ''https://conduit'' ''s1'' (db bearer_ctx)\<rparr>)"
    by (simp add: bearer_ctx_def new_sa_row_def example_account_def example_argon_def)
  moreover have "ExtractAuthorizationHeader example_authz = Inr example_token"
    by (simp add: ExtractAuthorizationHeader_def example_authz_def strings_SplitN2_def Let_def strings_EqualFold_def
        example_token_def serviceAccountTokenPrefix_def)
  ultimately show ?thesis
    by (simp add: caller_of_def example_config_def scan_sa_def new_sa_row_def example_account_def)
qed


text \<open>
  A route behind \<open>RequireCookieAuth\<close> is for session users only: its handler runs exactly when the
  session holds a user and no bearer token was presented, and then as that user; service accounts get 401.
\<close>

theorem cookie_route_serves_session_user:
  assumes "OptionalAuth cfg ar authz (RequireCookieAuth h) None w = (r, w')"
  shows "(case caller_of cfg ar authz w of
            Caller (PUser u) \<Rightarrow> GetUser w = Some u \<and> (\<exists>fs. h (Some (PUser u)) (w\<lparr>faults := fs\<rparr>) = (r, w'))
          | _ \<Rightarrow> db w' = db w \<and> sess w' = sess w \<and> (r = http_error 401 \<or> (\<exists>e. r = Panicked e)))"
proof -
  obtain fs where "OptionalAuth cfg ar authz (RequireCookieAuth h) None w =
     (case caller_of cfg ar authz w of
        Broken \<Rightarrow> (Panicked nil_dereference, w)
      | Refused e \<Rightarrow> (if is_panic e then Panicked e else http_error 401, w\<lparr>faults := fs\<rparr>)
      | Anonymous \<Rightarrow> RequireCookieAuth h None w
      | Caller q \<Rightarrow> RequireCookieAuth h (Some q) (w\<lparr>faults := fs\<rparr>))"
    unfolding OptionalAuth_def using bearer_auth_caller [of cfg ar authz "RequireCookieAuth h" _ w] by blast
  with assms show ?thesis
    by (cases "caller_of cfg ar authz w")
       (auto simp: RequireCookieAuth_def caller_of_def split: principal.splits option.splits sum.splits if_splits)
qed

theorem cookie_route_serves_session_user_witness:
  "fst (OptionalAuth example_config example_argon [] (RequireCookieAuth greet) None logged_in_ctx) = Text 200 ''alice'' \<and>
   fst (OptionalAuth example_config example_argon example_authz (RequireCookieAuth greet) None bearer_ctx) \<noteq> Text 200 ''s1''"
proof -
  obtain r w' where run: "OptionalAuth example_config example_argon [] (RequireCookieAuth greet) None logged_in_ctx = (r, w')"
    by fastforce
  obtain r2 w2 where run2: "OptionalAuth example_config example_argon example_authz (RequireCookieAuth greet) None bearer_ctx = (r2, w2)"
    by fastforce
  obtain a where "caller_of example_config example_argon example_authz bearer_ctx = Caller (PServiceAccount a)"
    using bearer_caller by blast
  then show ?thesis
    using cookie_route_serves_session_user [OF run] cookie_route_serves_session_user [OF run2] logged_in_caller run run2
    by (auto simp: greet_def example_user_def)
qed

text \<open>
  A route behind \<open>RequireServiceAccountAuth\<close> is served only to a live service account: one whose row
  is neither deleted nor disabled nor expired and whose digest Argon2 matched.
\<close>

theorem bearer_route_serves_live_account:
  assumes "OptionalAuth cfg ar authz (RequireServiceAccountAuth h) None w = (r, w')"
  shows "(\<exists>a s fs. h (Some (PServiceAccount a)) (w\<lparr>faults := fs\<rparr>) = (r, w') \<and> s \<in> set (t_service_accounts (db w)) \<and>
            sa_iss a = sr_iss s \<and> sa_sub a = sr_sub s \<and> sr_deleted_at s = None \<and> \<not> sr_is_disabled s \<and>
            now w \<le> sr_token_expires_at s) \<or>
         (db w' = db w \<and> sess w' = sess w \<and> (r = http_error 401 \<or> (\<exists>e. r = Panicked e)))"
proof -
  obtain fs where run: "OptionalAuth cfg ar authz (RequireServiceAccountAuth h) None w =
     (case caller_of cfg ar authz w of
        Broken \<Rightarrow> (Panicked nil_dereference, w)
      | Refused e \<Rightarrow> (if is_panic e then Panicked e else http_error 401, w\<lparr>faults := fs\<rparr>)
      | Anonymous \<Rightarrow> RequireServiceAccountAuth h None w
      | Caller q \<Rightarrow> RequireServiceAccountAuth h (Some q) (w\<lparr>faults := fs\<rparr>))"
    unfolding OptionalAuth_def using bearer_auth_caller [of cfg ar authz "RequireServiceAccountAuth h" _ w] by blast
  show ?thesis
  proof (cases "\<exists>a. caller_of cfg ar authz w = Caller (PServiceAccount a)")
    case True
    then obtain a token where a: "caller_of cfg ar authz w = Caller (PServiceAccount a)"
      "fst (VerifyServiceAccount ar token w) = Inr a"
      by (auto simp: caller_of_def split: option.splits sum.splits if_splits)
    then obtain w1 where "VerifyServiceAccount ar token w = (Inr a, w1)" by (metis prod.collapse)
    then obtain s where "s \<in> set (t_service_accounts (db w))" "sa_iss a = sr_iss s" "sa_sub a = sr_sub s"
      "sr_deleted_at s = None" "\<not> sr_is_disabled s" "now w \<le> sr_token_expires_at s"
      by (rule VerifyServiceAccount_success) (auto simp: find_lookup_def scan_sa_def dest!: find_SomeD)
    moreover have "h (Some (PServiceAccount a)) (w\<lparr>faults := fs\<rparr>) = (r, w')"
      using run assms a(1) by (simp add: RequireServiceAccountAuth_def)
    ultimately show ?thesis by blast
  next
    case False
    then show ?thesis using run assms
      by (cases "caller_of cfg ar authz w") (auto simp: RequireServiceAccountAuth_def split: principal.splits if_splits)
  qed
qed

theorem bearer_route_serves_live_account_witness:
  "\<exists>s \<in> set (t_service_accounts (db bearer_ctx)). \<not> sr_is_disabled s \<and>
     fst (OptionalAuth example_config example_argon example_authz (RequireServiceAccountAuth greet) None bearer_ctx) =
       Text 200 (sr_sub s)"
proof -
  obtain r w' where run: "OptionalAuth example_config example_argon example_authz
      (RequireServiceAccountAuth greet) None bearer_ctx = (r, w')" by fastforce
  obtain a where "caller_of example_config example_argon example_authz bearer_ctx = Caller (PServiceAccount a)"
    using bearer_caller by blast
  with bearer_auth_caller [of example_config example_argon example_authz "RequireServiceAccountAuth greet"
      "RequireServiceAccountAuth greet None" bearer_ctx] run
  have "r \<noteq> http_error 401" "r \<noteq> Panicked e" for e
    by (auto simp: OptionalAuth_def RequireServiceAccountAuth_def greet_def)
  with bearer_route_serves_live_account [OF run] run show ?thesis
    by (auto simp: greet_def)
qed

end
