(* ===== verification/Oidc_Login.thy ===== *)
theory Oidc_Login
  imports Auth_Middleware
begin

text \<open>
  The login flow: \<open>internal/authentication/oidc.go\<close> and \<open>utils.go\<close>, and the login and callback handlers of
  \<open>internal/handlers\<close>. The OpenID Connect client packages are third-party code: \<open>oidc_provider\<close> is the
  parameter that stands for them, with one field per call. Random bytes are arguments, and SHA-256 is
  the field \<open>op_sha256\<close>.
\<close>

section \<open>Escaping\<close>

definition unreserved :: "char \<Rightarrow> bool" where
  "unreserved c =
     (let n = (of_char c :: nat) in
      (65 \<le> n \<and> n \<le> 90) \<or> (97 \<le> n \<and> n \<le> 122) \<or> (48 \<le> n \<and> n \<le> 57) \<or>
      c = CHR ''-'' \<or> c = CHR ''_'' \<or> c = CHR ''.'' \<or> c = CHR ''~'')"

definition hex_digit :: "nat \<Rightarrow> char" where
  "hex_digit n = (if n < 10 then char_of (48 + n) else char_of (55 + n))"

fun QueryEscape :: "string \<Rightarrow> string" where
  "QueryEscape [] = []"
| "QueryEscape (c # cs) =
     (if unreserved c then c # QueryEscape cs
      else if c = CHR '' '' then CHR ''+'' # QueryEscape cs
      else CHR ''%'' # hex_digit (of_char c div 16) # hex_digit (of_char c mod 16) # QueryEscape cs)"

section \<open>The provider\<close>

record token_claims =
  cl_sub :: string
  cl_iss :: string
  cl_preferred_username :: string
  cl_name :: string
  cl_email :: string
  cl_groups :: "string list"
  cl_nonce :: string

record user_info =
  ui_username :: string
  ui_name :: string
  ui_display_name :: string
  ui_email :: string
  ui_groups :: "string list"

record id_token =
  it_expiry :: time
  it_claims :: "token_claims result"

record 't oidc_provider =
  op_auth_code_url :: "string \<Rightarrow> string \<Rightarrow> string \<Rightarrow> string"
  op_sha256 :: "string \<Rightarrow> nat list"
  op_exchange :: "string \<Rightarrow> string \<Rightarrow> 't result"
  op_id_token :: "'t \<Rightarrow> string option"
  op_verify :: "string \<Rightarrow> id_token result"
  op_user_info :: "'t \<Rightarrow> user_info result result"

datatype oidc_error = OIDCError string string

section \<open>Starting a login\<close>

text \<open>\<open>base64.URLEncoding\<close>, with padding; the random bytes are drawn by the caller.\<close>

definition GenerateRandString :: "nat list \<Rightarrow> string" where
  "GenerateRandString b =
     (let s = EncodeToString b in s @ replicate ((4 - length s mod 4) mod 4) (CHR ''=''))"

definition GenerateCodeVerifier :: "'t oidc_provider \<Rightarrow> nat list \<Rightarrow> string \<times> string" where
  "GenerateCodeVerifier op b =
     (let codeVerifier = EncodeToString b in (codeVerifier, EncodeToString (op_sha256 op codeVerifier)))"

definition StartLogin ::
  "'t oidc_provider \<Rightarrow> nat list \<Rightarrow> nat list \<Rightarrow> nat list \<Rightarrow> 'w appctx_scheme \<Rightarrow> string result \<times> 'w appctx_scheme" where
  "StartLogin op stateBytes nonceBytes verifierBytes w =
     (let state = GenerateRandString stateBytes; nonce = GenerateRandString nonceBytes;
          (codeVerifier, codeChallenge) = GenerateCodeVerifier op verifierBytes
      in (Inr (op_auth_code_url op state nonce codeChallenge),
          SetOauthCodeVerifier codeVerifier (SetOauthState state (SetOauthNonce nonce w))))"

text \<open>
  \<open>url_local rd\<close> is what \<open>url.Parse\<close> says of the target: it parses, is not absolute and has no host.
\<close>

definition redirect_target :: "(string \<Rightarrow> bool) \<Rightarrow> string \<Rightarrow> string \<Rightarrow> string" where
  "redirect_target url_local rd referer =
     (let r0 = (if rd = [] then (if referer = [] then ''/'' else referer) else rd);
          r1 = (if r0 \<noteq> ''/'' then (let r = (if url_local r0 then r0 else ''/'')
                                   in if strings_HasPrefix r ''/'' then r else ''/'' @ r)
                else r0)
      in if strings_Contains r1 ''/error'' then ''/'' else r1)"

datatype login_body = RedirectRequired string

definition GETLoginHandler ::
  "'t oidc_provider \<Rightarrow> (string \<Rightarrow> bool) \<Rightarrow> nat list \<Rightarrow> nat list \<Rightarrow> nat list \<Rightarrow> query \<Rightarrow> string \<Rightarrow>
   ('w, login_body) app_handler" where
  "GETLoginHandler op url_local sb nb vb q referer p w =
     (if IsAuthenticated w then (JSONStatus 200 ''ok'', w)
      else (case StartLogin op sb nb vb (SetRedirectAfterLogin (redirect_target url_local (Query_Get q ''rd'') referer) w) of
          (Inl e, w') \<Rightarrow> (http_error 500, w')
        | (Inr authURL, w') \<Rightarrow> (JSON 200 (RedirectRequired authURL), w')))"

section \<open>The callback\<close>

definition extractUserClaimsFromToken :: "id_token \<Rightarrow> (user \<times> string) result" where
  "extractUserClaimsFromToken it =
     (case it_claims it of
        Inl e \<Rightarrow> Inl e
      | Inr c \<Rightarrow> Inr (\<lparr>usr_sub = cl_sub c, usr_iss = cl_iss c, usr_username = cl_preferred_username c,
            usr_display_name = cl_name c, usr_email = cl_email c, usr_groups = cl_groups c,
            usr_is_system = False, usr_last_logged_in = 0, usr_created_at = 0\<rparr>, cl_nonce c))"

fun getPreferredValue :: "string list \<Rightarrow> string" where
  "getPreferredValue [] = []"
| "getPreferredValue (v # vs) = (if v \<noteq> [] then v else getPreferredValue vs)"

definition fetchUserInfo :: "'t oidc_provider \<Rightarrow> 't \<Rightarrow> user \<Rightarrow> user result" where
  "fetchUserInfo op token baseUser =
     (case op_user_info op token of
        Inl e \<Rightarrow> Inl (wrap ''failed to get user info: '' e)
      | Inr (Inl e) \<Rightarrow> Inl (wrap ''failed to parse user info claims: '' e)
      | Inr (Inr c) \<Rightarrow> Inr (baseUser\<lparr>
            usr_username := getPreferredValue [ui_username c, usr_username baseUser],
            usr_display_name := getPreferredValue [ui_display_name c, ui_name c, usr_display_name baseUser],
            usr_email := getPreferredValue [ui_email c, usr_email baseUser],
            usr_groups := if ui_groups c = [] then usr_groups baseUser else ui_groups c\<rparr>))"

definition error_redirect :: "string \<Rightarrow> string \<Rightarrow> string" where
  "error_redirect code description =
     ''/error?error='' @ code @ ''&error_description='' @ QueryEscape description"

definition callback_error_url :: "query \<Rightarrow> string" where
  "callback_error_url q =
     (let opt = (\<lambda>key v. if v = [] then [] else ''&'' @ key @ ''='' @ QueryEscape v) in
      ''/error?error='' @ QueryEscape (Query_Get q ''error'') @
      opt ''error_description'' (Query_Get q ''error_description'') @
      opt ''error_uri'' (Query_Get q ''error_uri'') @ opt ''state'' (Query_Get q ''state''))"

text \<open>The checks on the token, once the authorization code was exchanged.\<close>

definition check_id_token ::
  "'t oidc_provider \<Rightarrow> 't \<Rightarrow> 'w appctx_scheme \<Rightarrow> (oidc_error + id_token \<times> user) \<times> 'w appctx_scheme" where
  "check_id_token op token w =
     (case op_id_token op token of
        None \<Rightarrow> (Inl (OIDCError (error_redirect ''invalid_token'' ''No id_token found in oauth2 token'')
                   ''no id_token found in oauth2 token''), w)
      | Some rawIDToken \<Rightarrow>
        (case op_verify op rawIDToken of
           Inl e \<Rightarrow> (Inl (OIDCError (error_redirect ''invalid_token'' ''Failed to verify ID Token'')
                       (''failed to verify ID Token: '' @ error_text e)), w)
         | Inr idToken \<Rightarrow>
           (case extractUserClaimsFromToken idToken of
              Inl e \<Rightarrow> (Inl (OIDCError (error_redirect ''server_error'' ''Failed to extract user from ID Token'')
                          (''failed to extract user from ID Token: '' @ error_text e)), w)
            | Inr (u, nonce) \<Rightarrow>
                if nonce \<noteq> GetOauthNonce w
                then (Inl (OIDCError (error_redirect ''server_error'' ''Invalid Nonce'') ''nonce in ID Token is invalid''), w)
                else (let w' = ClearOauthNonce w in
                      (Inr (idToken, case fetchUserInfo op token u of Inl e \<Rightarrow> u | Inr e \<Rightarrow> e), w')))))"

definition HandleCallback ::
  "'t oidc_provider \<Rightarrow> query \<Rightarrow> 'w appctx_scheme \<Rightarrow> (oidc_error + id_token \<times> user) \<times> 'w appctx_scheme" where
  "HandleCallback op q w =
     (if Query_Get q ''error'' \<noteq> [] then (Inl (OIDCError (callback_error_url q) (Query_Get q ''error'')), w)
      else (let storedState = GetOauthState w in
        if storedState = []
        then (Inl (OIDCError (error_redirect ''invalid_request'' ''No oauth state found in session'')
                ''no oauth state found in session''), w)
        else if Query_Get q ''state'' \<noteq> storedState
          then (Inl (OIDCError (error_redirect ''invalid_request'' ''Invalid state parameter'') ''invalid state parameter''), w)
        else (let w1 = ClearOauthState w; code = Query_Get q ''code'' in
          if code = []
          then (Inl (OIDCError (error_redirect ''invalid_request'' ''No authorization code received'')
                  ''no authorization code received''), w1)
          else (let verifierCode = GetOauthCodeVerifier w1; w2 = ClearOauthCodeVerifier w1 in
            case op_exchange op code verifierCode of
              Inl e \<Rightarrow> (Inl (OIDCError (error_redirect ''invalid_grant'' ''Failed to exchange code for token'')
                          (''failed to exchange code for token: '' @ error_text e)), w2)
            | Inr token \<Rightarrow> check_id_token op token w2))))"

text \<open>\<open>ctx.Storage\<close> is nil when the storage is disabled, and calling it panics.\<close>

definition login_failed :: "string \<Rightarrow> 'j response" where
  "login_failed what =
     Redirect (''/error?error='' @ QueryEscape ''server_error'' @ ''&error_description='' @
       QueryEscape (''Authentication succeeded but failed to create user '' @ what @
         ''. Please try again or contact support.'')) 302"

definition finish_login :: "config \<Rightarrow> id_token \<Rightarrow> user \<Rightarrow> ('w, 'j) handler" where
  "finish_login cfg idToken u w =
     (if \<not> storage_enabled cfg then (Panicked nil_dereference, w)
      else try_http (UpsertUser (usr_sub u) (usr_iss u) (usr_username u) (usr_display_name u) (usr_email u) (usr_groups u))
        (\<lambda>e. login_failed ''account'')
        (\<lambda>resultUser.
           try_http (CreateSessionWithTokenExpiry (it_expiry idToken) resultUser)
             (\<lambda>e. login_failed ''session'')
             (\<lambda>_ w. let redirectTo = GetRedirectAfterLogin w in
                (Redirect (if redirectTo \<noteq> [] then redirectTo else ''/'') 302, w))) w)"

definition GETCallbackHandler :: "config \<Rightarrow> 't oidc_provider \<Rightarrow> query \<Rightarrow> ('w, 'j) app_handler" where
  "GETCallbackHandler cfg op q p w =
     (if Query_Get q ''error'' \<noteq> [] then (Redirect (callback_error_url q) 302, w)
      else (case HandleCallback op q w of
          (Inl (OIDCError redirectURL message), w') \<Rightarrow>
            (Redirect (if redirectURL \<noteq> [] then redirectURL
                       else ''/error?error='' @ QueryEscape ''server error'' @ ''&error_description='' @
                            QueryEscape ''authentication failed'') 302, w')
        | (Inr (idToken, u), w') \<Rightarrow> finish_login cfg idToken u w'))"

section \<open>The callback, step by step\<close>

text \<open>The session after a callback that passed the checks: the one-time values are gone.\<close>

definition consumed :: "session \<Rightarrow> session" where
  "consumed s = s\<lparr>sn_oauth_state := [], sn_code_verifier := [], sn_oauth_nonce := []\<rparr>"

lemma check_id_token_success:
  assumes "check_id_token op token w = (Inr (it, u), w')"
  obtains raw c where "op_id_token op token = Some raw" and "op_verify op raw = Inr it" and "it_claims it = Inr c"
    and "cl_nonce c = GetOauthNonce w" and "usr_sub u = cl_sub c" and "usr_iss u = cl_iss c"
    and "w' = ClearOauthNonce w"
  using assms
  by (auto simp: check_id_token_def extractUserClaimsFromToken_def fetchUserInfo_def Let_def
      split: option.splits sum.splits if_splits)

lemma check_id_token_state: "sn_oauth_state (sess (snd (check_id_token op token w))) = sn_oauth_state (sess w)"
  by (auto simp: check_id_token_def ClearOauthNonce_def Let_def split: option.splits sum.splits)

lemma check_id_token_failure:
  assumes "check_id_token op token w = (Inl e, w')"
  shows "w' = w"
  using assms by (auto simp: check_id_token_def Let_def split: option.splits sum.splits if_splits)

lemma HandleCallback_success:
  assumes "HandleCallback op q w = (Inr (it, u), w')"
  obtains token raw c where "GetOauthState w \<noteq> []" and "Query_Get q ''state'' = GetOauthState w"
    and "op_exchange op (Query_Get q ''code'') (GetOauthCodeVerifier w) = Inr token"
    and "op_id_token op token = Some raw" and "op_verify op raw = Inr it" and "it_claims it = Inr c"
    and "cl_nonce c = GetOauthNonce w" and "usr_sub u = cl_sub c" and "usr_iss u = cl_iss c"
    and "db w' = db w" and "now w' = now w" and "sess w' = consumed (sess w)"
proof -
  from assms obtain token where pre: "GetOauthState w \<noteq> []" "Query_Get q ''state'' = GetOauthState w"
    and ex: "op_exchange op (Query_Get q ''code'') (GetOauthCodeVerifier w) = Inr token"
    and run: "check_id_token op token (ClearOauthCodeVerifier (ClearOauthState w)) = (Inr (it, u), w')"
    by (auto simp: HandleCallback_def Let_def GetOauthCodeVerifier_def ClearOauthState_def
        split: if_splits sum.splits)
  from run show thesis
    by (rule check_id_token_success)
       (rule that [OF pre ex], auto simp: session_defs consumed_def)
qed

text \<open>Whatever happens, the callback leaves the user of the session alone, and uses up the state it matched.\<close>

lemma HandleCallback_frame:
  assumes "HandleCallback op q w = (x, w')"
  shows "db w' = db w" and "now w' = now w" and "sn_user (sess w') = sn_user (sess w)"
    and "sn_authenticated (sess w') = sn_authenticated (sess w)"
    and "w' = w \<or> sn_oauth_state (sess w') = []"
proof -
  have "(db w' = db w \<and> now w' = now w \<and> sn_user (sess w') = sn_user (sess w) \<and>
     sn_authenticated (sess w') = sn_authenticated (sess w)) \<and> (w' = w \<or> sn_oauth_state (sess w') = [])"
  proof (cases x)
    case (Inl e)
    with assms show ?thesis
      by (auto simp: HandleCallback_def Let_def session_defs split: if_splits sum.splits dest!: check_id_token_failure)
  next
    case (Inr y)
    obtain it u where "y = (it, u)" by fastforce
    with assms Inr have "HandleCallback op q w = (Inr (it, u), w')" by simp
    then show ?thesis by (rule HandleCallback_success) (auto simp: consumed_def)
  qed
  then show "db w' = db w" "now w' = now w" "sn_user (sess w') = sn_user (sess w)"
    "sn_authenticated (sess w') = sn_authenticated (sess w)" "w' = w \<or> sn_oauth_state (sess w') = []"
    by simp_all
qed

lemma HandleCallback_uses_state:
  fixes w :: "'w appctx_scheme"
  assumes "HandleCallback op q w = (x, w')" and "Query_Get q ''error'' = []" and "Query_Get q ''state'' = GetOauthState w"
  shows "GetOauthState w' = []"
proof (cases "GetOauthState w = []")
  case True
  then show ?thesis using assms by (auto simp: HandleCallback_def)
next
  case False
  let ?w1 = "ClearOauthState w"
  have clear: "GetOauthState (ClearOauthCodeVerifier v) = GetOauthState v"
    "GetOauthState (snd (check_id_token op token v)) = GetOauthState v" for token and v :: "'w appctx_scheme"
    by (simp_all add: ClearOauthCodeVerifier_def GetOauthState_def check_id_token_state)
  have "w' = ?w1 \<or> w' = ClearOauthCodeVerifier ?w1 \<or>
        (\<exists>token. w' = snd (check_id_token op token (ClearOauthCodeVerifier ?w1)))"
    using assms False unfolding HandleCallback_def Let_def
    by (simp split: if_splits sum.splits) (metis snd_conv)
  then show ?thesis using oauth_state.get_clear [of w] clear by auto
qed

lemma framed_UpsertUser: "framed (UpsertUser sub iss un dn em gs)"
proof -
  have "reads (GetUserByID i s)" for i s
    unfolding GetUserByID_def by (auto split: option.splits intro!: reads_intros)
  then show ?thesis
    unfolding UpsertUser_def upsert_tx_def by (intro framed_intros) (rule reads_framed)
qed

lemma finish_login_cases:
  assumes "finish_login cfg it u w = (r, w')"
  obtains (refused) d fs where "w' = w\<lparr>db := d, faults := fs\<rparr>"
  | (logged_in) x w1 d fs where "storage_enabled cfg"
      and "UpsertUser (usr_sub u) (usr_iss u) (usr_username u) (usr_display_name u) (usr_email u) (usr_groups u) w = (Inr x, w1)"
      and "w1 = w\<lparr>db := d, faults := fs\<rparr>" and "CreateSessionWithTokenExpiry (it_expiry it) x w1 = (Inr (), w')"
      and "r = Redirect (if GetRedirectAfterLogin w = [] then ''/'' else GetRedirectAfterLogin w) 302"
proof (cases "storage_enabled cfg")
  case False
  then have "w' = w\<lparr>db := db w, faults := faults w\<rparr>" using assms by (simp add: finish_login_def)
  then show thesis by (rule refused)
next
  case True
  obtain y w1 where run: "UpsertUser (usr_sub u) (usr_iss u) (usr_username u) (usr_display_name u) (usr_email u) (usr_groups u) w = (y, w1)"
    by fastforce
  with framed_UpsertUser obtain d fs where w1: "w1 = w\<lparr>db := d, faults := fs\<rparr>" by (rule framedE)
  show thesis
  proof (cases y)
    case (Inl e)
    then have "w' = w1" using assms True run by (simp add: finish_login_def try_http_def)
    then show thesis using w1 refused by simp
  next
    case (Inr x)
    obtain z w2 where cr: "CreateSessionWithTokenExpiry (it_expiry it) x w1 = (z, w2)" by fastforce
    show thesis
    proof (cases z)
      case (Inl e)
      then have "w' = w2" and "w2 = w1"
        using assms True run Inr cr by (auto simp: finish_login_def try_http_def elim: CreateSession_cases)
      then show thesis using w1 refused by simp
    next
      case (Inr v)
      have "GetRedirectAfterLogin w2 = GetRedirectAfterLogin w"
        using cr w1 Inr by (auto simp: GetRedirectAfterLogin_def elim!: CreateSession_cases)
      then have "w' = w2" and "r = Redirect (if GetRedirectAfterLogin w = [] then ''/'' else GetRedirectAfterLogin w) 302"
        using assms True run \<open>y = Inr x\<close> cr Inr by (auto simp: finish_login_def try_http_def Let_def)
      with True run \<open>y = Inr x\<close> w1 cr Inr show thesis by (intro logged_in) auto
    qed
  qed
qed

lemma UpsertUser_no_faults:
  assumes "distinct gs" and nf: "faults w = []"
    and "find_user iss sub (db w) = None \<or> (\<exists>r. find_user iss sub (db w) = Some r \<and> ur_created_at r \<noteq> None)"
  shows "\<exists>u w'. UpsertUser sub iss un dn em gs w = (Inr u, w')"
proof -
  let ?d = "put_user iss sub un dn em (now w) (db w)"
  let ?e = "put_groups iss sub gs ?d"
  obtain r where r: "find_user iss sub ?d = Some r" "ur_last_logged_in r \<noteq> None" "ur_created_at r \<noteq> None"
    using assms(3) by (cases "find_user iss sub (db w)") (auto simp: find_put_user)
  have key: "ur_iss r = iss" "ur_sub r = sub"
    using r(1) by (auto simp: find_user_def is_user_def dest!: find_SomeD)
  have ins: "sql_insert_groups iss sub gs (now w) (put_groups iss sub [] ?d) = (Inr (length gs), ?e)"
    using assms(1) r(1) by (auto simp: sql_insert_groups_def user_groups_put) (simp add: put_groups_def no_groups_left)
  have "gs = [] \<Longrightarrow> ?e = put_groups iss sub [] ?d" by simp
  with nf ins have tx: "upsert_tx sub iss un dn em gs w = (Inr (), w\<lparr>db := ?e\<rparr>)"
    by (auto simp: upsert_tx_def with_tx_def db_query_eq try_db_def roundtrip_def ok_def sql_upsert_user_eq
        sql_delete_groups_eq)
  have "GetUserByID iss sub (w\<lparr>db := ?e\<rparr>) = (Inr \<lparr>usr_sub = sub, usr_iss = iss, usr_username = ur_username r,
      usr_display_name = ur_display_name r, usr_email = ur_email r, usr_groups = user_groups iss sub ?e,
      usr_is_system = ur_is_system r, usr_last_logged_in = the (ur_last_logged_in r),
      usr_created_at = the (ur_created_at r)\<rparr>, w\<lparr>db := ?e\<rparr>)"
    using nf r key by (auto simp: GetUserByID_def try_db_def db_query_row_eq db_query_eq ok_def)
  with tx show ?thesis by (simp add: UpsertUser_def try_db_def)
qed

text \<open>The whole callback: either it logs the user in, or the session keeps its user.\<close>

lemma callback_cases:
  assumes "GETCallbackHandler cfg op q p w = (r, w')"
  obtains (refused) "sn_user (sess w') = sn_user (sess w)" and "sn_authenticated (sess w') = sn_authenticated (sess w)"
  | (logged_in) it u w1 x w2 d fs where "HandleCallback op q w = (Inr (it, u), w1)" and "storage_enabled cfg"
      and "UpsertUser (usr_sub u) (usr_iss u) (usr_username u) (usr_display_name u) (usr_email u) (usr_groups u) w1 = (Inr x, w2)"
      and "w2 = w1\<lparr>db := d, faults := fs\<rparr>" and "CreateSessionWithTokenExpiry (it_expiry it) x w2 = (Inr (), w')"
      and "r = Redirect (if GetRedirectAfterLogin w = [] then ''/'' else GetRedirectAfterLogin w) 302"
proof (cases "Query_Get q ''error'' = []")
  case False
  then show thesis using assms refused by (simp add: GETCallbackHandler_def)
next
  case True
  obtain y w1 where run: "HandleCallback op q w = (y, w1)" by fastforce
  note frame = HandleCallback_frame(3,4) [OF run]
  show thesis
  proof (cases y)
    case (Inl e)
    then have "w' = w1" using assms True run by (cases e) (simp add: GETCallbackHandler_def)
    then show thesis using frame refused by simp
  next
    case (Inr z)
    obtain it u where z: "z = (it, u)" by fastforce
    have fin: "finish_login cfg it u w1 = (r, w')" using assms True run Inr z by (simp add: GETCallbackHandler_def)
    have redirect: "GetRedirectAfterLogin w1 = GetRedirectAfterLogin w"
      using run Inr z by (auto simp: consumed_def GetRedirectAfterLogin_def elim!: HandleCallback_success)
    from fin show thesis
    proof (cases rule: finish_login_cases)
      case (refused d fs)
      then show thesis using frame \<open>sn_user (sess w') = sn_user (sess w) \<Longrightarrow> _ \<Longrightarrow> thesis\<close> by simp
    next
      case (logged_in x w2 d fs)
      then show thesis using run Inr z redirect that(2) by metis
    qed
  qed
qed

section \<open>Properties\<close>

text \<open>
  C7: only a verified login changes who the session is. If the callback changes the user of the session,
  then the query carried the state the session had stored, the code was exchanged with the session's own
  code verifier, the ID token was verified, carried the session's nonce and has not expired, and the new
  user of the session has exactly the issuer and subject of that token.
\<close>

theorem callback_logs_in_only_verified:
  assumes "GETCallbackHandler cfg op q p w = (r, w')"
    and "sn_user (sess w') \<noteq> sn_user (sess w) \<or> sn_authenticated (sess w') \<noteq> sn_authenticated (sess w)"
  shows "GetOauthState w \<noteq> [] \<and> Query_Get q ''state'' = GetOauthState w \<and>
    (\<exists>token raw it c u. op_exchange op (Query_Get q ''code'') (GetOauthCodeVerifier w) = Inr token \<and>
       op_id_token op token = Some raw \<and> op_verify op raw = Inr it \<and> it_claims it = Inr c \<and>
       cl_nonce c = GetOauthNonce w \<and> now w < it_expiry it \<and>
       sn_user (sess w') = Some u \<and> usr_iss u = cl_iss c \<and> usr_sub u = cl_sub c \<and>
       find_user (cl_iss c) (cl_sub c) (db w') \<noteq> None)"
  using assms(1)
proof (cases rule: callback_cases)
  case refused
  with assms(2) show ?thesis by simp
next
  case (logged_in it u w1 x w2 d fs)
  obtain v where v: "GetUserByID (usr_iss u) (usr_sub u) v = (Inr x, w2)"
    using logged_in(3) by (rule UpsertUser_success)
  then have x: "usr_iss x = usr_iss u" "usr_sub x = usr_sub u" "find_user (usr_iss u) (usr_sub u) (db w2) \<noteq> None"
    by (auto elim: GetUserByID_success)
  have w': "now w2 < it_expiry it" "sn_user (sess w') = Some x" "db w' = db w2"
    using logged_in(5) by (auto elim: CreateSession_cases)
  from logged_in(1) show ?thesis
  proof (rule HandleCallback_success)
    fix token raw c
    assume a: "GetOauthState w \<noteq> []" "Query_Get q ''state'' = GetOauthState w"
      "op_exchange op (Query_Get q ''code'') (GetOauthCodeVerifier w) = Inr token"
      "op_id_token op token = Some raw" "op_verify op raw = Inr it" "it_claims it = Inr c"
      "cl_nonce c = GetOauthNonce w" "usr_sub u = cl_sub c" "usr_iss u = cl_iss c" "now w1 = now w"
    moreover have "now w < it_expiry it" using w'(1) logged_in(4) a(10) by simp
    ultimately show ?thesis using x w' by auto
  qed
qed


lemma redirect_target_slash: "\<exists>r. redirect_target url_local rd referer = CHR ''/'' # r"
  by (auto simp: redirect_target_def Let_def strings_HasPrefix_def prefix_def)

lemma EncodeToString_not_Nil: "bs \<noteq> [] \<Longrightarrow> EncodeToString bs \<noteq> []"
  by (cases bs rule: EncodeToString.cases) auto

lemma GetUser_created:
  "CreateSessionWithTokenExpiry e u w = (Inr x, w') \<Longrightarrow> GetUser w' = Some u \<and> IsAuthenticated w'"
  by (auto simp: GetUser_def IsAuthenticated_def elim!: CreateSession_cases)

lemma finish_started_login:
  assumes "\<not> IsAuthenticated w" and "GETLoginHandler op url_local sb nb vb q referer p w = (r1, w1)"
    and "sess v = sess w1" and "faults v = []" and "storage_enabled cfg" and "sb \<noteq> []"
    and "Query_Get q2 ''error'' = []" and "Query_Get q2 ''state'' = GenerateRandString sb" and "Query_Get q2 ''code'' \<noteq> []"
    and "op_exchange op (Query_Get q2 ''code'') (EncodeToString vb) = Inr token" and "op_id_token op token = Some raw"
    and "op_verify op raw = Inr it" and "now v < it_expiry it"
    and "extractUserClaimsFromToken it = Inr (u0, GenerateRandString nb)"
    and "u = (case fetchUserInfo op token u0 of Inl e \<Rightarrow> u0 | Inr e \<Rightarrow> e)" and "distinct (usr_groups u)"
    and "find_user (usr_iss u) (usr_sub u) (db v) = None \<or>
         (\<exists>row. find_user (usr_iss u) (usr_sub u) (db v) = Some row \<and> ur_created_at row \<noteq> None)"
  shows "\<exists>x v'. GETCallbackHandler cfg op q2 p2 v = (Redirect (redirect_target url_local (Query_Get q ''rd'') referer) 302, v') \<and>
           GetUser v' = Some x \<and> IsAuthenticated v' \<and> usr_iss x = usr_iss u \<and> usr_sub x = usr_sub u"
proof -
  have stored: "sn_oauth_state (sess v) = GenerateRandString sb" "sn_oauth_nonce (sess v) = GenerateRandString nb"
    "sn_code_verifier (sess v) = EncodeToString vb"
    "sn_redirect_after_login (sess v) = redirect_target url_local (Query_Get q ''rd'') referer"
    using assms(1,2,3) by (auto simp: GETLoginHandler_def StartLogin_def GenerateCodeVerifier_def Let_def session_defs)
  have ne: "GenerateRandString sb \<noteq> []"
    using EncodeToString_not_Nil [OF assms(6)] by (simp add: GenerateRandString_def Let_def)
  let ?v1 = "ClearOauthNonce (ClearOauthCodeVerifier (ClearOauthState v))"
  have v1: "db ?v1 = db v" "faults ?v1 = faults v" "now ?v1 = now v" "GetRedirectAfterLogin ?v1 = GetRedirectAfterLogin v"
    by (simp_all add: session_defs)
  have hc: "HandleCallback op q2 v = (Inr (it, u), ?v1)"
    using assms(7-12,14,15) stored ne
    by (simp add: HandleCallback_def check_id_token_def Let_def GetOauthState_def GetOauthNonce_def
        GetOauthCodeVerifier_def ClearOauthState_def ClearOauthCodeVerifier_def)
  obtain x w2 where up: "UpsertUser (usr_sub u) (usr_iss u) (usr_username u) (usr_display_name u) (usr_email u) (usr_groups u) ?v1 = (Inr x, w2)"
    using UpsertUser_no_faults [of "usr_groups u" ?v1] assms(4,16,17) v1 by metis
  obtain d fs where w2: "w2 = ?v1\<lparr>db := d, faults := fs\<rparr>" using up by (rule framedE [OF framed_UpsertUser])
  obtain w3 where cr: "CreateSessionWithTokenExpiry (it_expiry it) x w2 = (Inr (), w3)"
    using assms(13) v1 w2 by (auto simp: CreateSessionWithTokenExpiry_def)
  have x: "usr_iss x = usr_iss u" "usr_sub x = usr_sub u"
    using up by (auto elim!: UpsertUser_success GetUserByID_success)
  have "GetRedirectAfterLogin w3 = redirect_target url_local (Query_Get q ''rd'') referer"
    using cr w2 v1(4) stored(4) by (auto simp: GetRedirectAfterLogin_def elim!: CreateSession_cases)
  moreover obtain r where "redirect_target url_local (Query_Get q ''rd'') referer = CHR ''/'' # r"
    using redirect_target_slash by blast
  ultimately have "GETCallbackHandler cfg op q2 p2 v = (Redirect (redirect_target url_local (Query_Get q ''rd'') referer) 302, w3)"
    using assms(5,7) hc up cr by (simp add: GETCallbackHandler_def finish_login_def try_http_def Let_def)
  then show ?thesis using GetUser_created [OF cr] x by blast
qed

text \<open>A provider that accepts every code, and the world after a login was started, for the witnesses.\<close>

definition example_claims :: token_claims where
  "example_claims =
     \<lparr>cl_sub = ''alice'', cl_iss = ''idp'', cl_preferred_username = ''alice'', cl_name = ''Alice'',
      cl_email = ''alice@example.com'', cl_groups = [''users''], cl_nonce = GenerateRandString [2]\<rparr>"

definition example_provider :: "string oidc_provider" where
  "example_provider =
     \<lparr>op_auth_code_url = (\<lambda>s n c. ''https://idp/auth''), op_sha256 = (\<lambda>s. replicate 32 0),
      op_exchange = (\<lambda>code v. Inr code), op_id_token = (\<lambda>t. Some t),
      op_verify = (\<lambda>raw. Inr \<lparr>it_expiry = 3600 * second, it_claims = Inr example_claims\<rparr>),
      op_user_info = (\<lambda>t. Inl (Errorf ''no user info''))\<rparr>"

definition started_ctx :: appctx where
  "started_ctx = snd (GETLoginHandler example_provider (\<lambda>s. True) [1] [2] [3] [(''rd'', ''/certs'')] [] None example_ctx)"

definition example_query :: query where
  "example_query = [(''state'', GenerateRandString [1]), (''code'', ''c'')]"

lemma started_ctx_sel: "\<not> IsAuthenticated example_ctx" "db started_ctx = empty_database" "now started_ctx = 5"
  "faults started_ctx = []" "GetUser started_ctx = None" "GetOauthState started_ctx = GenerateRandString [1]"
  by (simp_all add: started_ctx_def GETLoginHandler_def StartLogin_def GenerateCodeVerifier_def Let_def session_defs
      example_ctx_def empty_session_def)

definition example_id_token :: id_token where
  "example_id_token = \<lparr>it_expiry = 3600 * second, it_claims = Inr example_claims\<rparr>"

lemma example_flow:
  "storage_enabled example_config" "[1::nat] \<noteq> []"
  "Query_Get example_query ''error'' = []" "Query_Get example_query ''state'' = GenerateRandString [1]"
  "Query_Get example_query ''code'' \<noteq> []"
  "op_exchange example_provider (Query_Get example_query ''code'') (EncodeToString [3]) = Inr ''c''"
  "op_id_token example_provider ''c'' = Some ''c''" "op_verify example_provider ''c'' = Inr example_id_token"
  "now started_ctx < it_expiry example_id_token"
  "extractUserClaimsFromToken example_id_token = Inr (example_user\<lparr>usr_groups := [''users'']\<rparr>, GenerateRandString [2])"
  "example_user\<lparr>usr_groups := [''users'']\<rparr> =
     (case fetchUserInfo example_provider ''c'' (example_user\<lparr>usr_groups := [''users'']\<rparr>) of
        Inl e \<Rightarrow> example_user\<lparr>usr_groups := [''users'']\<rparr> | Inr e \<Rightarrow> e)"
  "distinct (usr_groups (example_user\<lparr>usr_groups := [''users'']\<rparr>))"
  "find_user (usr_iss (example_user\<lparr>usr_groups := [''users'']\<rparr>)) (usr_sub (example_user\<lparr>usr_groups := [''users'']\<rparr>)) (db started_ctx) = None \<or>
     (\<exists>row. find_user (usr_iss (example_user\<lparr>usr_groups := [''users'']\<rparr>)) (usr_sub (example_user\<lparr>usr_groups := [''users'']\<rparr>)) (db started_ctx) = Some row \<and>
        ur_created_at row \<noteq> None)"
  by (simp_all add: storage_enabled_def example_config_def example_query_def Query_Get_def example_provider_def
      example_id_token_def started_ctx_sel extractUserClaimsFromToken_def example_claims_def example_user_def
      fetchUserInfo_def find_user_def empty_database_def)

lemma example_login:
  "\<exists>x v'. GETCallbackHandler example_config example_provider example_query None started_ctx = (Redirect ''/certs'' 302 :: unit response, v') \<and>
     GetUser v' = Some x \<and> IsAuthenticated v' \<and> usr_sub x = ''alice''"
proof -
  obtain r1 where run: "GETLoginHandler example_provider (\<lambda>s. True) [1] [2] [3] [(''rd'', ''/certs'')] [] None example_ctx = (r1, started_ctx)"
    unfolding started_ctx_def by (metis prod.collapse)
  have "\<not> sublist ''/error'' ''/certs''" by (simp add: sublist_code)
  then have target: "redirect_target (\<lambda>s. True) (Query_Get [(''rd'', ''/certs'')] ''rd'') [] = ''/certs''"
    by (simp add: redirect_target_def Query_Get_def strings_HasPrefix_def strings_Contains_def)
  show ?thesis
    using finish_started_login [OF started_ctx_sel(1) run HOL.refl started_ctx_sel(4) example_flow, of None] target
    by (auto simp: example_user_def)
qed

text \<open>
  C22: a login that is started can be finished. After \<open>GETLoginHandler\<close>, a callback with the state it
  stored, a code the provider exchanges for the stored verifier, and a verified, unexpired token with the
  stored nonce ends with the user of the token logged in, with the groups of the token, and redirects to
  the target the login was started with; unless the database fails, for any user whose groups are distinct.
\<close>

theorem login_round_trip:
  assumes "\<not> IsAuthenticated w" and "GETLoginHandler op url_local sb nb vb q referer p w = (r1, w1)"
    and "sess v = sess w1" and "faults v = []" and "storage_enabled cfg" and "sb \<noteq> []"
    and "Query_Get q2 ''error'' = []" and "Query_Get q2 ''state'' = GenerateRandString sb" and "Query_Get q2 ''code'' \<noteq> []"
    and "op_exchange op (Query_Get q2 ''code'') (EncodeToString vb) = Inr token" and "op_id_token op token = Some raw"
    and "op_verify op raw = Inr it" and "now v < it_expiry it"
    and "extractUserClaimsFromToken it = Inr (u0, GenerateRandString nb)"
    and "u = (case fetchUserInfo op token u0 of Inl e \<Rightarrow> u0 | Inr e \<Rightarrow> e)" and "distinct (usr_groups u)"
    and "find_user (usr_iss u) (usr_sub u) (db v) = None \<or>
         (\<exists>row. find_user (usr_iss u) (usr_sub u) (db v) = Some row \<and> ur_created_at row \<noteq> None)"
  shows "\<exists>x v'. GETCallbackHandler cfg op q2 p2 v = (Redirect (redirect_target url_local (Query_Get q ''rd'') referer) 302, v') \<and>
           GetUser v' = Some x \<and> IsAuthenticated v' \<and> usr_iss x = usr_iss u \<and> usr_sub x = usr_sub u"
  using finish_started_login [OF assms] .

theorem login_round_trip_witness:
  "\<exists>x v'. GETCallbackHandler example_config example_provider example_query None started_ctx =
      (Redirect (redirect_target (\<lambda>s. True) (Query_Get [(''rd'', ''/certs'')] ''rd'') []) 302, v') \<and> usr_sub x = ''alice'' \<and> GetUser v' = Some x"
proof -
  obtain r1 where run: "GETLoginHandler example_provider (\<lambda>s. True) [1] [2] [3] [(''rd'', ''/certs'')] [] None example_ctx = (r1, started_ctx)"
    unfolding started_ctx_def by (metis prod.collapse)
  show ?thesis
    using login_round_trip [OF started_ctx_sel(1) run HOL.refl started_ctx_sel(4) example_flow, of None]
    by (auto simp: example_user_def)
qed

text \<open>
  A login only ever redirects within the site: the stored target starts with a slash, is not the error
  page, and is the requested one only when \<open>url.Parse\<close> found no scheme and no host in it.
\<close>

theorem login_redirect_is_local:
  shows "hd (redirect_target url_local rd referer) = CHR ''/'' \<and>
     \<not> strings_Contains (redirect_target url_local rd referer) ''/error'' \<and>
     (redirect_target url_local rd referer = ''/'' \<or>
      (\<exists>t \<in> {rd, referer}. url_local t \<and> redirect_target url_local rd referer \<in> {t, ''/'' @ t}))"
proof -
  have root: "\<not> sublist ''/error'' ''/''" "strings_HasPrefix ''/'' ''/''"
    by (auto simp: strings_HasPrefix_def dest: sublist_length_le)
  obtain r where "redirect_target url_local rd referer = CHR ''/'' # r" using redirect_target_slash by blast
  moreover have "\<not> strings_Contains (redirect_target url_local rd referer) ''/error''"
    using root by (simp add: redirect_target_def Let_def strings_Contains_def)
  moreover have "redirect_target url_local rd referer = ''/'' \<or>
      (\<exists>t \<in> {rd, referer}. url_local t \<and> redirect_target url_local rd referer \<in> {t, ''/'' @ t})"
    using root by (simp add: redirect_target_def Let_def split: if_splits)
  ultimately show ?thesis by simp
qed

text \<open>
  An expired token locks the user out of logging in again while the session lives. Once the token of a
  session has expired, the status handler answers 401 and logout answers 400, but the login handler still
  takes the user for authenticated and starts no login, and the API routes still serve the expired user.
\<close>

theorem expired_session_cannot_log_in_again:
  assumes "CreateSessionWithTokenExpiry e u w0 = (Inr (), w)" and "Unix e \<noteq> 0" and "sess v = sess w"
    and "Unix e \<le> Unix (now v)" and "cfg_storage cfg = Some st"
  shows "status_code (fst (GETAuthStatusHandler cfg p v)) = Some 401 \<and>
         POSTLogoutHandler store_error p v = (http_error 400, v) \<and>
         GETLoginHandler op url_local sb nb vb q referer p v = (JSONStatus 200 ''ok'', v) \<and>
         caller_of cfg ar [] v = Caller (PUser u)"
proof -
  have s: "sn_user (sess v) = Some u" "sn_authenticated (sess v)" "sn_expires_at (sess v) = Unix e"
    using assms(1,3) by (auto elim!: CreateSession_cases)
  have "\<not> now v < Unix e * second" using assms(4) by (simp add: unix_before)
  with s assms(2) have "\<not> IsUserAuthenticated v"
    by (auto simp: IsUserAuthenticated_def IsAuthenticated_def GetExpiresAt_def unix_time_def)
  then show ?thesis using s assms(5)
    by (simp add: GETAuthStatusHandler_def POSTLogoutHandler_def GETLoginHandler_def IsAuthenticated_def
        caller_of_def ExtractAuthorizationHeader_def GetUser_def)
qed

text \<open>
  Without storage nobody can log in. With the storage disabled the callback of a login that passes
  every check ends in a panic, because \<open>ctx.Storage\<close> is nil, and the session is not authenticated.
\<close>

theorem login_needs_storage:
  assumes "\<not> storage_enabled cfg" and "Query_Get q ''error'' = []" and "HandleCallback op q w = (Inr (it, u), w1)"
  shows "GETCallbackHandler cfg op q p w = (Panicked nil_dereference, w1) \<and> sn_user (sess w1) = sn_user (sess w)"
  using assms HandleCallback_frame(3) [OF assms(3)] by (simp add: GETCallbackHandler_def finish_login_def)

theorem login_needs_storage_witness:
  "\<exists>w1. GETCallbackHandler (example_config\<lparr>cfg_storage := None\<rparr>) example_provider example_query None started_ctx =
     (Panicked nil_dereference, w1)"
proof -
  obtain x v' where "GETCallbackHandler example_config example_provider example_query None started_ctx = (Redirect ''/certs'' 302 :: unit response, v')"
    "GetUser v' = Some x"
    using example_login by blast
  then have "sn_user (sess v') \<noteq> sn_user (sess started_ctx)" using started_ctx_sel(5) by (simp add: GetUser_def)
  moreover from \<open>GETCallbackHandler example_config _ _ _ _ = _\<close>
  obtain it u w1 where "HandleCallback example_provider example_query started_ctx = (Inr (it, u), w1)"
    by (rule callback_cases) (use calculation in auto)
  moreover have "\<not> storage_enabled (example_config\<lparr>cfg_storage := None\<rparr>)" "Query_Get example_query ''error'' = []"
    by (simp_all add: storage_enabled_def example_query_def Query_Get_def)
  ultimately show ?thesis using login_needs_storage by blast
qed

theorem expired_session_cannot_log_in_again_witness:
  "let v = logged_in_ctx\<lparr>now := 7200 * second\<rparr>
   in status_code (fst (GETAuthStatusHandler example_config None v)) = Some 401 \<and>
      fst (GETLoginHandler example_provider (\<lambda>s. True) [1] [2] [3] [] [] None v) = JSONStatus 200 ''ok''"
proof -
  obtain r w where run: "CreateSessionWithTokenExpiry (3600 * second) example_user example_ctx = (r, w)" by fastforce
  then have "r = Inr ()" by (auto simp: CreateSessionWithTokenExpiry_def example_ctx_def)
  with run have run: "CreateSessionWithTokenExpiry (3600 * second) example_user example_ctx = (Inr (), w)" and w: "w = logged_in_ctx"
    by (simp_all add: logged_in_ctx_def)
  have a: "sess (logged_in_ctx\<lparr>now := 7200 * second\<rparr>) = sess w" "Unix (3600 * second) \<noteq> 0"
    "Unix (3600 * second) \<le> Unix (now (logged_in_ctx\<lparr>now := 7200 * second\<rparr>))"
    using w by (simp_all add: Unix_def)
  obtain st where "cfg_storage example_config = Some st" by (simp add: example_config_def)
  from expired_session_cannot_log_in_again [OF run a(2) a(1) a(3) this, where p = None and op = example_provider
      and url_local = "\<lambda>s. True" and sb = "[1]" and nb = "[2]" and vb = "[3]" and q = "[]" and referer = "[]"]
  show ?thesis unfolding Let_def by (metis fst_conv)
qed

theorem callback_logs_in_only_verified_witness:
  "\<exists>r w'. GETCallbackHandler example_config example_provider example_query None started_ctx = (r :: unit response, w') \<and>
     (\<exists>u. GetUser w' = Some u \<and> usr_sub u = ''alice'') \<and> Query_Get example_query ''state'' = GetOauthState started_ctx"
proof -
  obtain x v' where run: "GETCallbackHandler example_config example_provider example_query None started_ctx = (Redirect ''/certs'' 302 :: unit response, v')"
    and x: "GetUser v' = Some x" "usr_sub x = ''alice''"
    using example_login by blast
  then have "sn_user (sess v') \<noteq> sn_user (sess started_ctx)" using started_ctx_sel(5) by (simp add: GetUser_def)
  with callback_logs_in_only_verified [OF run] have "Query_Get example_query ''state'' = GetOauthState started_ctx" by blast
  with run x show ?thesis by blast
qed


end
