(* ===== verification/SA_Handlers.thy ===== *)
theory SA_Handlers
  imports Oidc_Login
begin

text \<open>
  The service account handlers of \<open>internal/handlers/handler_service_accounts.go\<close>. What a request draws
  from outside is collected in \<open>sa_env\<close>: the Argon2 package, the random bytes, the random UUID, and
  \<open>time.Parse\<close> for RFC 3339.
\<close>

section \<open>Bodies\<close>

record sa_body =
  sb_name :: string
  sb_token_expires_at :: string
  sb_scopes :: "scope list"

record sa_json =
  sj_sub :: string
  sj_iss :: string
  sj_name :: string
  sj_token :: string
  sj_expires_at :: time
  sj_is_disabled :: bool
  sj_deleted_at :: "time option"
  sj_scopes :: "scope list"
  sj_created_by_iss :: string
  sj_created_by_sub :: string
  sj_created_at :: time

record scope_info =
  si_scope :: scope
  si_disabled :: bool
  si_reason :: "string option"

datatype sa_payload = OneAccount sa_json | Accounts "sa_json list" | Message string | ScopeInfos "scope_info list"

record sa_env =
  env_argon :: argon
  env_rfc3339 :: "string \<Rightarrow> time result"
  env_secret :: "nat list"
  env_lookup :: "nat list"
  env_uuid :: string

definition account_json :: "string \<Rightarrow> service_account \<Rightarrow> sa_json" where
  "account_json token a =
     \<lparr>sj_sub = sa_sub a, sj_iss = sa_iss a, sj_name = sa_name a, sj_token = token,
      sj_expires_at = sa_token_expires_at a, sj_is_disabled = sa_is_disabled a, sj_deleted_at = sa_deleted_at a,
      sj_scopes = sa_scopes a, sj_created_by_iss = sa_created_by_iss a, sj_created_by_sub = sa_created_by_sub a,
      sj_created_at = sa_created_at a\<rparr>"

section \<open>Creating\<close>

definition new_account :: "config \<Rightarrow> sa_env \<Rightarrow> user \<Rightarrow> sa_body \<Rightarrow> time \<Rightarrow> string \<Rightarrow> string \<Rightarrow> time \<Rightarrow> service_account" where
  "new_account cfg env u b expiry lookupId hashed t =
     \<lparr>sa_sub = env_uuid env, sa_iss = srv_external_url (cfg_server cfg), sa_name = sb_name b, sa_lookup_id = lookupId,
      sa_secret_hash = hashed, sa_token_expires_at = expiry, sa_scopes = sb_scopes b, sa_is_disabled = False,
      sa_deleted_at = None, sa_created_by_sub = usr_sub u, sa_created_by_iss = usr_iss u, sa_created_at = t\<rparr>"

definition create_account :: "config \<Rightarrow> sa_env \<Rightarrow> user \<Rightarrow> sa_body \<Rightarrow> time \<Rightarrow> ('w, sa_payload) handler" where
  "create_account cfg env u b expiry w =
     (case GenerateAPIToken (env_argon env) (env_secret env) (env_lookup env) of
        Inl e \<Rightarrow> (http_error 500, w)
      | Inr (token, lookupId, hashed) \<Rightarrow>
          try_http (CreateServiceAccount (new_account cfg env u b expiry lookupId hashed (now w))) (\<lambda>e. http_error 500)
            (\<lambda>a. reply (JSON 201 (OneAccount (account_json token a)))) w)"

definition POSTServiceAccount :: "config \<Rightarrow> sa_env \<Rightarrow> sa_body result \<Rightarrow> ('w, sa_payload) app_handler" where
  "POSTServiceAccount cfg env body p w =
     (case p of
        Some (PUser u) \<Rightarrow>
          (case body of
             Inl e \<Rightarrow> (http_error 400, w)
           | Inr b \<Rightarrow>
               if strings_TrimSpace (sb_name b) = [] then (JSONError 400 ''Service account name is required'', w)
               else if length (sb_name b) > 255 then (JSONError 400 ''Service account name too long (max 255 characters)'', w)
               else if sb_scopes b = [] then (JSONError 400 ''At least one scope is required'', w)
               else (case env_rfc3339 env (sb_token_expires_at b) of
                   Inl e \<Rightarrow> (http_error 400, w)
                 | Inr expiry \<Rightarrow>
                     if expiry < now w then (JSONError 400 ''Token expiry time must be in the future'', w)
                     else if \<not> HasAllScopes (user_GetScopes cfg u) (sb_scopes b)
                       then (JSONError 403 (''Cannot grant scopes you don'' @ [CHR 0x27] @ ''t have''), w)
                     else create_account cfg env u b expiry w))
      | _ \<Rightarrow> (http_error 401, w))"

section \<open>Reading\<close>

text \<open>An unchecked type assertion panics when the principal is not a user.\<close>

definition not_a_user :: goerror where
  "not_a_user = Panic ''interface conversion''"

definition GETServiceAccounts :: "config \<Rightarrow> ('w, sa_payload) app_handler" where
  "GETServiceAccounts cfg p w =
     (case p of
        Some (PUser u) \<Rightarrow>
          try_http (GetServiceAccountsByCreator (usr_iss u) (usr_sub u)) (\<lambda>e. http_error 500)
            (\<lambda>accounts. reply (JSON 200 (Accounts (map (account_json []) accounts)))) w
      | _ \<Rightarrow> (Panicked not_a_user, w))"

definition GETServiceAccountWhoami :: "config \<Rightarrow> ('w, sa_payload) app_handler" where
  "GETServiceAccountWhoami cfg p w =
     (case p of
        Some (PServiceAccount a) \<Rightarrow> (JSON 200 (OneAccount (account_json [] a)), w)
      | _ \<Rightarrow> (http_error 401, w))"

definition scope_info_of :: "scope \<Rightarrow> scope_info" where
  "scope_info_of s =
     (if length s \<ge> 9 \<and> take 9 s = ''firewall:''
      then \<lparr>si_scope = s, si_disabled = True,
            si_reason = Some (''Firewall management doesn'' @ [CHR 0x27] @ ''t currently support service accounts'')\<rparr>
      else \<lparr>si_scope = s, si_disabled = False, si_reason = None\<rparr>)"

definition GETUserScopes :: "config \<Rightarrow> ('w, sa_payload) app_handler" where
  "GETUserScopes cfg p w =
     (case p of
        Some (PUser u) \<Rightarrow> (JSON 200 (ScopeInfos (map scope_info_of (user_GetScopes cfg u))), w)
      | _ \<Rightarrow> (http_error 401, w))"

section \<open>Managing\<close>

text \<open>
  Deleting, pausing and unpausing check the same things in the same order; \<open>verb\<close> and \<open>gone\<close> are
  what the texts of the answers differ in.
\<close>

definition manage_account ::
  "(string \<Rightarrow> string \<Rightarrow> 'w appctx_scheme \<Rightarrow> unit result \<times> 'w appctx_scheme) \<Rightarrow> string \<Rightarrow> string \<Rightarrow> string \<Rightarrow> query \<Rightarrow> user \<Rightarrow> ('w, sa_payload) handler" where
  "manage_account op verb gone done q u w =
     (let targetIss = Query_Get q ''iss''; targetSub = Query_Get q ''sub'' in
      if targetIss = [] \<or> targetSub = [] then (JSONError 400 ''Missing iss or sub query parameters'', w)
      else try_http (GetServiceAccountByID targetIss targetSub) (\<lambda>e. JSONError 404 ''Service account not found'')
        (\<lambda>a. if sa_created_by_iss a \<noteq> usr_iss u \<or> sa_created_by_sub a \<noteq> usr_sub u
              then reply (JSONError 403 (''You can only '' @ verb @ '' service accounts you created''))
              else if sa_deleted_at a \<noteq> None then reply (JSONError 410 gone)
              else try_http (op targetIss targetSub) (\<lambda>e. http_error 500) (\<lambda>_. reply (JSON 200 (Message done)))) w)"

definition DELETEServiceAccount :: "config \<Rightarrow> query \<Rightarrow> ('w, sa_payload) app_handler" where
  "DELETEServiceAccount cfg q p w =
     (case p of
        Some (PUser u) \<Rightarrow>
          manage_account DeleteServiceAccount ''delete'' ''Service account already deleted'' ''Service account deleted'' q u w
      | _ \<Rightarrow> (Panicked not_a_user, w))"

definition PATCHServiceAccountPause :: "config \<Rightarrow> query \<Rightarrow> ('w, sa_payload) app_handler" where
  "PATCHServiceAccountPause cfg q p w =
     (case p of
        Some (PUser u) \<Rightarrow>
          manage_account PauseServiceAccount ''pause'' ''Cannot pause a deleted service account'' ''Service account paused'' q u w
      | _ \<Rightarrow> (http_error 401, w))"

definition PATCHServiceAccountUnpause :: "config \<Rightarrow> query \<Rightarrow> ('w, sa_payload) app_handler" where
  "PATCHServiceAccountUnpause cfg q p w =
     (case p of
        Some (PUser u) \<Rightarrow>
          manage_account UnpauseServiceAccount ''unpause'' ''Cannot unpause a deleted service account'' ''Service account unpaused'' q u w
      | _ \<Rightarrow> (http_error 401, w))"

section \<open>Every scope belongs to an account\<close>

definition scopes_owned :: "database \<Rightarrow> bool" where
  "scopes_owned d \<longleftrightarrow> (\<forall>c \<in> set (t_sa_scopes d). (sc_iss c, sc_sub c) \<in> sa_row_key ` set (t_service_accounts d))"

lemma scopes_owned_update:
  assumes "scopes_owned d" and "sql_update_sa iss sub f t d = (r, d')" and "\<And>s. sa_row_key (f t s) = sa_row_key s"
  shows "scopes_owned d'"
  using assms by (auto simp: scopes_owned_def sql_update_sa_def image_upd_where)

interpretation scopes_stable: sa_stable scopes_owned
proof unfold_locales
  show "scopes_owned d'" if "scopes_owned d" "sql_insert_sa a t d = (q, d')" for d a t q d'
    using that by (auto simp: scopes_owned_def sql_insert_sa_def split: if_splits)
  show "scopes_owned d'" if "scopes_owned d" "sql_insert_sa_scope iss sub s t d = (q, d')" for d iss sub s t q d'
    using that by (auto simp: scopes_owned_def sql_insert_sa_scope_def find_sa_None split: if_splits)
  show "scopes_owned d'" if "scopes_owned d" "sql_update_sa iss sub (\<lambda>t s. s\<lparr>sr_is_disabled := b\<rparr>) t d = (q, d')" for d iss sub b t q d'
    using that by (rule scopes_owned_update) (simp add: sa_row_key_def)
  show "scopes_owned d'" if "scopes_owned d"
    "sql_update_sa iss sub (\<lambda>t s. s\<lparr>sr_deleted_at := Some t, sr_is_disabled := True\<rparr>) t d = (q, d')" for d iss sub t q d'
    using that by (rule scopes_owned_update) (simp add: sa_row_key_def)
qed (simp_all add: scopes_owned_def)

lemma scopes_owned_reachable: "sa_path empty_database d \<Longrightarrow> scopes_owned d"
  by (erule scopes_stable.path_keeps) (simp add: scopes_owned_def empty_database_def)

lemma CreateServiceAccount_scopes:
  assumes "CreateServiceAccount a w = (Inr b, w')" and "scopes_owned (db w)"
  shows "sa_scope_names (sa_iss a) (sa_sub a) (db w') = sa_scopes a"
proof -
  from assms(1) obtain x w1 where tx: "create_sa_tx a w = (Inr x, w1)"
    and get: "GetServiceAccountByID (sa_iss a) (sa_sub a) w1 = (Inr b, w')"
    unfolding CreateServiceAccount_def by (elim try_db_InrE) simp
  from get have "db w' = db w1" by (rule GetServiceAccountByID_success)
  moreover have "filter (\<lambda>c. sc_iss c = sa_iss a \<and> sc_sub c = sa_sub a) (t_sa_scopes (db w)) = []"
    using assms(2) create_sa_tx_success(1) [OF tx]
    by (auto simp: filter_empty_conv scopes_owned_def find_sa_None)
  ultimately show ?thesis
    using create_sa_tx_success(4) [OF tx] by (simp add: sa_scope_names_def comp_def)
qed

section \<open>The guards of the management handlers\<close>

lemma manage_account_cases:
  assumes "manage_account op verb gone done q u w = (r, w')"
  obtains (refused) "db w' = db w" "sess w' = sess w" "status_code r \<noteq> Some 200"
  | (ran) a w1 v where "GetServiceAccountByID (Query_Get q ''iss'') (Query_Get q ''sub'') w = (Inr a, w1)"
      "sa_created_by_iss a = usr_iss u" "sa_created_by_sub a = usr_sub u" "sa_deleted_at a = None"
      "op (Query_Get q ''iss'') (Query_Get q ''sub'') w1 = (v, w')" "status_code r = Some 200 \<longleftrightarrow> is_ok v"
proof (cases "Query_Get q ''iss'' = [] \<or> Query_Get q ''sub'' = []")
  case True
  then show thesis using assms refused by (auto simp: manage_account_def Let_def)
next
  case False
  obtain y w1 where get: "GetServiceAccountByID (Query_Get q ''iss'') (Query_Get q ''sub'') w = (y, w1)" by fastforce
  then have frame: "db w1 = db w \<and> sess w1 = sess w" by (rule readsE [OF reads_sa(1)]) simp
  show thesis
  proof (cases y)
    case (Inl e)
    then show thesis using assms False get frame refused
      by (auto simp: manage_account_def Let_def try_http_def split: if_splits)
  next
    case (Inr a)
    show thesis
    proof (cases "sa_created_by_iss a = usr_iss u \<and> sa_created_by_sub a = usr_sub u \<and> sa_deleted_at a = None")
      case True
      obtain v w2 where op: "op (Query_Get q ''iss'') (Query_Get q ''sub'') w1 = (v, w2)" by fastforce
      then show thesis using assms False get Inr True
        by (intro ran [of a w1 v]) (auto simp: manage_account_def Let_def try_http_def reply_def split: sum.splits if_splits)
    next
      case not_mine: False
      then show thesis using assms False get Inr frame refused
        by (auto simp: manage_account_def Let_def try_http_def reply_def split: if_splits)
    qed
  qed
qed

text \<open>The three updates: one row, or none.\<close>

lemma upd_where_cong: "(\<And>x. x \<in> set rows \<Longrightarrow> p x = q x) \<Longrightarrow> upd_where p f rows = upd_where q f rows"
  by (auto simp: upd_where_def)

lemma live_unique:
  assumes "sa_inv d" and "find_sa iss sub d = Some s" and "sr_deleted_at s = None" and "x \<in> set (t_service_accounts d)"
  shows "live_sa iss sub x \<longleftrightarrow> sa_row_key x = sa_row_key s"
proof -
  have s: "s \<in> set (t_service_accounts d)" "sr_iss s = iss" "sr_sub s = sub"
    using assms(2) by (auto simp: find_sa_def dest: find_SomeD)
  have "x = s" if "sa_row_key x = sa_row_key s"
    using assms(1,4) s(1) that by (auto simp: sa_inv_def distinct_map dest: inj_onD)
  then show ?thesis using s assms(3) by (auto simp: live_sa_def is_sa_def sa_row_key_def)
qed

lemma count_live_le_1:
  assumes "sa_inv d"
  shows "count_where (live_sa iss sub) (t_service_accounts d) \<le> 1"
proof -
  have "distinct (map sa_row_key (filter (live_sa iss sub) (t_service_accounts d)))"
    using assms by (simp add: sa_inv_def distinct_map_filter)
  moreover have "set (map sa_row_key (filter (live_sa iss sub) (t_service_accounts d))) \<subseteq> {(iss, sub)}"
    by (auto simp: live_sa_def is_sa_def sa_row_key_def)
  ultimately have "length (map sa_row_key (filter (live_sa iss sub) (t_service_accounts d))) \<le> 1"
    by (metis card_mono distinct_card finite.emptyI finite.insertI is_singletonI is_singleton_altdef)
  then show ?thesis by (simp add: count_where_def)
qed

lemma sa_update_cases:
  fixes f :: "time \<Rightarrow> sa_row \<Rightarrow> sa_row"
  assumes "try_db (roundtrip (sql_update_sa iss sub f)) h (one_row none several) w = (v, w')" and "sa_inv (db w)"
  shows "t_sa_scopes (db w') = t_sa_scopes (db w) \<and>
     (if is_ok v then t_service_accounts (db w') = upd_where (live_sa iss sub) (f (now w)) (t_service_accounts (db w))
      else t_service_accounts (db w') = t_service_accounts (db w))"
proof -
  let ?n = "count_where (live_sa iss sub) (t_service_accounts (db w))"
  have none: "?n = 0 \<Longrightarrow> upd_where (live_sa iss sub) (f (now w)) (t_service_accounts (db w)) = t_service_accounts (db w)"
    by (rule upd_where_none) (simp add: count_where_0)
  show ?thesis
    using assms(1) none count_live_le_1 [OF assms(2), of iss sub]
    by (auto simp: try_db_def roundtrip_def sql_update_sa_def one_row_def ok_def fail_def split: option.splits if_splits)
qed

lemma sa_ops_cases:
  assumes "op \<in> {DeleteServiceAccount, PauseServiceAccount, UnpauseServiceAccount}" and "op iss sub w = (v, w')" and "sa_inv (db w)"
  shows "t_sa_scopes (db w') = t_sa_scopes (db w) \<and>
     (if is_ok v then \<exists>f. t_service_accounts (db w') = upd_where (live_sa iss sub) f (t_service_accounts (db w))
      else t_service_accounts (db w') = t_service_accounts (db w))"
proof -
  have "\<exists>f h none several. try_db (roundtrip (sql_update_sa iss sub f)) h (one_row none several) w = (v, w')"
    using assms(1,2) unfolding insert_iff empty_iff
    by (elim disjE) (auto simp: DeleteServiceAccount_def PauseServiceAccount_def UnpauseServiceAccount_def)
  then obtain f h none several where "try_db (roundtrip (sql_update_sa iss sub f)) h (one_row none several) w = (v, w')"
    by (elim exE)
  from sa_update_cases [OF this assms(3)] show ?thesis by (simp split: if_splits) blast
qed

section \<open>Properties\<close>

text \<open>
  C6: a service token never carries more than its creator had. When \<open>POSTServiceAccount\<close> answers with an
  account, the caller is a user who held every scope of it when it was created; and if Argon2 accepts what it
  hashed, then as long as the tables stay and the token has not expired, a request with the returned token
  is served as that account, which holds exactly the requested scopes.
\<close>

theorem token_grants_only_creator_scopes:
  assumes "POSTServiceAccount cfg env body p w = (JSON n (OneAccount a), w')"
    and "sa_path empty_database (db w)"
    and "bytes (env_secret env)" and "bytes (env_lookup env)" and "length (env_secret env) = 32" and "length (env_lookup env) = 16"
    and "\<And>h. argon_hash (env_argon env) (EncodeToString (env_secret env)) = Inr h \<Longrightarrow>
           argon_match (env_argon env) (EncodeToString (env_secret env)) h = Inr True"
    and "cfg_storage cfg = Some st" and "sto_enabled st"
    and "db v = db w'" and "faults v = []" and "now v \<le> sj_expires_at a"
  shows "n = 201 \<and> (\<exists>u b acc. p = Some (PUser u) \<and> body = Inr b \<and> now w \<le> sj_expires_at a \<and>
     sj_created_by_iss a = usr_iss u \<and> sj_created_by_sub a = usr_sub u \<and>
     caller_of cfg (env_argon env) (''Bearer '' @ sj_token a) v = Caller (PServiceAccount acc) \<and>
     sa_iss acc = sj_iss a \<and> sa_sub acc = sj_sub a \<and>
     (\<forall>x. HasScope cfg (PServiceAccount acc) x \<longleftrightarrow> x \<in> set (sb_scopes b)) \<and>
     (\<forall>x \<in> set (sb_scopes b). HasScope cfg (PUser u) x))"
proof -
  from assms(1) obtain u b expiry where c: "p = Some (PUser u)" "body = Inr b" "\<not> expiry < now w"
    "HasAllScopes (user_GetScopes cfg u) (sb_scopes b)" and run: "create_account cfg env u b expiry w = (JSON n (OneAccount a), w')"
    by (auto simp: POSTServiceAccount_def split: option.splits principal.splits sum.splits if_splits)
  from run obtain token l h acc where gen: "GenerateAPIToken (env_argon env) (env_secret env) (env_lookup env) = Inr (token, l, h)"
    and cr: "CreateServiceAccount (new_account cfg env u b expiry l h (now w)) w = (Inr acc, w')"
    and a: "a = account_json token acc" "n = 201"
    by (auto simp: create_account_def reply_def split: sum.splits if_splits elim!: try_http_cases)
  let ?new = "new_account cfg env u b expiry l h (now w)"
  have g: "l = EncodeToString (env_lookup env)" "argon_hash (env_argon env) (EncodeToString (env_secret env)) = Inr h"
    "token = serviceAccountTokenPrefix @ ''.'' @ l @ ''.'' @ EncodeToString (env_secret env)"
    using gen by (auto simp: GenerateAPIToken_def HashAPIToken_def Let_def split: sum.splits)
  have parse: "ParseServiceToken token = Inr (l, EncodeToString (env_secret env))"
    using ParseServiceToken_generated [OF assms(3-6)] g by simp
  note c1 = CreateServiceAccount_success [OF cr]
  have acc: "acc = (scan_sa (new_sa_row ?new (now w)))\<lparr>sa_scopes := sb_scopes b\<rparr>"
    using c1(2) CreateServiceAccount_scopes [OF cr scopes_owned_reachable [OF assms(2)]] by (simp add: new_account_def)
  then have fields: "sj_expires_at a = expiry" "sj_created_by_iss a = usr_iss u" "sj_created_by_sub a = usr_sub u"
    "sj_token a = token" "sj_iss a = sa_iss acc" "sj_sub a = sa_sub acc"
    using a by (simp_all add: account_json_def scan_sa_def new_sa_row_def new_account_def)
  have "find_lookup l (db v) = Some (new_sa_row ?new (now w))"
    using c1(1) assms(10) by (simp add: new_account_def)
  then have "fst (VerifyServiceAccount (env_argon env) token v) = Inr acc"
    using VerifyServiceAccount_no_faults [OF parse _ assms(11), of "new_sa_row ?new (now w)" "env_argon env"] assms(7) g(2)
      assms(12) fields(1) c1(2) assms(10) by (simp add: new_sa_row_def new_account_def)
  moreover have "ExtractAuthorizationHeader (''Bearer '' @ token) = Inr token"
    by (simp add: ExtractAuthorizationHeader_def strings_SplitN2_def Let_def strings_EqualFold_def g(3) serviceAccountTokenPrefix_def)
  ultimately have "caller_of cfg (env_argon env) (''Bearer '' @ sj_token a) v = Caller (PServiceAccount acc)"
    using assms(8,9) fields(4) by (simp add: caller_of_def)
  moreover have "\<forall>x. HasScope cfg (PServiceAccount acc) x \<longleftrightarrow> x \<in> set (sb_scopes b)"
    using acc by (simp add: sa_HasScope_def sa_GetScopes_def)
  moreover have "\<forall>x \<in> set (sb_scopes b). HasScope cfg (PUser u) x"
    using c(4) user_principal.all_scopes_iff by simp
  ultimately show ?thesis using a(2) c fields by (intro conjI exI) simp_all
qed

text \<open>
  C25: only the creator manages an account. A DELETE, pause or unpause request changes the account tables
  only if its caller is the user who created the account it names and that account is not deleted, and
  then no other account's row changes; a request that is not answered with 200 changes nothing.
\<close>

theorem only_creator_manages_account:
  assumes "h \<in> {DELETEServiceAccount cfg q, PATCHServiceAccountPause cfg q, PATCHServiceAccountUnpause cfg q}"
    and "h p w = (r, w')" and "sa_inv (db w)"
  shows "t_sa_scopes (db w') = t_sa_scopes (db w) \<and>
    (if status_code r = Some 200
     then \<exists>u s. p = Some (PUser u) \<and> find_sa (Query_Get q ''iss'') (Query_Get q ''sub'') (db w) = Some s \<and>
            sr_created_by_iss s = usr_iss u \<and> sr_created_by_sub s = usr_sub u \<and> sr_deleted_at s = None \<and>
            (\<exists>f. t_service_accounts (db w') = upd_where (\<lambda>x. sa_row_key x = sa_row_key s) f (t_service_accounts (db w)))
     else t_service_accounts (db w') = t_service_accounts (db w))"
proof -
  have "(w' = w \<and> status_code r \<noteq> Some 200) \<or>
      (\<exists>u op verb gone done. p = Some (PUser u) \<and> op \<in> {DeleteServiceAccount, PauseServiceAccount, UnpauseServiceAccount} \<and>
          manage_account op verb gone done q u w = (r, w'))"
  proof (cases "\<exists>u. p = Some (PUser u)")
    case True
    then obtain u where u: "p = Some (PUser u)" by blast
    from assms(1) have "h = DELETEServiceAccount cfg q \<or> h = PATCHServiceAccountPause cfg q \<or> h = PATCHServiceAccountUnpause cfg q"
      by simp
    then have "\<exists>op verb gone done. op \<in> {DeleteServiceAccount, PauseServiceAccount, UnpauseServiceAccount} \<and>
        h p w = manage_account op verb gone done q u w"
    proof (elim disjE)
      assume "h = DELETEServiceAccount cfg q"
      then have "h p w = manage_account DeleteServiceAccount ''delete'' ''Service account already deleted'' ''Service account deleted'' q u w"
        by (simp add: DELETEServiceAccount_def u)
      then show ?thesis by blast
    next
      assume "h = PATCHServiceAccountPause cfg q"
      then have "h p w = manage_account PauseServiceAccount ''pause'' ''Cannot pause a deleted service account'' ''Service account paused'' q u w"
        by (simp add: PATCHServiceAccountPause_def u)
      then show ?thesis by blast
    next
      assume "h = PATCHServiceAccountUnpause cfg q"
      then have "h p w = manage_account UnpauseServiceAccount ''unpause'' ''Cannot unpause a deleted service account'' ''Service account unpaused'' q u w"
        by (simp add: PATCHServiceAccountUnpause_def u)
      then show ?thesis by blast
    qed
    with assms(2) u show ?thesis by metis
  next
    case False
    with assms(1,2) show ?thesis
      by (auto simp: DELETEServiceAccount_def PATCHServiceAccountPause_def PATCHServiceAccountUnpause_def
          split: option.splits principal.splits)
  qed
  then have split: "\<not> (w' = w \<and> status_code r \<noteq> Some 200) \<Longrightarrow> \<exists>u op verb gone done. p = Some (PUser u) \<and>
      op \<in> {DeleteServiceAccount, PauseServiceAccount, UnpauseServiceAccount} \<and> manage_account op verb gone done q u w = (r, w')"
    by (rule disjE) simp_all
  show ?thesis
  proof (cases "w' = w \<and> status_code r \<noteq> Some 200")
    case True
    then show ?thesis by simp
  next
    case False
    from split [OF False] obtain u op verb gone finished where managed: "p = Some (PUser u)"
      "op \<in> {DeleteServiceAccount, PauseServiceAccount, UnpauseServiceAccount}"
      "manage_account op verb gone finished q u w = (r, w')"
      by (elim exE conjE)
    from managed(3) show ?thesis
    proof (cases rule: manage_account_cases)
      case refused
      then show ?thesis by simp
    next
      case (ran a w1 v)
      from ran(1) obtain s where s: "find_sa (Query_Get q ''iss'') (Query_Get q ''sub'') (db w) = Some s" "db w1 = db w"
        "sr_created_by_iss s = usr_iss u" "sr_created_by_sub s = usr_sub u" "sr_deleted_at s = None"
        by (rule GetServiceAccountByID_success) (use ran in \<open>auto simp: scan_sa_def\<close>)
      have "sa_inv (db w1)" using assms(3) s(2) by simp
      note o = sa_ops_cases [OF managed(2) ran(5) this]
      have "upd_where (live_sa (Query_Get q ''iss'') (Query_Get q ''sub'')) f (t_service_accounts (db w)) =
            upd_where (\<lambda>x. sa_row_key x = sa_row_key s) f (t_service_accounts (db w))" for f
        by (rule upd_where_cong) (rule live_unique [OF assms(3) s(1,5)])
      with o s managed(1) ran(6) show ?thesis by (auto split: if_splits)
    qed
  qed
qed

definition example_env :: sa_env where
  "example_env = \<lparr>env_argon = example_argon, env_rfc3339 = (\<lambda>s. Inr 100), env_secret = example_secret,
     env_lookup = example_lookup, env_uuid = ''s9''\<rparr>"

definition example_sa_body :: sa_body where
  "example_sa_body = \<lparr>sb_name = ''ci'', sb_token_expires_at = ''1970-01-01T00:00:00Z'', sb_scopes = [ScopeMTLSReadCert]\<rparr>"

lemma example_post_run:
  "\<exists>a w'. POSTServiceAccount example_config example_env (Inr example_sa_body) (Some (PUser example_user)) example_ctx =
     (JSON 201 (OneAccount a), w') \<and> sj_expires_at a = 100"
proof -
  have gen: "GenerateAPIToken example_argon example_secret example_lookup =
        Inr (example_token, EncodeToString example_lookup, EncodeToString example_secret)"
    by (simp add: GenerateAPIToken_def HashAPIToken_def Let_def example_argon_def example_token_def)
  have scopes: "HasAllScopes (user_GetScopes example_config example_user) [ScopeMTLSReadCert]"
    by (simp add: HasAllScopes_def user_GetScopes_def example_user_def mapGroupToScopes_def example_config_def DefaultAuthorizationConfig_def)
  have "\<exists>b w'. CreateServiceAccount (new_account example_config example_env example_user example_sa_body 100
          (EncodeToString example_lookup) (EncodeToString example_secret) 5) example_ctx = (Inr b, w') \<and> sa_token_expires_at b = 100"
    by (simp add: CreateServiceAccount_def create_sa_tx_def sql_insert_sa_def sql_insert_sa_scope_def
      GetServiceAccountByID_def load_scopes_def with_tx_def try_db_def roundtrip_def db_query_eq db_query_row_eq ok_def
      find_sa_def sa_scope_names_def empty_database_def pop_fault_def example_lookup_length new_account_def
      example_ctx_def example_sa_body_def scan_sa_def)
  then obtain b w' where cr: "CreateServiceAccount (new_account example_config example_env example_user example_sa_body 100
          (EncodeToString example_lookup) (EncodeToString example_secret) 5) example_ctx = (Inr b, w')" "sa_token_expires_at b = 100"
    by blast
  have now: "now example_ctx = 5" by (simp add: example_ctx_def)
  have "POSTServiceAccount example_config example_env (Inr example_sa_body) (Some (PUser example_user)) example_ctx =
      create_account example_config example_env example_user example_sa_body 100 example_ctx"
    using scopes now by (simp add: POSTServiceAccount_def example_sa_body_def example_env_def strings_TrimSpace_def is_space_def)
  also have "\<dots> = (JSON 201 (OneAccount (account_json example_token b)), w')"
    using gen cr(1) now by (simp add: create_account_def example_env_def try_http_def reply_def)
  finally show ?thesis using cr(2) by (simp add: account_json_def)
qed

theorem token_grants_only_creator_scopes_witness:
  "\<exists>a w' acc. POSTServiceAccount example_config example_env (Inr example_sa_body) (Some (PUser example_user)) example_ctx =
       (JSON 201 (OneAccount a), w') \<and>
     caller_of example_config example_argon (''Bearer '' @ sj_token a) (example_ctx\<lparr>db := db w'\<rparr>) = Caller (PServiceAccount acc) \<and>
     HasScope example_config (PServiceAccount acc) ScopeMTLSReadCert"
proof -
  obtain a w' where run: "POSTServiceAccount example_config example_env (Inr example_sa_body) (Some (PUser example_user)) example_ctx =
     (JSON 201 (OneAccount a), w')" and e: "sj_expires_at a = 100"
    using example_post_run by blast
  have env: "env_argon example_env = example_argon" "env_secret example_env = example_secret" "env_lookup example_env = example_lookup"
    by (simp_all add: example_env_def)
  have ctx: "sa_path empty_database (db example_ctx)" "faults (example_ctx\<lparr>db := db w'\<rparr>) = []"
    "db (example_ctx\<lparr>db := db w'\<rparr>) = db w'" "now (example_ctx\<lparr>db := db w'\<rparr>) \<le> sj_expires_at a"
    using e by (simp_all add: example_ctx_def sa_path.refl)
  obtain st where st: "cfg_storage example_config = Some st" "sto_enabled st" by (simp add: example_config_def)
  have "\<And>h. argon_hash (env_argon example_env) (EncodeToString (env_secret example_env)) = Inr h \<Longrightarrow>
      argon_match (env_argon example_env) (EncodeToString (env_secret example_env)) h = Inr True"
    by (simp add: env example_argon_def)
  from token_grants_only_creator_scopes [OF run ctx(1) _ _ _ _ this st ctx(3,2,4)] example_bytes env
  obtain acc where "caller_of example_config example_argon (''Bearer '' @ sj_token a) (example_ctx\<lparr>db := db w'\<rparr>) = Caller (PServiceAccount acc)"
    "HasScope example_config (PServiceAccount acc) ScopeMTLSReadCert"
    by (auto simp: example_sa_body_def)
  with run show ?thesis by (intro exI conjI)
qed

theorem only_creator_manages_account_witness:
  "status_code (fst (PATCHServiceAccountPause example_config [(''iss'', ''https://conduit''), (''sub'', ''s1'')]
       (Some (PUser example_user)) bearer_ctx)) = Some 200 \<and>
   t_service_accounts (db (snd (PATCHServiceAccountPause example_config [(''iss'', ''https://conduit''), (''sub'', ''s1'')]
       (Some (PUser (example_user\<lparr>usr_sub := ''mallory''\<rparr>)) ) bearer_ctx))) = t_service_accounts (db bearer_ctx)"
proof -
  let ?q = "[(''iss'', ''https://conduit''), (''sub'', ''s1'')]"
  obtain b where run: "CreateServiceAccount example_account \<lparr>db = empty_database, now = 5, faults = []\<rparr> = (Inr b, example_sa_world)"
    using example_create_run by blast
  have rows: "t_service_accounts (db bearer_ctx) = [new_sa_row example_account 5]"
    using CreateServiceAccount_success(3) [OF run] by (simp add: empty_database_def bearer_ctx_def)
  have inv: "sa_inv (db bearer_ctx)"
    using rows by (simp add: sa_inv_def new_sa_row_def)
  have get: "\<exists>a. GetServiceAccountByID ''https://conduit'' ''s1'' bearer_ctx = (Inr a, bearer_ctx) \<and>
      sa_created_by_iss a = ''idp'' \<and> sa_created_by_sub a = ''alice'' \<and> sa_deleted_at a = None"
    using rows by (simp add: GetServiceAccountByID_def load_scopes_def try_db_def db_query_row_eq db_query_eq ok_def find_sa_def
        bearer_ctx_def new_sa_row_def example_account_def scan_sa_def)
  have good: "status_code (fst (PATCHServiceAccountPause example_config ?q (Some (PUser example_user)) bearer_ctx)) = Some 200"
    using get rows
    by (auto simp: PATCHServiceAccountPause_def manage_account_def Query_Get_def example_user_def try_http_def reply_def Let_def
        PauseServiceAccount_def sql_update_sa_def one_row_def try_db_def roundtrip_def ok_def fail_def bearer_ctx_def
        count_where_def live_sa_def is_sa_def new_sa_row_def example_account_def)
  obtain r w' where bad: "PATCHServiceAccountPause example_config ?q (Some (PUser (example_user\<lparr>usr_sub := ''mallory''\<rparr>))) bearer_ctx = (r, w')"
    by fastforce
  then have "status_code r \<noteq> Some 200"
    using get by (auto simp: PATCHServiceAccountPause_def manage_account_def Query_Get_def example_user_def try_http_def reply_def Let_def)
  with only_creator_manages_account [of "PATCHServiceAccountPause example_config ?q" example_config ?q, OF _ bad inv] bad
  have "t_service_accounts (db w') = t_service_accounts (db bearer_ctx)" by simp
  with good bad show ?thesis by simp
qed

end
