(* ===== verification/Cert_Handlers.thy ===== *)
theory Cert_Handlers
  imports Oidc_Login
begin

text \<open>
  The certificate request handlers of \<open>internal/handlers/handler_certificate_request.go\<close>. The JSON body
  of a request is an argument: \<open>Inl\<close> when \<open>json.Decoder\<close> fails, \<open>Inr\<close> the decoded struct. The path
  parameter \<open>id\<close> is the string chi passes on.
\<close>

section \<open>Bodies\<close>

record cert_body =
  cb_message :: string
  cb_validity_days :: int

record review_body =
  rb_new_status :: string
  rb_review_notes :: string

datatype cert_json = OneRequest certificate_request | Requests "certificate_request list"

section \<open>Requesting\<close>

text \<open>The end of \<open>POSTCertificateRequest\<close>, from the insert on.\<close>

definition approve_or_not :: "config \<Rightarrow> principal \<Rightarrow> int \<Rightarrow> ('w, unit) dbop" where
  "approve_or_not cfg q i =
     (if HasScope cfg q ScopeMTLSAutoApproveCert
      then UpdateCertificateRequestStatus i StatusApproved (srv_external_url (cfg_server cfg)) SystemSub ''Auto Approved''
      else ok ())"

definition submit_request :: "config \<Rightarrow> principal \<Rightarrow> string \<Rightarrow> int \<Rightarrow> ('w, cert_json) handler" where
  "submit_request cfg q message days =
     try_http (CreateCertificateRequest (GetSub q) (GetIss q) (deriveCommonName q) StatusAwaitingReview message [] [] days)
       (\<lambda>e. JSONError 500 ''failed to create certificate request'')
       (\<lambda>req. try_http (approve_or_not cfg q (req_id req))
          (\<lambda>e. JSONError 500 ''Failed to auto approve certificate request'')
          (\<lambda>_. try_http (GetCertificateRequestByID (req_id req))
             (\<lambda>e. JSONError 500 ''Failed to get certificate requests'')
             (\<lambda>updated. reply (JSON 201 (OneRequest updated)))))"

definition POSTCertificateRequest :: "config \<Rightarrow> cert_body result \<Rightarrow> ('w, cert_json) app_handler" where
  "POSTCertificateRequest cfg body p w =
     (case p of
        None \<Rightarrow> (http_error 401, w)
      | Some q \<Rightarrow>
          if \<not> HasScope cfg q ScopeMTLSRequestCert then (http_error 403, w)
          else (case body of
              Inl e \<Rightarrow> (http_error 400, w)
            | Inr b \<Rightarrow>
                (let days = (if cb_validity_days b = 0 then 90 else cb_validity_days b) in
                 case cfg_features cfg of
                   None \<Rightarrow> (Panicked nil_dereference, w)
                 | Some f \<Rightarrow>
                     if days < mtls_min_days (feat_mtls f) \<or> days > mtls_max_days (feat_mtls f)
                     then (JSONError 400 (''validity_days must be between '' @ show_int (mtls_min_days (feat_mtls f)) @
                             '' and '' @ show_int (mtls_max_days (feat_mtls f)) @ '' days''), w)
                     else submit_request cfg q (cb_message b) days w)))"

section \<open>Reading\<close>

definition redact_request :: "certificate_request \<Rightarrow> certificate_request" where
  "redact_request r = r\<lparr>req_identifier := None, req_metadata := None, req_pem := None\<rparr>"

definition redactCertificateFields :: "certificate_request list \<Rightarrow> certificate_request list" where
  "redactCertificateFields = map redact_request"

definition GETCertificateRequests :: "config \<Rightarrow> ('w, cert_json) app_handler" where
  "GETCertificateRequests cfg p w =
     (case p of
        None \<Rightarrow> (http_error 401, w)
      | Some q \<Rightarrow>
          if \<not> HasScope cfg q ScopeMTLSReadAllCerts then (http_error 403, w)
          else try_http GetCertificateRequests (\<lambda>e. JSONError 500 ''Failed to get certificate requests'')
                 (\<lambda>requests. reply (JSON 200 (Requests (redactCertificateFields requests)))) w)"

text \<open>The \<open>id\<close> of the path: present, and a number.\<close>

definition path_id :: "string \<Rightarrow> int result" where
  "path_id param = (if param = [] then Inl (Errorf ''missing id'') else strconv_Atoi (strings_TrimSpace param))"

definition GETCertificateRequest :: "config \<Rightarrow> string \<Rightarrow> ('w, cert_json) app_handler" where
  "GETCertificateRequest cfg idParam p w =
     (case path_id idParam of
        Inl e \<Rightarrow> (http_error 400, w)
      | Inr requestId \<Rightarrow>
          (case p of
             None \<Rightarrow> (http_error 401, w)
           | Some q \<Rightarrow>
               try_http (GetCertificateRequestByID requestId) (\<lambda>e. JSONError 500 ''Failed to get certificate requests'')
                 (\<lambda>r. if \<not> MatchesOwner q (req_owner_iss r) (req_owner_sub r) \<and> \<not> HasScope cfg q ScopeMTLSReadAllCerts
                       then reply (http_error 403)
                       else reply (JSON 200 (Requests (redactCertificateFields [r])))) w))"

definition GETUserCertificateRequests :: "config \<Rightarrow> ('w, cert_json) app_handler" where
  "GETUserCertificateRequests cfg p w =
     (case p of
        None \<Rightarrow> (http_error 401, w)
      | Some q \<Rightarrow>
          try_http (GetCertificateRequestsByUser (GetSub q) (GetIss q)) (\<lambda>e. JSONError 500 ''Failed to get certificate requests'')
            (\<lambda>requests. reply (JSON 200 (Requests (redactCertificateFields requests)))) w)"

section \<open>Reviewing\<close>

text \<open>
  \<open>POSTCertificateReview\<close> in two halves: the checks, up to the status of the request as it was read, and
  the write with the answer. The server runs reviews concurrently, so another request's statements may
  run between the halves.
\<close>

record review =
  rv_principal :: principal
  rv_id :: int
  rv_status :: cert_status
  rv_notes :: string

definition is_review_status :: "cert_status \<Rightarrow> bool" where
  "is_review_status s \<longleftrightarrow> s = StatusApproved \<or> s = StatusRejected"

definition review_check ::
  "config \<Rightarrow> string \<Rightarrow> review_body result \<Rightarrow> principal option \<Rightarrow> 'w appctx_scheme \<Rightarrow>
   (cert_json response + review) \<times> 'w appctx_scheme" where
  "review_check cfg idParam body p w =
     (case path_id idParam of
        Inl e \<Rightarrow> (Inl (http_error 400), w)
      | Inr requestId \<Rightarrow>
        (case p of
           None \<Rightarrow> (Inl (http_error 401), w)
         | Some q \<Rightarrow>
             if \<not> HasScope cfg q ScopeMTLSApproveCert then (Inl (http_error 403), w)
             else (case body of
                 Inl e \<Rightarrow> (Inl (http_error 400), w)
               | Inr b \<Rightarrow>
                   (let newStatus = cert_status_of (strings_TrimSpace (rb_new_status b)) in
                    if \<not> is_review_status newStatus
                    then (Inl (JSONError 400 (''Invalid status. Must be '' @ [CHR 0x27] @ ''approved'' @ [CHR 0x27] @
                                '' or '' @ [CHR 0x27] @ ''rejected'' @ [CHR 0x27])), w)
                    else (case GetCertificateRequestByID requestId w of
                        (Inl e, w') \<Rightarrow> (Inl (JSONError 500 ''Failed to fetch certificate request''), w')
                      | (Inr r, w') \<Rightarrow>
                          if \<not> HasScope cfg q ScopeMTLSSelfApproveCerts \<and> MatchesOwner q (req_owner_iss r) (req_owner_sub r)
                          then (Inl (JSONError 403 ''You are not allowed to approve your own requests''), w')
                          else if req_status r \<noteq> StatusAwaitingReview
                          then (Inl (JSONError 400 (''Cannot review request with status '' @ [CHR 0x27] @ cert_status_text (req_status r) @
                                  [CHR 0x27] @ ''. Only requests with status '' @ [CHR 0x27] @ ''awaiting_review'' @ [CHR 0x27] @
                                  '' can be reviewed.'')), w')
                          else (Inr \<lparr>rv_principal = q, rv_id = req_id r, rv_status = newStatus, rv_notes = rb_review_notes b\<rparr>, w'))))))"

definition review_commit :: "review \<Rightarrow> ('w, cert_json) handler" where
  "review_commit rv =
     try_http (UpdateCertificateRequestStatus (rv_id rv) (rv_status rv) (GetIss (rv_principal rv)) (GetSub (rv_principal rv)) (rv_notes rv))
       (\<lambda>e. JSONError 500 ''Failed to update certificate request status'')
       (\<lambda>_. try_http (GetCertificateRequestByID (rv_id rv)) (\<lambda>e. JSONError 500 ''Failed to get certificate requests'')
          (\<lambda>updated. reply (JSON 200 (OneRequest updated))))"

definition POSTCertificateReview :: "config \<Rightarrow> string \<Rightarrow> review_body result \<Rightarrow> ('w, cert_json) app_handler" where
  "POSTCertificateReview cfg idParam body p w =
     (case review_check cfg idParam body p w of (Inl r, w') \<Rightarrow> (r, w') | (Inr rv, w') \<Rightarrow> review_commit rv w')"

section \<open>What the storage calls leave alone\<close>

lemma reads_certs:
  "reads (GetCertificateRequestByID i)" "reads GetCertificateRequests" "reads (GetCertificateRequestsByUser sub iss)"
  unfolding GetCertificateRequestByID_def GetCertificateRequests_def GetCertificateRequestsByUser_def
  by (intro reads_intros)+

lemma framed_certs:
  "framed (UpdateCertificateRequestStatus i st a b nt)"
  "framed (CreateCertificateRequest sub iss cn stat msg dns ous days)"
  unfolding UpdateCertificateRequestStatus_def CreateCertificateRequest_def
  by (intro framed_intros reads_framed reads_certs)+

lemma GetCertificateRequestByID_success:
  assumes "GetCertificateRequestByID i w = (Inr r, w')"
  obtains row fs where "find_request i (db w) = Some row" and "cr_id row = i"
    and "r = (scan_request row)\<lparr>req_events := map scan_event (events_of i (db w))\<rparr>" and "w' = w\<lparr>faults := fs\<rparr>"
proof -
  obtain fs where w': "w' = w\<lparr>faults := fs\<rparr>" using assms by (rule readsE [OF reads_certs(1)])
  from assms obtain row where row: "find_request i (db w) = Some row"
    and r: "r = (scan_request row)\<lparr>req_events := map scan_event (events_of i (db w))\<rparr>"
    by (auto simp: GetCertificateRequestByID_def elim!: success_elims)
  from row have "cr_id row = i" by (auto simp: find_request_def dest: find_SomeD)
  with row r w' show thesis by (intro that)
qed

lemma UpdateCertificateRequestStatus_tables:
  assumes "UpdateCertificateRequestStatus i st viss vsub nt w = (Inr x, w')"
  obtains row e where "find_request i (db w) = Some row"
    and "t_cert_requests (db w') = upd_where (\<lambda>r. cr_id r = i) (\<lambda>r. r\<lparr>cr_status := st\<rparr>) (t_cert_requests (db w))"
    and "t_cert_events (db w') = t_cert_events (db w) @ [e]" and "ce_request_id e = i" and "ce_new_status e = st"
    and "ce_reviewer_iss e = viss" and "ce_reviewer_sub e = vsub" and "ce_requester_iss e = cr_owner_iss row"
    and "ce_requester_sub e = cr_owner_sub row"
  using assms
  by (rule UpdateCertificateRequestStatus_success)
     (auto simp: apply_status_def sql_insert_cert_event_def sql_set_status_def Let_def find_request_def find_upd_where intro: that)

section \<open>The halves of a review\<close>

text \<open>The checks write nothing, and what they let through is a review the rules allow.\<close>

definition review_allowed :: "config \<Rightarrow> review \<Rightarrow> database \<Rightarrow> bool" where
  "review_allowed cfg rv d \<longleftrightarrow>
     (\<exists>row. find_request (rv_id rv) d = Some row \<and> cr_status row = StatusAwaitingReview \<and>
        CanTransitionTo StatusAwaitingReview (rv_status rv) \<and>
        HasScope cfg (rv_principal rv) ScopeMTLSApproveCert \<and>
        (HasScope cfg (rv_principal rv) ScopeMTLSSelfApproveCerts \<or>
         \<not> MatchesOwner (rv_principal rv) (cr_owner_iss row) (cr_owner_sub row)))"

lemma review_check_cases:
  assumes "review_check cfg idParam body p w = (x, w')"
  obtains (refused) r fs where "x = Inl r" and "status_code r \<noteq> Some 200" and "w' = w\<lparr>faults := fs\<rparr>"
  | (passed) rv fs where "x = Inr rv" and "p = Some (rv_principal rv)" and "review_allowed cfg rv (db w)" and "w' = w\<lparr>faults := fs\<rparr>"
proof (cases "\<exists>requestId q b. path_id idParam = Inr requestId \<and> p = Some q \<and> HasScope cfg q ScopeMTLSApproveCert \<and> body = Inr b \<and>
    is_review_status (cert_status_of (strings_TrimSpace (rb_new_status b)))")
  case False
  then have "w' = w" and "\<exists>r. x = Inl r \<and> status_code r \<noteq> Some 200"
    using assms by (auto simp: review_check_def Let_def split: sum.splits option.splits if_splits)
  then show thesis using refused [where fs = "faults w"] by auto
next
  case True
  then obtain requestId q b where c: "path_id idParam = Inr requestId" "p = Some q" "HasScope cfg q ScopeMTLSApproveCert"
    "body = Inr b" "is_review_status (cert_status_of (strings_TrimSpace (rb_new_status b)))"
    by blast
  let ?st = "cert_status_of (strings_TrimSpace (rb_new_status b))"
  obtain y w1 where get: "GetCertificateRequestByID requestId w = (y, w1)" by fastforce
  then obtain fs where w1: "w1 = w\<lparr>faults := fs\<rparr>" by (rule readsE [OF reads_certs(1)])
  have w': "w' = w1"
    using assms c get by (auto simp: review_check_def Let_def split: sum.splits if_splits)
  show thesis
  proof (cases y)
    case (Inl e)
    then have "x = Inl (JSONError 500 ''Failed to fetch certificate request'')"
      using assms c get by (auto simp: review_check_def Let_def)
    then show thesis using w' w1 by (intro refused) auto
  next
    case (Inr r)
    from get [unfolded Inr] obtain row where row: "find_request requestId (db w) = Some row" "cr_id row = requestId"
      and r: "r = (scan_request row)\<lparr>req_events := map scan_event (events_of requestId (db w))\<rparr>"
      by (rule GetCertificateRequestByID_success)
    have rr: "req_id r = requestId" "req_owner_iss r = cr_owner_iss row" "req_owner_sub r = cr_owner_sub row"
      "req_status r = cr_status row"
      using r row(2) by simp_all
    show thesis
    proof (cases "(HasScope cfg q ScopeMTLSSelfApproveCerts \<or> \<not> MatchesOwner q (cr_owner_iss row) (cr_owner_sub row)) \<and>
        cr_status row = StatusAwaitingReview")
      case True
      then have x: "x = Inr \<lparr>rv_principal = q, rv_id = requestId, rv_status = ?st, rv_notes = rb_review_notes b\<rparr>"
        using assms c get Inr rr by (auto simp: review_check_def Let_def split: if_splits)
      have "CanTransitionTo StatusAwaitingReview ?st"
        using c(5) by (auto simp: is_review_status_def CanTransitionTo_def validTransitions_def)
      then show thesis using passed [OF x] w' w1 c True row by (auto simp: review_allowed_def)
    next
      case False
      then have "\<exists>e. x = Inl e \<and> status_code e \<noteq> Some 200"
        using assms c get Inr rr by (auto simp: review_check_def Let_def split: if_splits)
      then show thesis using w' w1 refused by blast
    qed
  qed
qed

definition new_cert_row ::
  "int \<Rightarrow> string \<Rightarrow> string \<Rightarrow> string \<Rightarrow> string \<Rightarrow> string list \<Rightarrow> string list \<Rightarrow> int \<Rightarrow> time \<Rightarrow> cert_row" where
  "new_cert_row i sub iss cn msg dns ous days t =
     \<lparr>cr_id = i, cr_owner_iss = iss, cr_owner_sub = sub, cr_message = msg, cr_common_name = cn,
      cr_dns_names = dns, cr_ous = ous, cr_validity_days = days, cr_status = StatusAwaitingReview,
      cr_requested_at = t, cr_identifier = None, cr_metadata = None, cr_issued_at = None,
      cr_expires_at = None, cr_serial = None, cr_pem = None\<rparr>"

lemma CreateCertificateRequest_success:
  assumes "CreateCertificateRequest sub iss cn StatusAwaitingReview msg dns ous days w = (Inr r, w')" and inv: "cert_inv (db w)"
  defines "row \<equiv> new_cert_row (req_id r) sub iss cn msg dns ous days (now w)"
  shows "t_cert_requests (db w') = t_cert_requests (db w) @ [row]" and "t_cert_events (db w') = t_cert_events (db w)"
    and "find_request (req_id r) (db w') = Some row" and "req_id r \<notin> cr_id ` set (t_cert_requests (db w))"
    and "cert_inv (db w')" and "now w' = now w" and "req_id r = sq_cert_requests (seqs (db w))"
proof -
  from assms(1) obtain i d where ins: "sql_insert_cert_request sub iss cn StatusAwaitingReview msg dns ous days (now w) (db w) = (Inr i, d)"
    and get: "GetCertificateRequestByID i ((pop_fault w)\<lparr>db := d\<rparr>) = (Inr r, w')"
    unfolding CreateCertificateRequest_def by (elim try_db_InrE roundtrip_InrE) blast
  from get obtain fs where r: "req_id r = i" and w': "w' = (pop_fault w)\<lparr>db := d, faults := fs\<rparr>"
    by (rule GetCertificateRequestByID_success) auto
  have i: "i = sq_cert_requests (seqs (db w))" and new: "t_cert_requests d = t_cert_requests (db w) @ [row]"
    "t_cert_events d = t_cert_events (db w)"
    using ins by (auto simp: sql_insert_cert_request_def Let_def row_def new_cert_row_def r split: if_splits)
  have fresh: "i \<notin> cr_id ` set (t_cert_requests (db w))"
    using inv i by (auto simp: cert_inv_def cert_wf_def)
  then have "find_request i (db w) = None" by (auto simp: find_request_def find_None_iff)
  then have "find_request i d = Some row"
    using new(1) r by (simp add: find_request_def find_append row_def new_cert_row_def)
  moreover have "cert_inv d" using inv ins by (rule cert_inv_insert)
  ultimately show "t_cert_requests (db w') = t_cert_requests (db w) @ [row]" "t_cert_events (db w') = t_cert_events (db w)"
    "find_request (req_id r) (db w') = Some row" "req_id r \<notin> cr_id ` set (t_cert_requests (db w))"
    "cert_inv (db w')" "now w' = now w" "req_id r = sq_cert_requests (seqs (db w))"
    using new w' r fresh i by simp_all
qed

lemma review_check_passed:
  assumes "review_check cfg idParam body p w = (Inr rv, w')"
  shows "review_allowed cfg rv (db w) \<and> db w' = db w"
  using assms
proof (cases rule: review_check_cases)
  case (passed rv' fs)
  moreover have "db (w\<lparr>faults := fs\<rparr>) = db w" by simp
  ultimately show ?thesis by (metis sum.inject(2))
qed simp

lemma review_commit_no_faults:
  assumes "faults w = []" and "find_request (rv_id rv) (db w) = Some row" and "cr_owner_iss row \<noteq> []" and "cr_owner_sub row \<noteq> []"
    and "GetIss (rv_principal rv) \<noteq> []" and "GetSub (rv_principal rv) \<noteq> []"
  shows "\<exists>j w'. review_commit rv w = (JSON 200 j, w') \<and> faults w' = [] \<and>
           find_request (rv_id rv) (db w') = Some (row\<lparr>cr_status := rv_status rv\<rparr>)"
proof -
  let ?d = "apply_status (rv_id rv) (rv_status rv) (GetIss (rv_principal rv)) (GetSub (rv_principal rv)) (rv_notes rv) row (now w) (db w)"
  have id: "cr_id row = rv_id rv" using assms(2) by (auto simp: find_request_def dest: find_SomeD)
  have f: "find_request (rv_id rv) ?d = Some (row\<lparr>cr_status := rv_status rv\<rparr>)"
    using assms(2) id by (simp add: apply_status_def sql_insert_cert_event_def sql_set_status_def Let_def find_request_def find_upd_where)
  have upd: "UpdateCertificateRequestStatus (rv_id rv) (rv_status rv) (GetIss (rv_principal rv)) (GetSub (rv_principal rv))
      (rv_notes rv) w = (Inr (), w\<lparr>db := ?d\<rparr>)"
    using assms id
    by (simp add: UpdateCertificateRequestStatus_def with_tx_def db_query_eq db_query_row_eq try_db_def roundtrip_def ok_def
        apply_status_def sql_insert_cert_event_def sql_set_status_def Let_def find_request_def find_upd_where)
  have "\<exists>r. GetCertificateRequestByID (rv_id rv) (w\<lparr>db := ?d\<rparr>) = (Inr r, w\<lparr>db := ?d\<rparr>)"
    using assms(1) f by (simp add: GetCertificateRequestByID_def try_db_def db_query_row_eq db_query_eq ok_def)
  with upd f assms(1) show ?thesis by (auto simp: review_commit_def try_http_def reply_def)
qed

section \<open>Properties\<close>

text \<open>A request of Alice and an administrator of another issuer, for the witnesses.\<close>

definition review_ctx :: appctx where
  "review_ctx = \<lparr>db = db example_request_world, now = 9, faults = [], sess = empty_session\<rparr>"

definition approve_body :: review_body where
  "approve_body = \<lparr>rb_new_status = '' approved'', rb_review_notes = ''fine''\<rparr>"

definition reject_body :: review_body where
  "reject_body = \<lparr>rb_new_status = ''rejected'', rb_review_notes = ''no''\<rparr>"

lemma example_user_scopes:
  "user_HasScope example_config example_user s \<longleftrightarrow>
     s \<in> {ScopeMTLSRequestCert, ScopeMTLSReadAllCerts, ScopeMTLSReadCert, ScopeMTLSApproveCert,
          ScopeMTLSRenewCert, ScopeMTLSRevokeCert, ScopeMTLSDownloadAllCerts, ScopeMTLSDownloadCert, ScopeMTLSAutoApproveCert}"
  by (auto simp: user_HasScope_def user_GetScopes_def example_user_def mapGroupToScopes_def example_config_def
      DefaultAuthorizationConfig_def)

lemma review_ctx_db:
  "find_request 1 (db review_ctx) = Some example_request_row" "faults review_ctx = []"
  "t_cert_events (db review_ctx) = []" "t_cert_requests (db review_ctx) = [example_request_row]"
  by (simp_all add: review_ctx_def example_request_db find_request_def example_request_row_def empty_database_def example_world_def)

lemma path_id_1: "path_id ''1'' = Inr 1"
  by (simp add: path_id_def strconv_Atoi_def strings_TrimSpace_def is_space_def digit_val_def Let_def)

lemma example_check:
  assumes "is_review_status (cert_status_of (strings_TrimSpace (rb_new_status b)))"
  shows "review_check example_config ''1'' (Inr b) (Some (PUser example_user)) review_ctx =
     (Inr \<lparr>rv_principal = PUser example_user, rv_id = 1, rv_status = cert_status_of (strings_TrimSpace (rb_new_status b)),
           rv_notes = rb_review_notes b\<rparr>, review_ctx)"
proof -
  have get: "GetCertificateRequestByID 1 review_ctx = (Inr (scan_request example_request_row), review_ctx)"
    by (simp add: GetCertificateRequestByID_def try_db_def db_query_row_eq db_query_eq ok_def review_ctx_db events_of_def
        scan_request_def)
  have "\<not> MatchesOwner (PUser example_user) (req_owner_iss (scan_request example_request_row)) (req_owner_sub (scan_request example_request_row))"
    by (simp add: example_request_row_def user_MatchesOwner_def example_user_def)
  then show ?thesis
    using assms get path_id_1 by (simp add: review_check_def example_user_scopes Let_def example_request_row_def)
qed

lemma example_bodies:
  "cert_status_of (strings_TrimSpace (rb_new_status approve_body)) = StatusApproved"
  "cert_status_of (strings_TrimSpace (rb_new_status reject_body)) = StatusRejected"
  by (simp_all add: approve_body_def reject_body_def strings_TrimSpace_def is_space_def cert_status_of_def)

text \<open>
  C1: a review moves a request along the state machine and nothing else. Whatever the request, the body
  and the failures, \<open>POSTCertificateReview\<close> either leaves requests and events as they were and does not
  answer 200, or its caller holds the approve scope, the request was awaiting review, is not the caller's
  own unless the caller may self-approve, its status becomes an allowed successor, no other request
  changes, and one event names the caller as the reviewer.
\<close>

theorem review_follows_state_machine:
  assumes "POSTCertificateReview cfg idParam body p w = (r, w')"
  shows "(t_cert_requests (db w') = t_cert_requests (db w) \<and> t_cert_events (db w') = t_cert_events (db w) \<and>
            status_code r \<noteq> Some 200) \<or>
         (\<exists>q row st e. p = Some q \<and> find_request (cr_id row) (db w) = Some row \<and>
            HasScope cfg q ScopeMTLSApproveCert \<and>
            (HasScope cfg q ScopeMTLSSelfApproveCerts \<or> \<not> MatchesOwner q (cr_owner_iss row) (cr_owner_sub row)) \<and>
            cr_status row = StatusAwaitingReview \<and> CanTransitionTo (cr_status row) st \<and>
            t_cert_requests (db w') =
              upd_where (\<lambda>x. cr_id x = cr_id row) (\<lambda>x. x\<lparr>cr_status := st\<rparr>) (t_cert_requests (db w)) \<and>
            t_cert_events (db w') = t_cert_events (db w) @ [e] \<and> ce_request_id e = cr_id row \<and> ce_new_status e = st \<and>
            ce_reviewer_iss e = GetIss q \<and> ce_reviewer_sub e = GetSub q)"
proof -
  obtain x w1 where chk: "review_check cfg idParam body p w = (x, w1)" by fastforce
  then show ?thesis
  proof (cases rule: review_check_cases)
    case (refused r0 fs)
    have "db w1 = db w" using refused(3) by simp
    then show ?thesis using assms chk refused(1,2) by (simp add: POSTCertificateReview_def)
  next
    case (passed rv fs)
    have run: "review_commit rv w1 = (r, w')" using assms chk passed by (simp add: POSTCertificateReview_def)
    obtain y w2 where upd: "UpdateCertificateRequestStatus (rv_id rv) (rv_status rv) (GetIss (rv_principal rv))
        (GetSub (rv_principal rv)) (rv_notes rv) w1 = (y, w2)" by fastforce
    show ?thesis
    proof (cases y)
      case (Inl e)
      have "t_cert_requests (db w2) = t_cert_requests (db w) \<and> t_cert_events (db w2) = t_cert_events (db w)"
        using UpdateCertificateRequestStatus_error [OF upd [unfolded Inl]] passed(4) by (metis rollback_sel(4,5) world.select_convs(1) world.surjective world.update_convs(3))
      then show ?thesis using run upd Inl by (auto simp: review_commit_def try_http_def split: if_splits)
    next
      case (Inr u)
      from upd [unfolded Inr] obtain row e where t: "find_request (rv_id rv) (db w1) = Some row"
        "t_cert_requests (db w2) = upd_where (\<lambda>r. cr_id r = rv_id rv) (\<lambda>r. r\<lparr>cr_status := rv_status rv\<rparr>) (t_cert_requests (db w1))"
        "t_cert_events (db w2) = t_cert_events (db w1) @ [e]" "ce_request_id e = rv_id rv" "ce_new_status e = rv_status rv"
        "ce_reviewer_iss e = GetIss (rv_principal rv)" "ce_reviewer_sub e = GetSub (rv_principal rv)"
        by (rule UpdateCertificateRequestStatus_tables)
      obtain z where "GetCertificateRequestByID (rv_id rv) w2 = (z, w')"
        using run upd Inr by (auto simp: review_commit_def try_http_def reply_def split: prod.splits sum.splits)
      then have "db w' = db w2" by (rule readsE [OF reads_certs(1)]) simp
      moreover have "cr_id row = rv_id rv" using t(1) by (auto simp: find_request_def dest: find_SomeD)
      moreover have "db w1 = db w" using passed(4) by simp
      ultimately have d: "db w' = db w2" "cr_id row = rv_id rv" "db w1 = db w" .
      have ok: "find_request (cr_id row) (db w) = Some row" using t(1) d by simp
      then have rules: "HasScope cfg (rv_principal rv) ScopeMTLSApproveCert" "cr_status row = StatusAwaitingReview"
        "CanTransitionTo StatusAwaitingReview (rv_status rv)"
        "HasScope cfg (rv_principal rv) ScopeMTLSSelfApproveCerts \<or> \<not> MatchesOwner (rv_principal rv) (cr_owner_iss row) (cr_owner_sub row)"
        using passed(3) d(2) by (auto simp: review_allowed_def)
      show ?thesis
        by (rule disjI2, rule exI [of _ "rv_principal rv"], rule exI [of _ row], rule exI [of _ "rv_status rv"], rule exI [of _ e])
           (simp only: passed(2) ok ok [unfolded d(2)] rules t d simp_thms)
    qed
  qed
qed

theorem review_follows_state_machine_witness:
  "\<exists>r w'. POSTCertificateReview example_config ''1'' (Inr approve_body) (Some (PUser example_user)) review_ctx = (r, w') \<and>
     status_code r = Some 200 \<and> t_cert_requests (db w') = [example_request_row\<lparr>cr_status := StatusApproved\<rparr>]"
proof -
  have "is_review_status (cert_status_of (strings_TrimSpace (rb_new_status approve_body)))"
    by (simp add: example_bodies is_review_status_def)
  note a = example_check [OF this]
  define rv where "rv = \<lparr>rv_principal = PUser example_user, rv_id = 1,
    rv_status = cert_status_of (strings_TrimSpace (rb_new_status approve_body)), rv_notes = rb_review_notes approve_body\<rparr>"
  obtain j w' where c: "review_commit rv review_ctx = (JSON 200 j, w')"
    "find_request 1 (db w') = Some (example_request_row\<lparr>cr_status := StatusApproved\<rparr>)"
    using review_commit_no_faults [of review_ctx rv example_request_row]
    by (auto simp: rv_def example_bodies review_ctx_db example_request_row_def example_user_def)
  then have run: "POSTCertificateReview example_config ''1'' (Inr approve_body) (Some (PUser example_user)) review_ctx = (JSON 200 j, w')"
    using a by (simp add: POSTCertificateReview_def rv_def)
  obtain row :: cert_row and st where "t_cert_requests (db w') = upd_where (\<lambda>x. cr_id x = cr_id row) (\<lambda>x. x\<lparr>cr_status := st\<rparr>) [example_request_row]"
    using review_follows_state_machine [OF run] unfolding review_ctx_db(4) status_code.simps
    by blast
  with c(2) run show ?thesis
    by (auto simp: find_request_def example_request_row_def split: if_splits)
qed

text \<open>
  C24: a certificate request opens as the rules say. When \<open>POSTCertificateRequest\<close> answers with a body, the
  status is 201, the caller holds the request scope and exactly one row was added: the caller's own, with
  the common name derived from the caller and a validity within the configured bounds, awaiting review,
  or approved by the system user if and only if the caller holds the auto-approve scope.
\<close>

theorem request_opens_review:
  assumes "POSTCertificateRequest cfg body p w = (JSON n j, w')" and "cert_reachable (db w)"
  shows "n = 201 \<and> (\<exists>q f row. p = Some q \<and> cfg_features cfg = Some f \<and> HasScope cfg q ScopeMTLSRequestCert \<and>
     t_cert_requests (db w') = t_cert_requests (db w) @ [row] \<and> cr_id row \<notin> cr_id ` set (t_cert_requests (db w)) \<and>
     MatchesOwner q (cr_owner_iss row) (cr_owner_sub row) \<and> cr_common_name row = deriveCommonName q \<and>
     mtls_min_days (feat_mtls f) \<le> cr_validity_days row \<and> cr_validity_days row \<le> mtls_max_days (feat_mtls f) \<and>
     cr_status row = (if HasScope cfg q ScopeMTLSAutoApproveCert then StatusApproved else StatusAwaitingReview) \<and>
     (\<exists>r. j = OneRequest r \<and> req_id r = cr_id row \<and> req_status r = cr_status row))"
proof -
  from assms(1) obtain q b f where c0: "p = Some q" "body = Inr b" "cfg_features cfg = Some f" "HasScope cfg q ScopeMTLSRequestCert"
    by (auto simp: POSTCertificateRequest_def Let_def split: option.splits sum.splits if_splits)
  define days where "days = (if cb_validity_days b = 0 then 90 else cb_validity_days b)"
  have c: "p = Some q" "HasScope cfg q ScopeMTLSRequestCert" "cfg_features cfg = Some f"
    "mtls_min_days (feat_mtls f) \<le> days" "days \<le> mtls_max_days (feat_mtls f)"
    and run: "submit_request cfg q (cb_message b) days w = (JSON n j, w')"
    using assms(1) c0 by (auto simp: POSTCertificateRequest_def Let_def days_def split: if_splits)
  from run obtain r w1 w2 u where cr: "CreateCertificateRequest (GetSub q) (GetIss q) (deriveCommonName q) StatusAwaitingReview
        (cb_message b) [] [] days w = (Inr r, w1)"
    and ap: "approve_or_not cfg q (req_id r) w1 = (Inr u, w2)"
    and get: "n = 201 \<and> (\<exists>r2. j = OneRequest r2 \<and> GetCertificateRequestByID (req_id r) w2 = (Inr r2, w'))"
    unfolding submit_request_def by (elim try_http_cases) (auto simp: reply_def split: if_splits)
  from cert_reachable_inv [OF assms(2)] cr
  have "cert_inv (db w)" by simp
  note c1 = CreateCertificateRequest_success [OF cr this]
  have other: "cr_id x \<noteq> req_id r" if "x \<in> set (t_cert_requests (db w))" for x
    using c1(4) that by (metis image_eqI)
  define row where "row = new_cert_row (req_id r) (GetSub q) (GetIss q) (deriveCommonName q) (cb_message b) [] [] days (now w)"
  define st where "st = (if HasScope cfg q ScopeMTLSAutoApproveCert then StatusApproved else StatusAwaitingReview)"
  have row: "cr_id row = req_id r" "cr_status row = StatusAwaitingReview"
    by (simp_all add: row_def new_cert_row_def)
  have "t_cert_requests (db w2) = upd_where (\<lambda>x. cr_id x = req_id r) (\<lambda>x. x\<lparr>cr_status := st\<rparr>) (t_cert_requests (db w1))"
  proof (cases "HasScope cfg q ScopeMTLSAutoApproveCert")
    case True
    then show ?thesis using ap by (auto simp: approve_or_not_def st_def elim!: UpdateCertificateRequestStatus_tables)
  next
    case False
    have "upd_where (\<lambda>x. cr_id x = req_id r) (\<lambda>x. x\<lparr>cr_status := st\<rparr>) (t_cert_requests (db w)) = t_cert_requests (db w)"
      using other by (rule upd_where_none)
    moreover have "row\<lparr>cr_status := StatusAwaitingReview\<rparr> = row" using row by simp
    ultimately show ?thesis using ap False c1(1) row
      by (simp add: approve_or_not_def ok_def st_def upd_where_def row_def)
  qed
  moreover have "upd_where (\<lambda>x. cr_id x = req_id r) (\<lambda>x. x\<lparr>cr_status := st\<rparr>) (t_cert_requests (db w)) = t_cert_requests (db w)"
    using other by (rule upd_where_none)
  ultimately have rows: "t_cert_requests (db w2) = t_cert_requests (db w) @ [row\<lparr>cr_status := st\<rparr>]"
    using c1(1) row by (simp add: upd_where_def row_def)
  have "find_request (req_id r) (db w) = None" using other by (auto simp: find_request_def find_None_iff dest: other)
  then have f2: "find_request (req_id r) (db w2) = Some (row\<lparr>cr_status := st\<rparr>)"
    using rows row by (simp add: find_request_def find_append)
  from get obtain r2 where j: "n = 201" "j = OneRequest r2" "GetCertificateRequestByID (req_id r) w2 = (Inr r2, w')" by blast
  from j(3) f2 row have r2: "req_id r2 = req_id r" "req_status r2 = st" "db w' = db w2"
    by (auto elim!: GetCertificateRequestByID_success)
  show ?thesis
    using c j r2 rows c1(4) row
    by (intro conjI exI [of _ q] exI [of _ f] exI [of _ "row\<lparr>cr_status := st\<rparr>"])
       (auto simp: row_def new_cert_row_def st_def any_principal.owns_iff)
qed

theorem request_opens_review_witness:
  "\<exists>j w'. POSTCertificateRequest example_config (Inr \<lparr>cb_message = ''laptop'', cb_validity_days = 0\<rparr>)
       (Some (PUser example_user)) review_ctx = (JSON 201 j, w') \<and>
     map cr_status (t_cert_requests (db w')) = [StatusAwaitingReview, StatusApproved]"
proof -
  let ?b = "\<lparr>cb_message = ''laptop'', cb_validity_days = 0\<rparr>"
  obtain j w' where run: "POSTCertificateRequest example_config (Inr ?b) (Some (PUser example_user)) review_ctx = (JSON 201 j, w')"
  proof -
    have "DefaultMTLSIssuerConfig = feat_mtls DefaultFeaturesConfig" "cfg_features example_config = Some DefaultFeaturesConfig"
      by (simp_all add: DefaultFeaturesConfig_def example_config_def)
    moreover have "mtls_min_days DefaultMTLSIssuerConfig = 30" "mtls_max_days DefaultMTLSIssuerConfig = 365"
      by (simp_all add: DefaultMTLSIssuerConfig_def)
    moreover have "\<exists>j w'. submit_request example_config (PUser example_user) ''laptop'' 90 review_ctx = (JSON 201 j, w')"
      by (simp add: submit_request_def approve_or_not_def example_user_scopes try_http_def reply_def
          CreateCertificateRequest_def GetCertificateRequestByID_def sql_insert_cert_request_def UpdateCertificateRequestStatus_def
          with_tx_def sql_set_status_def sql_insert_cert_event_def db_query_eq db_query_row_eq try_db_def roundtrip_def
          ok_def find_request_def Let_def review_ctx_def example_request_db example_world_def empty_database_def
          example_request_row_def example_user_def example_config_def DefaultServerConfig_def SystemSub_def scan_request_def)
    ultimately show ?thesis
      using that by (auto simp: POSTCertificateRequest_def example_user_scopes)
  qed
  have "cert_reachable (db review_ctx)" using example_reachable(1) by (simp add: review_ctx_def)
  from request_opens_review [OF run this] have "map cr_status (t_cert_requests (db w')) = [StatusAwaitingReview, StatusApproved]"
    by (auto simp: review_ctx_db example_user_scopes example_request_row_def)
  with run show ?thesis by (intro exI [of _ j] exI [of _ w']) simp
qed



text \<open>
  C39: two reviewers can both decide. If two reviews of the same request both pass their checks before
  either has written, both are answered with 200, although no transition leads from the first decision to
  the second, and the request ends with the second decision.
\<close>

theorem concurrent_reviews_both_succeed:
  assumes "review_check cfg idA bodyA pA w = (Inr ra, w1)" and "review_check cfg idB bodyB pB w1 = (Inr rb, w2)"
    and "rv_id rb = rv_id ra" and "faults w2 = []" and "find_request (rv_id ra) (db w) = Some row"
    and "cr_owner_iss row \<noteq> []" and "cr_owner_sub row \<noteq> []"
    and "GetIss (rv_principal ra) \<noteq> []" and "GetSub (rv_principal ra) \<noteq> []"
    and "GetIss (rv_principal rb) \<noteq> []" and "GetSub (rv_principal rb) \<noteq> []"
  shows "\<exists>ja jb w3 w4. review_commit ra w2 = (JSON 200 ja, w3) \<and> review_commit rb w3 = (JSON 200 jb, w4) \<and>
           find_request (rv_id ra) (db w3) = Some (row\<lparr>cr_status := rv_status ra\<rparr>) \<and>
           \<not> CanTransitionTo (rv_status ra) (rv_status rb) \<and>
           find_request (rv_id ra) (db w4) = Some (row\<lparr>cr_status := rv_status rb\<rparr>)"
proof -
  note ca = review_check_passed [OF assms(1)] and cb = review_check_passed [OF assms(2)]
  have w2: "db w2 = db w" and st: "CanTransitionTo StatusAwaitingReview (rv_status ra)" "CanTransitionTo StatusAwaitingReview (rv_status rb)"
    using ca cb by (auto simp: review_allowed_def)
  obtain ja w3 where a: "review_commit ra w2 = (JSON 200 ja, w3)" "faults w3 = []"
    "find_request (rv_id ra) (db w3) = Some (row\<lparr>cr_status := rv_status ra\<rparr>)"
    using review_commit_no_faults [of w2 ra row] assms w2 by auto
  obtain jb w4 where b: "review_commit rb w3 = (JSON 200 jb, w4)"
    "find_request (rv_id ra) (db w4) = Some (row\<lparr>cr_status := rv_status rb\<rparr>)"
    using review_commit_no_faults [of w3 rb "row\<lparr>cr_status := rv_status ra\<rparr>"] assms a by auto
  have "\<not> CanTransitionTo (rv_status ra) (rv_status rb)"
    using st by (auto simp: CanTransitionTo_def validTransitions_def)
  with a b show ?thesis by blast
qed

text \<open>Witness: one administrator approves while another rejects.\<close>

theorem concurrent_reviews_both_succeed_witness:
  "\<exists>ra rb ja jb w3 w4.
     review_check example_config ''1'' (Inr approve_body) (Some (PUser example_user)) review_ctx = (Inr ra, review_ctx) \<and>
     review_check example_config ''1'' (Inr reject_body) (Some (PUser example_user)) review_ctx = (Inr rb, review_ctx) \<and>
     review_commit ra review_ctx = (JSON 200 ja, w3) \<and> review_commit rb w3 = (JSON 200 jb, w4) \<and>
     map cr_status (t_cert_requests (db w4)) \<noteq> [StatusApproved]"
proof -
  have "is_review_status (cert_status_of (strings_TrimSpace (rb_new_status approve_body)))"
    "is_review_status (cert_status_of (strings_TrimSpace (rb_new_status reject_body)))"
    by (simp_all add: example_bodies is_review_status_def)
  note a = example_check [OF this(1)] and b = example_check [OF this(2)]
  obtain ja jb w3 w4 where c: "review_commit \<lparr>rv_principal = PUser example_user, rv_id = 1, rv_status = StatusApproved,
        rv_notes = rb_review_notes approve_body\<rparr> review_ctx = (JSON 200 ja, w3)"
    "review_commit \<lparr>rv_principal = PUser example_user, rv_id = 1, rv_status = StatusRejected,
        rv_notes = rb_review_notes reject_body\<rparr> w3 = (JSON 200 jb, w4)"
    "find_request 1 (db w4) = Some (example_request_row\<lparr>cr_status := StatusRejected\<rparr>)"
    using concurrent_reviews_both_succeed [OF a b, of example_request_row]
    by (auto simp: example_bodies review_ctx_db example_request_row_def example_user_def)
  have "map cr_status (t_cert_requests (db w4)) \<noteq> [StatusApproved]"
  proof
    assume "map cr_status (t_cert_requests (db w4)) = [StatusApproved]"
    then obtain q where "t_cert_requests (db w4) = [q]" "cr_status q = StatusApproved" by auto
    with c(3) show False by (auto simp: find_request_def split: if_splits)
  qed
  with a b c show ?thesis unfolding example_bodies by blast
qed

end
