(* ===== verification/Net_Addr.thy ===== *)
theory Net_Addr
  imports Prelude
begin

text \<open>
  What the source uses of Go's \<open>net\<close> package: \<open>ParseIP\<close>, \<open>IP.String\<close>, \<open>SplitHostPort\<close> and
  \<open>JoinHostPort\<close>, and on them \<open>internal/middlewares/client_ip.go\<close>. An address is the list of its eight
  16-bit groups; an IPv4 address is mapped into the last two, as in Go's 16-byte form.
\<close>

section \<open>Reading an address\<close>

type_synonym ip = "nat list"

definition ipv4_field :: "string \<Rightarrow> nat option" where
  "ipv4_field f =
     (if f = [] \<or> (hd f = CHR ''0'' \<and> 1 < length f) then None
      else (case read_digits 0 f of None \<Rightarrow> None | Some n \<Rightarrow> if n \<le> 255 then Some n else None))"

definition parse_ipv4 :: "string \<Rightarrow> nat list option" where
  "parse_ipv4 s =
     (case map ipv4_field (strings_Split (CHR ''.'') s) of
        [Some a, Some b, Some c, Some d] \<Rightarrow> Some [256 * a + b, 256 * c + d]
      | _ \<Rightarrow> None)"

definition hex_val :: "char \<Rightarrow> nat option" where
  "hex_val c =
     (let n = (of_char c :: nat) in
      if 48 \<le> n \<and> n \<le> 57 then Some (n - 48)
      else if 97 \<le> n \<and> n \<le> 102 then Some (n - 87)
      else if 65 \<le> n \<and> n \<le> 70 then Some (n - 55) else None)"

definition is_hex :: "char \<Rightarrow> bool" where
  "is_hex c \<longleftrightarrow> hex_val c \<noteq> None"

fun read_hex :: "nat \<Rightarrow> string \<Rightarrow> nat" where
  "read_hex acc [] = acc"
| "read_hex acc (c # cs) = read_hex (16 * acc + (case hex_val c of None \<Rightarrow> 0 | Some d \<Rightarrow> d)) cs"

text \<open>The groups read so far, and the position of \<open>::\<close> among them, filled up to eight.\<close>

definition expand_ellipsis :: "nat list \<Rightarrow> nat option \<Rightarrow> ip option" where
  "expand_ellipsis g e =
     (case e of
        None \<Rightarrow> if length g = 8 then Some g else None
      | Some k \<Rightarrow> if length g < 8 then Some (take k g @ replicate (8 - length g) 0 @ drop k g) else None)"

function parse_groups :: "nat list \<Rightarrow> nat option \<Rightarrow> string \<Rightarrow> ip option" where
  "parse_groups g e s =
     (if 8 \<le> length g then (if s = [] then expand_ellipsis g e else None)
      else
        (let h = takeWhile is_hex s; r = dropWhile is_hex s in
         if h = [] \<or> 4 < length h then None
         else (case r of
             [] \<Rightarrow> expand_ellipsis (g @ [read_hex 0 h]) e
           | c # t \<Rightarrow>
               if c = CHR ''.''
               then (if (e = None \<and> length g \<noteq> 6) \<or> 6 < length g then None
                     else (case parse_ipv4 s of None \<Rightarrow> None | Some v \<Rightarrow> expand_ellipsis (g @ v) e))
               else if c \<noteq> CHR '':'' \<or> t = [] then None
               else if hd t = CHR '':''
                 then (if e \<noteq> None then None
                       else if tl t = [] then expand_ellipsis (g @ [read_hex 0 h]) (Some (length g + 1))
                       else parse_groups (g @ [read_hex 0 h]) (Some (length g + 1)) (tl t))
               else parse_groups (g @ [read_hex 0 h]) e t)))"
  by pat_completeness auto
termination by (relation "measure (\<lambda>(g, e, s). 8 - length g)") auto

declare parse_groups.simps [simp del]

definition ParseIP :: "string \<Rightarrow> ip option" where
  "ParseIP s =
     (case dropWhile (\<lambda>c. c \<notin> {CHR ''.'', CHR '':'', CHR ''%''}) s of
        [] \<Rightarrow> None
      | c # _ \<Rightarrow>
          if c = CHR ''.'' then map_option (\<lambda>v. [0, 0, 0, 0, 0, 65535] @ v) (parse_ipv4 s)
          else if CHR ''%'' \<in> set s then None
          else if prefix ''::'' s
            then (if drop 2 s = [] then Some (replicate 8 0) else parse_groups [] (Some 0) (drop 2 s))
          else parse_groups [] None s)"

section \<open>Writing an address\<close>

definition hex_char :: "nat \<Rightarrow> char" where
  "hex_char d = (if d < 10 then char_of (48 + d) else char_of (87 + d))"

fun show_hex :: "nat \<Rightarrow> string" where
  "show_hex n = (if n < 16 then [hex_char n] else show_hex (n div 16) @ [hex_char (n mod 16)])"

declare show_hex.simps [simp del]

fun join :: "char \<Rightarrow> string list \<Rightarrow> string" where
  "join c [] = []"
| "join c [x] = x"
| "join c (x # y # xs) = x @ c # join c (y # xs)"

definition zero_run :: "ip \<Rightarrow> nat \<Rightarrow> nat" where
  "zero_run g i = length (takeWhile (\<lambda>x. x = 0) (drop i g))"

text \<open>The first of the longest runs of at least two zero groups: where it starts and its length.\<close>

definition longest_zeros :: "ip \<Rightarrow> nat \<times> nat" where
  "longest_zeros g =
     foldl (\<lambda>(s, l) i. if 2 \<le> zero_run g i \<and> l < zero_run g i then (i, zero_run g i) else (s, l)) (8, 0) [0..<8]"

definition groups_text :: "nat list \<Rightarrow> string" where
  "groups_text g = join (CHR '':'') (map show_hex g)"

definition is_v4 :: "ip \<Rightarrow> bool" where
  "is_v4 g \<longleftrightarrow> take 6 g = [0, 0, 0, 0, 0, 65535]"

definition IP_String :: "ip \<Rightarrow> string" where
  "IP_String g =
     (if is_v4 g
      then join (CHR ''.'') (map show_nat [g ! 6 div 256, g ! 6 mod 256, g ! 7 div 256, g ! 7 mod 256])
      else (let (s, l) = longest_zeros g in
            if l = 0 then groups_text g else groups_text (take s g) @ ''::'' @ groups_text (drop (s + l) g)))"

section \<open>Host and port\<close>

text \<open>\<open>net.SplitHostPort\<close>: the port starts after the last colon.\<close>

definition last_colon :: "string \<Rightarrow> (string \<times> string) option" where
  "last_colon s =
     (if CHR '':'' \<in> set s
      then Some (rev (tl (dropWhile (\<lambda>c. c \<noteq> CHR '':'') (rev s))), rev (takeWhile (\<lambda>c. c \<noteq> CHR '':'') (rev s)))
      else None)"

definition addr_error :: "string \<Rightarrow> string \<Rightarrow> goerror" where
  "addr_error s why = Errorf (''address '' @ s @ '': '' @ why)"

definition SplitHostPort :: "string \<Rightarrow> (string \<times> string) result" where
  "SplitHostPort s =
     (case last_colon s of
        None \<Rightarrow> Inl (addr_error s ''missing port in address'')
      | Some (front, port) \<Rightarrow>
          if hd s = CHR ''[''
          then (let host = takeWhile (\<lambda>c. c \<noteq> CHR '']'') (tl s); rest = dropWhile (\<lambda>c. c \<noteq> CHR '']'') (tl s) in
                if rest = [] then Inl (addr_error s ''missing closing bracket in address'')
                else if tl rest = [] then Inl (addr_error s ''missing port in address'')
                else if front \<noteq> CHR ''['' # host @ [CHR '']'']
                  then Inl (addr_error s (if hd (tl rest) = CHR '':'' then ''too many colons in address'' else ''missing port in address''))
                else if CHR ''['' \<in> set (tl s) then Inl (addr_error s ''unexpected opening bracket in address'')
                else if CHR '']'' \<in> set (tl rest) then Inl (addr_error s ''unexpected closing bracket in address'')
                else Inr (host, port))
          else if CHR '':'' \<in> set front then Inl (addr_error s ''too many colons in address'')
          else if CHR ''['' \<in> set s then Inl (addr_error s ''unexpected opening bracket in address'')
          else if CHR '']'' \<in> set s then Inl (addr_error s ''unexpected closing bracket in address'')
          else Inr (front, port))"

definition JoinHostPort :: "string \<Rightarrow> string \<Rightarrow> string" where
  "JoinHostPort host port =
     (if CHR '':'' \<in> set host then CHR ''['' # host @ '']:'' @ port else host @ CHR '':'' # port)"

section \<open>Reading what was written\<close>

lemma hex_val_char [simp]: "d < 16 \<Longrightarrow> hex_val (hex_char d) = Some d"
  by (auto simp: hex_val_def hex_char_def Let_def)

lemma is_hex_char [simp]: "d < 16 \<Longrightarrow> is_hex (hex_char d)"
  by (simp add: is_hex_def)

lemma read_hex_append: "read_hex acc (s @ t) = read_hex (read_hex acc s) t"
  by (induction acc s rule: read_hex.induct) auto

lemma show_hex_properties:
  "show_hex n \<noteq> [] \<and> read_hex 0 (show_hex n) = n \<and> list_all is_hex (show_hex n) \<and>
   (\<forall>k. n < 16 ^ Suc k \<longrightarrow> length (show_hex n) \<le> Suc k)"
proof (induction n rule: show_hex.induct)
  case (1 n)
  show ?case
  proof (cases "n < 16")
    case False
    have "length (show_hex (n div 16)) \<le> k" if "n < 16 ^ Suc k" for k
      using that 1 [OF False] False by (cases k) (auto simp: less_mult_imp_div_less mult.commute)
    with False 1 show ?thesis
      by (subst (1 2 3 4) show_hex.simps) (simp add: read_hex_append)
  qed (subst (1 2 3 4) show_hex.simps, simp)
qed

lemmas show_hex_not_Nil [simp] = show_hex_properties [THEN conjunct1]
lemmas read_show_hex [simp] = show_hex_properties [THEN conjunct2, THEN conjunct1]

lemma show_hex_is_hex: "c \<in> set (show_hex n) \<Longrightarrow> is_hex c"
  using show_hex_properties [of n] by (auto simp: list_all_iff)

lemma length_show_hex: "n < 65536 \<Longrightarrow> length (show_hex n) \<le> 4"
  using show_hex_properties [of n] by (auto dest: spec [of _ 3])

lemma not_is_hex [simp]: "\<not> is_hex (CHR '':'')" "\<not> is_hex (CHR ''.'')" "\<not> is_hex (CHR ''%'')" "\<not> is_hex (CHR ''['')" "\<not> is_hex (CHR '']'')"
  by (simp_all add: is_hex_def hex_val_def)

lemma hex_word [simp]:
  "takeWhile is_hex (show_hex x) = show_hex x" "dropWhile is_hex (show_hex x) = []"
  "takeWhile is_hex (show_hex x @ CHR '':'' # t) = show_hex x"
  "dropWhile is_hex (show_hex x @ CHR '':'' # t) = CHR '':'' # t"
  by (simp_all add: show_hex_is_hex takeWhile_append2 dropWhile_append2)

lemma parse_group:
  assumes "length g < 8" and "x < 65536"
  shows "parse_groups g e (show_hex x) = expand_ellipsis (g @ [x]) e"
    and "t \<noteq> [] \<Longrightarrow> hd t \<noteq> CHR '':'' \<Longrightarrow> parse_groups g e (show_hex x @ CHR '':'' # t) = parse_groups (g @ [x]) e t"
    and "parse_groups g None (show_hex x @ CHR '':'' # CHR '':'' # t) =
           (if t = [] then expand_ellipsis (g @ [x]) (Some (Suc (length g))) else parse_groups (g @ [x]) (Some (Suc (length g))) t)"
  using assms length_show_hex [of x] by (subst parse_groups.simps, simp)+

lemma groups_text_Cons: "groups_text (x # xs) = show_hex x @ (if xs = [] then [] else CHR '':'' # groups_text xs)"
  by (cases xs) (simp_all add: groups_text_def)

lemma groups_text_Nil [simp]: "groups_text [] = []"
  by (simp add: groups_text_def)

lemma groups_text_hd: "xs \<noteq> [] \<Longrightarrow> groups_text xs \<noteq> [] \<and> is_hex (hd (groups_text xs))"
  by (cases xs) (simp_all add: groups_text_Cons show_hex_is_hex [OF hd_in_set])

lemma groups_text_colon: "xs \<noteq> [] \<Longrightarrow> hd (groups_text xs @ t) \<noteq> CHR '':''"
  using groups_text_hd [of xs] by auto

lemma parse_groups_text:
  assumes "xs \<noteq> []" and "length g + length xs \<le> 8" and "\<forall>x \<in> set xs. x < 65536"
  shows "parse_groups g e (groups_text xs) = expand_ellipsis (g @ xs) e"
  using assms
proof (induction xs arbitrary: g)
  case (Cons x xs)
  then show ?case
    using groups_text_hd [of xs] groups_text_colon [of xs "[]"] by (cases "xs = []") (auto simp: groups_text_Cons parse_group)
qed simp

lemma parse_groups_text_ellipsis:
  assumes "xs \<noteq> []" and "length g + length xs \<le> 8" and "\<forall>x \<in> set xs. x < 65536"
  shows "parse_groups g None (groups_text xs @ CHR '':'' # CHR '':'' # t) =
    (if t = [] then expand_ellipsis (g @ xs) (Some (length (g @ xs))) else parse_groups (g @ xs) (Some (length (g @ xs))) t)"
  using assms
proof (induction xs arbitrary: g)
  case (Cons x xs)
  then show ?case
    using groups_text_hd [of xs] groups_text_colon [of xs] by (cases "xs = []") (auto simp: groups_text_Cons parse_group)
qed simp

definition valid_ip :: "ip \<Rightarrow> bool" where
  "valid_ip g \<longleftrightarrow> length g = 8 \<and> (\<forall>x \<in> set g. x < 65536)"

lemma foldl_invariant: "P a \<Longrightarrow> (\<And>a x. P a \<Longrightarrow> P (f a x)) \<Longrightarrow> P (foldl f a xs)"
  by (induction xs arbitrary: a) auto

lemma longest_zeros_run:
  assumes "longest_zeros g = (s, l)"
  shows "l = 0 \<or> (2 \<le> l \<and> l = zero_run g s)"
proof -
  have "case longest_zeros g of (s, l) \<Rightarrow> l = 0 \<or> (2 \<le> l \<and> l = zero_run g s)"
    unfolding longest_zeros_def by (rule foldl_invariant) (auto split: prod.splits)
  with assms show ?thesis
    by simp
qed

lemma zero_run_split:
  "g = take s g @ replicate (zero_run g s) 0 @ drop (s + zero_run g s) g"
proof -
  have "takeWhile (\<lambda>x. x = 0) (drop s g) = replicate (zero_run g s) 0"
    unfolding zero_run_def by (rule replicate_eqI) (auto dest: set_takeWhileD)
  then have "drop s g = replicate (zero_run g s) 0 @ drop (zero_run g s) (drop s g)"
    by (metis append_take_drop_id zero_run_def takeWhile_eq_take)
  then show ?thesis
    by (metis add.commute append_take_drop_id drop_drop)
qed

lemma ParseIP_groups:
  assumes "\<forall>c \<in> set s. is_hex c \<or> c = CHR '':''" and "CHR '':'' \<in> set s"
  shows "ParseIP s = (if prefix ''::'' s then (if drop 2 s = [] then Some (replicate 8 0) else parse_groups [] (Some 0) (drop 2 s))
                      else parse_groups [] None s)"
proof -
  let ?p = "\<lambda>c. c \<notin> {CHR ''.'', CHR '':'', CHR ''%''}"
  obtain c t where d: "dropWhile ?p s = c # t"
    using assms(2) by (cases "dropWhile ?p s") (auto simp: dropWhile_eq_Nil_conv)
  then have "\<not> ?p c" and "c \<in> set s"
    using hd_dropWhile [of ?p s] set_dropWhileD [of c ?p s] by auto
  then have "c = CHR '':''" and "CHR ''%'' \<notin> set s"
    using assms(1) by auto
  with d show ?thesis
    by (simp add: ParseIP_def)
qed

lemma groups_text_chars: "c \<in> set (groups_text xs) \<Longrightarrow> is_hex c \<or> c = CHR '':''"
proof (induction xs)
  case Nil
  then show ?case
    by (simp add: groups_text_def)
next
  case (Cons x xs)
  then show ?case
    by (auto simp: groups_text_Cons dest: show_hex_is_hex split: if_splits)
qed

lemma groups_text_no_prefix: "xs \<noteq> [] \<Longrightarrow> \<not> prefix ''::'' (groups_text xs @ t)"
  using groups_text_hd [of xs] by (cases "groups_text xs") auto

lemma ParseIP_v6_text:
  assumes "valid_ip g" and "\<not> is_v4 g"
  shows "ParseIP (IP_String g) = Some g"
proof -
  obtain s l where sl: "longest_zeros g = (s, l)"
    by (cases "longest_zeros g")
  have g: "length g = 8" "\<forall>x \<in> set g. x < 65536" "g \<noteq> []"
    using assms(1) by (auto simp: valid_ip_def)
  show ?thesis
  proof (cases "l = 0")
    case True
    then have "IP_String g = groups_text g"
      using assms(2) sl by (simp add: IP_String_def)
    moreover have "CHR '':'' \<in> set (groups_text g)"
      using g(1) by (cases g rule: remdups_adj.cases) (auto simp: groups_text_Cons)
    moreover have "parse_groups [] None (groups_text g) = Some g"
      using g by (simp add: parse_groups_text expand_ellipsis_def)
    ultimately show ?thesis
      using groups_text_no_prefix [of g "[]"] g(3) by (simp add: ParseIP_groups groups_text_chars)
  next
    case False
    define xs ys where "xs = take s g" and "ys = drop (s + l) g"
    from False sl longest_zeros_run have l: "2 \<le> l" "l = zero_run g s"
      by auto
    then have split: "g = xs @ replicate l 0 @ ys"
      using zero_run_split [of g s] by (simp add: xs_def ys_def)
    then have len: "length xs + l + length ys = 8"
      using arg_cong [OF split, of length] g(1) by simp
    have small: "\<forall>x \<in> set xs. x < 65536" "\<forall>x \<in> set ys. x < 65536"
      using g(2) by (auto simp: xs_def ys_def dest: in_set_takeD in_set_dropD)
    have shown: "IP_String g = groups_text xs @ CHR '':'' # CHR '':'' # groups_text ys"
      using assms(2) sl False by (simp add: IP_String_def xs_def ys_def)
    have chars: "\<forall>c \<in> set (IP_String g). is_hex c \<or> c = CHR '':''" "CHR '':'' \<in> set (IP_String g)"
      unfolding shown using groups_text_chars by auto
    have fill: "expand_ellipsis (xs @ ys) (Some (length xs)) = Some g"
      using len l(1) split by (simp add: expand_ellipsis_def)
    have rest: "ys \<noteq> [] \<Longrightarrow> parse_groups xs (Some (length xs)) (groups_text ys) = Some g"
      using fill len small by (simp add: parse_groups_text)
    show ?thesis
    proof (cases "xs = []")
      case True
      then show ?thesis
        unfolding ParseIP_groups [OF chars] unfolding shown using rest fill groups_text_hd [of ys] split len
        by (cases "ys = []") auto
    next
      case False
      then have "parse_groups [] None (IP_String g) = Some g"
        unfolding shown using rest fill groups_text_hd [of ys] len small
        by (cases "ys = []") (auto simp: parse_groups_text_ellipsis)
      with False show ?thesis
        unfolding ParseIP_groups [OF chars] using groups_text_no_prefix [of xs] by (simp add: shown)
    qed
  qed
qed

lemma ipv4_field_show: "n \<le> 255 \<Longrightarrow> ipv4_field (show_nat n) = Some n"
proof -
  have lead: "hd (show_nat n) = CHR ''0'' \<Longrightarrow> length (show_nat n) \<le> 1" for n
  proof (induction n rule: show_nat.induct)
    case (1 n)
    show ?case
    proof (cases "n < 10")
      case False
      with 1 have "hd (show_nat (n div 10)) = CHR ''0'' \<Longrightarrow> n div 10 = 0"
        using read_show_nat [of "n div 10"] by (cases "show_nat (n div 10)") (auto simp: digit_val_def)
      with 1 (2) False show ?thesis
        by (simp add: show_nat.simps [of n])
    qed (simp add: show_nat.simps [of n])
  qed
  assume "n \<le> 255"
  then show ?thesis
    using lead [of n] by (auto simp: ipv4_field_def read_show_nat)
qed

lemma show_nat_chars: "c \<in> set (show_nat n) \<Longrightarrow> is_hex c \<and> c \<noteq> CHR ''.'' \<and> c \<noteq> CHR '':'' \<and> c \<noteq> CHR ''%''"
  using digit_val_show_nat [of c n] by (auto simp: digit_val_def is_hex_def hex_val_def Let_def split: if_splits)

lemma parse_ipv4_text:
  assumes "a \<le> 255" "b \<le> 255" "c \<le> 255" "d \<le> 255"
  shows "parse_ipv4 (join (CHR ''.'') (map show_nat [a, b, c, d])) = Some [256 * a + b, 256 * c + d]"
proof -
  have "CHR ''.'' \<notin> set (show_nat n)" for n
    using show_nat_chars by blast
  then show ?thesis
    using assms by (simp add: parse_ipv4_def strings_Split_append strings_Split_no_sep ipv4_field_show)
qed

lemma ParseIP_v4_text:
  assumes "valid_ip g" and "is_v4 g"
  shows "ParseIP (IP_String g) = Some g"
proof -
  have "length g = 8"
    using assms(1) by (simp add: valid_ip_def)
  then have "drop 6 g = [g ! 6, g ! 7]"
    using Cons_nth_drop_Suc [of 6 g] Cons_nth_drop_Suc [of 7 g] by simp
  then have g: "g = [0, 0, 0, 0, 0, 65535, g ! 6, g ! 7]"
    using assms(2) append_take_drop_id [of 6 g] by (simp add: is_v4_def)
  then have small: "g ! 6 < 65536" "g ! 7 < 65536"
    using \<open>length g = 8\<close> assms(1) by (simp_all add: valid_ip_def)
  define t where "t = join (CHR ''.'') (map show_nat [g ! 6 div 256, g ! 6 mod 256, g ! 7 div 256, g ! 7 mod 256])"
  have "dropWhile (\<lambda>c. c \<notin> {CHR ''.'', CHR '':'', CHR ''%''}) t =
      CHR ''.'' # join (CHR ''.'') (map show_nat [g ! 6 mod 256, g ! 7 div 256, g ! 7 mod 256])"
    unfolding t_def by (simp add: dropWhile_append2 show_nat_chars)
  moreover have "parse_ipv4 t = Some [g ! 6, g ! 7]"
    using small parse_ipv4_text [of "g ! 6 div 256" "g ! 6 mod 256" "g ! 7 div 256" "g ! 7 mod 256"] by (simp add: t_def)
  ultimately have "ParseIP t = Some g"
    using g [symmetric] by (simp add: ParseIP_def)
  moreover have "IP_String g = t"
    using assms(2) by (simp add: IP_String_def t_def)
  ultimately show ?thesis
    by simp
qed

text \<open>\<open>ParseIP\<close> reads the text \<open>String\<close> writes, and gives back the address.\<close>

lemma ParseIP_IP_String: "valid_ip g \<Longrightarrow> ParseIP (IP_String g) = Some g"
  using ParseIP_v4_text ParseIP_v6_text by blast

lemma IP_String_chars: "c \<in> set (IP_String g) \<Longrightarrow> is_hex c \<or> c = CHR '':'' \<or> c = CHR ''.''"
  unfolding IP_String_def
  by (auto simp: Let_def dest: show_nat_chars groups_text_chars split: if_splits prod.splits)

lemma IP_String_not_Nil: "valid_ip g \<Longrightarrow> IP_String g \<noteq> []"
  using ParseIP_IP_String [of g] by (auto simp: ParseIP_def)

section \<open>Parsed addresses are valid\<close>

lemma ipv4_field_le: "ipv4_field f = Some n \<Longrightarrow> n \<le> 255"
  by (auto simp: ipv4_field_def split: if_splits option.splits)

lemma parse_ipv4_valid: "parse_ipv4 s = Some v \<Longrightarrow> length v = 2 \<and> (\<forall>x \<in> set v. x < 65536)"
  by (fastforce simp: parse_ipv4_def map_eq_Cons_conv dest: ipv4_field_le split: list.splits option.splits)

lemma expand_ellipsis_valid:
  "expand_ellipsis g e = Some i \<Longrightarrow> \<forall>x \<in> set g. x < 65536 \<Longrightarrow> valid_ip i"
  by (fastforce simp: expand_ellipsis_def valid_ip_def dest: in_set_takeD in_set_dropD split: option.splits if_splits)

lemma read_hex_less: "read_hex acc s < (acc + 1) * 16 ^ length s"
proof (induction acc s rule: read_hex.induct)
  case (2 acc c cs)
  have "(case hex_val c of None \<Rightarrow> 0 | Some d \<Rightarrow> d) < 16"
    by (auto simp: hex_val_def Let_def split: option.splits if_splits)
  then have "(16 * acc + (case hex_val c of None \<Rightarrow> 0 | Some d \<Rightarrow> d) + 1) * 16 ^ length cs \<le> (16 * acc + 16) * 16 ^ length cs"
    by (intro mult_le_mono1) linarith
  with less_le_trans [OF 2] show ?case
    by (simp add: algebra_simps)
qed simp

lemma read_hex_group: "length h \<le> 4 \<Longrightarrow> read_hex 0 h < 65536"
  using read_hex_less [of 0 h] power_increasing [of "length h" 4 "16 :: nat"] by simp

lemma parse_groups_valid:
  "parse_groups g e s = Some i \<Longrightarrow> \<forall>x \<in> set g. x < 65536 \<Longrightarrow> valid_ip i"
proof (induction g e s rule: parse_groups.induct)
  case (1 g e s)
  define h r where "h = takeWhile is_hex s" and "r = dropWhile is_hex s"
  have step: "valid_ip j"
    if "length h \<le> 4" and "expand_ellipsis (g @ [read_hex 0 h]) f = Some j" for f j
    using that 1 (4) by (auto intro!: expand_ellipsis_valid read_hex_group)
  show ?case
  proof (cases "8 \<le> length g \<or> h = [] \<or> 4 < length h \<or> r = []")
    case True
    then show ?thesis
      using 1 (3) [unfolded parse_groups.simps [of g e s]] 1 (4) step expand_ellipsis_valid [of g e i]
      by (auto simp: h_def [symmetric] r_def [symmetric] split: if_splits)
  next
    case False
    then obtain c t where r: "r = c # t"
      by (cases r) auto
    have all: "\<forall>x \<in> set (g @ [read_hex 0 h]). x < 65536"
      using False 1 (4) by (auto intro: read_hex_group)
    note IH = 1 (1,2) [OF _ h_def r_def _ r]
    show ?thesis
      using 1 (3) [unfolded parse_groups.simps [of g e s]] 1 (4) False step IH all
      by (auto simp: h_def [symmetric] r_def [symmetric] r split: if_splits option.splits
          dest!: parse_ipv4_valid elim!: expand_ellipsis_valid)
  qed
qed

lemma mapped_valid: "parse_ipv4 s = Some v \<Longrightarrow> valid_ip ([0, 0, 0, 0, 0, 65535] @ v)"
  using parse_ipv4_valid [of s v] by (auto simp: valid_ip_def)

lemma ParseIP_valid:
  assumes "ParseIP s = Some i"
  shows "valid_ip i"
proof -
  have "valid_ip (replicate 8 0)"
    by (simp add: valid_ip_def)
  moreover have "valid_ip i" if "parse_groups [] e t = Some i" for e t
    using that by (rule parse_groups_valid) simp
  moreover have "valid_ip i" if "map_option (\<lambda>v. [0, 0, 0, 0, 0, 65535] @ v) (parse_ipv4 s) = Some i"
    using that mapped_valid by (cases "parse_ipv4 s") auto
  ultimately show ?thesis
    using assms unfolding ParseIP_def by (simp split: list.splits if_splits)
qed

section \<open>Host and port\<close>

lemma SplitHostPort_Join:
  assumes "CHR ''['' \<notin> set h" and "CHR '']'' \<notin> set h" and "CHR ''['' \<notin> set p" and "CHR '']'' \<notin> set p" and "CHR '':'' \<notin> set p"
  shows "SplitHostPort (JoinHostPort h p) = Inr (h, p)"
proof -
  have "c \<in> set p \<Longrightarrow> c \<noteq> CHR '':''" for c
    using assms(5) by blast
  then have last: "last_colon (s @ CHR '':'' # p) = Some (s, p)" for s
    using takeWhile_append2 [of "rev p" "\<lambda>c. c \<noteq> CHR '':''" "CHR '':'' # rev s"]
      dropWhile_append2 [of "rev p" "\<lambda>c. c \<noteq> CHR '':''" "CHR '':'' # rev s"]
    by (simp add: last_colon_def)
  show ?thesis
  proof (cases "CHR '':'' \<in> set h")
    case True
    have "c \<in> set h \<Longrightarrow> c \<noteq> CHR '']''" for c
      using assms(2) by blast
    then have "takeWhile (\<lambda>c. c \<noteq> CHR '']'') (h @ CHR '']'' # CHR '':'' # p) = h"
         "dropWhile (\<lambda>c. c \<noteq> CHR '']'') (h @ CHR '']'' # CHR '':'' # p) = CHR '']'' # CHR '':'' # p"
      by (simp_all add: takeWhile_append2 dropWhile_append2)
    with True assms show ?thesis
      using last [of "CHR ''['' # h @ [CHR '']'']"] by (simp add: JoinHostPort_def SplitHostPort_def)
  next
    case False
    with assms show ?thesis
      using last [of h] by (cases h) (auto simp: JoinHostPort_def SplitHostPort_def)
  qed
qed

end
