(* ===== verification/Client_IP.thy ===== *)
theory Client_IP
  imports Net_Addr
begin

text \<open>
  \<open>internal/middlewares/client_ip.go\<close>: the middleware that replaces the remote address of a request by
  the address the proxy headers name. \<open>Header_Get\<close> is \<open>http.Header.Get\<close>: the first value of the
  header, whatever the case of its name, or the empty string.
\<close>

type_synonym headers = "(string \<times> string) list"

definition Header_Get :: "headers \<Rightarrow> string \<Rightarrow> string" where
  "Header_Get h k = (case find (\<lambda>(n, v). strings_EqualFold n k) h of None \<Rightarrow> [] | Some (n, v) \<Rightarrow> v)"

definition canonical_ip :: "string \<Rightarrow> string option" where
  "canonical_ip s = map_option IP_String (ParseIP s)"

definition header_ip :: "headers \<Rightarrow> string \<Rightarrow> string option" where
  "header_ip h name =
     (let v = Header_Get h name in if v = [] then None else canonical_ip (strings_TrimSpace v))"

definition forwarded_ip :: "headers \<Rightarrow> string option" where
  "forwarded_ip h =
     (let xff = Header_Get h ''X-Forwarded-For'' in
      if xff = [] then None else canonical_ip (strings_TrimSpace (hd (strings_Split (CHR '','') xff))))"

definition remote_ip :: "string \<Rightarrow> string option" where
  "remote_ip remote =
     (case SplitHostPort remote of Inl e \<Rightarrow> canonical_ip remote | Inr (host, port) \<Rightarrow> canonical_ip host)"

definition extractClientIP :: "headers \<Rightarrow> string \<Rightarrow> string" where
  "extractClientIP h remote =
     (case header_ip h ''True-Client-IP'' of
        Some ip \<Rightarrow> ip
      | None \<Rightarrow> (case header_ip h ''X-Real-IP'' of
          Some ip \<Rightarrow> ip
        | None \<Rightarrow> (case forwarded_ip h of
            Some ip \<Rightarrow> ip
          | None \<Rightarrow> (case remote_ip remote of Some ip \<Rightarrow> ip | None \<Rightarrow> []))))"

text \<open>The remote address the next handler sees.\<close>

definition ClientIPMiddleware :: "headers \<Rightarrow> string \<Rightarrow> string" where
  "ClientIPMiddleware h remote =
     (let clientIP = extractClientIP h remote in
      if clientIP = [] then remote
      else (case SplitHostPort remote of
          Inr (host, port) \<Rightarrow> JoinHostPort clientIP (if port \<noteq> [] then port else ''0'')
        | Inl e \<Rightarrow> JoinHostPort clientIP ''0''))"

section \<open>The address is canonical\<close>

definition canonical :: "string \<Rightarrow> bool" where
  "canonical s \<longleftrightarrow> canonical_ip s = Some s"

lemma canonical_ip_canonical: "canonical_ip s = Some t \<Longrightarrow> canonical t"
  by (auto simp: canonical_def canonical_ip_def ParseIP_IP_String dest: ParseIP_valid)

lemma canonical_chars: "canonical s \<Longrightarrow> CHR ''['' \<notin> set s \<and> CHR '']'' \<notin> set s \<and> s \<noteq> []"
proof -
  assume "canonical s"
  then obtain g where "ParseIP s = Some g" "IP_String g = s"
    by (auto simp: canonical_def canonical_ip_def)
  then show ?thesis
    using IP_String_chars [of _ g] IP_String_not_Nil [OF ParseIP_valid] not_is_hex by blast
qed

lemma found_ip_canonical:
  "header_ip h name = Some ip \<Longrightarrow> canonical ip"
  "forwarded_ip h = Some ip \<Longrightarrow> canonical ip"
  "remote_ip remote = Some ip \<Longrightarrow> canonical ip"
  by (simp_all add: header_ip_def forwarded_ip_def remote_ip_def Let_def canonical_ip_canonical split: if_splits sum.splits prod.splits)

lemma extractClientIP_canonical: "extractClientIP h remote = [] \<or> canonical (extractClientIP h remote)"
  unfolding extractClientIP_def using found_ip_canonical by (simp split: option.split)

lemma last_colon_port: "last_colon s = Some (front, p) \<Longrightarrow> CHR '':'' \<notin> set p \<and> s = front @ CHR '':'' # p"
proof -
  assume a: "last_colon s = Some (front, p)"
  let ?q = "\<lambda>c. c \<noteq> CHR '':''"
  from a have d: "dropWhile ?q (rev s) \<noteq> []" and p: "p = rev (takeWhile ?q (rev s))" and f: "front = rev (tl (dropWhile ?q (rev s)))"
    by (auto simp: last_colon_def dropWhile_eq_Nil_conv split: if_splits)
  have e: "dropWhile ?q (rev s) = CHR '':'' # tl (dropWhile ?q (rev s))"
    using d hd_dropWhile [of ?q "rev s"] by (cases "dropWhile ?q (rev s)") auto
  have "rev s = takeWhile ?q (rev s) @ CHR '':'' # tl (dropWhile ?q (rev s))"
    by (subst e [symmetric]) simp
  then have "s = rev (takeWhile ?q (rev s) @ CHR '':'' # tl (dropWhile ?q (rev s)))"
    by (simp only: rev_swap)
  then have "s = front @ CHR '':'' # p"
    unfolding f p by (simp only: rev_append rev.simps append_assoc append_Cons append_Nil)
  then show ?thesis
    using p by (auto dest: set_takeWhileD)
qed

lemma SplitHostPort_port:
  assumes "SplitHostPort s = Inr (h, p)"
  shows "CHR '':'' \<notin> set p \<and> CHR ''['' \<notin> set p \<and> CHR '']'' \<notin> set p"
proof -
  from assms obtain front where lc: "last_colon s = Some (front, p)"
    by (auto simp: SplitHostPort_def Let_def split: option.splits if_splits)
  from last_colon_port [OF lc] have s: "CHR '':'' \<notin> set p" "s = front @ CHR '':'' # p"
    by auto
  let ?rest = "dropWhile (\<lambda>c. c \<noteq> CHR '']'') (tl s)"
  show ?thesis
  proof (cases "hd s = CHR ''[''")
    case True
    with assms lc have f: "front = CHR ''['' # h @ [CHR '']'']" "CHR ''['' \<notin> set (tl s)" "CHR '']'' \<notin> set (tl ?rest)"
        "h = takeWhile (\<lambda>c. c \<noteq> CHR '']'') (tl s)"
      by (auto simp: SplitHostPort_def Let_def split: if_splits)
    have "tl s = h @ CHR '']'' # CHR '':'' # p"
      unfolding s(2) f(1) by simp
    moreover have "tl s = h @ ?rest"
      by (simp add: f(4))
    ultimately have "h @ ?rest = h @ CHR '']'' # CHR '':'' # p" and "CHR ''['' \<notin> set p"
      using f(2) by (metis, auto)
    then have "?rest = CHR '']'' # CHR '':'' # p" and "CHR ''['' \<notin> set p"
      by (simp_all only: same_append_eq) simp_all
    then show ?thesis
      using f(3) s(1) by simp
  next
    case False
    with assms lc s show ?thesis
      by (auto simp: SplitHostPort_def split: if_splits)
  qed
qed

text \<open>
  The address a handler records is the client's, in canonical form. When an address is found, the new
  remote address splits into exactly that address and a port, and parsing and printing the address gives
  it back; a valid \<open>True-Client-IP\<close> header decides it whatever the connection; when none is found the
  remote address stays.
\<close>

theorem client_ip_recorded:
  "if extractClientIP h remote = [] then ClientIPMiddleware h remote = remote
   else (\<exists>port. SplitHostPort (ClientIPMiddleware h remote) = Inr (extractClientIP h remote, port) \<and> port \<noteq> []) \<and>
        map_option IP_String (ParseIP (extractClientIP h remote)) = Some (extractClientIP h remote) \<and>
        (header_ip h ''True-Client-IP'' = None \<or> header_ip h ''True-Client-IP'' = Some (extractClientIP h remote))"
proof (cases "extractClientIP h remote = []")
  case False
  define ip where "ip = extractClientIP h remote"
  have c: "canonical ip"
    using extractClientIP_canonical [of h remote] False by (simp add: ip_def)
  have join: "SplitHostPort (JoinHostPort ip q) = Inr (ip, q)"
    if "CHR '':'' \<notin> set q" "CHR ''['' \<notin> set q" "CHR '']'' \<notin> set q" for q
    using canonical_chars [OF c] that by (simp add: SplitHostPort_Join)
  have "\<exists>port. SplitHostPort (ClientIPMiddleware h remote) = Inr (ip, port) \<and> port \<noteq> []"
  proof (cases "SplitHostPort remote")
    case (Inl e)
    then show ?thesis
      using False by (simp add: ClientIPMiddleware_def ip_def [symmetric] join)
  next
    case (Inr hp)
    obtain host port where hp: "hp = (host, port)"
      by (cases hp)
    show ?thesis
      using False Inr SplitHostPort_port [of remote host port] join [of port] join [of "''0''"]
      by (cases "port = []") (auto simp: ClientIPMiddleware_def ip_def [symmetric] hp)
  qed
  moreover have "header_ip h ''True-Client-IP'' = None \<or> header_ip h ''True-Client-IP'' = Some ip"
    by (auto simp: ip_def extractClientIP_def split: option.splits)
  ultimately show ?thesis
    using False c by (simp add: ip_def canonical_def canonical_ip_def)
qed (simp add: ClientIPMiddleware_def)

end
