(* ===== verification/Firewall_Handlers.thy ===== *)
theory Firewall_Handlers
  imports Cert_Handlers Client_IP
begin

text \<open>
  The firewall handlers of \<open>internal/handlers/handler_firewall_aliases.go\<close>: which aliases a user sees,
  listing entries, requesting an address, removing one and blacklisting one. The peer of a request is
  the remote address \<open>ClientIPMiddleware\<close> left and the user agent header.
\<close>

section \<open>Bodies\<close>

record alias_response =
  ar_name :: string
  ar_uuid :: string
  ar_description :: string
  ar_max_per_user :: int
  ar_max_total :: int
  ar_default_ttl :: "int option"

record fw_body =
  fwb_alias_name :: string
  fwb_ip_address :: string
  fwb_description :: string

datatype fw_json = AliasList "alias_response list" | EntryList "whitelist_entry list" | OneEntry whitelist_entry

record peer =
  peer_addr :: string
  peer_agent :: string

primrec wl_status_text :: "wl_status \<Rightarrow> string" where
  "wl_status_text StatusRequested = ''requested''"
| "wl_status_text StatusAdded = ''added''"
| "wl_status_text StatusRemoved = ''removed''"
| "wl_status_text StatusRemovedByAdmin = ''removed_by_admin''"
| "wl_status_text StatusBlacklistedByAdmin = ''blacklisted_by_admin''"

definition client_host :: "peer \<Rightarrow> string option" where
  "client_host pe =
     (case SplitHostPort (peer_addr pe) of
        Inl e \<Rightarrow> None | Inr (host, port) \<Rightarrow> if host = [] then None else Some host)"

definition client_agent :: "peer \<Rightarrow> string option" where
  "client_agent pe = (if peer_agent pe = [] then None else Some (peer_agent pe))"

section \<open>Listing\<close>

text \<open>\<open>int64(d.Hours())\<close>: whole hours, rounded towards zero.\<close>

definition whole_hours :: "duration \<Rightarrow> int" where
  "whole_hours d = (if 0 \<le> d then d div hour else - ((- d) div hour))"

definition alias_visible :: "config \<Rightarrow> string list \<Rightarrow> firewall_alias_config \<Rightarrow> bool" where
  "alias_visible cfg groups a =
     (al_auth_group a \<in> set groups \<and>
      (case map_of (cfg_group_scopes cfg) (al_auth_group a) of
         None \<Rightarrow> False | Some scopes \<Rightarrow> ScopeFirewallReadOwn \<in> set scopes))"

definition alias_json :: "firewall_alias_config \<Rightarrow> alias_response" where
  "alias_json a =
     \<lparr>ar_name = al_name a, ar_uuid = al_uuid a, ar_description = al_description a,
      ar_max_per_user = al_max_per_user a, ar_max_total = al_max_total a,
      ar_default_ttl = map_option whole_hours (al_default_ttl a)\<rparr>"

definition GETAvailableAliases :: "config \<Rightarrow> ('w, fw_json) app_handler" where
  "GETAvailableAliases cfg p w =
     (case p of
        None \<Rightarrow> (http_error 401, w)
      | Some q \<Rightarrow>
          if \<not> HasScope cfg q ScopeFirewallReadOwn then (http_error 403, w)
          else (case cfg_features cfg of
              None \<Rightarrow> (Panicked nil_dereference, w)
            | Some f \<Rightarrow> (JSON 200 (AliasList (map alias_json
                           (filter (alias_visible cfg (GetGroups q)) (fw_aliases (feat_firewall f))))), w)))"

definition list_entries :: "('w appctx_scheme \<Rightarrow> whitelist_entry list result \<times> 'w appctx_scheme) \<Rightarrow> ('w, fw_json) handler" where
  "list_entries m =
     try_http m (\<lambda>e. JSONError 500 ''Failed to get whitelist entries'') (\<lambda>entries. reply (JSON 200 (EntryList entries)))"

definition GETUserEntries :: "config \<Rightarrow> pg_types \<Rightarrow> query \<Rightarrow> ('w, fw_json) app_handler" where
  "GETUserEntries cfg pg qs p w =
     (case p of
        None \<Rightarrow> (http_error 401, w)
      | Some q \<Rightarrow>
          if \<not> HasScope cfg q ScopeFirewallReadOwn then (http_error 403, w)
          else (let allUsers = Query_Get qs ''all_users''; ownerSub = Query_Get qs ''owner_sub''; ownerIss = Query_Get qs ''owner_iss'' in
            if allUsers = ''1'' \<or> ownerSub \<noteq> [] \<or> ownerIss \<noteq> []
            then (if \<not> HasScope cfg q ScopeFirewallReadAll then (http_error 403, w)
                  else if allUsers = ''1'' then list_entries (GetAllWhitelistEntries pg) w
                  else if ownerSub = [] \<or> ownerIss = []
                    then (JSONError 400 ''owner_sub and owner_iss must both be provided'', w)
                  else list_entries (GetUserWhitelistEntries pg ownerIss ownerSub) w)
            else list_entries (GetUserWhitelistEntries pg (GetIss q) (GetSub q)) w))"

section \<open>Requesting an address\<close>

text \<open>
  \<open>POSTAddIPEntry\<close> in two halves: the checks with their reads, and the write with the answer. The server
  runs requests concurrently, so another request's statements may run between the halves.
\<close>

record add_request =
  aq_user :: user
  aq_alias :: firewall_alias_config
  aq_ip :: string
  aq_description :: string

definition find_alias :: "features_config \<Rightarrow> user \<Rightarrow> string \<Rightarrow> firewall_alias_config option" where
  "find_alias f u name =
     find (\<lambda>a. al_name a = name \<and> al_auth_group a \<in> set (usr_groups u)) (fw_aliases (feat_firewall f))"

definition check_limits ::
  "pg_types \<Rightarrow> add_request \<Rightarrow> 'w appctx_scheme \<Rightarrow> (fw_json response + add_request) \<times> 'w appctx_scheme" where
  "check_limits pg rq w =
     (let a = aq_alias rq in
      case IsIPBlacklisted pg (al_uuid a) (aq_ip rq) w of
        (Inl e, w1) \<Rightarrow> (Inl (JSONError 500 ''Failed to verify IP status''), w1)
      | (Inr isBlacklisted, w1) \<Rightarrow>
          if isBlacklisted then (Inl (JSONError 403 ''This IP address has been blacklisted and cannot be added''), w1)
          else (case CountUserActiveIPs pg (usr_iss (aq_user rq)) (usr_sub (aq_user rq)) (al_uuid a) w1 of
              (Inl e, w2) \<Rightarrow> (Inl (JSONError 500 ''Failed to verify IP limits''), w2)
            | (Inr userCount, w2) \<Rightarrow>
                if int userCount \<ge> al_max_per_user a
                then (Inl (JSONError 400 (''You have reached the maximum IP limit ('' @ show_int (al_max_per_user a) @ '') for this alias'')), w2)
                else (case CountTotalActiveIPs pg (al_uuid a) w2 of
                    (Inl e, w3) \<Rightarrow> (Inl (JSONError 500 ''Failed to verify alias limits''), w3)
                  | (Inr totalCount, w3) \<Rightarrow>
                      if int totalCount \<ge> al_max_total a
                      then (Inl (JSONError 400 (''This alias has reached its maximum total IP limit ('' @ show_int (al_max_total a) @ '')'')), w3)
                      else (Inr rq, w3))))"

definition add_check ::
  "config \<Rightarrow> pg_types \<Rightarrow> fw_body result \<Rightarrow> principal option \<Rightarrow> 'w appctx_scheme \<Rightarrow>
   (fw_json response + add_request) \<times> 'w appctx_scheme" where
  "add_check cfg pg body p w =
     (case p of
        None \<Rightarrow> (Inl (http_error 401), w)
      | Some q \<Rightarrow>
          if \<not> HasScope cfg q ScopeFirewallRequestOwn then (Inl (http_error 403), w)
          else (case body of
              Inl e \<Rightarrow> (Inl (JSONError 400 ''Invalid request body''), w)
            | Inr b \<Rightarrow>
                (let name = strings_TrimSpace (fwb_alias_name b); addr = strings_TrimSpace (fwb_ip_address b) in
                 if name = [] then (Inl (JSONError 400 ''alias_name is required''), w)
                 else if addr = [] then (Inl (JSONError 400 ''ip_address is required''), w)
                 else (case ParseIP addr of
                     None \<Rightarrow> (Inl (JSONError 400 ''Invalid IP address format''), w)
                   | Some parsedIP \<Rightarrow>
                       (case q of
                          PServiceAccount a \<Rightarrow> (Inl (JSONError 403 ''Firewall management is only available for user accounts''), w)
                        | PUser u \<Rightarrow>
                            (case cfg_features cfg of
                               None \<Rightarrow> (Inl (Panicked nil_dereference), w)
                             | Some f \<Rightarrow>
                                 (case find_alias f u name of
                                    None \<Rightarrow> (Inl (JSONError 403 ''You do not have access to this alias''), w)
                                  | Some al \<Rightarrow>
                                      check_limits pg \<lparr>aq_user = u, aq_alias = al, aq_ip = IP_String parsedIP,
                                        aq_description = fwb_description b\<rparr> w)))))))"

definition add_failed :: "goerror \<Rightarrow> 'j response" where
  "add_failed e =
     (if strings_Contains (error_text e) ''you already have this IP address whitelisted''
      then JSONError 409 (error_text e) else JSONError 500 ''Failed to add IP to whitelist'')"

definition add_commit :: "pg_types \<Rightarrow> peer \<Rightarrow> add_request \<Rightarrow> ('w, fw_json) handler" where
  "add_commit pg pe rq w =
     (let a = aq_alias rq; expiresAt = map_option (\<lambda>ttl. now w + ttl) (al_default_ttl a) in
      try_http (AddIPToWhitelist pg (usr_iss (aq_user rq)) (usr_sub (aq_user rq)) (al_name a) (al_uuid a) (aq_ip rq)
                  (aq_description rq) expiresAt (client_host pe) (client_agent pe))
        add_failed (\<lambda>entry. reply (JSON 201 (OneEntry entry))) w)"

definition POSTAddIPEntry :: "config \<Rightarrow> pg_types \<Rightarrow> peer \<Rightarrow> fw_body result \<Rightarrow> ('w, fw_json) app_handler" where
  "POSTAddIPEntry cfg pg pe body p w =
     (case add_check cfg pg body p w of (Inl r, w') \<Rightarrow> (r, w') | (Inr rq, w') \<Rightarrow> add_commit pg pe rq w')"

section \<open>Removing and blacklisting\<close>

text \<open>The \<open>id\<close> of the path, with the answers of these handlers.\<close>

definition entry_id :: "string \<Rightarrow> 'j response + int" where
  "entry_id param =
     (if param = [] then Inl (JSONError 400 ''Entry ID is required'')
      else (case strconv_Atoi (strings_TrimSpace param) of
          Inl e \<Rightarrow> Inl (JSONError 400 ''Invalid entry ID'') | Inr i \<Rightarrow> Inr i))"

definition is_removed :: "wl_status \<Rightarrow> bool" where
  "is_removed s \<longleftrightarrow> s = StatusRemoved \<or> s = StatusRemovedByAdmin \<or> s = StatusBlacklistedByAdmin"

definition DELETERemoveIPEntry :: "config \<Rightarrow> pg_types \<Rightarrow> peer \<Rightarrow> string \<Rightarrow> ('w, fw_json) app_handler" where
  "DELETERemoveIPEntry cfg pg pe idParam p w =
     (case p of
        None \<Rightarrow> (http_error 401, w)
      | Some q \<Rightarrow>
          if \<not> HasScope cfg q ScopeFirewallRevokeOwn \<and> \<not> HasScope cfg q ScopeFirewallRevokeAll then (http_error 403, w)
          else (case entry_id idParam of
              Inl r \<Rightarrow> (r, w)
            | Inr entryID \<Rightarrow>
                try_http (GetWhitelistEntryByID pg entryID) (\<lambda>e. JSONError 404 ''Whitelist entry not found'')
                  (\<lambda>entry.
                     let isOwner = MatchesOwner q (fe_owner_iss entry) (fe_owner_sub entry) in
                     if \<not> isOwner \<and> \<not> HasScope cfg q ScopeFirewallRevokeAll
                     then reply (JSONError 403 ''You can only remove your own IP addresses'')
                     else if is_removed (fe_status entry)
                     then reply (JSONError 400 (''IP address is already removed (status: '' @ wl_status_text (fe_status entry) @ '')''))
                     else try_http (RemoveIPFromWhitelist pg entryID (GetIss q) (GetSub q)
                                      (if isOwner then client_host pe else None) (if isOwner then client_agent pe else None))
                            (\<lambda>e. JSONError 500 ''Failed to remove IP from whitelist'') (\<lambda>_. reply (Header 204))) w))"

text \<open>The error of decoding the optional body is ignored: \<open>body_reason\<close> is what the decoder left in the field.\<close>

definition DELETEBlacklistIPEntry :: "config \<Rightarrow> pg_types \<Rightarrow> string \<Rightarrow> string \<Rightarrow> ('w, fw_json) app_handler" where
  "DELETEBlacklistIPEntry cfg pg idParam body_reason p w =
     (case p of
        None \<Rightarrow> (http_error 401, w)
      | Some q \<Rightarrow>
          if \<not> HasScope cfg q ScopeFirewallBlacklist then (http_error 403, w)
          else (case entry_id idParam of
              Inl r \<Rightarrow> (r, w)
            | Inr entryID \<Rightarrow>
                (let reason = strings_TrimSpace body_reason in
                 try_http (GetWhitelistEntryByID pg entryID) (\<lambda>e. JSONError 404 ''Whitelist entry not found'')
                   (\<lambda>entry.
                      if fe_status entry = StatusBlacklistedByAdmin
                      then reply (JSONError 400 ''IP address is already blacklisted'')
                      else try_http (BlacklistIPAddress pg (fe_alias_uuid entry) (fe_ip entry) (GetIss q) (GetSub q) reason)
                             (\<lambda>e. JSONError 500 ''Failed to blacklist IP address'') (\<lambda>_. reply (Header 204))) w)))"

section \<open>What the storage calls leave alone\<close>

lemma reads_pure:
  assumes "\<And>t d. snd (stmt t d) = d"
  shows "reads (roundtrip stmt)"
  unfolding reads_def
proof
  fix w
  have "snd (stmt t d) = d" for t d by (rule assms)
  then obtain r where "stmt (now w) (db w) = (r, db w)"
    by (metis prod.collapse)
  then show "\<exists>fs. snd (roundtrip stmt w) = w\<lparr>faults := fs\<rparr>"
    by (auto simp: roundtrip_def pop_fault_def faults_db_swap split: option.splits)
qed

lemma reads_wl:
  "reads (IsIPBlacklisted pg uuid ip)" "reads (CountUserActiveIPs pg iss sub uuid)" "reads (CountTotalActiveIPs pg uuid)"
  "reads (GetWhitelistEntryByID pg i)" "reads (GetUserWhitelistEntries pg iss sub)" "reads (GetAllWhitelistEntries pg)"
  unfolding IsIPBlacklisted_def CountUserActiveIPs_def CountTotalActiveIPs_def GetWhitelistEntryByID_def
    GetWhitelistEventsByEntry_def GetUserWhitelistEntries_def GetAllWhitelistEntries_def
  by (auto intro!: reads_intros reads_pure simp: sql_exists_blacklisted_def with_uuid_def with_inet_def split: option.splits)

lemma framed_wl:
  "framed (AddIPToWhitelist pg iss sub an uuid ip desc ex ci ua)" "framed (RemoveIPFromWhitelist pg i iss sub ci ua)"
  "framed (BlacklistIPAddress pg uuid ip iss sub reason)"
proof -
  have dup: "framed (check_duplicate pg iss sub uuid ip)"
    unfolding framed_def
  proof
    fix w
    obtain r w1 where run: "roundtrip (sql_find_duplicate pg iss sub uuid ip) w = (r, w1)" by fastforce
    then obtain d fs where "w1 = w\<lparr>db := d, faults := fs\<rparr>" by (rule framedE [OF framed_roundtrip])
    then show "\<exists>d fs. snd (check_duplicate pg iss sub uuid ip w) = w\<lparr>db := d, faults := fs\<rparr>"
      using run by (auto simp: check_duplicate_def split: sum.splits)
  qed
  show "framed (AddIPToWhitelist pg iss sub an uuid ip desc ex ci ua)"
    unfolding AddIPToWhitelist_def add_ip_tx_def by (intro framed_intros dup reads_framed reads_wl)
  show "framed (RemoveIPFromWhitelist pg i iss sub ci ua)"
    unfolding RemoveIPFromWhitelist_def CreateWhitelistEvent_def by (intro framed_intros)
  show "framed (BlacklistIPAddress pg uuid ip iss sub reason)"
    unfolding BlacklistIPAddress_def by (intro framed_intros)
qed

lemma count_success:
  "CountUserActiveIPs pg iss sub uuid w = (Inr n, w') \<Longrightarrow> uuid_in pg uuid = Some v \<Longrightarrow>
     n = count_where (owned_active iss sub v) (t_whitelist (db w))"
  "CountTotalActiveIPs pg uuid w = (Inr n, w') \<Longrightarrow> uuid_in pg uuid = Some v \<Longrightarrow>
     n = count_where (\<lambda>r. wr_alias_uuid r = v \<and> is_active r) (t_whitelist (db w))"
  unfolding CountUserActiveIPs_def CountTotalActiveIPs_def
  by (auto elim!: try_db_InrE roundtrip_InrE ok_InrE simp: sql_count_user_def sql_count_total_def with_uuid_def)

lemma GetWhitelistEntryByID_success:
  assumes "GetWhitelistEntryByID pg i w = (Inr entry, w')"
  obtains row fs events where "find_entry i (db w) = Some row" and "wr_id row = i"
    and "entry = (scan_entry pg row)\<lparr>fe_events := events\<rparr>" and "w' = w\<lparr>faults := fs\<rparr>"
proof -
  obtain fs where w': "w' = w\<lparr>faults := fs\<rparr>" using assms by (rule readsE [OF reads_wl(4)])
  from assms obtain row events where row: "find_entry i (db w) = Some row"
    and entry: "entry = (scan_entry pg row)\<lparr>fe_events := events\<rparr>"
    by (auto simp: GetWhitelistEntryByID_def elim!: success_elims)
  from row have "wr_id row = i" by (auto simp: find_entry_def dest: find_SomeD)
  with row entry w' show thesis by (intro that)
qed

section \<open>The checks of a request\<close>

lemma check_limits_cases:
  assumes "check_limits pg rq w = (x, w')"
  obtains (refused) r fs where "x = Inl r" and "\<forall>n j. r \<noteq> JSON n j" and "w' = w\<lparr>faults := fs\<rparr>"
  | (passed) fs v a where "x = Inr rq" and "w' = w\<lparr>faults := fs\<rparr>"
      and "uuid_in pg (al_uuid (aq_alias rq)) = Some v" and "inet_in pg (aq_ip rq) = Some a" and "\<not> blacklisted v a (db w)"
      and "int (count_where (owned_active (usr_iss (aq_user rq)) (usr_sub (aq_user rq)) v) (t_whitelist (db w))) < al_max_per_user (aq_alias rq)"
      and "int (count_where (\<lambda>r. wr_alias_uuid r = v \<and> is_active r) (t_whitelist (db w))) < al_max_total (aq_alias rq)"
proof -
  obtain b w1 where bl: "IsIPBlacklisted pg (al_uuid (aq_alias rq)) (aq_ip rq) w = (b, w1)" by fastforce
  then obtain fs1 where w1: "w1 = w\<lparr>faults := fs1\<rparr>" by (rule readsE [OF reads_wl(1)])
  obtain m w2 where cu: "CountUserActiveIPs pg (usr_iss (aq_user rq)) (usr_sub (aq_user rq)) (al_uuid (aq_alias rq)) w1 = (m, w2)" by fastforce
  then obtain fs2 where w2: "w2 = w1\<lparr>faults := fs2\<rparr>" by (rule readsE [OF reads_wl(2)])
  obtain n w3 where ct: "CountTotalActiveIPs pg (al_uuid (aq_alias rq)) w2 = (n, w3)" by fastforce
  then obtain fs3 where w3: "w3 = w2\<lparr>faults := fs3\<rparr>" by (rule readsE [OF reads_wl(3)])
  note eval = assms [unfolded check_limits_def Let_def bl] and w123 = w1 w2 w3
  show thesis
  proof (cases "\<exists>r. x = Inl r")
    case True
    then obtain r where r: "x = Inl r" by blast
    have "(\<forall>n j. r \<noteq> JSON n j) \<and> w' \<in> {w1, w2, w3}"
      using eval cu ct unfolding r by (auto split: sum.splits if_splits)
    then show thesis
      using refused [OF r] w123 by auto
  next
    case False
    then obtain c t where c: "b = Inr False" "m = Inr c" "n = Inr t" "int c < al_max_per_user (aq_alias rq)"
        "int t < al_max_total (aq_alias rq)" "x = Inr rq" "w' = w3"
      using eval cu ct by (auto simp: not_le split: sum.splits if_splits)
    from bl [unfolded c] obtain v a where va: "uuid_in pg (al_uuid (aq_alias rq)) = Some v" "inet_in pg (aq_ip rq) = Some a"
        "\<not> blacklisted v a (db w)"
      by (rule IsIPBlacklisted_success) auto
    then show thesis
      using passed [of "fs3" v a] c w123 count_success(1) [OF cu [unfolded c(2)] va(1)] count_success(2) [OF ct [unfolded c(3)] va(1)]
      by simp
  qed
qed

lemma add_check_cases:
  assumes "add_check cfg pg body p w = (x, w')"
  obtains (refused) r fs where "x = Inl r" and "\<forall>n j. r \<noteq> JSON n j" and "w' = w\<lparr>faults := fs\<rparr>"
  | (passed) u b f al i fs v a where
      "x = Inr \<lparr>aq_user = u, aq_alias = al, aq_ip = IP_String i, aq_description = fwb_description b\<rparr>"
      and "p = Some (PUser u)" and "HasScope cfg (PUser u) ScopeFirewallRequestOwn" and "body = Inr b"
      and "ParseIP (strings_TrimSpace (fwb_ip_address b)) = Some i"
      and "cfg_features cfg = Some f" and "find_alias f u (strings_TrimSpace (fwb_alias_name b)) = Some al"
      and "w' = w\<lparr>faults := fs\<rparr>"
      and "uuid_in pg (al_uuid al) = Some v" and "inet_in pg (IP_String i) = Some a" and "\<not> blacklisted v a (db w)"
      and "int (count_where (owned_active (usr_iss u) (usr_sub u) v) (t_whitelist (db w))) < al_max_per_user al"
      and "int (count_where (\<lambda>r. wr_alias_uuid r = v \<and> is_active r) (t_whitelist (db w))) < al_max_total al"
proof (cases "\<exists>u b i f al. p = Some (PUser u) \<and> HasScope cfg (PUser u) ScopeFirewallRequestOwn \<and> body = Inr b \<and>
    strings_TrimSpace (fwb_alias_name b) \<noteq> [] \<and> strings_TrimSpace (fwb_ip_address b) \<noteq> [] \<and>
    ParseIP (strings_TrimSpace (fwb_ip_address b)) = Some i \<and> cfg_features cfg = Some f \<and>
    find_alias f u (strings_TrimSpace (fwb_alias_name b)) = Some al")
  case False
  then have "w' = w" and "\<exists>r. x = Inl r \<and> (\<forall>n j. r \<noteq> JSON n j)"
    using assms by (auto simp: add_check_def Let_def split: sum.splits option.splits if_splits principal.splits)
  then show thesis using refused [where fs = "faults w"] by auto
next
  case True
  then obtain u b i f al where c: "p = Some (PUser u)" "HasScope cfg (PUser u) ScopeFirewallRequestOwn" "body = Inr b"
    "strings_TrimSpace (fwb_alias_name b) \<noteq> []" "strings_TrimSpace (fwb_ip_address b) \<noteq> []"
    "ParseIP (strings_TrimSpace (fwb_ip_address b)) = Some i" "cfg_features cfg = Some f"
    "find_alias f u (strings_TrimSpace (fwb_alias_name b)) = Some al"
    by blast
  let ?rq = "\<lparr>aq_user = u, aq_alias = al, aq_ip = IP_String i, aq_description = fwb_description b\<rparr>"
  have "check_limits pg ?rq w = (x, w')"
    using assms c by (simp add: add_check_def Let_def)
  then show thesis
  proof (cases rule: check_limits_cases)
    case refused
    then show thesis by (rule that(1))
  next
    case (passed fs v a)
    then show thesis using c that(2) [of u al i b f fs v a] by simp
  qed
qed

section \<open>An addition that succeeds\<close>

lemma added_rows:
  assumes "sql_insert_entry pg iss sub an uuid ip desc ex t d = (Inr n, d1)"
    and "sql_insert_wl_event pg n iss sub ty nt ci ua t d1 = (Inr x, d')"
  obtains v a r where "uuid_in pg uuid = Some v" and "inet_in pg ip = Some a" and "t_whitelist d' = t_whitelist d @ [r]"
    and "owned_active iss sub v r" and "wr_ip r = a" and "wr_status r = StatusRequested" and "wr_expires_at r = ex"
    and "wr_id r = n" and "wr_alias_uuid r = v"
  by (rule sql_insert_entry_Inr [OF assms(1)], rule sql_insert_wl_event_Inr [OF assms(2)])
     (auto simp: owned_active_def is_active_def intro: that)

lemma add_succeeds:
  assumes "faults w = []" and "uuid_in pg uuid = Some v" and "inet_in pg ip = Some a" and "iss \<noteq> []" and "sub \<noteq> []"
    and "\<forall>x. ex = Some x \<longrightarrow> now w < x" and "\<forall>r \<in> set (t_whitelist (db w)). \<not> (owned_active iss sub v r \<and> wr_ip r = a)"
    and "\<forall>c. ci = Some c \<longrightarrow> inet_in pg c \<noteq> None" and "find_user iss sub (db w) = Some owner" and "wl_inv (db w)"
  shows "\<exists>entry w' r. AddIPToWhitelist pg iss sub an uuid ip desc ex ci ua w = (Inr entry, w') \<and> faults w' = [] \<and> now w' = now w \<and>
     t_users (db w') = t_users (db w) \<and> t_whitelist (db w') = t_whitelist (db w) @ [r] \<and> owned_active iss sub v r \<and>
     wr_ip r = a \<and> wr_alias_uuid r = v \<and> wl_inv (db w')"
proof -
  let ?n = "sq_whitelist (seqs (db w))"
  have none: "find (\<lambda>r. owned_active iss sub v r \<and> wr_ip r = a) (t_whitelist (db w)) = None"
    using assms(7) by (simp add: find_None_iff)
  have "\<not> (case ex of None \<Rightarrow> False | Some x \<Rightarrow> x \<le> now w)"
    using assms(6) by (auto split: option.splits)
  moreover have "\<not> (\<exists>r \<in> set (t_whitelist (db w)). owned_active iss sub v r \<and> wr_ip r = a)"
    using assms(7) by blast
  ultimately obtain d1 where ins: "sql_insert_entry pg iss sub an uuid ip desc ex (now w) (db w) = (Inr ?n, d1)"
    using assms(2-5) by (simp add: sql_insert_entry_def with_uuid_def with_inet_def Let_def)
  have fresh: "\<forall>r \<in> set (t_whitelist (db w)). wr_id r \<noteq> ?n"
    using assms(10) by (fastforce simp: wl_inv_def)
  have old: "find (\<lambda>r. wr_id r = ?n) (t_whitelist (db w)) = None"
    using fresh by (simp add: find_None_iff)
  have noev: "filter (\<lambda>e. we_whitelist_id e = ?n) (t_whitelist_events (db w)) = []"
    using assms(10) fresh by (auto simp: wl_inv_def filter_empty_conv)
  have d1: "find_entry ?n d1 \<noteq> None" "t_users d1 = t_users (db w)" "t_whitelist_events d1 = t_whitelist_events (db w)"
    using ins old by (auto simp: sql_insert_entry_def with_uuid_def with_inet_def Let_def find_entry_def find_append split: option.splits if_splits)
  obtain cip where "(case ci of None \<Rightarrow> Some None | Some a \<Rightarrow> (case inet_in pg a of None \<Rightarrow> None | Some v \<Rightarrow> Some (Some v))) = Some cip"
    using assms(8) by (cases ci) auto
  then obtain x d2 where ev: "sql_insert_wl_event pg ?n iss sub ''requested'' None ci ua (now w) d1 = (Inr x, d2)"
    using assms(4, 5) d1(1) by (simp add: sql_insert_wl_event_def Let_def)
  have tx: "add_ip_tx pg iss sub an uuid ip desc ex ci ua w = (Inr ?n, w\<lparr>db := d2\<rparr>)"
    using assms none ins ev by (simp add: add_ip_tx_def wl_eval)
  obtain v' a' r where r: "t_whitelist d2 = t_whitelist (db w) @ [r]" "owned_active iss sub v' r" "wr_ip r = a'" "wr_id r = ?n"
      "uuid_in pg uuid = Some v'" "inet_in pg ip = Some a'" "wr_alias_uuid r = v'"
    by (rule added_rows [OF ins ev]) auto
  obtain e where e: "t_whitelist_events d2 = t_whitelist_events (db w) @ [e]" "we_whitelist_id e = ?n" "we_actor_iss e = iss"
      "we_actor_sub e = sub" and users: "t_users d2 = t_users (db w)"
    using ev d1 by (auto simp: sql_insert_wl_event_def Let_def split: option.splits if_splits)
  have "find_entry ?n d2 = Some r"
    using r old by (simp add: find_entry_def find_append)
  moreover have "wl_events_of ?n d2 = [e]"
    using e noev by (simp add: wl_events_of_def order_desc_def)
  moreover have "actor_row d2 e = Some owner"
    using e assms(9) users by (simp add: actor_row_def find_user_def)
  ultimately have "\<exists>entry. GetWhitelistEntryByID pg ?n (w\<lparr>db := d2\<rparr>) = (Inr entry, w\<lparr>db := d2\<rparr>)"
    using assms(1) by (simp add: GetWhitelistEntryByID_def GetWhitelistEventsByEntry_def try_db_def db_query_row_eq db_query_eq
        next_fault_def pop_fault_def lift_result_def ok_def)
  moreover have "wl_inv d2"
    using wl_inv_add [OF assms(10) ins ev] .
  ultimately show ?thesis
    using tx r users assms(1-3) by (auto simp: AddIPToWhitelist_def try_db_def)
qed

section \<open>Properties\<close>

lemma removed_rows:
  assumes "RemoveIPFromWhitelist pg i iss sub ci ua w = (res, w')"
  obtains (nothing) "t_whitelist (db w') = t_whitelist (db w)" and "\<not> is_ok res"
  | (removed) "t_whitelist (db w') = upd_where (\<lambda>r. wr_id r = i) (set_removed (now w)) (t_whitelist (db w))"
proof -
  obtain q w1 where run: "roundtrip (sql_remove (\<lambda>r. wr_id r = i)) w = (q, w1)" by fastforce
  have wl: "t_whitelist (db (snd (CreateWhitelistEvent pg i iss sub ''removed'' [] ci ua w1))) = t_whitelist (db w1)"
  proof -
    have "keeps (\<lambda>d. t_whitelist d = t_whitelist (db w1)) (CreateWhitelistEvent pg i iss sub ''removed'' [] ci ua)"
      unfolding CreateWhitelistEvent_def by (intro keeps_try keeps_ok keeps_roundtrip) (auto dest: sql_insert_wl_event_frame)
    then show ?thesis by (rule keeps_snd) simp
  qed
  show thesis
  proof (cases q)
    case (Inl e)
    then have "t_whitelist (db w') = t_whitelist (db w)" "\<not> is_ok res"
      using run assms by (auto simp: RemoveIPFromWhitelist_def try_db_def roundtrip_def sql_remove_def split: option.splits if_splits prod.splits)
    then show thesis by (rule nothing)
  next
    case (Inr n)
    then have "t_whitelist (db w1) = upd_where (\<lambda>r. wr_id r = i) (set_removed (now w)) (t_whitelist (db w))"
      using run by (auto simp: roundtrip_def sql_remove_def split: option.splits if_splits prod.splits)
    moreover have "t_whitelist (db w') = t_whitelist (db w1)"
      using assms run Inr wl
      by (auto simp: RemoveIPFromWhitelist_def try_db_def fail_def ok_def split: if_splits sum.splits prod.splits)
    ultimately show thesis by (intro removed) simp
  qed
qed

text \<open>
  C8: an address gets onto the whitelist only as the rules say. When \<open>POSTAddIPEntry\<close> answers with a
  body, the status is 201, the caller is a user with the request scope and in the group of a configured
  alias of that name, and exactly one requested entry of the caller was added, for the parsed address,
  which was not blacklisted, expiring after the alias's time; and neither the caller's nor the alias's
  limit of active entries is exceeded.
\<close>

theorem firewall_request_within_limits:
  assumes "POSTAddIPEntry cfg pg pe body p w = (JSON n j, w')"
  shows "n = 201 \<and> (\<exists>u b f al i v a r. p = Some (PUser u) \<and> HasScope cfg (PUser u) ScopeFirewallRequestOwn \<and> body = Inr b \<and>
     cfg_features cfg = Some f \<and> al \<in> set (fw_aliases (feat_firewall f)) \<and>
     al_name al = strings_TrimSpace (fwb_alias_name b) \<and> al_auth_group al \<in> set (usr_groups u) \<and>
     ParseIP (strings_TrimSpace (fwb_ip_address b)) = Some i \<and> inet_in pg (IP_String i) = Some a \<and>
     uuid_in pg (al_uuid al) = Some v \<and> \<not> blacklisted v a (db w) \<and>
     t_whitelist (db w') = t_whitelist (db w) @ [r] \<and> owned_active (usr_iss u) (usr_sub u) v r \<and> wr_ip r = a \<and>
     wr_status r = StatusRequested \<and> wr_expires_at r = map_option (\<lambda>ttl. now w + ttl) (al_default_ttl al) \<and>
     int (count_where (owned_active (usr_iss u) (usr_sub u) v) (t_whitelist (db w'))) \<le> al_max_per_user al \<and>
     int (count_where (\<lambda>r. wr_alias_uuid r = v \<and> is_active r) (t_whitelist (db w'))) \<le> al_max_total al)"
proof -
  obtain x w1 where chk: "add_check cfg pg body p w = (x, w1)" by fastforce
  then show ?thesis
  proof (cases rule: add_check_cases)
    case (refused r)
    with assms chk show ?thesis by (simp add: POSTAddIPEntry_def)
  next
    case (passed u b f al i fs v a)
    let ?ex = "map_option (\<lambda>ttl. now w + ttl) (al_default_ttl al)"
    have w1: "db w1 = db w" "now w1 = now w"
      using passed(8) by simp_all
    obtain res w2 where add: "AddIPToWhitelist pg (usr_iss u) (usr_sub u) (al_name al) (al_uuid al) (IP_String i)
        (fwb_description b) ?ex (client_host pe) (client_agent pe) w1 = (res, w2)"
      by fastforce
    have post: "POSTAddIPEntry cfg pg pe body p w =
        (case res of Inl e \<Rightarrow> (if is_panic e then Panicked e else add_failed e, w2) | Inr entry \<Rightarrow> (JSON 201 (OneEntry entry), w2))"
      using chk passed(1) add w1 by (simp add: POSTAddIPEntry_def add_commit_def try_http_def reply_def split: sum.split)
    then obtain entry where res: "res = Inr entry" and w2: "w2 = w'" and n: "n = 201"
      using assms by (cases res) (auto simp: add_failed_def split: if_splits)
    from add show ?thesis
    proof (cases rule: AddIPToWhitelist_cases)
      case failed
      with res show ?thesis by simp
    next
      case (added m d1 y)
      obtain v' a' r where r: "uuid_in pg (al_uuid al) = Some v'" "inet_in pg (IP_String i) = Some a'"
          "t_whitelist (db w2) = t_whitelist (db w1) @ [r]" "owned_active (usr_iss u) (usr_sub u) v' r" "wr_ip r = a'"
          "wr_status r = StatusRequested" "wr_expires_at r = ?ex" "wr_alias_uuid r = v'"
        by (rule added_rows [OF added]) auto
      have al: "al \<in> set (fw_aliases (feat_firewall f))" "al_name al = strings_TrimSpace (fwb_alias_name b)"
          "al_auth_group al \<in> set (usr_groups u)"
        using passed(7) by (auto simp: find_alias_def dest!: find_SomeD)
      have v: "v' = v" "a' = a" using r(1, 2) passed(9, 10) by simp_all
      have "is_active r" using r(4) by (simp add: owned_active_def)
      then have "int (count_where (owned_active (usr_iss u) (usr_sub u) v) (t_whitelist (db w'))) \<le> al_max_per_user al"
        and "int (count_where (\<lambda>r. wr_alias_uuid r = v \<and> is_active r) (t_whitelist (db w'))) \<le> al_max_total al"
        using passed(12, 13) r w1 w2 v by (simp_all add: count_where_def)
      then show ?thesis
        using passed r al w1 w2 n v
        by (intro conjI exI [of _ u] exI [of _ b] exI [of _ f] exI [of _ al] exI [of _ i] exI [of _ v] exI [of _ a] exI [of _ r]) simp_all
    qed
  qed
qed


lemma entry_id_answer: "entry_id s = Inl r \<Longrightarrow> status_code r = Some 400"
  by (auto simp: entry_id_def split: if_splits sum.splits)

text \<open>
  C13: an entry is removed only by its owner or an administrator, and only while it is active. Whatever
  fails, \<open>DELETERemoveIPEntry\<close> either leaves all entries as they were and does not answer 204, or its caller
  holds the revoke-all scope, or holds revoke-own and is the owner, and exactly the one active entry named
  by the path becomes removed.
\<close>

theorem removal_is_authorized:
  assumes "DELETERemoveIPEntry cfg pg pe idParam p w = (r, w')"
  shows "(t_whitelist (db w') = t_whitelist (db w) \<and> status_code r \<noteq> Some 204) \<or>
    (\<exists>q row. p = Some q \<and> entry_id idParam = (Inr (wr_id row) :: unit response + int) \<and> find_entry (wr_id row) (db w) = Some row \<and> is_active row \<and>
       (HasScope cfg q ScopeFirewallRevokeAll \<or>
        (HasScope cfg q ScopeFirewallRevokeOwn \<and> MatchesOwner q (wr_owner_iss row) (wr_owner_sub row))) \<and>
       t_whitelist (db w') = upd_where (\<lambda>x. wr_id x = wr_id row) (set_removed (now w)) (t_whitelist (db w)))"
proof (cases "\<exists>q i. p = Some q \<and> (HasScope cfg q ScopeFirewallRevokeOwn \<or> HasScope cfg q ScopeFirewallRevokeAll) \<and> entry_id idParam = (Inr i :: fw_json response + int)")
  case False
  then have "w' = w \<and> status_code r \<noteq> Some 204"
    using assms by (auto simp: DELETERemoveIPEntry_def split: option.splits sum.splits if_splits dest!: entry_id_answer)
  then show ?thesis by simp
next
  case True
  then obtain q i where q: "p = Some q" "HasScope cfg q ScopeFirewallRevokeOwn \<or> HasScope cfg q ScopeFirewallRevokeAll"
    "entry_id idParam = (Inr i :: fw_json response + int)"
    by blast
  then have i: "entry_id idParam = (Inr i :: unit response + int)"
    by (auto simp: entry_id_def split: if_splits sum.splits)
  obtain y w1 where get: "GetWhitelistEntryByID pg i w = (y, w1)" by fastforce
  then obtain fs where w1: "w1 = w\<lparr>faults := fs\<rparr>" by (rule readsE [OF reads_wl(4)])
  show ?thesis
  proof (cases y)
    case (Inl e)
    then have "w' = w1 \<and> status_code r \<noteq> Some 204"
      using assms q get by (auto simp: DELETERemoveIPEntry_def try_http_def split: if_splits)
    with w1 show ?thesis by simp
  next
    case (Inr entry)
    obtain row events where row: "find_entry i (db w) = Some row" "wr_id row = i"
      and entry: "entry = (scan_entry pg row)\<lparr>fe_events := events\<rparr>"
      by (rule GetWhitelistEntryByID_success [OF get [unfolded Inr]])
    have fe: "fe_owner_iss entry = wr_owner_iss row" "fe_owner_sub entry = wr_owner_sub row" "fe_status entry = wr_status row"
      by (simp_all add: entry scan_entry_def)
    let ?own = "MatchesOwner q (wr_owner_iss row) (wr_owner_sub row)"
    let ?remove = "RemoveIPFromWhitelist pg i (GetIss q) (GetSub q) (if ?own then client_host pe else None) (if ?own then client_agent pe else None)"
    show ?thesis
    proof (cases "(?own \<or> HasScope cfg q ScopeFirewallRevokeAll) \<and> \<not> is_removed (wr_status row)")
      case False
      then have "w' = w1 \<and> status_code r \<noteq> Some 204"
        using assms q get Inr fe by (auto simp: DELETERemoveIPEntry_def try_http_def reply_def Let_def split: if_splits)
      with w1 show ?thesis by simp
    next
      case True
      then have act: "is_active row"
        by (cases "wr_status row") (auto simp: is_removed_def is_active_def)
      obtain z w2 where rem: "?remove w1 = (z, w2)" by fastforce
      have "(r, w') = (case z of Inl e \<Rightarrow> (if is_panic e then Panicked e else JSONError 500 ''Failed to remove IP from whitelist'', w2) | Inr _ \<Rightarrow> (Header 204, w2))"
        using assms q get Inr fe True rem by (auto simp: DELETERemoveIPEntry_def try_http_def reply_def Let_def split: sum.splits if_splits)
      then have w': "w' = w2" and z: "\<not> is_ok z \<Longrightarrow> status_code r \<noteq> Some 204"
        by (auto split: sum.splits if_splits)
      from rem show ?thesis
      proof (cases rule: removed_rows)
        case nothing
        with w' w1 z show ?thesis by simp
      next
        case removed
        then show ?thesis
          using q i row act True w' w1 by (intro disjI2 exI [of _ q] exI [of _ row]) auto
      qed
    qed
  qed
qed

lemma BlacklistIPAddress_blacklists:
  assumes "wl_inv (db w)" and "BlacklistIPAddress pg uuid ip iss sub reason w = (Inr n, w')"
    and "uuid_in pg uuid = Some u" and "inet_in pg ip = Some a"
  shows "blacklisted u a (db w')"
proof -
  obtain u' a' ids d1 k where ua: "uuid_in pg uuid = Some u'" "inet_in pg ip = Some a'"
    and ids: "ids = map wr_id (filter (\<lambda>r. wr_alias_uuid r = u' \<and> wr_ip r = a' \<and> wr_status r \<noteq> StatusBlacklistedByAdmin) (t_whitelist (db w)))"
    and n: "ids \<noteq> []" and bl: "sql_blacklist (\<lambda>r. wr_id r \<in> set ids) iss sub reason (now w) (db w) = (Inr k, d1)"
    and wl: "t_whitelist (db w') = t_whitelist d1"
    by (rule BlacklistIPAddress_success [OF assms(2)])
  from n obtain r where r: "r \<in> set (t_whitelist (db w))" "wr_alias_uuid r = u" "wr_ip r = a" "wr_id r \<in> set ids"
    using ua assms(3, 4) by (auto simp: ids filter_empty_conv)
  then have "set_blacklisted iss sub reason (now w) r \<in> set (t_whitelist (db w'))"
    using bl by (force simp: wl sql_blacklist_def set_upd_where split: if_splits)
  moreover have "wr_alias_uuid (set_blacklisted iss sub reason (now w) r) = u \<and> wr_ip (set_blacklisted iss sub reason (now w) r) = a \<and>
      wr_status (set_blacklisted iss sub reason (now w) r) = StatusBlacklistedByAdmin"
    using r by (simp add: set_blacklisted_def)
  ultimately show ?thesis unfolding blacklisted_def by blast
qed

lemma blacklist_handler_success:
  assumes "DELETEBlacklistIPEntry cfg pg idParam reason p w = (Header 204, w')"
  obtains q row fs n where "p = Some q" and "HasScope cfg q ScopeFirewallBlacklist"
    and "entry_id idParam = (Inr (wr_id row) :: fw_json response + int)" and "find_entry (wr_id row) (db w) = Some row"
    and "wr_status row \<noteq> StatusBlacklistedByAdmin"
    and "BlacklistIPAddress pg (wr_alias_uuid row) (inet_text pg (wr_ip row)) (GetIss q) (GetSub q) (strings_TrimSpace reason) (w\<lparr>faults := fs\<rparr>) = (Inr n, w')"
proof -
  have no204: "entry_id idParam \<noteq> Inl (Header 204 :: fw_json response)"
    using entry_id_answer [of idParam "Header 204 :: fw_json response"] by auto
  with assms obtain q i entry w1 n where q: "p = Some q" "HasScope cfg q ScopeFirewallBlacklist"
    "entry_id idParam = (Inr i :: fw_json response + int)" and get: "GetWhitelistEntryByID pg i w = (Inr entry, w1)"
    and st: "fe_status entry \<noteq> StatusBlacklistedByAdmin"
    and bl: "BlacklistIPAddress pg (fe_alias_uuid entry) (fe_ip entry) (GetIss q) (GetSub q) (strings_TrimSpace reason) w1 = (Inr n, w')"
    by (auto simp: DELETEBlacklistIPEntry_def try_http_def reply_def Let_def split: option.splits sum.splits if_splits prod.splits)
  from get obtain row fs events where "find_entry i (db w) = Some row" "wr_id row = i"
      "entry = (scan_entry pg row)\<lparr>fe_events := events\<rparr>" "w1 = w\<lparr>faults := fs\<rparr>"
    by (rule GetWhitelistEntryByID_success)
  then show thesis
    using q st bl that [of q row fs n] by (simp add: scan_entry_def)
qed

text \<open>
  C12: a blacklisted address is refused from then on. Once \<open>DELETEBlacklistIPEntry\<close> answered 204 for an entry,
  no later request, of whatever user, body and configuration, adds the entry's address to the entry's alias,
  after any sequence of additions, blacklistings, sync markings and expirations, provided that PostgreSQL
  reads back the texts it writes.
\<close>

theorem blacklisted_address_refused:
  assumes "DELETEBlacklistIPEntry cfg pg idParam reason p w = (Header 204, w1)" and "wl_reachable pg (db w)"
    and "entry_id idParam = (Inr i :: fw_json response + int)" and "find_entry i (db w) = Some row"
    and "\<And>x. inet_in pg (inet_text pg x) = Some x" and "uuid_in pg (wr_alias_uuid row) = Some (wr_alias_uuid row)"
    and "wl_path pg (\<lambda>c. \<not> is_remove_call c) (db w1) (db v)"
    and "POSTAddIPEntry cfg' pg pe body p' v = (res, v')" and "r \<in> set (t_whitelist (db v')) - set (t_whitelist (db v))"
  shows "\<not> (wr_alias_uuid r = wr_alias_uuid row \<and> wr_ip r = wr_ip row)"
proof -
  from assms(1) obtain q row' fs n where row': "entry_id idParam = (Inr (wr_id row') :: fw_json response + int)"
      "find_entry (wr_id row') (db w) = Some row'"
    and bl: "BlacklistIPAddress pg (wr_alias_uuid row') (inet_text pg (wr_ip row')) (GetIss q) (GetSub q) (strings_TrimSpace reason) (w\<lparr>faults := fs\<rparr>) = (Inr n, w1)"
    by (rule blacklist_handler_success)
  have row: "row' = row" using row' assms(3,4) by simp
  have inv: "wl_inv (db w)" using wl_reachable_inv [OF assms(2)] .
  have "wl_inv (db w1)" using keepsD [OF wl_invariant.keeps_BlacklistIPAddress _ bl] inv by simp
  moreover have "blacklisted (wr_alias_uuid row) (wr_ip row) (db w1)"
    using BlacklistIPAddress_blacklists [OF _ bl] inv assms(5,6) row by simp
  ultimately have black: "blacklisted (wr_alias_uuid row) (wr_ip row) (db v)"
    using wl_path_blacklisted [OF assms(7)] by blast
  obtain x v1 where chk: "add_check cfg' pg body p' v = (x, v1)" by fastforce
  then show ?thesis
  proof (cases rule: add_check_cases)
    case (refused s fs')
    have "v' = v1" using assms(8) chk refused(1) by (simp add: POSTAddIPEntry_def)
    then have "db v' = db v" unfolding refused(3) by simp
    with assms(9) show ?thesis by simp
  next
    case (passed u b f al ip fs' vv a)
    obtain z v2 where add: "AddIPToWhitelist pg (usr_iss u) (usr_sub u) (al_name al) (al_uuid al) (IP_String ip)
        (fwb_description b) (map_option (\<lambda>ttl. now v1 + ttl) (al_default_ttl al)) (client_host pe) (client_agent pe) v1 = (z, v2)"
      by fastforce
    have v: "db v1 = db v" "v2 = v'"
      using assms(8) chk passed(1, 8) add by (auto simp: POSTAddIPEntry_def add_commit_def try_http_def reply_def split: sum.splits)
    from add show ?thesis
    proof (cases rule: AddIPToWhitelist_cases)
      case failed
      then have "t_whitelist (db v') = t_whitelist (db v)" using v by (metis rollback_def database.select_convs database.surjective database.update_convs)
      with assms(9) show ?thesis by simp
    next
      case (added m d1 y)
      obtain vv' a' s where "uuid_in pg (al_uuid al) = Some vv'" "inet_in pg (IP_String ip) = Some a'"
          "t_whitelist (db v2) = t_whitelist (db v1) @ [s]" "wr_ip s = a'" "wr_alias_uuid s = vv'"
        by (rule added_rows [OF added]) auto
      then show ?thesis using black passed(9-11) v assms(9) by auto
    qed
  qed
qed

section \<open>Witnesses\<close>

text \<open>Alice holds one entry of the two the alias \<open>home\<close> allows her; PostgreSQL writes what it read.\<close>

definition fw_pg :: pg_types where
  "fw_pg = example_pg\<lparr>inet_text := id\<rparr>"

definition fw_alias :: firewall_alias_config where
  "fw_alias = \<lparr>al_name = ''home'', al_uuid = ''U'', al_description = [], al_max_per_user = 2, al_max_total = 5,
     al_default_ttl = Some hour, al_auth_group = ''fw''\<rparr>"

definition fw_features :: features_config where
  "fw_features = DefaultFeaturesConfig\<lparr>feat_firewall := \<lparr>fw_enabled = True, fw_router_endpoint = [], fw_router_api_key = [],
     fw_router_api_secret = [], fw_aliases = [fw_alias], fw_jobs = None\<rparr>\<rparr>"

definition fw_cfg :: config where
  "fw_cfg = example_config\<lparr>cfg_features := Some fw_features,
     cfg_group_scopes := [(''fw'', [ScopeFirewallRequestOwn, ScopeFirewallRevokeOwn, ScopeFirewallBlacklist])]\<rparr>"

definition fw_user :: user where
  "fw_user = example_user\<lparr>usr_groups := [''fw'']\<rparr>"

definition fw_user_row :: user_row where
  "fw_user_row = \<lparr>ur_iss = ''idp'', ur_sub = ''alice'', ur_username = ''alice'', ur_display_name = ''Alice'', ur_email = [],
     ur_is_system = False, ur_last_logged_in = None, ur_created_at = None\<rparr>"

definition fw_ctx :: appctx where
  "fw_ctx = \<lparr>db = (db wl_example_added)\<lparr>t_users := [fw_user_row]\<rparr>, now = 11, faults = [], sess = empty_session\<rparr>"

definition fw_peer :: peer where
  "fw_peer = \<lparr>peer_addr = ''10.0.0.7:4711'', peer_agent = ''curl''\<rparr>"

definition fw_request :: "string \<Rightarrow> fw_body" where
  "fw_request ip = \<lparr>fwb_alias_name = '' home'', fwb_ip_address = ip, fwb_description = ''laptop''\<rparr>"

lemma fw_ctx_sel: "faults fw_ctx = []" "now fw_ctx = 11" "t_whitelist (db fw_ctx) = [wl_example_row]"
  "t_whitelist_events (db fw_ctx) = [wl_example_event]" "find_user ''idp'' ''alice'' (db fw_ctx) = Some fw_user_row"
  by (simp_all add: fw_ctx_def wl_example_added_db find_user_def is_user_def fw_user_row_def)

lemma fw_ctx_reachable: "wl_reachable fw_pg (db fw_ctx)"
proof -
  let ?w = "exec_wl_call fw_pg (CallAdd ''idp'' ''alice'' ''home'' ''U'' ''ip1'' ''d'' (Some 20) None None)
      (\<lparr>db = empty_database, now = 10, faults = []\<rparr> :: world)"
  have "db ?w = db wl_example_added"
    unfolding wl_example_added_db
    by (simp add: AddIPToWhitelist_def add_ip_tx_def GetWhitelistEntryByID_def GetWhitelistEventsByEntry_def wl_eval
        fw_pg_def example_pg_def empty_database_def wl_example_row_def wl_example_event_def split: sum.splits)
  moreover have "wl_reachable fw_pg (db ?w)"
    by (rule wl_reachable.call) (simp add: wl_reachable.start)
  ultimately have "wl_reachable fw_pg (db wl_example_added)" by simp
  then show ?thesis by (rule wl_reachable.other) (simp_all add: fw_ctx_def)
qed

lemma fw_ipv4: "parse_ipv4 ''10.0.0.1'' = Some [2560, 1]" "parse_ipv4 ''10.0.0.2'' = Some [2560, 2]"
  by (simp_all add: parse_ipv4_def ipv4_field_def digit_val_def)

lemma fw_parse: "ParseIP ''10.0.0.1'' = Some [0, 0, 0, 0, 0, 65535, 2560, 1]" "ParseIP ''10.0.0.2'' = Some [0, 0, 0, 0, 0, 65535, 2560, 2]"
  "IP_String [0, 0, 0, 0, 0, 65535, 2560, 1] = ''10.0.0.1''" "IP_String [0, 0, 0, 0, 0, 65535, 2560, 2] = ''10.0.0.2''"
  by (simp_all add: ParseIP_def fw_ipv4 IP_String_def is_v4_def show_nat.simps digit_char_def char_of_def bit_0)

lemma fw_strings: "strings_TrimSpace '' home'' = ''home''" "strings_TrimSpace ''10.0.0.1'' = ''10.0.0.1''"
  "strings_TrimSpace ''10.0.0.2'' = ''10.0.0.2''" "client_host fw_peer = Some ''10.0.0.7''"
  by (simp_all add: strings_TrimSpace_def is_space_def client_host_def fw_peer_def SplitHostPort_def last_colon_def)

lemma fw_scopes: "user_HasScope fw_cfg fw_user s \<longleftrightarrow> s \<in> {ScopeFirewallRequestOwn, ScopeFirewallRevokeOwn, ScopeFirewallBlacklist}"
  by (simp add: user_HasScope_def user_GetScopes_def fw_user_def example_user_def mapGroupToScopes_def fw_cfg_def)

definition fw_add :: "string \<Rightarrow> add_request" where
  "fw_add ip = \<lparr>aq_user = fw_user, aq_alias = fw_alias, aq_ip = ip, aq_description = ''laptop''\<rparr>"

lemma fw_add_sel: "usr_iss (aq_user (fw_add ip)) = ''idp''" "usr_sub (aq_user (fw_add ip)) = ''alice''"
  "al_uuid fw_alias = ''U''" "aq_ip (fw_add ip) = ip" "al_max_per_user fw_alias = 2" "al_default_ttl fw_alias = Some hour" "aq_alias (fw_add ip) = fw_alias" "uuid_in fw_pg s = Some s" "inet_in fw_pg s = Some s" "inet_text fw_pg s = s"
  by (simp_all add: fw_add_def fw_user_def example_user_def fw_alias_def fw_pg_def example_pg_def)

lemma fw_one_active: "count_where (owned_active ''idp'' ''alice'' ''U'') (t_whitelist (db fw_ctx)) = 1"
  "wr_ip wl_example_row = ''ip1''"
  by (simp_all add: fw_ctx_sel count_where_def owned_active_def is_active_def wl_example_row_def)

text \<open>What a world needs for Alice's next request to be let through and added.\<close>

definition fw_ready :: "string \<Rightarrow> 'w appctx_scheme \<Rightarrow> bool" where
  "fw_ready ip v \<longleftrightarrow> faults v = [] \<and> \<not> blacklisted ''U'' ip (db v) \<and> wl_inv (db v) \<and>
     count_where (owned_active ''idp'' ''alice'' ''U'') (t_whitelist (db v)) < 2 \<and>
     count_where (\<lambda>r. wr_alias_uuid r = ''U'' \<and> is_active r) (t_whitelist (db v)) < 5 \<and>
     (\<forall>r \<in> set (t_whitelist (db v)). owned_active ''idp'' ''alice'' ''U'' r \<longrightarrow> wr_ip r \<noteq> ip) \<and>
     find_user ''idp'' ''alice'' (db v) = Some fw_user_row"

lemma fw_check:
  assumes "ip \<in> {''10.0.0.1'', ''10.0.0.2''}" and "fw_ready ip v"
  shows "add_check fw_cfg fw_pg (Inr (fw_request ip)) (Some (PUser fw_user)) v = (Inr (fw_add ip), v)"
proof -
  have pop: "pop_fault v = v" "next_fault v = None" "v\<lparr>db := db v\<rparr> = v" if "faults v = []"
    using that by (simp_all add: pop_fault_def next_fault_def)
  have "IsIPBlacklisted fw_pg ''U'' ip v = (Inr (blacklisted ''U'' ip (db v)), v)"
    "CountUserActiveIPs fw_pg ''idp'' ''alice'' ''U'' v = (Inr (count_where (owned_active ''idp'' ''alice'' ''U'') (t_whitelist (db v))), v)"
    "CountTotalActiveIPs fw_pg ''U'' v = (Inr (count_where (\<lambda>r. wr_alias_uuid r = ''U'' \<and> is_active r) (t_whitelist (db v))), v)"
    using assms(2) by (simp_all add: fw_ready_def IsIPBlacklisted_def CountUserActiveIPs_def CountTotalActiveIPs_def try_db_def
        roundtrip_def sql_exists_blacklisted_def sql_count_user_def sql_count_total_def with_uuid_def with_inet_def ok_def pop
        fw_add_sel blacklisted_def)
  then have "check_limits fw_pg (fw_add ip) v = (Inr (fw_add ip), v)"
    using assms(2) by (simp add: check_limits_def fw_add_sel fw_ready_def)
      (simp add: fw_alias_def)
  moreover have "find_alias fw_features fw_user ''home'' = Some fw_alias"
    by (simp add: find_alias_def fw_features_def DefaultFeaturesConfig_def fw_alias_def fw_user_def)
  moreover have "cfg_features fw_cfg = Some fw_features"
    by (simp add: fw_cfg_def)
  ultimately show ?thesis
    using assms(1) by (auto simp: add_check_def fw_request_def fw_scopes fw_parse [unfolded One_nat_def] fw_strings fw_add_def)
qed

lemma fw_add_run:
  assumes "fw_ready ''10.0.0.1'' v"
  shows "\<exists>e w' r. POSTAddIPEntry fw_cfg fw_pg fw_peer (Inr (fw_request ''10.0.0.1'')) (Some (PUser fw_user)) v = (JSON 201 (OneEntry e), w') \<and>
     t_whitelist (db w') = t_whitelist (db v) @ [r] \<and> wr_ip r = ''10.0.0.1''"
proof -
  have "\<exists>e w' r. AddIPToWhitelist fw_pg ''idp'' ''alice'' (al_name fw_alias) ''U'' ''10.0.0.1'' ''laptop'' (Some (now v + hour))
      (client_host fw_peer) (client_agent fw_peer) v = (Inr e, w') \<and> t_whitelist (db w') = t_whitelist (db v) @ [r] \<and> wr_ip r = ''10.0.0.1''"
    using add_succeeds [of v fw_pg "''U''" "''U''" "''10.0.0.1''" "''10.0.0.1''" "''idp''" "''alice''" "Some (now v + hour)"
        "client_host fw_peer" fw_user_row "al_name fw_alias" "''laptop''" "client_agent fw_peer"] assms
    by (fastforce simp: fw_add_sel fw_ready_def)
  moreover have "aq_description (fw_add ''10.0.0.1'') = ''laptop''"
    by (simp add: fw_add_def)
  ultimately show ?thesis
    using fw_check [OF _ assms]
    by (auto simp: POSTAddIPEntry_def add_commit_def try_http_def fw_add_sel reply_def)
qed

lemma fw_ctx_ready: "ip \<in> {''10.0.0.1'', ''10.0.0.2''} \<Longrightarrow> fw_ready ip fw_ctx"
  using wl_reachable_inv [OF fw_ctx_reachable]
  by (auto simp: fw_ready_def fw_ctx_sel fw_one_active blacklisted_def count_where_def is_active_def owned_active_def)

theorem firewall_request_within_limits_witness:
  "\<exists>j w'. POSTAddIPEntry fw_cfg fw_pg fw_peer (Inr (fw_request ''10.0.0.1'')) (Some (PUser fw_user)) fw_ctx = (JSON 201 j, w') \<and>
     length (t_whitelist (db w')) = 2"
proof -
  from fw_add_run [OF fw_ctx_ready] obtain e w' where run:
    "POSTAddIPEntry fw_cfg fw_pg fw_peer (Inr (fw_request ''10.0.0.1'')) (Some (PUser fw_user)) fw_ctx = (JSON 201 (OneEntry e), w')"
    by auto
  from firewall_request_within_limits [OF run] have "length (t_whitelist (db w')) = 2"
    by (auto simp: fw_ctx_sel)
  with run show ?thesis by blast
qed


lemma fw_entry: "GetWhitelistEntryByID fw_pg 1 fw_ctx = (Inr ((scan_entry fw_pg wl_example_row)\<lparr>fe_events := [scan_wl_event fw_pg wl_example_event fw_user_row]\<rparr>), fw_ctx)"
proof -
  have "find_entry 1 (db fw_ctx) = Some wl_example_row"
    by (simp add: find_entry_def fw_ctx_sel) (simp add: wl_example_row_def)
  moreover have "wl_events_of 1 (db fw_ctx) = [wl_example_event]"
    by (simp add: wl_events_of_def fw_ctx_sel order_desc_def) (simp add: wl_example_event_def)
  moreover have "actor_row (db fw_ctx) wl_example_event = Some fw_user_row"
    using fw_ctx_sel(5) by (simp add: actor_row_def) (simp add: wl_example_event_def)
  ultimately show ?thesis
    by (simp add: GetWhitelistEntryByID_def GetWhitelistEventsByEntry_def try_db_def db_query_row_eq db_query_eq
        next_fault_def pop_fault_def lift_result_def ok_def fw_ctx_sel)
qed

lemma entry_id_1: "entry_id ''1'' = Inr 1"
  using path_id_1 by (simp add: entry_id_def path_id_def)

theorem removal_is_authorized_witness:
  "\<exists>w'. DELETERemoveIPEntry fw_cfg fw_pg fw_peer ''1'' (Some (PUser fw_user)) fw_ctx = (Header 204, w') \<and>
     map wr_status (t_whitelist (db w')) = [StatusRemoved]"
proof -
  let ?entry = "(scan_entry fw_pg wl_example_row)\<lparr>fe_events := [scan_wl_event fw_pg wl_example_event fw_user_row]\<rparr>"
  have own: "user_MatchesOwner fw_user (fe_owner_iss ?entry) (fe_owner_sub ?entry)" and st: "fe_status ?entry = StatusRequested"
    by (simp_all add: user_MatchesOwner_def scan_entry_def wl_example_row_def fw_user_def example_user_def)
  have id: "wr_id wl_example_row = 1" "wr_requested_at wl_example_row = 10"
    by (simp_all add: wl_example_row_def)
  have rem: "\<exists>w'. RemoveIPFromWhitelist fw_pg 1 (GetIss (PUser fw_user)) (GetSub (PUser fw_user)) (client_host fw_peer) (client_agent fw_peer) fw_ctx = (Inr (), w')"
    by (simp add: RemoveIPFromWhitelist_def CreateWhitelistEvent_def wl_eval fw_ctx_sel fw_strings fw_add_sel fw_user_def example_user_def id
        upd_where_def set_removed_def)
  have run: "\<exists>w'. DELETERemoveIPEntry fw_cfg fw_pg fw_peer ''1'' (Some (PUser fw_user)) fw_ctx = (Header 204, w')"
    using rem own st by (auto simp: DELETERemoveIPEntry_def fw_scopes entry_id_1 try_http_def reply_def fw_entry is_removed_def)
  then obtain w' where run: "DELETERemoveIPEntry fw_cfg fw_pg fw_peer ''1'' (Some (PUser fw_user)) fw_ctx = (Header 204, w')"
    by blast
  have "status_code (Header 204 :: fw_json response) = Some 204"
    by simp
  with removal_is_authorized [OF run] obtain row where r: "find_entry (wr_id row) (db fw_ctx) = Some row"
      "t_whitelist (db w') = upd_where (\<lambda>x. wr_id x = wr_id row) (set_removed (now fw_ctx)) (t_whitelist (db fw_ctx))"
    by blast
  from r(1) have "row \<in> set (t_whitelist (db fw_ctx))"
    unfolding find_entry_def by (blast dest: find_SomeD)
  then have "row = wl_example_row"
    by (simp only: fw_ctx_sel list.set empty_iff insert_iff simp_thms)
  with r(2) have "t_whitelist (db w') = [set_removed 11 wl_example_row]"
    by (simp only: fw_ctx_sel upd_where_def list.map simp_thms if_True)
  then have "map wr_status (t_whitelist (db w')) = [StatusRemoved]"
    by (simp only: set_removed_def list.map) simp
  with run show ?thesis by (intro exI conjI)
qed

lemma fw_black_run: "\<exists>w'. DELETEBlacklistIPEntry fw_cfg fw_pg ''1'' ''abuse'' (Some (PUser fw_user)) fw_ctx = (Header 204, w') \<and>
    faults w' = [] \<and> now w' = 11 \<and> t_whitelist (db w') = [set_blacklisted ''idp'' ''alice'' ''abuse'' 11 wl_example_row] \<and>
    t_users (db w') = [fw_user_row]"
proof -
  let ?entry = "(scan_entry fw_pg wl_example_row)\<lparr>fe_events := [scan_wl_event fw_pg wl_example_event fw_user_row]\<rparr>"
  have e: "fe_status ?entry = StatusRequested" "fe_alias_uuid ?entry = ''U''" "fe_ip ?entry = ''ip1''"
    by (simp_all add: scan_entry_def wl_example_row_def fw_add_sel)
  have row: "wr_id wl_example_row = 1" "wr_requested_at wl_example_row = 10" "wr_alias_uuid wl_example_row = ''U''" "wr_ip wl_example_row = ''ip1''"
    "wr_status wl_example_row = StatusRequested"
    by (simp_all add: wl_example_row_def)
  have "\<exists>w'. BlacklistIPAddress fw_pg ''U'' ''ip1'' ''idp'' ''alice'' ''abuse'' fw_ctx = (Inr 1, w') \<and>
    faults w' = [] \<and> now w' = 11 \<and> t_whitelist (db w') = [set_blacklisted ''idp'' ''alice'' ''abuse'' 11 wl_example_row] \<and>
    t_users (db w') = [fw_user_row]"
    by (simp add: BlacklistIPAddress_def wl_eval fw_ctx_sel fw_add_sel row upd_where_def set_blacklisted_def) (simp add: fw_ctx_def)
  moreover have "strings_TrimSpace ''abuse'' = ''abuse''"
    by (simp add: strings_TrimSpace_def is_space_def)
  moreover have "usr_iss fw_user = ''idp''" "usr_sub fw_user = ''alice''"
    by (simp_all add: fw_user_def example_user_def)
  ultimately show ?thesis
    using e by (auto simp: DELETEBlacklistIPEntry_def fw_scopes entry_id_1 try_http_def reply_def fw_entry)
qed

theorem blacklisted_address_refused_witness:
  "\<exists>w1 e v' r. DELETEBlacklistIPEntry fw_cfg fw_pg ''1'' ''abuse'' (Some (PUser fw_user)) fw_ctx = (Header 204, w1) \<and>
     POSTAddIPEntry fw_cfg fw_pg fw_peer (Inr (fw_request ''10.0.0.1'')) (Some (PUser fw_user)) w1 = (JSON 201 (OneEntry e), v') \<and>
     t_whitelist (db v') = t_whitelist (db w1) @ [r] \<and> \<not> (wr_alias_uuid r = ''U'' \<and> wr_ip r = ''ip1'')"
proof -
  obtain w1 where run: "DELETEBlacklistIPEntry fw_cfg fw_pg ''1'' ''abuse'' (Some (PUser fw_user)) fw_ctx = (Header 204, w1)"
    and w1: "faults w1 = []" "t_whitelist (db w1) = [set_blacklisted ''idp'' ''alice'' ''abuse'' 11 wl_example_row]" "t_users (db w1) = [fw_user_row]"
    using fw_black_run by blast
  from run have "wl_inv (db w1)"
  proof (rule blacklist_handler_success)
    fix q row fs n
    assume "BlacklistIPAddress fw_pg (wr_alias_uuid row) (inet_text fw_pg (wr_ip row)) (GetIss q) (GetSub q) (strings_TrimSpace ''abuse'') (fw_ctx\<lparr>faults := fs\<rparr>) = (Inr n, w1)"
    from keepsD [OF wl_invariant.keeps_BlacklistIPAddress _ this] wl_reachable_inv [OF fw_ctx_reachable] show ?thesis by simp
  qed
  then have "fw_ready ''10.0.0.1'' w1"
    using w1 by (simp add: fw_ready_def find_user_def is_user_def fw_user_row_def blacklisted_def count_where_def owned_active_def is_active_def
        set_blacklisted_def wl_example_row_def)
  from fw_add_run [OF this] obtain e v' r where add:
    "POSTAddIPEntry fw_cfg fw_pg fw_peer (Inr (fw_request ''10.0.0.1'')) (Some (PUser fw_user)) w1 = (JSON 201 (OneEntry e), v')"
    "t_whitelist (db v') = t_whitelist (db w1) @ [r]" "wr_ip r = ''10.0.0.1''"
    by blast
  have row: "find_entry 1 (db fw_ctx) = Some wl_example_row" "wr_alias_uuid wl_example_row = ''U''"
    by (simp_all add: find_entry_def fw_ctx_sel) (simp_all add: wl_example_row_def)
  have "r \<in> set (t_whitelist (db v')) - set (t_whitelist (db w1))"
    using add w1(2) by (auto simp: set_blacklisted_def wl_example_row_def)
  from blacklisted_address_refused [OF run fw_ctx_reachable entry_id_1 row(1) _ _ wl_path.refl add(1) this]
  have "\<not> (wr_alias_uuid r = ''U'' \<and> wr_ip r = ''ip1'')"
    by (simp add: fw_add_sel row(2) fw_one_active(2))
  with run add(1,2) show ?thesis by blast
qed

end
