(* ===== verification/Audit_Store.thy ===== *)
theory Audit_Store
  imports Whitelist_Store
begin

text \<open>
  The download log: the \<open>certificate_downloads\<close> part of \<open>internal/storage/audit_queries.go\<close>, the type
  \<open>CertificateDownload\<close> of \<open>internal/models/audit.go\<close> and \<open>internal/utils/user_agents.go\<close>. What the
  user agent parser finds in a header is a parameter.
\<close>

record agent_version =
  av_major :: int
  av_minor :: int
  av_patch :: int

record agent_info =
  ag_browser :: string
  ag_browser_version :: agent_version
  ag_os :: string
  ag_os_version :: agent_version
  ag_device :: string

record certificate_download =
  dn_id :: int
  dn_request_id :: int
  dn_sub :: string
  dn_iss :: string
  dn_ip :: string
  dn_user_agent :: string
  dn_browser_name :: string
  dn_browser_version :: string
  dn_os_name :: string
  dn_os_version :: string
  dn_device_type :: string
  dn_downloaded_at :: time

definition UserAgentVersionToString :: "agent_version \<Rightarrow> string" where
  "UserAgentVersionToString v =
     show_int (av_major v) @ ''.'' @ show_int (av_minor v) @ ''.'' @ show_int (av_patch v)"

definition sql_insert_download ::
  "pg_types \<Rightarrow> int \<Rightarrow> string \<Rightarrow> string \<Rightarrow> string \<Rightarrow> string \<Rightarrow> agent_info \<Rightarrow> time \<Rightarrow> database \<Rightarrow> int result \<times> database" where
  "sql_insert_download pg certId sub iss ip raw ag t d =
     with_inet pg ip (\<lambda>a.
       (let n = sq_downloads (seqs d); d1 = d\<lparr>seqs := (seqs d)\<lparr>sq_downloads := n + 1\<rparr>\<rparr> in
        if iss = [] \<or> sub = [] then (Inl (check_violation ''certificate_downloads_downloader_not_empty''), d1)
        else if find_request certId d = None
          then (Inl (fk_violation ''certificate_downloads_certificate_request_id_fkey''), d1)
        else (Inr n, d1\<lparr>t_downloads := t_downloads d @
               [\<lparr>dl_id = n, dl_request_id = certId, dl_sub = sub, dl_iss = iss, dl_ip = a, dl_user_agent = raw,
                 dl_browser_name = ag_browser ag, dl_browser_version = UserAgentVersionToString (ag_browser_version ag),
                 dl_os_name = ag_os ag, dl_os_version = UserAgentVersionToString (ag_os_version ag),
                 dl_device_type = ag_device ag, dl_at = t\<rparr>]\<rparr>))) d"

definition scan_download :: "pg_types \<Rightarrow> download_row \<Rightarrow> certificate_download" where
  "scan_download pg r =
     \<lparr>dn_id = dl_id r, dn_request_id = dl_request_id r, dn_sub = dl_sub r, dn_iss = dl_iss r, dn_ip = inet_text pg (dl_ip r),
      dn_user_agent = dl_user_agent r, dn_browser_name = dl_browser_name r, dn_browser_version = dl_browser_version r,
      dn_os_name = dl_os_name r, dn_os_version = dl_os_version r, dn_device_type = dl_device_type r,
      dn_downloaded_at = dl_at r\<rparr>"

definition GetCertificateDownloadAuditLogByID :: "pg_types \<Rightarrow> int \<Rightarrow> ('w, certificate_download) dbop" where
  "GetCertificateDownloadAuditLogByID pg i =
     try_db (db_query_row (\<lambda>d. map_option (scan_download pg) (find (\<lambda>r. dl_id r = i) (t_downloads d))))
       (\<lambda>e. if errors_Is e ErrNoRows then Errorf ''download log not found'' else wrap ''failed to get download log: '' e) ok"

definition InsertAuditLogCertificateDownload ::
  "pg_types \<Rightarrow> int \<Rightarrow> string \<Rightarrow> string \<Rightarrow> string \<Rightarrow> string \<Rightarrow> agent_info \<Rightarrow> ('w, certificate_download) dbop" where
  "InsertAuditLogCertificateDownload pg certId sub iss ipAddress rawUserAgent ag =
     try_db (roundtrip (sql_insert_download pg certId sub iss ipAddress rawUserAgent ag))
       (wrap ''failed to insert download log: '') (GetCertificateDownloadAuditLogByID pg)"

text \<open>A negative \<open>LIMIT\<close> is an error of the server.\<close>

definition GetRecentCertificateDownloadLogs :: "pg_types \<Rightarrow> int \<Rightarrow> ('w, certificate_download list) dbop" where
  "GetRecentCertificateDownloadLogs pg limit =
     (if limit < 0
      then try_db (roundtrip (\<lambda>t d. (Inl (Errorf ''ERROR: LIMIT must not be negative (SQLSTATE 2201W)''), d)))
             (wrap ''failed to query recent download logs: '') ok
      else try_db (db_query (\<lambda>d. map (scan_download pg) (take (nat limit) (order_desc dl_at (t_downloads d)))))
             (wrap ''failed to query recent download logs: '') ok)"

section \<open>What an insertion does\<close>

lemma InsertAuditLog_success:
  assumes "InsertAuditLogCertificateDownload pg certId sub iss ip raw ag w = (Inr x, w')"
  obtains a r where "inet_in pg ip = Some a" and "find_request certId (db w) \<noteq> None" and "iss \<noteq> []" and "sub \<noteq> []"
    and "db w' = (db w)\<lparr>seqs := seqs (db w'), t_downloads := t_downloads (db w) @ [r]\<rparr>"
    and "dl_request_id r = certId" and "dl_sub r = sub" and "dl_iss r = iss" and "dl_ip r = a" and "dl_user_agent r = raw" and "dl_at r = now w"
  using assms unfolding InsertAuditLogCertificateDownload_def GetCertificateDownloadAuditLogByID_def
  by (elim try_db_InrE roundtrip_InrE)
     (auto simp: sql_insert_download_def with_inet_def Let_def split: option.splits if_splits elim!: success_elims intro!: that)

end
