(* ===== verification/Cache.thy ===== *)
theory Cache
  imports Sessions "HOL-Library.AList"
begin

text \<open>
  \<open>internal/data\<close>: the cache the handlers and the jobs share, behind the interface \<open>Provider\<close>. It holds
  the last result of every dashboard query and a key-value store with expiring entries, which keeps the
  download tokens. \<open>MemCache\<close> is modelled with the timers \<open>SetKey\<close> starts; \<open>RedisCache\<close> is modelled over a
  Redis client, which is a parameter. The mutex of \<open>MemCache\<close> makes every operation one step.
\<close>

section \<open>Entries\<close>

record cached_data =
  cd_name :: string
  cd_value_type :: string
  cd_json_bytes :: string
  cd_timestamp :: time
  cd_require_auth :: bool
  cd_required_group :: string

text \<open>A value passed as \<open>interface{}\<close>.\<close>

datatype go_value = GoString string | GoBytes string | GoOther

record kv_entry =
  kv_value :: string
  kv_expires_at :: "time option"

text \<open>A timer of \<open>time.AfterFunc\<close>: when it fires, and the key it deletes.\<close>

record mem_cache =
  mc_cache :: "(string \<times> cached_data) list"
  mc_kv :: "(string \<times> kv_entry) list"
  mc_timers :: "(time \<times> string) list"

record 'c provider =
  cp_Get :: "string \<Rightarrow> 'c \<Rightarrow> cached_data option"
  cp_ListAll :: "'c \<Rightarrow> string list"
  cp_Set :: "string \<Rightarrow> cached_data \<Rightarrow> 'c \<Rightarrow> 'c"
  cp_Delete :: "string \<Rightarrow> 'c \<Rightarrow> 'c"
  cp_Size :: "'c \<Rightarrow> nat"
  cp_GetKey :: "time \<Rightarrow> string \<Rightarrow> 'c \<Rightarrow> string result"
  cp_SetKey :: "time \<Rightarrow> string \<Rightarrow> go_value \<Rightarrow> duration \<Rightarrow> 'c \<Rightarrow> unit result \<times> 'c"
  cp_GetDelKey :: "time \<Rightarrow> string \<Rightarrow> 'c \<Rightarrow> string result \<times> 'c"

section \<open>The memory cache\<close>

definition NewMemCache :: mem_cache where
  "NewMemCache = \<lparr>mc_cache = [], mc_kv = [], mc_timers = []\<rparr>"

definition mem_Get :: "string \<Rightarrow> mem_cache \<Rightarrow> cached_data option" where
  "mem_Get queryName d = map_of (mc_cache d) queryName"

definition mem_ListAll :: "mem_cache \<Rightarrow> string list" where
  "mem_ListAll d = map fst (mc_cache d)"

definition mem_Set :: "string \<Rightarrow> cached_data \<Rightarrow> mem_cache \<Rightarrow> mem_cache" where
  "mem_Set queryName x d = d\<lparr>mc_cache := AList.update queryName x (mc_cache d)\<rparr>"

definition mem_Delete :: "string \<Rightarrow> mem_cache \<Rightarrow> mem_cache" where
  "mem_Delete query d = d\<lparr>mc_cache := AList.delete query (mc_cache d)\<rparr>"

definition mem_Size :: "mem_cache \<Rightarrow> nat" where
  "mem_Size d = length (mc_cache d)"

definition expired :: "time \<Rightarrow> kv_entry \<Rightarrow> bool" where
  "expired t e \<longleftrightarrow> (case kv_expires_at e of None \<Rightarrow> False | Some x \<Rightarrow> x < t)"

definition mem_GetKey :: "time \<Rightarrow> string \<Rightarrow> mem_cache \<Rightarrow> string result" where
  "mem_GetKey t key d =
     (case map_of (mc_kv d) key of
        None \<Rightarrow> Inl (Errorf ''key not found'')
      | Some e \<Rightarrow> if expired t e then Inl (Errorf ''key expired'') else Inr (kv_value e))"

definition mem_SetKey :: "time \<Rightarrow> string \<Rightarrow> go_value \<Rightarrow> duration \<Rightarrow> mem_cache \<Rightarrow> unit result \<times> mem_cache" where
  "mem_SetKey t key v ttl d =
     (case (case v of GoString s \<Rightarrow> Some s | GoBytes s \<Rightarrow> Some s | GoOther \<Rightarrow> None) of
        None \<Rightarrow> (Inl (Errorf ''value must be string or []byte''), d)
      | Some strValue \<Rightarrow>
          (Inr (), d\<lparr>mc_kv := AList.update key
                         \<lparr>kv_value = strValue, kv_expires_at = (if ttl > 0 then Some (t + ttl) else None)\<rparr> (mc_kv d),
                     mc_timers := (if ttl > 0 then (t + ttl, key) # mc_timers d else mc_timers d)\<rparr>))"

definition mem_GetDelKey :: "time \<Rightarrow> string \<Rightarrow> mem_cache \<Rightarrow> string result \<times> mem_cache" where
  "mem_GetDelKey t key d =
     (case map_of (mc_kv d) key of
        None \<Rightarrow> (Inl (Errorf ''key not found''), d)
      | Some e \<Rightarrow>
          (if expired t e then Inl (Errorf ''key expired'') else Inr (kv_value e),
           d\<lparr>mc_kv := AList.delete key (mc_kv d)\<rparr>))"

text \<open>A timer that is due may fire at any time from then on; it deletes whatever the key holds.\<close>

definition fire :: "time \<times> string \<Rightarrow> mem_cache \<Rightarrow> mem_cache" where
  "fire tm d = d\<lparr>mc_kv := AList.delete (snd tm) (mc_kv d), mc_timers := remove1 tm (mc_timers d)\<rparr>"

inductive timer_step :: "time \<Rightarrow> mem_cache \<Rightarrow> mem_cache \<Rightarrow> bool" where
  due: "(x, key) \<in> set (mc_timers d) \<Longrightarrow> x \<le> t \<Longrightarrow> timer_step t d (fire (x, key) d)"

inductive_cases timer_stepE: "timer_step t d d'"

definition mem_provider :: "mem_cache provider" where
  "mem_provider =
     \<lparr>cp_Get = mem_Get, cp_ListAll = mem_ListAll, cp_Set = mem_Set, cp_Delete = mem_Delete, cp_Size = mem_Size,
      cp_GetKey = mem_GetKey, cp_SetKey = mem_SetKey, cp_GetDelKey = mem_GetDelKey\<rparr>"

section \<open>The Redis cache\<close>

text \<open>
  The commands of the Redis client the cache uses, on the state of the server: \<open>GET\<close>, \<open>SET\<close> with an
  expiration (zero for none), \<open>DEL\<close>, \<open>GETDEL\<close> and \<open>KEYS\<close> of a prefix. A missing key is the error
  \<open>redis.Nil\<close>. \<open>rc_marshal\<close> and \<open>rc_unmarshal\<close> are \<open>encoding/json\<close> on \<open>CachedData\<close>.
\<close>

record 's redis_client =
  rc_get :: "string \<Rightarrow> 's \<Rightarrow> string result"
  rc_set :: "string \<Rightarrow> go_value \<Rightarrow> duration \<Rightarrow> 's \<Rightarrow> unit result \<times> 's"
  rc_del :: "string \<Rightarrow> 's \<Rightarrow> unit result \<times> 's"
  rc_getdel :: "string \<Rightarrow> 's \<Rightarrow> string result \<times> 's"
  rc_keys :: "string \<Rightarrow> 's \<Rightarrow> string list result"
  rc_marshal :: "cached_data \<Rightarrow> string result"
  rc_unmarshal :: "string \<Rightarrow> cached_data result"

definition redis_key :: "string \<Rightarrow> string" where
  "redis_key queryName = ''cache:query:'' @ queryName"

definition redis_Get :: "'s redis_client \<Rightarrow> string \<Rightarrow> 's \<Rightarrow> cached_data option" where
  "redis_Get rc queryName s =
     (case rc_get rc (redis_key queryName) s of
        Inl e \<Rightarrow> None
      | Inr d \<Rightarrow> (case rc_unmarshal rc d of Inl e \<Rightarrow> None | Inr cached \<Rightarrow> Some cached))"

definition redis_ListAll :: "'s redis_client \<Rightarrow> 's \<Rightarrow> string list" where
  "redis_ListAll rc s =
     (case rc_keys rc (redis_key []) s of
        Inl e \<Rightarrow> []
      | Inr keys \<Rightarrow> map (drop (length (redis_key []))) (filter (\<lambda>k. length (redis_key []) < length k) keys))"

definition redis_Set :: "'s redis_client \<Rightarrow> string \<Rightarrow> cached_data \<Rightarrow> 's \<Rightarrow> 's" where
  "redis_Set rc queryName x s =
     (case rc_marshal rc x of Inl e \<Rightarrow> s | Inr json \<Rightarrow> snd (rc_set rc (redis_key queryName) (GoBytes json) 0 s))"

definition redis_Delete :: "'s redis_client \<Rightarrow> string \<Rightarrow> 's \<Rightarrow> 's" where
  "redis_Delete rc query s = snd (rc_del rc (redis_key query) s)"

definition redis_Size :: "'s redis_client \<Rightarrow> 's \<Rightarrow> nat" where
  "redis_Size rc s = (case rc_keys rc (redis_key []) s of Inl e \<Rightarrow> 0 | Inr keys \<Rightarrow> length keys)"

definition redis_provider :: "'s redis_client \<Rightarrow> 's provider" where
  "redis_provider rc =
     \<lparr>cp_Get = redis_Get rc, cp_ListAll = redis_ListAll rc, cp_Set = redis_Set rc, cp_Delete = redis_Delete rc,
      cp_Size = redis_Size rc, cp_GetKey = (\<lambda>t. rc_get rc), cp_SetKey = (\<lambda>t. rc_set rc), cp_GetDelKey = (\<lambda>t. rc_getdel rc)\<rparr>"

text \<open>The context of a request with the cache.\<close>

record 'c cachectx = appctx +
  cch :: 'c

section \<open>The contract of one-time keys\<close>

text \<open>
  What the download tokens rely on: a key that was taken is gone, a key that is gone cannot be taken, and
  taking or setting another key does not bring it back.
\<close>

locale one_time_keys =
  fixes getdel :: "time \<Rightarrow> string \<Rightarrow> 'c \<Rightarrow> string result \<times> 'c"
    and setkey :: "time \<Rightarrow> string \<Rightarrow> go_value \<Rightarrow> duration \<Rightarrow> 'c \<Rightarrow> unit result \<times> 'c"
    and tick :: "'c \<Rightarrow> 'c \<Rightarrow> bool"
    and gone :: "string \<Rightarrow> 'c \<Rightarrow> bool"
  assumes taken: "getdel t k c = (Inr x, c') \<Longrightarrow> gone k c'"
    and gone_fails: "gone k c \<Longrightarrow> \<not> is_ok (fst (getdel t k c))"
    and gone_getdel: "gone k c \<Longrightarrow> gone k (snd (getdel t j c))"
    and gone_set: "gone k c \<Longrightarrow> j \<noteq> k \<Longrightarrow> gone k (snd (setkey t j y ttl c))"
    and gone_tick: "gone k c \<Longrightarrow> tick c c' \<Longrightarrow> gone k c'"
begin

inductive later :: "string \<Rightarrow> 'c \<Rightarrow> 'c \<Rightarrow> bool" for k where
  same: "later k c c"
| take: "later k c d \<Longrightarrow> later k c (snd (getdel t j d))"
| put: "later k c d \<Longrightarrow> j \<noteq> k \<Longrightarrow> later k c (snd (setkey t j y ttl d))"
| wait: "later k c d \<Longrightarrow> tick d e \<Longrightarrow> later k c e"

lemma gone_later: "later k c d \<Longrightarrow> gone k c \<Longrightarrow> gone k d"
  by (induction rule: later.induct) (auto intro: gone_getdel gone_set gone_tick)

lemma taken_once:
  assumes "getdel t k c = (Inr x, c')" and "later k c' d"
  shows "\<not> is_ok (fst (getdel u k d))"
  using gone_fails gone_later [OF assms(2) taken [OF assms(1)]] by blast

end

definition no_key :: "string \<Rightarrow> mem_cache \<Rightarrow> bool" where
  "no_key k d \<longleftrightarrow> map_of (mc_kv d) k = None"

lemma kv_lookup [simp]: "map_of (AList.update k e xs) j = (if j = k then Some e else map_of xs j)"
  "map_of (AList.delete k xs) j = (if j = k then None else map_of xs j)"
  by (simp_all add: update_conv' delete_conv')

interpretation mem_keys: one_time_keys mem_GetDelKey mem_SetKey "\<lambda>c c'. \<exists>t. timer_step t c c'" no_key
proof unfold_locales
  show "no_key k c'" if "mem_GetDelKey t k c = (Inr x, c')" for t k c x c'
    using that by (auto simp: mem_GetDelKey_def no_key_def split: option.splits if_splits)
  show "\<not> is_ok (fst (mem_GetDelKey t k c))" if "no_key k c" for t k c
    using that by (simp add: mem_GetDelKey_def no_key_def)
  show "no_key k (snd (mem_GetDelKey t j c))" if "no_key k c" for k c t j
    using that by (simp add: mem_GetDelKey_def no_key_def split: option.split)
  show "no_key k (snd (mem_SetKey t j y ttl c))" if "no_key k c" "j \<noteq> k" for k c j t y ttl
    using that by (simp add: mem_SetKey_def no_key_def split: option.split)
  show "no_key k c'" if "no_key k c" "\<exists>t. timer_step t c c'" for k c c'
    using that by (auto simp: fire_def no_key_def elim!: timer_stepE)
qed

section \<open>The life of a key\<close>

text \<open>
  What may happen to the memory cache up to a time \<open>u\<close>, other than to the key \<open>k\<close>: due timers, and
  operations on other keys, each at a time of its own, in the order they happen.
\<close>

inductive others :: "string \<Rightarrow> time \<Rightarrow> mem_cache \<Rightarrow> mem_cache \<Rightarrow> bool" for k u where
  none: "others k u c c"
| timer: "others k u c d \<Longrightarrow> timer_step t d e \<Longrightarrow> t \<le> u \<Longrightarrow> others k u c e"
| set: "others k u c d \<Longrightarrow> j \<noteq> k \<Longrightarrow> others k u c (snd (mem_SetKey t j y ttl d))"
| take: "others k u c d \<Longrightarrow> j \<noteq> k \<Longrightarrow> others k u c (snd (mem_GetDelKey t j d))"
| query: "others k u c d \<Longrightarrow> others k u c (mem_Set q x d)"
| drop: "others k u c d \<Longrightarrow> others k u c (mem_Delete q d)"

lemma others_key:
  assumes "others k u c d" and "map_of (mc_kv c) k = Some e" and "\<forall>(x, j) \<in> set (mc_timers c). j = k \<longrightarrow> b \<le> x"
  shows "(u < b \<longrightarrow> map_of (mc_kv d) k = Some e) \<and> map_of (mc_kv d) k \<in> {None, Some e} \<and>
     (\<forall>(x, j) \<in> set (mc_timers d). j = k \<longrightarrow> b \<le> x)"
  using assms
proof (induction rule: others.induct)
  case (timer c d t e')
  from timer.hyps(2) obtain x key where step: "(x, key) \<in> set (mc_timers d)" "x \<le> t" "e' = fire (x, key) d"
    by (auto elim: timer_stepE)
  have IH: "u < b \<longrightarrow> map_of (mc_kv d) k = Some e" "map_of (mc_kv d) k \<in> {None, Some e}"
    "\<forall>(x, j) \<in> set (mc_timers d). j = k \<longrightarrow> b \<le> x"
    using timer.IH [OF timer.prems] by blast+
  have late: "key = k \<Longrightarrow> b \<le> u"
    using IH(3) step timer.hyps(3) by fastforce
  have "set (mc_timers e') \<subseteq> set (mc_timers d)"
    by (simp add: step(3) fire_def set_remove1_subset)
  with IH(3) have "\<forall>(x, j) \<in> set (mc_timers e'). j = k \<longrightarrow> b \<le> x"
    by blast
  moreover have "map_of (mc_kv e') k = (if k = key then None else map_of (mc_kv d) k)"
    by (simp add: step(3) fire_def)
  ultimately show ?case
    using IH late by auto
next
  case (set c d j t y ttl)
  then show ?case
    by (auto simp: mem_SetKey_def split: option.splits)
next
  case (take c d j t)
  then show ?case
    by (auto simp: mem_GetDelKey_def split: option.splits)
qed (auto simp: mem_Set_def mem_Delete_def)

text \<open>
  A key lives exactly as long as it was given. If no timer for the key was pending when it was set, then
  whatever happens to other keys and whichever due timers fire, the key reads as the value before its
  expiry, and not at all after it.
\<close>

lemma key_lives_until_expiry:
  assumes "mem_SetKey t k (GoBytes x) ttl c = (r, d)" and "0 < ttl" and "k \<notin> snd ` set (mc_timers c)" and "others k u d e"
  shows "(u < t + ttl \<longrightarrow> mem_GetKey u k e = Inr x \<and> fst (mem_GetDelKey u k e) = Inr x) \<and>
         (t + ttl < u \<longrightarrow> \<not> is_ok (mem_GetKey u k e) \<and> \<not> is_ok (fst (mem_GetDelKey u k e)))"
proof -
  let ?e = "\<lparr>kv_value = x, kv_expires_at = Some (t + ttl)\<rparr>"
  have "map_of (mc_kv d) k = Some ?e" and "\<forall>(y, j) \<in> set (mc_timers d). j = k \<longrightarrow> t + ttl \<le> y"
    using assms(1-3) by (force simp: mem_SetKey_def)+
  from others_key [OF assms(4) this] show ?thesis
    by (auto simp: mem_GetKey_def mem_GetDelKey_def expired_def)
qed

section \<open>Properties\<close>

text \<open>
  A key that is set again can vanish before its time. The timer of the first setting is not stopped and
  deletes the key when it fires, although the second value has not expired.
\<close>

theorem stale_timer_deletes_fresh_key:
  assumes "mem_SetKey t1 k (GoBytes x1) ttl1 c = (r1, d1)" and "0 < ttl1"
    and "mem_SetKey t2 k (GoBytes x2) ttl2 d1 = (r2, d2)" and "t1 + ttl1 \<le> u" and "u < t2 + ttl2" and "0 < ttl2"
  shows "mem_GetKey u k d2 = Inr x2 \<and> (\<exists>e. timer_step u d2 e \<and> \<not> is_ok (mem_GetKey u k e))"
proof -
  have "(t1 + ttl1, k) \<in> set (mc_timers d2)"
    using assms by (auto simp: mem_SetKey_def)
  then have "timer_step u d2 (fire (t1 + ttl1, k) d2)"
    using assms(4) by (rule timer_step.due)
  moreover have "\<not> is_ok (mem_GetKey u k (fire (t1 + ttl1, k) d2))"
    by (simp add: mem_GetKey_def fire_def)
  moreover have "mem_GetKey u k d2 = Inr x2"
    using assms by (auto simp: mem_SetKey_def mem_GetKey_def expired_def)
  ultimately show ?thesis by blast
qed

theorem stale_timer_deletes_fresh_key_witness:
  "\<exists>d e. d = snd (mem_SetKey 5 ''k'' (GoBytes ''b'') 10 (snd (mem_SetKey 0 ''k'' (GoBytes ''a'') 10 NewMemCache))) \<and>
     mem_GetKey 12 ''k'' d = Inr ''b'' \<and> timer_step 12 d e \<and> \<not> is_ok (mem_GetKey 12 ''k'' e)"
proof -
  obtain r1 d1 where a: "mem_SetKey 0 ''k'' (GoBytes ''a'') 10 NewMemCache = (r1, d1)" by fastforce
  obtain r2 d2 where b: "mem_SetKey 5 ''k'' (GoBytes ''b'') 10 d1 = (r2, d2)" by fastforce
  from stale_timer_deletes_fresh_key [OF a _ b, of 12] a b show ?thesis by auto
qed

end
