(* ===== verification/Cert_Download.thy ===== *)
theory Cert_Download
  imports Firewall_Handlers Audit_Store Cache
begin

text \<open>
  Downloading a certificate: \<open>internal/handlers/handler_certificate_download.go\<close>. The caller first posts a
  passphrase and gets a one-time token, kept in the cache for five minutes under its HMAC; the download
  takes the token, checks it, records the download and answers with a PKCS 12 file.

  Parameters: \<open>encoding/json\<close> on the token, the HMAC, \<open>uuid.New\<close>, the user agent parser, the certificate
  manager's answer, and the X.509 and PKCS 12 encodings. \<open>x5_blocks\<close> are the blocks repeated
  \<open>pem.Decode\<close> finds in a text.
\<close>

section \<open>Tokens and their environment\<close>

record download_token =
  dt_certificate_id :: int
  dt_principal_iss :: string
  dt_principal_sub :: string
  dt_passphrase :: string
  dt_created_at :: time

record unlock_response =
  ul_unlocked :: bool
  ul_error :: string
  ul_token :: string
  ul_expires_in :: int

definition downloadTokenLifetime :: duration where
  "downloadTokenLifetime = 5 * minute"

record pem_block =
  pem_type :: string
  pem_bytes :: string

record x509_library =
  x5_blocks :: "string \<Rightarrow> pem_block list"
  x5_ParseCertificate :: "string \<Rightarrow> string result"
  x5_ParsePKCS8 :: "string \<Rightarrow> string result"
  x5_ParsePKCS1 :: "string \<Rightarrow> string result"
  x5_ParseEC :: "string \<Rightarrow> string result"
  x5_Encode :: "string \<Rightarrow> string \<Rightarrow> string list \<Rightarrow> string \<Rightarrow> string result"

record download_env =
  de_encode :: "download_token \<Rightarrow> string"
  de_decode :: "string \<Rightarrow> download_token result"
  de_hmac :: "string \<Rightarrow> string \<Rightarrow> string"
  de_uuid :: string
  de_agent :: "string \<Rightarrow> agent_info"
  de_pg :: pg_types
  de_data :: "string \<Rightarrow> (string \<times> string \<times> string) result"
  de_x509 :: x509_library

section \<open>The PKCS 12 file\<close>

definition parseCertificate :: "x509_library \<Rightarrow> string \<Rightarrow> string result" where
  "parseCertificate x certPEM =
     (case x5_blocks x certPEM of
        [] \<Rightarrow> Inl (Errorf ''failed to decode certificate PEM'')
      | b # _ \<Rightarrow>
          if pem_type b \<noteq> ''CERTIFICATE'' then Inl (Errorf (''expected CERTIFICATE block, got '' @ pem_type b))
          else x5_ParseCertificate x (pem_bytes b))"

definition parsePrivateKey :: "x509_library \<Rightarrow> string \<Rightarrow> string result" where
  "parsePrivateKey x keyPEM =
     (case x5_blocks x keyPEM of
        [] \<Rightarrow> Inl (Errorf ''failed to decode private key PEM'')
      | b # _ \<Rightarrow>
          (case x5_ParsePKCS8 x (pem_bytes b) of
             Inr key \<Rightarrow> Inr key
           | Inl _ \<Rightarrow> (case x5_ParsePKCS1 x (pem_bytes b) of
               Inr key \<Rightarrow> Inr key
             | Inl _ \<Rightarrow> (case x5_ParseEC x (pem_bytes b) of
                 Inr key \<Rightarrow> Inr key
               | Inl _ \<Rightarrow> Inl (Errorf ''failed to parse private key: unsupported format'')))))"

fun ca_blocks :: "x509_library \<Rightarrow> pem_block list \<Rightarrow> string list result" where
  "ca_blocks x [] = Inr []"
| "ca_blocks x (b # bs) =
     (if pem_type b \<noteq> ''CERTIFICATE'' then ca_blocks x bs
      else (case x5_ParseCertificate x (pem_bytes b) of
          Inl e \<Rightarrow> Inl (wrap ''failed to parse CA certificate: '' e)
        | Inr cert \<Rightarrow> (case ca_blocks x bs of Inl e \<Rightarrow> Inl e | Inr certs \<Rightarrow> Inr (cert # certs))))"

definition parseCACertificates :: "x509_library \<Rightarrow> string \<Rightarrow> string list result" where
  "parseCACertificates x caPEM = (if caPEM = [] then Inr [] else ca_blocks x (x5_blocks x caPEM))"

definition GenerateP12 :: "x509_library \<Rightarrow> string \<Rightarrow> string \<Rightarrow> string \<Rightarrow> string \<Rightarrow> string result" where
  "GenerateP12 x certPEM keyPEM caPEM passphrase =
     (case parseCertificate x certPEM of
        Inl e \<Rightarrow> Inl (wrap ''failed to parse certificate: '' e)
      | Inr cert \<Rightarrow>
          (case parsePrivateKey x keyPEM of
             Inl e \<Rightarrow> Inl (wrap ''failed to parse private key: '' e)
           | Inr key \<Rightarrow>
               (case (if caPEM \<noteq> [] then parseCACertificates x caPEM else Inr []) of
                  Inl e \<Rightarrow> Inl (wrap ''failed to parse CA certificate: '' e)
                | Inr caCerts \<Rightarrow>
                    (case x5_Encode x key cert caCerts passphrase of
                       Inl e \<Rightarrow> Inl (wrap ''failed to encode PKCS12: '' e) | Inr p12 \<Rightarrow> Inr p12))))"

section \<open>Unlocking\<close>

definition validatePassphraseComplexity :: "string \<Rightarrow> bool" where
  "validatePassphraseComplexity passphrase \<longleftrightarrow> \<not> length passphrase < 12"

definition may_download :: "config \<Rightarrow> principal \<Rightarrow> certificate_request \<Rightarrow> bool" where
  "may_download cfg q r \<longleftrightarrow>
     (MatchesOwner q (req_owner_iss r) (req_owner_sub r) \<and> HasScope cfg q ScopeMTLSDownloadCert) \<or>
     HasScope cfg q ScopeMTLSDownloadAllCerts"

definition hashToken :: "download_env \<Rightarrow> string \<Rightarrow> string \<Rightarrow> string" where
  "hashToken env token secret = de_hmac env secret token"

definition verifyTokenHash :: "download_env \<Rightarrow> string \<Rightarrow> string \<Rightarrow> string \<Rightarrow> bool" where
  "verifyTokenHash env token hash secret \<longleftrightarrow> hashToken env token secret = hash"

definition token_key :: "download_env \<Rightarrow> features_config \<Rightarrow> string \<Rightarrow> string" where
  "token_key env f token = ''download_token:'' @ hashToken env token (mtls_hmac_key (feat_mtls f))"

definition request_error :: "goerror \<Rightarrow> 'j response" where
  "request_error e = (if errors_Is e CertificateRequestNotFoundError then http_error 404 else http_error 500)"

definition issue_token ::
  "config \<Rightarrow> 'c provider \<Rightarrow> download_env \<Rightarrow> principal \<Rightarrow> certificate_request \<Rightarrow> string \<Rightarrow> (('c, 'w) cachectx_ext, unlock_response) handler" where
  "issue_token cfg cp env q r passphrase w =
     (case cfg_features cfg of
        None \<Rightarrow> (Panicked nil_dereference, w)
      | Some f \<Rightarrow>
          (let tok = \<lparr>dt_certificate_id = req_id r, dt_principal_iss = GetIss q, dt_principal_sub = GetSub q,
                 dt_passphrase = passphrase, dt_created_at = now w\<rparr>;
               (res, c) = cp_SetKey cp (now w) (token_key env f (de_uuid env)) (GoBytes (de_encode env tok)) downloadTokenLifetime (cch w)
           in case res of
                Inl e \<Rightarrow> (http_error 500, w\<lparr>cch := c\<rparr>)
              | Inr _ \<Rightarrow> (JSON 200 \<lparr>ul_unlocked = True, ul_error = [], ul_token = de_uuid env,
                             ul_expires_in = downloadTokenLifetime div second\<rparr>, w\<lparr>cch := c\<rparr>)))"

definition POSTCertificateUnlock ::
  "config \<Rightarrow> 'c provider \<Rightarrow> download_env \<Rightarrow> string \<Rightarrow> string result \<Rightarrow> (('c, 'w) cachectx_ext, unlock_response) app_handler" where
  "POSTCertificateUnlock cfg cp env idParam body p w =
     (case path_id idParam of
        Inl e \<Rightarrow> (http_error 400, w)
      | Inr certificateId \<Rightarrow>
        (case p of
           None \<Rightarrow> (http_error 401, w)
         | Some q \<Rightarrow>
             try_http (GetCertificateRequestByID certificateId) request_error
               (\<lambda>r. if \<not> may_download cfg q r then reply (http_error 403)
                     else (case body of
                         Inl e \<Rightarrow> reply (http_error 400)
                       | Inr passphrase \<Rightarrow>
                           if passphrase = [] \<or> \<not> validatePassphraseComplexity passphrase
                           then reply (JSON 400 \<lparr>ul_unlocked = False, ul_error = ''passphrase must be at least 12 characters'',
                                          ul_token = [], ul_expires_in = 0\<rparr>)
                           else issue_token cfg cp env q r passphrase)) w))"

section \<open>Downloading\<close>

text \<open>The token is taken from the cache before it is looked at, so it is used up whatever follows.\<close>

definition take_token ::
  "'c provider \<Rightarrow> download_env \<Rightarrow> features_config \<Rightarrow> string \<Rightarrow> ('c, 'w) cachectx_scheme \<Rightarrow> download_token result \<times> ('c, 'w) cachectx_scheme" where
  "take_token cp env f token w =
     (let (res, c) = cp_GetDelKey cp (now w) (token_key env f token) (cch w) in
      (case res of Inl e \<Rightarrow> Inl e | Inr json \<Rightarrow> de_decode env json, w\<lparr>cch := c\<rparr>))"

definition send_certificate ::
  "config \<Rightarrow> download_env \<Rightarrow> peer \<Rightarrow> principal \<Rightarrow> int \<Rightarrow> download_token \<Rightarrow> certificate_request \<Rightarrow> ('w, unlock_response) handler" where
  "send_certificate cfg env pe q certificateId tok r w =
     (if req_status r \<noteq> StatusIssued then (JSONError 400 ''Certificate is not issued yet'', w)
      else if \<not> may_download cfg q r then (http_error 403, w)
      else (case req_identifier r of
          None \<Rightarrow> (JSONError 400 ''Certificate identifier not found'', w)
        | Some identifier \<Rightarrow>
            (case de_data env identifier of
               Inl e \<Rightarrow> (http_error 500, w)
             | Inr (certPEM, keyPEM, caPEM) \<Rightarrow>
                 (case SplitHostPort (peer_addr pe) of
                    Inl e \<Rightarrow> (http_error 500, w)
                  | Inr (host, port) \<Rightarrow>
                      try_http (InsertAuditLogCertificateDownload (de_pg env) certificateId (GetSub q) (GetIss q) host (peer_agent pe)
                                  (de_agent env (peer_agent pe)))
                        (\<lambda>e. http_error 500)
                        (\<lambda>_. case GenerateP12 (de_x509 env) certPEM keyPEM caPEM (dt_passphrase tok) of
                            Inl e \<Rightarrow> reply (http_error 500)
                          | Inr p12 \<Rightarrow> reply (Attachment (''certificate-'' @ show_int certificateId @ ''.p12'') p12)) w))))"

definition GETCertificateDownload ::
  "config \<Rightarrow> 'c provider \<Rightarrow> download_env \<Rightarrow> peer \<Rightarrow> string \<Rightarrow> query \<Rightarrow> (('c, 'w) cachectx_ext, unlock_response) app_handler" where
  "GETCertificateDownload cfg cp env pe idParam qs p w =
     (case path_id idParam of
        Inl e \<Rightarrow> (http_error 400, w)
      | Inr certificateId \<Rightarrow>
        (let token = strings_TrimSpace (Query_Get qs ''token'') in
         if token = [] then (http_error 400, w)
         else (case p of
             None \<Rightarrow> (http_error 401, w)
           | Some q \<Rightarrow>
             (case cfg_features cfg of
                None \<Rightarrow> (Panicked nil_dereference, w)
              | Some f \<Rightarrow>
                (case take_token cp env f token w of
                   (Inl e, w1) \<Rightarrow> (http_error 500, w1)
                 | (Inr tok, w1) \<Rightarrow>
                     if \<not> MatchesOwner q (dt_principal_iss tok) (dt_principal_sub tok) then (http_error 403, w1)
                     else if certificateId \<noteq> dt_certificate_id tok then (http_error 403, w1)
                     else try_http (GetCertificateRequestByID certificateId) request_error
                            (send_certificate cfg env pe q certificateId tok) w1)))))"

section \<open>What a file in the answer means\<close>

lemma request_error_no_file [simp]: "request_error e \<noteq> Attachment name p12" "request_error e \<noteq> JSON n j"
  by (simp_all add: request_error_def)

lemma download_token_taken:
  assumes "GETCertificateDownload cfg cp env pe idParam qs p w = (Attachment name p12, w')"
  obtains i q f tok w1 where "path_id idParam = Inr i" and "strings_TrimSpace (Query_Get qs ''token'') \<noteq> []" and "p = Some q"
    and "cfg_features cfg = Some f" and "take_token cp env f (strings_TrimSpace (Query_Get qs ''token'')) w = (Inr tok, w1)"
    and "MatchesOwner q (dt_principal_iss tok) (dt_principal_sub tok)" and "dt_certificate_id tok = i"
    and "try_http (GetCertificateRequestByID i) request_error (send_certificate cfg env pe q i tok) w1 = (Attachment name p12, w')"
  using assms
  by (auto simp: GETCertificateDownload_def Let_def split: sum.splits option.splits if_splits prod.splits intro!: that)

lemma send_certificate_file:
  assumes "send_certificate cfg env pe q i tok r w = (Attachment name p12, w')"
  obtains ident certPEM keyPEM caPEM host port x where "req_status r = StatusIssued" and "may_download cfg q r"
    and "req_identifier r = Some ident" and "de_data env ident = Inr (certPEM, keyPEM, caPEM)"
    and "SplitHostPort (peer_addr pe) = Inr (host, port)"
    and "InsertAuditLogCertificateDownload (de_pg env) i (GetSub q) (GetIss q) host (peer_agent pe) (de_agent env (peer_agent pe)) w = (Inr x, w')"
    and "GenerateP12 (de_x509 env) certPEM keyPEM caPEM (dt_passphrase tok) = Inr p12"
  using assms
  by (auto simp: send_certificate_def try_http_def reply_def split: sum.splits option.splits if_splits prod.splits intro!: that)

lemma take_token_frame:
  assumes "take_token cp env f token w = (Inr tok, w1)"
  obtains c json where "cp_GetDelKey cp (now w) (token_key env f token) (cch w) = (Inr json, c)" and "de_decode env json = Inr tok"
    and "w1 = w\<lparr>cch := c\<rparr>"
  using assms by (auto simp: take_token_def Let_def split: prod.splits sum.splits intro: that)

lemma send_certificate_cache:
  assumes "try_http (GetCertificateRequestByID i) request_error (send_certificate cfg env pe q i tok) w1 = (Attachment name p12, w')"
  shows "cch w' = cch w1"
proof -
  from assms obtain r w2 where get: "GetCertificateRequestByID i w1 = (Inr r, w2)"
    and sent: "send_certificate cfg env pe q i tok r w2 = (Attachment name p12, w')"
    by (auto simp: try_http_def split: sum.splits prod.splits if_splits)
  obtain row fs where "w2 = w1\<lparr>faults := fs\<rparr>"
    by (rule GetCertificateRequestByID_success [OF get])
  obtain host x where ins: "InsertAuditLogCertificateDownload (de_pg env) i (GetSub q) (GetIss q) host (peer_agent pe)
      (de_agent env (peer_agent pe)) w2 = (Inr x, w')"
    by (rule send_certificate_file [OF sent])
  have "framed (InsertAuditLogCertificateDownload (de_pg env) i (GetSub q) (GetIss q) host (peer_agent pe) (de_agent env (peer_agent pe)))"
    unfolding InsertAuditLogCertificateDownload_def GetCertificateDownloadAuditLogByID_def by (intro framed_intros)
  then obtain d fs' where "w' = w2\<lparr>db := d, faults := fs'\<rparr>"
    using ins by (rule framedE)
  with \<open>w2 = w1\<lparr>faults := fs\<rparr>\<close> show ?thesis by simp
qed

lemma download_takes_key:
  assumes "GETCertificateDownload cfg cp env pe idParam qs p w = (Attachment name p12, w')" and "cfg_features cfg = Some f"
  obtains json where
    "cp_GetDelKey cp (now w) (token_key env f (strings_TrimSpace (Query_Get qs ''token''))) (cch w) = (Inr json, cch w')"
proof -
  obtain i q tok w1 where take: "take_token cp env f (strings_TrimSpace (Query_Get qs ''token'')) w = (Inr tok, w1)"
    and sent: "try_http (GetCertificateRequestByID i) request_error (send_certificate cfg env pe q i tok) w1 = (Attachment name p12, w')"
    by (rule download_token_taken [OF assms(1)]) (auto simp: assms(2))
  from take_token_frame [OF take] send_certificate_cache [OF sent] show ?thesis
    by (metis that cachectx.select_convs(1) cachectx.surjective cachectx.update_convs(1))
qed

lemma unlock_stores_token:
  assumes "POSTCertificateUnlock cfg cp env idParam (Inr passphrase) (Some q) w = (JSON 200 j, w1)"
    and "cfg_features cfg = Some f" and "path_id idParam = Inr i"
  obtains x where "may_download cfg q x" and "12 \<le> length passphrase" and "ul_token j = de_uuid env"
    and "cp_SetKey cp (now w) (token_key env f (de_uuid env))
           (GoBytes (de_encode env \<lparr>dt_certificate_id = i, dt_principal_iss = GetIss q, dt_principal_sub = GetSub q,
              dt_passphrase = passphrase, dt_created_at = now w\<rparr>)) downloadTokenLifetime (cch w) = (Inr (), cch w1)"
proof -
  from assms(1,3) obtain r w2 where get: "GetCertificateRequestByID i w = (Inr r, w2)" and may: "may_download cfg q r"
    and "12 \<le> length passphrase" and issue: "issue_token cfg cp env q r passphrase w2 = (JSON 200 j, w1)"
    by (auto simp: POSTCertificateUnlock_def try_http_def reply_def validatePassphraseComplexity_def
        split: sum.splits prod.splits if_splits)
  moreover obtain row fs where "cr_id row = i" "r = (scan_request row)\<lparr>req_events := map scan_event (events_of i (db w))\<rparr>"
      "w2 = w\<lparr>faults := fs\<rparr>"
    by (rule GetCertificateRequestByID_success [OF get])
  ultimately show ?thesis
    using assms(2) by (auto simp: issue_token_def Let_def scan_request_def split: prod.splits sum.splits intro!: that)
qed

section \<open>Properties\<close>

text \<open>
  C10: a certificate leaves the server only as the rules say. When \<open>GETCertificateDownload\<close> answers with a
  file, its token was in the cache and is the caller's own, for this certificate; the request is issued and
  the caller is its owner with the download scope, or may download all; the file is the PKCS 12 of the
  certificate's data under the token's passphrase; and exactly one row was added to the download log, which
  names the caller and the client's address.
\<close>

theorem download_is_authorized:
  assumes "GETCertificateDownload cfg cp env pe idParam qs p w = (Attachment name p12, w')"
  shows "\<exists>q f json c tok row ident certPEM keyPEM caPEM host port dl.
     p = Some q \<and> cfg_features cfg = Some f \<and>
     cp_GetDelKey cp (now w) (token_key env f (strings_TrimSpace (Query_Get qs ''token''))) (cch w) = (Inr json, c) \<and> cch w' = c \<and>
     de_decode env json = Inr tok \<and> MatchesOwner q (dt_principal_iss tok) (dt_principal_sub tok) \<and>
     find_request (dt_certificate_id tok) (db w) = Some row \<and> cr_status row = StatusIssued \<and>
     (HasScope cfg q ScopeMTLSDownloadAllCerts \<or>
      (HasScope cfg q ScopeMTLSDownloadCert \<and> MatchesOwner q (cr_owner_iss row) (cr_owner_sub row))) \<and>
     cr_identifier row = Some ident \<and> de_data env ident = Inr (certPEM, keyPEM, caPEM) \<and>
     GenerateP12 (de_x509 env) certPEM keyPEM caPEM (dt_passphrase tok) = Inr p12 \<and>
     SplitHostPort (peer_addr pe) = Inr (host, port) \<and> t_downloads (db w') = t_downloads (db w) @ [dl] \<and>
     dl_request_id dl = cr_id row \<and> dl_iss dl = GetIss q \<and> dl_sub dl = GetSub q \<and> inet_in (de_pg env) host = Some (dl_ip dl)"
proof -
  obtain i q f tok w1 where p: "p = Some q" "cfg_features cfg = Some f"
      "MatchesOwner q (dt_principal_iss tok) (dt_principal_sub tok)" "dt_certificate_id tok = i"
    and take: "take_token cp env f (strings_TrimSpace (Query_Get qs ''token'')) w = (Inr tok, w1)"
    and send: "try_http (GetCertificateRequestByID i) request_error (send_certificate cfg env pe q i tok) w1 = (Attachment name p12, w')"
    by (rule download_token_taken [OF assms])
  obtain c json where key: "cp_GetDelKey cp (now w) (token_key env f (strings_TrimSpace (Query_Get qs ''token''))) (cch w) = (Inr json, c)"
      "de_decode env json = Inr tok" "w1 = w\<lparr>cch := c\<rparr>"
    by (rule take_token_frame [OF take])
  from send obtain r w2 where get: "GetCertificateRequestByID i w1 = (Inr r, w2)"
    and sent: "send_certificate cfg env pe q i tok r w2 = (Attachment name p12, w')"
    by (auto simp: try_http_def split: sum.splits prod.splits if_splits)
  obtain row fs where row: "find_request i (db w1) = Some row" "cr_id row = i"
      "r = (scan_request row)\<lparr>req_events := map scan_event (events_of i (db w1))\<rparr>" and w2: "w2 = w1\<lparr>faults := fs\<rparr>"
    by (rule GetCertificateRequestByID_success [OF get])
  obtain ident certPEM keyPEM caPEM host port x where s: "req_status r = StatusIssued" "may_download cfg q r"
      "req_identifier r = Some ident" "de_data env ident = Inr (certPEM, keyPEM, caPEM)"
      "SplitHostPort (peer_addr pe) = Inr (host, port)"
      "GenerateP12 (de_x509 env) certPEM keyPEM caPEM (dt_passphrase tok) = Inr p12"
    and ins: "InsertAuditLogCertificateDownload (de_pg env) i (GetSub q) (GetIss q) host (peer_agent pe) (de_agent env (peer_agent pe)) w2 = (Inr x, w')"
    by (rule send_certificate_file [OF sent])
  obtain a dl where dl: "inet_in (de_pg env) host = Some a" "db w' = (db w2)\<lparr>seqs := seqs (db w'), t_downloads := t_downloads (db w2) @ [dl]\<rparr>"
      "dl_request_id dl = i" "dl_sub dl = GetSub q" "dl_iss dl = GetIss q" "dl_ip dl = a"
    by (rule InsertAuditLog_success [OF ins])
  have cch: "cch w' = c"
    using send_certificate_cache [OF send] key(3) by simp
  have same: "db w2 = db w" "db w1 = db w"
    using w2 key(3) by simp_all
  have req: "req_status r = cr_status row" "req_identifier r = cr_identifier row" "req_owner_iss r = cr_owner_iss row"
      "req_owner_sub r = cr_owner_sub row"
    by (simp_all add: row(3) scan_request_def)
  have log: "t_downloads (db w') = t_downloads (db w) @ [dl]"
    using arg_cong [OF dl(2), of t_downloads] same by simp
  have may: "HasScope cfg q ScopeMTLSDownloadAllCerts \<or>
      (HasScope cfg q ScopeMTLSDownloadCert \<and> MatchesOwner q (cr_owner_iss row) (cr_owner_sub row))"
    using s(2) req(3,4) by (auto simp: may_download_def)
  have row': "find_request (dt_certificate_id tok) (db w) = Some row" "cr_status row = StatusIssued" "cr_identifier row = Some ident"
      "dl_request_id dl = cr_id row" "inet_in (de_pg env) host = Some (dl_ip dl)"
    using row(1,2) p(4) s(1,3) req(1,2) same(2) dl(1,3,6) by simp_all
  show ?thesis
    by (intro exI conjI; fact p key(1,2) cch row' may s(4-6) log dl(4,5))
qed

text \<open>
  C11: a download token works once. After a download with the memory cache was answered with a file, no later
  request with the same token is, whatever the certificate, the caller and the state, and whatever happened
  in between to the clock, to other keys and to the timers of the cache.
\<close>

theorem download_token_works_once:
  assumes "GETCertificateDownload cfg mem_provider env pe idParam qs p w = (Attachment name p12, w')"
    and "cfg_features cfg = Some f" and "token = strings_TrimSpace (Query_Get qs ''token'')"
    and "mem_keys.later (token_key env f token) (cch w') (cch v)"
    and "strings_TrimSpace (Query_Get qs2 ''token'') = token"
    and "GETCertificateDownload cfg mem_provider env pe2 idParam2 qs2 p2 v = (res, v')"
  shows "res \<noteq> Attachment name2 p12'"
proof
  assume res: "res = Attachment name2 p12'"
  obtain json where first: "mem_GetDelKey (now w) (token_key env f token) (cch w) = (Inr json, cch w')"
    using download_takes_key [OF assms(1,2)] by (auto simp: assms(3) mem_provider_def)
  obtain json2 where second: "mem_GetDelKey (now v) (token_key env f token) (cch v) = (Inr json2, cch v')"
    using download_takes_key [OF assms(6) [unfolded res] assms(2)] by (auto simp: assms(5) mem_provider_def)
  from mem_keys.taken_once [OF first assms(4), of "now v"] second show False by simp
qed



section \<open>Witnesses\<close>

text \<open>Alice's request is issued; an administrator unlocks and downloads it.\<close>

definition dl_row :: cert_row where
  "dl_row = example_request_row\<lparr>cr_status := StatusIssued, cr_identifier := Some ''c1''\<rparr>"

definition dl_ctx :: "mem_cache cachectx" where
  "dl_ctx = \<lparr>db = (db example_request_world)\<lparr>t_cert_requests := [dl_row]\<rparr>, now = 9, faults = [], sess = empty_session, cch = NewMemCache\<rparr>"

definition dl_token :: "string \<Rightarrow> download_token" where
  "dl_token s = \<lparr>dt_certificate_id = 1, dt_principal_iss = ''idp'', dt_principal_sub = ''alice'', dt_passphrase = s, dt_created_at = 9\<rparr>"

definition dl_env :: download_env where
  "dl_env = \<lparr>de_encode = dt_passphrase, de_decode = (\<lambda>s. Inr (dl_token s)), de_hmac = (\<lambda>secret token. token), de_uuid = ''tok'',
     de_agent = (\<lambda>s. \<lparr>ag_browser = [], ag_browser_version = \<lparr>av_major = 0, av_minor = 0, av_patch = 0\<rparr>, ag_os = [],
       ag_os_version = \<lparr>av_major = 0, av_minor = 0, av_patch = 0\<rparr>, ag_device = []\<rparr>),
     de_pg = fw_pg, de_data = (\<lambda>s. Inr (''CERT'', ''KEY'', [])),
     de_x509 = \<lparr>x5_blocks = (\<lambda>s. [\<lparr>pem_type = ''CERTIFICATE'', pem_bytes = s\<rparr>]), x5_ParseCertificate = Inr, x5_ParsePKCS8 = Inr,
       x5_ParsePKCS1 = Inr, x5_ParseEC = Inr, x5_Encode = (\<lambda>key cert cas pass. Inr (cert @ pass))\<rparr>\<rparr>"

abbreviation dl_passphrase :: string where "dl_passphrase \<equiv> ''correct horse''"
abbreviation dl_admin :: principal where "dl_admin \<equiv> PUser example_user"

lemma dl_env_sel [simp]: "de_encode dl_env = dt_passphrase" "de_decode dl_env s = Inr (dl_token s)" "de_uuid dl_env = ''tok''"
  "token_key dl_env f t = ''download_token:'' @ t" "de_data dl_env s = Inr (''CERT'', ''KEY'', [])" "de_pg dl_env = fw_pg"
  "GenerateP12 (de_x509 dl_env) ''CERT'' ''KEY'' [] s = Inr (''CERT'' @ s)"
  by (simp_all add: dl_env_def token_key_def hashToken_def GenerateP12_def parseCertificate_def parsePrivateKey_def)

lemma dl_row_sel [simp]: "cr_id dl_row = 1" "cr_status dl_row = StatusIssued" "cr_identifier dl_row = Some ''c1''"
  by (simp_all add: dl_row_def example_request_row_def)

lemma dl_cfg: "cfg_features example_config = Some DefaultFeaturesConfig"
  by (simp add: example_config_def)

lemma dl_get:
  assumes "db v = db dl_ctx" and "faults v = []"
  shows "GetCertificateRequestByID 1 v = (Inr (scan_request dl_row), v)"
proof -
  have "find_request 1 (db v) = Some dl_row" "t_cert_events (db v) = []"
    by (simp_all add: assms(1) dl_ctx_def find_request_def example_request_db empty_database_def example_world_def)
  with assms(2) show ?thesis
    by (simp add: GetCertificateRequestByID_def try_db_def db_query_row_eq db_query_eq ok_def events_of_def scan_request_def)
qed

lemma dl_unlock:
  "POSTCertificateUnlock example_config mem_provider dl_env ''1'' (Inr dl_passphrase) (Some dl_admin) dl_ctx =
     (JSON 200 \<lparr>ul_unlocked = True, ul_error = [], ul_token = ''tok'', ul_expires_in = 300\<rparr>,
      dl_ctx\<lparr>cch := snd (mem_SetKey 9 ''download_token:tok'' (GoBytes dl_passphrase) downloadTokenLifetime NewMemCache)\<rparr>)"
  using dl_get [of dl_ctx] path_id_1
  by (simp add: POSTCertificateUnlock_def try_http_def may_download_def example_user_scopes validatePassphraseComplexity_def
      issue_token_def dl_cfg mem_provider_def dl_ctx_def mem_SetKey_def downloadTokenLifetime_def)

definition dl_unlocked :: "mem_cache cachectx" where
  "dl_unlocked = snd (POSTCertificateUnlock example_config mem_provider dl_env ''1'' (Inr dl_passphrase) (Some dl_admin) dl_ctx)"

lemma dl_download: "\<exists>w'. GETCertificateDownload example_config mem_provider dl_env fw_peer ''1'' [(''token'', ''tok'')] (Some dl_admin) dl_unlocked =
    (Attachment ''certificate-1.p12'' (''CERT'' @ dl_passphrase), w')"
proof -
  let ?v = "dl_unlocked\<lparr>cch := snd (mem_GetDelKey 9 ''download_token:tok'' (cch dl_unlocked))\<rparr>"
  have sel: "db dl_unlocked = db dl_ctx" "faults dl_unlocked = []" "now dl_unlocked = 9"
    "cch dl_unlocked = snd (mem_SetKey 9 ''download_token:tok'' (GoBytes dl_passphrase) downloadTokenLifetime NewMemCache)"
    by (simp_all add: dl_unlocked_def dl_unlock) (simp_all add: dl_ctx_def)
  have trim: "strings_TrimSpace (Query_Get [(''token'', ''tok'')] ''token'') = ''tok''"
    by (simp add: Query_Get_def strings_TrimSpace_def is_space_def)
  have "fst (mem_GetDelKey 9 ''download_token:tok'' (cch dl_unlocked)) = Inr dl_passphrase"
    by (simp add: sel mem_GetDelKey_def mem_SetKey_def downloadTokenLifetime_def expired_def)
  then have take: "take_token mem_provider dl_env DefaultFeaturesConfig ''tok'' dl_unlocked = (Inr (dl_token dl_passphrase), ?v)"
    by (simp add: take_token_def mem_provider_def sel(3) split_beta)
  have get: "GetCertificateRequestByID 1 ?v = (Inr (scan_request dl_row), ?v)"
    by (rule dl_get) (simp_all add: sel)
  have peer: "SplitHostPort (peer_addr fw_peer) = Inr (''10.0.0.7'', ''4711'')"
    by (simp add: fw_peer_def SplitHostPort_def last_colon_def)
  have "find_request 1 (db dl_ctx) = Some dl_row"
    by (simp add: dl_ctx_def find_request_def)
  then have log: "\<exists>x w'. InsertAuditLogCertificateDownload fw_pg 1 ''alice'' ''idp'' ''10.0.0.7'' a g ?v = (Inr x, w')" for a g
    by (simp add: InsertAuditLogCertificateDownload_def GetCertificateDownloadAuditLogByID_def try_db_def roundtrip_def ok_def
        sql_insert_download_def with_inet_def fw_add_sel sel db_query_row_eq pop_fault_def next_fault_def Let_def)
       (simp add: dl_ctx_def example_request_db empty_database_def ok_def)
  have own: "MatchesOwner dl_admin (dt_principal_iss (dl_token dl_passphrase)) (dt_principal_sub (dl_token dl_passphrase))"
      "dt_certificate_id (dl_token dl_passphrase) = 1" "dt_passphrase (dl_token dl_passphrase) = dl_passphrase"
      "usr_iss example_user = ''idp''" "usr_sub example_user = ''alice''"
    by (simp_all add: dl_token_def user_MatchesOwner_def example_user_def)
  have int: "show_int 1 = ''1''"
    by (simp add: show_int_def show_nat.simps digit_char_def char_of_def bit_0)
  show ?thesis
    using log [of "peer_agent fw_peer" "de_agent dl_env (peer_agent fw_peer)"] own
    by (auto simp: GETCertificateDownload_def trim dl_cfg take try_http_def get send_certificate_def peer may_download_def
        example_user_scopes path_id_1 [unfolded One_nat_def] reply_def int scan_request_def)
qed

lemma dl_query: "strings_TrimSpace (Query_Get [(''token'', ''tok'')] ''token'') = ''tok''"
  by (simp add: Query_Get_def strings_TrimSpace_def is_space_def)

theorem download_is_authorized_witness:
  "\<exists>w' dl. GETCertificateDownload example_config mem_provider dl_env fw_peer ''1'' [(''token'', ''tok'')] (Some dl_admin) dl_unlocked =
      (Attachment ''certificate-1.p12'' (''CERT'' @ dl_passphrase), w') \<and>
     t_downloads (db w') = t_downloads (db dl_unlocked) @ [dl] \<and> dl_sub dl = ''alice''"
proof -
  obtain w' where run: "GETCertificateDownload example_config mem_provider dl_env fw_peer ''1'' [(''token'', ''tok'')] (Some dl_admin)
      dl_unlocked = (Attachment ''certificate-1.p12'' (''CERT'' @ dl_passphrase), w')"
    using dl_download by blast
  from download_is_authorized [OF run]
  have "\<exists>dl. t_downloads (db w') = t_downloads (db dl_unlocked) @ [dl] \<and> dl_sub dl = GetSub dl_admin"
    by (elim exE conjE, intro exI conjI) (assumption, simp only: option.inject)
  moreover have "GetSub dl_admin = ''alice''"
    by (simp add: example_user_def)
  ultimately show ?thesis
    using run by (elim exE conjE, intro exI conjI) (assumption, assumption, simp only:)
qed

text \<open>Witness: the administrator's second try with the same token finds nothing.\<close>

theorem download_token_works_once_witness:
  "\<exists>w'. GETCertificateDownload example_config mem_provider dl_env fw_peer ''1'' [(''token'', ''tok'')] (Some dl_admin) dl_unlocked =
      (Attachment ''certificate-1.p12'' (''CERT'' @ dl_passphrase), w') \<and>
     (\<forall>name p12. fst (GETCertificateDownload example_config mem_provider dl_env fw_peer ''1'' [(''token'', ''tok'')] (Some dl_admin) w')
        \<noteq> Attachment name p12)"
proof -
  obtain w' where run: "GETCertificateDownload example_config mem_provider dl_env fw_peer ''1'' [(''token'', ''tok'')] (Some dl_admin)
      dl_unlocked = (Attachment ''certificate-1.p12'' (''CERT'' @ dl_passphrase), w')"
    using dl_download by blast
  obtain res v' where again: "GETCertificateDownload example_config mem_provider dl_env fw_peer ''1'' [(''token'', ''tok'')] (Some dl_admin) w'
      = (res, v')"
    by fastforce
  have "res \<noteq> Attachment n x" for n x
    by (rule download_token_works_once [OF run dl_cfg HOL.refl mem_keys.later.same HOL.refl again])
  then have "\<forall>n x. fst (res, v') \<noteq> Attachment n x"
    by simp
  then show ?thesis
    unfolding again [symmetric] using run by blast
qed


end
