(* ===== verification/Durations.thy ===== *)
theory Durations
  imports Prelude
begin

text \<open>
  Durations: \<open>internal/utils/time.go\<close>, which reads the range and the step of a query, with the functions of
  Go's \<open>time\<close> package it uses, and the text of a duration in the messages of the jobs. Go's \<open>int\<close> and
  \<open>time.Duration\<close> have 64 bits and wrap around; \<open>int64\<close> makes the wrap-around explicit.

  \<open>ParseTimeString\<close> and what it calls are not modelled: no part of the program uses them.
\<close>

definition int64 :: "int \<Rightarrow> int" where
  "int64 i = (i + 2 ^ 63) mod 2 ^ 64 - 2 ^ 63"

lemma int64_id: "- (2 ^ 63) \<le> i \<Longrightarrow> i < 2 ^ 63 \<Longrightarrow> int64 i = i"
  by (simp add: int64_def)

section \<open>Go's durations\<close>

definition is_digit :: "char \<Rightarrow> bool" where
  "is_digit c \<longleftrightarrow> digit_val c \<noteq> None"

text \<open>The units of \<open>time.ParseDuration\<close>; the micro sign has two encodings.\<close>

definition unit_ns :: "string \<Rightarrow> nat option" where
  "unit_ns u =
     map_of [(''ns'', 1), (''us'', 1000), ([CHR 0xC2, CHR 0xB5, CHR ''s''], 1000), ([CHR 0xCE, CHR 0xBC, CHR ''s''], 1000),
             (''ms'', 1000000), (''s'', 1000000000), (''m'', 60000000000), (''h'', 3600000000000)] u"

text \<open>
  The loop of \<open>time.ParseDuration\<close> over numbers and units. It also reads fractions; the texts the program
  gives it have none, and here a point is a text it cannot read.
\<close>

function parse_units :: "nat \<Rightarrow> string \<Rightarrow> nat option" where
  "parse_units d s =
     (if s = [] then Some d
      else (let ds = takeWhile is_digit s; rest = dropWhile is_digit s; u = takeWhile (\<lambda>c. \<not> is_digit c \<and> c \<noteq> CHR ''.'') rest in
        if ds = [] \<or> u = [] then None
        else (case (read_digits 0 ds, unit_ns u) of
            (Some v, Some k) \<Rightarrow>
              if v > 2 ^ 63 \<or> v > 2 ^ 63 div k \<or> d + v * k > 2 ^ 63 then None
              else parse_units (d + v * k) (drop (length u) rest)
          | _ \<Rightarrow> None)))"
  by pat_completeness auto

termination
proof (relation "measure (\<lambda>(d, s). length s)")
  fix d :: nat and s ds rest u p v k and y z :: nat
  assume "s \<noteq> []" "ds = takeWhile is_digit s" "rest = dropWhile is_digit s"
    "u = takeWhile (\<lambda>c. \<not> is_digit c \<and> c \<noteq> CHR ''.'') rest" "\<not> (ds = [] \<or> u = [])"
  then have "length rest \<le> length s" "1 \<le> length u" "length u \<le> length rest"
    by (simp_all add: length_dropWhile_le length_takeWhile_le Suc_le_eq)
  then have "length rest - length u < length s" by linarith
  then show "((d + y * z, drop (length u) rest), (d, s)) \<in> measure (\<lambda>(d, s). length s)" by simp
qed auto

declare parse_units.simps [simp del]

definition time_ParseDuration :: "string \<Rightarrow> duration result" where
  "time_ParseDuration s =
     (let bad = Inl (Errorf (''time: invalid duration '' @ [CHR 0x22] @ s @ [CHR 0x22]));
          (neg, t) = (case s of c # cs \<Rightarrow> if c = CHR ''-'' then (True, cs) else if c = CHR ''+'' then (False, cs) else (False, s)
                      | [] \<Rightarrow> (False, s))
      in if t = ''0'' then Inr 0
         else if t = [] then bad
         else (case parse_units 0 t of
             None \<Rightarrow> bad
           | Some d \<Rightarrow> if neg then Inr (- int d) else if d > 2 ^ 63 - 1 then bad else Inr (int d)))"

text \<open>\<open>Duration.String\<close>.\<close>

definition fraction :: "nat \<Rightarrow> nat \<Rightarrow> string" where
  "fraction prec v =
     (let ds = replicate (prec - length (show_nat v)) (CHR ''0'') @ show_nat v;
          trimmed = rev (dropWhile (\<lambda>c. c = CHR ''0'') (rev ds))
      in if trimmed = [] then [] else CHR ''.'' # trimmed)"

definition scaled :: "nat \<Rightarrow> nat \<Rightarrow> string" where
  "scaled prec u = show_nat (u div 10 ^ prec) @ (if prec = 0 then [] else fraction prec (u mod 10 ^ prec))"

definition Duration_String :: "duration \<Rightarrow> string" where
  "Duration_String d =
     (let u = nat \<bar>d\<bar>; secs = u div 10 ^ 9; frac = fraction 9 (u mod 10 ^ 9); mins = secs div 60 in
      if u = 0 then ''0s''
      else (if d < 0 then ''-'' else []) @
        (if u < 10 ^ 3 then scaled 0 u @ ''ns''
         else if u < 10 ^ 6 then scaled 3 u @ [CHR 0xC2, CHR 0xB5, CHR ''s'']
         else if u < 10 ^ 9 then scaled 6 u @ ''ms''
         else (if mins = 0 then [] else (if mins div 60 = 0 then [] else show_nat (mins div 60) @ ''h'') @ show_nat (mins mod 60) @ ''m'') @
              show_nat (secs mod 60) @ frac @ ''s''))"

section \<open>The units the program adds\<close>

definition HoursInDay :: int where "HoursInDay = 24"
definition HoursInWeek :: int where "HoursInWeek = HoursInDay * 7"
definition HoursInMonth :: int where "HoursInMonth = HoursInDay * 30"
definition HoursInYear :: int where "HoursInYear = HoursInDay * 365"

definition standardDurationUnits :: "string list" where
  "standardDurationUnits =
     [''ns'', ''us'', [CHR 0xC2, CHR 0xB5, CHR ''s''], [CHR 0xCE, CHR 0xBC, CHR ''s''], ''ms'', ''s'', ''m'', ''h'']"

definition IsStringInSlice :: "string \<Rightarrow> string list \<Rightarrow> bool" where
  "IsStringInSlice needle haystack = list_ex (\<lambda>b. b = needle) haystack"

text \<open>
  \<open>reOnlyNumeric\<close> is \<open>^\d+$\<close>. \<open>reDurationStandard\<close> is \<open>([1-9]\d*?)([^\d\s]+)\<close>:
  \<open>FindAllStringSubmatch\<close> gives the numbers and their units, leftmost first, and skips what is between.
\<close>

definition reOnlyNumeric :: "string \<Rightarrow> bool" where
  "reOnlyNumeric s \<longleftrightarrow> s \<noteq> [] \<and> list_all is_digit s"

definition re_space :: "char \<Rightarrow> bool" where
  "re_space c \<longleftrightarrow> c \<in> {CHR '' '', CHR 0x09, CHR 0x0A, CHR 0x0C, CHR 0x0D}"

abbreviation unit_char :: "char \<Rightarrow> bool" where
  "unit_char c \<equiv> \<not> is_digit c \<and> \<not> re_space c"

function reDurationStandard :: "string \<Rightarrow> (string \<times> string) list" where
  "reDurationStandard [] = []"
| "reDurationStandard (c # cs) =
     (let ds = takeWhile is_digit (c # cs); rest = dropWhile is_digit (c # cs); u = takeWhile unit_char rest in
      if is_digit c \<and> c \<noteq> CHR ''0'' \<and> u \<noteq> [] then (ds, u) # reDurationStandard (dropWhile unit_char rest)
      else reDurationStandard cs)"
  by pat_completeness auto

termination
proof (relation "measure length")
  fix c :: char and cs ds rest u :: string
  assume a: "rest = dropWhile is_digit (c # cs)" "is_digit c \<and> c \<noteq> CHR ''0'' \<and> u \<noteq> []"
  then have "length (dropWhile unit_char rest) \<le> length (dropWhile is_digit cs)"
    by (simp add: length_dropWhile_le)
  also have "\<dots> \<le> length cs" by (rule length_dropWhile_le)
  finally show "(dropWhile unit_char rest, c # cs) \<in> measure length" by simp
qed auto

declare reDurationStandard.simps(2) [simp del]

text \<open>\<open>strings.ReplaceAll(s, old, "")\<close> for an \<open>old\<close> that is not empty.\<close>

fun strings_RemoveAll :: "string \<Rightarrow> string \<Rightarrow> string" where
  "strings_RemoveAll old [] = []"
| "strings_RemoveAll old (c # cs) =
     (if prefix old (c # cs) \<and> old \<noteq> [] then strings_RemoveAll old (drop (length old - 1) cs)
      else c # strings_RemoveAll old cs)"

definition standardizeQuantityAndUnits :: "int \<Rightarrow> string \<Rightarrow> string result" where
  "standardizeQuantityAndUnits qty unit =
     (let hours = (\<lambda>n. Inr (show_int (int64 (qty * n)) @ ''h'')); invalid = Inl (Errorf (''the unit '' @ [CHR 0x27] @ unit @ [CHR 0x27] @ '' is not valid'')) in
      if IsStringInSlice unit standardDurationUnits then Inr (show_int qty @ unit)
      else if length unit = 1 then
        (if unit = ''d'' then hours HoursInDay
         else if unit = ''w'' then hours HoursInWeek
         else if unit = ''M'' then hours HoursInMonth
         else if unit = ''y'' then hours HoursInYear
         else invalid)
      else if unit \<in> {''millisecond'', ''milliseconds''} then Inr (show_int qty @ ''ms'')
      else if unit \<in> {''second'', ''seconds''} then Inr (show_int qty @ ''s'')
      else if unit \<in> {''minute'', ''minutes''} then Inr (show_int qty @ ''m'')
      else if unit \<in> {''hour'', ''hours''} then Inr (show_int qty @ ''h'')
      else if unit \<in> {''day'', ''days''} then hours HoursInDay
      else if unit \<in> {''week'', ''weeks''} then hours HoursInWeek
      else if unit \<in> {''month'', ''months''} then hours HoursInMonth
      else if unit \<in> {''year'', ''years''} then hours HoursInYear
      else invalid)"

fun standardize_matches :: "string \<Rightarrow> (string \<times> string) list \<Rightarrow> string result" where
  "standardize_matches input [] = Inr []"
| "standardize_matches input ((ds, u) # ms) =
     (case strconv_Atoi ds of
        Inl e \<Rightarrow> Inl e
      | Inr q \<Rightarrow> (case standardizeQuantityAndUnits q u of
          Inl e \<Rightarrow> Inl (wrap (''could not parse the units portion of '' @ [CHR 0x27] @ ds @ u @ [CHR 0x27] @ '' in duration string '' @
                           [CHR 0x27] @ input @ [CHR 0x27] @ '': '') e)
        | Inr o1 \<Rightarrow> (case standardize_matches input ms of Inl e \<Rightarrow> Inl e | Inr o2 \<Rightarrow> Inr (o1 @ o2))))"

definition StandardizeDurationString :: "string \<Rightarrow> string result" where
  "StandardizeDurationString s =
     (if s = [] then Inr ''0s''
      else (let input = strings_RemoveAll ''and'' s; ms = reDurationStandard (strings_RemoveAll '' '' input) in
        if ms = [] then Inl (Errorf (''could not parse '' @ [CHR 0x27] @ input @ [CHR 0x27] @ '' as a duration''))
        else standardize_matches input ms))"

definition ParseDurationString :: "string \<Rightarrow> duration result" where
  "ParseDurationString s =
     (if reOnlyNumeric s then (case strconv_Atoi s of Inl e \<Rightarrow> Inl e | Inr seconds \<Rightarrow> Inr (int64 (second * seconds)))
      else (case StandardizeDurationString s of Inl e \<Rightarrow> Inl e | Inr out \<Rightarrow> time_ParseDuration out))"

section \<open>What a text of numbers and units means\<close>

text \<open>Every unit the program reads: the number of Go's units it stands for, and that unit.\<close>

definition unit_table :: "(string \<times> nat \<times> string) list" where
  "unit_table =
     map (\<lambda>u. (u, 1, u)) standardDurationUnits @
     [(''d'', 24, ''h''), (''w'', 168, ''h''), (''M'', 720, ''h''), (''y'', 8760, ''h''),
      (''millisecond'', 1, ''ms''), (''milliseconds'', 1, ''ms''), (''second'', 1, ''s''), (''seconds'', 1, ''s''),
      (''minute'', 1, ''m''), (''minutes'', 1, ''m''), (''hour'', 1, ''h''), (''hours'', 1, ''h''), (''day'', 24, ''h''), (''days'', 24, ''h''),
      (''week'', 168, ''h''), (''weeks'', 168, ''h''), (''month'', 720, ''h''), (''months'', 720, ''h''), (''year'', 8760, ''h''),
      (''years'', 8760, ''h'')]"

definition unit_value :: "string \<Rightarrow> nat option" where
  "unit_value u = (case map_of unit_table u of None \<Rightarrow> None | Some (f, b) \<Rightarrow> map_option (\<lambda>k. f * k) (unit_ns b))"

definition duration_text :: "(nat \<times> string) list \<Rightarrow> string" where
  "duration_text items = concat (map (\<lambda>(q, u). show_nat q @ u) items)"

definition items_value :: "(nat \<times> string) list \<Rightarrow> nat" where
  "items_value items = sum_list (map (\<lambda>(q, u). q * the (unit_value u)) items)"

definition known_items :: "(nat \<times> string) list \<Rightarrow> bool" where
  "known_items items \<longleftrightarrow> list_all (\<lambda>(q, u). 1 \<le> q \<and> unit_value u \<noteq> None) items"

lemma unit_cases:
  assumes "unit_value u = Some v"
  obtains f b k where "(u, f, b) \<in> set unit_table" and "unit_ns b = Some k" and "v = f * k"
  using assms unfolding unit_value_def by (auto split: option.splits dest!: map_of_SomeD)

lemma digit_chars: "is_digit c \<Longrightarrow> c \<noteq> CHR ''a'' \<and> c \<noteq> CHR '' '' \<and> c \<noteq> CHR ''-'' \<and> c \<noteq> CHR ''+''"
  by (auto simp: is_digit_def digit_val_def Let_def)

lemma show_nat_digits: "list_all is_digit (show_nat n)"
  using digit_val_show_nat by (fastforce simp: list_all_iff is_digit_def)

lemma show_nat_hd: "1 \<le> n \<Longrightarrow> hd (show_nat n) \<noteq> CHR ''0''"
proof (induction n rule: show_nat.induct)
  case (1 n)
  show ?case
  proof (cases "n < 10")
    case True
    have "digit_char n \<noteq> CHR ''0''"
      using 1(2) True of_char_digit [of n] by (auto simp: digit_val_def)
    then show ?thesis using True by (simp add: show_nat.simps [of n])
  next
    case False
    then show ?thesis using 1(1) by (simp add: show_nat.simps [of n])
  qed
qed

text \<open>The rows of the table, checked one by one.\<close>

lemma table_base:
  "\<forall>(u, f, b) \<in> set unit_table. u \<noteq> [] \<and> list_all (\<lambda>c. unit_char c) u \<and> CHR '' '' \<notin> set u \<and> unit_ns b \<noteq> None"
  by (simp add: unit_table_def standardDurationUnits_def unit_ns_def is_digit_def digit_val_def re_space_def)

lemma table_base2:
  "\<forall>(u, f, b) \<in> set unit_table. b \<noteq> [] \<and> list_all (\<lambda>c. \<not> is_digit c \<and> c \<noteq> CHR ''.'') b"
  by (simp add: unit_table_def standardDurationUnits_def unit_ns_def is_digit_def digit_val_def re_space_def)

lemma table_and:
  "\<forall>(u, f, b) \<in> set unit_table. \<forall>rest. strings_RemoveAll ''and'' (u @ rest) = u @ strings_RemoveAll ''and'' rest"
  by (simp add: unit_table_def standardDurationUnits_def)

lemma table_standard:
  "\<forall>(u, f, b) \<in> set unit_table. int q * int f < 2 ^ 63 \<longrightarrow> standardizeQuantityAndUnits (int q) u = Inr (show_nat (q * f) @ b)"
  by (simp add: unit_table_def standardDurationUnits_def standardizeQuantityAndUnits_def IsStringInSlice_def show_int_def
      HoursInDay_def HoursInWeek_def HoursInMonth_def HoursInYear_def int64_def nat_mult_distrib)

lemma remove_and_digits:
  "list_all is_digit ds \<Longrightarrow> strings_RemoveAll ''and'' (ds @ rest) = ds @ strings_RemoveAll ''and'' rest"
  by (induction ds) (auto dest: digit_chars)

lemma remove_spaces: "CHR '' '' \<notin> set s \<Longrightarrow> strings_RemoveAll '' '' s = s"
  by (induction s) auto

lemma known_Cons [simp]:
  "known_items ((q, u) # items) \<longleftrightarrow> 1 \<le> q \<and> (\<exists>v. unit_value u = Some v) \<and> known_items items"
  by (auto simp: known_items_def)

lemma text_Cons [simp]: "duration_text ((q, u) # items) = show_nat q @ u @ duration_text items"
  by (simp add: duration_text_def)

lemma text_Nil [simp]: "duration_text [] = []" "known_items []" "items_value [] = 0"
  by (simp_all add: duration_text_def known_items_def items_value_def)

lemma value_Cons [simp]: "items_value ((q, u) # items) = q * the (unit_value u) + items_value items"
  by (simp add: items_value_def)

lemma hd_show_nat: "is_digit (hd (show_nat n))"
  using show_nat_digits [of n] by (cases "show_nat n") auto

lemma hd_text: "known_items items \<Longrightarrow> duration_text items = [] \<or> is_digit (hd (duration_text items))"
  by (cases items) (auto simp: hd_show_nat)

lemma text_and_removed: "known_items items \<Longrightarrow> strings_RemoveAll ''and'' (duration_text items) = duration_text items"
proof (induction items)
  case (Cons item items)
  obtain q u where item: "item = (q, u)" by (cases item)
  with Cons.prems obtain v where "unit_value u = Some v" by auto
  then obtain f b k where "(u, f, b) \<in> set unit_table" by (rule unit_cases)
  then have "strings_RemoveAll ''and'' (u @ rest) = u @ strings_RemoveAll ''and'' rest" for rest using table_and by blast
  then show ?case using Cons item by (simp add: remove_and_digits show_nat_digits)
qed simp

lemma text_no_space: "known_items items \<Longrightarrow> CHR '' '' \<notin> set (duration_text items)"
proof (induction items)
  case (Cons item items)
  obtain q u where item: "item = (q, u)" by (cases item)
  with Cons.prems obtain v where "unit_value u = Some v" by auto
  then obtain f b k where "(u, f, b) \<in> set unit_table" by (rule unit_cases)
  then have "CHR '' '' \<notin> set u" using table_base by blast
  moreover have "CHR '' '' \<notin> set (show_nat q)" using show_nat_digits [of q] digit_chars by (auto simp: list_all_iff)
  ultimately show ?case using Cons item by simp
qed simp

lemma takeWhile_front:
  "list_all P s \<Longrightarrow> rest = [] \<or> \<not> P (hd rest) \<Longrightarrow> takeWhile P (s @ rest) = s \<and> dropWhile P (s @ rest) = rest"
  by (induction s) (auto, (cases rest; simp)+)

lemma hd_unit: "u \<noteq> [] \<Longrightarrow> list_all (\<lambda>c. unit_char c) u \<Longrightarrow> \<not> is_digit (hd (u @ rest))"
  by (cases u) auto

lemma text_matches: "known_items items \<Longrightarrow> reDurationStandard (duration_text items) = map (\<lambda>(q, u). (show_nat q, u)) items"
proof (induction items)
  case (Cons item items)
  obtain q u where item: "item = (q, u)" by (cases item)
  with Cons.prems obtain v where "unit_value u = Some v" by auto
  then obtain f b k where "(u, f, b) \<in> set unit_table" by (rule unit_cases)
  then have u: "u \<noteq> []" "list_all (\<lambda>c. unit_char c) u" using table_base by blast+
  obtain c cs where n: "show_nat q = c # cs" by (cases "show_nat q") auto
  have c: "is_digit c" "c \<noteq> CHR ''0''"
    using show_nat_digits [of q] show_nat_hd [of q] Cons.prems n item by auto
  have d: "takeWhile is_digit (show_nat q @ u @ duration_text items) = show_nat q"
       "dropWhile is_digit (show_nat q @ u @ duration_text items) = u @ duration_text items"
    using takeWhile_front [OF show_nat_digits, of "u @ duration_text items" q] hd_unit [OF u] by auto
  have "duration_text items = [] \<or> \<not> unit_char (hd (duration_text items))"
    using hd_text Cons.prems item by auto
  then have e: "takeWhile (\<lambda>c. unit_char c) (u @ duration_text items) = u"
      "dropWhile (\<lambda>c. unit_char c) (u @ duration_text items) = duration_text items"
    using takeWhile_front [OF u(2)] by auto
  show ?case
    using Cons item c d e u(1) by (simp add: n reDurationStandard.simps(2) Let_def)
qed simp

text \<open>The standardised text: hours and Go's units.\<close>

definition standard_item :: "nat \<times> string \<Rightarrow> nat \<times> string" where
  "standard_item = (\<lambda>(q, u). case map_of unit_table u of None \<Rightarrow> (q, u) | Some (f, b) \<Rightarrow> (q * f, b))"

lemma unit_ns_positive: "unit_ns b = Some k \<Longrightarrow> 1 \<le> k"
  by (auto simp: unit_ns_def split: if_splits)

lemma table_positive: "\<forall>(u, f, b) \<in> set unit_table. 1 \<le> f"
  by (simp add: unit_table_def standardDurationUnits_def)

lemma value_item:
  assumes "unit_value u = Some v"
  obtains f b k where "map_of unit_table u = Some (f, b)" and "unit_ns b = Some k" and "v = f * k"
  using assms unfolding unit_value_def by (auto split: option.splits)

lemma Atoi_show_nat:
  assumes "n < 2 ^ 63"
  shows "strconv_Atoi (show_nat n) = Inr (int n)"
proof -
  obtain c cs where n: "show_nat n = c # cs" by (cases "show_nat n") auto
  then have "is_digit c" using hd_show_nat [of n] by simp
  moreover have "int n < 2 ^ 63" using assms by simp
  ultimately show ?thesis
    using read_show_nat [of n] digit_chars [of c] by (simp add: strconv_Atoi_def n Let_def)
qed

lemma standardize_text:
  assumes "known_items items" and "items_value items < 2 ^ 63"
  shows "standardize_matches input (map (\<lambda>(q, u). (show_nat q, u)) items) = Inr (duration_text (map standard_item items))"
  using assms
proof (induction items)
  case (Cons item items)
  obtain q u where item: "item = (q, u)" by (cases item)
  with Cons.prems obtain v where v: "unit_value u = Some v" by auto
  then obtain f b k where m: "map_of unit_table u = Some (f, b)" and k: "unit_ns b = Some k" "v = f * k" by (rule value_item)
  have t: "(u, f, b) \<in> set unit_table" using m by (rule map_of_SomeD)
  have "1 \<le> k" using unit_ns_positive k(1) by blast
  have small: "q * (f * k) < 2 ^ 63" using Cons.prems(2) item v k(2) by simp
  have "q * f \<le> q * (f * k)" using \<open>1 \<le> k\<close> by (simp add: mult_le_mono)
  then have qf: "q * f < 2 ^ 63" using small by linarith
  have "1 \<le> f" using table_positive t by blast
  then have "q \<le> q * f" by (simp add: mult_le_mono)
  then have q: "q < 2 ^ 63" using qf by linarith
  have "int (q * f) < int (2 ^ 63)" using qf by (simp only: of_nat_less_iff)
  then have "int q * int f < 2 ^ 63" by simp
  then have s: "standardizeQuantityAndUnits (int q) u = Inr (show_nat (q * f) @ b)" using table_standard t by blast
  have a: "strconv_Atoi (show_nat q) = Inr (int q)" using q by (rule Atoi_show_nat)
  have "standardize_matches input (map (\<lambda>(q, u). (show_nat q, u)) items) = Inr (duration_text (map standard_item items))"
    using Cons item by simp
  then show ?case using item a s m by (simp add: standard_item_def)
qed simp

lemma parse_standard:
  assumes "known_items items" and "d + items_value items \<le> 2 ^ 63"
  shows "parse_units d (duration_text (map standard_item items)) = Some (d + items_value items)"
  using assms
proof (induction items arbitrary: d)
  case Nil
  then show ?case by (simp add: parse_units.simps)
next
  case (Cons item items)
  obtain q u where item: "item = (q, u)" by (cases item)
  with Cons.prems obtain v where v: "unit_value u = Some v" by auto
  then obtain f b k where m: "map_of unit_table u = Some (f, b)" and k: "unit_ns b = Some k" "v = f * k" by (rule value_item)
  have t: "(u, f, b) \<in> set unit_table" using m by (rule map_of_SomeD)
  then have b: "b \<noteq> []" "list_all (\<lambda>c. \<not> is_digit c \<and> c \<noteq> CHR ''.'') b" using table_base2 by blast+
  define rest where "rest = duration_text (map standard_item items)"
  have hd_rest: "rest = [] \<or> is_digit (hd rest)"
    by (cases items) (auto simp: rest_def standard_item_def hd_show_nat split: option.splits)
  have whole: "duration_text (map standard_item (item # items)) = show_nat (q * f) @ b @ rest"
    using item m by (simp add: standard_item_def rest_def)
  have hd_b: "\<not> is_digit (hd (b @ rest))" using b by (cases b) auto
  have w: "takeWhile is_digit (show_nat (q * f) @ b @ rest) = show_nat (q * f)"
      "dropWhile is_digit (show_nat (q * f) @ b @ rest) = b @ rest"
    using takeWhile_front [OF show_nat_digits, of "b @ rest" "q * f"] hd_b by auto
  have x: "takeWhile (\<lambda>c. \<not> is_digit c \<and> c \<noteq> CHR ''.'') (b @ rest) = b"
    using takeWhile_front [OF b(2), of rest] hd_rest by auto
  have "1 \<le> k" using unit_ns_positive k(1) by blast
  have sum: "d + q * f * k + items_value items \<le> 2 ^ 63" using Cons.prems(2) item v k(2) by (simp add: mult.assoc)
  then have "q * f * k \<le> 2 ^ 63" by linarith
  then have fits: "q * f \<le> 2 ^ 63 div k" using \<open>1 \<le> k\<close> by (simp add: less_eq_div_iff_mult_less_eq)
  moreover have "2 ^ 63 div k \<le> (2 ^ 63 :: nat)" by simp
  ultimately have "q * f \<le> 2 ^ 63" by linarith
  then have "parse_units d (show_nat (q * f) @ b @ rest) = parse_units (d + q * f * k) rest"
    using w x b(1) k(1) sum fits by (simp add: parse_units.simps [of d] read_show_nat Let_def)
  also have "\<dots> = Some (d + q * f * k + items_value items)"
    unfolding rest_def using Cons.IH [of "d + q * f * k"] Cons.prems(1) sum item by simp
  finally show ?case using whole item v k(2) by (simp add: mult.assoc)
qed

lemma parse_nonempty:
  assumes "known_items items" and "items \<noteq> []" and "items_value items < 2 ^ 63"
  shows "time_ParseDuration (duration_text (map standard_item items)) = Inr (int (items_value items))"
proof -
  obtain q u rest where items: "items = (q, u) # rest" using assms(2) by (cases items) auto
  then obtain v where "unit_value u = Some v" using assms(1) by auto
  then obtain f b k where m: "map_of unit_table u = Some (f, b)" by (rule value_item)
  have b: "b \<noteq> []" using table_base2 map_of_SomeD [OF m] by blast
  have whole: "duration_text (map standard_item items) = show_nat (q * f) @ b @ duration_text (map standard_item rest)"
    using items m by (simp add: standard_item_def)
  obtain c cs where c: "show_nat (q * f) = c # cs" by (cases "show_nat (q * f)") auto
  then have sign: "c \<noteq> CHR ''-''" "c \<noteq> CHR ''+''" using hd_show_nat [of "q * f"] digit_chars [of c] by auto
  have "parse_units 0 (duration_text (map standard_item items)) = Some (items_value items)"
    using parse_standard [OF assms(1), of 0] assms(3) by simp
  moreover have "int (items_value items) < 2 ^ 63" using assms(3) by simp
  ultimately show ?thesis
    using whole c sign b assms(3) by (simp add: time_ParseDuration_def)
qed

lemma standard_text:
  assumes "items \<noteq> []" and "known_items items" and "items_value items < 2 ^ 63"
    and "s \<noteq> []" and "strings_RemoveAll ''and'' s = s" and "strings_RemoveAll '' '' s = s"
    and "reDurationStandard s = map (\<lambda>(q, u). (show_nat q, u)) items" and "\<not> reOnlyNumeric s"
  shows "ParseDurationString s = Inr (int (items_value items))"
  using assms by (simp add: ParseDurationString_def StandardizeDurationString_def standardize_text parse_nonempty Let_def)

lemma text_of_item:
  assumes "unit_value u = Some v"
  shows "u \<noteq> []" and "\<exists>c \<in> set u. \<not> is_digit c"
proof -
  obtain f b k where "(u, f, b) \<in> set unit_table" using assms by (rule unit_cases)
  then have "u \<noteq> [] \<and> list_all (\<lambda>c. unit_char c) u" using table_base by blast
  then show "u \<noteq> []" and "\<exists>c \<in> set u. \<not> is_digit c" by (cases u; simp)+
qed

lemma text_not_numeric:
  assumes "known_items items" and "items \<noteq> []"
  shows "\<not> list_all is_digit (duration_text items)"
proof -
  obtain q u rest where items: "items = (q, u) # rest" using assms(2) by (cases items) auto
  then obtain v where "unit_value u = Some v" using assms(1) by auto
  then show ?thesis using text_of_item(2) items by (auto simp: list_all_iff)
qed

section \<open>Properties\<close>



text \<open>
  A decimal fraction is not refused. In a text like \<open>0.5h\<close> the zero and the point are skipped, as is
  anything before the first digit that is not zero, and the text is read as five hours.
\<close>

theorem fraction_is_read_as_whole:
  assumes "1 \<le> q" and "unit_value u = Some v" and "q * v < 2 ^ 63"
  shows "ParseDurationString (''0.'' @ show_nat q @ u) = Inr (int (q * v))"
proof -
  have known: "known_items [(q, u)]" "items_value [(q, u)] = q * v" using assms by simp_all
  have plain: "duration_text [(q, u)] = show_nat q @ u" by simp
  have "ParseDurationString (''0.'' @ show_nat q @ u) = Inr (int (items_value [(q, u)]))"
  proof (rule standard_text)
    show "strings_RemoveAll ''and'' (''0.'' @ show_nat q @ u) = ''0.'' @ show_nat q @ u"
      using text_and_removed [OF known(1)] plain by simp
    show "strings_RemoveAll '' '' (''0.'' @ show_nat q @ u) = ''0.'' @ show_nat q @ u"
      using remove_spaces [OF text_no_space [OF known(1)]] plain by simp
    have "reDurationStandard (''0.'' @ show_nat q @ u) = reDurationStandard (show_nat q @ u)"
      by (simp add: reDurationStandard.simps(2) [of "CHR ''0''"] reDurationStandard.simps(2) [of "CHR ''.''"] Let_def
          is_digit_def digit_val_def)
    then show "reDurationStandard (''0.'' @ show_nat q @ u) = map (\<lambda>(q, u). (show_nat q, u)) [(q, u)]"
      using text_matches [OF known(1)] plain by simp
    show "\<not> reOnlyNumeric (''0.'' @ show_nat q @ u)" by (simp add: reOnlyNumeric_def is_digit_def digit_val_def)
  qed (use known assms in simp_all)
  then show ?thesis using known by simp
qed

theorem fraction_is_read_as_whole_witness: "ParseDurationString ''0.5h'' = Inr (5 * hour)"
proof -
  have "show_nat 5 = ''5''" by (simp add: show_nat.simps digit_char_def char_of_def bit_0)
  moreover have "unit_value ''h'' = Some 3600000000000"
    by (simp add: unit_value_def unit_table_def standardDurationUnits_def unit_ns_def)
  ultimately show ?thesis using fraction_is_read_as_whole [of 5 "''h''" 3600000000000] by simp
qed

text \<open>
  A number without a unit is seconds, and here nothing checks that they fit: the product wraps around, so a large
  number is a negative duration.
\<close>

lemma plain_number_wraps:
  assumes "n < 2 ^ 63"
  shows "ParseDurationString (show_nat n) = Inr (int64 (second * int n))"
  using Atoi_show_nat [OF assms] show_nat_digits [of n] by (simp add: ParseDurationString_def reOnlyNumeric_def)

end
