(* ===== verification/Jobs.thy ===== *)
theory Jobs
  imports Durations
begin

text \<open>
  The shape the background jobs of \<open>internal/jobs\<close> share, the interface \<open>Job\<close> of \<open>job_manager.go\<close>. \<open>Run\<close>
  makes a pass at once and one at every tick of its timer, until its context is cancelled. A tick finds the
  world as the rest of the system has left it: \<open>others\<close> gives what happened before each of them. A pass
  only ends the job by a panic, which ends the program.
\<close>

record 'w job =
  job_name :: string
  job_leadership :: bool
  job_interval :: duration
  job_pass :: "'w \<Rightarrow> goerror option \<times> 'w"
  job_no_interval :: goerror
  job_cancelled :: "goerror option"

fun passes :: "('w \<Rightarrow> goerror option \<times> 'w) \<Rightarrow> ('w \<Rightarrow> 'w) list \<Rightarrow> 'w \<Rightarrow> goerror option \<times> 'w" where
  "passes p [] w = (None, w)"
| "passes p (other # others) w =
     (case p (other w) of (Some e, w1) \<Rightarrow> (Some e, w1) | (None, w1) \<Rightarrow> passes p others w1)"

definition Run :: "'w job \<Rightarrow> ('w \<Rightarrow> 'w) list \<Rightarrow> 'w \<Rightarrow> goerror option \<times> 'w" where
  "Run j others w =
     (if job_interval j \<le> 0 then (Some (job_no_interval j), w)
      else (case passes (job_pass j) (id # others) w of
          (Some e, w1) \<Rightarrow> (Some e, w1)
        | (None, w1) \<Rightarrow> (job_cancelled j, w1)))"

definition context_canceled :: goerror where
  "context_canceled = Errorf ''context canceled''"

definition non_positive_ticker :: "duration \<Rightarrow> goerror" where
  "non_positive_ticker interval = Errorf (''non-positive ticker interval: '' @ Duration_String interval)"

text \<open>A pass that only logs its errors.\<close>

definition logged :: "('w \<Rightarrow> 'w) \<Rightarrow> 'w \<Rightarrow> goerror option \<times> 'w" where
  "logged f w = (None, f w)"

definition logged_result :: "('w \<Rightarrow> unit result \<times> 'w) \<Rightarrow> 'w \<Rightarrow> goerror option \<times> 'w" where
  "logged_result f w = (case f w of (Inl e, w1) \<Rightarrow> (if is_panic e then Some e else None, w1) | (Inr _, w1) \<Rightarrow> (None, w1))"

lemma passes_logged: "passes (logged f) others w = (None, fold (\<lambda>other w. f (other w)) others w)"
  by (induction others arbitrary: w) (simp_all add: logged_def)

lemma Run_logged:
  assumes "job_pass j = logged f" and "0 < job_interval j"
  shows "Run j others w = (job_cancelled j, fold (\<lambda>other w. f (other w)) others (f w))"
  using assms by (simp add: Run_def passes_logged del: passes.simps)

text \<open>What every pass and everything between the passes keeps holds when the job ends.\<close>

lemma passes_invariant:
  assumes "\<And>w. I w \<Longrightarrow> I (snd (p w))" and "\<And>f w. f \<in> set others \<Longrightarrow> I w \<Longrightarrow> I (f w)" and "I w"
  shows "I (snd (passes p others w))"
  using assms(2,3)
proof (induction others arbitrary: w)
  case (Cons other others)
  have "I (snd (p (other w)))"
    using Cons.prems assms(1) by simp
  with Cons show ?case
    by (auto split: prod.split option.split)
qed simp

lemma Run_invariant:
  assumes "\<And>w. I w \<Longrightarrow> I (snd (job_pass j w))" and "\<And>f w. f \<in> set others \<Longrightarrow> I w \<Longrightarrow> I (f w)" and "I w"
  shows "I (snd (Run j others w))"
proof -
  have "I (snd (passes (job_pass j) (id # others) w))"
    by (rule passes_invariant) (use assms in auto)
  then show ?thesis
    using assms(3) by (auto simp: Run_def simp del: passes.simps split: prod.split option.split)
qed

end
