(* ===== verification/Data_Service.thy ===== *)
theory Data_Service
  imports Cache Jobs Auth_Middleware
begin

text \<open>
  The dashboard data: \<open>internal/data/service.go\<close>, \<open>data_client.go\<close>, \<open>internal/jobs/data_fetch_job.go\<close>
  and \<open>internal/handlers/handler_data.go\<close>. The fetch job runs every configured query against the
  Prometheus API and puts each answer into the cache with the protection of its query; the handlers give
  a caller the entries the caller may see.

  Parameter: the Prometheus API, on a state of its own. A \<open>model.Value\<close> is one of the constructors below
  with what \<open>json.Marshal\<close> gives on it; a nil one is \<open>None\<close>.
\<close>

section \<open>The Prometheus API and the client\<close>

datatype model_value =
    Vector "string result"
  | Matrix "string result"
  | Scalar "string result"
  | StringValue "string result"
  | OtherValue string "string result"

primrec json_Marshal :: "model_value \<Rightarrow> string result" where
  "json_Marshal (Vector j) = j"
| "json_Marshal (Matrix j) = j"
| "json_Marshal (Scalar j) = j"
| "json_Marshal (StringValue j) = j"
| "json_Marshal (OtherValue ty j) = j"

record v1_range =
  rg_start :: time
  rg_end :: time
  rg_step :: duration

record 'p prom_api =
  pa_Query :: "string \<Rightarrow> time \<Rightarrow> 'p \<Rightarrow> (model_value option \<times> string list) result \<times> 'p"
  pa_QueryRange :: "string \<Rightarrow> v1_range \<Rightarrow> 'p \<Rightarrow> (model_value option \<times> string list) result \<times> 'p"

text \<open>\<open>MimirClient.Query\<close> and \<open>QueryRange\<close>: warnings are printed and dropped.\<close>

definition Query :: "'p prom_api \<Rightarrow> string \<Rightarrow> time \<Rightarrow> 'p \<Rightarrow> model_value option result \<times> 'p" where
  "Query m query timestamp p =
     (case pa_Query m query timestamp p of
        (Inl e, p1) \<Rightarrow> (Inl (wrap ''query failed: '' e), p1)
      | (Inr (v, warnings), p1) \<Rightarrow> (Inr v, p1))"

definition QueryRange :: "'p prom_api \<Rightarrow> string \<Rightarrow> v1_range \<Rightarrow> 'p \<Rightarrow> model_value option result \<times> 'p" where
  "QueryRange m query r p =
     (case pa_QueryRange m query r p of
        (Inl e, p1) \<Rightarrow> (Inl (wrap ''range query failed: '' e), p1)
      | (Inr (v, warnings), p1) \<Rightarrow> (Inr v, p1))"

text \<open>\<open>BasicAuthTransport.RoundTrip\<close>: the credentials the request is given.\<close>

definition basic_auth_of :: "string \<Rightarrow> string \<Rightarrow> (string \<times> string) option" where
  "basic_auth_of username password = (if username \<noteq> [] \<and> password \<noteq> [] then Some (username, password) else None)"

section \<open>The service\<close>

text \<open>
  A value of the interface \<open>Provider\<close>: nil, a nil \<open>*RedisCache\<close> inside a non-nil interface, or a cache.
  Every method of a nil \<open>*RedisCache\<close> reads its client and panics.
\<close>

datatype 'c cache_ref = NilInterface | NilRedis | Cached "'c provider"

record ('c, 'p) service =
  sv_client :: "'p prom_api"
  sv_cache :: "'c cache_ref"
  sv_queries :: "prometheus_query list"

text \<open>The world of the fetch job: the Prometheus API, the counter of failed queries and the gauge of the cache.\<close>

record ('c, 'p) datactx = "'c cachectx" +
  dx_prom :: 'p
  dx_errors :: "string list"
  dx_items :: nat

definition zero_time :: time where
  "zero_time = - 62135596800 * second"

definition zero_cached :: cached_data where
  "zero_cached = \<lparr>cd_name = [], cd_value_type = [], cd_json_bytes = [], cd_timestamp = zero_time,
     cd_require_auth = False, cd_required_group = []\<rparr>"

definition value_type :: "model_value \<Rightarrow> string" where
  "value_type v =
     (case v of Vector _ \<Rightarrow> ''vector'' | Matrix _ \<Rightarrow> ''matrix'' | Scalar _ \<Rightarrow> ''scalar'' | StringValue _ \<Rightarrow> ''string''
      | OtherValue ty _ \<Rightarrow> ty)"

definition prepareCacheData :: "string \<Rightarrow> model_value option \<Rightarrow> prometheus_query \<Rightarrow> time \<Rightarrow> cached_data" where
  "prepareCacheData name v q t =
     (case v of
        None \<Rightarrow> \<lparr>cd_name = name, cd_value_type = ''unknown'', cd_json_bytes = ''null'', cd_timestamp = t,
                 cd_require_auth = pq_require_auth q, cd_required_group = pq_required_group q\<rparr>
      | Some x \<Rightarrow>
          (case json_Marshal x of
             Inl e \<Rightarrow> zero_cached
           | Inr jsonBytes \<Rightarrow> \<lparr>cd_name = name, cd_value_type = value_type x, cd_json_bytes = jsonBytes, cd_timestamp = t,
                 cd_require_auth = pq_require_auth q, cd_required_group = pq_required_group q\<rparr>))"

text \<open>The end of \<open>executeQuery\<close>: what it does with the result and the error of the query.\<close>

definition store_result ::
  "('c, 'p) service \<Rightarrow> 'c provider \<Rightarrow> prometheus_query \<Rightarrow> model_value option \<Rightarrow> goerror option \<Rightarrow> ('c, 'p) datactx \<Rightarrow>
    unit result \<times> ('c, 'p) datactx" where
  "store_result s cache q result err w =
     (case err of
        Some e \<Rightarrow> (Inl (wrap (''failed to execute query '' @ pq_name q @ '': '') e), w\<lparr>dx_errors := pq_name q # dx_errors w\<rparr>)
      | None \<Rightarrow>
          (case result of
             None \<Rightarrow> (Inr (), w)
           | Some v \<Rightarrow>
               (Inr (), if sv_cache s = NilInterface then w
                        else w\<lparr>cch := cp_Set cache (pq_name q) (prepareCacheData (pq_name q) (Some v) q (now w)) (cch w)\<rparr>)))"

text \<open>
  In the case of a range query the variable \<open>err\<close> that \<open>QueryRange\<close> assigns is the one declared inside
  the case; the one tested after the switch is still nil.
\<close>

definition executeQuery ::
  "('c, 'p) service \<Rightarrow> 'c provider \<Rightarrow> prometheus_query \<Rightarrow> ('c, 'p) datactx \<Rightarrow> unit result \<times> ('c, 'p) datactx" where
  "executeQuery s cache q w =
     (if pq_type q = ''range'' then
        (case ParseDurationString (pq_range q) of
           Inl e \<Rightarrow> (Inl (wrap (''invalid range duration '' @ pq_range q @ '': '') e), w)
         | Inr rangeDuration \<Rightarrow>
             (case ParseDurationString (pq_step q) of
                Inl e \<Rightarrow> (Inl (wrap (''invalid step duration '' @ pq_step q @ '': '') e), w)
              | Inr stepDuration \<Rightarrow>
                  (let r = \<lparr>rg_start = now w + int64 (- rangeDuration), rg_end = now w, rg_step = stepDuration\<rparr>;
                       (answer, p1) = QueryRange (sv_client s) (pq_query q) r (dx_prom w);
                       result = (case answer of Inl _ \<Rightarrow> None | Inr v \<Rightarrow> v)
                   in store_result s cache q result None (w\<lparr>dx_prom := p1\<rparr>))))
      else
        (let (answer, p1) = Query (sv_client s) (pq_query q) (now w) (dx_prom w);
             w1 = w\<lparr>dx_prom := p1\<rparr>
         in case answer of
              Inl e \<Rightarrow> store_result s cache q None (Some e) w1
            | Inr v \<Rightarrow> store_result s cache q v None w1))"

fun execute_each ::
  "('c, 'p) service \<Rightarrow> 'c provider \<Rightarrow> prometheus_query list \<Rightarrow> ('c, 'p) datactx \<Rightarrow> ('c, 'p) datactx" where
  "execute_each s cache [] w = w"
| "execute_each s cache (q # qs) w =
     execute_each s cache qs (if pq_disabled q then w else snd (executeQuery s cache q w))"

definition ExecuteQueries :: "('c, 'p) service \<Rightarrow> 'c cache_ref \<Rightarrow> ('c, 'p) datactx \<Rightarrow> unit result \<times> ('c, 'p) datactx" where
  "ExecuteQueries s cache w =
     (case (if cache = NilInterface then sv_cache s else cache) of
        NilInterface \<Rightarrow> (Inr (), w)
      | NilRedis \<Rightarrow> (Inl nil_dereference, w)
      | Cached c \<Rightarrow> (Inr (), execute_each s c (sv_queries s) (w\<lparr>dx_items := cp_Size c (cch w)\<rparr>)))"

definition data_fetch_job :: "('c, 'p) service \<Rightarrow> 'c cache_ref \<Rightarrow> duration \<Rightarrow> ('c, 'p) datactx job" where
  "data_fetch_job s cache interval =
     \<lparr>job_name = ''data_fetch'', job_leadership = True, job_interval = interval,
      job_pass = logged_result (ExecuteQueries s cache),
      job_no_interval = non_positive_ticker interval, job_cancelled = Some context_canceled\<rparr>"

section \<open>The handlers\<close>

record result_data =
  rd_query_name :: string
  rd_type :: string
  rd_data :: string
  rd_timestamp :: int

definition convertCachedDataToResultData :: "cached_data \<Rightarrow> result_data result" where
  "convertCachedDataToResultData d =
     Inr \<lparr>rd_query_name = cd_name d, rd_type = cd_value_type d, rd_data = cd_json_bytes d, rd_timestamp = 0\<rparr>"

fun addRecordsIfAuthorized :: "'c provider \<Rightarrow> 'c \<Rightarrow> string list \<Rightarrow> string list \<Rightarrow> result_data list" where
  "addRecordsIfAuthorized cp c [] userGroups = []"
| "addRecordsIfAuthorized cp c (entryName # names) userGroups =
     (let rest = addRecordsIfAuthorized cp c names userGroups in
      case cp_Get cp entryName c of
        None \<Rightarrow> rest
      | Some entry \<Rightarrow>
          if cd_require_auth entry \<and> cd_required_group entry \<notin> set userGroups then rest
          else (case convertCachedDataToResultData entry of Inl e \<Rightarrow> rest | Inr dataRecord \<Rightarrow> dataRecord # rest))"

definition visible_records :: "'c provider \<Rightarrow> query \<Rightarrow> ('c, 'w) cachectx_scheme \<Rightarrow> result_data list" where
  "visible_records cp url w =
     (let queryParam = Query_Get url ''queries'';
          queries = strings_Split (CHR '','') queryParam;
          userGroups = (case GetAuthenticatedUser w of None \<Rightarrow> [] | Some u \<Rightarrow> usr_groups u)
      in addRecordsIfAuthorized cp (cch w) (if queryParam = [] then cp_ListAll cp (cch w) else queries) userGroups)"

definition GetMetricsGET :: "'c provider \<Rightarrow> query \<Rightarrow> (('c, 'w) cachectx_ext, result_data list) app_handler" where
  "GetMetricsGET cp url p w = (JSON 200 (visible_records cp url w), w)"

definition GetQueriesGET :: "'c provider \<Rightarrow> query \<Rightarrow> (('c, 'w) cachectx_ext, string list) app_handler" where
  "GetQueriesGET cp url p w = (JSON 200 (map rd_query_name (visible_records cp url w)), w)"

section \<open>What a cache promises to the queries\<close>

text \<open>
  A cache only answers what was put in: after a \<open>Set\<close>, \<open>Get\<close> gives the new entry under its name, or what
  it gave before. Redis may fail to store, so the new entry need not be there.
\<close>

locale query_cache =
  fixes cp :: "'c provider"
  assumes Get_Set: "cp_Get cp k (cp_Set cp n x c) = cp_Get cp k c \<or> (k = n \<and> cp_Get cp k (cp_Set cp n x c) = Some x)"
begin

definition holds_only :: "(string \<Rightarrow> cached_data \<Rightarrow> bool) \<Rightarrow> 'c \<Rightarrow> bool" where
  "holds_only P c \<longleftrightarrow> (\<forall>k x. cp_Get cp k c = Some x \<longrightarrow> P k x)"

lemma holds_only_Set: "holds_only P c \<Longrightarrow> P n x \<Longrightarrow> holds_only P (cp_Set cp n x c)"
  unfolding holds_only_def by (metis Get_Set option.inject)

end

text \<open>An entry of a query: filed under the name of an enabled query, with its protection, or blank.\<close>

definition entry_of_query :: "prometheus_query list \<Rightarrow> string \<Rightarrow> cached_data \<Rightarrow> bool" where
  "entry_of_query qs k x \<longleftrightarrow>
     x = zero_cached \<or>
     (\<exists>q \<in> set qs. \<not> pq_disabled q \<and> k = pq_name q \<and> cd_name x = pq_name q \<and>
        cd_require_auth x = pq_require_auth q \<and> cd_required_group x = pq_required_group q)"

lemma prepared_entry: "q \<in> set qs \<Longrightarrow> \<not> pq_disabled q \<Longrightarrow> entry_of_query qs (pq_name q) (prepareCacheData (pq_name q) v q t)"
  by (auto simp: entry_of_query_def prepareCacheData_def split: option.split sum.split)

text \<open>What a query does to the cache: nothing, or it stores its entry.\<close>

definition stored_by :: "'c provider \<Rightarrow> prometheus_query \<Rightarrow> 'c \<Rightarrow> 'c \<Rightarrow> bool" where
  "stored_by cache q c c' \<longleftrightarrow> c' = c \<or> (\<exists>v t. c' = cp_Set cache (pq_name q) (prepareCacheData (pq_name q) v q t) c)"

lemma store_result_stored: "stored_by cache q (cch w) (cch (snd (store_result s cache q v err (w\<lparr>dx_prom := p\<rparr>))))"
  by (auto simp: store_result_def stored_by_def split: option.split)

lemma executeQuery_stored: "stored_by cache q (cch w) (cch (snd (executeQuery s cache q w)))"
proof -
  have "stored_by cache q (cch w) (cch w)"
    by (simp add: stored_by_def)
  then show ?thesis
    by (simp add: executeQuery_def Let_def store_result_stored split: sum.split prod.split)
qed

context query_cache
begin

lemma stored_keeps:
  assumes "stored_by cp q c c'" and "holds_only (entry_of_query Q) c" and "q \<in> set Q" and "\<not> pq_disabled q"
  shows "holds_only (entry_of_query Q) c'"
  using assms holds_only_Set [OF assms(2) prepared_entry [OF assms(3,4)]] by (auto simp: stored_by_def)

lemma execute_each_keeps:
  assumes "holds_only (entry_of_query Q) (cch w)" and "set qs \<subseteq> set Q"
  shows "holds_only (entry_of_query Q) (cch (execute_each s cp qs w))"
  using assms
proof (induction qs arbitrary: w)
  case (Cons q qs)
  have "holds_only (entry_of_query Q) (cch (snd (executeQuery s cp q w)))" if "\<not> pq_disabled q"
  proof (rule stored_keeps [OF executeQuery_stored])
    show "q \<in> set Q" using Cons.prems by simp
  qed (use Cons.prems that in auto)
  with Cons show ?case
    by simp
qed simp

lemma fetch_keeps:
  assumes "holds_only (entry_of_query (sv_queries s)) (cch w)"
  shows "holds_only (entry_of_query (sv_queries s)) (cch (snd (job_pass (data_fetch_job s (Cached cp) i) w)))"
  using assms by (simp add: data_fetch_job_def logged_result_def ExecuteQueries_def execute_each_keeps)

lemma fetched_entries:
  assumes "\<And>f v. f \<in> set elsewhere \<Longrightarrow> holds_only (entry_of_query (sv_queries s)) (cch v) \<Longrightarrow>
      holds_only (entry_of_query (sv_queries s)) (cch (f v))"
    and "holds_only (entry_of_query (sv_queries s)) (cch w)"
  shows "holds_only (entry_of_query (sv_queries s)) (cch (snd (Run (data_fetch_job s (Cached cp) i) elsewhere w)))"
  by (rule Run_invariant [where I = "\<lambda>w. holds_only (entry_of_query (sv_queries s)) (cch w)"]) (use fetch_keeps assms in auto)

lemma records_authorized:
  assumes "holds_only (entry_of_query qs) c" and "r \<in> set (addRecordsIfAuthorized cp c names groups)"
  shows "rd_query_name r = [] \<and> rd_data r = [] \<or>
    (\<exists>q \<in> set qs. \<not> pq_disabled q \<and> rd_query_name r = pq_name q \<and>
       (pq_require_auth q \<longrightarrow> pq_required_group q \<in> set groups))"
  using assms(2)
proof (induction names)
  case (Cons n names)
  show ?case
  proof (cases "r \<in> set (addRecordsIfAuthorized cp c names groups)")
    case False
    with Cons.prems obtain x where x: "cp_Get cp n c = Some x" "cd_require_auth x \<longrightarrow> cd_required_group x \<in> set groups"
      "r = \<lparr>rd_query_name = cd_name x, rd_type = cd_value_type x, rd_data = cd_json_bytes x, rd_timestamp = 0\<rparr>"
      by (auto simp: Let_def convertCachedDataToResultData_def split: option.splits if_splits)
    with assms(1) have "entry_of_query qs n x"
      by (auto simp: holds_only_def)
    with x show ?thesis
      by (auto simp: entry_of_query_def zero_cached_def)
  qed (rule Cons.IH)
qed simp

end

interpretation mem_queries: query_cache mem_provider
  by unfold_locales (simp add: mem_provider_def mem_Get_def mem_Set_def update_conv')

text \<open>
  Redis: \<open>SET\<close> changes no other key, and stores its value or nothing; \<open>Unmarshal\<close> undoes \<open>Marshal\<close>.
\<close>

definition redis_stores :: "'s redis_client \<Rightarrow> bool" where
  "redis_stores rc \<longleftrightarrow>
     (\<forall>k n v s. rc_get rc k (snd (rc_set rc n (GoBytes v) 0 s)) = rc_get rc k s \<or>
                k = n \<and> rc_get rc k (snd (rc_set rc n (GoBytes v) 0 s)) = Inr v) \<and>
     (\<forall>x j. rc_marshal rc x = Inr j \<longrightarrow> rc_unmarshal rc j = Inr x)"

lemma redis_queries:
  assumes "redis_stores rc"
  shows "query_cache (redis_provider rc)"
proof
  fix k n x s
  show "cp_Get (redis_provider rc) k (cp_Set (redis_provider rc) n x s) = cp_Get (redis_provider rc) k s \<or>
    k = n \<and> cp_Get (redis_provider rc) k (cp_Set (redis_provider rc) n x s) = Some x"
  proof (cases "rc_marshal rc x")
    case (Inr j)
    with assms have "rc_unmarshal rc j = Inr x"
      "rc_get rc (redis_key k) (snd (rc_set rc (redis_key n) (GoBytes j) 0 s)) = rc_get rc (redis_key k) s \<or>
       redis_key k = redis_key n \<and> rc_get rc (redis_key k) (snd (rc_set rc (redis_key n) (GoBytes j) 0 s)) = Inr j"
      by (auto simp: redis_stores_def)
    with Inr show ?thesis
      by (auto simp: redis_provider_def redis_Get_def redis_Set_def redis_key_def)
  qed (simp add: redis_provider_def redis_Set_def)
qed

section \<open>Who sees what\<close>


text \<open>An answer of the API reaches the callers who may see it.\<close>

lemma executeQuery_other_name:
  assumes "pq_name q \<noteq> k"
  shows "map_of (mc_cache (cch (snd (executeQuery s mem_provider q w)))) k = map_of (mc_cache (cch w)) k"
  using executeQuery_stored [of mem_provider q w s] assms by (auto simp: stored_by_def mem_provider_def mem_Set_def update_conv')

lemma executeQuery_now [simp]: "now (snd (executeQuery s cache q w)) = now w"
  by (simp add: executeQuery_def store_result_def Let_def split: sum.split prod.split option.split)

lemma execute_each_now [simp]: "now (execute_each s cache qs w) = now w"
  by (induction qs arbitrary: w) simp_all

lemma execute_each_append: "execute_each s cache (xs @ ys) w = execute_each s cache ys (execute_each s cache xs w)"
  by (induction xs arbitrary: w) simp_all

lemma execute_each_other_names:
  "\<forall>q \<in> set qs. pq_disabled q \<or> pq_name q \<noteq> k \<Longrightarrow>
   map_of (mc_cache (cch (execute_each s mem_provider qs w))) k = map_of (mc_cache (cch w)) k"
  by (induction qs arbitrary: w) (auto simp: executeQuery_other_name)

lemma single_name: "c \<notin> set s \<Longrightarrow> strings_Split c s = [s]"
  by (induction s) auto

text \<open>
  C31: A fetched answer is served. If the API answers an enabled instant query with a value, then after
  a pass of the fetch job over the memory cache, with no later enabled query of the same name, a caller
  who asks for the query by its name, and has its group if it is protected, gets exactly this answer.
\<close>

theorem fetched_answer_is_served:
  fixes w :: "(mem_cache, 'p) datactx" and v :: "(mem_cache, 'w) cachectx_scheme"
  assumes "sv_queries s = earlier @ q # later" and "\<forall>q' \<in> set later. pq_disabled q' \<or> pq_name q' \<noteq> pq_name q"
    and "\<not> pq_disabled q" and "pq_type q \<noteq> ''range''" and "sv_cache s = Cached mem_provider"
    and "\<And>p. \<exists>ws p1. pa_Query (sv_client s) (pq_query q) (now w) p = (Inr (Some x, ws), p1)"
    and "json_Marshal x = Inr j"
    and "cch v = cch (snd (ExecuteQueries s (Cached mem_provider) w))"
    and "Query_Get url ''queries'' = pq_name q" and "pq_name q \<noteq> []" and "CHR '','' \<notin> set (pq_name q)"
    and "pq_require_auth q \<longrightarrow> (\<exists>u. GetAuthenticatedUser v = Some u \<and> pq_required_group q \<in> set (usr_groups u))"
  shows "GetMetricsGET mem_provider url p v =
    (JSON 200 [\<lparr>rd_query_name = pq_name q, rd_type = value_type x, rd_data = j, rd_timestamp = 0\<rparr>], v)"
proof -
  let ?w = "execute_each s mem_provider earlier (w\<lparr>dx_items := cp_Size mem_provider (cch w)\<rparr>)"
  let ?e = "\<lparr>cd_name = pq_name q, cd_value_type = value_type x, cd_json_bytes = j, cd_timestamp = now w,
     cd_require_auth = pq_require_auth q, cd_required_group = pq_required_group q\<rparr>"
  have nw: "now ?w = now w" by simp
  obtain ws p1 where "pa_Query (sv_client s) (pq_query q) (now w) (dx_prom ?w) = (Inr (Some x, ws), p1)"
    using assms(6) by blast
  then have "map_of (mc_cache (cch (snd (executeQuery s mem_provider q ?w)))) (pq_name q) = Some ?e"
    using assms(4,5,7)
    by (simp add: executeQuery_def Query_def nw store_result_def prepareCacheData_def mem_provider_def mem_Set_def update_conv')
  then have "map_of (mc_cache (cch v)) (pq_name q) = Some ?e"
    using assms(1,2,3,8) by (simp add: ExecuteQueries_def execute_each_append execute_each_other_names)
  then have "cp_Get mem_provider (pq_name q) (cch v) = Some ?e"
    by (simp add: mem_provider_def mem_Get_def)
  then show ?thesis
    using assms(9-12)
    by (auto simp: GetMetricsGET_def visible_records_def Let_def single_name convertCachedDataToResultData_def)
qed

text \<open>
  An error of a range query is lost. When the API refuses a range query, \<open>executeQuery\<close> reports
  success, counts nothing and leaves the cache as it was; the same refusal of an instant query is an
  error and is counted.
\<close>

theorem range_error_is_silent:
  assumes "pq_type q = ''range''" and "ParseDurationString (pq_range q) = Inr rd" and "ParseDurationString (pq_step q) = Inr st"
    and "\<And>r. pa_QueryRange (sv_client s) (pq_query q) r (dx_prom w) = (Inl e, p1)"
    and "pq_type q' \<noteq> ''range''" and "pa_Query (sv_client s) (pq_query q') (now w) (dx_prom w) = (Inl e', p2)"
  shows "executeQuery s cache q w = (Inr (), w\<lparr>dx_prom := p1\<rparr>) \<and>
    executeQuery s cache q' w =
      (Inl (wrap (''failed to execute query '' @ pq_name q' @ '': '') (wrap ''query failed: '' e')),
       w\<lparr>dx_prom := p2, dx_errors := pq_name q' # dx_errors w\<rparr>)"
  using assms by (simp add: executeQuery_def QueryRange_def Query_def store_result_def)

section \<open>Witnesses\<close>

text \<open>A protected instant query, a range query and an API that answers the first and refuses the second.\<close>

definition cpu_query :: prometheus_query where
  "cpu_query = \<lparr>pq_name = ''cpu'', pq_disabled = False, pq_query = ''up'', pq_type = [], pq_ttl = 30 * second, pq_range = [],
     pq_step = [], pq_require_auth = True, pq_required_group = ''ops''\<rparr>"

definition disk_query :: prometheus_query where
  "disk_query = \<lparr>pq_name = ''disk'', pq_disabled = False, pq_query = ''df'', pq_type = ''range'', pq_ttl = 30 * second, pq_range = ''9'',
     pq_step = ''3'', pq_require_auth = False, pq_required_group = []\<rparr>"

definition half_prom :: "unit prom_api" where
  "half_prom = \<lparr>pa_Query = (\<lambda>q t p. (if q = ''up'' then Inr (Some (Scalar (Inr ''1'')), []) else Inl (Errorf ''bad query''), p)),
     pa_QueryRange = (\<lambda>q r p. (Inl (Errorf ''timeout''), p))\<rparr>"

definition dash_service :: "(mem_cache, unit) service" where
  "dash_service = \<lparr>sv_client = half_prom, sv_cache = Cached mem_provider, sv_queries = [cpu_query, disk_query]\<rparr>"

definition dash_ctx :: "session \<Rightarrow> (mem_cache, unit) datactx" where
  "dash_ctx sn = \<lparr>db = empty_database, now = 5, faults = [], sess = sn, cch = NewMemCache, dx_prom = (), dx_errors = [], dx_items = 0\<rparr>"

definition ops_session :: session where
  "ops_session = empty_session\<lparr>sn_user := Some (example_user\<lparr>usr_groups := [''ops'']\<rparr>), sn_authenticated := True\<rparr>"

definition served_to :: "session \<Rightarrow> (mem_cache, unit) datactx" where
  "served_to sn = (snd (Run (data_fetch_job dash_service (Cached mem_provider) (30 * second)) [] (dash_ctx empty_session)))\<lparr>sess := sn\<rparr>"

lemma ops_user: "sess w = ops_session \<Longrightarrow> GetAuthenticatedUser w = Some (example_user\<lparr>usr_groups := [''ops'']\<rparr>)"
  by (simp add: GetAuthenticatedUser_def IsUserAuthenticated_def IsAuthenticated_def GetExpiresAt_def GetUser_def unix_time_def
      ops_session_def empty_session_def)

lemma no_user: "sess w = empty_session \<Longrightarrow> GetAuthenticatedUser w = None"
  by (simp add: GetAuthenticatedUser_def IsUserAuthenticated_def IsAuthenticated_def empty_session_def)


theorem fetched_answer_is_served_witness:
  "GetMetricsGET mem_provider [(''queries'', ''cpu'')] None
     ((snd (ExecuteQueries dash_service (Cached mem_provider) (dash_ctx ops_session)))\<lparr>sess := ops_session\<rparr>) =
   (JSON 200 [\<lparr>rd_query_name = ''cpu'', rd_type = ''scalar'', rd_data = ''1'', rd_timestamp = 0\<rparr>],
    (snd (ExecuteQueries dash_service (Cached mem_provider) (dash_ctx ops_session)))\<lparr>sess := ops_session\<rparr>)"
  (is "GetMetricsGET _ ?url _ ?v = _")
proof -
  have "GetMetricsGET mem_provider ?url None ?v =
    (JSON 200 [\<lparr>rd_query_name = pq_name cpu_query, rd_type = value_type (Scalar (Inr ''1'')), rd_data = ''1'', rd_timestamp = 0\<rparr>], ?v)"
    by (rule fetched_answer_is_served [of dash_service "[]" cpu_query "[disk_query]" "dash_ctx ops_session"])
      (auto simp: dash_service_def cpu_query_def disk_query_def half_prom_def Query_Get_def ops_user)
  then show ?thesis
    by (simp add: cpu_query_def value_type_def)
qed

lemma range_texts: "ParseDurationString ''9'' = Inr (9 * second)" "ParseDurationString ''3'' = Inr (3 * second)"
  by (simp_all add: ParseDurationString_def reOnlyNumeric_def is_digit_def digit_val_def strconv_Atoi_def int64_def)

theorem range_error_is_silent_witness:
  "executeQuery dash_service mem_provider disk_query (dash_ctx empty_session) = (Inr (), dash_ctx empty_session) \<and>
   dx_errors (snd (executeQuery dash_service mem_provider (cpu_query\<lparr>pq_query := ''bad''\<rparr>) (dash_ctx empty_session))) = [''cpu'']"
  using range_error_is_silent [of disk_query "9 * second" "3 * second" dash_service "dash_ctx empty_session" "Errorf ''timeout''" "()"
      "cpu_query\<lparr>pq_query := ''bad''\<rparr>" "Errorf ''bad query''" "()"]
  by (simp add: disk_query_def cpu_query_def range_texts dash_service_def half_prom_def dash_ctx_def)

end
