(* ===== verification/Routes.thy ===== *)
theory Routes
  imports SA_Handlers Cert_Download Firewall_Handlers Data_Service Client_IP
begin

text \<open>
  The routes: \<open>setupRouter\<close> of \<open>internal/server/handlers.go\<close>. A route is a method and a pattern below
  \<open>/api\<close> with the middleware of its group and its handler; which route a path matches, and what stands for
  \<open>{id}\<close>, is the business of the router package \<open>chi\<close>. Every request to one of these routes has its remote
  address replaced by \<open>ClientIPMiddleware\<close> and its principal set by \<open>OptionalAuth\<close> before the middleware of
  its group sees it.

  Parameters: the request, with its bodies as they decode, and the environment of the handlers. The pages and
  assets of the frontend, CORS, compression and the metrics are not modelled; a panic of a handler is what
  \<open>Recoverer\<close> answers with status 500.
\<close>

section \<open>Requests and answers\<close>

datatype api_json =
    LoginJson login_body
  | StatusJson auth_status
  | AccountJson sa_payload
  | CertificateJson cert_json
  | DownloadJson unlock_response
  | FirewallJson fw_json
  | DataJson "result_data list"
  | QueriesJson "string list"

record request =
  rq_headers :: headers
  rq_remote :: string
  rq_query :: query
  rq_id :: string
  rq_account_body :: "sa_body result"
  rq_certificate_body :: "cert_body result"
  rq_review_body :: "review_body result"
  rq_passphrase_body :: "string result"
  rq_firewall_body :: "fw_body result"
  rq_reason :: string

record ('c, 't) api_env =
  ae_cache :: "'c provider"
  ae_oidc :: "'t oidc_provider"
  ae_url_local :: "string \<Rightarrow> bool"
  ae_state_bytes :: "nat list"
  ae_nonce_bytes :: "nat list"
  ae_verifier_bytes :: "nat list"
  ae_store_error :: "goerror option"
  ae_accounts :: sa_env
  ae_download :: download_env
  ae_pg :: pg_types

definition peer_of :: "request \<Rightarrow> peer" where
  "peer_of rq = \<lparr>peer_addr = ClientIPMiddleware (rq_headers rq) (rq_remote rq), peer_agent = Header_Get (rq_headers rq) ''User-Agent''\<rparr>"

definition as_json :: "('a \<Rightarrow> 'b) \<Rightarrow> ('w, 'a) app_handler \<Rightarrow> ('w, 'b) app_handler" where
  "as_json f h p w = (case h p w of (r, w1) \<Rightarrow> (map_response f r, w1))"

section \<open>The routes\<close>

datatype http_method = GET | POST | DELETE | PATCH

datatype access = Open | AnyCaller | SessionUser | Account

datatype endpoint =
    AuthStatus | StartOfLogin | Callback | EndOfSession
  | ListAccounts | CreateAccount | DeleteAccount | PauseAccount | UnpauseAccount | UserScopes | Whoami
  | RequestCertificate | MyRequests | ReadRequest | Download | Unlock | AllRequests | Review
  | Aliases | Entries | AddEntry | RemoveEntry | BlacklistEntry
  | Queries | Metrics | Health

type_synonym route = "http_method \<times> string \<times> access \<times> endpoint"

definition auth_routes :: "route list" where
  "auth_routes =
     [(GET, ''/auth/status'', Open, AuthStatus),
      (GET, ''/auth/login'', Open, StartOfLogin),
      (GET, ''/auth/callback'', Open, Callback),
      (POST, ''/auth/logout'', Open, EndOfSession)]"

definition account_routes :: "route list" where
  "account_routes =
     [(GET, ''/service-accounts/'', SessionUser, ListAccounts),
      (POST, ''/service-accounts/'', SessionUser, CreateAccount),
      (DELETE, ''/service-accounts/'', SessionUser, DeleteAccount),
      (PATCH, ''/service-accounts/pause'', SessionUser, PauseAccount),
      (PATCH, ''/service-accounts/unpause'', SessionUser, UnpauseAccount),
      (GET, ''/service-accounts/scopes'', SessionUser, UserScopes),
      (GET, ''/service-accounts/whoami'', Account, Whoami)]"

definition certificate_routes :: "route list" where
  "certificate_routes =
     [(POST, ''/certificates/request'', AnyCaller, RequestCertificate),
      (GET, ''/certificates/my-requests'', AnyCaller, MyRequests),
      (GET, ''/certificates/request/{id}'', AnyCaller, ReadRequest),
      (GET, ''/certificates/{id}/download'', AnyCaller, Download),
      (POST, ''/certificates/{id}/unlock'', AnyCaller, Unlock),
      (GET, ''/certificates/requests'', AnyCaller, AllRequests),
      (POST, ''/certificates/requests/{id}/review'', AnyCaller, Review)]"

definition firewall_routes :: "route list" where
  "firewall_routes =
     [(GET, ''/firewall/aliases'', SessionUser, Aliases),
      (GET, ''/firewall/entries'', SessionUser, Entries),
      (POST, ''/firewall/entries'', SessionUser, AddEntry),
      (DELETE, ''/firewall/entries/{id}'', SessionUser, RemoveEntry),
      (DELETE, ''/firewall/entries/{id}/blacklist'', SessionUser, BlacklistEntry)]"

definition data_routes :: "route list" where
  "data_routes =
     [(GET, ''/queries'', Open, Queries),
      (GET, ''/data'', Open, Metrics),
      (GET, ''/v1/health'', Open, Health)]"

definition setupRouter :: "config \<Rightarrow> route list result" where
  "setupRouter cfg =
     (case cfg_storage cfg of
        None \<Rightarrow> Inl nil_dereference
      | Some s \<Rightarrow>
          if \<not> sto_enabled s then Inr (auth_routes @ data_routes)
          else (case cfg_features cfg of
              None \<Rightarrow> Inl nil_dereference
            | Some f \<Rightarrow>
                Inr (auth_routes @ account_routes @
                  (if mtls_enabled (feat_mtls f) then certificate_routes else []) @
                  (if fw_enabled (feat_firewall f) then firewall_routes else []) @ data_routes)))"

primrec guarded :: "access \<Rightarrow> config \<Rightarrow> argon \<Rightarrow> string \<Rightarrow> ('w, 'j) app_handler \<Rightarrow> ('w, 'j) app_handler" where
  "guarded Open cfg ar authz h = h"
| "guarded AnyCaller cfg ar authz h = RequireAuth cfg ar authz h"
| "guarded SessionUser cfg ar authz h = RequireCookieAuth h"
| "guarded Account cfg ar authz h = RequireServiceAccountAuth h"

fun handler_of :: "config \<Rightarrow> ('c, 't) api_env \<Rightarrow> request \<Rightarrow> endpoint \<Rightarrow> (('c, 'w) cachectx_ext, api_json) app_handler" where
  "handler_of cfg env rq AuthStatus = as_json StatusJson (GETAuthStatusHandler cfg)"
| "handler_of cfg env rq StartOfLogin = as_json LoginJson
     (GETLoginHandler (ae_oidc env) (ae_url_local env) (ae_state_bytes env) (ae_nonce_bytes env) (ae_verifier_bytes env)
       (rq_query rq) (Header_Get (rq_headers rq) ''Referer''))"
| "handler_of cfg env rq Callback = GETCallbackHandler cfg (ae_oidc env) (rq_query rq)"
| "handler_of cfg env rq EndOfSession = POSTLogoutHandler (ae_store_error env)"
| "handler_of cfg env rq ListAccounts = as_json AccountJson (GETServiceAccounts cfg)"
| "handler_of cfg env rq CreateAccount = as_json AccountJson (POSTServiceAccount cfg (ae_accounts env) (rq_account_body rq))"
| "handler_of cfg env rq DeleteAccount = as_json AccountJson (DELETEServiceAccount cfg (rq_query rq))"
| "handler_of cfg env rq PauseAccount = as_json AccountJson (PATCHServiceAccountPause cfg (rq_query rq))"
| "handler_of cfg env rq UnpauseAccount = as_json AccountJson (PATCHServiceAccountUnpause cfg (rq_query rq))"
| "handler_of cfg env rq UserScopes = as_json AccountJson (GETUserScopes cfg)"
| "handler_of cfg env rq Whoami = as_json AccountJson (GETServiceAccountWhoami cfg)"
| "handler_of cfg env rq RequestCertificate = as_json CertificateJson (POSTCertificateRequest cfg (rq_certificate_body rq))"
| "handler_of cfg env rq MyRequests = as_json CertificateJson (GETUserCertificateRequests cfg)"
| "handler_of cfg env rq ReadRequest = as_json CertificateJson (GETCertificateRequest cfg (rq_id rq))"
| "handler_of cfg env rq Download = as_json DownloadJson
     (GETCertificateDownload cfg (ae_cache env) (ae_download env) (peer_of rq) (rq_id rq) (rq_query rq))"
| "handler_of cfg env rq Unlock = as_json DownloadJson
     (POSTCertificateUnlock cfg (ae_cache env) (ae_download env) (rq_id rq) (rq_passphrase_body rq))"
| "handler_of cfg env rq AllRequests = as_json CertificateJson (GETCertificateRequests cfg)"
| "handler_of cfg env rq Review = as_json CertificateJson (POSTCertificateReview cfg (rq_id rq) (rq_review_body rq))"
| "handler_of cfg env rq Aliases = as_json FirewallJson (GETAvailableAliases cfg)"
| "handler_of cfg env rq Entries = as_json FirewallJson (GETUserEntries cfg (ae_pg env) (rq_query rq))"
| "handler_of cfg env rq AddEntry = as_json FirewallJson (POSTAddIPEntry cfg (ae_pg env) (peer_of rq) (rq_firewall_body rq))"
| "handler_of cfg env rq RemoveEntry = as_json FirewallJson (DELETERemoveIPEntry cfg (ae_pg env) (peer_of rq) (rq_id rq))"
| "handler_of cfg env rq BlacklistEntry = as_json FirewallJson
     (DELETEBlacklistIPEntry cfg (ae_pg env) (rq_id rq) (rq_reason rq))"
| "handler_of cfg env rq Queries = as_json QueriesJson (GetQueriesGET (ae_cache env) (rq_query rq))"
| "handler_of cfg env rq Metrics = as_json DataJson (GetMetricsGET (ae_cache env) (rq_query rq))"
| "handler_of cfg env rq Health = HandlerHealth"

definition serve :: "config \<Rightarrow> ('c, 't) api_env \<Rightarrow> request \<Rightarrow> route \<Rightarrow> (('c, 'w) cachectx_ext, api_json) handler" where
  "serve cfg env rq rt =
     (let ar = env_argon (ae_accounts env);
          authz = Header_Get (rq_headers rq) ''Authorization'';
          (m, pattern, a, ep) = rt
      in OptionalAuth cfg ar authz (guarded a cfg ar authz (handler_of cfg env rq ep)) None)"

section \<open>Whom a route serves\<close>

text \<open>\<open>permits\<close> is the specification of the access of a route: which caller it is for, and as whom it serves the caller.\<close>

definition permits :: "access \<Rightarrow> caller \<Rightarrow> principal option \<Rightarrow> bool" where
  "permits a c p =
     (case c of
        Anonymous \<Rightarrow> a = Open \<and> p = None
      | Caller q \<Rightarrow> p = Some q \<and>
          (case q of PUser u \<Rightarrow> a \<noteq> Account | PServiceAccount s \<Rightarrow> a \<noteq> SessionUser)
      | _ \<Rightarrow> False)"

definition authorization :: "request \<Rightarrow> string" where
  "authorization rq = Header_Get (rq_headers rq) ''Authorization''"

lemma same_faults: "\<exists>fs. w = w\<lparr>faults := fs\<rparr>" for w :: "'w world_scheme"
  by (rule exI [of _ "faults w"]) simp

lemma optional_then:
  assumes "OptionalAuth cfg ar authz g None w = (r, w')"
  obtains (refused) fs where "w' = w\<lparr>faults := fs\<rparr>" "status_code r = Some 401 \<or> (\<exists>e. r = Panicked e)"
  | (anonymous) "caller_of cfg ar authz w = Anonymous" "g None w = (r, w')"
  | (served) q fs where "caller_of cfg ar authz w = Caller q" "g (Some q) (w\<lparr>faults := fs\<rparr>) = (r, w')"
proof -
  obtain fs where run: "OptionalAuth cfg ar authz g None w =
     (case caller_of cfg ar authz w of
        Broken \<Rightarrow> (Panicked nil_dereference, w)
      | Refused e \<Rightarrow> (if is_panic e then Panicked e else http_error 401, w\<lparr>faults := fs\<rparr>)
      | Anonymous \<Rightarrow> g None w
      | Caller q \<Rightarrow> g (Some q) (w\<lparr>faults := fs\<rparr>))"
    unfolding OptionalAuth_def using bearer_auth_caller [of cfg ar authz g _ w] by blast
  show thesis
  proof (cases "caller_of cfg ar authz w")
    case Broken
    then show thesis using run assms refused [of "faults w"] by simp
  next
    case (Refused e)
    then show thesis using run assms refused [of fs] by (auto split: if_splits)
  next
    case Anonymous
    then show thesis using run assms anonymous by simp
  next
    case (Caller q)
    then show thesis using run assms served by simp
  qed
qed

lemma required_then:
  assumes "RequireAuth cfg ar authz h p w = (r, w')"
  obtains (refused) fs where "w' = w\<lparr>faults := fs\<rparr>" "status_code r = Some 401 \<or> (\<exists>e. r = Panicked e)"
  | (anonymous) q where "caller_of cfg ar authz w = Anonymous" "p = Some q" "h p w = (r, w')"
  | (served) q fs where "caller_of cfg ar authz w = Caller q" "h (Some q) (w\<lparr>faults := fs\<rparr>) = (r, w')"
proof -
  obtain fs where run: "RequireAuth cfg ar authz h p w =
     (case caller_of cfg ar authz w of
        Broken \<Rightarrow> (Panicked nil_dereference, w)
      | Refused e \<Rightarrow> (if is_panic e then Panicked e else http_error 401, w\<lparr>faults := fs\<rparr>)
      | Anonymous \<Rightarrow> (case p of None \<Rightarrow> (Text 401 (StatusText 401), w) | Some q \<Rightarrow> h p w)
      | Caller q \<Rightarrow> h (Some q) (w\<lparr>faults := fs\<rparr>))"
    unfolding RequireAuth_def
    using bearer_auth_caller [of cfg ar authz h "\<lambda>w. case p of None \<Rightarrow> (Text 401 (StatusText 401), w) | Some q \<Rightarrow> h p w" w]
    by (elim exE)
  show thesis
  proof (cases "caller_of cfg ar authz w")
    case Broken
    then show thesis using run assms refused [of "faults w"] by simp
  next
    case (Refused e)
    then show thesis using run assms refused [of fs] by (auto split: if_splits)
  next
    case Anonymous
    then show thesis using run assms anonymous refused [of "faults w"] by (cases p) auto
  next
    case (Caller q)
    then show thesis using run assms served by simp
  qed
qed

text \<open>
  C3: Every route serves only the callers it is for, as themselves. The handler of a route runs as nobody only
  on an open route, otherwise as the principal the request comes from: a session user on the routes of the
  service accounts and of the firewall, a service account on its own route, either of them on the routes of the
  certificates. Any other request ends in 401 or a panic, and then the tables, the session and the cache are
  as they were.
\<close>

theorem routes_serve_permitted_callers:
  assumes "serve cfg env rq (m, pattern, a, ep) w = (r, w')"
  shows "(\<exists>p fs. permits a (caller_of cfg (env_argon (ae_accounts env)) (authorization rq) w) p \<and>
            handler_of cfg env rq ep p (w\<lparr>faults := fs\<rparr>) = (r, w')) \<or>
         (\<exists>fs. w' = w\<lparr>faults := fs\<rparr>) \<and> (status_code r = Some 401 \<or> (\<exists>e. r = Panicked e))"
proof -
  let ?ar = "env_argon (ae_accounts env)" and ?authz = "authorization rq" and ?h = "handler_of cfg env rq ep"
  have "OptionalAuth cfg ?ar ?authz (guarded a cfg ?ar ?authz ?h) None w = (r, w')"
    using assms by (simp add: serve_def authorization_def Let_def)
  then show ?thesis
  proof (cases rule: optional_then)
    case (refused fs)
    then show ?thesis by blast
  next
    case anonymous
    have same: "w\<lparr>faults := faults w\<rparr> = w" by simp
    show ?thesis
    proof (cases a)
      case Open
      with anonymous show ?thesis
        by (intro disjI1 exI [of _ None] exI [of _ "faults w"]) (simp add: permits_def)
    next
      case AnyCaller
      then have "RequireAuth cfg ?ar ?authz ?h None w = (r, w')" using anonymous(2) by simp
      then show ?thesis
        by (cases rule: required_then) (use anonymous(1) in auto)
    qed (use anonymous(2) same_faults [of w] in \<open>auto simp: RequireCookieAuth_def RequireServiceAccountAuth_def\<close>)
  next
    case (served q fs)
    show ?thesis
    proof (cases a)
      case Open
      with served show ?thesis
        by (intro disjI1 exI [of _ "Some q"] exI [of _ fs]) (simp add: permits_def split: principal.split)
    next
      case AnyCaller
      then have "RequireAuth cfg ?ar ?authz ?h (Some q) (w\<lparr>faults := fs\<rparr>) = (r, w')" using served(2) by simp
      then show ?thesis
      proof (cases rule: required_then)
        case (served q' fs')
        then have "q' = q"
          using caller_of_stable [OF \<open>caller_of cfg ?ar ?authz w = Caller q\<close>, of "w\<lparr>faults := fs\<rparr>"] by auto
        with served AnyCaller \<open>caller_of cfg ?ar ?authz w = Caller q\<close> show ?thesis
          by (intro disjI1 exI [of _ "Some q"] exI [of _ fs']) (simp add: permits_def split: principal.split)
      qed (use caller_of_stable [OF served(1), of "w\<lparr>faults := fs\<rparr>"] in auto)
    qed (use served in \<open>auto simp: RequireCookieAuth_def RequireServiceAccountAuth_def permits_def split: principal.splits\<close>)
  qed
qed

text \<open>The open handlers other than the callback leave the tables alone.\<close>

lemma open_handlers_keep_tables:
  assumes "ep \<in> {AuthStatus, StartOfLogin, EndOfSession, Queries, Metrics, Health}" and "handler_of cfg env rq ep p w = (r, w')"
  shows "db w' = db w"
  using assms
  by (auto simp: as_json_def GETAuthStatusHandler_def GETLoginHandler_def StartLogin_def POSTLogoutHandler_def Logout_def GetQueriesGET_def
      GetMetricsGET_def HandlerHealth_def session_defs Let_def split: if_splits option.splits sum.splits prod.splits)

lemma routes_of:
  assumes "setupRouter cfg = Inr rs"
  shows "set rs \<subseteq> set (auth_routes @ account_routes @ certificate_routes @ firewall_routes @ data_routes)"
  using assms by (auto simp: setupRouter_def split: option.splits if_splits)

lemma open_routes:
  assumes "setupRouter cfg = Inr rs" and "(m, pattern, Open, ep) \<in> set rs"
  shows "ep \<in> {AuthStatus, StartOfLogin, Callback, EndOfSession, Queries, Metrics, Health}"
  using subsetD [OF routes_of [OF assms(1)] assms(2)]
  by (auto simp: auth_routes_def account_routes_def certificate_routes_def firewall_routes_def data_routes_def)

text \<open>
  C27: Only callers that identify themselves write to the tables, the login callback apart: a request to one of
  the routes leaves every table as it was if the route is open or the request comes from nobody.
\<close>

theorem only_identified_callers_write:
  assumes "setupRouter cfg = Inr rs" and "(m, pattern, a, ep) \<in> set rs" and "ep \<noteq> Callback"
    and "serve cfg env rq (m, pattern, a, ep) w = (r, w')"
    and "a = Open \<or> (\<nexists>q. caller_of cfg (env_argon (ae_accounts env)) (authorization rq) w = Caller q)"
  shows "db w' = db w"
proof -
  let ?ar = "env_argon (ae_accounts env)" and ?authz = "authorization rq" and ?h = "handler_of cfg env rq ep"
  have keep: "db v' = db v" if "a = Open" "?h p v = (s, v')" for p v s v'
    using open_handlers_keep_tables [OF _ that(2)] open_routes [OF assms(1)] assms(2,3) that(1) by blast
  have "OptionalAuth cfg ?ar ?authz (guarded a cfg ?ar ?authz ?h) None w = (r, w')"
    using assms(4) by (simp add: serve_def authorization_def Let_def)
  then show ?thesis
  proof (cases rule: optional_then)
    case anonymous
    show ?thesis
    proof (cases a)
      case AnyCaller
      then have "RequireAuth cfg ?ar ?authz ?h None w = (r, w')" using anonymous(2) by simp
      then show ?thesis
        by (cases rule: required_then) (use anonymous(1) in auto)
    qed (use anonymous(2) keep in \<open>auto simp: RequireCookieAuth_def RequireServiceAccountAuth_def\<close>)
  next
    case (served q fs)
    with assms(5) have "a = Open" by auto
    then have "?h (Some q) (w\<lparr>faults := fs\<rparr>) = (r, w')" using served(2) by simp
    with \<open>a = Open\<close> have "db w' = db (w\<lparr>faults := fs\<rparr>)" by (rule keep)
    then show ?thesis by simp
  qed simp
qed

section \<open>Witnesses\<close>

text \<open>A session user, who asks for what is meant for a service account, and nobody, who asks for a service account.\<close>

definition some_request :: request where
  "some_request =
     \<lparr>rq_headers = [], rq_remote = ''10.0.0.9:80'', rq_query = [], rq_id = ''1'',
      rq_account_body = Inr example_sa_body, rq_certificate_body = Inl (Errorf ''EOF''), rq_review_body = Inl (Errorf ''EOF''),
      rq_passphrase_body = Inl (Errorf ''EOF''), rq_firewall_body = Inl (Errorf ''EOF''), rq_reason = []\<rparr>"

definition some_env :: "(mem_cache, string) api_env" where
  "some_env =
     \<lparr>ae_cache = mem_provider, ae_oidc = example_provider, ae_url_local = (\<lambda>s. True), ae_state_bytes = [1], ae_nonce_bytes = [2],
      ae_verifier_bytes = [3], ae_store_error = None, ae_accounts = example_env, ae_download = dl_env, ae_pg = fw_pg\<rparr>"

definition with_session :: "session \<Rightarrow> mem_cache cachectx" where
  "with_session s = \<lparr>db = empty_database, now = 5, faults = [], sess = s, cch = NewMemCache\<rparr>"

lemma some_authorization: "authorization some_request = []"
  by (simp add: authorization_def some_request_def Header_Get_def)

lemma some_callers:
  "caller_of example_config ar [] (with_session ops_session) = Caller (PUser (example_user\<lparr>usr_groups := [''ops'']\<rparr>))"
  "caller_of example_config ar [] (with_session empty_session) = Anonymous"
  by (simp_all add: caller_of_def example_config_def ExtractAuthorizationHeader_def with_session_def GetUser_def ops_session_def
      empty_session_def)

theorem routes_serve_permitted_callers_witness:
  "\<exists>r fs. serve example_config some_env some_request (GET, ''/service-accounts/whoami'', Account, Whoami) (with_session ops_session) =
     (r, (with_session ops_session)\<lparr>faults := fs\<rparr>) \<and> (status_code r = Some 401 \<or> (\<exists>e. r = Panicked e))"
proof -
  obtain r w' where run: "serve example_config some_env some_request (GET, ''/service-accounts/whoami'', Account, Whoami)
      (with_session ops_session) = (r, w')" by fastforce
  show ?thesis
    using routes_serve_permitted_callers [OF run] run by (auto simp: permits_def some_authorization some_callers)
qed

theorem only_identified_callers_write_witness:
  "db (snd (serve example_config some_env some_request (POST, ''/service-accounts/'', SessionUser, CreateAccount)
     (with_session empty_session))) = empty_database"
proof -
  obtain rs where rs: "setupRouter example_config = Inr rs" "(POST, ''/service-accounts/'', SessionUser, CreateAccount) \<in> set rs"
    by (simp add: setupRouter_def example_config_def account_routes_def)
  obtain r w' where run: "serve example_config some_env some_request (POST, ''/service-accounts/'', SessionUser, CreateAccount)
      (with_session empty_session) = (r, w')" by fastforce
  have "db w' = db (with_session empty_session)"
    by (rule only_identified_callers_write [OF rs _ run]) (simp_all add: some_authorization some_callers)
  with run show ?thesis by (simp add: with_session_def)
qed

end
