(* ===== verification/Issued_Store.thy ===== *)
theory Issued_Store
  imports Frames Config_Schema
begin

text \<open>
  The part of \<open>internal/storage/certificate_queries.go\<close> that keeps keys and certificates: the check of the
  encryption key, the certificate authority and the issued certificates, whose private keys are stored
  encrypted. With it go \<open>internal/utils/keys.go\<close>, \<open>internal/utils/aes.go\<close> and
  \<open>internal/utils/certificates.go\<close>.

  Parameters: the cryptographic library, that is AES-GCM, HKDF, random numbers, key generation, and the
  encoding and signing of certificates, and PEM. A nil encryption key is the empty string.
\<close>

section \<open>The cryptographic library\<close>

text \<open>The fields of a parsed X.509 certificate the source reads, and those of a template it fills in.\<close>

record x509_certificate =
  xc_raw :: string
  xc_common_name :: string
  xc_organization :: "string list"
  xc_country :: "string list"
  xc_locality :: "string list"
  xc_province :: "string list"
  xc_dns_names :: "string list"
  xc_serial :: string
  xc_subject :: string
  xc_issuer :: string
  xc_not_before :: time
  xc_not_after :: time

record subject_name =
  sn_common_name :: string
  sn_organization :: "string list"
  sn_country :: "string list"
  sn_locality :: "string list"
  sn_province :: "string list"
  sn_unit :: "string list"

datatype key_usage = KeyUsageCertSign | KeyUsageCRLSign | KeyUsageDigitalSignature

record x509_template =
  xt_serial :: int
  xt_subject :: subject_name
  xt_not_before :: time
  xt_not_after :: time
  xt_is_ca :: bool
  xt_key_usage :: "key_usage list"
  xt_client_auth :: bool
  xt_dns_names :: "string list"

record certificate_data =
  cd_certificate :: x509_certificate
  cd_private_key :: string

text \<open>
  \<open>cl_CreateCertificate\<close> signs a template with the parent's certificate, if it is not the template itself,
  and key, for the public part of a key. \<open>cl_pem_encode\<close> is \<open>pem.EncodeToMemory\<close> on a block's type and
  bytes, and \<open>cl_pem_decode\<close> the first block of a text.
\<close>

record crypto_library =
  cl_NewCipher :: "string \<Rightarrow> unit result"
  cl_NewGCM :: "string \<Rightarrow> unit result"
  cl_Seal :: "string \<Rightarrow> string \<Rightarrow> string"
  cl_Open :: "string \<Rightarrow> string \<Rightarrow> string result"
  cl_hkdf :: "string \<Rightarrow> string result"
  cl_rsa :: "nat \<Rightarrow> string result"
  cl_ecdsa_p256 :: "string result"
  cl_random_serial :: "int result"
  cl_CreateCertificate :: "x509_template \<Rightarrow> x509_certificate option \<Rightarrow> string \<Rightarrow> string \<Rightarrow> string result"
  cl_ParseCertificate :: "string \<Rightarrow> x509_certificate result"
  cl_MarshalPKCS8 :: "string \<Rightarrow> string result"
  cl_ParsePKCS8 :: "string \<Rightarrow> string result"
  cl_pem_encode :: "string \<Rightarrow> string \<Rightarrow> string"
  cl_pem_decode :: "string \<Rightarrow> (string \<times> string) option"

section \<open>Encryption (utils/aes.go)\<close>

definition ParseEncryptionKey :: "crypto_library \<Rightarrow> string \<Rightarrow> string result" where
  "ParseEncryptionKey cl input =
     (if input = [] then Inl (Errorf ''key cannot be empty'')
      else (case cl_hkdf cl input of Inl e \<Rightarrow> Inl (wrap ''unable to derive key: '' e) | Inr key \<Rightarrow> Inr key))"

definition aes_gcm :: "crypto_library \<Rightarrow> string \<Rightarrow> unit result" where
  "aes_gcm cl key =
     (case cl_NewCipher cl key of
        Inl e \<Rightarrow> Inl (wrap ''unable to create AES cipher: '' e)
      | Inr _ \<Rightarrow> (case cl_NewGCM cl key of Inl e \<Rightarrow> Inl (wrap ''unable to create GCM: '' e) | Inr _ \<Rightarrow> Inr ()))"

definition Encrypt :: "crypto_library \<Rightarrow> string \<Rightarrow> string \<Rightarrow> string result" where
  "Encrypt cl plaintext key = (case aes_gcm cl key of Inl e \<Rightarrow> Inl e | Inr _ \<Rightarrow> Inr (cl_Seal cl key plaintext))"

definition Decrypt :: "crypto_library \<Rightarrow> string \<Rightarrow> string \<Rightarrow> string result" where
  "Decrypt cl ciphertext key =
     (case aes_gcm cl key of
        Inl e \<Rightarrow> Inl e
      | Inr _ \<Rightarrow> (case cl_Open cl key ciphertext of
          Inl e \<Rightarrow> Inl (wrap ''unable to decrypt ciphertext: '' e) | Inr plaintext \<Rightarrow> Inr plaintext))"

section \<open>Keys (utils/keys.go)\<close>

type_synonym key_algorithm = string

definition ParseKeyAlgorithm :: "string \<Rightarrow> key_algorithm result" where
  "ParseKeyAlgorithm s =
     (if s \<in> {''RSA-2048'', ''RSA-4096'', ''ECDSA-P256''} then Inr s else Inl (Errorf ''invalid key algorithm''))"

definition generateRSAPrivateKey :: "crypto_library \<Rightarrow> key_algorithm \<Rightarrow> string result" where
  "generateRSAPrivateKey cl algorithm =
     (let gen = (\<lambda>bits. case cl_rsa cl bits of Inl e \<Rightarrow> Inl (wrap ''failed to generate RSA key: '' e) | Inr k \<Rightarrow> Inr k) in
      if algorithm = ''RSA-2048'' then gen 2048
      else if algorithm = ''RSA-4096'' then gen 4096
      else Inl (Errorf ''invalid key algorithm''))"

definition generateECDSAPrivateKey :: "crypto_library \<Rightarrow> key_algorithm \<Rightarrow> string result" where
  "generateECDSAPrivateKey cl algorithm =
     (if algorithm = ''ECDSA-P256''
      then (case cl_ecdsa_p256 cl of Inl e \<Rightarrow> Inl (wrap ''failed to generate ECDSA key: '' e) | Inr k \<Rightarrow> Inr k)
      else Inl (Errorf ''invalid key algorithm''))"

definition GeneratePrivateKey :: "crypto_library \<Rightarrow> key_algorithm \<Rightarrow> string result" where
  "GeneratePrivateKey cl algorithm =
     (if algorithm \<in> {''RSA-2048'', ''RSA-4096''} then generateRSAPrivateKey cl algorithm
      else if algorithm = ''ECDSA-P256'' then generateECDSAPrivateKey cl algorithm
      else Inl (Errorf (''invalid key algorithm: '' @ algorithm)))"

definition PrivateKeyToPEM :: "crypto_library \<Rightarrow> string \<Rightarrow> string result" where
  "PrivateKeyToPEM cl privateKey =
     (case cl_MarshalPKCS8 cl privateKey of Inl e \<Rightarrow> Inl e | Inr der \<Rightarrow> Inr (cl_pem_encode cl ''PRIVATE KEY'' der))"

definition PrivateKeyFromPEM :: "crypto_library \<Rightarrow> string \<Rightarrow> string result" where
  "PrivateKeyFromPEM cl pem =
     (case cl_pem_decode cl pem of
        None \<Rightarrow> Inl (Errorf ''failed to decode PEM block'') | Some (ty, b) \<Rightarrow> cl_ParsePKCS8 cl b)"

section \<open>Certificates (utils/certificates.go)\<close>

definition days :: "int \<Rightarrow> duration" where
  "days n = n * 24 * hour"

definition subject_of :: "string \<Rightarrow> certificate_subject option \<Rightarrow> string list \<Rightarrow> subject_name" where
  "subject_of commonName subject units =
     (case subject of
        None \<Rightarrow> \<lparr>sn_common_name = commonName, sn_organization = [], sn_country = [], sn_locality = [], sn_province = [], sn_unit = units\<rparr>
      | Some s \<Rightarrow> \<lparr>sn_common_name = commonName, sn_organization = [sub_organization s], sn_country = [sub_country s],
                  sn_locality = [sub_locality s], sn_province = [sub_province s], sn_unit = units\<rparr>)"

definition sign_and_parse ::
  "crypto_library \<Rightarrow> x509_template \<Rightarrow> x509_certificate option \<Rightarrow> string \<Rightarrow> string \<Rightarrow> certificate_data result" where
  "sign_and_parse cl tmpl parent leafKey caKey =
     (case cl_CreateCertificate cl tmpl parent leafKey caKey of
        Inl e \<Rightarrow> Inl (wrap ''failed to generate CA certificate: '' e)
      | Inr der \<Rightarrow> (case cl_ParseCertificate cl der of
          Inl e \<Rightarrow> Inl (wrap ''failed to parse CA certificate: '' e)
        | Inr cert \<Rightarrow> Inr \<lparr>cd_certificate = cert, cd_private_key = leafKey\<rparr>))"

definition GenerateCA ::
  "crypto_library \<Rightarrow> time \<Rightarrow> string \<Rightarrow> int \<Rightarrow> key_algorithm \<Rightarrow> certificate_subject option \<Rightarrow> certificate_data result" where
  "GenerateCA cl t commonName validityDays algorithm subject =
     (case GeneratePrivateKey cl algorithm of
        Inl e \<Rightarrow> Inl e
      | Inr caKey \<Rightarrow> (case cl_random_serial cl of
          Inl e \<Rightarrow> Inl (wrap ''failed to generate serial number: '' e)
        | Inr serial \<Rightarrow>
            sign_and_parse cl
              \<lparr>xt_serial = serial, xt_subject = subject_of commonName subject [], xt_not_before = t, xt_not_after = t + days validityDays,
               xt_is_ca = True, xt_key_usage = [KeyUsageCertSign, KeyUsageCRLSign, KeyUsageDigitalSignature], xt_client_auth = False,
               xt_dns_names = []\<rparr> None caKey caKey))"

definition GenerateCertificate ::
  "crypto_library \<Rightarrow> time \<Rightarrow> certificate_request \<Rightarrow> certificate_data \<Rightarrow> key_algorithm \<Rightarrow> certificate_subject option
    \<Rightarrow> certificate_data result" where
  "GenerateCertificate cl t request ca algorithm subject =
     (case GeneratePrivateKey cl algorithm of
        Inl e \<Rightarrow> Inl (wrap ''failed to generate private key: '' e)
      | Inr leafKey \<Rightarrow> (case cl_random_serial cl of
          Inl e \<Rightarrow> Inl (wrap ''failed to generate serial number: '' e)
        | Inr serial \<Rightarrow>
            sign_and_parse cl
              \<lparr>xt_serial = serial, xt_subject = subject_of (req_common_name request) subject (req_ous request),
               xt_not_before = t, xt_not_after = t + days (req_validity_days request), xt_is_ca = False,
               xt_key_usage = [KeyUsageDigitalSignature], xt_client_auth = True, xt_dns_names = req_dns_names request\<rparr>
              (Some (cd_certificate ca)) leafKey (cd_private_key ca)))"

record issued_certificate_details =
  icd_serial_number :: string
  icd_subject :: string
  icd_issuer :: string
  icd_not_before :: time
  icd_not_after :: time
  icd_dns_names :: "string list"
  icd_common_name :: string
  icd_organization :: "string list"

definition ParseCertificateDetails :: "crypto_library \<Rightarrow> string \<Rightarrow> issued_certificate_details result" where
  "ParseCertificateDetails cl certPEM =
     (case cl_pem_decode cl certPEM of
        None \<Rightarrow> Inl (Errorf ''failed to decode PEM block'')
      | Some (ty, b) \<Rightarrow> (case cl_ParseCertificate cl b of
          Inl e \<Rightarrow> Inl (wrap ''failed to parse certificate: '' e)
        | Inr c \<Rightarrow> Inr \<lparr>icd_serial_number = xc_serial c, icd_subject = xc_subject c, icd_issuer = xc_issuer c,
            icd_not_before = xc_not_before c, icd_not_after = xc_not_after c, icd_dns_names = xc_dns_names c,
            icd_common_name = xc_common_name c, icd_organization = xc_organization c\<rparr>))"

section \<open>The storage provider's keys\<close>

record key_store =
  ks_crypto :: crypto_library
  ks_key :: string

definition ks_encrypt :: "key_store \<Rightarrow> string \<Rightarrow> string result" where
  "ks_encrypt ks plaintext = Encrypt (ks_crypto ks) plaintext (ks_key ks)"

definition ks_decrypt :: "key_store \<Rightarrow> string \<Rightarrow> string result" where
  "ks_decrypt ks ciphertext = Decrypt (ks_crypto ks) ciphertext (ks_key ks)"

definition try_result :: "'a result \<Rightarrow> (goerror \<Rightarrow> goerror) \<Rightarrow> ('a \<Rightarrow> ('w, 'b) dbop) \<Rightarrow> ('w, 'b) dbop" where
  "try_result r h k = try_db (lift_result r) h k"

section \<open>The check of the encryption key\<close>

definition EncryptionValidationCheckValue :: string where
  "EncryptionValidationCheckValue = ''conduit-encryption-validation-v1''"

definition GetEncryptionValidation :: "('w, string) dbop" where
  "GetEncryptionValidation =
     try_db (db_query_row (\<lambda>d. case t_encryption d of [] \<Rightarrow> None | x # _ \<Rightarrow> Some x))
       (\<lambda>e. if errors_Is e ErrNoRows then Sentinel ErrEncryptionValidationNotFound
             else wrap ''failed to get encryption validation: '' e) ok"

definition SetEncryptionValidation :: "string \<Rightarrow> ('w, unit) dbop" where
  "SetEncryptionValidation validationData =
     try_db (roundtrip (\<lambda>t d. (Inr (), d\<lparr>t_encryption := t_encryption d @ [validationData]\<rparr>)))
       (wrap ''failed to set encryption validation: '') ok"

definition store_validation :: "key_store \<Rightarrow> ('w, string) dbop" where
  "store_validation ks =
     try_result (ks_encrypt ks EncryptionValidationCheckValue) (wrap ''failed to encrypt validation data: '')
       (\<lambda>encrypted. try_db (SetEncryptionValidation encrypted) (wrap ''failed to store validation data: '')
          (\<lambda>_. try_db GetEncryptionValidation (wrap ''failed to verify stored validation data: '') ok))"

definition check_validation :: "key_store \<Rightarrow> string \<Rightarrow> ('w, unit) dbop" where
  "check_validation ks validationData =
     (case ks_decrypt ks validationData of
        Inl e \<Rightarrow> fail (Wrapf [] (Sentinel ErrInvalidEncryptionKey) ('': decryption failed - '' @ error_text e))
      | Inr decrypted \<Rightarrow>
          if decrypted \<noteq> EncryptionValidationCheckValue
          then fail (Wrapf [] (Sentinel ErrInvalidEncryptionKey) '': check value mismatch'')
          else ok ())"

definition ValidateEncryptionKey :: "key_store \<Rightarrow> ('w, unit) dbop" where
  "ValidateEncryptionKey ks w =
     (if ks_key ks = [] then (Inl (Errorf ''encryption key not configured''), w)
      else (case GetEncryptionValidation w of
          (Inl e, w1) \<Rightarrow>
            if errors_Is e ErrEncryptionValidationNotFound
            then try_db (store_validation ks) id (check_validation ks) w1
            else (Inl e, w1)
        | (Inr validationData, w1) \<Rightarrow> check_validation ks validationData w1))"

section \<open>The certificate authority\<close>

definition first_or_empty :: "string list \<Rightarrow> string" where
  "first_or_empty xs = (case xs of [] \<Rightarrow> [] | x # _ \<Rightarrow> x)"

definition sql_insert_ca :: "ca_row \<Rightarrow> database \<Rightarrow> unit result \<times> database" where
  "sql_insert_ca r d =
     (if ca_is_active r \<in> ca_is_active ` set (t_ca d)
      then (Inl (duplicate_key ''certificate_authority_is_active_key''), d)
      else (Inr (), d\<lparr>t_ca := t_ca d @ [r]\<rparr>))"

definition InsertCertificateAuthority :: "key_store \<Rightarrow> certificate_data \<Rightarrow> key_algorithm \<Rightarrow> ('w, unit) dbop" where
  "InsertCertificateAuthority ks caCert keyAlgorithm =
     try_result (PrivateKeyToPEM (ks_crypto ks) (cd_private_key caCert)) (wrap ''failed to convert private key to PEM: '')
       (\<lambda>keyPem. (let c = cd_certificate caCert; certPem = cl_pem_encode (ks_crypto ks) ''CERTIFICATE'' (xc_raw c) in
          try_result (ks_encrypt ks keyPem) (wrap ''failed to encrypt private key: '')
            (\<lambda>encryptedKey. try_db (roundtrip (\<lambda>t. sql_insert_ca
                 \<lparr>ca_is_active = True, ca_cert_pem = certPem, ca_key_pem = encryptedKey, ca_ca_pem = certPem,
                  ca_common_name = xc_common_name c, ca_organization = first_or_empty (xc_organization c),
                  ca_country = first_or_empty (xc_country c), ca_locality = first_or_empty (xc_locality c),
                  ca_province = first_or_empty (xc_province c), ca_serial = xc_serial c, ca_key_algorithm = keyAlgorithm,
                  ca_expires_at = xc_not_after c, ca_created_at = t\<rparr>))
               (wrap ''failed to insert certificate authority: '') ok)))"

definition newest_ca :: "database \<Rightarrow> ca_row option" where
  "newest_ca d = (case order_desc ca_created_at (filter ca_is_active (t_ca d)) of [] \<Rightarrow> None | r # _ \<Rightarrow> Some r)"

definition read_ca :: "key_store \<Rightarrow> ca_row \<Rightarrow> (certificate_data \<times> key_algorithm) result" where
  "read_ca ks r =
     (case ks_decrypt ks (ca_key_pem r) of
        Inl e \<Rightarrow> Inl (wrap ''failed to decrypt CA private key: '' e)
      | Inr keyPem \<Rightarrow> (case cl_pem_decode (ks_crypto ks) (ca_cert_pem r) of
          None \<Rightarrow> Inl (Errorf ''failed to decode certificate PEM'')
        | Some (ty, b) \<Rightarrow> (case cl_ParseCertificate (ks_crypto ks) b of
            Inl e \<Rightarrow> Inl (wrap ''failed to parse certificate: '' e)
          | Inr cert \<Rightarrow> (case PrivateKeyFromPEM (ks_crypto ks) keyPem of
              Inl e \<Rightarrow> Inl (wrap ''failed to parse private key: '' e)
            | Inr privateKey \<Rightarrow> (case ParseKeyAlgorithm (ca_key_algorithm r) of
                Inl e \<Rightarrow> Inl (wrap ''invalid key algorithm in database: '' e)
              | Inr alg \<Rightarrow> Inr (\<lparr>cd_certificate = cert, cd_private_key = privateKey\<rparr>, alg))))))"

definition GetCertificateAuthority :: "key_store \<Rightarrow> ('w, certificate_data \<times> key_algorithm) dbop" where
  "GetCertificateAuthority ks =
     try_db (db_query_row newest_ca)
       (\<lambda>e. if errors_Is e ErrNoRows then Sentinel ErrCertificateAuthorityNotFound
             else wrap ''failed to get certificate authority: '' e)
       (\<lambda>r. lift_result (read_ca ks r))"

section \<open>Issued certificates\<close>

definition sql_insert_issued :: "issued_row \<Rightarrow> database \<Rightarrow> unit result \<times> database" where
  "sql_insert_issued r d =
     (if ic_identifier r \<in> ic_identifier ` set (t_issued d) then (Inl (duplicate_key ''issued_certificates_pkey''), d)
      else if find_request (ic_request_id r) d = None
      then (Inl (fk_violation ''issued_certificates_certificate_request_id_fkey''), d)
      else (Inr (), d\<lparr>t_issued := t_issued d @ [r]\<rparr>))"

definition issued_row_of ::
  "string \<Rightarrow> x509_certificate \<Rightarrow> string \<Rightarrow> string \<Rightarrow> string \<Rightarrow> key_algorithm \<Rightarrow> int \<Rightarrow> certificate_request \<Rightarrow> time \<Rightarrow> issued_row" where
  "issued_row_of ident c certPem encryptedKey caCertPEM alg reqId request t =
     \<lparr>ic_identifier = ident, ic_cert_pem = certPem, ic_key_pem = Some encryptedKey, ic_ca_pem = caCertPEM,
      ic_common_name = xc_common_name c, ic_organization = first_or_empty (xc_organization c),
      ic_country = first_or_empty (xc_country c), ic_locality = first_or_empty (xc_locality c),
      ic_province = first_or_empty (xc_province c), ic_dns_names = req_dns_names request, ic_ous = req_ous request,
      ic_serial = xc_serial c, ic_key_algorithm = alg, ic_request_id = reqId, ic_expires_at = xc_not_after c,
      ic_created_at = t, ic_deleted_at = None\<rparr>"

definition InsertIssuedCertificate ::
  "key_store \<Rightarrow> string \<Rightarrow> certificate_data \<Rightarrow> string \<Rightarrow> key_algorithm \<Rightarrow> int \<Rightarrow> certificate_request \<Rightarrow> ('w, unit) dbop" where
  "InsertIssuedCertificate ks ident certData caCertPEM keyAlgorithm certificateRequestID request =
     (let c = cd_certificate certData; certPem = cl_pem_encode (ks_crypto ks) ''CERTIFICATE'' (xc_raw c) in
      try_result (PrivateKeyToPEM (ks_crypto ks) (cd_private_key certData)) (wrap ''failed to convert private key to PEM: '')
        (\<lambda>keyPem. try_result (ks_encrypt ks keyPem) (wrap ''failed to encrypt private key: '')
          (\<lambda>encryptedKey. try_db
             (roundtrip (\<lambda>t. sql_insert_issued (issued_row_of ident c certPem encryptedKey caCertPEM keyAlgorithm certificateRequestID request t)))
             (\<lambda>e. if strings_Contains (error_text e) ''duplicate key'' \<or> strings_Contains (error_text e) ''unique constraint''
                   then Sentinel ErrCertificateAlreadyExists else wrap ''failed to insert issued certificate: '' e) ok)))"

definition find_issued :: "string \<Rightarrow> database \<Rightarrow> issued_row option" where
  "find_issued ident d = find (\<lambda>r. ic_identifier r = ident \<and> ic_deleted_at r = None) (t_issued d)"

definition GetIssuedCertificateByIdentifier :: "key_store \<Rightarrow> string \<Rightarrow> ('w, string \<times> string \<times> string) dbop" where
  "GetIssuedCertificateByIdentifier ks ident =
     try_db (db_query_row (find_issued ident))
       (\<lambda>e. if errors_Is e ErrNoRows then Sentinel ErrIssuedCertificateNotFound
             else wrap ''failed to get issued certificate: '' e)
       (\<lambda>r. case ic_key_pem r of
            None \<Rightarrow> fail (Errorf ''certificate has been deleted'')
          | Some encryptedKey \<Rightarrow>
              try_result (ks_decrypt ks encryptedKey) (wrap ''failed to decrypt private key: '')
                (\<lambda>keyPEM. ok (ic_cert_pem r, keyPEM, ic_ca_pem r)))"

definition sql_delete_issued :: "string \<Rightarrow> time \<Rightarrow> database \<Rightarrow> nat result \<times> database" where
  "sql_delete_issued ident t d =
     (let p = (\<lambda>r. ic_identifier r = ident \<and> ic_deleted_at r = None) in
      (Inr (count_where p (t_issued d)),
       d\<lparr>t_issued := upd_where p (\<lambda>r. r\<lparr>ic_key_pem := None, ic_deleted_at := Some t\<rparr>) (t_issued d)\<rparr>))"

definition DeleteIssuedCertificate :: "string \<Rightarrow> ('w, unit) dbop" where
  "DeleteIssuedCertificate ident =
     try_db (roundtrip (sql_delete_issued ident)) (wrap ''failed to delete issued certificate: '')
       (\<lambda>n. if n = 0 then fail (Sentinel ErrIssuedCertificateNotFound) else ok ())"

section \<open>What the operations do\<close>

lemma try_result_InrE:
  assumes "try_result r h k w = (Inr y, w')"
  obtains x where "r = Inr x" and "k x w = (Inr y, w')"
  using assms by (auto simp: try_result_def elim!: success_elims)

text \<open>The law of AES-GCM: what was sealed with a key opens with it to what it was.\<close>

definition opens_sealed :: "crypto_library \<Rightarrow> bool" where
  "opens_sealed cl \<longleftrightarrow> (\<forall>key p. cl_Open cl key (cl_Seal cl key p) = Inr p)"

lemma decrypt_encrypt:
  assumes "opens_sealed (ks_crypto ks)" and "ks_encrypt ks p = Inr c"
  shows "ks_decrypt ks c = Inr p"
  using assms by (auto simp: ks_encrypt_def ks_decrypt_def Encrypt_def Decrypt_def opens_sealed_def split: sum.splits)

lemma InsertIssuedCertificate_success:
  assumes "InsertIssuedCertificate ks ident cert ca alg i request w = (Inr x, w')"
  obtains keyPem enc where "PrivateKeyToPEM (ks_crypto ks) (cd_private_key cert) = Inr keyPem" and "ks_encrypt ks keyPem = Inr enc"
    and "ident \<notin> ic_identifier ` set (t_issued (db w))" and "find_request i (db w) \<noteq> None"
    and "w' = (pop_fault w)\<lparr>db := (db w)\<lparr>t_issued := t_issued (db w) @
          [issued_row_of ident (cd_certificate cert) (cl_pem_encode (ks_crypto ks) ''CERTIFICATE'' (xc_raw (cd_certificate cert))) enc ca
             alg i request (now w)]\<rparr>\<rparr>"
  using assms unfolding InsertIssuedCertificate_def Let_def
  by (elim try_result_InrE try_db_InrE roundtrip_InrE ok_InrE)
    (auto simp: sql_insert_issued_def issued_row_of_def split: if_splits intro: that)

lemma GetIssuedCertificate_run:
  assumes "faults w = []"
  shows "GetIssuedCertificateByIdentifier ks ident w =
     (case find_issued ident (db w) of
        None \<Rightarrow> Inl (Sentinel ErrIssuedCertificateNotFound)
      | Some r \<Rightarrow> (case ic_key_pem r of
          None \<Rightarrow> Inl (Errorf ''certificate has been deleted'')
        | Some enc \<Rightarrow> (case ks_decrypt ks enc of
            Inl e \<Rightarrow> Inl (wrap ''failed to decrypt private key: '' e)
          | Inr keyPEM \<Rightarrow> Inr (ic_cert_pem r, keyPEM, ic_ca_pem r))), w)"
  using assms
  by (simp add: GetIssuedCertificateByIdentifier_def try_db_def db_query_row_eq try_result_def lift_result_def fail_def ok_def
      split: option.split sum.split)

lemma find_issued_fresh:
  assumes "ident \<notin> ic_identifier ` set rows"
  shows "find (\<lambda>r. ic_identifier r = ident \<and> p r) (rows @ xs) = find (\<lambda>r. ic_identifier r = ident \<and> p r) xs"
  using assms by (induction rows) auto

lemma DeleteIssuedCertificate_success:
  assumes "DeleteIssuedCertificate ident w = (Inr x, w')"
  shows "w' = (pop_fault w)\<lparr>db := (db w)\<lparr>t_issued := upd_where (\<lambda>r. ic_identifier r = ident \<and> ic_deleted_at r = None)
           (\<lambda>r. r\<lparr>ic_key_pem := None, ic_deleted_at := Some (now w)\<rparr>) (t_issued (db w))\<rparr>\<rparr> \<and> find_issued ident (db w) \<noteq> None"
  using assms unfolding DeleteIssuedCertificate_def
  by (auto simp: sql_delete_issued_def Let_def find_issued_def find_None_iff count_where_0 fail_def split: if_splits
      elim!: try_db_InrE roundtrip_InrE ok_InrE) (auto simp: count_where_def filter_empty_conv)

text \<open>A certificate has its key exactly until it is deleted, and identifiers are unique.\<close>

definition issued_inv :: "database \<Rightarrow> bool" where
  "issued_inv d \<longleftrightarrow> distinct (map ic_identifier (t_issued d)) \<and> (\<forall>r \<in> set (t_issued d). ic_deleted_at r = None \<longleftrightarrow> ic_key_pem r \<noteq> None)"

lemma keeps_issued:
  "keeps issued_inv (InsertIssuedCertificate ks ident cert ca alg i request)" "keeps issued_inv (DeleteIssuedCertificate ident)"
proof -
  have ins: "issued_inv d'" if "issued_inv d" "sql_insert_issued (issued_row_of a b c e f g h k t) d = (r, d')" for a b c e f g h k t d r d'
    using that by (auto simp: sql_insert_issued_def issued_inv_def issued_row_of_def split: if_splits)
  have del: "issued_inv d'" if "issued_inv d" "sql_delete_issued ident t d = (r, d')" for t d r d'
    using that by (auto simp: sql_delete_issued_def Let_def issued_inv_def set_upd_where map_upd_where)
  show "keeps issued_inv (InsertIssuedCertificate ks ident cert ca alg i request)"
    unfolding InsertIssuedCertificate_def try_result_def Let_def by (intro keeps_try keeps_lift keeps_roundtrip keeps_ok) (rule ins)
  show "keeps issued_inv (DeleteIssuedCertificate ident)"
    unfolding DeleteIssuedCertificate_def by (intro keeps_try keeps_roundtrip keeps_if keeps_fail keeps_ok) (rule del)
qed

text \<open>The tables of keys as the operations of this theory leave them, other tables changing freely.\<close>

inductive issued_reachable :: "key_store \<Rightarrow> database \<Rightarrow> bool" for ks where
  start: "t_issued d = [] \<Longrightarrow> issued_reachable ks d"
| insert: "issued_reachable ks (db (w :: world)) \<Longrightarrow> issued_reachable ks (db (snd (InsertIssuedCertificate ks ident cert ca alg i request w)))"
| delete: "issued_reachable ks (db (w :: world)) \<Longrightarrow> issued_reachable ks (db (snd (DeleteIssuedCertificate ident w)))"
| other: "issued_reachable ks d \<Longrightarrow> t_issued d' = t_issued d \<Longrightarrow> issued_reachable ks d'"

lemma issued_reachable_inv: "issued_reachable ks d \<Longrightarrow> issued_inv d"
proof (induction rule: issued_reachable.induct)
  case (start d)
  then show ?case by (simp add: issued_inv_def)
next
  case (other d d')
  then show ?case by (simp add: issued_inv_def)
qed (auto intro: keeps_snd [OF keeps_issued(1)] keeps_snd [OF keeps_issued(2)])

section \<open>Properties\<close>

text \<open>
  An issued certificate reads back. After \<open>InsertIssuedCertificate\<close> succeeded, a lookup of its identifier
  in any later state that has only added certificates returns the certificate's PEM text, the PEM text of its
  private key and that of the authority, although the key is stored encrypted. This assumes the law of the
  cipher.
\<close>

theorem issued_certificate_reads_back:
  assumes "InsertIssuedCertificate ks ident cert ca alg i request w = (Inr (), w')" and "opens_sealed (ks_crypto ks)"
    and "t_issued (db v) = t_issued (db w') @ rows" and "faults v = []"
  shows "\<exists>keyPem. PrivateKeyToPEM (ks_crypto ks) (cd_private_key cert) = Inr keyPem \<and>
     GetIssuedCertificateByIdentifier ks ident v =
       (Inr (cl_pem_encode (ks_crypto ks) ''CERTIFICATE'' (xc_raw (cd_certificate cert)), keyPem, ca), v)"
proof -
  obtain keyPem enc where key: "PrivateKeyToPEM (ks_crypto ks) (cd_private_key cert) = Inr keyPem" "ks_encrypt ks keyPem = Inr enc"
    and fresh: "ident \<notin> ic_identifier ` set (t_issued (db w))"
    and w': "w' = (pop_fault w)\<lparr>db := (db w)\<lparr>t_issued := t_issued (db w) @
          [issued_row_of ident (cd_certificate cert) (cl_pem_encode (ks_crypto ks) ''CERTIFICATE'' (xc_raw (cd_certificate cert))) enc ca
             alg i request (now w)]\<rparr>\<rparr>"
    by (rule InsertIssuedCertificate_success [OF assms(1)])
  have "find_issued ident (db v) = Some (issued_row_of ident (cd_certificate cert)
      (cl_pem_encode (ks_crypto ks) ''CERTIFICATE'' (xc_raw (cd_certificate cert))) enc ca alg i request (now w))"
    using find_issued_fresh [OF fresh] by (simp add: find_issued_def assms(3) w' issued_row_of_def)
  then show ?thesis
    using key(1) decrypt_encrypt [OF assms(2) key(2)] GetIssuedCertificate_run [OF assms(4)] by (simp add: issued_row_of_def)
qed

text \<open>
  A deleted certificate is gone for good. After \<open>DeleteIssuedCertificate\<close> succeeded in a reachable state
  no row of the identifier holds a key any more, a lookup answers that there is no such certificate, and the
  identifier cannot be used again.
\<close>

theorem deleted_certificate_is_gone:
  assumes "issued_reachable ks (db w)" and "DeleteIssuedCertificate ident w = (Inr (), w')"
    and "t_issued (db v) = t_issued (db w')" and "faults v = []"
  shows "(\<forall>r \<in> set (t_issued (db v)). ic_identifier r = ident \<longrightarrow> ic_key_pem r = None) \<and>
     GetIssuedCertificateByIdentifier ks ident v = (Inl (Sentinel ErrIssuedCertificateNotFound), v) \<and>
     \<not> is_ok (fst (InsertIssuedCertificate ks ident cert ca alg i request v))"
proof -
  let ?p = "\<lambda>r. ic_identifier r = ident \<and> ic_deleted_at r = None"
  let ?f = "\<lambda>r. r\<lparr>ic_key_pem := None, ic_deleted_at := Some (now w)\<rparr>"
  have rows: "t_issued (db v) = upd_where ?p ?f (t_issued (db w))" and found: "find_issued ident (db w) \<noteq> None"
    using DeleteIssuedCertificate_success [OF assms(2)] assms(3) by auto
  have inv: "\<forall>r \<in> set (t_issued (db w)). ic_deleted_at r = None \<longleftrightarrow> ic_key_pem r \<noteq> None"
    using issued_reachable_inv [OF assms(1)] by (simp add: issued_inv_def)
  have gone: "\<forall>r \<in> set (t_issued (db v)). ic_identifier r = ident \<longrightarrow> ic_deleted_at r \<noteq> None \<and> ic_key_pem r = None"
    unfolding rows ball_upd_where using inv by auto
  then have "find_issued ident (db v) = None"
    by (auto simp: find_issued_def find_None_iff)
  moreover have "ident \<in> ic_identifier ` set (t_issued (db v))"
    unfolding rows using found by (auto simp: find_issued_def find_None_iff image_upd_where)
  then have "\<not> is_ok (fst (InsertIssuedCertificate ks ident cert ca alg i request v))"
    by (cases "InsertIssuedCertificate ks ident cert ca alg i request v") (auto simp: is_ok_iff elim: InsertIssuedCertificate_success)
  ultimately show ?thesis
    using gone GetIssuedCertificate_run [OF assms(4)] by auto
qed

text \<open>
  C20: The database is bound to the key it was first opened with. After \<open>ValidateEncryptionKey\<close> succeeded on a
  database, every later check with the same key succeeds, and a check with a key that cannot open what was
  sealed fails with \<open>ErrInvalidEncryptionKey\<close> and changes nothing. This assumes the law of the cipher.
\<close>

theorem database_is_bound_to_its_key:
  assumes "ValidateEncryptionKey ks w = (Inr (), w')" and "t_encryption (db w) = []" and "opens_sealed (ks_crypto ks)"
    and "t_encryption (db v) = t_encryption (db w')" and "faults v = []"
  shows "ValidateEncryptionKey ks v = (Inr (), v) \<and>
     (\<forall>ks2 e. ks_key ks2 \<noteq> [] \<and> (\<forall>p c. ks_encrypt ks p = Inr c \<longrightarrow> ks_decrypt ks2 c = Inl (e c)) \<longrightarrow>
        (\<exists>err. ValidateEncryptionKey ks2 v = (Inl err, v) \<and> errors_Is err ErrInvalidEncryptionKey))"
proof -
  have key: "ks_key ks \<noteq> []"
    using assms(1) by (auto simp: ValidateEncryptionKey_def split: if_splits)
  have "\<exists>e w1. GetEncryptionValidation w = (Inl e, w1) \<and> db w1 = db w"
    using assms(2) by (cases "next_fault w") (simp_all add: GetEncryptionValidation_def try_db_def db_query_row_eq)
  then obtain e w1 where first: "GetEncryptionValidation w = (Inl e, w1)" "db w1 = db w"
    by blast
  with assms(1) key have "try_db (store_validation ks) id (check_validation ks) w1 = (Inr (), w')"
    by (auto simp: ValidateEncryptionKey_def split: if_splits)
  then obtain x w2 where stored: "store_validation ks w1 = (Inr x, w2)" and checked: "check_validation ks x w2 = (Inr (), w')"
    by (rule try_db_InrE)
  from stored obtain enc where enc: "ks_encrypt ks EncryptionValidationCheckValue = Inr enc" "t_encryption (db w2) = [enc]"
    unfolding store_validation_def SetEncryptionValidation_def GetEncryptionValidation_def
    using assms(2) first(2) by (auto elim!: try_result_InrE try_db_InrE roundtrip_InrE ok_InrE db_query_row_InrE)
  have "w' = w2"
    using checked by (auto simp: check_validation_def ok_def fail_def split: sum.splits if_splits)
  then have "GetEncryptionValidation v = (Inr enc, v)"
    using assms(4,5) enc(2) by (simp add: GetEncryptionValidation_def try_db_def db_query_row_eq ok_def)
  then have run: "ValidateEncryptionKey k v = check_validation k enc v" if "ks_key k \<noteq> []" for k
    using that by (simp add: ValidateEncryptionKey_def)
  have "ValidateEncryptionKey ks v = (Inr (), v)"
    using run [OF key] decrypt_encrypt [OF assms(3) enc(1)] by (simp add: check_validation_def ok_def)
  moreover have "\<exists>err. ValidateEncryptionKey ks2 v = (Inl err, v) \<and> errors_Is err ErrInvalidEncryptionKey"
    if "ks_key ks2 \<noteq> []" "ks_decrypt ks2 enc = Inl e" for ks2 e
    using that run [of ks2] by (simp add: check_validation_def fail_def)
  ultimately show ?thesis
    using enc(1) by blast
qed

section \<open>Witnesses\<close>

text \<open>A toy cipher that puts the key before the text, and certificates whose encoding is their serial number.\<close>

definition toy_certificate :: "string \<Rightarrow> time \<Rightarrow> x509_certificate" where
  "toy_certificate s t = \<lparr>xc_raw = s, xc_common_name = ''alice'', xc_organization = [''Homelab Conduit''], xc_country = [], xc_locality = [],
     xc_province = [], xc_dns_names = [], xc_serial = s, xc_subject = [], xc_issuer = [], xc_not_before = t, xc_not_after = t + days 30\<rparr>"

definition toy_crypto :: crypto_library where
  "toy_crypto =
     \<lparr>cl_NewCipher = (\<lambda>key. Inr ()), cl_NewGCM = (\<lambda>key. Inr ()), cl_Seal = (\<lambda>key p. key @ p),
      cl_Open = (\<lambda>key c. if prefix key c then Inr (drop (length key) c) else Inl (Errorf ''cipher: message authentication failed'')),
      cl_hkdf = Inr, cl_rsa = (\<lambda>bits. Inr ''rsa''), cl_ecdsa_p256 = Inr ''ecdsa'', cl_random_serial = Inr 7,
      cl_CreateCertificate = (\<lambda>t p lk ck. Inr ''7''), cl_ParseCertificate = (\<lambda>b. Inr (toy_certificate b 10)),
      cl_MarshalPKCS8 = Inr, cl_ParsePKCS8 = Inr, cl_pem_encode = (\<lambda>ty b. b), cl_pem_decode = (\<lambda>s. Some ([], s))\<rparr>"

definition toy_store :: "string \<Rightarrow> key_store" where
  "toy_store key = \<lparr>ks_crypto = toy_crypto, ks_key = key\<rparr>"

lemma toy_sel [simp]: "ks_key (toy_store key) = key" "ks_encrypt (toy_store key) p = Inr (key @ p)"
  "ks_decrypt (toy_store key) c = (if prefix key c then Inr (drop (length key) c)
     else Inl (wrap ''unable to decrypt ciphertext: '' (Errorf ''cipher: message authentication failed'')))"
  "cl_pem_encode (ks_crypto (toy_store key)) ty b = b" "PrivateKeyToPEM (ks_crypto (toy_store key)) k = Inr k"
  by (simp_all add: toy_store_def toy_crypto_def ks_encrypt_def ks_decrypt_def Encrypt_def Decrypt_def aes_gcm_def PrivateKeyToPEM_def)

lemma toy_opens_sealed: "opens_sealed (ks_crypto (toy_store key))"
  by (simp add: opens_sealed_def toy_store_def toy_crypto_def)

definition toy_data :: certificate_data where
  "toy_data = \<lparr>cd_certificate = toy_certificate ''7'' 10, cd_private_key = ''ecdsa''\<rparr>"

definition toy_insert :: "world \<Rightarrow> unit result \<times> world" where
  "toy_insert = InsertIssuedCertificate (toy_store ''key'') ''cert-1'' toy_data ''ca'' ''ECDSA-P256'' 1 (scan_request example_request_row)"

definition toy_issued :: world where
  "toy_issued = snd (toy_insert example_request_world)"

lemma toy_insert_run: "toy_insert example_request_world = (Inr (), toy_issued)" "faults toy_issued = []"
  "issued_reachable (toy_store ''key'') (db toy_issued)"
proof -
  have w: "faults example_request_world = []" "t_issued (db example_request_world) = []" "find_request 1 (db example_request_world) \<noteq> None"
    by (simp_all add: example_request_db example_world_def empty_database_def find_request_def example_request_row_def)
  show "toy_insert example_request_world = (Inr (), toy_issued)" "faults toy_issued = []"
    using w by (simp_all add: toy_issued_def toy_insert_def InsertIssuedCertificate_def try_result_def try_db_def lift_result_def roundtrip_def
        sql_insert_issued_def issued_row_of_def ok_def toy_data_def Let_def)
  show "issued_reachable (toy_store ''key'') (db toy_issued)"
    unfolding toy_issued_def toy_insert_def by (intro issued_reachable.insert issued_reachable.start w(2))
qed

theorem issued_certificate_reads_back_witness:
  "GetIssuedCertificateByIdentifier (toy_store ''key'') ''cert-1'' toy_issued = (Inr (''7'', ''ecdsa'', ''ca''), toy_issued)"
  using issued_certificate_reads_back [OF toy_insert_run(1) [unfolded toy_insert_def] toy_opens_sealed _ toy_insert_run(2), of "[]"]
  by (simp add: toy_data_def toy_certificate_def)

theorem deleted_certificate_is_gone_witness:
  "\<exists>w. DeleteIssuedCertificate ''cert-1'' toy_issued = (Inr (), w) \<and>
     GetIssuedCertificateByIdentifier (toy_store ''key'') ''cert-1'' w = (Inl (Sentinel ErrIssuedCertificateNotFound), w)"
proof -
  obtain enc where "toy_issued = (pop_fault example_request_world)\<lparr>db := (db example_request_world)\<lparr>t_issued :=
      t_issued (db example_request_world) @ [issued_row_of ''cert-1'' (cd_certificate toy_data) (xc_raw (cd_certificate toy_data)) enc ''ca''
        ''ECDSA-P256'' 1 (scan_request example_request_row) (now example_request_world)]\<rparr>\<rparr>"
    using toy_insert_run(1) unfolding toy_insert_def by (rule InsertIssuedCertificate_success) simp
  from arg_cong [OF this, of "\<lambda>w. t_issued (db w)"]
  have "t_issued (db toy_issued) \<noteq> []" "\<forall>r \<in> set (t_issued (db toy_issued)). ic_identifier r = ''cert-1'' \<and> ic_deleted_at r = None"
    by (simp_all add: issued_row_of_def example_request_db empty_database_def)
  then have "\<exists>w. DeleteIssuedCertificate ''cert-1'' toy_issued = (Inr (), w) \<and> faults w = []"
    using toy_insert_run(2)
    by (auto simp: DeleteIssuedCertificate_def try_db_def roundtrip_def sql_delete_issued_def ok_def Let_def count_where_def filter_empty_conv)
  then obtain w where run: "DeleteIssuedCertificate ''cert-1'' toy_issued = (Inr (), w)" "faults w = []"
    by blast
  from deleted_certificate_is_gone [OF toy_insert_run(3) run(1) HOL.refl run(2)] run(1) show ?thesis by blast
qed

theorem database_is_bound_to_its_key_witness:
  "\<exists>w err. ValidateEncryptionKey (toy_store ''key'') example_world = (Inr (), w) \<and> ValidateEncryptionKey (toy_store ''key'') w = (Inr (), w) \<and>
     ValidateEncryptionKey (toy_store ''other'') w = (Inl err, w) \<and> errors_Is err ErrInvalidEncryptionKey"
proof -
  have e: "t_encryption (db example_world) = []" "faults example_world = []"
    by (simp_all add: example_world_def empty_database_def)
  then have "\<exists>w. ValidateEncryptionKey (toy_store ''key'') example_world = (Inr (), w) \<and> faults w = []"
    by (simp add: ValidateEncryptionKey_def GetEncryptionValidation_def SetEncryptionValidation_def store_validation_def check_validation_def
        try_result_def try_db_def lift_result_def db_query_row_eq roundtrip_def ok_def)
  then obtain w where run: "ValidateEncryptionKey (toy_store ''key'') example_world = (Inr (), w)" "faults w = []"
    by blast
  have other: "ks_key (toy_store ''other'') \<noteq> []"
    "\<forall>p c. ks_encrypt (toy_store ''key'') p = Inr c \<longrightarrow> ks_decrypt (toy_store ''other'') c =
       Inl (wrap ''unable to decrypt ciphertext: '' (Errorf ''cipher: message authentication failed''))"
    by auto
  from database_is_bound_to_its_key [OF run(1) e(1) toy_opens_sealed HOL.refl run(2)] run(1) other show ?thesis by fast
qed

end
