(* ===== verification/Table_Safety.thy ===== *)
theory Table_Safety
  imports Routes Issued_Store
begin

text \<open>
  What the requests keep of the tables. Every storage operation belongs to one component and leaves the tables
  of the others alone, so it keeps the invariants of all components once it keeps its own; the handlers are
  made of such operations, and so is every route.
\<close>

section \<open>The components and their tables\<close>

datatype component = Users | Requests | Accounts | Addresses | Issued | Elsewhere

text \<open>The requests as the invariant sees them: their identifiers and states, and what their events record.\<close>

definition request_view :: "database \<Rightarrow> (int \<times> cert_status) list \<times> (int \<times> cert_status) list" where
  "request_view d = (map (\<lambda>r. (cr_id r, cr_status r)) (t_cert_requests d),
     map (\<lambda>e. (ce_request_id e, ce_new_status e)) (t_cert_events d))"

definition outside :: "component \<Rightarrow> database \<Rightarrow> database \<Rightarrow> bool" where
  "outside c d d' \<longleftrightarrow>
     seq_le (seqs d) (seqs d') \<and>
     (c = Users \<or> t_users d' = t_users d) \<and>
     (c = Requests \<or> request_view d' = request_view d) \<and>
     (c = Accounts \<or> t_service_accounts d' = t_service_accounts d) \<and>
     (c = Addresses \<or> t_whitelist d' = t_whitelist d \<and> t_whitelist_events d' = t_whitelist_events d) \<and>
     (c = Issued \<or> t_issued d' = t_issued d)"

primrec own :: "component \<Rightarrow> database \<Rightarrow> bool" where
  "own Users d = user_inv d"
| "own Requests d = cert_inv d"
| "own Accounts d = sa_inv d"
| "own Addresses d = wl_inv d"
| "own Issued d = issued_inv d"
| "own Elsewhere d = True"

lemma own_eq [simp]: "own Users = user_inv" "own Requests = cert_inv" "own Accounts = sa_inv" "own Addresses = wl_inv"
  "own Issued = issued_inv" "own Elsewhere = (\<lambda>d. True)"
  by (simp_all add: fun_eq_iff)

definition program_inv :: "database \<Rightarrow> bool" where
  "program_inv d \<longleftrightarrow> user_inv d \<and> cert_inv d \<and> sa_inv d \<and> wl_inv d \<and> issued_inv d"

lemma program_inv_empty: "program_inv empty_database"
  by (simp add: program_inv_def user_inv_empty cert_inv_empty sa_inv_empty wl_inv_empty) (simp add: issued_inv_def empty_database_def)

lemma cert_inv_view:
  assumes "request_view d' = request_view d" and "seq_le (seqs d) (seqs d')" and "cert_inv d"
  shows "cert_inv d'"
proof -
  have "audit_status i d' = audit_status i d" for i
    using assms(1) by (simp add: audit_status_map request_view_def)
  with assms show ?thesis by (fastforce simp: cert_inv_map Let_def seq_le_def request_view_def)
qed

lemma outside_refl [simp]: "outside c d d"
  by (simp add: outside_def)

lemma outside_trans: "outside c d d' \<Longrightarrow> outside c d' d'' \<Longrightarrow> outside c d d''"
  unfolding outside_def by (auto intro: seq_le_trans)

lemma outside_elsewhere: "outside Elsewhere d d' \<Longrightarrow> outside c d d'"
  by (simp add: outside_def)

lemma outside_rollback: "outside c d d' \<Longrightarrow> outside c d (rollback d d')"
  by (simp add: outside_def request_view_def)

lemma program_inv_step:
  assumes "program_inv d" and "outside c d d'" and "own c d'"
  shows "program_inv d'"
  using assms cert_inv_view [of d' d] wl_inv_cong [of d d'] user_inv_cong [of d' d] sa_inv_cong [of d' d]
  by (cases c) (auto simp: program_inv_def outside_def seq_le_def issued_inv_def)

section \<open>Operations of one component\<close>

definition touches :: "component \<Rightarrow> ('w, 'a) dbop \<Rightarrow> bool" where
  "touches c m \<longleftrightarrow> (\<forall>w. outside c (db w) (db (snd (m w))))"

lemma touchesD: "touches c m \<Longrightarrow> m w = (r, w') \<Longrightarrow> outside c (db w) (db w')"
  unfolding touches_def by (metis snd_conv)

lemma touches_snd: "touches c m \<Longrightarrow> outside c (db w) (db (snd (m w)))"
  by (simp add: touches_def)

lemma touches_reads: "reads m \<Longrightarrow> touches c m"
  unfolding touches_def reads_def by (metis outside_refl world.select_convs(1) world.surjective world.update_convs(3))

lemma touches_simple: "touches c (ok x)" "touches c (fail e)" "touches c (lift_result r)" "touches c (db_query q)" "touches c (db_query_row q')"
  by (rule touches_reads, rule reads_ok reads_query)+

lemma touches_roundtrip: "(\<And>t d. outside c d (snd (stmt t d))) \<Longrightarrow> touches c (roundtrip stmt)"
  by (auto simp: touches_def roundtrip_def split: option.split prod.split) (metis snd_conv)

lemma touches_try:
  assumes "touches c m" and "\<And>x. touches c (k x)"
  shows "touches c (try_db m h k)"
  unfolding touches_def
proof
  fix w
  obtain r w' where m: "m w = (r, w')" by (cases "m w")
  have "outside c (db w) (db w')" using assms(1) m by (rule touchesD)
  with assms(2) m show "outside c (db w) (db (snd (try_db m h k w)))"
    by (cases r) (auto simp: try_db_def touches_def intro: outside_trans)
qed

lemma touches_if: "touches c a \<Longrightarrow> touches c b \<Longrightarrow> touches c (if p then a else b)"
  by simp

lemma touches_for_each: "(\<And>x. touches c (f x)) \<Longrightarrow> touches c (for_each xs f)"
  by (induction xs) (auto intro: touches_try touches_simple)

lemma touches_tx:
  fixes body :: "('w, 'a) dbop"
  assumes "touches c body"
  shows "touches c (with_tx hb body hc)"
  unfolding touches_def
proof
  fix w :: "'w world_scheme"
  obtain r w2 where run: "body (pop_fault w) = (r, w2)" by (cases "body (pop_fault w)")
  have "outside c (db w) (db w2)" using touchesD [OF assms run] by simp
  then show "outside c (db w) (db (snd (with_tx hb body hc w)))"
    using run by (auto simp: with_tx_def db_query_eq outside_rollback split: option.splits sum.splits)
qed

lemmas touches_intros = touches_if touches_try touches_tx touches_for_each touches_simple

text \<open>An operation that keeps the invariant of its own component keeps all of them.\<close>

lemma keeps_program:
  assumes "touches c m" and "keeps (own c) m"
  shows "keeps program_inv m"
  unfolding keeps_def
proof (intro allI impI)
  fix w :: "'a world_scheme" assume inv: "program_inv (db w)"
  then have "own c (db w)" by (cases c) (simp_all add: program_inv_def)
  then have "own c (db (snd (m w)))" using assms(2) by (simp add: keeps_def)
  with inv show "program_inv (db (snd (m w)))"
    using assms(1) by (auto simp: touches_def intro: program_inv_step)
qed

lemma keeps_reads: "reads m \<Longrightarrow> keeps program_inv m"
  by (rule keeps_program [where c = Elsewhere]) (auto intro: touches_reads simp: keeps_def)

section \<open>The addresses\<close>

lemma outside_statements:
  "outside Addresses d (snd (sql_insert_wl_event pg i iss sub ty n ci u t d))"
  "outside Addresses d (snd (sql_insert_entry pg iss sub an uuid ip desc ex t d))"
  "outside Addresses d (snd (sql_remove p t d))"
  "outside Addresses d (snd (sql_blacklist p iss sub reason t d))"
  "outside Addresses d (snd (sql_mark_added ids t d))"
  "outside Addresses d (snd (sql_select_expired t d))"
  "outside Addresses d (snd (sql_select_ip pg uuid ip q t d))"
  "outside Addresses d (snd (sql_count_user pg iss sub uuid t d))"
  "outside Addresses d (snd (sql_count_total pg uuid t d))"
  by (auto simp: outside_def request_view_def seq_le_def sql_insert_wl_event_def sql_insert_entry_def sql_remove_def sql_blacklist_def
      sql_mark_added_def sql_select_expired_def sql_select_ip_def sql_count_user_def sql_count_total_def with_uuid_def with_inet_def
      Let_def split: option.splits)

lemma touches_event: "touches Addresses (CreateWhitelistEvent pg i iss sub ty n ci u)"
  unfolding CreateWhitelistEvent_def by (intro touches_intros touches_roundtrip outside_statements)

lemma touches_check_duplicate: "touches Addresses (check_duplicate pg iss sub uuid ip)"
  by (auto simp: touches_def check_duplicate_def roundtrip_def sql_find_duplicate_def with_uuid_def with_inet_def
      split: option.splits sum.splits prod.splits)

lemma touches_addresses:
  "touches Addresses (AddIPToWhitelist pg iss sub an uuid ip desc ex ci ua)"
  "touches Addresses (RemoveIPFromWhitelist pg i iss sub ci ua)"
  "touches Addresses (BlacklistIPAddress pg uuid ip iss sub reason)"
  "touches Addresses (MarkIPsAsAdded pg ids iss sub)"
  "touches Addresses (ExpireOldIPs pg iss sub)"
  unfolding AddIPToWhitelist_def add_ip_tx_def RemoveIPFromWhitelist_def BlacklistIPAddress_def MarkIPsAsAdded_def ExpireOldIPs_def
    expire_ids_def record_expired_def
  by (intro touches_intros touches_roundtrip outside_statements touches_event touches_check_duplicate touches_reads reads_wl)+

lemma keeps_wl_call:
  fixes m :: "('w, 'a) dbop"
  assumes "\<And>w. exec_wl_call pg c w = snd (m w)"
  shows "keeps wl_inv m"
  unfolding keeps_def
proof (intro allI impI)
  fix w :: "'w world_scheme" assume "wl_inv (db w)"
  then have "wl_inv (db (exec_wl_call pg c w))" by (rule exec_wl_call_inv)
  then show "wl_inv (db (snd (m w)))" by (simp only: assms)
qed

lemma keeps_addresses:
  "keeps program_inv (AddIPToWhitelist pg iss sub an uuid ip desc ex ci ua)"
  "keeps program_inv (RemoveIPFromWhitelist pg i iss sub ci ua)"
  "keeps program_inv (BlacklistIPAddress pg uuid ip iss sub reason)"
  "keeps program_inv (MarkIPsAsAdded pg ids iss sub)"
  "keeps program_inv (ExpireOldIPs pg iss sub)"
  "keeps program_inv (CreateWhitelistEvent pg i iss sub ty n ci u)"
proof -
  show "keeps program_inv (AddIPToWhitelist pg iss sub an uuid ip desc ex ci ua)"
    by (rule keeps_program [OF touches_addresses(1)]) (simp add: keeps_wl_call [of pg "CallAdd iss sub an uuid ip desc ex ci ua"])
  show "keeps program_inv (RemoveIPFromWhitelist pg i iss sub ci ua)"
    by (rule keeps_program [OF touches_addresses(2)]) (simp add: keeps_wl_call [of pg "CallRemove i iss sub ci ua"])
  show "keeps program_inv (BlacklistIPAddress pg uuid ip iss sub reason)"
    by (rule keeps_program [OF touches_addresses(3)]) (simp add: keeps_wl_call [of pg "CallBlacklistAddress uuid ip iss sub reason"])
  show "keeps program_inv (MarkIPsAsAdded pg ids iss sub)"
    by (rule keeps_program [OF touches_addresses(4)]) (simp add: keeps_wl_call [of pg "CallMarkAdded ids iss sub"])
  show "keeps program_inv (ExpireOldIPs pg iss sub)"
    by (rule keeps_program [OF touches_addresses(5)]) (simp add: keeps_wl_call [of pg "CallExpire iss sub"])
  show "keeps program_inv (CreateWhitelistEvent pg i iss sub ty n ci u)"
    by (rule keeps_program [OF touches_event]) (simp add: wl_invariant.keeps_CreateWhitelistEvent)
qed

section \<open>The requests\<close>

lemma outside_request_statements:
  "outside Requests d (snd (sql_insert_cert_request sub iss cn st msg dns ous dy t d))"
  "outside Requests d (snd (sql_set_status st i t d))"
  "outside Requests d (snd (sql_insert_cert_event i qiss qsub viss vsub st n t d))"
  "outside Requests d (snd (sql_set_metadata i ident md t d))"
  "outside Requests d (snd (sql_set_issued i pem serial ia ea t d))"
  by (auto simp: outside_def seq_le_def sql_insert_cert_request_def sql_set_status_def sql_insert_cert_event_def sql_set_metadata_def
      sql_set_issued_def Let_def)

lemma touches_requests:
  "touches Requests (CreateCertificateRequest sub iss cn st msg dns ous dy)"
  "touches Requests (UpdateCertificateRequestStatus i st viss vsub notes)"
  "touches Requests (UpdateCertificateMetadata i ident md)"
  "touches Requests (UpdateCertificateRequestIssued i pem serial ia ea viss vsub)"
  unfolding CreateCertificateRequest_def UpdateCertificateRequestStatus_def UpdateCertificateMetadata_def UpdateCertificateRequestIssued_def
  by (intro touches_intros touches_roundtrip outside_request_statements touches_reads reads_certs)+

lemma keeps_cert_call:
  fixes m :: "('w, 'a) dbop"
  assumes "\<And>w. exec_cert_call c w = snd (m w)"
  shows "keeps cert_inv m"
  unfolding keeps_def
proof (intro allI impI)
  fix w :: "'w world_scheme" assume "cert_inv (db w)"
  then have "cert_inv (db (exec_cert_call c w))" by (rule exec_cert_call_inv)
  then show "cert_inv (db (snd (m w)))" by (simp only: assms)
qed

lemma keeps_requests:
  "keeps program_inv (CreateCertificateRequest sub iss cn StatusAwaitingReview msg dns ous dy)"
  "keeps program_inv (UpdateCertificateRequestStatus i st viss vsub notes)"
  "keeps program_inv (UpdateCertificateMetadata i ident md)"
  "keeps program_inv (UpdateCertificateRequestIssued i pem serial ia ea viss vsub)"
proof -
  show "keeps program_inv (CreateCertificateRequest sub iss cn StatusAwaitingReview msg dns ous dy)"
    by (rule keeps_program [OF touches_requests(1)]) (simp add: keeps_cert_call [of "CallCreate sub iss cn msg dns ous dy"])
  show "keeps program_inv (UpdateCertificateRequestStatus i st viss vsub notes)"
    by (rule keeps_program [OF touches_requests(2)]) (simp add: keeps_cert_call [of "CallStatus i st viss vsub notes"])
  show "keeps program_inv (UpdateCertificateMetadata i ident md)"
    by (rule keeps_program [OF touches_requests(3)]) (simp add: keeps_metadata)
  show "keeps program_inv (UpdateCertificateRequestIssued i pem serial ia ea viss vsub)"
    by (rule keeps_program [OF touches_requests(4)]) (simp add: keeps_cert_call [of "CallIssued i pem serial ia ea viss vsub"])
qed

section \<open>The accounts, the users and the rest\<close>

lemma outside_account_statements:
  "outside Accounts d (snd (sql_insert_sa a t d))" "outside Accounts d (snd (sql_insert_sa_scope iss sub s t d))"
  "outside Accounts d (snd (sql_update_sa iss sub f t d))"
  by (auto simp: outside_def request_view_def sql_insert_sa_def sql_insert_sa_scope_def sql_update_sa_def Let_def)

lemma touches_one_row: "touches c (one_row a b n)"
  unfolding one_row_def by (intro touches_intros)

lemma touches_accounts:
  "touches Accounts (CreateServiceAccount a)" "touches Accounts (PauseServiceAccount iss sub)"
  "touches Accounts (UnpauseServiceAccount iss sub)" "touches Accounts (DeleteServiceAccount iss sub)"
  unfolding CreateServiceAccount_def create_sa_tx_def PauseServiceAccount_def UnpauseServiceAccount_def DeleteServiceAccount_def
  by (intro touches_intros touches_roundtrip outside_account_statements touches_one_row touches_reads reads_sa)+

lemma keeps_accounts:
  "keeps program_inv (CreateServiceAccount a)" "keeps program_inv (PauseServiceAccount iss sub)"
  "keeps program_inv (UnpauseServiceAccount iss sub)" "keeps program_inv (DeleteServiceAccount iss sub)"
  by (rule keeps_program, rule touches_accounts, simp add: sa_invariant.keeps_create sa_invariant.keeps_pause sa_invariant.keeps_delete)+

lemma outside_user_statements:
  "outside Users d (snd (sql_insert_user r t d))" "outside Users d (snd (sql_upsert_user iss sub un dn em t d))"
  "outside Users d (snd (sql_delete_groups iss sub t d))" "outside Users d (snd (sql_insert_groups iss sub gs t d))"
  "outside Users d (snd (sql_update_system_user url t d))" "outside Users d (snd (sql_move_request_owner url old sub t d))"
  "outside Users d (snd (sql_move_event_requester url old sub t d))" "outside Users d (snd (sql_move_event_reviewer url old sub t d))"
  by (auto simp: outside_def request_view_def sql_insert_user_def sql_upsert_user_def sql_delete_groups_def sql_insert_groups_def
      sql_update_system_user_def sql_move_request_owner_def sql_move_event_requester_def sql_move_event_reviewer_def Let_def map_upd_where
      split: if_splits option.splits)

lemma touches_cases: "(\<And>w. \<exists>m'. touches c m' \<and> m w = m' w) \<Longrightarrow> touches c m"
  unfolding touches_def by metis

lemma reads_GetUserByID: "reads (GetUserByID iss sub)"
  unfolding GetUserByID_def by (auto split: option.splits intro!: reads_intros)

lemma touches_UpsertUser: "touches Users (UpsertUser sub iss un dn em gs)"
  unfolding UpsertUser_def upsert_tx_def
  by (intro touches_intros touches_roundtrip outside_user_statements touches_reads reads_GetUserByID)

lemma keeps_users: "keeps program_inv (UpsertUser sub iss un dn em gs)"
  by (rule keeps_program [OF touches_UpsertUser]) (simp add: keeps_UpsertUser)

lemma touches_ensure_body: "touches Users (ensure_system_user_body url)"
proof (rule touches_cases)
  fix w :: "'w world_scheme"
  have create: "touches Users (create_system_user url t)" for t
    unfolding create_system_user_def by (intro touches_intros touches_roundtrip outside_user_statements)
  have move: "touches Users (move_system_user url old)" for old
    unfolding move_system_user_def by (intro touches_intros touches_roundtrip outside_user_statements)
  have "touches Users (try_db (\<lambda>w. (case db_query_row find_system w of (Inl e, w1) \<Rightarrow> (Inr (Inl e), w1) | (Inr r, w1) \<Rightarrow> (Inr (Inr r), w1))) id
      (\<lambda>q. case q of
         Inl e \<Rightarrow> if errors_Is e ErrNoRows then (create_system_user url (now (pop_fault w)))
           else fail (wrap ''failed to check for system user: '' e)
       | Inr r \<Rightarrow> if ur_iss r \<noteq> url then move_system_user url (ur_iss r) else ok ()))"
    (is "touches _ ?m")
  proof (intro touches_try)
    show "touches Users (\<lambda>w. case db_query_row find_system w of (Inl e, w1) \<Rightarrow> (Inr (Inl e), w1) | (Inr r, w1) \<Rightarrow> (Inr (Inr r), w1))"
      by (auto simp: touches_def db_query_row_eq split: option.split)
  qed (auto split: sum.split intro: touches_intros create move)
  moreover have "ensure_system_user_body url w = ?m w"
    by (auto simp: ensure_system_user_body_def try_db_def db_query_row_eq split: option.split)
  ultimately show "\<exists>m'. touches Users m' \<and> ensure_system_user_body url w = m' w" by blast
qed

lemma touches_EnsureSystemUser: "touches Users (EnsureSystemUser url)"
  unfolding EnsureSystemUser_def by (intro touches_tx touches_ensure_body)

lemma keeps_system_user: "keeps program_inv (EnsureSystemUser url)"
  by (rule keeps_program [OF touches_EnsureSystemUser]) (simp add: keeps_EnsureSystemUser)

lemma keeps_log: "keeps program_inv (InsertAuditLogCertificateDownload pg i sub iss ip agent ag)"
proof (rule keeps_program [where c = Elsewhere])
  have "outside Elsewhere d (snd (sql_insert_download pg i sub iss ip agent ag t d))" for t d
    by (auto simp: outside_def request_view_def seq_le_def sql_insert_download_def with_inet_def Let_def split: option.splits)
  then show "touches Elsewhere (InsertAuditLogCertificateDownload pg i sub iss ip agent ag)"
    unfolding InsertAuditLogCertificateDownload_def GetCertificateDownloadAuditLogByID_def
    by (intro touches_intros touches_roundtrip)
qed (simp add: keeps_def)

lemma keeps_issuing:
  "keeps program_inv (InsertIssuedCertificate ks ident cert ca alg i request)"
  "keeps program_inv (GetIssuedCertificateByIdentifier ks ident)" "keeps program_inv (GetCertificateAuthority ks)"
proof -
  have "outside Issued d (snd (sql_insert_issued r d))" for r d
    by (auto simp: outside_def request_view_def sql_insert_issued_def)
  then have "touches Issued (InsertIssuedCertificate ks ident cert ca alg i request)"
    unfolding InsertIssuedCertificate_def try_result_def Let_def by (intro touches_intros touches_roundtrip)
  then show "keeps program_inv (InsertIssuedCertificate ks ident cert ca alg i request)"
    by (rule keeps_program) (simp add: keeps_issued)
  show "keeps program_inv (GetIssuedCertificateByIdentifier ks ident)"
    unfolding GetIssuedCertificateByIdentifier_def try_result_def
    by (intro keeps_reads reads_intros) (auto split: option.split intro!: reads_intros)
  show "keeps program_inv (GetCertificateAuthority ks)"
    unfolding GetCertificateAuthority_def try_result_def by (intro keeps_reads reads_intros)
qed

section \<open>The handlers\<close>

definition safe :: "('w world_scheme \<Rightarrow> 'r \<times> 'w world_scheme) \<Rightarrow> bool" where
  "safe h \<longleftrightarrow> (\<forall>w. program_inv (db w) \<longrightarrow> program_inv (db (snd (h w))))"

lemma safeD: "safe h \<Longrightarrow> program_inv (db w) \<Longrightarrow> program_inv (db (snd (h w)))"
  by (simp add: safe_def)

lemma safe_keeps: "keeps program_inv m \<Longrightarrow> safe m"
  by (simp add: keeps_def safe_def)

lemma safe_case:
  assumes "safe m" and "\<And>a v. program_inv (db v) \<Longrightarrow> program_inv (db (snd (k a v)))" and "program_inv (db w)"
  shows "program_inv (db (snd (case m w of (a, v) \<Rightarrow> k a v)))"
  using assms safeD [OF assms(1), of w] by (cases "m w") simp

lemma safe_try:
  fixes m :: "'w appctx_scheme \<Rightarrow> 'a result \<times> 'w appctx_scheme"
  assumes "safe m" and "\<And>x. safe (k x)"
  shows "safe (try_http m h k)"
  unfolding safe_def
proof (intro allI impI)
  fix w :: "'w appctx_scheme" assume I: "program_inv (db w)"
  obtain r w' where m: "m w = (r, w')" by (cases "m w")
  with safeD [OF assms(1) I] have "program_inv (db w')" by simp
  with assms(2) m show "program_inv (db (snd (try_http m h k w)))"
    by (cases r) (simp_all add: try_http_def safe_def)
qed

lemma safe_reply: "safe (reply r)"
  by (simp add: safe_def reply_def)

lemma safe_if: "safe a \<Longrightarrow> safe b \<Longrightarrow> safe (if c then a else b)"
  by simp

lemma safe_same: "(\<And>w. db (snd (h w)) = db w) \<Longrightarrow> safe h"
  by (simp add: safe_def)

lemma safe_http: "keeps program_inv m \<Longrightarrow> (\<And>x. safe (k x)) \<Longrightarrow> safe (try_http m h k)"
  by (intro safe_try safe_keeps)

text \<open>The same on an answer, along the branches of a handler.\<close>

lemma answer_http:
  "keeps program_inv m \<Longrightarrow> (\<And>x. safe (k x)) \<Longrightarrow> program_inv (db w) \<Longrightarrow> program_inv (db (snd (try_http m h k w)))"
  by (rule safeD [OF safe_http])

lemma answer_pair: "program_inv (db w) \<Longrightarrow> program_inv (db (snd (r, w)))"
  by simp

lemma answer_if:
  "program_inv (db (snd a)) \<Longrightarrow> program_inv (db (snd b)) \<Longrightarrow> program_inv (db (snd (if c then a else b)))"
  by simp

lemma answer_cases:
  "program_inv (db (snd a)) \<Longrightarrow> (\<And>x. program_inv (db (snd (b x)))) \<Longrightarrow>
    program_inv (db (snd (case p of None \<Rightarrow> a | Some x \<Rightarrow> b x)))"
  "(\<And>x. program_inv (db (snd (c x)))) \<Longrightarrow> (\<And>x. program_inv (db (snd (d x)))) \<Longrightarrow>
    program_inv (db (snd (case s of Inl x \<Rightarrow> c x | Inr x \<Rightarrow> d x)))"
  "(\<And>x. program_inv (db (snd (f x)))) \<Longrightarrow> (\<And>x. program_inv (db (snd (g x)))) \<Longrightarrow>
    program_inv (db (snd (case q of PUser x \<Rightarrow> f x | PServiceAccount x \<Rightarrow> g x)))"
  "(\<And>x y. program_inv (db (snd (h x y)))) \<Longrightarrow> program_inv (db (snd (case z of (x, y) \<Rightarrow> h x y)))"
  by (auto split: option.split sum.split principal.split prod.split)

lemma safeI: "(\<And>w. program_inv (db w) \<Longrightarrow> program_inv (db (snd (h w)))) \<Longrightarrow> safe h"
  by (simp add: safe_def)

lemmas keeps_reading = reads_sa [THEN keeps_reads] reads_certs [THEN keeps_reads] reads_wl [THEN keeps_reads]

lemmas answers = answer_http answer_pair answer_if answer_cases safe_if safe_reply

lemma safe_manage:
  assumes "\<And>iss sub. keeps program_inv (op iss sub)"
  shows "safe (manage_account op verb gone done q u)"
  by (rule safeI, unfold manage_account_def Let_def) (intro answers safe_http keeps_reading assms; assumption)

lemma safe_accounts:
  "safe (GETServiceAccounts cfg p)" "safe (POSTServiceAccount cfg env body p)" "safe (DELETEServiceAccount cfg q p)"
  "safe (PATCHServiceAccountPause cfg q p)" "safe (PATCHServiceAccountUnpause cfg q p)" "safe (GETUserScopes cfg p)"
  "safe (GETServiceAccountWhoami cfg p)"
  unfolding GETServiceAccounts_def POSTServiceAccount_def create_account_def DELETEServiceAccount_def PATCHServiceAccountPause_def
    PATCHServiceAccountUnpause_def GETUserScopes_def GETServiceAccountWhoami_def Let_def
  by (rule safeI, (intro answers safe_manage [THEN safeD] keeps_accounts keeps_reading; assumption)+)+

lemma keeps_approve_or_not: "keeps program_inv (approve_or_not cfg q i)"
  unfolding approve_or_not_def by (intro keeps_if keeps_requests keeps_ok)

lemma safe_requests:
  "safe (POSTCertificateRequest cfg body p)" "safe (GETCertificateRequests cfg p)" "safe (GETCertificateRequest cfg i p)"
  "safe (GETUserCertificateRequests cfg p)"
  unfolding POSTCertificateRequest_def submit_request_def GETCertificateRequests_def GETCertificateRequest_def GETUserCertificateRequests_def Let_def
  by (rule safeI, (intro answers safe_http keeps_requests keeps_approve_or_not keeps_reading; assumption)+)+

text \<open>The halves of a review and of the request for an address are safe on their own.\<close>

lemma safe_review_check: "safe (review_check cfg i body p)"
proof (rule safe_same)
  fix w :: "'w appctx_scheme"
  obtain x w' where run: "review_check cfg i body p w = (x, w')" by fastforce
  then have "db w' = db w"
    by (cases rule: review_check_cases) simp_all
  with run show "db (snd (review_check cfg i body p w)) = db w" by simp
qed

lemma safe_add_check: "safe (add_check cfg pg body p)"
proof (rule safe_same)
  fix w :: "'w appctx_scheme"
  obtain x w' where run: "add_check cfg pg body p w = (x, w')" by fastforce
  then have "db w' = db w"
    by (cases rule: add_check_cases) simp_all
  with run show "db (snd (add_check cfg pg body p w)) = db w" by simp
qed

lemma safe_review_commit: "safe (review_commit rv)"
  unfolding review_commit_def by (intro safe_http safe_reply keeps_requests keeps_reading)

lemma safe_add_commit: "safe (add_commit pg pe rq)"
  unfolding add_commit_def Let_def by (rule safeI, intro answer_http safe_reply keeps_addresses)

lemma safe_halves: "safe (POSTCertificateReview cfg i body p)" "safe (POSTAddIPEntry cfg pg pe fbody p)"
  unfolding POSTCertificateReview_def POSTAddIPEntry_def
  by (rule safeI, rule safe_case [OF safe_review_check] safe_case [OF safe_add_check],
      auto split: sum.split intro: safeD [OF safe_review_commit] safeD [OF safe_add_commit])+

lemma safe_addresses:
  "safe (GETAvailableAliases cfg p)" "safe (GETUserEntries cfg pg qs p)" "safe (DELETERemoveIPEntry cfg pg pe i p)"
  "safe (DELETEBlacklistIPEntry cfg pg i reason p)"
  unfolding GETAvailableAliases_def GETUserEntries_def list_entries_def DELETERemoveIPEntry_def DELETEBlacklistIPEntry_def Let_def
  by (rule safeI, (intro answers safe_http keeps_addresses keeps_reading; assumption)+)+

lemma safe_unlock: "safe (POSTCertificateUnlock cfg cp env i body p)"
proof -
  have "safe (issue_token cfg cp env q r pass)" for q r pass
    by (rule safe_same) (auto simp: issue_token_def Let_def split: option.split prod.split sum.split)
  then show ?thesis
    unfolding POSTCertificateUnlock_def
    by (intro safeI answers safe_http keeps_reading; (assumption | auto simp: safe_def reply_def split: sum.split))
qed

lemma safe_send: "safe (send_certificate cfg env pe q i tok r)"
  unfolding send_certificate_def
  by (rule safeI, intro answers keeps_log; (assumption | auto simp: safe_def reply_def split: sum.split))

lemma safe_download:
  fixes cp :: "'c provider"
  shows "safe (GETCertificateDownload cfg cp env pe i qs p :: (('c, 'w) cachectx_ext, unlock_response) handler)"
proof -
  have take: "safe (take_token cp env f token :: ('c, 'w) cachectx_scheme \<Rightarrow> download_token result \<times> ('c, 'w) cachectx_scheme)" for f token
    by (rule safe_same) (simp add: take_token_def split: prod.split)
  show ?thesis
    unfolding GETCertificateDownload_def Let_def
  proof (rule safeI, intro answer_cases(1,2) answer_if answer_pair)
    fix w :: "('c, 'w) cachectx_scheme" and f j q
    assume "program_inv (db w)"
    then show "program_inv (db (snd (case take_token cp env f (strings_TrimSpace (Query_Get qs ''token'')) w of
       (Inl e, w1) \<Rightarrow> (http_error 500, w1)
     | (Inr tok, w1) \<Rightarrow>
         if \<not> MatchesOwner q (dt_principal_iss tok) (dt_principal_sub tok) then (http_error 403, w1)
         else if j \<noteq> dt_certificate_id tok then (http_error 403, w1)
         else try_http (GetCertificateRequestByID j) request_error (send_certificate cfg env pe q j tok) w1)))"
      by (intro safe_case [OF take]) (auto split: sum.split intro!: answer_http keeps_reading safe_send)
  qed
qed

lemma safe_callback: "safe (GETCallbackHandler cfg op q p)"
proof -
  have session: "safe (CreateSessionWithTokenExpiry e u)" for e u
  proof (rule safe_same)
    fix w :: "'w appctx_scheme"
    obtain r w' where run: "CreateSessionWithTokenExpiry e u w = (r, w')" by fastforce
    then have "db w' = db w" by (cases rule: CreateSession_cases) simp_all
    with run show "db (snd (CreateSessionWithTokenExpiry e u w)) = db w" by simp
  qed
  have finish: "safe (finish_login cfg it u)" for it u
    unfolding finish_login_def
    by (rule safeI, intro answer_if answer_pair answer_http keeps_users safe_try session; (assumption | auto simp: safe_def Let_def))
  have "db (snd (HandleCallback op q w)) = db w" for w :: "'w appctx_scheme"
    by (auto simp: HandleCallback_def check_id_token_def session_defs Let_def split: option.split sum.split prod.split)
  then have handle: "safe (HandleCallback op q)" by (rule safe_same)
  show ?thesis
    unfolding GETCallbackHandler_def
    by (rule safeI, intro answer_if answer_pair safe_case [OF handle];
      (assumption | auto split: sum.split oidc_error.split intro: safeD [OF finish]))
qed


section \<open>The routes\<close>

lemma safe_json: "safe (h p) \<Longrightarrow> safe (as_json f h p)"
  by (simp add: safe_def as_json_def case_prod_unfold)

lemma safe_handler_of: "safe (handler_of cfg env rq ep p)"
proof (cases "ep \<in> {AuthStatus, StartOfLogin, EndOfSession, Queries, Metrics, Health}")
  case True
  show ?thesis
    by (rule safe_same) (use open_handlers_keep_tables [OF True] in \<open>metis prod.collapse\<close>)
next
  case False
  then show ?thesis
    by (cases ep) (auto intro!: safe_json safe_callback safe_accounts safe_requests safe_download safe_unlock safe_halves safe_addresses)
qed

lemma safe_guarded:
  fixes h :: "('w, 'j) app_handler"
  assumes "\<And>q. safe (h q)"
  shows "safe (guarded a cfg ar authz h p)"
proof (cases a)
  case AnyCaller
  show ?thesis
    unfolding AnyCaller guarded.simps
  proof (rule safeI)
    fix w :: "'w appctx_scheme" assume I: "program_inv (db w)"
    obtain r w' where run: "RequireAuth cfg ar authz h p w = (r, w')" by fastforce
    then have "program_inv (db w')"
    proof (cases rule: required_then)
      case (anonymous q)
      then show ?thesis using safeD [OF assms I, of p] by simp
    next
      case (served q fs)
      then show ?thesis using safeD [OF assms, of "w\<lparr>faults := fs\<rparr>" "Some q"] I by simp
    qed (simp add: I)
    with run show "program_inv (db (snd (RequireAuth cfg ar authz h p w)))" by simp
  qed
qed (use assms in \<open>auto simp: safe_def RequireCookieAuth_def RequireServiceAccountAuth_def split: option.split principal.split\<close>)

lemma safe_serve:
  fixes env :: "('c, 't) api_env"
  shows "safe (serve cfg env rq rt :: (('c, 'w) cachectx_ext, api_json) handler)"
proof (rule safeI)
  fix w :: "('c, 'w) cachectx_scheme" assume I: "program_inv (db w)"
  obtain m pattern a ep where rt: "rt = (m, pattern, a, ep)" by (cases rt) auto
  let ?g = "guarded a cfg (env_argon (ae_accounts env)) (authorization rq) (handler_of cfg env rq ep)"
  have guarded: "program_inv (db (snd (?g q v)))" if "program_inv (db v)" for q v
    using safe_guarded [OF safe_handler_of] that by (rule safeD)
  obtain r w' where run: "serve cfg env rq rt w = (r, w')" by fastforce
  then have "OptionalAuth cfg (env_argon (ae_accounts env)) (authorization rq) ?g None w = (r, w')"
    by (simp add: serve_def rt authorization_def Let_def)
  then have "program_inv (db w')"
  proof (cases rule: optional_then)
    case anonymous
    then show ?thesis using guarded [OF I, of None] by simp
  next
    case (served q fs)
    then show ?thesis using guarded [of "w\<lparr>faults := fs\<rparr>" "Some q"] I by simp
  qed (simp add: I)
  with run show "program_inv (db (snd (serve cfg env rq rt w)))" by simp
qed

end
