(* ===== verification/Config_Load.thy ===== *)
theory Config_Load
  imports Config_Schema Net_Addr
begin

text \<open>
  Loading the configuration: \<open>internal/config/config.go\<close> and \<open>internal/config/utils.go\<close>. A validation is a
  function from the configuration to an error or to the configuration with its defaults filled in; Go
  updates it in place.

  Parameters: the bytes of the file, the YAML parser, the environment (\<open>os.Getenv\<close> answers with the empty
  string for an unset variable) and the scheme \<open>url.Parse\<close> finds. The groups of the authorization table are
  validated in the order of the association list; Go's order is random, which matters only for the choice
  among several errors.
\<close>

record loader =
  ld_ReadFile :: "string \<Rightarrow> string result"
  ld_Unmarshal :: "string \<Rightarrow> config result"
  ld_Getenv :: "string \<Rightarrow> string"
  ld_url_scheme :: "string \<Rightarrow> string result"

definition andThen :: "'a result \<Rightarrow> ('a \<Rightarrow> 'b result) \<Rightarrow> 'b result" where
  "andThen r f = (case r of Inl e \<Rightarrow> Inl e | Inr x \<Rightarrow> f x)"

lemma andThen_simps [simp]: "andThen (Inl e) f = Inl e" "andThen (Inr x) f = f x"
  by (simp_all add: andThen_def)

lemma andThen_InrE:
  assumes "andThen r f = Inr y"
  obtains x where "r = Inr x" and "f x = Inr y"
  using assms by (cases r) auto

definition quoted :: "string \<Rightarrow> string" where
  "quoted s = CHR 0x27 # s @ [CHR 0x27]"

section \<open>Environment overrides\<close>

definition zero_redis :: redis_config where
  "zero_redis = \<lparr>red_address = [], red_username = [], red_password = [], red_sentinel = None, red_session_index = 0,
     red_cache_index = 0, red_leader_index = 0\<rparr>"

definition zero_sentinel :: redis_sentinel_config where
  "zero_sentinel = \<lparr>sen_master_name = [], sen_addresses = [], sen_password = [], sen_username = []\<rparr>"

definition zero_storage :: storage_config where
  "zero_storage = \<lparr>sto_enabled = False, sto_host = [], sto_port = 0, sto_username = [], sto_password = [], sto_database = [],
     sto_encryption_key = []\<rparr>"

definition zero_features :: features_config where
  "zero_features =
     \<lparr>feat_mtls = \<lparr>mtls_enabled = False, mtls_hmac_key = [], mtls_auto_approve_admin = False, mtls_admins_approve_own = False,
        mtls_min_days = 0, mtls_max_days = 0, mtls_subject = None, mtls_jobs = None, mtls_kubernetes = None, mtls_database = None\<rparr>,
      feat_firewall = \<lparr>fw_enabled = False, fw_router_endpoint = [], fw_router_api_key = [], fw_router_api_secret = [],
        fw_aliases = [], fw_jobs = None\<rparr>\<rparr>"

definition or_zero :: "'a \<Rightarrow> 'a option \<Rightarrow> 'a" where
  "or_zero z x = (case x of None \<Rightarrow> z | Some y \<Rightarrow> y)"

definition upd_oidc :: "(oidc_config \<Rightarrow> oidc_config) \<Rightarrow> config \<Rightarrow> config" where
  "upd_oidc f c = c\<lparr>cfg_oidc := f (cfg_oidc c)\<rparr>"

definition upd_basic_auth :: "(basic_auth \<Rightarrow> basic_auth) \<Rightarrow> config \<Rightarrow> config" where
  "upd_basic_auth f c =
     c\<lparr>cfg_data := (cfg_data c)\<lparr>data_basic_auth := Some (f (or_zero \<lparr>ba_username = [], ba_password = []\<rparr> (data_basic_auth (cfg_data c))))\<rparr>\<rparr>"

definition upd_redis :: "(redis_config \<Rightarrow> redis_config) \<Rightarrow> config \<Rightarrow> config" where
  "upd_redis f c = c\<lparr>cfg_redis := Some (f (or_zero zero_redis (cfg_redis c)))\<rparr>"

definition upd_sentinel :: "(redis_sentinel_config \<Rightarrow> redis_sentinel_config) \<Rightarrow> config \<Rightarrow> config" where
  "upd_sentinel f = upd_redis (\<lambda>r. r\<lparr>red_sentinel := Some (f (or_zero zero_sentinel (red_sentinel r)))\<rparr>)"

definition upd_storage :: "(storage_config \<Rightarrow> storage_config) \<Rightarrow> config \<Rightarrow> config" where
  "upd_storage f c = c\<lparr>cfg_storage := Some (f (or_zero zero_storage (cfg_storage c)))\<rparr>"

definition upd_features :: "(features_config \<Rightarrow> features_config) \<Rightarrow> config \<Rightarrow> config" where
  "upd_features f c = c\<lparr>cfg_features := Some (f (or_zero zero_features (cfg_features c)))\<rparr>"

definition upd_mtls :: "(mtls_management \<Rightarrow> mtls_management) \<Rightarrow> config \<Rightarrow> config" where
  "upd_mtls f = upd_features (\<lambda>x. x\<lparr>feat_mtls := f (feat_mtls x)\<rparr>)"

definition upd_firewall :: "(firewall_management \<Rightarrow> firewall_management) \<Rightarrow> config \<Rightarrow> config" where
  "upd_firewall f = upd_features (\<lambda>x. x\<lparr>feat_firewall := f (feat_firewall x)\<rparr>)"

text \<open>The variables in the order the source reads them, with what each sets.\<close>

definition env_overrides :: "(string \<times> (string \<Rightarrow> config \<Rightarrow> config)) list" where
  "env_overrides =
     [(''DASHBOARD_OIDC_CLIENT_ID'', \<lambda>v. upd_oidc (\<lambda>x. x\<lparr>oidc_client_id := v\<rparr>)),
      (''DASHBOARD_OIDC_CLIENT_SECRET'', \<lambda>v. upd_oidc (\<lambda>x. x\<lparr>oidc_client_secret := v\<rparr>)),
      (''DASHBOARD_OIDC_ISSUER_URL'', \<lambda>v. upd_oidc (\<lambda>x. x\<lparr>oidc_issuer_url := v\<rparr>)),
      (''DASHBOARD_OIDC_REDIRECT_URL'', \<lambda>v. upd_oidc (\<lambda>x. x\<lparr>oidc_redirect_uri := v\<rparr>)),
      (''DASHBOARD_DATA_PROMETHEUS_URL'', \<lambda>v c. c\<lparr>cfg_data := (cfg_data c)\<lparr>data_prometheus_url := v\<rparr>\<rparr>),
      (''DASHBOARD_DATA_BASIC_AUTH_USERNAME'', \<lambda>v. upd_basic_auth (\<lambda>x. x\<lparr>ba_username := v\<rparr>)),
      (''DASHBOARD_DATA_BASIC_AUTH_PASSWORD'', \<lambda>v. upd_basic_auth (\<lambda>x. x\<lparr>ba_password := v\<rparr>)),
      (''DASHBOARD_REDIS_PASSWORD'', \<lambda>v. upd_redis (\<lambda>x. x\<lparr>red_password := v\<rparr>)),
      (''DASHBOARD_REDIS_USERNAME'', \<lambda>v. upd_redis (\<lambda>x. x\<lparr>red_username := v\<rparr>)),
      (''DASHBOARD_REDIS_SENTINEL_USERNAME'', \<lambda>v. upd_sentinel (\<lambda>x. x\<lparr>sen_username := v\<rparr>)),
      (''DASHBOARD_REDIS_SENTINEL_PASSWORD'', \<lambda>v. upd_sentinel (\<lambda>x. x\<lparr>sen_password := v\<rparr>)),
      (''DASHBOARD_MTLS_DOWNLOAD_TOKEN_HMAC_KEY'', \<lambda>v. upd_mtls (\<lambda>x. x\<lparr>mtls_hmac_key := v\<rparr>)),
      (''DASHBOARD_STORAGE_HOST'', \<lambda>v. upd_storage (\<lambda>x. x\<lparr>sto_host := v\<rparr>)),
      (''DASHBOARD_STORAGE_PORT'', \<lambda>v. upd_storage (\<lambda>x. case strconv_Atoi v of Inl e \<Rightarrow> x | Inr port \<Rightarrow> x\<lparr>sto_port := port\<rparr>)),
      (''DASHBOARD_STORAGE_USERNAME'', \<lambda>v. upd_storage (\<lambda>x. x\<lparr>sto_username := v\<rparr>)),
      (''DASHBOARD_STORAGE_PASSWORD'', \<lambda>v. upd_storage (\<lambda>x. x\<lparr>sto_password := v\<rparr>)),
      (''DASHBOARD_STORAGE_DATABASE'', \<lambda>v. upd_storage (\<lambda>x. x\<lparr>sto_database := v\<rparr>)),
      (''DASHBOARD_STORAGE_ENCRYPTION_KEY'', \<lambda>v. upd_storage (\<lambda>x. x\<lparr>sto_encryption_key := v\<rparr>)),
      (''DASHBOARD_FIREWALL_ROUTER_ENDPOINT'', \<lambda>v. upd_firewall (\<lambda>x. x\<lparr>fw_router_endpoint := v\<rparr>)),
      (''DASHBOARD_FIREWALL_ROUTER_API_KEY'', \<lambda>v. upd_firewall (\<lambda>x. x\<lparr>fw_router_api_key := v\<rparr>)),
      (''DASHBOARD_FIREWALL_ROUTER_API_SECRET'', \<lambda>v. upd_firewall (\<lambda>x. x\<lparr>fw_router_api_secret := v\<rparr>))]"

definition override :: "(string \<Rightarrow> string) \<Rightarrow> string \<times> (string \<Rightarrow> config \<Rightarrow> config) \<Rightarrow> config \<Rightarrow> config" where
  "override getenv nv c = (if getenv (fst nv) \<noteq> [] then snd nv (getenv (fst nv)) c else c)"

definition applyEnvironmentOverrides :: "(string \<Rightarrow> string) \<Rightarrow> config \<Rightarrow> config" where
  "applyEnvironmentOverrides getenv = fold (override getenv) env_overrides"

section \<open>Validation\<close>

definition validateURL :: "loader \<Rightarrow> string \<Rightarrow> string \<Rightarrow> unit result" where
  "validateURL ld urlStr fieldName =
     (if urlStr = [] then Inl (Errorf (''OIDC '' @ fieldName @ '' is required''))
      else (case ld_url_scheme ld urlStr of
          Inl e \<Rightarrow> Inl (wrap (''OIDC '' @ fieldName @ '' is not a valid URL: '') e)
        | Inr scheme \<Rightarrow>
            if scheme \<noteq> ''http'' \<and> scheme \<noteq> ''https''
            then Inl (Errorf (''OIDC '' @ fieldName @ '' must have http or https scheme''))
            else Inr ()))"

definition default_debug :: "server_debug_config \<Rightarrow> server_debug_config" where
  "default_debug d =
     (if dbg_enabled d
      then d\<lparr>dbg_host := if dbg_host d = [] then dbg_host DefaultDebugConfig else dbg_host d,
             dbg_port := if dbg_port d \<le> 0 \<or> 65535 \<le> dbg_port d then dbg_port DefaultDebugConfig else dbg_port d\<rparr>
      else d)"

definition validateServerConfig :: "config \<Rightarrow> config result" where
  "validateServerConfig c =
     (let s = cfg_server c; s1 = s\<lparr>srv_port := if srv_port s = 0 then srv_port DefaultServerConfig else srv_port s\<rparr> in
      if srv_external_url s1 = [] then Inl (Errorf ''server.external_url is required'')
      else Inr (c\<lparr>cfg_server := s1\<lparr>srv_debug := map_option default_debug (srv_debug s1)\<rparr>\<rparr>))"

definition validateOIDCConfig :: "loader \<Rightarrow> config \<Rightarrow> config result" where
  "validateOIDCConfig ld c =
     (let o1 = cfg_oidc c in
      if oidc_client_id o1 = [] then Inl (Errorf ''oidc client id is required'')
      else if oidc_client_secret o1 = [] then Inl (Errorf ''OIDC clientSecret is required'')
      else andThen (validateURL ld (oidc_issuer_url o1) ''issuer_url'') (\<lambda>_.
           andThen (validateURL ld (oidc_redirect_uri o1) ''redirect_url'') (\<lambda>_.
           Inr (c\<lparr>cfg_oidc := o1\<lparr>oidc_scopes := if oidc_scopes o1 = [] then DefaultOIDCScopes else oidc_scopes o1\<rparr>\<rparr>))))"

text \<open>
  \<open>string(rune(level))\<close> is the UTF-8 text of the character whose number is the level; the number of
  \<open>slog.LevelDebug\<close> is negative, so its text is that of the replacement character.
\<close>

definition rune_of_level :: "string \<Rightarrow> string option" where
  "rune_of_level s =
     (if s = ''debug'' then Some [CHR 0xEF, CHR 0xBF, CHR 0xBD]
      else if s = ''info'' then Some [CHR 0x00]
      else if s = ''warn'' then Some [CHR 0x04]
      else if s = ''error'' then Some [CHR 0x08] else None)"

definition validateLogConfig :: "config \<Rightarrow> config result" where
  "validateLogConfig c =
     (let l = cfg_log c in
      if log_format l \<notin> {[], ''text'', ''json''}
      then Inl (Errorf (''invalid log format: '' @ log_format l @ '', options are text or json''))
      else (let l1 = l\<lparr>log_format := if log_format l = [] then log_format DefaultLogConfig else log_format l\<rparr> in
        if log_level l1 = [] then Inr (c\<lparr>cfg_log := l1\<lparr>log_level := log_level DefaultLogConfig\<rparr>\<rparr>)
        else (case rune_of_level (log_level l1) of
            None \<Rightarrow> Inl (Errorf (''invalid log level: '' @ log_level l1 @ '', options are debug, info, warn, error''))
          | Some r \<Rightarrow> Inr (c\<lparr>cfg_log := l1\<lparr>log_level := r\<rparr>\<rparr>))))"

definition validateCORSConfig :: "config \<Rightarrow> config result" where
  "validateCORSConfig c =
     (let x = cfg_cors c in
      Inr (c\<lparr>cfg_cors := x\<lparr>
        cors_origins := if cors_origins x = [] then cors_origins DefaultCORSConfig else cors_origins x,
        cors_methods := if cors_methods x = [] then cors_methods DefaultCORSConfig else cors_methods x,
        cors_headers := if cors_headers x = [] then cors_headers DefaultCORSConfig else cors_headers x,
        cors_max_age := if cors_max_age x = 0 then cors_max_age DefaultCORSConfig else cors_max_age x\<rparr>\<rparr>))"

definition default_session :: "session_config \<Rightarrow> session_config" where
  "default_session s = s\<lparr>
     ses_store := if ses_store s = [] then ses_store DefaultSessionConfig else ses_store s,
     ses_duration_source := if ses_duration_source s = [] then ses_duration_source DefaultSessionConfig else ses_duration_source s,
     ses_name := if ses_name s = [] then ses_name DefaultSessionConfig else ses_name s,
     ses_fixed_timeout := if ses_fixed_timeout s = 0 then ses_fixed_timeout DefaultSessionConfig else ses_fixed_timeout s\<rparr>"

definition validateSessionConfig :: "config \<Rightarrow> config result" where
  "validateSessionConfig c =
     (let s = cfg_sessions c in
      if ses_store s \<notin> {[], ''memory'', ''redis''}
      then Inl (Errorf (''invalid session store: '' @ ses_store s @ '', options are '' @ quoted ''memory'' @ '' or '' @ quoted ''redis''))
      else if ses_duration_source s \<notin> {[], ''fixed'', ''oidc_tokens''}
      then Inl (Errorf (''invalid session duration source: '' @ ses_duration_source s @ '', options are '' @ quoted ''fixed'' @
             '' or '' @ quoted ''oidc_tokens''))
      else Inr (c\<lparr>cfg_sessions := default_session s\<rparr>))"

definition query_field :: "nat \<Rightarrow> string \<Rightarrow> string" where
  "query_field i s = ''data.queries['' @ show_int (int i) @ '']'' @ s"

definition validate_query :: "nat \<Rightarrow> prometheus_query \<Rightarrow> prometheus_query result" where
  "validate_query i q =
     (if pq_disabled q then Inr q
      else if pq_name q = [] then Inl (Errorf (query_field i ''.name is required''))
      else if pq_query q = [] then Inl (Errorf (query_field i ''.query is required''))
      else if pq_ttl q \<noteq> 0 \<and> pq_ttl q < 30 * second then Inl (Errorf (query_field i ''.ttl cannot be less than 30s''))
      else if pq_type q = ''range'' \<and> pq_range q = [] then Inl (Errorf (query_field i ''.range is required for range queries''))
      else if pq_type q = ''range'' \<and> pq_step q = [] then Inl (Errorf (query_field i ''.step is required for range queries''))
      else if pq_type q \<noteq> ''range'' \<and> pq_type q \<noteq> [] then Inl (Errorf (''invalid query type: '' @ pq_type q))
      else Inr (q\<lparr>pq_ttl := if pq_ttl q = 0 then 30 * second else pq_ttl q\<rparr>))"

fun validate_queries :: "nat \<Rightarrow> prometheus_query list \<Rightarrow> prometheus_query list result" where
  "validate_queries i [] = Inr []"
| "validate_queries i (q # qs) =
     andThen (validate_query i q) (\<lambda>q1. andThen (validate_queries (Suc i) qs) (\<lambda>qs1. Inr (q1 # qs1)))"

definition check_basic_auth :: "basic_auth option \<Rightarrow> unit result" where
  "check_basic_auth ba =
     (case ba of
        None \<Rightarrow> Inr ()
      | Some b \<Rightarrow>
          if ba_username b = [] then Inl (Errorf ''data.basic_auth.username is required'')
          else if ba_password b = [] then Inl (Errorf ''data.basic_auth.password is required'')
          else Inr ())"

definition fallback_interval :: "duration \<Rightarrow> duration result" where
  "fallback_interval i =
     (if i < 0 then Inr DefaultFallbackFetchInterval
      else if i < 30 * second \<and> 0 < i then Inl (Errorf ''data.fallback_fetch_interval cannot be less than 30 seconds'')
      else Inr i)"

definition validateDataConfig :: "config \<Rightarrow> config result" where
  "validateDataConfig c =
     (let d = cfg_data c in
      if data_prometheus_url d = [] then Inl (Errorf ''data.prometheus_url is required'')
      else andThen (check_basic_auth (data_basic_auth d)) (\<lambda>_.
           andThen (validate_queries 0 (data_queries d)) (\<lambda>qs.
           andThen (fallback_interval (data_fallback_interval d)) (\<lambda>i.
           Inr (c\<lparr>cfg_data := d\<lparr>data_queries := qs, data_fallback_interval := i\<rparr>\<rparr>)))))"

definition validateCacheConfig :: "config \<Rightarrow> config result" where
  "validateCacheConfig c =
     (let ty = if cfg_cache_type c = [] then ''memory'' else cfg_cache_type c in
      if ty = ''memory'' then Inr (c\<lparr>cfg_cache_type := ty\<rparr>)
      else if ty = ''redis''
      then (case cfg_redis c of
              None \<Rightarrow> Inl (Errorf ''redis configuration must be enabled to use redis for data cache'')
            | Some r \<Rightarrow> Inr (c\<lparr>cfg_cache_type := ty\<rparr>))
      else Inl (Errorf (''invalid cache type: '' @ ty @ '', must be '' @ quoted ''memory'' @ '' or '' @ quoted ''redis'')))"

definition default_indices :: "redis_config \<Rightarrow> redis_config" where
  "default_indices r =
     (if red_session_index r = 0 \<and> red_cache_index r = 0 \<and> red_leader_index r = 0
      then r\<lparr>red_session_index := 0, red_cache_index := 1, red_leader_index := 2\<rparr> else r)"

definition both_are :: "string \<Rightarrow> int \<Rightarrow> string" where
  "both_are names i = ''redis '' @ names @ '' should be different to avoid data collision (both are '' @ show_int i @ '')''"

definition check_indices :: "redis_config \<Rightarrow> unit result" where
  "check_indices r =
     (let s = red_session_index r; k = red_cache_index r; l = red_leader_index r in
      if s < 0 then Inl (Errorf (''redis session_index must be non-negative, got '' @ show_int s))
      else if k < 0 then Inl (Errorf (''redis cache_index must be non-negative, got '' @ show_int k))
      else if l < 0 then Inl (Errorf (''redis leader_index must be non-negative, got '' @ show_int k))
      else if s = k then Inl (Errorf (both_are ''session_index and cache_index'' s))
      else if l = k then Inl (Errorf (both_are ''leader_index and cache_index'' l))
      else if l = s then Inl (Errorf (both_are ''leader_index and session_index'' l))
      else if s > 15 then Inl (Errorf (''redis session_index '' @ show_int s @ '' exceeds typical maximum of 15''))
      else if k > 15 then Inl (Errorf (''redis cache_index '' @ show_int k @ '' exceeds typical maximum of 15''))
      else if l > 15 then Inl (Errorf (''redis leader_index '' @ show_int l @ '' exceeds typical maximum of 15''))
      else Inr ())"

definition validateRedisConfig :: "config \<Rightarrow> config result" where
  "validateRedisConfig c =
     (case cfg_redis c of
        None \<Rightarrow> Inl (Errorf ''redis config is nil'')
      | Some r \<Rightarrow>
          if red_address r = [] then Inl (Errorf ''redis address is required'')
          else (case SplitHostPort (red_address r) of
              Inl e \<Rightarrow> Inl (wrap ''invalid redis address format (expected host:port): '' e)
            | Inr hp \<Rightarrow>
                (let r1 = default_indices r in
                 andThen (check_indices r1) (\<lambda>_.
                   if \<exists>s \<in> set_option (red_sentinel r1). sen_master_name s = [] then Inl (Errorf ''sentinel master_name is required'')
                   else if \<exists>s \<in> set_option (red_sentinel r1). sen_addresses s = []
                   then Inl (Errorf ''at least one sentinel address is required'')
                   else Inr (c\<lparr>cfg_redis := Some r1\<rparr>)))))"

definition validateDistributedConfig :: "config \<Rightarrow> config result" where
  "validateDistributedConfig c =
     (case cfg_distributed c of
        None \<Rightarrow> Inr c
      | Some d \<Rightarrow>
          if \<not> dist_enabled d then Inr c
          else if dist_ttl d \<le> 0 then Inr (c\<lparr>cfg_distributed := Some (d\<lparr>dist_ttl := DefaultDistributedTTL\<rparr>)\<rparr>)
          else if minute < dist_ttl d then Inl (Errorf ''distributed ttl cannot be more than 1 minute'')
          else Inr c)"

definition validateStorageConfig :: "config \<Rightarrow> config result" where
  "validateStorageConfig c =
     (case cfg_storage c of
        None \<Rightarrow> Inr c
      | Some s \<Rightarrow>
          if \<not> sto_enabled s then Inr c
          else if sto_host s = [] then Inl (Errorf ''storage.host is required when storage is enabled'')
          else if sto_port s \<le> 0 \<or> 65535 < sto_port s
          then Inl (Errorf (''storage.port must be between 1 and 65535, got '' @ show_int (sto_port s)))
          else if sto_database s = [] then Inl (Errorf ''storage.database is required when storage is enabled'')
          else Inr c)"

fun check_scopes :: "string \<Rightarrow> scope list \<Rightarrow> unit result" where
  "check_scopes g [] = Inr ()"
| "check_scopes g (s # ss) =
     (if s \<notin> set GetAllValidScopes
      then Inl (Errorf (''authorization group '' @ quoted g @ '' contains invalid scope '' @ quoted s)) else check_scopes g ss)"

fun check_groups :: "group_scopes \<Rightarrow> unit result" where
  "check_groups [] = Inr ()"
| "check_groups ((g, ss) # gs) =
     (if ss = [] then Inl (Errorf (''authorization group '' @ quoted g @ '' has no scopes defined''))
      else andThen (check_scopes g ss) (\<lambda>_. check_groups gs))"

definition validateAuthorizationConfig :: "config \<Rightarrow> config result" where
  "validateAuthorizationConfig c =
     (let gs = if cfg_group_scopes c = [] then DefaultAuthorizationConfig else cfg_group_scopes c in
      andThen (check_groups gs) (\<lambda>_. Inr (c\<lparr>cfg_group_scopes := gs\<rparr>)))"

section \<open>Validation of the features\<close>

definition storage_on :: "config \<Rightarrow> bool" where
  "storage_on c = (case cfg_storage c of None \<Rightarrow> False | Some s \<Rightarrow> sto_enabled s)"

definition is_on :: "('a \<Rightarrow> bool) \<Rightarrow> 'a option \<Rightarrow> bool" where
  "is_on f x = (case x of None \<Rightarrow> False | Some y \<Rightarrow> f y)"

definition mtls_path :: "string \<Rightarrow> string" where
  "mtls_path s = ''features.mtls_management'' @ s"

definition ValidateMTLSManagementKubernetesConfig :: "mtls_management \<Rightarrow> unit result" where
  "ValidateMTLSManagementKubernetesConfig m =
     (case mtls_kubernetes m of
        None \<Rightarrow> Inr ()
      | Some k \<Rightarrow>
          if \<not> k8s_enabled k then Inr ()
          else (case k8s_issuer k of
              None \<Rightarrow> Inl (Errorf ''features.mtls_management.kubernetes.issuer is required when features.mtls_management.kubernetes is enabled'')
            | Some i \<Rightarrow>
                if iss_name i = []
                then Inl (Errorf ''features.mtls_management.kubernetes.issuer.name is required when features.mtls_management.kubernetes is enabled'')
                else if iss_kind i = []
                then Inl (Errorf ''features.mtls_management.kubernetes.issuer.kind is required when features.mtls_management.kubernetes is enabled'')
                else if iss_kind i \<noteq> ''Issuer'' \<and> iss_kind i \<noteq> ''ClusterIssuer''
                then Inl (Errorf (''features.mtls_management.certificate_issuer.kind must be either '' @ quoted ''Issuer'' @ '' or '' @
                       quoted ''ClusterIssuer'' @ '', got '' @ quoted (iss_kind i)))
                else Inr ()))"

definition validAlgorithms :: "string list" where
  "validAlgorithms = [''RSA-2048'', ''RSA-4096'', ''ECDSA-P256'']"

definition ValidateMTLSManagementDatabaseConfig :: "config \<Rightarrow> mtls_management \<Rightarrow> mtls_management result" where
  "ValidateMTLSManagementDatabaseConfig c m =
     (case mtls_database m of
        None \<Rightarrow> Inr m
      | Some d \<Rightarrow>
          if \<not> dbc_enabled d then Inr m
          else if \<not> storage_on c then Inl (Errorf ''storage must be enabled when features.mtls_management.database is enabled'')
          else if sto_encryption_key (or_zero zero_storage (cfg_storage c)) = []
          then Inl (Errorf ''storage.encryption_key is required when features.mtls_management.database is enabled'')
          else if dbc_key_algorithm d = []
          then Inr (m\<lparr>mtls_database := Some (d\<lparr>dbc_key_algorithm := dbc_key_algorithm DefaultMTLSManagementDatabaseConfig\<rparr>)\<rparr>)
          else if dbc_key_algorithm d \<notin> set validAlgorithms
          then Inl (Errorf (''features.mtls_management.database.key_algorithm must be one of: RSA-2048, RSA-4096, ECDSA-P256 (got '' @
                 quoted (dbc_key_algorithm d) @ '')''))
          else Inr m)"

definition default_subject :: "certificate_subject option \<Rightarrow> certificate_subject" where
  "default_subject s =
     (let x = or_zero DefaultCertificateSubject s
      in if sub_organization x = [] then x\<lparr>sub_organization := sub_organization DefaultCertificateSubject\<rparr> else x)"

definition default_mtls_jobs :: "mtls_background_job_config option \<Rightarrow> mtls_background_job_config" where
  "default_mtls_jobs j =
     (let x = or_zero DefaultMTLSBackgroundJobConfig j in
      x\<lparr>mbj_approved_interval := if mbj_approved_interval x = 0 then mbj_approved_interval DefaultMTLSBackgroundJobConfig
                                 else mbj_approved_interval x,
        mbj_issued_interval := if mbj_issued_interval x = 0 then mbj_issued_interval DefaultMTLSBackgroundJobConfig
                               else mbj_issued_interval x\<rparr>)"

definition default_days :: "mtls_management \<Rightarrow> mtls_management" where
  "default_days m =
     m\<lparr>mtls_min_days := if mtls_min_days m = 0 then mtls_min_days DefaultMTLSIssuerConfig else mtls_min_days m,
       mtls_max_days := if mtls_max_days m = 0 then mtls_max_days DefaultMTLSIssuerConfig else mtls_max_days m\<rparr>"

definition default_mtls :: "mtls_management \<Rightarrow> mtls_management" where
  "default_mtls m =
     m\<lparr>mtls_kubernetes := Some (or_zero DefaultMTLSManagementKubernetesConfig (mtls_kubernetes m)),
       mtls_subject := Some (default_subject (mtls_subject m)), mtls_jobs := Some (default_mtls_jobs (mtls_jobs m))\<rparr>"

definition ValidateMTLSManagementConfig :: "config \<Rightarrow> mtls_management \<Rightarrow> mtls_management result" where
  "ValidateMTLSManagementConfig c m =
     (if \<not> mtls_enabled m then Inr m
      else if \<not> storage_on c then Inl (Errorf ''storage must be enabled when mtls_management is enabled'')
      else if mtls_hmac_key m = []
      then Inl (Errorf ''features.mtls_management.download_token_hmac_key is required when mtls_management is enabled'')
      else if length (mtls_hmac_key m) \<le> 32
      then Inl (Errorf ''features.mtls_management.download_token_hmac_key must be at least 32 characters'')
      else (let m1 = default_days m in
        if mtls_max_days m1 < mtls_min_days m1
        then Inl (Errorf ''features.mtls_management.max_certificate_validity_days cannot be less than min_certificate_validity_days'')
        else (let m2 = default_mtls m1; k = is_on k8s_enabled (mtls_kubernetes m2); d = is_on dbc_enabled (mtls_database m2) in
          if k \<and> d
          then Inl (Errorf ''features.mtls_management.kubernetes and features.mtls_management.database cannot both be enabled'')
          else if \<not> k \<and> \<not> d
          then Inl (Errorf ''one of features.mtls_management.kubernetes or features.mtls_management.database must be enabled when mtls_management is enabled'')
          else andThen (if k then ValidateMTLSManagementKubernetesConfig m2 else Inr ()) (\<lambda>_.
               if d then ValidateMTLSManagementDatabaseConfig c m2 else Inr m2))))"

definition alias_field :: "nat \<Rightarrow> string \<Rightarrow> string" where
  "alias_field i s = ''features.firewall_management.aliases['' @ show_int (int i) @ '']'' @ s"

definition validate_alias :: "config \<Rightarrow> nat \<Rightarrow> firewall_alias_config \<Rightarrow> unit result" where
  "validate_alias c i a =
     (if al_name a = [] then Inl (Errorf (alias_field i ''.name is required''))
      else if al_uuid a = [] then Inl (Errorf (alias_field i ''.uuid is required''))
      else if length (al_uuid a) \<noteq> 36 then Inl (Errorf (alias_field i ''.uuid must be a valid UUID''))
      else if al_auth_group a = [] then Inl (Errorf (alias_field i ''.auth_group is required''))
      else if map_of (cfg_group_scopes c) (al_auth_group a) = None
      then Inl (Errorf (alias_field i (''.auth_group '' @ quoted (al_auth_group a) @ '' does not exist in authorization.group_scopes'')))
      else if al_max_per_user a \<le> 0 then Inl (Errorf (alias_field i ''.max_ips_per_user must be greater than 0''))
      else if al_max_total a \<le> 0 then Inl (Errorf (alias_field i ''.max_total_ips must be greater than 0''))
      else if al_max_total a < al_max_per_user a
      then Inl (Errorf (alias_field i (''.max_ips_per_user ('' @ show_int (al_max_per_user a) @ '') cannot be greater than max_total_ips ('' @
             show_int (al_max_total a) @ '')'')))
      else if \<exists>t \<in> set_option (al_default_ttl a). t < hour
      then Inl (Errorf (alias_field i ''.default_ttl cannot be less than 1 hour if set''))
      else Inr ())"

fun validate_aliases :: "config \<Rightarrow> nat \<Rightarrow> firewall_alias_config list \<Rightarrow> unit result" where
  "validate_aliases c i [] = Inr ()"
| "validate_aliases c i (a # as) = andThen (validate_alias c i a) (\<lambda>_. validate_aliases c (Suc i) as)"

definition default_fw_jobs :: "firewall_background_job_config option \<Rightarrow> firewall_background_job_config" where
  "default_fw_jobs j =
     (let x = or_zero DefaultFirewallBackgroundJobConfig j in
      x\<lparr>fbj_sync_interval := if fbj_sync_interval x = 0 then fbj_sync_interval DefaultFirewallBackgroundJobConfig else fbj_sync_interval x,
        fbj_expiration_interval := if fbj_expiration_interval x = 0 then fbj_expiration_interval DefaultFirewallBackgroundJobConfig
                                   else fbj_expiration_interval x\<rparr>)"

definition trim_slash :: "string \<Rightarrow> string" where
  "trim_slash s = (if s \<noteq> [] \<and> last s = CHR ''/'' then butlast s else s)"

definition ValidateFirewallManagementConfig :: "loader \<Rightarrow> config \<Rightarrow> firewall_management \<Rightarrow> firewall_management result" where
  "ValidateFirewallManagementConfig ld c f =
     (if \<not> fw_enabled f then Inr f
      else if \<not> storage_on c then Inl (Errorf ''storage must be enabled when firewall_management is enabled'')
      else if fw_router_endpoint f = []
      then Inl (Errorf ''features.firewall_management.router_endpoint is required when firewall_management is enabled'')
      else (let f1 = f\<lparr>fw_router_endpoint := trim_slash (fw_router_endpoint f)\<rparr> in
        andThen (validateURL ld (fw_router_endpoint f1) ''features.firewall_management.router_endpoint'') (\<lambda>_.
          if fw_router_api_key f1 = []
          then Inl (Errorf ''features.firewall_management.router_api_key is required when firewall_management is enabled'')
          else if fw_router_api_secret f1 = []
          then Inl (Errorf ''features.firewall_management.router_api_secret is required when firewall_management is enabled'')
          else (let j = default_fw_jobs (fw_jobs f1) in
            if fbj_sync_interval j < 30 * second
            then Inl (Errorf ''features.firewall_management.background_job_config.sync_interval cannot be less than 30 seconds'')
            else if fbj_expiration_interval j < minute
            then Inl (Errorf ''features.firewall_management.background_job_config.expiration_interval cannot be less than 1 minute'')
            else if fw_aliases f1 = []
            then Inl (Errorf ''features.firewall_management.aliases must have at least one alias configured when firewall_management is enabled'')
            else andThen (validate_aliases c 0 (fw_aliases f1)) (\<lambda>_. Inr (f1\<lparr>fw_jobs := Some j\<rparr>))))))"

definition ValidateFeaturesConfig :: "loader \<Rightarrow> config \<Rightarrow> config result" where
  "ValidateFeaturesConfig ld c =
     (let x = or_zero DefaultFeaturesConfig (cfg_features c) in
      andThen (if mtls_enabled (feat_mtls x) then ValidateMTLSManagementConfig c (feat_mtls x) else Inr (feat_mtls x)) (\<lambda>m.
      andThen (if fw_enabled (feat_firewall x) then ValidateFirewallManagementConfig ld c (feat_firewall x) else Inr (feat_firewall x)) (\<lambda>f.
      Inr (c\<lparr>cfg_features := Some (x\<lparr>feat_mtls := m, feat_firewall := f\<rparr>)\<rparr>))))"

section \<open>Loading\<close>

definition uses_redis :: "config \<Rightarrow> bool" where
  "uses_redis c \<longleftrightarrow> cfg_cache_type c = ''redis'' \<or> ses_store (cfg_sessions c) = ''redis''"

definition validateConfig :: "loader \<Rightarrow> config \<Rightarrow> config result" where
  "validateConfig ld c =
     andThen (validateServerConfig c) (\<lambda>c. andThen (validateOIDCConfig ld c) (\<lambda>c. andThen (validateLogConfig c) (\<lambda>c.
     andThen (validateCORSConfig c) (\<lambda>c. andThen (validateSessionConfig c) (\<lambda>c. andThen (validateDataConfig c) (\<lambda>c.
     andThen (validateCacheConfig c) (\<lambda>c. andThen (if uses_redis c then validateRedisConfig c else Inr c) (\<lambda>c.
     andThen (validateDistributedConfig c) (\<lambda>c. andThen (validateStorageConfig c) (\<lambda>c.
     andThen (validateAuthorizationConfig c) (\<lambda>c. ValidateFeaturesConfig ld c)))))))))))"

definition LoadConfig :: "loader \<Rightarrow> string \<Rightarrow> config result" where
  "LoadConfig ld configPath =
     (if configPath = [] then Inl (Errorf ''config file path is required (use -config or -c)'')
      else (case ld_ReadFile ld configPath of
          Inl e \<Rightarrow> Inl (wrap ''failed to read config file: '' e)
        | Inr d \<Rightarrow> (case ld_Unmarshal ld d of
            Inl e \<Rightarrow> Inl (wrap ''failed to parse config: '' e)
          | Inr c \<Rightarrow> (case validateConfig ld (applyEnvironmentOverrides (ld_Getenv ld) c) of
              Inl e \<Rightarrow> Inl (wrap ''config validation failed: '' e)
            | Inr c1 \<Rightarrow> Inr c1))))"

text \<open>The level the logger is set up with (\<open>setupLogger\<close> of \<open>internal/server/logger.go\<close>).\<close>

datatype slog_level = LevelDebug | LevelInfo | LevelWarn | LevelError

definition logger_level :: "config \<Rightarrow> slog_level" where
  "logger_level c =
     (let l = log_level (cfg_log c) in
      if l = ''debug'' then LevelDebug else if l = ''info'' then LevelInfo
      else if l = ''warn'' then LevelWarn else if l = ''error'' then LevelError else LevelInfo)"

section \<open>What a loaded configuration satisfies\<close>

definition server_ok :: "server_config \<Rightarrow> bool" where
  "server_ok s \<longleftrightarrow> srv_port s \<noteq> 0 \<and> srv_external_url s \<noteq> [] \<and>
     (\<forall>d \<in> set_option (srv_debug s). dbg_enabled d \<longrightarrow> dbg_host d \<noteq> [] \<and> 0 < dbg_port d \<and> dbg_port d < 65535)"

definition oidc_ok :: "oidc_config \<Rightarrow> bool" where
  "oidc_ok x \<longleftrightarrow> oidc_client_id x \<noteq> [] \<and> oidc_client_secret x \<noteq> [] \<and> oidc_issuer_url x \<noteq> [] \<and> oidc_redirect_uri x \<noteq> [] \<and>
     oidc_scopes x \<noteq> []"

definition session_ok :: "session_config \<Rightarrow> bool" where
  "session_ok s \<longleftrightarrow> ses_store s \<in> {''memory'', ''redis''} \<and> ses_duration_source s \<in> {''fixed'', ''oidc_tokens''} \<and>
     ses_name s \<noteq> [] \<and> ses_fixed_timeout s \<noteq> 0"

definition query_ok :: "prometheus_query \<Rightarrow> bool" where
  "query_ok q \<longleftrightarrow> pq_disabled q \<or>
     (pq_name q \<noteq> [] \<and> pq_query q \<noteq> [] \<and> 30 * second \<le> pq_ttl q \<and>
      (pq_type q = [] \<or> pq_type q = ''range'' \<and> pq_range q \<noteq> [] \<and> pq_step q \<noteq> []))"

definition data_ok :: "data_config \<Rightarrow> bool" where
  "data_ok d \<longleftrightarrow> data_prometheus_url d \<noteq> [] \<and> (\<forall>b \<in> set_option (data_basic_auth d). ba_username b \<noteq> [] \<and> ba_password b \<noteq> []) \<and>
     (\<forall>q \<in> set (data_queries d). query_ok q) \<and> (data_fallback_interval d = 0 \<or> 30 * second \<le> data_fallback_interval d)"

definition redis_ok :: "redis_config \<Rightarrow> bool" where
  "redis_ok r \<longleftrightarrow> is_ok (SplitHostPort (red_address r)) \<and>
     distinct [red_session_index r, red_cache_index r, red_leader_index r] \<and>
     {red_session_index r, red_cache_index r, red_leader_index r} \<subseteq> {0..15} \<and>
     (\<forall>s \<in> set_option (red_sentinel r). sen_master_name s \<noteq> [] \<and> sen_addresses s \<noteq> [])"

definition distributed_ok :: "distributed_config \<Rightarrow> bool" where
  "distributed_ok d \<longleftrightarrow> (dist_enabled d \<longrightarrow> 0 < dist_ttl d \<and> dist_ttl d \<le> minute)"

definition storage_ok :: "storage_config \<Rightarrow> bool" where
  "storage_ok s \<longleftrightarrow> (sto_enabled s \<longrightarrow> sto_host s \<noteq> [] \<and> 0 < sto_port s \<and> sto_port s \<le> 65535 \<and> sto_database s \<noteq> [])"

definition groups_ok :: "group_scopes \<Rightarrow> bool" where
  "groups_ok gs \<longleftrightarrow> gs \<noteq> [] \<and> (\<forall>(g, ss) \<in> set gs. ss \<noteq> [] \<and> set ss \<subseteq> set GetAllValidScopes)"

definition mtls_ok :: "config \<Rightarrow> mtls_management \<Rightarrow> bool" where
  "mtls_ok c m \<longleftrightarrow> (mtls_enabled m \<longrightarrow>
     storage_on c \<and> 32 < length (mtls_hmac_key m) \<and> mtls_min_days m \<noteq> 0 \<and> mtls_max_days m \<noteq> 0 \<and> mtls_min_days m \<le> mtls_max_days m \<and>
     (\<exists>s. mtls_subject m = Some s \<and> sub_organization s \<noteq> []) \<and>
     (\<exists>j. mtls_jobs m = Some j \<and> mbj_approved_interval j \<noteq> 0 \<and> mbj_issued_interval j \<noteq> 0) \<and>
     is_on k8s_enabled (mtls_kubernetes m) \<noteq> is_on dbc_enabled (mtls_database m) \<and>
     (\<forall>k \<in> set_option (mtls_kubernetes m). k8s_enabled k \<longrightarrow>
        (\<exists>i. k8s_issuer k = Some i \<and> iss_name i \<noteq> [] \<and> iss_kind i \<in> {''Issuer'', ''ClusterIssuer''})) \<and>
     (\<forall>d \<in> set_option (mtls_database m). dbc_enabled d \<longrightarrow>
        dbc_key_algorithm d \<in> set validAlgorithms \<and> sto_encryption_key (or_zero zero_storage (cfg_storage c)) \<noteq> []))"

definition alias_ok :: "config \<Rightarrow> firewall_alias_config \<Rightarrow> bool" where
  "alias_ok c a \<longleftrightarrow> al_name a \<noteq> [] \<and> length (al_uuid a) = 36 \<and> al_auth_group a \<in> fst ` set (cfg_group_scopes c) \<and>
     0 < al_max_per_user a \<and> al_max_per_user a \<le> al_max_total a \<and> (\<forall>t \<in> set_option (al_default_ttl a). hour \<le> t)"

definition firewall_ok :: "config \<Rightarrow> firewall_management \<Rightarrow> bool" where
  "firewall_ok c f \<longleftrightarrow> (fw_enabled f \<longrightarrow>
     storage_on c \<and> fw_router_endpoint f \<noteq> [] \<and> fw_router_api_key f \<noteq> [] \<and> fw_router_api_secret f \<noteq> [] \<and>
     (\<exists>j. fw_jobs f = Some j \<and> 30 * second \<le> fbj_sync_interval j \<and> minute \<le> fbj_expiration_interval j) \<and>
     fw_aliases f \<noteq> [] \<and> (\<forall>a \<in> set (fw_aliases f). alias_ok c a))"

definition config_ok :: "config \<Rightarrow> bool" where
  "config_ok c \<longleftrightarrow> server_ok (cfg_server c) \<and> oidc_ok (cfg_oidc c) \<and> session_ok (cfg_sessions c) \<and> data_ok (cfg_data c) \<and>
     cfg_cache_type c \<in> {''memory'', ''redis''} \<and> (uses_redis c \<longrightarrow> (\<exists>r. cfg_redis c = Some r \<and> redis_ok r)) \<and>
     (\<forall>d \<in> set_option (cfg_distributed c). distributed_ok d) \<and> (\<forall>s \<in> set_option (cfg_storage c). storage_ok s) \<and>
     groups_ok (cfg_group_scopes c) \<and> (\<exists>f. cfg_features c = Some f \<and> mtls_ok c (feat_mtls f) \<and> firewall_ok c (feat_firewall f))"

text \<open>Each validation establishes its part and changes nothing else.\<close>

lemma andThen_Inr_iff: "andThen r f = Inr y \<longleftrightarrow> (\<exists>x. r = Inr x \<and> f x = Inr y)"
  by (cases r) auto

lemma validateURL_ok: "validateURL ld u n = Inr x \<Longrightarrow> u \<noteq> []"
  by (auto simp: validateURL_def split: if_splits)

lemma default_debug_ok:
  "dbg_enabled (default_debug d) \<Longrightarrow>
     dbg_host (default_debug d) \<noteq> [] \<and> 0 < dbg_port (default_debug d) \<and> dbg_port (default_debug d) < 65535"
  by (auto simp: default_debug_def DefaultDebugConfig_def split: if_splits)

lemma server_checked: "validateServerConfig c = Inr c' \<Longrightarrow> c' = c\<lparr>cfg_server := cfg_server c'\<rparr> \<and> server_ok (cfg_server c')"
  by (auto simp: validateServerConfig_def Let_def server_ok_def DefaultServerConfig_def dest: default_debug_ok split: if_splits)

lemma oidc_checked: "validateOIDCConfig ld c = Inr c' \<Longrightarrow> c' = c\<lparr>cfg_oidc := cfg_oidc c'\<rparr> \<and> oidc_ok (cfg_oidc c')"
  by (auto simp: validateOIDCConfig_def Let_def oidc_ok_def andThen_Inr_iff DefaultOIDCScopes_def dest!: validateURL_ok split: if_splits)

lemma log_checked: "validateLogConfig c = Inr c' \<Longrightarrow> c' = c\<lparr>cfg_log := cfg_log c'\<rparr> \<and> logger_level c' = LevelInfo"
  by (auto simp: validateLogConfig_def Let_def rune_of_level_def logger_level_def DefaultLogConfig_def split: if_splits option.splits)

lemma cors_checked: "validateCORSConfig c = Inr c' \<Longrightarrow> c' = c\<lparr>cfg_cors := cfg_cors c'\<rparr>"
  by (auto simp: validateCORSConfig_def Let_def)

lemma default_session_ok:
  "ses_store s \<in> {[], ''memory'', ''redis''} \<Longrightarrow> ses_duration_source s \<in> {[], ''fixed'', ''oidc_tokens''} \<Longrightarrow> session_ok (default_session s)"
  by (auto simp: session_ok_def default_session_def DefaultSessionConfig_def)

lemma session_checked:
  assumes "validateSessionConfig c = Inr c'"
  shows "c' = c\<lparr>cfg_sessions := cfg_sessions c'\<rparr> \<and> session_ok (cfg_sessions c')"
proof -
  let ?s = "cfg_sessions c"
  have ok: "ses_store ?s \<in> {[], ''memory'', ''redis''}" "ses_duration_source ?s \<in> {[], ''fixed'', ''oidc_tokens''}"
    using assms unfolding validateSessionConfig_def Let_def by (metis Inl_Inr_False)+
  then have c': "c' = c\<lparr>cfg_sessions := default_session ?s\<rparr>"
    using assms unfolding validateSessionConfig_def Let_def by (simp only: simp_thms if_False sum.inject)
  show ?thesis
    unfolding c' using default_session_ok [OF ok] by simp
qed

lemma queries_checked: "validate_queries i qs = Inr qs' \<Longrightarrow> q \<in> set qs' \<Longrightarrow> query_ok q"
  by (induction i qs arbitrary: qs' rule: validate_queries.induct)
    (auto simp: andThen_Inr_iff validate_query_def query_ok_def split: if_splits)

lemma data_checks:
  "check_basic_auth ba = Inr x \<Longrightarrow> b \<in> set_option ba \<Longrightarrow> ba_username b \<noteq> [] \<and> ba_password b \<noteq> []"
  "fallback_interval j = Inr i \<Longrightarrow> i = 0 \<or> 30 * second \<le> i"
  by (auto simp: check_basic_auth_def fallback_interval_def DefaultFallbackFetchInterval_def split: option.splits if_splits)

lemma data_checked: "validateDataConfig c = Inr c' \<Longrightarrow> c' = c\<lparr>cfg_data := cfg_data c'\<rparr> \<and> data_ok (cfg_data c')"
  by (auto simp: validateDataConfig_def Let_def data_ok_def andThen_Inr_iff dest: queries_checked data_checks split: if_splits)

lemma cache_checked: "validateCacheConfig c = Inr c' \<Longrightarrow> c' = c\<lparr>cfg_cache_type := cfg_cache_type c'\<rparr> \<and> cfg_cache_type c' \<in> {''memory'', ''redis''}"
  by (auto simp: validateCacheConfig_def Let_def split: if_splits option.splits)

lemma indices_checked:
  "check_indices r = Inr x \<Longrightarrow> distinct [red_session_index r, red_cache_index r, red_leader_index r] \<and>
     {red_session_index r, red_cache_index r, red_leader_index r} \<subseteq> {0..15}"
  by (auto simp: check_indices_def Let_def split: if_splits)

lemma default_indices_sel [simp]: "red_address (default_indices r) = red_address r" "red_sentinel (default_indices r) = red_sentinel r"
  by (simp_all add: default_indices_def)

lemma redis_checked: "validateRedisConfig c = Inr c' \<Longrightarrow> c' = c\<lparr>cfg_redis := cfg_redis c'\<rparr> \<and> (\<exists>r. cfg_redis c' = Some r \<and> redis_ok r)"
  by (auto simp: validateRedisConfig_def Let_def redis_ok_def andThen_Inr_iff dest!: indices_checked split: option.splits if_splits sum.splits)

lemma distributed_checked: "validateDistributedConfig c = Inr c' \<Longrightarrow>
    c' = c\<lparr>cfg_distributed := cfg_distributed c'\<rparr> \<and> (\<forall>d \<in> set_option (cfg_distributed c'). distributed_ok d)"
  by (auto simp: validateDistributedConfig_def distributed_ok_def DefaultDistributedTTL_def split: option.splits if_splits)

lemma storage_checked: "validateStorageConfig c = Inr c' \<Longrightarrow> c' = c \<and> (\<forall>s \<in> set_option (cfg_storage c'). storage_ok s)"
  by (auto simp: validateStorageConfig_def storage_ok_def split: option.splits if_splits)

lemma scopes_checked: "check_scopes g ss = Inr x \<Longrightarrow> set ss \<subseteq> set GetAllValidScopes"
  by (induction g ss rule: check_scopes.induct) (auto split: if_splits)

lemma groups_checked: "check_groups gs = Inr x \<Longrightarrow> \<forall>(g, ss) \<in> set gs. ss \<noteq> [] \<and> set ss \<subseteq> set GetAllValidScopes"
  by (induction gs rule: check_groups.induct) (auto simp: andThen_Inr_iff dest!: scopes_checked split: if_splits)

lemma authorization_checked: "validateAuthorizationConfig c = Inr c' \<Longrightarrow>
    c' = c\<lparr>cfg_group_scopes := cfg_group_scopes c'\<rparr> \<and> groups_ok (cfg_group_scopes c')"
  by (auto simp: validateAuthorizationConfig_def Let_def groups_ok_def andThen_Inr_iff DefaultAuthorizationConfig_def
      dest!: groups_checked split: if_splits)

lemma aliases_checked: "validate_aliases c i as = Inr x \<Longrightarrow> a \<in> set as \<Longrightarrow> alias_ok c a"
  by (induction c i as rule: validate_aliases.induct)
    (auto simp: andThen_Inr_iff validate_alias_def alias_ok_def map_of_eq_None_iff not_less split: if_splits)

lemma k8s_checked: "ValidateMTLSManagementKubernetesConfig m = Inr x \<Longrightarrow> k \<in> set_option (mtls_kubernetes m) \<Longrightarrow> k8s_enabled k \<Longrightarrow>
    \<exists>i. k8s_issuer k = Some i \<and> iss_name i \<noteq> [] \<and> iss_kind i \<in> {''Issuer'', ''ClusterIssuer''}"
  by (auto simp: ValidateMTLSManagementKubernetesConfig_def split: option.splits if_splits)

lemma database_checked:
  assumes "ValidateMTLSManagementDatabaseConfig c m = Inr m'"
  shows "\<exists>d. m' = m\<lparr>mtls_database := d\<rparr> \<and> is_on dbc_enabled d = is_on dbc_enabled (mtls_database m) \<and>
     (\<forall>x \<in> set_option d. dbc_enabled x \<longrightarrow>
        dbc_key_algorithm x \<in> set validAlgorithms \<and> sto_encryption_key (or_zero zero_storage (cfg_storage c)) \<noteq> [])"
proof (cases "mtls_database m")
  case (Some d)
  have key: "m' = m\<lparr>mtls_database := Some d\<rparr>" if "m' = m"
    using that Some by simp
  show ?thesis
    using assms Some key
    by (auto simp: ValidateMTLSManagementDatabaseConfig_def is_on_def validAlgorithms_def DefaultMTLSManagementDatabaseConfig_def
        intro: exI [of _ "Some d"] exI [of _ "Some (d\<lparr>dbc_key_algorithm := ''ECDSA-P256''\<rparr>)"] split: if_splits)
qed (use assms in \<open>auto simp: ValidateMTLSManagementDatabaseConfig_def intro!: exI [of _ None]\<close>)

definition mtls_base :: "config \<Rightarrow> mtls_management \<Rightarrow> bool" where
  "mtls_base c m \<longleftrightarrow> storage_on c \<and> 32 < length (mtls_hmac_key m) \<and> mtls_min_days m \<noteq> 0 \<and> mtls_max_days m \<noteq> 0 \<and>
     mtls_min_days m \<le> mtls_max_days m \<and> (\<exists>s. mtls_subject m = Some s \<and> sub_organization s \<noteq> []) \<and>
     (\<exists>j. mtls_jobs m = Some j \<and> mbj_approved_interval j \<noteq> 0 \<and> mbj_issued_interval j \<noteq> 0)"

lemma default_mtls_sel [simp]: "mtls_hmac_key (default_days m) = mtls_hmac_key m" "mtls_enabled (default_days m) = mtls_enabled m"
  "mtls_hmac_key (default_mtls m) = mtls_hmac_key m" "mtls_enabled (default_mtls m) = mtls_enabled m"
  "mtls_min_days (default_mtls m) = mtls_min_days m" "mtls_max_days (default_mtls m) = mtls_max_days m"
  "mtls_min_days (default_days m) \<noteq> 0" "mtls_max_days (default_days m) \<noteq> 0"
  by (simp_all add: default_days_def default_mtls_def DefaultMTLSIssuerConfig_def)

lemma default_mtls_parts: "\<exists>s. mtls_subject (default_mtls m) = Some s \<and> sub_organization s \<noteq> []"
  "\<exists>j. mtls_jobs (default_mtls m) = Some j \<and> mbj_approved_interval j \<noteq> 0 \<and> mbj_issued_interval j \<noteq> 0"
  by (simp_all add: default_mtls_def default_subject_def default_mtls_jobs_def DefaultCertificateSubject_def
      DefaultMTLSBackgroundJobConfig_def Let_def)

lemma mtls_checked:
  assumes "ValidateMTLSManagementConfig c m = Inr m'" and "mtls_enabled m"
  shows "mtls_enabled m' \<and> mtls_ok c m'"
proof -
  let ?m = "default_mtls (default_days m)"
  let ?k = "is_on k8s_enabled (mtls_kubernetes ?m)" and ?d = "is_on dbc_enabled (mtls_database ?m)"
  have base: "mtls_base c ?m" and one: "?k \<noteq> ?d"
    and rest: "andThen (if ?k then ValidateMTLSManagementKubernetesConfig ?m else Inr ())
        (\<lambda>_. if ?d then ValidateMTLSManagementDatabaseConfig c ?m else Inr ?m) = Inr m'"
    using assms default_mtls_parts [of "default_days m"]
    by (auto simp: ValidateMTLSManagementConfig_def Let_def mtls_base_def split: if_splits)
  have k: "\<forall>k \<in> set_option (mtls_kubernetes ?m). k8s_enabled k \<longrightarrow>
        (\<exists>i. k8s_issuer k = Some i \<and> iss_name i \<noteq> [] \<and> iss_kind i \<in> {''Issuer'', ''ClusterIssuer''})"
  proof (cases ?k)
    case True
    with rest have "ValidateMTLSManagementKubernetesConfig ?m = Inr ()" by (auto simp: andThen_Inr_iff)
    then show ?thesis using k8s_checked by blast
  qed (auto simp: is_on_def split: option.splits)
  show ?thesis
  proof (cases ?d)
    case True
    with rest have "ValidateMTLSManagementDatabaseConfig c ?m = Inr m'" by (auto simp: andThen_Inr_iff)
    from database_checked [OF this] base one k assms(2) show ?thesis
      unfolding mtls_ok_def mtls_base_def by (elim exE conjE) simp
  next
    case False
    with rest have "m' = ?m" by (auto simp: andThen_Inr_iff)
    moreover have "\<forall>d \<in> set_option (mtls_database ?m). \<not> dbc_enabled d"
      using False by (auto simp: is_on_def split: option.splits)
    ultimately show ?thesis
      using base one k assms(2) unfolding mtls_ok_def mtls_base_def by simp
  qed
qed

lemma firewall_checked:
  assumes "ValidateFirewallManagementConfig ld c f = Inr f'" and "fw_enabled f"
  shows "fw_enabled f' \<and> firewall_ok c f'"
proof -
  let ?f = "f\<lparr>fw_router_endpoint := trim_slash (fw_router_endpoint f)\<rparr>" and ?j = "default_fw_jobs (fw_jobs f)"
  from assms have f': "f' = ?f\<lparr>fw_jobs := Some ?j\<rparr>" and a: "storage_on c" "fw_aliases f \<noteq> []" "fw_router_api_key f \<noteq> []"
      "fw_router_api_secret f \<noteq> []" "30 * second \<le> fbj_sync_interval ?j" "minute \<le> fbj_expiration_interval ?j"
      "trim_slash (fw_router_endpoint f) \<noteq> []" "\<forall>a \<in> set (fw_aliases f). alias_ok c a"
    by (auto simp: ValidateFirewallManagementConfig_def Let_def andThen_Inr_iff not_less dest: validateURL_ok aliases_checked
        split: if_splits)
  then show ?thesis
    using assms(2) by (simp add: firewall_ok_def)
qed

lemma features_frame [simp]: "mtls_ok (c\<lparr>cfg_features := x\<rparr>) m = mtls_ok c m" "firewall_ok (c\<lparr>cfg_features := x\<rparr>) f = firewall_ok c f"
  by (simp_all add: mtls_ok_def firewall_ok_def storage_on_def alias_ok_def)

lemma features_checked:
  assumes "ValidateFeaturesConfig ld c = Inr c'"
  shows "c' = c\<lparr>cfg_features := cfg_features c'\<rparr> \<and>
     (\<exists>f. cfg_features c' = Some f \<and> mtls_ok c (feat_mtls f) \<and> firewall_ok c (feat_firewall f))"
proof -
  let ?x = "or_zero DefaultFeaturesConfig (cfg_features c)"
  from assms obtain m f where m: "(if mtls_enabled (feat_mtls ?x) then ValidateMTLSManagementConfig c (feat_mtls ?x) else Inr (feat_mtls ?x)) = Inr m"
    and f: "(if fw_enabled (feat_firewall ?x) then ValidateFirewallManagementConfig ld c (feat_firewall ?x) else Inr (feat_firewall ?x)) = Inr f"
    and c': "c' = c\<lparr>cfg_features := Some (?x\<lparr>feat_mtls := m, feat_firewall := f\<rparr>)\<rparr>"
    unfolding ValidateFeaturesConfig_def Let_def by (elim andThen_InrE) simp
  have "mtls_ok c m"
    using m mtls_checked by (auto simp: mtls_ok_def split: if_splits)
  moreover have "firewall_ok c f"
    using f firewall_checked by (auto simp: firewall_ok_def split: if_splits)
  ultimately show ?thesis
    unfolding c' by simp
qed

lemma redis_step:
  assumes "(if uses_redis c then validateRedisConfig c else Inr c) = Inr c'"
  shows "c' = c\<lparr>cfg_redis := cfg_redis c'\<rparr> \<and> (uses_redis c \<longrightarrow> (\<exists>r. cfg_redis c' = Some r \<and> redis_ok r))"
  using assms redis_checked [of c c'] by (auto split: if_splits)

lemma config_checked:
  assumes "validateConfig ld c = Inr c'"
  shows "config_ok c' \<and> logger_level c' = LevelInfo"
proof -
  from assms obtain a b d e f g h i j k l
    where v: "validateServerConfig c = Inr a" "validateOIDCConfig ld a = Inr b" "validateLogConfig b = Inr d"
      "validateCORSConfig d = Inr e" "validateSessionConfig e = Inr f" "validateDataConfig f = Inr g" "validateCacheConfig g = Inr h"
      "(if uses_redis h then validateRedisConfig h else Inr h) = Inr i" "validateDistributedConfig i = Inr j"
      "validateStorageConfig j = Inr k" "validateAuthorizationConfig k = Inr l" "ValidateFeaturesConfig ld l = Inr c'"
    unfolding validateConfig_def by (elim andThen_InrE) blast
  obtain xa where a: "a = c\<lparr>cfg_server := xa\<rparr>" "server_ok xa" using server_checked [OF v(1)] by blast
  obtain xb where b: "b = a\<lparr>cfg_oidc := xb\<rparr>" "oidc_ok xb" using oidc_checked [OF v(2)] by blast
  obtain xd where d: "d = b\<lparr>cfg_log := xd\<rparr>" "logger_level d = LevelInfo" using log_checked [OF v(3)] by blast
  obtain xe where e: "e = d\<lparr>cfg_cors := xe\<rparr>" using cors_checked [OF v(4)] by blast
  obtain xf where f: "f = e\<lparr>cfg_sessions := xf\<rparr>" "session_ok xf" using session_checked [OF v(5)] by blast
  obtain xg where g: "g = f\<lparr>cfg_data := xg\<rparr>" "data_ok xg" using data_checked [OF v(6)] by blast
  obtain xh where h: "h = g\<lparr>cfg_cache_type := xh\<rparr>" "xh \<in> {''memory'', ''redis''}" using cache_checked [OF v(7)] by blast
  obtain xi where i: "i = h\<lparr>cfg_redis := xi\<rparr>" "uses_redis h \<longrightarrow> (\<exists>r. xi = Some r \<and> redis_ok r)" using redis_step [OF v(8)] by blast
  obtain xj where j: "j = i\<lparr>cfg_distributed := xj\<rparr>" "\<forall>d \<in> set_option xj. distributed_ok d" using distributed_checked [OF v(9)] by blast
  have k: "k = j" "\<forall>s \<in> set_option (cfg_storage k). storage_ok s" using storage_checked [OF v(10)] by blast+
  obtain xl where l: "l = k\<lparr>cfg_group_scopes := xl\<rparr>" "groups_ok xl" using authorization_checked [OF v(11)] by blast
  obtain xm y where m: "c' = l\<lparr>cfg_features := xm\<rparr>" "xm = Some y" "mtls_ok l (feat_mtls y)" "firewall_ok l (feat_firewall y)"
    using features_checked [OF v(12)] by blast
  have same: "mtls_ok c' = mtls_ok l" "firewall_ok c' = firewall_ok l"
    by (simp_all only: m(1) features_frame fun_eq_iff simp_thms)
  have log: "cfg_log c' = cfg_log d"
    by (simp add: m(1) l(1) k(1) j(1) i(1) h(1) g(1) f(1) e)
  have sel: "cfg_server c' = xa" "cfg_oidc c' = xb" "cfg_sessions c' = xf" "cfg_sessions h = xf" "cfg_data c' = xg"
    "cfg_cache_type c' = xh" "cfg_cache_type h = xh" "cfg_redis c' = xi" "cfg_distributed c' = xj" "cfg_storage c' = cfg_storage k"
    "cfg_group_scopes c' = xl" "cfg_features c' = xm"
    by (simp_all add: m(1) l(1) k(1) j(1) i(1) h(1) g(1) f(1) e d(1) b(1) a(1))
  have level: "logger_level c' = LevelInfo"
    using d(2) by (simp only: logger_level_def log)
  have redis: "uses_redis c' \<longrightarrow> (\<exists>r. cfg_redis c' = Some r \<and> redis_ok r)"
    using i(2) by (simp only: uses_redis_def sel)
  have features: "\<exists>f. cfg_features c' = Some f \<and> mtls_ok c' (feat_mtls f) \<and> firewall_ok c' (feat_firewall f)"
    using m(2-4) by (simp only: sel same option.inject ex_simps simp_thms)
  show ?thesis
    unfolding config_ok_def using level redis features a(2) b(2) f(2) g(2) h(2) j(2) k(2) l(2) by (simp only: sel simp_thms)
qed

lemma LoadConfig_checked:
  assumes "LoadConfig ld configPath = Inr c"
  shows "config_ok c \<and> logger_level c = LevelInfo"
  using assms config_checked by (auto simp: LoadConfig_def split: if_splits sum.splits)

section \<open>Properties\<close>


text \<open>
  The log level is always info. A configuration that loads sets the logger up with the level info,
  whichever level its file asks for, since the validation replaces the name by a control character.
\<close>

theorem configured_log_level_is_lost:
  assumes "LoadConfig ld configPath = Inr c"
  shows "logger_level c = LevelInfo"
  using LoadConfig_checked [OF assms] by (rule conjunct2)

section \<open>The environment wins\<close>

text \<open>The text settings the environment can override, each with how it reads; an absent section reads as empty.\<close>

definition env_settings :: "(string \<times> (config \<Rightarrow> string)) list" where
  "env_settings =
     [(''DASHBOARD_OIDC_CLIENT_ID'', \<lambda>c. oidc_client_id (cfg_oidc c)),
      (''DASHBOARD_OIDC_CLIENT_SECRET'', \<lambda>c. oidc_client_secret (cfg_oidc c)),
      (''DASHBOARD_OIDC_ISSUER_URL'', \<lambda>c. oidc_issuer_url (cfg_oidc c)),
      (''DASHBOARD_OIDC_REDIRECT_URL'', \<lambda>c. oidc_redirect_uri (cfg_oidc c)),
      (''DASHBOARD_DATA_PROMETHEUS_URL'', \<lambda>c. data_prometheus_url (cfg_data c)),
      (''DASHBOARD_DATA_BASIC_AUTH_USERNAME'', \<lambda>c. ba_username (or_zero \<lparr>ba_username = [], ba_password = []\<rparr> (data_basic_auth (cfg_data c)))),
      (''DASHBOARD_DATA_BASIC_AUTH_PASSWORD'', \<lambda>c. ba_password (or_zero \<lparr>ba_username = [], ba_password = []\<rparr> (data_basic_auth (cfg_data c)))),
      (''DASHBOARD_REDIS_PASSWORD'', \<lambda>c. red_password (or_zero zero_redis (cfg_redis c))),
      (''DASHBOARD_REDIS_USERNAME'', \<lambda>c. red_username (or_zero zero_redis (cfg_redis c))),
      (''DASHBOARD_REDIS_SENTINEL_USERNAME'', \<lambda>c. sen_username (or_zero zero_sentinel (red_sentinel (or_zero zero_redis (cfg_redis c))))),
      (''DASHBOARD_REDIS_SENTINEL_PASSWORD'', \<lambda>c. sen_password (or_zero zero_sentinel (red_sentinel (or_zero zero_redis (cfg_redis c))))),
      (''DASHBOARD_MTLS_DOWNLOAD_TOKEN_HMAC_KEY'', \<lambda>c. mtls_hmac_key (feat_mtls (or_zero zero_features (cfg_features c)))),
      (''DASHBOARD_STORAGE_HOST'', \<lambda>c. sto_host (or_zero zero_storage (cfg_storage c))),
      (''DASHBOARD_STORAGE_USERNAME'', \<lambda>c. sto_username (or_zero zero_storage (cfg_storage c))),
      (''DASHBOARD_STORAGE_PASSWORD'', \<lambda>c. sto_password (or_zero zero_storage (cfg_storage c))),
      (''DASHBOARD_STORAGE_DATABASE'', \<lambda>c. sto_database (or_zero zero_storage (cfg_storage c))),
      (''DASHBOARD_STORAGE_ENCRYPTION_KEY'', \<lambda>c. sto_encryption_key (or_zero zero_storage (cfg_storage c))),
      (''DASHBOARD_FIREWALL_ROUTER_ENDPOINT'', \<lambda>c. fw_router_endpoint (feat_firewall (or_zero zero_features (cfg_features c)))),
      (''DASHBOARD_FIREWALL_ROUTER_API_KEY'', \<lambda>c. fw_router_api_key (feat_firewall (or_zero zero_features (cfg_features c)))),
      (''DASHBOARD_FIREWALL_ROUTER_API_SECRET'', \<lambda>c. fw_router_api_secret (feat_firewall (or_zero zero_features (cfg_features c))))]"

lemma or_zero_Some [simp]: "or_zero z (Some x) = x"
  by (simp add: or_zero_def)

lemma fold_override:
  assumes "distinct (map fst os)" and "i < length os"
    and "\<And>j v c. j < length os \<Longrightarrow> get (snd (os ! j) v c) = (if i = j then v else get c)"
  shows "get (fold (override getenv) os c) = (if getenv (fst (os ! i)) = [] then get c else getenv (fst (os ! i)))"
proof -
  have "\<forall>k \<le> length os. get (fold (override getenv) (take k os) c) =
      (if i < k \<and> getenv (fst (os ! i)) \<noteq> [] then getenv (fst (os ! i)) else get c)"
  proof (intro allI impI)
    fix k assume "k \<le> length os"
    then show "get (fold (override getenv) (take k os) c) =
      (if i < k \<and> getenv (fst (os ! i)) \<noteq> [] then getenv (fst (os ! i)) else get c)"
      by (induction k) (auto simp: take_Suc_conv_app_nth override_def assms(3) less_Suc_eq)
  qed
  from this [rule_format, of "length os"] assms(2) show ?thesis by simp
qed

lemma port_override [simp]:
  "sto_host (case r of Inl e \<Rightarrow> x | Inr port \<Rightarrow> x\<lparr>sto_port := port\<rparr>) = sto_host x"
  "sto_username (case r of Inl e \<Rightarrow> x | Inr port \<Rightarrow> x\<lparr>sto_port := port\<rparr>) = sto_username x"
  "sto_password (case r of Inl e \<Rightarrow> x | Inr port \<Rightarrow> x\<lparr>sto_port := port\<rparr>) = sto_password x"
  "sto_database (case r of Inl e \<Rightarrow> x | Inr port \<Rightarrow> x\<lparr>sto_port := port\<rparr>) = sto_database x"
  "sto_encryption_key (case r of Inl e \<Rightarrow> x | Inr port \<Rightarrow> x\<lparr>sto_port := port\<rparr>) = sto_encryption_key x"
  by (simp_all split: sum.split)

lemmas upd_defs = upd_oidc_def upd_basic_auth_def upd_redis_def upd_sentinel_def upd_storage_def upd_features_def upd_mtls_def upd_firewall_def

text \<open>The position of the variable of each setting in \<open>env_overrides\<close>; the port is at position 13.\<close>

definition env_positions :: "nat list" where
  "env_positions = [0, 1, 2, 3, 4, 5, 6, 7, 8, 9, 10, 11, 12, 14, 15, 16, 17, 18, 19, 20]"

lemma env_lenses:
  "list_all (\<lambda>((n, get), i). list_all (\<lambda>(j, put). \<forall>v c. get (put v c) = (if i = j then v else get c))
     (enumerate 0 (map snd env_overrides))) (zip env_settings env_positions)"
  by (simp add: env_settings_def env_overrides_def env_positions_def upd_defs del: One_nat_def)

lemma env_names: "map fst env_settings = map (\<lambda>i. fst (env_overrides ! i)) env_positions" "length env_overrides = 21"
  "\<forall>i \<in> set env_positions. i < 21" "distinct (map fst env_overrides)"
  by (simp_all add: env_settings_def env_overrides_def env_positions_def)

text \<open>
  The environment wins over the file, setting by setting: a non-empty variable is the value of its
  setting, and no variable touches the setting of another.
\<close>

theorem environment_wins:
  "list_all (\<lambda>(name, get). \<forall>getenv c. get (applyEnvironmentOverrides getenv c) =
      (if getenv name = [] then get c else getenv name)) env_settings"
  unfolding list_all_length
proof (intro allI impI, simp only: split_beta, intro allI)
  fix k getenv c
  assume k: "k < length env_settings"
  have len: "length env_settings = length env_positions"
    using arg_cong [OF env_names(1), of length] by simp
  let ?i = "env_positions ! k" and ?get = "snd (env_settings ! k)"
  have name: "fst (env_settings ! k) = fst (env_overrides ! ?i)"
    using arg_cong [OF env_names(1), of "\<lambda>xs. xs ! k"] k len by simp
  have i: "?i < length env_overrides"
    using env_names(2,3) k len by simp
  have "?get (snd (env_overrides ! j) v c) = (if ?i = j then v else ?get c)" if "j < length env_overrides" for j v c
    using env_lenses k len that by (simp add: list_all_length split_beta nth_enumerate_eq)
  from fold_override [OF env_names(4) i this]
  show "?get (applyEnvironmentOverrides getenv c) = (if getenv (fst (env_settings ! k)) = [] then ?get c else getenv (fst (env_settings ! k)))"
    unfolding applyEnvironmentOverrides_def name .
qed

section \<open>Witnesses\<close>

text \<open>A file that asks for the level debug and leaves everything it can to the defaults, with one alias.\<close>

definition file_alias :: firewall_alias_config where
  "file_alias = \<lparr>al_name = ''home'', al_uuid = ''11111111-2222-3333-4444-555555555555'', al_description = [], al_max_per_user = 2,
     al_max_total = 5, al_default_ttl = None, al_auth_group = ''conduit:mtls:user''\<rparr>"

definition file_config :: config where
  "file_config =
     \<lparr>cfg_server = \<lparr>srv_port = 0, srv_external_url = ''https://conduit'', srv_debug = None\<rparr>,
      cfg_oidc = \<lparr>oidc_client_id = ''conduit'', oidc_client_secret = [], oidc_issuer_url = ''https://idp'',
        oidc_redirect_uri = ''https://conduit/callback'', oidc_scopes = []\<rparr>,
      cfg_log = \<lparr>log_level = ''debug'', log_format = []\<rparr>,
      cfg_cors = \<lparr>cors_origins = [], cors_methods = [], cors_headers = [], cors_exposed = [], cors_credentials = False, cors_max_age = 0\<rparr>,
      cfg_sessions = \<lparr>ses_store = [], ses_duration_source = [], ses_fixed_timeout = 0, ses_name = [], ses_secure = True\<rparr>,
      cfg_data = \<lparr>data_prometheus_url = ''http://mimir'', data_basic_auth = None, data_queries = [], data_fallback_interval = 0\<rparr>,
      cfg_cache_type = [], cfg_group_scopes = [], cfg_redis = None, cfg_distributed = None,
      cfg_storage = Some \<lparr>sto_enabled = True, sto_host = ''db'', sto_port = 5432, sto_username = [], sto_password = [],
        sto_database = ''conduit'', sto_encryption_key = ''k''\<rparr>,
      cfg_features = Some (zero_features\<lparr>feat_firewall := \<lparr>fw_enabled = True, fw_router_endpoint = ''https://router/'',
        fw_router_api_key = ''k'', fw_router_api_secret = ''s'', fw_aliases = [file_alias], fw_jobs = None\<rparr>\<rparr>)\<rparr>"

definition file_loader :: loader where
  "file_loader = \<lparr>ld_ReadFile = Inr, ld_Unmarshal = (\<lambda>s. Inr file_config),
     ld_Getenv = (\<lambda>n. if n = ''DASHBOARD_OIDC_CLIENT_SECRET'' then ''s'' else []), ld_url_scheme = (\<lambda>s. Inr ''https'')\<rparr>"

lemma file_env: "applyEnvironmentOverrides (ld_Getenv file_loader) file_config =
    file_config\<lparr>cfg_oidc := (cfg_oidc file_config)\<lparr>oidc_client_secret := ''s''\<rparr>\<rparr>"
  by (simp add: applyEnvironmentOverrides_def env_overrides_def override_def file_loader_def upd_oidc_def)

lemma file_loads: "is_ok (LoadConfig file_loader ''conduit.yaml'')"
proof -
  have l: "ld_ReadFile file_loader s = Inr s" "ld_Unmarshal file_loader s = Inr file_config" "ld_url_scheme file_loader s = Inr ''https''" for s
    by (simp_all add: file_loader_def)
  have groups: "check_groups DefaultAuthorizationConfig = Inr ()"
    by (simp add: DefaultAuthorizationConfig_def GetAllValidScopes_def)
  have al: "map_of DefaultAuthorizationConfig (al_auth_group file_alias) \<noteq> None" "length (al_uuid file_alias) = 36"
    by (simp_all add: DefaultAuthorizationConfig_def file_alias_def)
  have "validate_alias c 0 file_alias = Inr ()" if "cfg_group_scopes c = DefaultAuthorizationConfig" for c
    using al that by (auto simp: validate_alias_def) (simp_all add: file_alias_def)
  then have "is_ok (validateConfig file_loader (file_config\<lparr>cfg_oidc := (cfg_oidc file_config)\<lparr>oidc_client_secret := ''s''\<rparr>\<rparr>))"
    by (simp add: validateConfig_def validateServerConfig_def file_config_def DefaultServerConfig_def validateOIDCConfig_def validateURL_def l
        validateLogConfig_def DefaultLogConfig_def rune_of_level_def validateCORSConfig_def validateSessionConfig_def default_session_def
        DefaultSessionConfig_def validateDataConfig_def check_basic_auth_def fallback_interval_def validateCacheConfig_def uses_redis_def
        validateDistributedConfig_def validateStorageConfig_def validateAuthorizationConfig_def groups ValidateFeaturesConfig_def
        zero_features_def ValidateFirewallManagementConfig_def storage_on_def trim_slash_def default_fw_jobs_def or_zero_def
        DefaultFirewallBackgroundJobConfig_def Let_def)
  then show ?thesis
    by (auto simp: LoadConfig_def l file_env is_ok_iff)
qed


theorem configured_log_level_is_lost_witness:
  "log_level (cfg_log file_config) = ''debug'' \<and> (\<exists>c. LoadConfig file_loader ''conduit.yaml'' = Inr c \<and> logger_level c = LevelInfo)"
  using file_loads configured_log_level_is_lost by (auto simp: is_ok_iff file_config_def)

end
