(* ===== verification/Job_Manager.thy ===== *)
theory Job_Manager
  imports Jobs "HOL-Library.AList"
begin

text \<open>
  The job manager, \<open>internal/jobs/job_manager.go\<close>: it starts every registered job as a goroutine with a
  context of its own, the jobs that need leadership only while this instance is the leader, and stops
  them by cancelling their contexts. \<open>jm_runs\<close> are the goroutines ever started; \<open>cancelFuncs\<close> maps the
  name of a job to the goroutine its entry cancels. The mutex makes each operation one step.
\<close>

section \<open>State and operations\<close>

record 'w run =
  rn_job :: "'w job"
  rn_cancelled :: bool
  rn_ended :: bool

text \<open>
  \<open>jm_done\<close>: the context given to \<open>Start\<close> is cancelled. \<open>jm_monitor\<close>: the goroutine
  \<open>monitorLeadership\<close> is running, and \<open>jm_wasLeader\<close> is its variable.
\<close>

record 'w job_manager =
  jm_jobs :: "'w job list"
  jm_cancelFuncs :: "(string \<times> nat) list"
  jm_runs :: "'w run list"
  jm_done :: bool
  jm_monitor :: bool
  jm_wasLeader :: bool

definition NewJobManager :: "'w job_manager" where
  "NewJobManager = \<lparr>jm_jobs = [], jm_cancelFuncs = [], jm_runs = [], jm_done = False, jm_monitor = False, jm_wasLeader = False\<rparr>"

definition Register :: "'w job \<Rightarrow> 'w job_manager \<Rightarrow> 'w job_manager" where
  "Register j m = m\<lparr>jm_jobs := jm_jobs m @ [j]\<rparr>"

definition start_job :: "'w job \<Rightarrow> 'w job_manager \<Rightarrow> 'w job_manager" where
  "start_job j m =
     (if map_of (jm_cancelFuncs m) (job_name j) \<noteq> None then m
      else m\<lparr>jm_cancelFuncs := AList.update (job_name j) (length (jm_runs m)) (jm_cancelFuncs m),
             jm_runs := jm_runs m @ [\<lparr>rn_job = j, rn_cancelled = jm_done m, rn_ended = False\<rparr>]\<rparr>)"

definition stop_job :: "'w job \<Rightarrow> 'w job_manager \<Rightarrow> 'w job_manager" where
  "stop_job j m =
     (case map_of (jm_cancelFuncs m) (job_name j) of
        None \<Rightarrow> m
      | Some k \<Rightarrow> m\<lparr>jm_runs := (jm_runs m)[k := (jm_runs m ! k)\<lparr>rn_cancelled := True\<rparr>],
                    jm_cancelFuncs := AList.delete (job_name j) (jm_cancelFuncs m)\<rparr>)"

definition startLeaderJobs :: "'w job_manager \<Rightarrow> 'w job_manager" where
  "startLeaderJobs m = fold start_job (filter job_leadership (jm_jobs m)) m"

definition startNonLeaderJobs :: "'w job_manager \<Rightarrow> 'w job_manager" where
  "startNonLeaderJobs m = fold start_job (filter (\<lambda>j. \<not> job_leadership j) (jm_jobs m)) m"

definition stopLeaderJobs :: "'w job_manager \<Rightarrow> 'w job_manager" where
  "stopLeaderJobs m = fold stop_job (filter job_leadership (jm_jobs m)) m"

definition stopAllJobs :: "'w job_manager \<Rightarrow> 'w job_manager" where
  "stopAllJobs m = fold stop_job (jm_jobs m) m"

definition manager_Start :: "bool \<Rightarrow> 'w job_manager \<Rightarrow> 'w job_manager" where
  "manager_Start has_election m =
     (let m1 = startNonLeaderJobs m in if has_election then m1\<lparr>jm_monitor := True, jm_wasLeader := False\<rparr> else startLeaderJobs m1)"

text \<open>One round of \<open>monitorLeadership\<close>: a tick that reads \<open>IsLeader\<close>, or the end of its context.\<close>

definition monitor_tick :: "bool \<Rightarrow> 'w job_manager \<Rightarrow> 'w job_manager" where
  "monitor_tick isLeader m =
     (let m1 = (if isLeader \<and> \<not> jm_wasLeader m then startLeaderJobs m
                else if \<not> isLeader \<and> jm_wasLeader m then stopLeaderJobs m else m)
      in m1\<lparr>jm_wasLeader := isLeader\<rparr>)"

definition monitor_done :: "'w job_manager \<Rightarrow> 'w job_manager" where
  "monitor_done m = (stopLeaderJobs m)\<lparr>jm_monitor := False\<rparr>"

text \<open>The count of the wait group, and the outcome of \<open>Shutdown\<close> once its timer has run: whether all jobs had stopped.\<close>

definition wait_group :: "'w job_manager \<Rightarrow> nat" where
  "wait_group m = length (filter (\<lambda>r. \<not> rn_ended r) (jm_runs m)) + (if jm_monitor m then 1 else 0)"

text \<open>
  What happens to a running manager: a tick of the monitor, the end of a job's \<open>Run\<close>, the cancellation of
  the context of the server, the monitor that sees it.
\<close>

datatype manager_event = Tick bool | Ends nat | CancelContext | MonitorSees

fun on_event :: "manager_event \<Rightarrow> 'w job_manager \<Rightarrow> 'w job_manager" where
  "on_event (Tick isLeader) m = (if jm_monitor m then monitor_tick isLeader m else m)"
| "on_event (Ends k) m = m\<lparr>jm_runs := (jm_runs m)[k := (jm_runs m ! k)\<lparr>rn_ended := True\<rparr>]\<rparr>"
| "on_event CancelContext m =
     m\<lparr>jm_done := True, jm_runs := map (\<lambda>r. r\<lparr>rn_cancelled := True\<rparr>) (jm_runs m)\<rparr>"
| "on_event MonitorSees m = (if jm_monitor m \<and> jm_done m then monitor_done m else m)"

text \<open>\<open>Shutdown\<close> stops every job and then waits while \<open>after\<close> happens; it reports whether the wait group was released.\<close>

fun released :: "manager_event list \<Rightarrow> 'w job_manager \<Rightarrow> bool" where
  "released [] m \<longleftrightarrow> wait_group m = 0"
| "released (e # es) m \<longleftrightarrow> wait_group m = 0 \<or> released es (on_event e m)"

definition Shutdown :: "manager_event list \<Rightarrow> 'w job_manager \<Rightarrow> bool \<times> 'w job_manager" where
  "Shutdown after m = (let m1 = stopAllJobs m in (released after m1, fold on_event after m1))"

section \<open>The book-keeping invariant\<close>

text \<open>
  Every entry of \<open>cancelFuncs\<close> is for a goroutine of that name, not cancelled while the server's context is
  alive; every goroutine that is not cancelled has its entry; goroutines run registered jobs.
\<close>

definition entries_ok :: "'w job_manager \<Rightarrow> bool" where
  "entries_ok m \<longleftrightarrow>
     (\<forall>n k. map_of (jm_cancelFuncs m) n = Some k \<longrightarrow>
        k < length (jm_runs m) \<and> job_name (rn_job (jm_runs m ! k)) = n \<and> (\<not> jm_done m \<longrightarrow> \<not> rn_cancelled (jm_runs m ! k)))"

definition runs_ok :: "'w job_manager \<Rightarrow> bool" where
  "runs_ok m \<longleftrightarrow>
     (\<forall>k < length (jm_runs m). rn_job (jm_runs m ! k) \<in> set (jm_jobs m) \<and>
        (\<not> rn_cancelled (jm_runs m ! k) \<longrightarrow> map_of (jm_cancelFuncs m) (job_name (rn_job (jm_runs m ! k))) = Some k))"

definition well_kept :: "'w job_manager \<Rightarrow> bool" where
  "well_kept m \<longleftrightarrow> entries_ok m \<and> runs_ok m"

lemma start_job_kept [simp]:
  "jm_jobs (start_job j m) = jm_jobs m" "jm_done (start_job j m) = jm_done m"
  "jm_monitor (start_job j m) = jm_monitor m" "jm_wasLeader (start_job j m) = jm_wasLeader m"
  by (simp_all add: start_job_def)

lemma stop_job_kept [simp]:
  "jm_jobs (stop_job j m) = jm_jobs m" "jm_done (stop_job j m) = jm_done m"
  "jm_monitor (stop_job j m) = jm_monitor m" "jm_wasLeader (stop_job j m) = jm_wasLeader m"
  by (simp_all add: stop_job_def split: option.split)

lemma fold_kept:
  assumes "\<And>x m. f (g x m) = f m"
  shows "f (fold g xs m) = f m"
  using assms by (induction xs arbitrary: m) simp_all

lemmas jobs_kept [simp] =
  fold_kept [where f = jm_jobs and g = start_job, OF start_job_kept(1)] fold_kept [where f = jm_jobs and g = stop_job, OF stop_job_kept(1)]
  fold_kept [where f = jm_done and g = start_job, OF start_job_kept(2)] fold_kept [where f = jm_done and g = stop_job, OF stop_job_kept(2)]
  fold_kept [where f = jm_monitor and g = start_job, OF start_job_kept(3)] fold_kept [where f = jm_monitor and g = stop_job, OF stop_job_kept(3)]
  fold_kept [where f = jm_wasLeader and g = start_job, OF start_job_kept(4)] fold_kept [where f = jm_wasLeader and g = stop_job, OF stop_job_kept(4)]

lemma nth_update_if: "xs[k := y] ! i = (if i = k \<and> k < length xs then y else xs ! i)"
  by (cases "k < length xs"; cases "i = k") (auto simp: list_update_beyond)

lemma start_job_well:
  assumes "well_kept m" and "j \<in> set (jm_jobs m)"
  shows "well_kept (start_job j m)"
proof (cases "map_of (jm_cancelFuncs m) (job_name j)")
  case None
  let ?cf = "jm_cancelFuncs m" and ?runs = "jm_runs m"
  have begun: "map_of (jm_cancelFuncs (start_job j m)) n = (if n = job_name j then Some (length ?runs) else map_of ?cf n)" for n
    using None by (simp add: start_job_def update_conv')
  have nth: "rn_job (jm_runs (start_job j m) ! i) = (if i = length ?runs then j else rn_job (?runs ! i))"
    "rn_cancelled (jm_runs (start_job j m) ! i) = (if i = length ?runs then jm_done m else rn_cancelled (?runs ! i))"
    if "i \<le> length ?runs" for i
    using None that by (simp_all add: start_job_def nth_append)
  have len: "length (jm_runs (start_job j m)) = Suc (length ?runs)"
    using None by (simp add: start_job_def)
  have entries: "entries_ok m" and runs: "runs_ok m"
    using assms(1) by (simp_all add: well_kept_def)
  have "entries_ok (start_job j m)"
    unfolding entries_ok_def
  proof (intro allI impI)
    fix n k
    assume n: "map_of (jm_cancelFuncs (start_job j m)) n = Some k"
    show "k < length (jm_runs (start_job j m)) \<and> job_name (rn_job (jm_runs (start_job j m) ! k)) = n \<and>
      (\<not> jm_done (start_job j m) \<longrightarrow> \<not> rn_cancelled (jm_runs (start_job j m) ! k))"
    proof (cases "n = job_name j")
      case True
      then show ?thesis using n by (simp add: begun len nth)
    next
      case False
      with n entries have "k < length ?runs" "job_name (rn_job (?runs ! k)) = n" "\<not> jm_done m \<longrightarrow> \<not> rn_cancelled (?runs ! k)"
        by (simp_all add: begun entries_ok_def)
      then show ?thesis by (simp add: len nth)
    qed
  qed
  moreover have "runs_ok (start_job j m)"
    unfolding runs_ok_def
  proof (intro allI impI)
    fix k
    assume k: "k < length (jm_runs (start_job j m))"
    show "rn_job (jm_runs (start_job j m) ! k) \<in> set (jm_jobs (start_job j m)) \<and>
      (\<not> rn_cancelled (jm_runs (start_job j m) ! k) \<longrightarrow>
       map_of (jm_cancelFuncs (start_job j m)) (job_name (rn_job (jm_runs (start_job j m) ! k))) = Some k)"
    proof (cases "k = length ?runs")
      case True
      then show ?thesis using assms(2) by (simp add: nth begun)
    next
      case False
      then have old: "k < length ?runs" using k by (simp add: len)
      then have "rn_job (?runs ! k) \<in> set (jm_jobs m)" "\<not> rn_cancelled (?runs ! k) \<longrightarrow> map_of ?cf (job_name (rn_job (?runs ! k))) = Some k"
        using runs by (simp_all add: runs_ok_def)
      then show ?thesis
        using None old by (auto simp: nth begun)
    qed
  qed
  ultimately show ?thesis
    by (simp add: well_kept_def)
qed (use assms in \<open>simp add: start_job_def\<close>)

lemma stop_job_well:
  assumes "well_kept m"
  shows "well_kept (stop_job j m)"
proof (cases "map_of (jm_cancelFuncs m) (job_name j)")
  case (Some k)
  then have k: "k < length (jm_runs m)" "job_name (rn_job (jm_runs m ! k)) = job_name j"
    using assms by (auto simp: well_kept_def entries_ok_def)
  let ?cf = "jm_cancelFuncs m" and ?runs = "jm_runs m"
  have stop: "jm_runs (stop_job j m) = ?runs[k := (?runs ! k)\<lparr>rn_cancelled := True\<rparr>]"
    "map_of (jm_cancelFuncs (stop_job j m)) n = (if n = job_name j then None else map_of ?cf n)" for n
    using Some by (simp_all add: stop_job_def delete_conv')
  have nth: "rn_job (jm_runs (stop_job j m) ! i) = rn_job (?runs ! i)"
    "rn_cancelled (jm_runs (stop_job j m) ! i) \<longleftrightarrow> rn_cancelled (?runs ! i) \<or> i = k" for i
    using k by (simp_all add: stop nth_update_if)
  have len: "length (jm_runs (stop_job j m)) = length ?runs"
    by (simp add: stop)
  have entries: "entries_ok m" and runs: "runs_ok m"
    using assms by (simp_all add: well_kept_def)
  have "entries_ok (stop_job j m)"
    unfolding entries_ok_def nth len stop(2) using entries k(2) by (auto simp: entries_ok_def)
  moreover have "runs_ok (stop_job j m)"
    unfolding runs_ok_def nth len stop(2) using runs Some by (auto simp: runs_ok_def)
  ultimately show ?thesis
    by (simp add: well_kept_def)
qed (use assms in \<open>simp add: stop_job_def\<close>)

lemma fold_well:
  assumes "\<And>j m. j \<in> set js \<Longrightarrow> well_kept m \<Longrightarrow> jm_jobs m = J \<Longrightarrow> well_kept (g j m) \<and> jm_jobs (g j m) = J"
  shows "well_kept m \<Longrightarrow> jm_jobs m = J \<Longrightarrow> well_kept (fold g js m)"
  using assms by (induction js arbitrary: m) auto

lemma starts_well: "well_kept m \<Longrightarrow> well_kept (startLeaderJobs m)" "well_kept m \<Longrightarrow> well_kept (startNonLeaderJobs m)"
  unfolding startLeaderJobs_def startNonLeaderJobs_def
  by (rule fold_well [where J = "jm_jobs m"]; auto simp: start_job_well)+

lemma stops_well: "well_kept m \<Longrightarrow> well_kept (stopLeaderJobs m)" "well_kept m \<Longrightarrow> well_kept (stopAllJobs m)"
  unfolding stopLeaderJobs_def stopAllJobs_def
  by (rule fold_well [where J = "jm_jobs m"]; auto simp: stop_job_well)+

lemma well_kept_flags [simp]:
  "well_kept (m\<lparr>jm_monitor := a\<rparr>) = well_kept m" "well_kept (m\<lparr>jm_wasLeader := b\<rparr>) = well_kept m"
  by (simp_all add: well_kept_def entries_ok_def runs_ok_def)

lemma ended_nth [simp]:
  "rn_job (xs[k := (xs ! k)\<lparr>rn_ended := b\<rparr>] ! i) = rn_job (xs ! i)"
  "rn_cancelled (xs[k := (xs ! k)\<lparr>rn_ended := b\<rparr>] ! i) = rn_cancelled (xs ! i)"
  by (simp_all add: nth_update_if)

lemma on_event_well:
  assumes "well_kept m"
  shows "well_kept (on_event e m)"
proof (cases e)
  case (Tick b)
  with assms show ?thesis by (simp add: monitor_tick_def Let_def starts_well stops_well)
next
  case (Ends k)
  with assms show ?thesis
    by (auto simp: well_kept_def entries_ok_def runs_ok_def nth_list_update split: if_splits)
next
  case CancelContext
  with assms show ?thesis by (auto simp: well_kept_def entries_ok_def runs_ok_def)
next
  case MonitorSees
  with assms show ?thesis by (simp add: monitor_done_def stops_well)
qed

lemma events_well: "well_kept m \<Longrightarrow> well_kept (fold on_event es m)"
  by (induction es arbitrary: m) (simp_all add: on_event_well)

lemma fold_Register: "fold Register js m = m\<lparr>jm_jobs := jm_jobs m @ js\<rparr>"
  by (induction js arbitrary: m) (simp_all add: Register_def)

definition started :: "bool \<Rightarrow> 'w job list \<Rightarrow> 'w job_manager" where
  "started has_election js = manager_Start has_election (fold Register js NewJobManager)"

lemma started_well: "well_kept (started b js)"
proof -
  have "well_kept (NewJobManager\<lparr>jm_jobs := js\<rparr>)"
    by (simp add: NewJobManager_def well_kept_def entries_ok_def runs_ok_def)
  then show ?thesis
    by (simp add: started_def manager_Start_def Let_def fold_Register NewJobManager_def starts_well)
qed

section \<open>What the monitor keeps\<close>

lemma stopped_entries: "j \<in> set js \<Longrightarrow> map_of (jm_cancelFuncs (fold stop_job js m)) (job_name j) = None"
proof -
  have one: "map_of (jm_cancelFuncs (stop_job j m)) n = (if n = job_name j then None else map_of (jm_cancelFuncs m) n)" for j m n
    by (auto simp: stop_job_def delete_conv' split: option.split)
  have keep: "map_of (jm_cancelFuncs m) n = None \<Longrightarrow> map_of (jm_cancelFuncs (fold stop_job xs m)) n = None" for xs n m
    by (induction xs arbitrary: m) (simp_all add: one)
  show "j \<in> set js \<Longrightarrow> ?thesis"
    by (induction js arbitrary: m) (auto simp: one keep)
qed

lemma started_entries: "j \<in> set js \<Longrightarrow> map_of (jm_cancelFuncs (fold start_job js m)) (job_name j) \<noteq> None"
proof -
  have one: "dom (map_of (jm_cancelFuncs (start_job j m))) = insert (job_name j) (dom (map_of (jm_cancelFuncs m)))" for j m
    by (auto simp: start_job_def update_conv')
  have "dom (map_of (jm_cancelFuncs (fold start_job js m))) = job_name ` set js \<union> dom (map_of (jm_cancelFuncs m))"
    by (induction js arbitrary: m) (simp_all add: one)
  then show "j \<in> set js \<Longrightarrow> ?thesis"
    by blast
qed

definition leader_idle :: "'w job_manager \<Rightarrow> bool" where
  "leader_idle m \<longleftrightarrow> (\<forall>r \<in> set (jm_runs m). job_leadership (rn_job r) \<longrightarrow> rn_cancelled r)"

definition leader_busy :: "'w job_manager \<Rightarrow> bool" where
  "leader_busy m \<longleftrightarrow> (\<forall>j \<in> set (jm_jobs m). job_leadership j \<longrightarrow> map_of (jm_cancelFuncs m) (job_name j) \<noteq> None)"

lemma stopLeaderJobs_idle: "well_kept m \<Longrightarrow> leader_idle (stopLeaderJobs m)"
  using stops_well(1) [of m] stopped_entries [of _ "filter job_leadership (jm_jobs m)" m]
  by (fastforce simp: leader_idle_def in_set_conv_nth [of _ "jm_runs _"] well_kept_def runs_ok_def stopLeaderJobs_def)

lemma startLeaderJobs_busy: "leader_busy (startLeaderJobs m)"
  using started_entries [of _ "filter job_leadership (jm_jobs m)" m] by (auto simp: leader_busy_def startLeaderJobs_def)


lemma leader_idle_event:
  assumes "well_kept m" and "jm_monitor m \<Longrightarrow> \<not> jm_wasLeader m \<Longrightarrow> leader_idle m" and "jm_monitor (on_event e m)"
    and "\<not> jm_wasLeader (on_event e m)"
  shows "leader_idle (on_event e m)"
proof (cases e)
  case (Tick b)
  with assms show ?thesis
    using stopLeaderJobs_idle [OF assms(1)]
    by (auto simp: monitor_tick_def Let_def leader_idle_def split: if_splits)
next
  case (Ends k)
  with assms have "leader_idle m" by simp
  with Ends show ?thesis
    by (simp add: leader_idle_def all_set_conv_all_nth)
next
  case CancelContext
  then show ?thesis by (simp add: leader_idle_def)
next
  case MonitorSees
  with assms show ?thesis by (simp add: monitor_done_def split: if_splits)
qed

lemma leader_busy_event:
  assumes "leader_busy m \<or> \<not> (jm_monitor m \<and> jm_wasLeader m)" and "jm_monitor (on_event e m)" and "jm_wasLeader (on_event e m)"
  shows "leader_busy (on_event e m)"
proof (cases e)
  case (Tick b)
  with assms show ?thesis
    using startLeaderJobs_busy [of m] by (auto simp: monitor_tick_def Let_def leader_busy_def split: if_splits)
next
  case MonitorSees
  with assms show ?thesis by (simp add: monitor_done_def split: if_splits)
qed (use assms in \<open>auto simp: leader_busy_def\<close>)

lemma events_monitor:
  defines "ok \<equiv> \<lambda>m. well_kept m \<and> (jm_monitor m \<longrightarrow> (if jm_wasLeader m then leader_busy m else leader_idle m))"
  shows "ok m \<Longrightarrow> ok (fold on_event es m)"
proof (induction es arbitrary: m)
  case (Cons e es)
  have "ok (on_event e m)"
    using Cons.prems on_event_well [of m e] leader_idle_event [of m e] leader_busy_event [of m e]
    by (auto simp: ok_def split: if_splits)
  with Cons.IH show ?case by simp
qed simp


lemma started_ok:
  "well_kept (started True js) \<and>
   (jm_monitor (started True js) \<longrightarrow> (if jm_wasLeader (started True js) then leader_busy (started True js) else leader_idle (started True js)))"
proof -
  have one: "rn_job ` set (jm_runs (start_job j m)) \<subseteq> insert j (rn_job ` set (jm_runs m))" for j and m :: "'w job_manager"
    by (auto simp: start_job_def)
  have "rn_job ` set (jm_runs (fold start_job xs m)) \<subseteq> set xs \<union> rn_job ` set (jm_runs m)" for xs and m :: "'w job_manager"
  proof (induction xs arbitrary: m)
    case (Cons x xs)
    from Cons.IH [of "start_job x m"] one [of x m] show ?case by auto
  qed simp
  from this [of "filter (\<lambda>j. \<not> job_leadership j) js" "NewJobManager\<lparr>jm_jobs := js\<rparr>"]
  have "leader_idle (started True js)"
    by (fastforce simp: leader_idle_def started_def manager_Start_def Let_def fold_Register NewJobManager_def startNonLeaderJobs_def)
  moreover have "\<not> jm_wasLeader (started True js)"
    by (simp add: started_def manager_Start_def Let_def)
  ultimately show ?thesis by (simp add: started_well)
qed

section \<open>What the manager guarantees\<close>

text \<open>
  C17: At most one run per job. Whatever happens to a started manager, before and after a \<open>Shutdown\<close>, two
  goroutines that have not been cancelled never run jobs of the same name.
\<close>

theorem one_run_per_job:
  assumes "m = fold on_event later (stopAllJobs (fold on_event earlier (started has_election js))) \<or>
      m = fold on_event earlier (started has_election js)"
    and "k < length (jm_runs m)" and "l < length (jm_runs m)"
    and "\<not> rn_cancelled (jm_runs m ! k)" and "\<not> rn_cancelled (jm_runs m ! l)"
    and "job_name (rn_job (jm_runs m ! k)) = job_name (rn_job (jm_runs m ! l))"
  shows "k = l"
proof -
  have "runs_ok m"
    using assms(1) events_well started_well stops_well(2) unfolding well_kept_def by metis
  then have "map_of (jm_cancelFuncs m) (job_name (rn_job (jm_runs m ! i))) = Some i"
    if "i < length (jm_runs m)" "\<not> rn_cancelled (jm_runs m ! i)" for i
    using that by (simp add: runs_ok_def)
  from this [OF assms(2,4)] this [OF assms(3,5)] assms(6) show ?thesis
    by (metis option.inject)
qed


lemma monitor_stays:
  "jm_monitor m \<Longrightarrow> \<not> jm_done m \<Longrightarrow> CancelContext \<notin> set es \<Longrightarrow> jm_monitor (fold on_event es m) \<and> \<not> jm_done (fold on_event es m)"
proof (induction es arbitrary: m)
  case (Cons e es)
  have "jm_monitor (on_event e m) \<and> \<not> jm_done (on_event e m)"
    using Cons.prems by (cases e) (auto simp: monitor_tick_def Let_def startLeaderJobs_def stopLeaderJobs_def)
  with Cons show ?case by simp
qed simp

lemma never_released:
  "jm_monitor m \<Longrightarrow> \<not> jm_done m \<Longrightarrow> CancelContext \<notin> set es \<Longrightarrow> \<not> released es m"
proof (induction es arbitrary: m)
  case (Cons e es)
  then show ?case
    using monitor_stays [of m "[e]"] by (auto simp: wait_group_def)
qed (simp add: wait_group_def)

lemma started_flags: "jm_monitor (started b js) = b" "\<not> jm_done (started b js)"
  by (simp_all add: started_def manager_Start_def Let_def fold_Register NewJobManager_def startNonLeaderJobs_def startLeaderJobs_def)

lemma no_monitor: "\<not> jm_monitor m \<Longrightarrow> \<not> jm_monitor (fold on_event es m)"
proof (induction es arbitrary: m)
  case (Cons e es)
  then show ?case by (cases e) auto
qed simp

lemma released_at_end: "wait_group (fold on_event es m) = 0 \<Longrightarrow> released es m"
  by (induction es arbitrary: m) auto

text \<open>
  C36: Shutting down with an election always waits out its timer. The monitor counts in the wait group and
  only ends with the context of the server, which a \<open>Shutdown\<close> does not cancel: as long as nobody else
  does, the wait group is never released, although every job may have ended. Without an election it is
  released as soon as every job has.
\<close>

theorem shutdown_waits_for_the_monitor:
  assumes "CancelContext \<notin> set earlier" and "CancelContext \<notin> set later"
  shows "\<not> fst (Shutdown later (fold on_event earlier (started True js))) \<and>
    ((\<forall>r \<in> set (jm_runs (snd (Shutdown later (fold on_event earlier (started False js))))). rn_ended r) \<longrightarrow>
     fst (Shutdown later (fold on_event earlier (started False js))))"
proof -
  let ?m = "fold on_event earlier (started True js)" and ?n = "fold on_event earlier (started False js)"
  have "jm_monitor (stopAllJobs ?m)" "\<not> jm_done (stopAllJobs ?m)"
    using monitor_stays [OF _ _ assms(1), of "started True js"] by (simp_all add: started_flags stopAllJobs_def)
  then have "\<not> fst (Shutdown later ?m)"
    using assms(2) by (simp add: Shutdown_def never_released)
  moreover have "\<not> jm_monitor (fold on_event later (stopAllJobs ?n))"
    by (intro no_monitor) (simp add: stopAllJobs_def no_monitor started_flags)
  then have "wait_group (fold on_event later (stopAllJobs ?n)) = 0" if "\<forall>r \<in> set (jm_runs (snd (Shutdown later ?n))). rn_ended r"
    using that by (simp add: Shutdown_def Let_def wait_group_def)
  then have "(\<forall>r \<in> set (jm_runs (snd (Shutdown later ?n))). rn_ended r) \<longrightarrow> fst (Shutdown later ?n)"
    by (simp add: Shutdown_def Let_def released_at_end)
  ultimately show ?thesis by blast
qed

section \<open>Witnesses\<close>

text \<open>A job for leaders and one for every instance.\<close>

definition idle_job :: "string \<Rightarrow> bool \<Rightarrow> unit job" where
  "idle_job n leader = \<lparr>job_name = n, job_leadership = leader, job_interval = 1, job_pass = (\<lambda>w. (None, w)),
     job_no_interval = context_canceled, job_cancelled = Some context_canceled\<rparr>"

definition two_jobs :: "unit job list" where
  "two_jobs = [idle_job ''sync'' True, idle_job ''log'' False]"

definition elected :: "unit job_manager" where
  "elected = on_event (Tick True) (started True two_jobs)"

lemma two_started: "started True two_jobs = \<lparr>jm_jobs = two_jobs, jm_cancelFuncs = [(''log'', 0)],
    jm_runs = [\<lparr>rn_job = idle_job ''log'' False, rn_cancelled = False, rn_ended = False\<rparr>],
    jm_done = False, jm_monitor = True, jm_wasLeader = False\<rparr>"
  by (simp add: started_def manager_Start_def Let_def fold_Register NewJobManager_def startNonLeaderJobs_def start_job_def
      Register_def two_jobs_def idle_job_def)

lemma elected_runs: "jm_runs elected =
    [\<lparr>rn_job = idle_job ''log'' False, rn_cancelled = False, rn_ended = False\<rparr>,
     \<lparr>rn_job = idle_job ''sync'' True, rn_cancelled = False, rn_ended = False\<rparr>]"
  unfolding elected_def two_started by (simp add: monitor_tick_def startLeaderJobs_def two_jobs_def start_job_def idle_job_def)

theorem one_run_per_job_witness:
  "{k. k < length (jm_runs elected) \<and> \<not> rn_cancelled (jm_runs elected ! k) \<and> job_name (rn_job (jm_runs elected ! k)) = ''log''} = {0}"
proof (intro equalityI subsetI)
  have e: "elected = fold on_event [Tick True] (started True two_jobs)"
    by (simp add: elected_def)
  have z: "0 < length (jm_runs elected)" "\<not> rn_cancelled (jm_runs elected ! 0)" "job_name (rn_job (jm_runs elected ! 0)) = ''log''"
    by (simp_all add: elected_runs idle_job_def)
  fix k
  assume "k \<in> {k. k < length (jm_runs elected) \<and> \<not> rn_cancelled (jm_runs elected ! k) \<and> job_name (rn_job (jm_runs elected ! k)) = ''log''}"
  then show "k \<in> {0}"
    using one_run_per_job [of elected "[]" "[Tick True]" True two_jobs k 0] e z by simp
qed (simp add: elected_runs idle_job_def)


theorem shutdown_waits_for_the_monitor_witness:
  "\<not> fst (Shutdown [Ends 0, Ends 1] elected)"
  using shutdown_waits_for_the_monitor [of "[Tick True]" "[Ends 0, Ends 1]" two_jobs] by (simp add: elected_def)

end
