(* ===== verification/Election.thy ===== *)
theory Election
  imports Config_Schema
begin

text \<open>
  The leader election of \<open>internal/distributed\<close>: the instances of the server compete for one Redis key with
  an expiry, and the one that holds it runs the background jobs.

  Parameter: the Redis client, on the state of the server. A command takes whether its context is
  cancelled, and the time. \<open>lc_Run\<close> runs a script, given as its effect on the server; \<open>lc_get\<close> and
  \<open>lc_del\<close> are \<open>redis.call\<close> inside a script. A campaign is one step: the commands of another instance
  do not come between its own, although nothing in the code prevents it.
\<close>

section \<open>The election of one instance\<close>

record 's lease_client =
  lc_SetNX :: "bool \<Rightarrow> time \<Rightarrow> string \<Rightarrow> string \<Rightarrow> duration \<Rightarrow> 's \<Rightarrow> bool result \<times> 's"
  lc_Get :: "bool \<Rightarrow> time \<Rightarrow> string \<Rightarrow> 's \<Rightarrow> string result \<times> 's"
  lc_Expire :: "bool \<Rightarrow> time \<Rightarrow> string \<Rightarrow> duration \<Rightarrow> 's \<Rightarrow> bool result \<times> 's"
  lc_Run :: "bool \<Rightarrow> time \<Rightarrow> ('s \<Rightarrow> int \<times> 's) \<Rightarrow> 's \<Rightarrow> int result \<times> 's"
  lc_get :: "time \<Rightarrow> string \<Rightarrow> 's \<Rightarrow> string option"
  lc_del :: "time \<Rightarrow> string \<Rightarrow> 's \<Rightarrow> int \<times> 's"

record election =
  el_InstanceID :: string
  el_TTL :: duration
  el_isLeader :: bool

definition leaderKey :: string where
  "leaderKey = ''leader''"

definition IsLeader :: "election \<Rightarrow> bool" where
  "IsLeader e = el_isLeader e"

definition campaign :: "'s lease_client \<Rightarrow> bool \<Rightarrow> time \<Rightarrow> election \<Rightarrow> 's \<Rightarrow> election \<times> 's" where
  "campaign rc cancelled t e s =
     (case lc_SetNX rc cancelled t leaderKey (el_InstanceID e) (el_TTL e) s of
        (Inl err, s1) \<Rightarrow> (e, s1)
      | (Inr True, s1) \<Rightarrow> (e\<lparr>el_isLeader := True\<rparr>, s1)
      | (Inr False, s1) \<Rightarrow>
          (case lc_Get rc cancelled t leaderKey s1 of
             (Inr currentLeader, s2) \<Rightarrow>
               (if currentLeader = el_InstanceID e
                then (e\<lparr>el_isLeader := True\<rparr>, snd (lc_Expire rc cancelled t leaderKey (el_TTL e) s2))
                else (e\<lparr>el_isLeader := False\<rparr>, s2))
           | (Inl err, s2) \<Rightarrow> (e\<lparr>el_isLeader := False\<rparr>, s2)))"

definition resign_script :: "'s lease_client \<Rightarrow> time \<Rightarrow> string \<Rightarrow> string \<Rightarrow> 's \<Rightarrow> int \<times> 's" where
  "resign_script rc t key arg s = (if lc_get rc t key s = Some arg then lc_del rc t key s else (0, s))"

definition resign :: "'s lease_client \<Rightarrow> bool \<Rightarrow> time \<Rightarrow> election \<Rightarrow> 's \<Rightarrow> election \<times> 's" where
  "resign rc cancelled t e s =
     (if \<not> el_isLeader e then (e, s)
      else (e\<lparr>el_isLeader := False\<rparr>, snd (lc_Run rc cancelled t (resign_script rc t leaderKey (el_InstanceID e)) s)))"

definition campaign_interval :: "duration \<Rightarrow> duration" where
  "campaign_interval ttl = (if ttl \<le> 0 \<or> ttl div 3 \<le> 0 then DefaultDistributedTTL div 3 else ttl div 3)"

text \<open>
  \<open>Start\<close>: a campaign at once and one at every tick, and when the context is done a resignation with that
  context. \<open>ticks\<close> are the times of the campaigns with what the rest of the system has done to Redis
  before each.
\<close>

fun campaigns :: "'s lease_client \<Rightarrow> (time \<times> ('s \<Rightarrow> 's)) list \<Rightarrow> election \<times> 's \<Rightarrow> election \<times> 's" where
  "campaigns rc [] es = es"
| "campaigns rc ((t, other) # ticks) es = campaigns rc ticks (campaign rc False t (fst es) (other (snd es)))"

definition Start :: "'s lease_client \<Rightarrow> (time \<times> ('s \<Rightarrow> 's)) list \<Rightarrow> time \<Rightarrow> election \<Rightarrow> 's \<Rightarrow> election \<times> 's" where
  "Start rc ticks t_done e s = (case campaigns rc ticks (e, s) of (e1, s1) \<Rightarrow> resign rc True t_done e1 s1)"

section \<open>What Redis promises\<close>

text \<open>
  \<open>lease\<close> reads the leader key from the server: its value and the time it expires. \<open>SET NX EX\<close>
  succeeds only if the key is not there, \<open>EXPIRE\<close> only moves the expiry of a key that is, and a
  command whose reply is an error has had its effect or none. A script is run at most once, and
  with a cancelled context not at all.
\<close>

definition live :: "('s \<Rightarrow> (string \<times> time) option) \<Rightarrow> time \<Rightarrow> 's \<Rightarrow> string option" where
  "live lease t s = (case lease s of None \<Rightarrow> None | Some (v, x) \<Rightarrow> if t < x then Some v else None)"

definition setnx_law :: "'s lease_client \<Rightarrow> ('s \<Rightarrow> (string \<times> time) option) \<Rightarrow> bool" where
  "setnx_law rc lease \<longleftrightarrow>
     (\<forall>c t v ttl s. case lc_SetNX rc c t leaderKey v ttl s of
        (Inr True, s1) \<Rightarrow> live lease t s = None \<and> lease s1 = Some (v, t + ttl)
      | (Inr False, s1) \<Rightarrow> live lease t s \<noteq> None \<and> lease s1 = lease s
      | (Inl e, s1) \<Rightarrow> lease s1 = lease s \<or> live lease t s = None \<and> lease s1 = Some (v, t + ttl))"

definition get_law :: "'s lease_client \<Rightarrow> ('s \<Rightarrow> (string \<times> time) option) \<Rightarrow> bool" where
  "get_law rc lease \<longleftrightarrow>
     (\<forall>c t s. case lc_Get rc c t leaderKey s of
        (Inr v, s1) \<Rightarrow> live lease t s = Some v \<and> lease s1 = lease s
      | (Inl e, s1) \<Rightarrow> lease s1 = lease s)"

definition expire_law :: "'s lease_client \<Rightarrow> ('s \<Rightarrow> (string \<times> time) option) \<Rightarrow> bool" where
  "expire_law rc lease \<longleftrightarrow>
     (\<forall>c t ttl s. case lc_Expire rc c t leaderKey ttl s of
        (Inr True, s1) \<Rightarrow> (\<exists>v. live lease t s = Some v \<and> lease s1 = Some (v, t + ttl))
      | (Inr False, s1) \<Rightarrow> lease s1 = lease s
      | (Inl e, s1) \<Rightarrow> lease s1 = lease s \<or> (\<exists>v. live lease t s = Some v \<and> lease s1 = Some (v, t + ttl)))"

definition script_law :: "'s lease_client \<Rightarrow> ('s \<Rightarrow> (string \<times> time) option) \<Rightarrow> bool" where
  "script_law rc lease \<longleftrightarrow>
     (\<forall>c t script s. case lc_Run rc c t script s of
        (Inr n, s1) \<Rightarrow> \<not> c \<and> s1 = snd (script s)
      | (Inl e, s1) \<Rightarrow> lease s1 = lease s \<or> \<not> c \<and> s1 = snd (script s)) \<and>
     (\<forall>t s. lc_get rc t leaderKey s = live lease t s) \<and>
     (\<forall>t s. lease (snd (lc_del rc t leaderKey s)) = None)"

definition redis_lease :: "'s lease_client \<Rightarrow> ('s \<Rightarrow> (string \<times> time) option) \<Rightarrow> bool" where
  "redis_lease rc lease \<longleftrightarrow> setnx_law rc lease \<and> get_law rc lease \<and> expire_law rc lease \<and> script_law rc lease"

section \<open>What a campaign and a resignation do to the lease\<close>

text \<open>A campaign that has renewed the lease for its full time, as the server sees it.\<close>

definition renews :: "'s lease_client \<Rightarrow> bool \<Rightarrow> time \<Rightarrow> election \<Rightarrow> 's \<Rightarrow> bool" where
  "renews rc cancelled t e s =
     (case lc_SetNX rc cancelled t leaderKey (el_InstanceID e) (el_TTL e) s of
        (Inl err, s1) \<Rightarrow> False
      | (Inr True, s1) \<Rightarrow> True
      | (Inr False, s1) \<Rightarrow>
          (case lc_Get rc cancelled t leaderKey s1 of
             (Inr currentLeader, s2) \<Rightarrow>
               currentLeader = el_InstanceID e \<and> fst (lc_Expire rc cancelled t leaderKey (el_TTL e) s2) = Inr True
           | (Inl err, s2) \<Rightarrow> False))"

lemma SetNX_cases:
  assumes "redis_lease rc lease" and "lc_SetNX rc c t leaderKey v ttl s = (r, s1)"
  obtains (taken) "r = Inr True" "live lease t s = None" "lease s1 = Some (v, t + ttl)"
  | (held) "r = Inr False" "live lease t s \<noteq> None" "lease s1 = lease s"
  | (failed) e where "r = Inl e" "lease s1 = lease s \<or> live lease t s = None \<and> lease s1 = Some (v, t + ttl)"
proof -
  have "\<forall>c t v ttl s. case lc_SetNX rc c t leaderKey v ttl s of
        (Inr True, s1) \<Rightarrow> live lease t s = None \<and> lease s1 = Some (v, t + ttl)
      | (Inr False, s1) \<Rightarrow> live lease t s \<noteq> None \<and> lease s1 = lease s
      | (Inl e, s1) \<Rightarrow> lease s1 = lease s \<or> live lease t s = None \<and> lease s1 = Some (v, t + ttl)"
    using assms(1) unfolding redis_lease_def setnx_law_def by (elim conjE)
  note law = this [THEN spec [of _ c], THEN spec [of _ t], THEN spec [of _ v], THEN spec [of _ ttl], THEN spec [of _ s]]
  show thesis
  proof (cases r)
    case (Inl e)
    with law assms(2) show thesis by (auto intro: failed)
  next
    case (Inr b)
    with law assms(2) show thesis by (cases b) (auto intro: taken held)
  qed
qed

lemma Get_lease:
  assumes "redis_lease rc lease" and "lc_Get rc c t leaderKey s = (r, s1)"
  shows "lease s1 = lease s" and "r = Inr v \<Longrightarrow> live lease t s = Some v"
proof -
  have law: "case (r, s1) of (Inr v, s1) \<Rightarrow> live lease t s = Some v \<and> lease s1 = lease s | (Inl e, s1) \<Rightarrow> lease s1 = lease s"
  proof -
    have "\<forall>c t s. case lc_Get rc c t leaderKey s of
        (Inr v, s1) \<Rightarrow> live lease t s = Some v \<and> lease s1 = lease s
      | (Inl e, s1) \<Rightarrow> lease s1 = lease s"
      using assms(1) unfolding redis_lease_def get_law_def by (elim conjE)
    from this [THEN spec [of _ c], THEN spec [of _ t], THEN spec [of _ s]] show ?thesis
      unfolding assms(2) .
  qed
  show "lease s1 = lease s" "r = Inr v \<Longrightarrow> live lease t s = Some v"
    using law by (auto split: sum.splits)
qed

lemma Expire_lease:
  assumes "redis_lease rc lease" and "lc_Expire rc c t leaderKey ttl s = (r, s1)"
  shows "lease s1 = lease s \<or> (\<exists>v. live lease t s = Some v \<and> lease s1 = Some (v, t + ttl))"
    and "r = Inr True \<Longrightarrow> \<exists>v. live lease t s = Some v \<and> lease s1 = Some (v, t + ttl)"
proof -
  have law: "case (r, s1) of
        (Inr True, s1) \<Rightarrow> (\<exists>v. live lease t s = Some v \<and> lease s1 = Some (v, t + ttl))
      | (Inr False, s1) \<Rightarrow> lease s1 = lease s
      | (Inl e, s1) \<Rightarrow> lease s1 = lease s \<or> (\<exists>v. live lease t s = Some v \<and> lease s1 = Some (v, t + ttl))"
  proof -
    have "\<forall>c t ttl s. case lc_Expire rc c t leaderKey ttl s of
        (Inr True, s1) \<Rightarrow> (\<exists>v. live lease t s = Some v \<and> lease s1 = Some (v, t + ttl))
      | (Inr False, s1) \<Rightarrow> lease s1 = lease s
      | (Inl e, s1) \<Rightarrow> lease s1 = lease s \<or> (\<exists>v. live lease t s = Some v \<and> lease s1 = Some (v, t + ttl))"
      using assms(1) unfolding redis_lease_def expire_law_def by (elim conjE)
    from this [THEN spec [of _ c], THEN spec [of _ t], THEN spec [of _ ttl], THEN spec [of _ s]] show ?thesis
      unfolding assms(2) .
  qed
  show "lease s1 = lease s \<or> (\<exists>v. live lease t s = Some v \<and> lease s1 = Some (v, t + ttl))"
    "r = Inr True \<Longrightarrow> \<exists>v. live lease t s = Some v \<and> lease s1 = Some (v, t + ttl)"
    using law by (auto split: sum.splits bool.splits)
qed

lemma live_cong: "lease s1 = lease s \<Longrightarrow> live lease t s1 = live lease t s"
  by (simp add: live_def)

lemma campaign_effect:
  assumes "redis_lease rc lease" and "campaign rc c t e s = (e', s')"
  shows "lease s' = lease s \<or> live lease t s \<in> {None, Some (el_InstanceID e)} \<and> lease s' = Some (el_InstanceID e, t + el_TTL e)"
    and "renews rc c t e s \<Longrightarrow> lease s' = Some (el_InstanceID e, t + el_TTL e)"
proof -
  obtain r s1 where nx: "lc_SetNX rc c t leaderKey (el_InstanceID e) (el_TTL e) s = (r, s1)" by fastforce
  obtain g s2 where g: "lc_Get rc c t leaderKey s1 = (g, s2)" by fastforce
  obtain x s3 where x: "lc_Expire rc c t leaderKey (el_TTL e) s2 = (x, s3)" by fastforce
  note run = assms(2) nx g x
  note get = Get_lease [OF assms(1) g] and expire = Expire_lease [OF assms(1) x]
  have "(lease s' = lease s \<or> live lease t s \<in> {None, Some (el_InstanceID e)} \<and> lease s' = Some (el_InstanceID e, t + el_TTL e)) \<and>
    (renews rc c t e s \<longrightarrow> lease s' = Some (el_InstanceID e, t + el_TTL e))"
  proof (rule SetNX_cases [OF assms(1) nx], goal_cases taken held failed)
    case held
    note same = live_cong [where lease = lease and t = t, OF get(1)] live_cong [where lease = lease and t = t, OF held(3)]
    show ?thesis
      using run held get expire same by (cases g; cases "g = Inr (el_InstanceID e)") (auto simp: campaign_def renews_def)
  qed (use run in \<open>auto simp: campaign_def renews_def\<close>)
  then show "lease s' = lease s \<or> live lease t s \<in> {None, Some (el_InstanceID e)} \<and> lease s' = Some (el_InstanceID e, t + el_TTL e)"
    "renews rc c t e s \<Longrightarrow> lease s' = Some (el_InstanceID e, t + el_TTL e)"
    by blast+
qed

lemma resign_effect:
  assumes "redis_lease rc lease" and "resign rc c t e s = (e', s')"
  shows "lease s' = lease s \<or> \<not> c \<and> live lease t s = Some (el_InstanceID e) \<and> lease s' = None" and "\<not> el_isLeader e'"
proof -
  let ?script = "resign_script rc t leaderKey (el_InstanceID e)"
  obtain r s1 where run: "lc_Run rc c t ?script s = (r, s1)" by fastforce
  have "\<forall>c t script s. case lc_Run rc c t script s of
        (Inr n, s1) \<Rightarrow> \<not> c \<and> s1 = snd (script s)
      | (Inl e, s1) \<Rightarrow> lease s1 = lease s \<or> \<not> c \<and> s1 = snd (script s)"
    and laws: "lc_get rc t leaderKey s = live lease t s" "lease (snd (lc_del rc t leaderKey s)) = None"
    using assms(1) unfolding redis_lease_def script_law_def by (elim conjE, blast)+
  from this(1) [THEN spec [of _ c], THEN spec [of _ t], THEN spec [of _ ?script], THEN spec [of _ s]]
  have script: "lease s1 = lease s \<or> \<not> c \<and> s1 = snd (?script s)"
    unfolding run by (cases r) simp_all
  show "lease s' = lease s \<or> \<not> c \<and> live lease t s = Some (el_InstanceID e) \<and> lease s' = None" "\<not> el_isLeader e'"
    using assms(2) laws script run by (auto simp: resign_def resign_script_def split: if_splits)
qed

section \<open>The instances together\<close>

text \<open>
  The instances by their identifiers: whether each takes itself for the leader, and when it last renewed
  the lease. The clock moves, an instance campaigns, resigns or is restarted.
\<close>

record 's cluster =
  cl_redis :: 's
  cl_now :: time
  cl_leader :: "string \<Rightarrow> bool"
  cl_renewed :: "string \<Rightarrow> time option"

definition instance_of :: "duration \<Rightarrow> 's cluster \<Rightarrow> string \<Rightarrow> election" where
  "instance_of ttl c i = \<lparr>el_InstanceID = i, el_TTL = ttl, el_isLeader = cl_leader c i\<rparr>"

inductive cluster_step :: "'s lease_client \<Rightarrow> duration \<Rightarrow> 's cluster \<Rightarrow> 's cluster \<Rightarrow> bool" for rc ttl where
  clock: "cl_now c \<le> t \<Longrightarrow> cluster_step rc ttl c (c\<lparr>cl_now := t\<rparr>)"
| campaigns: "campaign rc cancelled (cl_now c) (instance_of ttl c i) (cl_redis c) = (e, s) \<Longrightarrow>
    cluster_step rc ttl c
      (c\<lparr>cl_redis := s, cl_leader := (cl_leader c)(i := el_isLeader e),
         cl_renewed := (if renews rc cancelled (cl_now c) (instance_of ttl c i) (cl_redis c)
                        then (cl_renewed c)(i := Some (cl_now c)) else cl_renewed c)\<rparr>)"
| resigns: "resign rc cancelled (cl_now c) (instance_of ttl c i) (cl_redis c) = (e, s) \<Longrightarrow>
    cluster_step rc ttl c
      (c\<lparr>cl_redis := s, cl_leader := (cl_leader c)(i := el_isLeader e), cl_renewed := (cl_renewed c)(i := None)\<rparr>)"
| restarts: "cluster_step rc ttl c (c\<lparr>cl_leader := (cl_leader c)(i := False), cl_renewed := (cl_renewed c)(i := None)\<rparr>)"

inductive cluster_run :: "'s lease_client \<Rightarrow> duration \<Rightarrow> 's cluster \<Rightarrow> 's cluster \<Rightarrow> bool" for rc ttl c0 where
  start: "cluster_run rc ttl c0 c0"
| step: "cluster_run rc ttl c0 c \<Longrightarrow> cluster_step rc ttl c d \<Longrightarrow> cluster_run rc ttl c0 d"

definition lease_inv :: "('s \<Rightarrow> (string \<times> time) option) \<Rightarrow> duration \<Rightarrow> 's cluster \<Rightarrow> bool" where
  "lease_inv lease ttl c \<longleftrightarrow>
     (\<forall>i r. cl_renewed c i = Some r \<longrightarrow>
        r \<le> cl_now c \<and> (cl_now c < r + ttl \<longrightarrow> (\<exists>x. lease (cl_redis c) = Some (i, x) \<and> r + ttl \<le> x)))"

text \<open>A change of the lease that only its holder or the taker of a free one can make keeps the invariant.\<close>

lemma lease_inv_change:
  assumes "lease_inv lease ttl c"
    and "lease s = lease (cl_redis c) \<or> live lease (cl_now c) (cl_redis c) \<in> {None, Some i} \<and>
      (lease s = Some (i, cl_now c + ttl) \<or> ren = None \<and> lease s = None)"
    and "ren = cl_renewed c i \<or> ren = None \<or> ren = Some (cl_now c) \<and> lease s = Some (i, cl_now c + ttl)"
  shows "lease_inv lease ttl (c\<lparr>cl_redis := s, cl_leader := l, cl_renewed := (cl_renewed c)(i := ren)\<rparr>)"
proof -
  have "r \<le> cl_now c \<and> (cl_now c < r + ttl \<longrightarrow> (\<exists>x. lease s = Some (j, x) \<and> r + ttl \<le> x))"
    if j: "((cl_renewed c)(i := ren)) j = Some r" for j r
  proof (cases "j = i \<and> ren \<noteq> cl_renewed c i")
    case True
    then show ?thesis using j assms(3) by auto
  next
    case False
    with j have old: "cl_renewed c j = Some r" by (auto split: if_splits)
    have inv: "r \<le> cl_now c" "cl_now c < r + ttl \<Longrightarrow> \<exists>x. lease (cl_redis c) = Some (j, x) \<and> r + ttl \<le> x"
      using assms(1) old by (auto simp: lease_inv_def)
    have "\<exists>x. lease s = Some (j, x) \<and> r + ttl \<le> x" if fresh: "cl_now c < r + ttl"
    proof (cases "lease s = lease (cl_redis c)")
      case False
      have "live lease (cl_now c) (cl_redis c) = Some j"
        using inv(2) [OF fresh] fresh by (auto simp: live_def)
      with False assms(2) have "j = i" "lease s = Some (i, cl_now c + ttl) \<or> ren = None"
        by auto
      with j inv(1) show ?thesis by auto
    qed (use inv(2) fresh in simp)
    with inv(1) show ?thesis by blast
  qed
  then show ?thesis by (simp add: lease_inv_def)
qed

lemma lease_inv_step:
  assumes "redis_lease rc lease" and "cluster_step rc ttl c d" and "lease_inv lease ttl c"
  shows "lease_inv lease ttl d"
  using assms(2)
proof cases
  case (clock t)
  with assms(3) show ?thesis
    by (fastforce simp: lease_inv_def)
next
  case (campaigns cancelled i e s)
  let ?ren = "if renews rc cancelled (cl_now c) (instance_of ttl c i) (cl_redis c) then Some (cl_now c) else cl_renewed c i"
  have d: "d = c\<lparr>cl_redis := s, cl_leader := (cl_leader c)(i := el_isLeader e), cl_renewed := (cl_renewed c)(i := ?ren)\<rparr>"
    using campaigns(1) by simp
  show ?thesis
    unfolding d using campaign_effect [OF assms(1) campaigns(2)]
    by (intro lease_inv_change assms(3)) (auto simp: instance_of_def)
next
  case (resigns cancelled i e s)
  show ?thesis
    unfolding resigns(1) using resign_effect [OF assms(1) resigns(2)]
    by (intro lease_inv_change assms(3)) (auto simp: instance_of_def)
next
  case (restarts i)
  have "lease_inv lease ttl (c\<lparr>cl_redis := cl_redis c, cl_leader := (cl_leader c)(i := False), cl_renewed := (cl_renewed c)(i := None)\<rparr>)"
    by (rule lease_inv_change [OF assms(3)]) auto
  with restarts show ?thesis by simp
qed

lemma cluster_run_inv:
  "cluster_run rc ttl c0 c \<Longrightarrow> redis_lease rc lease \<Longrightarrow> lease_inv lease ttl c0 \<Longrightarrow> lease_inv lease ttl c"
  by (induction rule: cluster_run.induct) (auto intro: lease_inv_step)

section \<open>Who is the leader\<close>

text \<open>
  C30: An answered campaign decides correctly. If Redis answers the \<open>SETNX\<close> and, where it is asked, the
  \<open>GET\<close> of a campaign, then afterwards the instance takes itself for the leader exactly when the
  unexpired leader key carries its identifier.
\<close>

theorem answered_campaign_decides:
  assumes "redis_lease rc lease" and "campaign rc c t e s = (e', s')" and "0 < el_TTL e"
    and "is_ok (fst (lc_SetNX rc c t leaderKey (el_InstanceID e) (el_TTL e) s))"
    and "is_ok (fst (lc_Get rc c t leaderKey (snd (lc_SetNX rc c t leaderKey (el_InstanceID e) (el_TTL e) s))))"
  shows "IsLeader e' \<longleftrightarrow> live lease t s' = Some (el_InstanceID e)"
proof -
  obtain r s1 where nx: "lc_SetNX rc c t leaderKey (el_InstanceID e) (el_TTL e) s = (r, s1)" by fastforce
  obtain v s2 where g: "lc_Get rc c t leaderKey s1 = (Inr v, s2)"
    using assms(5) nx by (cases "lc_Get rc c t leaderKey s1") (auto simp: is_ok_iff)
  obtain x s3 where x: "lc_Expire rc c t leaderKey (el_TTL e) s2 = (x, s3)" by fastforce
  note get = Get_lease [OF assms(1) g] and expire = Expire_lease [OF assms(1) x]
  show ?thesis
  proof (rule SetNX_cases [OF assms(1) nx], goal_cases taken held failed)
    case taken
    then show ?case using assms(2,3) nx by (auto simp: campaign_def IsLeader_def live_def)
  next
    case held
    have v: "live lease t s1 = Some v" "live lease t s2 = Some v"
      using get(2) live_cong [where lease = lease and t = t, OF get(1)] by simp_all
    have "live lease t s3 = Some v"
      using expire(1) v assms(3) by (auto simp: live_def split: if_splits)
    with held v show ?case
      using assms(2) nx g x by (auto simp: campaign_def IsLeader_def split: if_splits)
  next
    case (failed err)
    then show ?case using assms(4) nx by simp
  qed
qed


text \<open>
  A leader that cannot reach Redis stays leader. When \<open>SETNX\<close> returns an error the campaign changes
  nothing; once its lease has run out another instance is elected, and both take themselves for the leader
  until the first one reaches Redis again.
\<close>

theorem unreachable_leader_stays:
  assumes "redis_lease rc lease" and "IsLeader a"
    and "fst (lc_SetNX rc c t leaderKey (el_InstanceID a) (el_TTL a) s) = Inl err"
    and "lease s = Some (el_InstanceID a, x)" and "x \<le> t" and "t \<le> t'"
    and "campaign rc c t a s = (a', s1)" and "lease s1 = lease s"
    and "is_ok (fst (lc_SetNX rc False t' leaderKey (el_InstanceID b) (el_TTL b) s1))"
  shows "IsLeader a' \<and> IsLeader (fst (campaign rc False t' b s1))"
proof -
  have "a' = a"
    using assms(3,7) by (auto simp: campaign_def split: prod.splits)
  obtain r s2 where nx: "lc_SetNX rc False t' leaderKey (el_InstanceID b) (el_TTL b) s1 = (r, s2)" by fastforce
  have "live lease t' s1 = None"
    using assms(4-6,8) by (simp add: live_def)
  then have "r = Inr True"
    using assms(9) nx by (cases rule: SetNX_cases [OF assms(1) nx]) auto
  then show ?thesis
    using \<open>a' = a\<close> assms(2) nx by (simp add: campaign_def IsLeader_def)
qed

text \<open>
  Shutting down keeps the lease. \<open>Start\<close> resigns with the context whose end made it stop, so the
  script is never run: the key stays for the rest of its time, and no other instance that campaigns
  before it expires is elected.
\<close>

theorem shutdown_keeps_the_lease:
  assumes "redis_lease rc lease" and "Start rc ticks t_end e s = (e', s')"
    and "campaigns rc ticks (e, s) = (e1, s1)" and "lease s1 = Some (el_InstanceID e1, x)"
    and "t < x" and "el_InstanceID b \<noteq> el_InstanceID e1" and "\<not> IsLeader b"
  shows "\<not> IsLeader e' \<and> lease s' = lease s1 \<and> \<not> IsLeader (fst (campaign rc c t b s'))"
proof -
  have r: "resign rc True t_end e1 s1 = (e', s')"
    using assms(2,3) by (simp add: Start_def)
  have same: "lease s' = lease s1" "\<not> IsLeader e'"
    using resign_effect [OF assms(1) r] by (auto simp: IsLeader_def)
  have held: "live lease t s' = Some (el_InstanceID e1)"
    using same(1) assms(4,5) by (simp add: live_def)
  obtain r s2 where nx: "lc_SetNX rc c t leaderKey (el_InstanceID b) (el_TTL b) s' = (r, s2)" by fastforce
  obtain g s3 where g: "lc_Get rc c t leaderKey s2 = (g, s3)" by fastforce
  have "\<not> IsLeader (fst (campaign rc c t b s'))"
  proof (rule SetNX_cases [OF assms(1) nx], goal_cases taken held failed)
    case held2: held
    have "g \<noteq> Inr (el_InstanceID b)"
      using Get_lease(2) [OF assms(1) g] live_cong [where lease = lease and t = t, OF held2(3)] held assms(6) by auto
    with held2 show ?case
      using nx g assms(7) by (cases g) (auto simp: campaign_def IsLeader_def)
  qed (use nx held assms(7) in \<open>auto simp: campaign_def IsLeader_def\<close>)
  with same show ?thesis by simp
qed


section \<open>Witnesses\<close>

text \<open>A server that only keeps the leader key; a command with a cancelled context fails.\<close>

type_synonym key_state = "(string \<times> time) option"

definition key_live :: "time \<Rightarrow> key_state \<Rightarrow> bool" where
  "key_live t s = (case s of None \<Rightarrow> False | Some (v, x) \<Rightarrow> t < x)"

definition one_key :: "key_state lease_client" where
  "one_key =
     \<lparr>lc_SetNX = (\<lambda>c t k v ttl s. if c then (Inl (Errorf ''context canceled''), s)
         else if key_live t s then (Inr False, s) else (Inr True, Some (v, t + ttl))),
      lc_Get = (\<lambda>c t k s. if c then (Inl (Errorf ''context canceled''), s)
         else if key_live t s then (Inr (fst (the s)), s) else (Inl (Errorf ''redis: nil''), s)),
      lc_Expire = (\<lambda>c t k ttl s. if c then (Inl (Errorf ''context canceled''), s)
         else if key_live t s then (Inr True, Some (fst (the s), t + ttl)) else (Inr False, s)),
      lc_Run = (\<lambda>c t script s. if c then (Inl (Errorf ''context canceled''), s) else (case script s of (n, s1) \<Rightarrow> (Inr n, s1))),
      lc_get = (\<lambda>t k s. live id t s),
      lc_del = (\<lambda>t k s. (1, None))\<rparr>"

lemma one_key_lease: "redis_lease one_key id"
  unfolding redis_lease_def
  by (intro conjI; simp add: one_key_def setnx_law_def get_law_def expire_law_def script_law_def key_live_def live_def
      split: option.split prod.split)

definition node :: "string \<Rightarrow> bool \<Rightarrow> election" where
  "node i leader = \<lparr>el_InstanceID = i, el_TTL = 30, el_isLeader = leader\<rparr>"

theorem answered_campaign_decides_witness:
  "IsLeader (fst (campaign one_key False 10 (node ''b'' True) (Some (''a'', 30)))) \<longleftrightarrow>
   live id 10 (snd (campaign one_key False 10 (node ''b'' True) (Some (''a'', 30)))) = Some ''b''"
  using answered_campaign_decides [OF one_key_lease, of False 10 "node ''b'' True" "Some (''a'', 30)"]
  by (cases "campaign one_key False 10 (node ''b'' True) (Some (''a'', 30))") (auto simp: node_def one_key_def key_live_def)

definition start_cluster :: "key_state cluster" where
  "start_cluster = \<lparr>cl_redis = None, cl_now = 5, cl_leader = (\<lambda>i. False), cl_renewed = (\<lambda>i. None)\<rparr>"

definition led_cluster :: "key_state cluster" where
  "led_cluster = \<lparr>cl_redis = Some (''a'', 35), cl_now = 5, cl_leader = (\<lambda>i. False)(''a'' := True), cl_renewed = (\<lambda>i. None)(''a'' := Some 5)\<rparr>"

lemma led: "cluster_run one_key 30 start_cluster led_cluster"
proof (rule cluster_run.step [OF cluster_run.start])
  have "cluster_step one_key 30 start_cluster
      (start_cluster\<lparr>cl_redis := Some (''a'', 35), cl_leader := (cl_leader start_cluster)(''a'' := el_isLeader (node ''a'' True)),
         cl_renewed := (if renews one_key False (cl_now start_cluster) (instance_of 30 start_cluster ''a'') (cl_redis start_cluster)
                        then (cl_renewed start_cluster)(''a'' := Some (cl_now start_cluster)) else cl_renewed start_cluster)\<rparr>)"
    by (rule cluster_step.campaigns) (simp add: campaign_def one_key_def start_cluster_def instance_of_def node_def key_live_def)
  then show "cluster_step one_key 30 start_cluster led_cluster"
    by (simp add: renews_def one_key_def start_cluster_def led_cluster_def instance_of_def node_def key_live_def)
qed


theorem unreachable_leader_stays_witness:
  "IsLeader (fst (campaign one_key True 40 (node ''a'' True) (Some (''a'', 35)))) \<and>
   IsLeader (fst (campaign one_key False 40 (node ''b'' False) (Some (''a'', 35))))"
  using unreachable_leader_stays [OF one_key_lease, of "node ''a'' True" True 40 "Some (''a'', 35)" "Errorf ''context canceled''" 35 40
      "node ''a'' True" "Some (''a'', 35)" "node ''b'' False"]
  by (simp add: node_def IsLeader_def one_key_def key_live_def campaign_def)

theorem shutdown_keeps_the_lease_witness:
  "\<not> IsLeader (fst (campaign one_key False 34 (node ''b'' False) (snd (Start one_key [(5, id)] 7 (node ''a'' False) None))))"
proof -
  have c: "campaigns one_key [(5, id)] (node ''a'' False, None) = (node ''a'' True, Some (''a'', 35))"
    by (simp add: campaign_def one_key_def node_def key_live_def)
  obtain e' s' where s: "Start one_key [(5, id)] 7 (node ''a'' False) None = (e', s')" by fastforce
  show ?thesis
    using shutdown_keeps_the_lease [OF one_key_lease s c, of 35 34 "node ''b'' False" False] s by (auto simp: node_def IsLeader_def)
qed

end
