(* ===== verification/Cert_Provider.thy ===== *)
theory Cert_Provider
  imports Issued_Store Sessions
begin

text \<open>
  Certificate providers: \<open>internal/services/certificate\<close>. The jobs and handlers see the interface
  \<open>Provider\<close>; the database provider signs certificates itself and keeps them in the database, the
  Kubernetes provider creates cert-manager resources.

  Parameters: SHA-256 in hexadecimal, and the API of the Kubernetes cluster and of cert-manager, on a state
  of its own, with the errors it distinguishes. The connection to the cluster is
  opened by \<open>NewKubernetesClient\<close>, in the theory of the server's start.
\<close>

type_synonym metadata = "(string \<times> string) list"

record 'w cert_provider =
  pv_create :: "certificate_request \<Rightarrow> ('w, string \<times> metadata) dbop"
  pv_data :: "string \<Rightarrow> ('w, string \<times> string \<times> string) dbop"
  pv_ready :: "string \<Rightarrow> ('w, bool) dbop"
  pv_delete :: "string \<Rightarrow> ('w, unit) dbop"

definition GenerateCertificateName :: "(string \<Rightarrow> string) \<Rightarrow> string \<Rightarrow> string \<Rightarrow> time \<Rightarrow> string" where
  "GenerateCertificateName sha256 sub iss timestamp =
     strings_ToLower (''cert-'' @ take 32 (sha256 (sub @ '':'' @ iss @ '':'' @ show_int (Unix timestamp))))"

section \<open>The database provider\<close>

text \<open>\<open>caCert\<close> is the authority the provider has loaded; its mutex makes every use one step.\<close>

record ca_world = world +
  ca_cached :: "certificate_data option"

record database_provider =
  dp_store :: key_store
  dp_algorithm :: key_algorithm
  dp_subject :: "certificate_subject option"
  dp_sha256 :: "string \<Rightarrow> string"

definition create_ca :: "database_provider \<Rightarrow> ('w ca_world_ext, unit) dbop" where
  "create_ca p w =
     try_db (lift_result (GenerateCA (ks_crypto (dp_store p)) (now w) ''Homelab Conduit CA'' 3650 (dp_algorithm p) (dp_subject p)))
       (wrap ''failed to generate CA certificate: '')
       (\<lambda>ca. try_db (InsertCertificateAuthority (dp_store p) ca (dp_algorithm p)) (wrap ''failed to store CA certificate: '')
          (\<lambda>_ w1. (Inr (), w1\<lparr>ca_cached := Some ca\<rparr>))) w"

definition load_or_create_ca :: "database_provider \<Rightarrow> ('w ca_world_ext, unit) dbop" where
  "load_or_create_ca p w =
     (case GetCertificateAuthority (dp_store p) w of
        (Inl e, w1) \<Rightarrow>
          if errors_Is e ErrCertificateAuthorityNotFound then create_ca p w1
          else (Inl (wrap ''failed to get CA certificate: '' e), w1)
      | (Inr (ca, existingAlgorithm), w1) \<Rightarrow>
          if existingAlgorithm \<noteq> dp_algorithm p
          then (Inl (Wrapf [] (Sentinel ErrKeyAlgorithmMismatch)
                       ('': configured='' @ dp_algorithm p @ '', existing='' @ existingAlgorithm)), w1)
          else (Inr (), w1\<lparr>ca_cached := Some ca\<rparr>))"

definition StartupCheck :: "database_provider \<Rightarrow> ('w ca_world_ext, unit) dbop" where
  "StartupCheck p =
     try_db (ValidateEncryptionKey (dp_store p)) (wrap ''encryption key validation failed: '') (\<lambda>_. load_or_create_ca p)"

definition getCA :: "database_provider \<Rightarrow> ('w ca_world_ext, certificate_data) dbop" where
  "getCA p w =
     (case ca_cached w of
        Some ca \<Rightarrow> (Inr ca, w)
      | None \<Rightarrow>
          try_db (GetCertificateAuthority (dp_store p)) (wrap ''failed to get CA certificate: '')
            (\<lambda>(ca, alg) w1. (Inr ca, w1\<lparr>ca_cached := Some ca\<rparr>)) w)"

definition sign_and_store ::
  "database_provider \<Rightarrow> certificate_request \<Rightarrow> certificate_data \<Rightarrow> time \<Rightarrow> ('w, string \<times> metadata) dbop" where
  "sign_and_store p request ca t =
     try_db (lift_result (GenerateCertificate (ks_crypto (dp_store p)) t request ca (dp_algorithm p) (dp_subject p)))
       (wrap ''failed to generate certificate: '')
       (\<lambda>certData.
          (let ident = GenerateCertificateName (dp_sha256 p) (req_owner_sub request) (req_owner_iss request) t;
               caCertPEM = cl_pem_encode (ks_crypto (dp_store p)) ''CERTIFICATE'' (xc_raw (cd_certificate ca)) in
           try_db (InsertIssuedCertificate (dp_store p) ident certData caCertPEM (dp_algorithm p) (req_id request) request)
             (wrap ''failed to store issued certificate: '')
             (\<lambda>_. ok (ident, [(''provider'', ''database''), (''algorithm'', dp_algorithm p)]))))"

definition db_CreateCertificateFromRequest :: "database_provider \<Rightarrow> certificate_request \<Rightarrow> ('w ca_world_ext, string \<times> metadata) dbop" where
  "db_CreateCertificateFromRequest p request =
     try_db (getCA p) id (\<lambda>ca w. sign_and_store p request ca (now w) w)"

definition db_IsCertificateReady :: "database_provider \<Rightarrow> string \<Rightarrow> ('w, bool) dbop" where
  "db_IsCertificateReady p ident w =
     (case GetIssuedCertificateByIdentifier (dp_store p) ident w of
        (Inl e, w1) \<Rightarrow> if errors_Is e ErrIssuedCertificateNotFound then (Inr False, w1) else (Inl e, w1)
      | (Inr _, w1) \<Rightarrow> (Inr True, w1))"

definition db_provider :: "database_provider \<Rightarrow> 'w ca_world_ext cert_provider" where
  "db_provider p =
     \<lparr>pv_create = db_CreateCertificateFromRequest p, pv_data = GetIssuedCertificateByIdentifier (dp_store p),
      pv_ready = db_IsCertificateReady p, pv_delete = DeleteIssuedCertificate\<rparr>"

section \<open>Labels of Kubernetes resources\<close>

definition removeURLSchemeAndSlashes :: "string \<Rightarrow> string" where
  "removeURLSchemeAndSlashes s =
     filter (\<lambda>c. c \<noteq> CHR ''/'') (strings_TrimPrefix (strings_TrimPrefix s ''https://'') ''http://'')"

definition alnum :: "char \<Rightarrow> bool" where
  "alnum c = (let n = (of_char c :: nat) in 97 \<le> n \<and> n \<le> 122 \<or> 65 \<le> n \<and> n \<le> 90 \<or> 48 \<le> n \<and> n \<le> 57)"

definition punctuation :: "char \<Rightarrow> bool" where
  "punctuation c \<longleftrightarrow> c \<in> {CHR ''-'', CHR ''_'', CHR ''.''}"

definition strings_TrimRight_punctuation :: "string \<Rightarrow> string" where
  "strings_TrimRight_punctuation s = rev (dropWhile punctuation (rev s))"

definition sanitizeLabelValue :: "(string \<Rightarrow> string) \<Rightarrow> string \<Rightarrow> string" where
  "sanitizeLabelValue sha256 s =
     (let t = removeURLSchemeAndSlashes s;
          a = strings_TrimRight_punctuation (dropWhile punctuation (filter (\<lambda>c. alnum c \<or> punctuation c) t));
          b = (if length a > 63 then strings_TrimRight_punctuation (take 63 a) else a)
      in if b = [] then take 16 (sha256 t) else b)"

section \<open>The Kubernetes provider\<close>

record k8s_subject =
  kj_units :: "string list"
  kj_organizations :: "string list"
  kj_countries :: "string list"
  kj_provinces :: "string list"
  kj_localities :: "string list"
  kj_serial :: string

record k8s_certificate =
  kc_name :: string
  kc_namespace :: string
  kc_labels :: "(string \<times> string) list"
  kc_secret_name :: string
  kc_duration :: duration
  kc_issuer_name :: string
  kc_issuer_kind :: string
  kc_issuer_group :: string
  kc_common_name :: string
  kc_dns_names :: "string list"
  kc_subject :: k8s_subject
  kc_usages :: "string list"
  kc_conditions :: "(string \<times> string) list"

text \<open>The API's errors: \<open>IsNotFound\<close> or another one. A secret is its data.\<close>

datatype k8s_error = NotFound string | ApiError string

primrec k8s_text :: "k8s_error \<Rightarrow> string" where
  "k8s_text (NotFound s) = s"
| "k8s_text (ApiError s) = s"

record 's k8s_client =
  kl_create :: "string \<Rightarrow> k8s_certificate \<Rightarrow> 's \<Rightarrow> (k8s_error + k8s_certificate) \<times> 's"
  kl_get :: "string \<Rightarrow> string \<Rightarrow> 's \<Rightarrow> (k8s_error + k8s_certificate) \<times> 's"
  kl_delete :: "string \<Rightarrow> string \<Rightarrow> 's \<Rightarrow> (k8s_error + unit) \<times> 's"
  kl_secret :: "string \<Rightarrow> string \<Rightarrow> 's \<Rightarrow> (k8s_error + (string \<times> string) list) \<times> 's"

record 's k8s_world = world +
  k8s :: 's

record 's k8s_provider =
  kp_client :: "'s k8s_client"
  kp_namespace :: string
  kp_issuer_name :: string
  kp_issuer_kind :: string
  kp_subject :: "certificate_subject option"
  kp_sha256 :: "string \<Rightarrow> string"

definition k8s_call :: "('s \<Rightarrow> (k8s_error + 'a) \<times> 's) \<Rightarrow> (k8s_error \<Rightarrow> goerror) \<Rightarrow> (('s, 'w) k8s_world_ext, 'a) dbop" where
  "k8s_call f h w =
     (let (r, s) = f (k8s w) in (case r of Inl e \<Rightarrow> Inl (h e) | Inr x \<Rightarrow> Inr x, w\<lparr>k8s := s\<rparr>))"

definition nonempty :: "string \<Rightarrow> string list" where
  "nonempty s = (if s = [] then [] else [s])"

definition k8s_subject_of :: "certificate_subject option \<Rightarrow> certificate_request \<Rightarrow> k8s_subject" where
  "k8s_subject_of subject request =
     \<lparr>kj_units = req_ous request,
      kj_organizations = (case subject of None \<Rightarrow> [] | Some s \<Rightarrow> nonempty (sub_organization s)),
      kj_countries = (case subject of None \<Rightarrow> [] | Some s \<Rightarrow> nonempty (sub_country s)),
      kj_provinces = (case subject of None \<Rightarrow> [] | Some s \<Rightarrow> nonempty (sub_province s)),
      kj_localities = (case subject of None \<Rightarrow> [] | Some s \<Rightarrow> nonempty (sub_locality s)),
      kj_serial = req_owner_sub request @ ''@'' @ removeURLSchemeAndSlashes (req_owner_iss request)\<rparr>"

definition k8s_certificate_of :: "'s k8s_provider \<Rightarrow> certificate_request \<Rightarrow> k8s_certificate" where
  "k8s_certificate_of p request =
     (let certName = GenerateCertificateName (kp_sha256 p) (req_owner_sub request) (req_owner_iss request) (req_requested_at request) in
      \<lparr>kc_name = certName, kc_namespace = kp_namespace p,
       kc_labels = [(''app.kubernetes.io/managed-by'', ''conduit''),
         (''conduit.homelab.dev/owner-sub'', sanitizeLabelValue (kp_sha256 p) (req_owner_sub request)),
         (''conduit.homelab.dev/owner-iss'', sanitizeLabelValue (kp_sha256 p) (removeURLSchemeAndSlashes (req_owner_iss request))),
         (''conduit.homelab.dev/request-id'', show_int (req_id request))],
       kc_secret_name = certName @ ''-tls'', kc_duration = req_validity_days request * 24 * hour, kc_issuer_name = kp_issuer_name p,
       kc_issuer_kind = kp_issuer_kind p, kc_issuer_group = (if kp_issuer_kind p = ''Issuer'' then ''cert-manager.io'' else []),
       kc_common_name = req_common_name request, kc_dns_names = req_dns_names request, kc_subject = k8s_subject_of (kp_subject p) request,
       kc_usages = [''digital signature'', ''key encipherment'', ''client auth''], kc_conditions = []\<rparr>)"

definition k8s_CreateCertificateFromRequest ::
  "'s k8s_provider \<Rightarrow> certificate_request \<Rightarrow> (('s, 'w) k8s_world_ext, string \<times> metadata) dbop" where
  "k8s_CreateCertificateFromRequest p request =
     (let cert = k8s_certificate_of p request in
      try_db (k8s_call (kl_create (kp_client p) (kp_namespace p) cert) (\<lambda>e. Errorf (k8s_text e))) (wrap ''failed to create certificate: '')
        (\<lambda>created. ok (kc_name cert, [(''namespace'', kc_namespace created), (''secret_name'', kc_secret_name created)])))"

definition not_found_text :: "string \<Rightarrow> string \<Rightarrow> string \<Rightarrow> string \<Rightarrow> k8s_error \<Rightarrow> goerror" where
  "not_found_text what failed ns name e =
     (case e of NotFound s \<Rightarrow> Errorf (what @ '' not found: '' @ ns @ ''/'' @ name) | ApiError s \<Rightarrow> wrap failed (Errorf s))"

definition GetCertificate :: "'s k8s_provider \<Rightarrow> string \<Rightarrow> (('s, 'w) k8s_world_ext, k8s_certificate) dbop" where
  "GetCertificate p name =
     k8s_call (kl_get (kp_client p) (kp_namespace p) name) (not_found_text ''certificate'' ''failed to get certificate: '' (kp_namespace p) name)"

definition getCertificateSecret :: "'s k8s_provider \<Rightarrow> string \<Rightarrow> (('s, 'w) k8s_world_ext, (string \<times> string) list) dbop" where
  "getCertificateSecret p name =
     k8s_call (kl_secret (kp_client p) (kp_namespace p) name)
       (not_found_text ''certificate secret'' ''failed to get certificate secret: '' (kp_namespace p) name)"

definition is_ready :: "k8s_certificate \<Rightarrow> bool" where
  "is_ready cert = (case map_of (kc_conditions cert) ''Ready'' of None \<Rightarrow> False | Some status \<Rightarrow> status = ''True'')"

definition secret_data :: "(string \<times> string) list \<Rightarrow> string \<Rightarrow> string" where
  "secret_data s k = (case map_of s k of None \<Rightarrow> [] | Some v \<Rightarrow> v)"

definition k8s_GetCertificateData :: "'s k8s_provider \<Rightarrow> string \<Rightarrow> (('s, 'w) k8s_world_ext, string \<times> string \<times> string) dbop" where
  "k8s_GetCertificateData p name =
     try_db (GetCertificate p name) id
       (\<lambda>cert. if \<not> is_ready cert then fail (Errorf ''certificate is not ready yet'')
         else try_db (getCertificateSecret p (kc_secret_name cert)) (wrap ''failed to get certificate data: '')
           (\<lambda>s. if secret_data s ''tls.crt'' = []
                 then fail (Errorf ''failed to get certificate data: certificate secret missing tls.crt'')
                 else if secret_data s ''tls.key'' = []
                 then fail (Errorf ''failed to get certificate data: certificate secret missing tls.key'')
                 else ok (secret_data s ''tls.crt'', secret_data s ''tls.key'', secret_data s ''ca.crt'')))"

definition k8s_IsCertificateReady :: "'s k8s_provider \<Rightarrow> string \<Rightarrow> (('s, 'w) k8s_world_ext, bool) dbop" where
  "k8s_IsCertificateReady p name = try_db (GetCertificate p name) id (\<lambda>cert. ok (is_ready cert))"

definition k8s_DeleteCertificate :: "'s k8s_provider \<Rightarrow> string \<Rightarrow> (('s, 'w) k8s_world_ext, unit) dbop" where
  "k8s_DeleteCertificate p name w =
     (let (r, s) = kl_delete (kp_client p) (kp_namespace p) name (k8s w) in
      (case r of
         Inl (NotFound x) \<Rightarrow> Inr ()
       | Inl (ApiError x) \<Rightarrow> Inl (wrap ''failed to delete certificate: '' (Errorf x))
       | Inr _ \<Rightarrow> Inr (), w\<lparr>k8s := s\<rparr>))"

definition kubernetes_provider :: "'s k8s_provider \<Rightarrow> ('s, 'w) k8s_world_ext cert_provider" where
  "kubernetes_provider p =
     \<lparr>pv_create = k8s_CreateCertificateFromRequest p, pv_data = k8s_GetCertificateData p, pv_ready = k8s_IsCertificateReady p,
      pv_delete = k8s_DeleteCertificate p\<rparr>"

section \<open>What a provider leaves alone\<close>

text \<open>
  The jobs rely on the provider for its certificates only: it never touches the requests, their events or the
  users, and it does not fail a database that works.
\<close>

definition leaves_requests :: "('w, 'a) dbop \<Rightarrow> bool" where
  "leaves_requests m \<longleftrightarrow>
     (\<forall>rs es us. keeps (\<lambda>d. t_cert_requests d = rs \<and> t_cert_events d = es \<and> t_users d = us) m)"

lemma leaves_requestsD:
  assumes "leaves_requests m"
  shows "t_cert_requests (db (snd (m w))) = t_cert_requests (db w)" "t_cert_events (db (snd (m w))) = t_cert_events (db w)"
    "t_users (db (snd (m w))) = t_users (db w)"
  using assms unfolding leaves_requests_def keeps_def by blast+

lemma leaves_keeps:
  assumes "leaves_requests m" and "\<And>d d'. t_cert_requests d' = t_cert_requests d \<Longrightarrow> I d \<Longrightarrow> I d'"
  shows "keeps I m"
  using assms leaves_requestsD(1) [OF assms(1)] by (auto simp: keeps_def)

lemma leaves_try: "leaves_requests m \<Longrightarrow> (\<And>x. leaves_requests (k x)) \<Longrightarrow> leaves_requests (try_db m h k)"
  by (auto simp: leaves_requests_def intro: keeps_try)

lemma leaves_basic [intro]:
  "leaves_requests (ok x)" "leaves_requests (fail e)" "leaves_requests (lift_result r)" "leaves_requests (db_query_row q)"
  by (auto simp: leaves_requests_def)

lemma leaves_if: "leaves_requests a \<Longrightarrow> leaves_requests b \<Longrightarrow> leaves_requests (if c then a else b)"
  by simp

lemma leaves_same_db: "(\<And>w. db (snd (m w)) = db w) \<Longrightarrow> leaves_requests m"
  by (simp add: leaves_requests_def keeps_def)

lemma leaves_issued:
  "leaves_requests (InsertIssuedCertificate ks ident cert ca alg i request)" "leaves_requests (DeleteIssuedCertificate ident)"
  "leaves_requests (GetIssuedCertificateByIdentifier ks ident)" "leaves_requests (GetCertificateAuthority ks)"
proof -
  show "leaves_requests (InsertIssuedCertificate ks ident cert ca alg i request)"
    unfolding InsertIssuedCertificate_def try_result_def Let_def leaves_requests_def
    by (intro allI keeps_try keeps_lift keeps_roundtrip keeps_ok) (auto simp: sql_insert_issued_def split: if_splits)
  show "leaves_requests (DeleteIssuedCertificate ident)"
    unfolding DeleteIssuedCertificate_def leaves_requests_def
    by (intro allI keeps_try keeps_if keeps_fail keeps_ok keeps_roundtrip) (auto simp: sql_delete_issued_def Let_def)
  show "leaves_requests (GetIssuedCertificateByIdentifier ks ident)"
    unfolding GetIssuedCertificateByIdentifier_def try_result_def
    by (intro leaves_try leaves_basic) (auto split: option.split intro: leaves_try)
  show "leaves_requests (GetCertificateAuthority ks)"
    unfolding GetCertificateAuthority_def try_result_def by (intro leaves_try leaves_basic)
qed

locale certificate_manager =
  fixes p :: "'w cert_provider"
  assumes create_leaves: "leaves_requests (pv_create p request)"
    and data_leaves: "leaves_requests (pv_data p ident)"
    and ready_leaves: "leaves_requests (pv_ready p ident)"
    and delete_leaves: "leaves_requests (pv_delete p ident)"

lemma leaves_cases: "(\<And>w. \<exists>m'. leaves_requests m' \<and> m w = m' w) \<Longrightarrow> leaves_requests m"
  unfolding leaves_requests_def keeps_def by metis

lemma leaves_now: "(\<And>t. leaves_requests (m t)) \<Longrightarrow> leaves_requests (\<lambda>w. m (now w) w)"
  by (rule leaves_cases) blast

lemma getCA_leaves: "leaves_requests (getCA d)"
proof (rule leaves_cases)
  fix w :: "'b ca_world_scheme"
  show "\<exists>m'. leaves_requests m' \<and> getCA d w = m' w"
  proof (cases "ca_cached w")
    case None
    have "leaves_requests (\<lambda>w1. (Inr ca, w1\<lparr>ca_cached := Some ca\<rparr>) :: certificate_data result \<times> 'b ca_world_scheme)" for ca
      by (rule leaves_same_db) simp
    then have "leaves_requests (try_db (GetCertificateAuthority (dp_store d)) (wrap ''failed to get CA certificate: '')
        (\<lambda>(ca, alg) w1. (Inr ca, w1\<lparr>ca_cached := Some ca\<rparr>)) :: ('b ca_world_ext, certificate_data) dbop)"
      by (intro leaves_try leaves_issued) (auto split: prod.split intro: leaves_same_db)
    then show ?thesis using None unfolding getCA_def by (intro exI conjI) simp_all
  next
    case (Some ca)
    then show ?thesis unfolding getCA_def by (intro exI [of _ "ok ca"] conjI) (auto simp: ok_def)
  qed
qed

lemma sign_leaves: "leaves_requests (sign_and_store d request ca t)"
  unfolding sign_and_store_def Let_def by (intro leaves_try leaves_basic leaves_issued)

lemma leaves_snd: "leaves_requests m \<Longrightarrow> (\<And>w. snd (m' w) = snd (m w)) \<Longrightarrow> leaves_requests m'"
  by (simp add: leaves_requests_def keeps_def)

lemma ready_leaves: "leaves_requests (db_IsCertificateReady d ident)"
  by (rule leaves_snd [OF leaves_issued(3), of _ "dp_store d" ident])
    (auto simp: db_IsCertificateReady_def split: prod.split sum.split)

interpretation db_manager: certificate_manager "db_provider d" for d
proof unfold_locales
  fix request :: certificate_request and ident :: string
  show "leaves_requests (pv_create (db_provider d) request)"
    unfolding db_provider_def cert_provider.simps db_CreateCertificateFromRequest_def
  proof (intro leaves_try getCA_leaves)
    fix ca
    show "leaves_requests (\<lambda>w. sign_and_store d request ca (now w) w)"
      by (rule leaves_now) (rule sign_leaves)
  qed
  show "leaves_requests (pv_data (db_provider d) ident)" "leaves_requests (pv_delete (db_provider d) ident)"
    by (simp_all add: db_provider_def leaves_issued)
  show "leaves_requests (pv_ready (db_provider d) ident)"
    by (simp add: db_provider_def ready_leaves)
qed

lemma k8s_call_leaves: "leaves_requests (k8s_call f h)"
  by (rule leaves_same_db) (auto simp: k8s_call_def split: prod.split)

interpretation k8s_manager: certificate_manager "kubernetes_provider k" for k
proof unfold_locales
  fix request :: certificate_request and ident :: string
  show "leaves_requests (pv_create (kubernetes_provider k) request)"
    by (auto simp: kubernetes_provider_def k8s_CreateCertificateFromRequest_def Let_def intro!: leaves_try k8s_call_leaves leaves_basic)
  show "leaves_requests (pv_data (kubernetes_provider k) ident)"
    by (auto simp: kubernetes_provider_def k8s_GetCertificateData_def GetCertificate_def getCertificateSecret_def
        intro!: leaves_try k8s_call_leaves leaves_basic)
  show "leaves_requests (pv_ready (kubernetes_provider k) ident)"
    by (auto simp: kubernetes_provider_def k8s_IsCertificateReady_def GetCertificate_def intro!: leaves_try k8s_call_leaves leaves_basic)
  show "leaves_requests (pv_delete (kubernetes_provider k) ident)"
    by (auto simp: kubernetes_provider_def k8s_DeleteCertificate_def intro!: leaves_same_db split: prod.split)
qed

section \<open>Labels the cluster accepts\<close>

text \<open>The rule of the API server for a label's value that is not empty.\<close>

definition label_ok :: "string \<Rightarrow> bool" where
  "label_ok s \<longleftrightarrow> s \<noteq> [] \<and> length s \<le> 63 \<and> list_all (\<lambda>c. alnum c \<or> punctuation c) s \<and> alnum (hd s) \<and> alnum (last s)"

lemma trim_right_prefix: "prefix (strings_TrimRight_punctuation s) s"
  unfolding strings_TrimRight_punctuation_def
  by (metis append_take_drop_id dropWhile_eq_drop prefixI rev_append rev_rev_ident)

lemma trim_right_last: "strings_TrimRight_punctuation s \<noteq> [] \<Longrightarrow> \<not> punctuation (last (strings_TrimRight_punctuation s))"
  unfolding strings_TrimRight_punctuation_def
  by (simp add: last_rev hd_dropWhile)

lemma prefix_hd: "prefix t s \<Longrightarrow> t \<noteq> [] \<Longrightarrow> hd t = hd s"
  by (auto simp: prefix_def)

lemma trimmed_label_ok:
  assumes "list_all (\<lambda>c. alnum c \<or> punctuation c) s" and "s \<noteq> [] \<longrightarrow> \<not> punctuation (hd s)"
    and "t = strings_TrimRight_punctuation s" and "t \<noteq> []" and "length t \<le> 63"
  shows "label_ok t"
proof -
  have p: "prefix t s" using assms(3) by (simp add: trim_right_prefix)
  then have all: "list_all (\<lambda>c. alnum c \<or> punctuation c) t" using assms(1) by (auto simp: prefix_def)
  moreover have "alnum (hd t)"
    using all assms(2,4) p prefix_hd [OF p assms(4)] by (cases t) (auto simp: prefix_def)
  moreover have "alnum (last t)"
    using all assms(3,4) trim_right_last [of s] by (auto simp: list_all_iff)
  ultimately show ?thesis using assms(4,5) by (simp add: label_ok_def)
qed

lemma hash_label_ok:
  assumes "16 \<le> length h" and "list_all alnum h"
  shows "label_ok (take 16 h)"
proof -
  have ne: "take 16 h \<noteq> []" and al: "\<And>c. c \<in> set (take 16 h) \<Longrightarrow> alnum c"
    using assms by (auto simp: list_all_iff dest: in_set_takeD)
  have "alnum (hd (take 16 h))" "alnum (last (take 16 h))"
    using al [OF hd_in_set [OF ne]] al [OF last_in_set [OF ne]] by simp_all
  then show ?thesis using ne al unfolding label_ok_def by (simp add: list_all_iff del: hd_take)
qed

text \<open>
  Whatever the owner's subject or issuer is, the value \<open>sanitizeLabelValue\<close> gives for the label is one
  the cluster accepts: not empty, at most 63 bytes, only letters, digits and the three punctuation marks, and a
  letter or a digit at both ends.
\<close>

theorem sanitized_label_is_valid:
  assumes "\<And>x. 16 \<le> length (sha256 x) \<and> list_all alnum (sha256 x)"
  shows "label_ok (sanitizeLabelValue sha256 s)"
proof -
  define t where "t = removeURLSchemeAndSlashes s"
  define u where "u = dropWhile punctuation (filter (\<lambda>c. alnum c \<or> punctuation c) t)"
  define a where "a = strings_TrimRight_punctuation u"
  define b where "b = (if length a > 63 then strings_TrimRight_punctuation (take 63 a) else a)"
  have u: "list_all (\<lambda>c. alnum c \<or> punctuation c) u" "u \<noteq> [] \<longrightarrow> \<not> punctuation (hd u)"
    by (auto simp: u_def list_all_iff hd_dropWhile dest: set_dropWhileD)
  have "label_ok b" if "b \<noteq> []"
  proof (cases "length a > 63")
    case True
    have pa: "prefix (take 63 a) u"
      using trim_right_prefix [of u] a_def prefix_order.trans take_is_prefix by blast
    have "list_all (\<lambda>c. alnum c \<or> punctuation c) (take 63 a)" using u(1) pa by (auto simp: prefix_def)
    moreover have "take 63 a \<noteq> [] \<longrightarrow> \<not> punctuation (hd (take 63 a))"
      using u(2) pa prefix_hd [OF pa] by (auto simp: prefix_def)
    moreover have b: "b = strings_TrimRight_punctuation (take 63 a)" using True by (simp add: b_def)
    moreover have "length b \<le> 63"
      using prefix_length_le [OF trim_right_prefix [of "take 63 a"]] b by simp
    ultimately show ?thesis using trimmed_label_ok that by blast
  next
    case False
    then have "b = a" by (simp add: b_def)
    then show ?thesis using trimmed_label_ok [OF u a_def] that False by simp
  qed
  moreover have "sanitizeLabelValue sha256 s = (if b = [] then take 16 (sha256 t) else b)"
    by (simp add: sanitizeLabelValue_def b_def a_def u_def t_def Let_def)
  ultimately show ?thesis using hash_label_ok [of "sha256 t"] assms by simp
qed

theorem sanitized_label_is_valid_witness: "label_ok (sanitizeLabelValue (\<lambda>x. ''0123456789abcdef'') ''https://auth.example.com/'')"
  by (rule sanitized_label_is_valid) (simp add: alnum_def)

end
