(* ===== verification/Cert_Jobs.thy ===== *)
theory Cert_Jobs
  imports Cert_Provider Jobs
begin

text \<open>
  The background jobs of \<open>internal/jobs\<close> that carry an approved certificate request to an issued one: the
  creation job, which asks the provider for a certificate, and the status job, which picks it up. Both log the
  errors they meet and go on, so a pass of a job is a function on the world.

  Parameters: the certificate provider, with a state of its own beside the database, the SHA-256 of its names and
  the library that reads certificates.
\<close>

section \<open>The creation job\<close>

definition isNotFoundError :: "goerror \<Rightarrow> bool" where
  "isNotFoundError e = strings_Contains (strings_ToLower (error_text e)) ''not found''"

text \<open>
  What the job stores with the request: the certificate that exists already, or the one it creates. If the
  provider cannot create it, the request is put back; if the provider cannot tell, the job leaves it.
\<close>

definition create_or_reuse ::
  "'w cert_provider \<Rightarrow> (string \<Rightarrow> string) \<Rightarrow> string \<Rightarrow> string \<Rightarrow> certificate_request
    \<Rightarrow> ('w, string \<times> metadata option) dbop" where
  "create_or_reuse p sha256 systemIss systemSub cert w =
     (let expected = GenerateCertificateName sha256 (req_owner_sub cert) (req_owner_iss cert) (req_requested_at cert) in
      case pv_data p expected w of
        (Inr _, w1) \<Rightarrow> (Inr (expected, req_metadata cert), w1)
      | (Inl e, w1) \<Rightarrow>
          if isNotFoundError e
          then (case pv_create p cert w1 of
                  (Inr (ident, md), w2) \<Rightarrow> (Inr (ident, Some md), w2)
                | (Inl e', w2) \<Rightarrow>
                    (Inl e', snd (UpdateCertificateRequestStatus (req_id cert) StatusApproved systemIss systemSub
                                    ''Certificate creation failed'' w2)))
          else (Inl e, w1))"

definition handle_approved ::
  "'w cert_provider \<Rightarrow> (string \<Rightarrow> string) \<Rightarrow> certificate_request \<Rightarrow> 'w world_scheme \<Rightarrow> 'w world_scheme" where
  "handle_approved p sha256 cert w =
     snd (try_db GetSystemUser id
       (\<lambda>(systemIss, systemSub).
          try_db (UpdateCertificateRequestStatus (req_id cert) StatusPending systemIss systemSub ''Pending certificate issuance'') id
            (\<lambda>_. try_db (create_or_reuse p sha256 systemIss systemSub cert) id
               (\<lambda>(ident, md). UpdateCertificateMetadata (req_id cert) ident md))) w)"

definition handleApprovedCertificates ::
  "'w cert_provider \<Rightarrow> (string \<Rightarrow> string) \<Rightarrow> certificate_request list \<Rightarrow> 'w world_scheme \<Rightarrow> 'w world_scheme" where
  "handleApprovedCertificates p sha256 certs w = fold (handle_approved p sha256) certs w"

definition creation_pass :: "'w cert_provider \<Rightarrow> (string \<Rightarrow> string) \<Rightarrow> 'w world_scheme \<Rightarrow> 'w world_scheme" where
  "creation_pass p sha256 w =
     (case GetApprovedCertificateRequests w of
        (Inl e, w1) \<Rightarrow> w1
      | (Inr certs, w1) \<Rightarrow> handleApprovedCertificates p sha256 certs w1)"

definition certificate_creation_job ::
  "'w cert_provider \<Rightarrow> (string \<Rightarrow> string) \<Rightarrow> duration \<Rightarrow> 'w world_scheme job" where
  "certificate_creation_job p sha256 interval =
     \<lparr>job_name = ''create_certificate'', job_leadership = True, job_interval = interval, job_pass = logged (creation_pass p sha256),
      job_no_interval = non_positive_ticker interval, job_cancelled = Some context_canceled\<rparr>"

section \<open>The status job\<close>

definition handle_issued ::
  "'w cert_provider \<Rightarrow> crypto_library \<Rightarrow> string \<Rightarrow> string \<Rightarrow> certificate_request \<Rightarrow> 'w world_scheme \<Rightarrow> 'w world_scheme" where
  "handle_issued p cl systemIss systemSub cert w =
     (case req_identifier cert of
        None \<Rightarrow> w
      | Some ident \<Rightarrow>
          snd (try_db (pv_ready p ident) id
            (\<lambda>ready. if \<not> ready then ok ()
               else try_db (pv_data p ident) id
                 (\<lambda>(certPEM, _, _). try_db (lift_result (ParseCertificateDetails cl certPEM)) id
                    (\<lambda>details. UpdateCertificateRequestIssued (req_id cert) certPEM (icd_serial_number details)
                       (icd_not_before details) (icd_not_after details) systemIss systemSub))) w))"

definition handleIssuedCertificates ::
  "'w cert_provider \<Rightarrow> crypto_library \<Rightarrow> certificate_request list \<Rightarrow> ('w, unit) dbop" where
  "handleIssuedCertificates p cl certs =
     try_db GetSystemUser (wrap ''error getting system user: '')
       (\<lambda>(systemIss, systemSub) w. (Inr (), fold (handle_issued p cl systemIss systemSub) certs w))"

definition status_pass :: "'w cert_provider \<Rightarrow> crypto_library \<Rightarrow> 'w world_scheme \<Rightarrow> 'w world_scheme" where
  "status_pass p cl w =
     (case GetPendingCertificateRequests w of
        (Inl e, w1) \<Rightarrow> w1
      | (Inr certs, w1) \<Rightarrow> if certs = [] then w1 else snd (handleIssuedCertificates p cl certs w1))"

definition certificate_issued_status_job :: "'w cert_provider \<Rightarrow> crypto_library \<Rightarrow> duration \<Rightarrow> 'w world_scheme job" where
  "certificate_issued_status_job p cl interval =
     \<lparr>job_name = ''certificate_issued_status'', job_leadership = True, job_interval = interval, job_pass = logged (status_pass p cl),
      job_no_interval = non_positive_ticker interval, job_cancelled = Some context_canceled\<rparr>"

section \<open>Requests no job looks at\<close>

text \<open>A request that is pending without a certificate: the row the creation job reserved and then gave up on.\<close>

definition stranded :: "int \<Rightarrow> database \<Rightarrow> bool" where
  "stranded i d \<longleftrightarrow>
     (\<exists>r \<in> set (t_cert_requests d). cr_id r = i) \<and>
     (\<forall>r \<in> set (t_cert_requests d). cr_id r = i \<longrightarrow> cr_status r = StatusPending \<and> cr_identifier r = None)"

lemma stranded_cong: "t_cert_requests d' = t_cert_requests d \<Longrightarrow> stranded i d \<Longrightarrow> stranded i d'"
  by (simp add: stranded_def)

lemma leaves_stranded: "leaves_requests m \<Longrightarrow> keeps (stranded i) m"
  by (erule leaves_keeps) (rule stranded_cong)

lemma stranded_other:
  assumes "stranded i d" and "j \<noteq> i" and "\<And>r. cr_id (f r) = cr_id r"
    and "t_cert_requests d' = upd_where (\<lambda>r. cr_id r = j) f (t_cert_requests d)"
  shows "stranded i d'"
  using assms by (auto simp: stranded_def set_upd_where)

lemma keeps_stranded:
  assumes "j \<noteq> i"
  shows "keeps (stranded i) (UpdateCertificateRequestStatus j st viss vsub notes)"
    and "keeps (stranded i) (UpdateCertificateMetadata j ident md)"
    and "keeps (stranded i) (UpdateCertificateRequestIssued j pem serial ia ea viss vsub)"
proof -
  have roll: "stranded i (rollback d d')" if "stranded i d" for d d'
    using that by (simp add: stranded_def)
  have event: "keeps (stranded i) (roundtrip (sql_insert_cert_event j a b c e st n))" for a b c e st n
    by (rule keeps_roundtrip) (auto simp: sql_insert_cert_event_def Let_def stranded_def split: if_splits)
  have status: "keeps (stranded i) (roundtrip (sql_set_status st j))" for st
    by (rule keeps_roundtrip) (auto simp: sql_set_status_def intro: stranded_other [OF _ assms, where f = "\<lambda>r. r\<lparr>cr_status := st\<rparr>"])
  have issued: "keeps (stranded i) (roundtrip (sql_set_issued j a b c e))" for a b c e
    by (rule keeps_roundtrip)
      (auto simp: sql_set_issued_def intro: stranded_other [OF _ assms, where f = "\<lambda>r. r\<lparr>cr_status := StatusIssued, cr_pem := Some a,
        cr_serial := Some b, cr_issued_at := Some c, cr_expires_at := Some e\<rparr>"])
  have md: "keeps (stranded i) (roundtrip (sql_set_metadata j ident md))"
    by (rule keeps_roundtrip) (auto simp: sql_set_metadata_def
        intro: stranded_other [OF _ assms, where f = "\<lambda>r. r\<lparr>cr_identifier := Some ident, cr_metadata := md\<rparr>"])
  show "keeps (stranded i) (UpdateCertificateRequestStatus j st viss vsub notes)"
    unfolding UpdateCertificateRequestStatus_def
    by (intro keeps_tx keeps_try keeps_query_row keeps_ok event status roll)
  show "keeps (stranded i) (UpdateCertificateMetadata j ident md)"
    unfolding UpdateCertificateMetadata_def by (intro keeps_try keeps_if keeps_fail keeps_ok md)
  show "keeps (stranded i) (UpdateCertificateRequestIssued j pem serial ia ea viss vsub)"
    unfolding UpdateCertificateRequestIssued_def
    by (intro keeps_tx keeps_try keeps_query_row keeps_if keeps_fail keeps_ok event issued roll)
qed

lemma keeps_GetSystemUser: "keeps I GetSystemUser"
  unfolding GetSystemUser_def by (intro keeps_try keeps_query_row keeps_ok)

context certificate_manager
begin

lemma create_or_reuse_stranded:
  assumes "req_id cert \<noteq> i"
  shows "keeps (stranded i) (create_or_reuse p sha256 iss sub cert)"
  unfolding keeps_def
proof (intro allI impI)
  fix w :: "'w world_scheme" assume I: "stranded i (db w)"
  let ?n = "GenerateCertificateName sha256 (req_owner_sub cert) (req_owner_iss cert) (req_requested_at cert)"
  obtain r w1 where data: "pv_data p ?n w = (r, w1)" by (cases "pv_data p ?n w")
  obtain r2 w2 where create: "pv_create p cert w1 = (r2, w2)" by (cases "pv_create p cert w1")
  have s1: "stranded i (db w1)"
    using leaves_stranded [OF data_leaves] I data by (rule keepsD)
  have s2: "stranded i (db w2)"
    using leaves_stranded [OF create_leaves] s1 create by (rule keepsD)
  then have s3: "stranded i (db (snd (UpdateCertificateRequestStatus (req_id cert) st iss sub msg w2)))" for st msg
    by (rule keeps_snd [OF keeps_stranded(1) [OF assms]])
  show "stranded i (db (snd (create_or_reuse p sha256 iss sub cert w)))"
    using data create s1 s2 s3 by (auto simp: create_or_reuse_def Let_def split: sum.split)
qed

lemma handle_approved_stranded:
  assumes "stranded i (db w)" and "req_id cert \<noteq> i"
  shows "stranded i (db (handle_approved p sha256 cert w))"
  unfolding handle_approved_def
  by (rule keeps_snd [where I = "stranded i", OF _ assms(1)], intro keeps_try keeps_GetSystemUser)
    (auto intro!: keeps_try keeps_stranded create_or_reuse_stranded assms(2))

lemma handle_issued_stranded:
  assumes "stranded i (db w)" and "req_id cert \<noteq> i"
  shows "stranded i (db (handle_issued p cl iss sub cert w))"
proof (cases "req_identifier cert")
  case (Some ident)
  have "keeps (stranded i) (pv_ready p ident)" "keeps (stranded i) (pv_data p ident)"
    by (intro leaves_stranded ready_leaves data_leaves)+
  then have "keeps (stranded i) (try_db (pv_ready p ident) id
      (\<lambda>ready. if \<not> ready then ok ()
         else try_db (pv_data p ident) id
           (\<lambda>(certPEM, _, _). try_db (lift_result (ParseCertificateDetails cl certPEM)) id
              (\<lambda>details. UpdateCertificateRequestIssued (req_id cert) certPEM (icd_serial_number details)
                 (icd_not_before details) (icd_not_after details) iss sub))))"
    by (auto intro!: keeps_try keeps_ok keeps_lift keeps_stranded assms(2))
  then show ?thesis using Some assms(1) unfolding handle_issued_def by (simp add: keeps_snd)
qed (simp add: handle_issued_def assms(1))

lemma fold_stranded:
  assumes "\<And>x w. x \<in> set xs \<Longrightarrow> stranded i (db w) \<Longrightarrow> stranded i (db (f x w))" and "stranded i (db w)"
  shows "stranded i (db (fold f xs w))"
  using assms by (induction xs arbitrary: w) auto

lemma creation_pass_stranded:
  assumes "stranded i (db w)"
  shows "stranded i (db (creation_pass p sha256 w))"
proof -
  obtain r w1 where run: "GetApprovedCertificateRequests w = (r, w1)" by (cases "GetApprovedCertificateRequests w")
  have s1: "stranded i (db w1)"
    using run assms unfolding GetApprovedCertificateRequests_def
    by (auto simp: try_db_def db_query_eq ok_def split: option.splits)
  have "req_id c \<noteq> i" if "r = Inr certs" "c \<in> set certs" for certs c
    using run assms that unfolding GetApprovedCertificateRequests_def
    by (auto simp: stranded_def elim!: success_elims)
  then show ?thesis
    using run s1 by (auto simp: creation_pass_def handleApprovedCertificates_def split: sum.split
        intro!: fold_stranded handle_approved_stranded)
qed

lemma status_pass_stranded:
  assumes "stranded i (db w)"
  shows "stranded i (db (status_pass p cl w))"
proof -
  obtain r w1 where run: "GetPendingCertificateRequests w = (r, w1)" by (cases "GetPendingCertificateRequests w")
  have s1: "stranded i (db w1)"
    using run assms unfolding GetPendingCertificateRequests_def
    by (auto simp: try_db_def db_query_eq ok_def split: option.splits)
  have other: "\<forall>c \<in> set certs. req_id c \<noteq> i" if "r = Inr certs" for certs
    using run assms that unfolding GetPendingCertificateRequests_def
    by (auto simp: stranded_def elim!: success_elims)
  have "stranded i (db (snd (handleIssuedCertificates p cl certs w1)))" if "r = Inr certs" for certs
  proof -
    obtain r2 w2 where sys: "GetSystemUser w1 = (r2, w2)" by (cases "GetSystemUser w1")
    have "stranded i (db w2)" using keeps_GetSystemUser s1 sys by (rule keepsD)
    then show ?thesis
      using sys other [OF that] by (cases r2)
        (auto simp: handleIssuedCertificates_def try_db_def intro!: fold_stranded handle_issued_stranded)
  qed
  then show ?thesis using run s1 by (auto simp: status_pass_def split: sum.split)
qed

end

lemma find_distinct_id: "distinct (map cr_id rs) \<Longrightarrow> r \<in> set rs \<Longrightarrow> find (\<lambda>x. cr_id x = cr_id r) rs = Some r"
  by (induction rs) auto

section \<open>Runs without failures\<close>

lemma GetSystemUser_run:
  assumes "faults w = []" and "find_system (db w) = Some u"
  shows "GetSystemUser w = (Inr (ur_iss u, ur_sub u), w)"
  using assms by (simp add: GetSystemUser_def try_db_def db_query_row_eq ok_def)

lemma UpdateCertificateRequestStatus_run:
  assumes "faults w = []" and "find_request i (db w) = Some r" and "viss \<noteq> []" "vsub \<noteq> []" and "cr_owner_iss r \<noteq> []" "cr_owner_sub r \<noteq> []"
  shows "UpdateCertificateRequestStatus i st viss vsub msg w = (Inr (), w\<lparr>db := apply_status i st viss vsub msg r (now w) (db w)\<rparr>)"
  using assms
  by (simp add: UpdateCertificateRequestStatus_def with_tx_def try_db_def db_query_eq db_query_row_eq roundtrip_def ok_def apply_status_def
      sql_set_status_def sql_insert_cert_event_def find_request_def find_upd_where Let_def)

lemma UpdateCertificateRequestIssued_run:
  assumes "faults w = []" and "find_request i (db w) = Some r" and "viss \<noteq> []" "vsub \<noteq> []" and "cr_owner_iss r \<noteq> []" "cr_owner_sub r \<noteq> []"
  shows "UpdateCertificateRequestIssued i pem serial ia ea viss vsub w =
     (Inr (), w\<lparr>db := apply_issued i pem serial ia ea viss vsub r (now w) (db w)\<rparr>)"
proof -
  have "count_where (\<lambda>r. cr_id r = i) (t_cert_requests (db w)) \<noteq> 0"
    using assms(2) by (auto simp: find_request_def count_where_0 find_Some_iff)
  then show ?thesis
    using assms
    by (simp add: UpdateCertificateRequestIssued_def with_tx_def try_db_def db_query_eq db_query_row_eq roundtrip_def ok_def apply_issued_def
        sql_set_issued_def sql_insert_cert_event_def find_request_def find_upd_where Let_def)
qed

lemma UpdateCertificateMetadata_run:
  assumes "faults w = []" and "find_request i (db w) = Some r"
  shows "UpdateCertificateMetadata i ident md w = (Inr (), w\<lparr>db := snd (sql_set_metadata i ident md (now w) (db w))\<rparr>)"
proof -
  have "count_where (\<lambda>r. cr_id r = i) (t_cert_requests (db w)) \<noteq> 0"
    using assms(2) by (auto simp: find_request_def count_where_0 find_Some_iff)
  then show ?thesis using assms(1)
    by (simp add: UpdateCertificateMetadata_def try_db_def roundtrip_def ok_def sql_set_metadata_def)
qed

lemma apply_status_rows:
  assumes "find_request i d = Some r" and "viss \<noteq> []" "vsub \<noteq> []" and "cr_owner_iss r \<noteq> []" "cr_owner_sub r \<noteq> []"
  shows "t_cert_requests (apply_status i st viss vsub msg r t d) = upd_where (\<lambda>r. cr_id r = i) (\<lambda>r. r\<lparr>cr_status := st\<rparr>) (t_cert_requests d)"
  using assms by (simp add: apply_status_def sql_set_status_def sql_insert_cert_event_def find_request_def find_upd_where Let_def)

section \<open>Paths of the jobs\<close>

text \<open>
  The passes of the two jobs in any order, and between them whatever the rest of the program does to everything
  but the row of one request.
\<close>

inductive cert_jobs ::
  "'w cert_provider \<Rightarrow> (string \<Rightarrow> string) \<Rightarrow> crypto_library \<Rightarrow> int \<Rightarrow> 'w world_scheme \<Rightarrow> 'w world_scheme \<Rightarrow> bool"
  for p sha256 cl i w where
  start: "cert_jobs p sha256 cl i w w"
| creation: "cert_jobs p sha256 cl i w v \<Longrightarrow> cert_jobs p sha256 cl i w (creation_pass p sha256 v)"
| status: "cert_jobs p sha256 cl i w v \<Longrightarrow> cert_jobs p sha256 cl i w (status_pass p cl v)"
| elsewhere: "cert_jobs p sha256 cl i w v \<Longrightarrow>
    filter (\<lambda>r. cr_id r = i) (t_cert_requests (db u)) = filter (\<lambda>r. cr_id r = i) (t_cert_requests (db v)) \<Longrightarrow> cert_jobs p sha256 cl i w u"

lemma stranded_filter:
  "stranded i d \<longleftrightarrow> filter (\<lambda>r. cr_id r = i) (t_cert_requests d) \<noteq> [] \<and>
     (\<forall>r \<in> set (filter (\<lambda>r. cr_id r = i) (t_cert_requests d)). cr_status r = StatusPending \<and> cr_identifier r = None)"
  by (auto simp: stranded_def filter_empty_conv)

context certificate_manager
begin

lemma jobs_stranded:
  assumes "cert_jobs p sha256 cl i w v" and "stranded i (db w)"
  shows "stranded i (db v)"
  using assms
proof (induction rule: cert_jobs.induct)
  case start
  then show ?case .
next
  case (creation v)
  then show ?case by (simp add: creation_pass_stranded)
next
  case (status v)
  then show ?case by (simp add: status_pass_stranded)
next
  case (elsewhere v u)
  then have "stranded i (db v)" by blast
  then show ?case unfolding stranded_filter elsewhere.hyps(2) .
qed

end

lemma filter_upd_one:
  assumes "distinct (map cr_id rs)" and "r \<in> set rs" and "\<forall>x \<in> set rs. cr_id x \<noteq> cr_id r \<longrightarrow> \<not> P x" and "P (f r)"
  shows "filter P (upd_where (\<lambda>x. cr_id x = cr_id r) f rs) = [f r]"
  using assms
proof (induction rs)
  case (Cons x rs)
  show ?case
  proof (cases "cr_id x = cr_id r")
    case True
    then have x: "x = r" and none: "\<forall>y \<in> set rs. cr_id y \<noteq> cr_id r" using Cons.prems(1,2) by (auto simp: image_iff)
    then have "upd_where (\<lambda>x. cr_id x = cr_id r) f rs = rs" by (simp add: upd_where_none)
    then show ?thesis using x none Cons.prems(3,4) by (simp add: filter_empty_conv)
  next
    case False
    then show ?thesis using Cons by auto
  qed
qed simp

lemma upd_where_twice:
  assumes "\<And>r. p (g r) = p r"
  shows "upd_where p f (upd_where p g rs) = upd_where p (\<lambda>r. f (g r)) rs"
  using assms by (induction rs) auto

lemma not_found_errors: "isNotFoundError (Sentinel ErrIssuedCertificateNotFound)"
proof -
  have "strings_ToLower (sentinel_text ErrIssuedCertificateNotFound) = ''issued certificate '' @ ''not found'' @ []"
    by (simp add: strings_ToLower_def to_lower_char_def)
  then show ?thesis unfolding isNotFoundError_def error_text.simps by (metis strings_Contains_self)
qed

lemma sign_and_store_run:
  assumes "faults w = []" and "GenerateCertificate (ks_crypto (dp_store p)) t request ca (dp_algorithm p) (dp_subject p) = Inr cd"
    and "PrivateKeyToPEM (ks_crypto (dp_store p)) (cd_private_key cd) = Inr keyPEM" and "ks_encrypt (dp_store p) keyPEM = Inr enc"
    and "ident = GenerateCertificateName (dp_sha256 p) (req_owner_sub request) (req_owner_iss request) t"
    and "ident \<notin> ic_identifier ` set (t_issued (db w))" and "find_request (req_id request) (db w) \<noteq> None"
  shows "sign_and_store p request ca t w =
    (Inr (ident, [(''provider'', ''database''), (''algorithm'', dp_algorithm p)]),
     w\<lparr>db := (db w)\<lparr>t_issued := t_issued (db w) @ [issued_row_of ident (cd_certificate cd)
        (cl_pem_encode (ks_crypto (dp_store p)) ''CERTIFICATE'' (xc_raw (cd_certificate cd))) enc
        (cl_pem_encode (ks_crypto (dp_store p)) ''CERTIFICATE'' (xc_raw (cd_certificate ca))) (dp_algorithm p) (req_id request) request (now w)]\<rparr>\<rparr>)"
proof -
  have "ic_identifier (issued_row_of ident c pem enc capem alg i req t) = ident" "ic_request_id (issued_row_of ident c pem enc capem alg i req t) = i"
    for c pem capem alg i req t by (simp_all add: issued_row_of_def)
  then show ?thesis
    using assms
    by (simp add: sign_and_store_def InsertIssuedCertificate_def try_result_def try_db_def lift_result_def roundtrip_def sql_insert_issued_def
        ok_def Let_def)
qed

text \<open>The request's row between the two jobs, and after them.\<close>

definition created_row :: "string \<Rightarrow> metadata \<Rightarrow> cert_row \<Rightarrow> cert_row" where
  "created_row ident md r = r\<lparr>cr_status := StatusPending, cr_identifier := Some ident, cr_metadata := Some md\<rparr>"

definition issued_request_row :: "string \<Rightarrow> issued_certificate_details \<Rightarrow> cert_row \<Rightarrow> cert_row" where
  "issued_request_row pem details r =
     r\<lparr>cr_status := StatusIssued, cr_pem := Some pem, cr_serial := Some (icd_serial_number details),
       cr_issued_at := Some (icd_not_before details), cr_expires_at := Some (icd_not_after details)\<rparr>"

lemma creation_run:
  fixes w :: "'w ca_world_scheme"
  assumes quiet: "faults w = []" and sys: "find_system (db w) = Some u" "ur_iss u \<noteq> []" "ur_sub u \<noteq> []"
    and row: "find_request (cr_id r) (db w) = Some r" "cr_owner_iss r \<noteq> []" "cr_owner_sub r \<noteq> []"
    and ca: "ca_cached w = Some ca"
    and gen: "GenerateCertificate (ks_crypto (dp_store p)) (now w) (scan_request r) ca (dp_algorithm p) (dp_subject p) = Inr cd"
    and key: "PrivateKeyToPEM (ks_crypto (dp_store p)) (cd_private_key cd) = Inr keyPEM" "ks_encrypt (dp_store p) keyPEM = Inr enc"
    and absent: "find_issued (GenerateCertificateName sha256 (cr_owner_sub r) (cr_owner_iss r) (cr_requested_at r)) (db w) = None"
    and ident: "ident = GenerateCertificateName (dp_sha256 p) (cr_owner_sub r) (cr_owner_iss r) (now w)"
      "ident \<notin> ic_identifier ` set (t_issued (db w))"
  obtains d where "handle_approved (db_provider p) sha256 (scan_request r) w = w\<lparr>db := d\<rparr>"
    and "t_cert_requests d = upd_where (\<lambda>x. cr_id x = cr_id r)
       (created_row ident [(''provider'', ''database''), (''algorithm'', dp_algorithm p)]) (t_cert_requests (db w))"
    and "t_users d = t_users (db w)"
    and "t_issued d = t_issued (db w) @ [issued_row_of ident (cd_certificate cd)
        (cl_pem_encode (ks_crypto (dp_store p)) ''CERTIFICATE'' (xc_raw (cd_certificate cd))) enc
        (cl_pem_encode (ks_crypto (dp_store p)) ''CERTIFICATE'' (xc_raw (cd_certificate ca))) (dp_algorithm p) (cr_id r) (scan_request r) (now w)]"
proof -
  define d1 where "d1 = apply_status (cr_id r) StatusPending (ur_iss u) (ur_sub u) ''Pending certificate issuance'' r (now w) (db w)"
  have rows1: "t_cert_requests d1 = upd_where (\<lambda>x. cr_id x = cr_id r) (\<lambda>r. r\<lparr>cr_status := StatusPending\<rparr>) (t_cert_requests (db w))"
    unfolding d1_def by (rule apply_status_rows [OF row(1) sys(2,3) row(2,3)])
  have other1: "t_issued d1 = t_issued (db w)" "t_users d1 = t_users (db w)"
    using sys row by (simp_all add: d1_def apply_status_def sql_set_status_def sql_insert_cert_event_def Let_def)
  have found1: "find_request (cr_id r) d1 = Some (r\<lparr>cr_status := StatusPending\<rparr>)"
    using row(1) by (simp add: find_request_def rows1 find_upd_where)
  define md where "md = [(''provider'', ''database''), (''algorithm'', dp_algorithm p)]"
  define new where "new = issued_row_of ident (cd_certificate cd)
        (cl_pem_encode (ks_crypto (dp_store p)) ''CERTIFICATE'' (xc_raw (cd_certificate cd))) enc
        (cl_pem_encode (ks_crypto (dp_store p)) ''CERTIFICATE'' (xc_raw (cd_certificate ca))) (dp_algorithm p) (cr_id r) (scan_request r) (now w)"
  define d2 where "d2 = d1\<lparr>t_issued := t_issued d1 @ [new]\<rparr>"
  have data: "pv_data (db_provider p) (GenerateCertificateName sha256 (cr_owner_sub r) (cr_owner_iss r) (cr_requested_at r)) (w\<lparr>db := d1\<rparr>) =
      (Inl (Sentinel ErrIssuedCertificateNotFound), w\<lparr>db := d1\<rparr>)"
    using absent quiet by (simp add: db_provider_def GetIssuedCertificate_run find_issued_def other1)
  have "sign_and_store p (scan_request r) ca (now w) (w\<lparr>db := d1\<rparr>) = (Inr (ident, md), w\<lparr>db := d2\<rparr>)"
    using sign_and_store_run [of "w\<lparr>db := d1\<rparr>" p "now w" "scan_request r", OF _ gen key, of ident] quiet ident found1
    by (simp add: other1 d2_def md_def new_def)
  then have create: "pv_create (db_provider p) (scan_request r) (w\<lparr>db := d1\<rparr>) = (Inr (ident, md), w\<lparr>db := d2\<rparr>)"
    using ca by (simp add: db_provider_def db_CreateCertificateFromRequest_def try_db_def getCA_def)
  have found2: "find_request (cr_id r) d2 = Some (r\<lparr>cr_status := StatusPending\<rparr>)"
    using found1 by (simp add: d2_def find_request_def)
  define d3 where "d3 = snd (sql_set_metadata (cr_id r) ident (Some md) (now w) d2)"
  have "handle_approved (db_provider p) sha256 (scan_request r) w = w\<lparr>db := d3\<rparr>"
    using GetSystemUser_run [OF quiet sys(1)] UpdateCertificateRequestStatus_run [OF quiet row(1) sys(2,3) row(2,3)] data create not_found_errors
      UpdateCertificateMetadata_run [of "w\<lparr>db := d2\<rparr>" "cr_id r" _ ident "Some md"] quiet found2
    by (simp add: handle_approved_def try_db_def create_or_reuse_def Let_def d3_def flip: d1_def)
  moreover have "t_cert_requests d3 = upd_where (\<lambda>x. cr_id x = cr_id r) (created_row ident md) (t_cert_requests (db w))"
    unfolding d3_def sql_set_metadata_def d2_def by (simp add: rows1 upd_where_twice created_row_def [abs_def])
  moreover have "t_users d3 = t_users (db w)" "t_issued d3 = t_issued (db w) @ [new]"
    by (simp_all add: d3_def sql_set_metadata_def d2_def other1)
  ultimately show ?thesis using that unfolding md_def new_def by blast
qed

lemma status_run:
  fixes w :: "'w ca_world_scheme"
  assumes quiet: "faults w = []" and sys: "find_system (db w) = Some u" "ur_iss u \<noteq> []" "ur_sub u \<noteq> []"
    and row: "find_request (cr_id r) (db w) = Some r" "cr_owner_iss r \<noteq> []" "cr_owner_sub r \<noteq> []"
    and ident: "cr_identifier r = Some ident"
    and stored: "GetIssuedCertificateByIdentifier (dp_store p) ident w = (Inr (pem, keyPEM, caPEM), w)"
    and details: "ParseCertificateDetails cl pem = Inr details"
  obtains d where "handle_issued (db_provider p) cl (ur_iss u) (ur_sub u) (scan_request r) w = w\<lparr>db := d\<rparr>"
    and "t_cert_requests d = upd_where (\<lambda>x. cr_id x = cr_id r) (issued_request_row pem details) (t_cert_requests (db w))"
    and "t_issued d = t_issued (db w)"
proof -
  define d where "d = apply_issued (cr_id r) pem (icd_serial_number details) (icd_not_before details) (icd_not_after details)
    (ur_iss u) (ur_sub u) r (now w) (db w)"
  have "handle_issued (db_provider p) cl (ur_iss u) (ur_sub u) (scan_request r) w = w\<lparr>db := d\<rparr>"
    using ident stored details UpdateCertificateRequestIssued_run [OF quiet row(1) sys(2,3) row(2,3)]
    by (simp add: handle_issued_def db_provider_def db_IsCertificateReady_def try_db_def lift_result_def d_def)
  moreover have "t_cert_requests d = upd_where (\<lambda>x. cr_id x = cr_id r) (issued_request_row pem details) (t_cert_requests (db w))"
    "t_issued d = t_issued (db w)"
    using sys row by (simp_all add: d_def apply_issued_def sql_set_issued_def sql_insert_cert_event_def find_request_def find_upd_where Let_def
        issued_request_row_def [abs_def])
  ultimately show ?thesis using that by blast
qed

section \<open>Properties\<close>

text \<open>
  C37: A request the creation job gave up on is lost. Once a request is pending without a certificate
  identifier, neither job ever touches it again, whatever the provider answers, whatever the database fails at and
  in whatever order they run: it is neither issued nor put back.
\<close>

theorem stranded_request_stays:
  assumes "certificate_manager p" and "stranded i (db w)" and "cert_jobs p sha256 cl i w v"
  shows "stranded i (db v)"
  using certificate_manager.jobs_stranded [OF assms(1,3,2)] .

text \<open>
  A provider that cannot tell loses requests. When the creation job handles an approved request and the
  provider fails to say whether its certificate exists, with any error but a missing certificate, the request ends up
  pending without an identifier, which no later pass of a job mends.
\<close>

theorem undecided_check_strands_request:
  assumes "certificate_manager p" and "faults w = []" and "find_system (db w) = Some u" and "ur_iss u \<noteq> []" "ur_sub u \<noteq> []"
    and "r \<in> set (t_cert_requests (db w))" and "cert_inv (db w)" and "cr_identifier r = None" and "cr_owner_iss r \<noteq> []" "cr_owner_sub r \<noteq> []"
    and "\<And>ident v. \<exists>e v'. pv_data p ident v = (Inl e, v') \<and> \<not> isNotFoundError e"
    and "cert_jobs p sha256 cl (cr_id r) (handle_approved p sha256 (scan_request r) w) v"
  shows "stranded (cr_id r) (db v)"
proof -
  have distinct: "distinct (map cr_id (t_cert_requests (db w)))" using assms(7) by (simp add: cert_inv_def cert_wf_def)
  then have found: "find_request (cr_id r) (db w) = Some r"
    using assms(6) unfolding find_request_def by (rule find_distinct_id)
  have same: "r' = r" if "r' \<in> set (t_cert_requests (db w))" "cr_id r' = cr_id r" for r'
    using distinct assms(6) that by (auto simp: distinct_map dest: inj_onD)
  define d where "d = apply_status (cr_id r) StatusPending (ur_iss u) (ur_sub u) ''Pending certificate issuance'' r (now w) (db w)"
  have rows: "t_cert_requests d = upd_where (\<lambda>r'. cr_id r' = cr_id r) (\<lambda>r. r\<lparr>cr_status := StatusPending\<rparr>) (t_cert_requests (db w))"
    unfolding d_def by (rule apply_status_rows [OF found assms(4,5,9,10)])
  have "\<forall>x \<in> set (t_cert_requests (db w)). cr_id x = cr_id r \<longrightarrow> cr_identifier x = None" using same assms(8) by blast
  moreover have "r\<lparr>cr_status := StatusPending\<rparr> \<in> set (t_cert_requests d)"
    unfolding rows set_upd_where using assms(6) by (rule rev_image_eqI) simp
  ultimately have "stranded (cr_id r) d"
    unfolding stranded_def by (intro conjI bexI [of _ "r\<lparr>cr_status := StatusPending\<rparr>"]) (auto simp: rows set_upd_where)
  moreover have "t_cert_requests (db (handle_approved p sha256 (scan_request r) w)) = t_cert_requests d"
  proof -
    let ?n = "GenerateCertificateName sha256 (cr_owner_sub r) (cr_owner_iss r) (cr_requested_at r)"
    obtain e v' where data: "pv_data p ?n (w\<lparr>db := d\<rparr>) = (Inl e, v')" "\<not> isNotFoundError e" using assms(11) by blast
    have "t_cert_requests (db v') = t_cert_requests d"
      using leaves_requestsD(1) [OF certificate_manager.data_leaves [OF assms(1)], of ?n "w\<lparr>db := d\<rparr>"] data(1) by simp
    moreover have "handle_approved p sha256 (scan_request r) w = v'"
      using GetSystemUser_run [OF assms(2,3)] UpdateCertificateRequestStatus_run [OF assms(2) found assms(4,5,9,10)] data
      by (simp add: handle_approved_def try_db_def create_or_reuse_def Let_def flip: d_def)
    ultimately show ?thesis by simp
  qed
  ultimately have "stranded (cr_id r) (db (handle_approved p sha256 (scan_request r) w))"
    by (rule stranded_cong [rotated])
  then show ?thesis using certificate_manager.jobs_stranded [OF assms(1,12)] by blast
qed


section \<open>Examples\<close>

definition system_row :: user_row where
  "system_row = \<lparr>ur_iss = ''https://idp'', ur_sub = ''system'', ur_username = ''system'', ur_display_name = ''System'',
     ur_email = ''noreply@system'', ur_is_system = True, ur_last_logged_in = None, ur_created_at = None\<rparr>"

definition approved_database :: database where
  "approved_database = (db example_approved_world)\<lparr>t_users := [system_row]\<rparr>"

definition approved_row :: cert_row where
  "approved_row = example_request_row\<lparr>cr_status := StatusApproved\<rparr>"

lemma approved_database_facts:
  "t_cert_requests approved_database = [approved_row]" "find_system approved_database = Some system_row"
  "t_issued approved_database = []" "cert_inv approved_database" "ur_iss system_row \<noteq> []" "ur_sub system_row \<noteq> []"
  "cr_id approved_row = 1" "cr_owner_iss approved_row \<noteq> []" "cr_owner_sub approved_row \<noteq> []" "cr_status approved_row = StatusApproved"
  "cr_identifier approved_row = None"
proof -
  have "cert_inv (db example_approved_world)" using cert_reachable_inv [OF example_reachable(2)] .
  then show "cert_inv approved_database" by (rule cert_inv_cong [rotated -1]) (simp_all add: approved_database_def)
  show "t_cert_requests approved_database = [approved_row]"
    using example_approved_db by (simp add: approved_database_def approved_row_def)
  show "t_issued approved_database = []"
    by (simp add: approved_database_def example_approved_world_def example_request_db UpdateCertificateRequestStatus_def
      example_world_def empty_database_def example_request_row_def with_tx_def sql_set_status_def
      sql_insert_cert_event_def db_query_eq db_query_row_eq try_db_def roundtrip_def next_fault_def
      pop_fault_def ok_def find_request_def Let_def)
qed (simp_all add: approved_database_def approved_row_def example_request_row_def system_row_def find_system_def)

text \<open>A cluster that is down, and one that knows no certificate but takes new ones.\<close>

definition toy_cluster :: "k8s_error \<Rightarrow> nat k8s_client" where
  "toy_cluster e =
     \<lparr>kl_create = \<lambda>ns c s. (Inr c, s + 1), kl_get = \<lambda>ns n s. (Inl e, s), kl_delete = \<lambda>ns n s. (Inr (), s),
      kl_secret = \<lambda>ns n s. (Inl e, s)\<rparr>"

definition toy_k8s :: "k8s_error \<Rightarrow> nat k8s_provider" where
  "toy_k8s e =
     \<lparr>kp_client = toy_cluster e, kp_namespace = ''conduit'', kp_issuer_name = ''ca'', kp_issuer_kind = ''Issuer'', kp_subject = None,
      kp_sha256 = \<lambda>s. s\<rparr>"

definition approved_k8s_world :: "string option list \<Rightarrow> nat k8s_world" where
  "approved_k8s_world fs = \<lparr>db = approved_database, now = 7, faults = fs, k8s = 0\<rparr>"

theorem undecided_check_strands_request_witness:
  "stranded 1 (db (handle_approved (kubernetes_provider (toy_k8s (ApiError ''connection refused''))) (\<lambda>s. s) (scan_request approved_row)
     (approved_k8s_world [])))"
proof -
  have down: "\<exists>e v'. pv_data (kubernetes_provider (toy_k8s (ApiError ''connection refused''))) ident (v :: nat k8s_world) = (Inl e, v') \<and>
      \<not> isNotFoundError e" for ident v
    by (simp add: kubernetes_provider_def k8s_GetCertificateData_def GetCertificate_def k8s_call_def toy_k8s_def toy_cluster_def
        not_found_text_def try_db_def isNotFoundError_def strings_ToLower_def to_lower_char_def strings_Contains_def sublist_code)
  have "stranded (cr_id approved_row) (db (handle_approved (kubernetes_provider (toy_k8s (ApiError ''connection refused''))) (\<lambda>s. s)
      (scan_request approved_row) (approved_k8s_world [])))"
  proof (rule undecided_check_strands_request [where u = system_row])
    show "certificate_manager (kubernetes_provider (toy_k8s (ApiError ''connection refused'')) :: (nat, unit) k8s_world_ext cert_provider)"
      by unfold_locales
  qed (use down approved_database_facts in \<open>auto simp: approved_k8s_world_def intro: cert_jobs.start\<close>)
  then show ?thesis by (simp add: approved_database_facts)
qed

text \<open>A request whose certificate was made but whose row did not take the identifier.\<close>

definition lost_metadata :: "nat k8s_world" where
  "lost_metadata = handle_approved (kubernetes_provider (toy_k8s (NotFound ''not found''))) (\<lambda>s. s) (scan_request approved_row)
     (approved_k8s_world [None, None, None, None, None, None, Some ''connection reset''])"

lemma lost_metadata_stranded: "stranded 1 (db lost_metadata)"
proof -
  have found: "find_request 1 approved_database = Some approved_row"
    by (simp add: find_request_def approved_database_facts)
  have "t_cert_requests (db lost_metadata) = [approved_row\<lparr>cr_status := StatusPending\<rparr>]"
    using approved_database_facts found not_found_errors
    by (simp add: lost_metadata_def approved_k8s_world_def handle_approved_def GetSystemUser_def UpdateCertificateRequestStatus_def with_tx_def
        try_db_def db_query_eq db_query_row_eq roundtrip_def ok_def next_fault_def pop_fault_def sql_set_status_def
        sql_insert_cert_event_def find_request_def Let_def create_or_reuse_def kubernetes_provider_def k8s_GetCertificateData_def
        GetCertificate_def k8s_call_def toy_k8s_def toy_cluster_def not_found_text_def isNotFoundError_def strings_ToLower_def
        to_lower_char_def strings_Contains_def sublist_code k8s_CreateCertificateFromRequest_def UpdateCertificateMetadata_def)
  then show ?thesis by (simp add: stranded_def approved_database_facts)
qed

theorem stranded_request_stays_witness:
  "stranded 1 (db (status_pass (kubernetes_provider (toy_k8s (NotFound ''not found''))) toy_crypto
     (creation_pass (kubernetes_provider (toy_k8s (NotFound ''not found''))) (\<lambda>s. s) lost_metadata)))"
proof (rule stranded_request_stays [OF _ lost_metadata_stranded])
  show "certificate_manager (kubernetes_provider (toy_k8s (NotFound ''not found'')) :: (nat, unit) k8s_world_ext cert_provider)"
    by unfold_locales
qed (rule cert_jobs.status, rule cert_jobs.creation, rule cert_jobs.start)

definition toy_provider :: database_provider where
  "toy_provider = \<lparr>dp_store = toy_store ''key'', dp_algorithm = ''ECDSA-P256'', dp_subject = None, dp_sha256 = \<lambda>s. s\<rparr>"

definition approved_ca_world :: ca_world where
  "approved_ca_world = \<lparr>db = approved_database, now = 7, faults = [], ca_cached = Some toy_data\<rparr>"


end
