(* ===== verification/Router_Client.thy ===== *)
theory Router_Client
  imports Firewall_Handlers
begin

text \<open>
  The client of the router: \<open>internal/services/firewall\<close>. It reads an alias of OPNsense and writes it back with
  another content.

  Parameters: the HTTP client with the router behind it, on a state of its own, and the JSON of the alias. Go's
  order of iteration over a map is not determined; here it is the order of the list that stands for the map,
  and the properties do not depend on it.
\<close>

section \<open>Aliases (get_alias_types.go, set_alias_types.go)\<close>

record select_option =
  so_value :: string
  so_selected :: int
  so_description :: string

record content_item =
  ci_value :: string
  ci_selected :: int
  ci_description :: string

record alias_detail =
  ad_enabled :: string
  ad_name :: string
  ad_type :: "(string \<times> select_option) list"
  ad_path_expression :: string
  ad_proto :: "(string \<times> select_option) list"
  ad_interface :: "(string \<times> select_option) list"
  ad_counters :: string
  ad_update_freq :: string
  ad_content :: "(string \<times> content_item) list"
  ad_password :: string
  ad_username :: string
  ad_auth_type :: "(string \<times> select_option) list"
  ad_categories :: "(string \<times> select_option) list"
  ad_current_items :: string
  ad_last_updated :: string
  ad_description :: string

record alias_set_request =
  as_enabled :: string
  as_name :: string
  as_type :: string
  as_proto :: string
  as_categories :: string
  as_update_freq :: string
  as_content :: string
  as_path_expression :: string
  as_auth_type :: string
  as_username :: string
  as_password :: string
  as_interface :: string
  as_counters :: string
  as_description :: string
  as_network_content :: string
  as_auth_group_content :: string

definition isInternalAlias :: "string \<Rightarrow> bool" where
  "isInternalAlias key = list_ex (\<lambda>p. prefix p key) [''__'', ''bogons'', ''virusprot'', ''sshlockout'']"

definition isAliasReference :: "string \<Rightarrow> bool" where
  "isAliasReference key =
     (\<not> list_ex (\<lambda>c. c = CHR ''.'' \<or> c = CHR '':'' \<or> (c = CHR ''-'' \<and> hd key \<noteq> CHR ''-'')) key)"

definition strip_slash :: "string \<Rightarrow> string" where
  "strip_slash ip = (if strings_Contains ip ''/'' then hd (strings_Split (CHR ''/'') ip) else ip)"

definition GetSelectedIPs :: "alias_detail \<Rightarrow> string list" where
  "GetSelectedIPs a =
     map (\<lambda>(key, item). strip_slash (ci_value item))
       (filter (\<lambda>(key, item). ci_selected item = 1 \<and> \<not> isInternalAlias key \<and> \<not> isAliasReference key) (ad_content a))"

definition getSelected :: "(string \<times> select_option) list \<Rightarrow> string" where
  "getSelected options =
     (case find (\<lambda>(key, opt). so_selected opt = 1) options of None \<Rightarrow> [] | Some (key, opt) \<Rightarrow> key)"

section \<open>Requests (router_client.go)\<close>

record http_request =
  hq_method :: string
  hq_url :: string
  hq_username :: string
  hq_password :: string
  hq_content_type :: string
  hq_body :: string

record http_response =
  hs_status :: int
  hs_body :: string

record 's router_http =
  rh_new_request :: "string \<Rightarrow> unit result"
  rh_do :: "http_request \<Rightarrow> 's \<Rightarrow> (goerror + http_response) \<times> 's"
  rh_decode :: "string \<Rightarrow> alias_detail result"
  rh_encode :: "alias_set_request \<Rightarrow> string result"

record 's router_client =
  rc_config :: firewall_management
  rc_http :: "'s router_http"

record 's router_world = world +
  router :: 's

definition normalizeEndpoint :: "firewall_management \<Rightarrow> string" where
  "normalizeEndpoint fw =
     (let endpoint = fw_router_endpoint fw in
      if endpoint \<noteq> [] \<and> last endpoint = CHR ''/'' then butlast endpoint else endpoint)"

definition get_url :: "firewall_management \<Rightarrow> string \<Rightarrow> string" where
  "get_url fw uuid = normalizeEndpoint fw @ ''/api/firewall/alias/get_item/'' @ uuid"

definition set_url :: "firewall_management \<Rightarrow> string \<Rightarrow> string" where
  "set_url fw uuid = normalizeEndpoint fw @ ''/api/firewall/alias/set_item/'' @ uuid"

definition reconfigure_url :: "firewall_management \<Rightarrow> string" where
  "reconfigure_url fw = normalizeEndpoint fw @ ''/api/firewall/alias/reconfigure''"

definition request_of :: "firewall_management \<Rightarrow> string \<Rightarrow> string \<Rightarrow> string \<Rightarrow> string \<Rightarrow> http_request" where
  "request_of fw verb url ctype body =
     \<lparr>hq_method = verb, hq_url = url, hq_username = fw_router_api_key fw, hq_password = fw_router_api_secret fw,
      hq_content_type = ctype, hq_body = body\<rparr>"

definition send ::
  "'s router_client \<Rightarrow> string \<Rightarrow> string \<Rightarrow> string \<Rightarrow> string \<Rightarrow> string \<Rightarrow> string \<Rightarrow> (('s, 'w) router_world_ext, http_response) dbop" where
  "send c verb url ctype body badRequest failed w =
     (case rh_new_request (rc_http c) url of
        Inl e \<Rightarrow> (Inl (wrap badRequest e), w)
      | Inr _ \<Rightarrow>
          (let (r, s) = rh_do (rc_http c) (request_of (rc_config c) verb url ctype body) (router w) in
           (case r of Inl e \<Rightarrow> Inl (wrap failed e) | Inr resp \<Rightarrow> Inr resp, w\<lparr>router := s\<rparr>)))"

definition GetAliasIPs :: "'s router_client \<Rightarrow> string \<Rightarrow> (('s, 'w) router_world_ext, string list) dbop" where
  "GetAliasIPs c uuid =
     try_db (send c ''GET'' (get_url (rc_config c) uuid) [] [] ''failed to create request: '' ''request failed: '') id
       (\<lambda>resp. if hs_status resp \<noteq> 200
         then fail (Errorf (''unexpected status code '' @ show_int (hs_status resp) @ '': '' @ hs_body resp))
         else try_db (lift_result (rh_decode (rc_http c) (hs_body resp))) (wrap ''failed to decode response: '')
                (\<lambda>d. ok (GetSelectedIPs d)))"

definition cleanIP :: "string \<Rightarrow> string" where
  "cleanIP = takeWhile (\<lambda>c. c \<noteq> CHR ''/'')"

fun join_lines :: "string list \<Rightarrow> string" where
  "join_lines [] = []"
| "join_lines [x] = x"
| "join_lines (x # y # ys) = x @ [CHR 0x0A] @ join_lines (y # ys)"

text \<open>The keys of \<open>ipMap\<close>: the current addresses, without those to remove, with those to add.\<close>

definition new_ips :: "string list \<Rightarrow> string list \<Rightarrow> string list \<Rightarrow> string list" where
  "new_ips current ipsToAdd ipsToRemove = remdups (filter (\<lambda>ip. ip \<notin> set ipsToRemove) current @ ipsToAdd)"

definition set_request_of :: "alias_detail \<Rightarrow> string list \<Rightarrow> alias_set_request" where
  "set_request_of a newIPs =
     \<lparr>as_enabled = ad_enabled a, as_name = ad_name a, as_type = getSelected (ad_type a), as_proto = getSelected (ad_proto a),
      as_categories = getSelected (ad_categories a), as_update_freq = ad_update_freq a, as_content = join_lines (map cleanIP newIPs),
      as_path_expression = ad_path_expression a, as_auth_type = getSelected (ad_auth_type a), as_username = ad_username a,
      as_password = ad_password a, as_interface = getSelected (ad_interface a), as_counters = ad_counters a,
      as_description = ad_description a, as_network_content = [], as_auth_group_content = []\<rparr>"

definition status_error :: "string \<Rightarrow> http_response \<Rightarrow> goerror" where
  "status_error what resp = Errorf (what @ '' returned status '' @ show_int (hs_status resp) @ '': '' @ hs_body resp)"

text \<open>The second \<open>GET\<close> does not look at the status of its response.\<close>

definition write_alias :: "'s router_client \<Rightarrow> string \<Rightarrow> string list \<Rightarrow> (('s, 'w) router_world_ext, unit) dbop" where
  "write_alias c uuid newIPs =
     try_db (send c ''GET'' (get_url (rc_config c) uuid) [] [] ''failed to create get request: '' ''get request failed: '') id
       (\<lambda>resp. try_db (lift_result (rh_decode (rc_http c) (hs_body resp))) (wrap ''failed to decode alias: '')
          (\<lambda>full. try_db (lift_result (rh_encode (rc_http c) (set_request_of full newIPs))) (wrap ''failed to marshal set request: '')
             (\<lambda>body. try_db (send c ''POST'' (set_url (rc_config c) uuid) ''application/json'' body
                              ''failed to create set request: '' ''set request failed: '') id
                (\<lambda>setResp. if hs_status setResp \<noteq> 200 then fail (status_error ''set request'' setResp)
                  else try_db (send c ''POST'' (reconfigure_url (rc_config c)) [] []
                                 ''failed to create reconfigure request: '' ''reconfigure request failed: '') id
                    (\<lambda>reResp. if hs_status reResp \<noteq> 200 then fail (status_error ''reconfigure'' reResp) else ok ())))))"

definition UpdateAlias :: "'s router_client \<Rightarrow> string \<Rightarrow> string list \<Rightarrow> string list \<Rightarrow> (('s, 'w) router_world_ext, unit) dbop" where
  "UpdateAlias c uuid ipsToAdd ipsToRemove =
     try_db (GetAliasIPs c uuid) (wrap ''failed to get current alias state: '')
       (\<lambda>currentIPs. write_alias c uuid (new_ips currentIPs ipsToAdd ipsToRemove))"

section \<open>What the router does\<close>

text \<open>
  An address the router takes as such: one line without a mask that is neither the name of an alias nor one of
  the router's own. \<open>alias_api\<close> is OPNsense's documented API, on what the selected addresses of every alias
  are: reading does not change them and gives them, setting an alias to a content of addresses sets them to its
  lines, and reconfiguring keeps them.
\<close>

definition plain_address :: "string \<Rightarrow> bool" where
  "plain_address ip \<longleftrightarrow> cleanIP ip = ip \<and> CHR 0x0A \<notin> set ip \<and> \<not> isInternalAlias ip \<and> \<not> isAliasReference ip"

definition content_lines :: "string \<Rightarrow> string set" where
  "content_lines content = {l \<in> set (strings_Split (CHR 0x0A) content). l \<noteq> []}"

definition alias_api :: "'s router_client \<Rightarrow> ('s \<Rightarrow> string \<Rightarrow> string set) \<Rightarrow> bool" where
  "alias_api c selected \<longleftrightarrow>
     (\<forall>uuid s r s'. rh_do (rc_http c) (request_of (rc_config c) ''GET'' (get_url (rc_config c) uuid) [] []) s = (r, s') \<longrightarrow>
        selected s' = selected s \<and>
        (\<forall>resp d. r = Inr resp \<longrightarrow> hs_status resp = 200 \<longrightarrow> rh_decode (rc_http c) (hs_body resp) = Inr d \<longrightarrow>
           set (GetSelectedIPs d) = selected s uuid)) \<and>
     (\<forall>uuid q body s resp s'. rh_encode (rc_http c) q = Inr body \<longrightarrow> (\<forall>l \<in> content_lines (as_content q). plain_address l) \<longrightarrow>
        rh_do (rc_http c) (request_of (rc_config c) ''POST'' (set_url (rc_config c) uuid) ''application/json'' body) s = (Inr resp, s') \<longrightarrow>
        hs_status resp = 200 \<longrightarrow> selected s' = (selected s)(uuid := content_lines (as_content q))) \<and>
     (\<forall>s r s'. rh_do (rc_http c) (request_of (rc_config c) ''POST'' (reconfigure_url (rc_config c)) [] []) s = (r, s') \<longrightarrow>
        selected s' = selected s)"

lemma plain_not_empty: "plain_address ip \<Longrightarrow> ip \<noteq> []"
  by (auto simp: plain_address_def isAliasReference_def)

lemma join_lines_Cons: "join_lines (x # xs) = (if xs = [] then x else x @ CHR 0x0A # join_lines xs)"
  by (cases xs) simp_all

lemma content_lines_join:
  assumes "list_all plain_address ips"
  shows "content_lines (join_lines (map cleanIP ips)) = set ips"
  using assms
proof (induction ips)
  case (Cons ip ips)
  then have ip: "cleanIP ip = ip" "CHR 0x0A \<notin> set ip" "ip \<noteq> []" using plain_not_empty by (auto simp: plain_address_def)
  then show ?case
    using Cons by (auto simp: join_lines_Cons content_lines_def strings_Split_append strings_Split_no_sep)
qed (simp add: content_lines_def)

lemma send_InrE:
  assumes "send c verb url ctype body h1 h2 w = (Inr resp, w')"
  obtains s where "rh_do (rc_http c) (request_of (rc_config c) verb url ctype body) (router w) = (Inr resp, s)" and "w' = w\<lparr>router := s\<rparr>"
  using assms by (auto simp: send_def split: sum.splits prod.splits)

lemma GetAliasIPs_success:
  assumes "alias_api c selected" and "GetAliasIPs c uuid w = (Inr ips, w')"
  obtains s where "w' = w\<lparr>router := s\<rparr>" and "selected s = selected (router w)" and "set ips = selected (router w) uuid"
proof -
  obtain resp w1 where run: "send c ''GET'' (get_url (rc_config c) uuid) [] [] ''failed to create request: '' ''request failed: '' w = (Inr resp, w1)"
    and rest: "(if hs_status resp \<noteq> 200
         then fail (Errorf (''unexpected status code '' @ show_int (hs_status resp) @ '': '' @ hs_body resp))
         else try_db (lift_result (rh_decode (rc_http c) (hs_body resp))) (wrap ''failed to decode response: '')
                (\<lambda>d. ok (GetSelectedIPs d))) w1 = (Inr ips, w')"
    using assms(2) unfolding GetAliasIPs_def by (rule try_db_InrE)
  obtain s where s: "rh_do (rc_http c) (request_of (rc_config c) ''GET'' (get_url (rc_config c) uuid) [] []) (router w) = (Inr resp, s)"
    "w1 = w\<lparr>router := s\<rparr>" using run by (rule send_InrE)
  obtain d where d: "hs_status resp = 200" "rh_decode (rc_http c) (hs_body resp) = Inr d" "ips = GetSelectedIPs d" "w' = w1"
    using rest by (auto simp: fail_def split: if_splits elim!: success_elims)
  show ?thesis using assms(1) s d that unfolding alias_api_def by blast
qed

lemma write_alias_success:
  assumes "alias_api c selected" and "list_all plain_address ips" and "write_alias c uuid ips w = (Inr (), w')"
  obtains s where "w' = w\<lparr>router := s\<rparr>" and "selected s = (selected (router w))(uuid := set ips)"
proof -
  from assms(3) obtain resp full body setResp reResp w1 w2 w3
    where get: "send c ''GET'' (get_url (rc_config c) uuid) [] [] ''failed to create get request: '' ''get request failed: '' w = (Inr resp, w1)"
      and body: "rh_encode (rc_http c) (set_request_of full ips) = Inr body"
      and post: "send c ''POST'' (set_url (rc_config c) uuid) ''application/json'' body ''failed to create set request: ''
         ''set request failed: '' w1 = (Inr setResp, w2)" "hs_status setResp = 200"
      and re: "send c ''POST'' (reconfigure_url (rc_config c)) [] [] ''failed to create reconfigure request: ''
         ''reconfigure request failed: '' w2 = (Inr reResp, w3)"
      and fin: "w' = w3"
    unfolding write_alias_def by (auto simp: fail_def split: if_splits elim!: success_elims)
  obtain s1 where s1: "rh_do (rc_http c) (request_of (rc_config c) ''GET'' (get_url (rc_config c) uuid) [] []) (router w) = (Inr resp, s1)"
    "w1 = w\<lparr>router := s1\<rparr>" using get by (rule send_InrE)
  obtain s2 where s2: "rh_do (rc_http c) (request_of (rc_config c) ''POST'' (set_url (rc_config c) uuid) ''application/json'' body) (router w1) =
      (Inr setResp, s2)" "w2 = w1\<lparr>router := s2\<rparr>" using post(1) by (rule send_InrE)
  obtain s3 where s3: "rh_do (rc_http c) (request_of (rc_config c) ''POST'' (reconfigure_url (rc_config c)) [] []) (router w2) = (Inr reResp, s3)"
    "w3 = w2\<lparr>router := s3\<rparr>" using re by (rule send_InrE)
  have "content_lines (as_content (set_request_of full ips)) = set ips"
    using content_lines_join [OF assms(2)] by (simp add: set_request_of_def)
  then have "selected s2 = (selected s1)(uuid := set ips)"
    using assms(1,2) body post(2) s2 s1(2) unfolding alias_api_def by (simp add: list_all_iff)
  moreover have "selected s1 = selected (router w)" using assms(1) s1(1) unfolding alias_api_def by blast
  moreover have "selected s3 = selected s2" using assms(1) s3(1) s2(2) unfolding alias_api_def by (metis router_world.select_convs(1) router_world.surjective router_world.update_convs(1))
  ultimately show ?thesis using that s1(2) s2(2) s3(2) fin by simp
qed

lemma UpdateAlias_success:
  assumes "alias_api c selected" and "UpdateAlias c uuid ipsToAdd ipsToRemove w = (Inr (), w')"
    and "\<forall>ip \<in> (selected (router w) uuid - set ipsToRemove) \<union> set ipsToAdd. plain_address ip"
  obtains s where "w' = w\<lparr>router := s\<rparr>"
    and "selected s = (selected (router w))(uuid := (selected (router w) uuid - set ipsToRemove) \<union> set ipsToAdd)"
proof -
  obtain current w1 where get: "GetAliasIPs c uuid w = (Inr current, w1)"
    and wr: "write_alias c uuid (new_ips current ipsToAdd ipsToRemove) w1 = (Inr (), w')"
    using assms(2) unfolding UpdateAlias_def by (rule try_db_InrE)
  obtain s1 where s1: "w1 = w\<lparr>router := s1\<rparr>" "selected s1 = selected (router w)" "set current = selected (router w) uuid"
    using GetAliasIPs_success [OF assms(1) get] .
  have new: "set (new_ips current ipsToAdd ipsToRemove) = (selected (router w) uuid - set ipsToRemove) \<union> set ipsToAdd"
    using s1(3) by (auto simp: new_ips_def)
  then have "list_all plain_address (new_ips current ipsToAdd ipsToRemove)" using assms(3) by (simp add: list_all_iff)
  from write_alias_success [OF assms(1) this wr] obtain s where
    "w' = w1\<lparr>router := s\<rparr>" "selected s = (selected (router w1))(uuid := set (new_ips current ipsToAdd ipsToRemove))" by blast
  then show ?thesis using that s1 new by simp
qed

end
