(* ===== verification/Firewall_Jobs.thy ===== *)
theory Firewall_Jobs
  imports Router_Client Jobs
begin

text \<open>
  The firewall jobs of \<open>internal/jobs\<close>: the one that brings every alias of the router in line with the
  entries of the database, and the one that marks entries whose time is over as removed.
\<close>

section \<open>The sync job\<close>

definition wrap_error :: "string \<Rightarrow> goerror \<Rightarrow> goerror" where
  "wrap_error pre e = (if is_panic e then e else wrap pre e)"

definition wants_access :: "whitelist_entry \<Rightarrow> bool" where
  "wants_access e \<longleftrightarrow> fe_status e = StatusRequested \<or> fe_status e = StatusAdded"

definition entries_of_ip :: "whitelist_entry list \<Rightarrow> string \<Rightarrow> whitelist_entry list" where
  "entries_of_ip entries ip = filter (\<lambda>e. cleanIP (fe_ip e) = ip) entries"

definition pendingIDs :: "whitelist_entry list \<Rightarrow> int list" where
  "pendingIDs entries = map fe_id (filter (\<lambda>e. fe_status e = StatusRequested) entries)"

text \<open>One address: its requested entries are marked as added; an error is logged.\<close>

definition mark_pending ::
  "pg_types \<Rightarrow> string \<Rightarrow> string \<Rightarrow> whitelist_entry list \<Rightarrow> string \<Rightarrow> 'w world_scheme \<Rightarrow> 'w world_scheme" where
  "mark_pending pg iss sub entries ip w =
     (let ids = pendingIDs (entries_of_ip entries ip) in
      if ids = [] then w else snd (MarkIPsAsAdded pg ids iss sub w))"

definition sync_failed ::
  "pg_types \<Rightarrow> string \<Rightarrow> string \<Rightarrow> string \<Rightarrow> whitelist_entry \<Rightarrow> 'w world_scheme \<Rightarrow> 'w world_scheme" where
  "sync_failed pg iss sub msg e w = snd (CreateWhitelistEvent pg (fe_id e) iss sub ''sync_failed'' msg None None w)"

definition sync_entries ::
  "pg_types \<Rightarrow> 's router_client \<Rightarrow> string \<Rightarrow> string \<Rightarrow> string \<Rightarrow> string list \<Rightarrow> whitelist_entry list
    \<Rightarrow> (('s, 'w) router_world_ext, unit) dbop" where
  "sync_entries pg c uuid iss sub current entries w =
     (let ips = remdups (map (\<lambda>e. cleanIP (fe_ip e)) entries);
          w1 = fold (mark_pending pg iss sub entries) ips w;
          wanted = filter (\<lambda>ip. list_ex wants_access (entries_of_ip entries ip)) ips;
          ipsToAdd = filter (\<lambda>ip. ip \<notin> set current) wanted;
          ipsToRemove = filter (\<lambda>ip. ip \<notin> set wanted) (remdups current)
      in if ipsToAdd = [] \<and> ipsToRemove = [] then (Inr (), w1)
         else (case UpdateAlias c uuid ipsToAdd ipsToRemove w1 of
             (Inl e, w2) \<Rightarrow>
               (Inl (wrap ''failed to update firewall alias: '' e),
                fold (sync_failed pg iss sub (error_text e)) (concat (map (entries_of_ip entries) ips)) w2)
           | (Inr _, w2) \<Rightarrow> (Inr (), w2)))"

definition syncAlias ::
  "pg_types \<Rightarrow> 's router_client \<Rightarrow> firewall_alias_config \<Rightarrow> string \<Rightarrow> string \<Rightarrow> (('s, 'w) router_world_ext, unit) dbop" where
  "syncAlias pg c a iss sub =
     try_db (GetAliasIPs c (al_uuid a)) (wrap ''failed to get current firewall IPs: '')
       (\<lambda>current. try_db (GetAllWhitelistEntries pg) (wrap_error ''failed to get all whitelist entries: '')
          (\<lambda>entries. sync_entries pg c (al_uuid a) iss sub current (filter (\<lambda>e. fe_alias_uuid e = al_uuid a) entries)))"

text \<open>An alias that fails is logged, and the next one is synced; a panic is not caught.\<close>

fun sync_each ::
  "pg_types \<Rightarrow> 's router_client \<Rightarrow> string \<Rightarrow> string \<Rightarrow> firewall_alias_config list \<Rightarrow> (('s, 'w) router_world_ext, unit) dbop" where
  "sync_each pg c iss sub [] w = (Inr (), w)"
| "sync_each pg c iss sub (a # as) w =
     (case syncAlias pg c a iss sub w of
        (Inl e, w1) \<Rightarrow> if is_panic e then (Inl e, w1) else sync_each pg c iss sub as w1
      | (Inr _, w1) \<Rightarrow> sync_each pg c iss sub as w1)"

definition syncAllAliases :: "pg_types \<Rightarrow> 's router_client \<Rightarrow> config \<Rightarrow> (('s, 'w) router_world_ext, unit) dbop" where
  "syncAllAliases pg c cfg =
     try_db GetSystemUser (wrap ''failed to get system user: '')
       (\<lambda>(iss, sub). case cfg_features cfg of
            None \<Rightarrow> fail nil_dereference
          | Some f \<Rightarrow> sync_each pg c iss sub (fw_aliases (feat_firewall f)))"

definition firewall_sync_job ::
  "pg_types \<Rightarrow> 's router_client \<Rightarrow> config \<Rightarrow> duration \<Rightarrow> ('s, 'w) router_world_scheme job" where
  "firewall_sync_job pg c cfg interval =
     \<lparr>job_name = ''firewall_ip_sync'', job_leadership = True, job_interval = interval, job_pass = logged_result (syncAllAliases pg c cfg),
      job_no_interval = Errorf ''firewall sync job interval must be positive'', job_cancelled = None\<rparr>"

section \<open>The expiration job\<close>

definition expireOldIPs :: "pg_types \<Rightarrow> ('w, unit) dbop" where
  "expireOldIPs pg =
     try_db GetSystemUser (wrap ''failed to get system user: '')
       (\<lambda>(iss, sub). try_db (ExpireOldIPs pg iss sub) (wrap ''failed to expire IPs: '') (\<lambda>count. ok ()))"

definition firewall_expiration_job :: "pg_types \<Rightarrow> duration \<Rightarrow> 'w world_scheme job" where
  "firewall_expiration_job pg interval =
     \<lparr>job_name = ''firewall_ip_expiration'', job_leadership = True, job_interval = interval, job_pass = logged_result (expireOldIPs pg),
      job_no_interval = Errorf ''firewall expiration job interval must be positive'', job_cancelled = None\<rparr>"

section \<open>What the listing gives\<close>

definition entry_key :: "whitelist_entry \<Rightarrow> int \<times> string \<times> string \<times> wl_status" where
  "entry_key e = (fe_id e, fe_alias_uuid e, fe_ip e, fe_status e)"

definition row_key :: "pg_types \<Rightarrow> whitelist_row \<Rightarrow> int \<times> string \<times> string \<times> wl_status" where
  "row_key pg r = (wr_id r, wr_alias_uuid r, inet_text pg (wr_ip r), wr_status r)"

definition owned_rows :: "database \<Rightarrow> whitelist_row set" where
  "owned_rows d = {r \<in> set (t_whitelist d). find_user (wr_owner_iss r) (wr_owner_sub r) d \<noteq> None}"

lemma entry_key_new: "entry_key (new_entry pg r u) = row_key pg r"
  by (simp add: entry_key_def row_key_def new_entry_def scan_entry_def)

lemma entry_key_event: "entry_key ` set (add_event_to i ev entries) = entry_key ` set entries"
proof -
  have "map entry_key (add_event_to i ev entries) = map entry_key entries"
    by (simp add: add_event_to_def entry_key_def)
  then show ?thesis by (metis list.set_map)
qed

lemma fe_id_key: "fe_id ` S = fst ` entry_key ` S"
  by (simp add: image_image entry_key_def)

lemma collect_rows_keys:
  assumes "collect_rows pg d rows entries = Inr out" and "inj_on fst K"
    and "entry_key ` set entries \<subseteq> K" and "row_key pg ` fst ` set rows \<subseteq> K"
  shows "entry_key ` set out = entry_key ` set entries \<union> row_key pg ` fst ` set rows"
  using assms
proof (induction rows arbitrary: entries)
  case (Cons x rows)
  obtain r u ev where x: "x = (r, u, ev)" by (cases x) auto
  define entries1 where "entries1 = (if wr_id r \<in> fe_id ` set entries then entries else entries @ [new_entry pg r u])"
  have keyK: "row_key pg r \<in> K" using Cons.prems(4) x by auto
  have seen: "row_key pg r \<in> entry_key ` set entries" if "wr_id r \<in> fe_id ` set entries"
  proof -
    have "wr_id r \<in> fst ` entry_key ` set entries" using that by (simp only: fe_id_key)
    then obtain k where k: "wr_id r = fst k" "k \<in> entry_key ` set entries" by (rule imageE)
    then have "k = row_key pg r" using inj_onD [OF Cons.prems(2), of k] Cons.prems(3) keyK by (auto simp: row_key_def)
    then show ?thesis using k(2) by simp
  qed
  have keys1: "entry_key ` set entries1 = insert (row_key pg r) (entry_key ` set entries)"
    using seen by (auto simp: entries1_def entry_key_new)
  obtain entries2 where more: "collect_rows pg d rows entries2 = Inr out" and keys2: "entry_key ` set entries2 = entry_key ` set entries1"
  proof (cases ev)
    case None
    then show ?thesis using that Cons.prems(1) by (simp add: x entries1_def Let_def)
  next
    case (Some e)
    then show ?thesis using that Cons.prems(1) entry_key_event
      by (cases "actor_row d e") (simp_all add: x Let_def flip: entries1_def)
  qed
  have "entry_key ` set out = entry_key ` set entries2 \<union> row_key pg ` fst ` set rows"
    using Cons.prems keyK keys1 keys2 by (intro Cons.IH [OF more]) auto
  then show ?case using keys1 keys2 x by auto
qed simp

lemma fst_joined_rows: "fst ` set (joined_rows (\<lambda>r. True) d) = owned_rows d"
proof -
  define g where "g r = (case find_user (wr_owner_iss r) (wr_owner_sub r) d of None \<Rightarrow> []
      | Some u \<Rightarrow> (case filter (\<lambda>e. we_whitelist_id e = wr_id r) (t_whitelist_events d) of
            [] \<Rightarrow> [(r, u, None)] | e # es \<Rightarrow> map (\<lambda>e. (r, u, Some e)) (e # es)))" for r :: whitelist_row
  have g: "fst ` set (g r) = (if find_user (wr_owner_iss r) (wr_owner_sub r) d = None then {} else {r})" for r
    unfolding g_def
    by (cases "find_user (wr_owner_iss r) (wr_owner_sub r) d"; cases "filter (\<lambda>e. we_whitelist_id e = wr_id r) (t_whitelist_events d)")
      (auto simp: image_image)
  have "joined_rows (\<lambda>r. True) d = concat (map g (t_whitelist d))"
    unfolding joined_rows_def g_def by (rule arg_cong [where f = "\<lambda>xs. concat (map _ xs)"]) simp
  then have "fst ` set (joined_rows (\<lambda>r. True) d) = (\<Union>r \<in> set (t_whitelist d). fst ` set (g r))"
    by (simp add: image_UN)
  then show ?thesis unfolding g owned_rows_def by (auto split: if_splits)
qed

lemma GetAllWhitelistEntries_keys:
  assumes "wl_inv (db w)" and "GetAllWhitelistEntries pg w = (Inr entries, w')"
  shows "entry_key ` set entries = row_key pg ` owned_rows (db w)" and "w' = pop_fault w"
proof -
  have run: "collect_rows pg (db w) (ordered_rows (joined_rows (\<lambda>r. True) (db w))) [] = Inr entries" and w': "w' = pop_fault w"
    using assms(2) unfolding GetAllWhitelistEntries_def by (auto elim!: success_elims)
  have rows: "row_key pg ` fst ` set (ordered_rows (joined_rows (\<lambda>r. True) (db w))) = row_key pg ` owned_rows (db w)"
    by (simp add: fst_joined_rows)
  have "distinct (map wr_id (t_whitelist (db w)))" using assms(1) by (simp add: wl_inv_def)
  then have "inj_on fst (row_key pg ` owned_rows (db w))"
    by (auto simp: inj_on_def row_key_def owned_rows_def distinct_map)
  from collect_rows_keys [OF run this] rows show "entry_key ` set entries = row_key pg ` owned_rows (db w)" by simp
  show "w' = pop_fault w" by (rule w')
qed


section \<open>What a sync does\<close>

text \<open>The storage operations of the job do not touch the router.\<close>

lemma MarkIPsAsAdded_framed: "framed (MarkIPsAsAdded pg ids iss sub)"
  unfolding MarkIPsAsAdded_def CreateWhitelistEvent_def by (intro framed_intros)

lemma framed_router:
  fixes m :: "(('s, 'w) router_world_ext, 'a) dbop"
  assumes "framed m"
  shows "router (snd (m w)) = router w" "now (snd (m w)) = now w"
proof -
  obtain r w' where run: "m w = (r, w')" by (cases "m w")
  with assms obtain d fs where "w' = w\<lparr>db := d, faults := fs\<rparr>" by (rule framedE)
  then show "router (snd (m w)) = router w" "now (snd (m w)) = now w" using run by simp_all
qed

lemma mark_pending_router:
  fixes w :: "('s, 'w) router_world_scheme"
  shows "router (fold (mark_pending pg iss sub entries) ips w) = router w"
proof (induction ips arbitrary: w)
  case (Cons ip ips)
  have "router (mark_pending pg iss sub entries ip w) = router w"
    by (simp add: mark_pending_def Let_def framed_router [OF MarkIPsAsAdded_framed])
  then show ?case by (simp add: Cons)
qed simp

lemma image_filter_image: "f ` {k \<in> g ` S. P k} = {f (g x) |x. x \<in> S \<and> P (g x)}"
  by blast

lemma wanted_addresses:
  assumes "entry_key ` set entries = row_key pg ` R"
  shows "{ip \<in> set (remdups (map (\<lambda>e. cleanIP (fe_ip e)) (filter (\<lambda>e. fe_alias_uuid e = uuid) entries))).
      list_ex wants_access (entries_of_ip (filter (\<lambda>e. fe_alias_uuid e = uuid) entries) ip)} =
    {cleanIP (inet_text pg (wr_ip r)) |r. r \<in> R \<and> wr_alias_uuid r = uuid \<and> is_active r}"
proof -
  define wanted where "wanted k = (fst (snd k) = uuid \<and> (snd (snd (snd k)) = StatusRequested \<or> snd (snd (snd k)) = StatusAdded))"
    for k :: "int \<times> string \<times> string \<times> wl_status"
  define addr where "addr k = cleanIP (fst (snd (snd k)))" for k :: "int \<times> string \<times> string \<times> wl_status"
  have "{ip \<in> set (remdups (map (\<lambda>e. cleanIP (fe_ip e)) (filter (\<lambda>e. fe_alias_uuid e = uuid) entries))).
      list_ex wants_access (entries_of_ip (filter (\<lambda>e. fe_alias_uuid e = uuid) entries) ip)} =
      {cleanIP (fe_ip e) |e. e \<in> set entries \<and> fe_alias_uuid e = uuid \<and> wants_access e}"
    by (auto simp: entries_of_ip_def list_ex_iff) metis
  also have "\<dots> = addr ` {k \<in> entry_key ` set entries. wanted k}"
    unfolding image_filter_image by (simp add: wanted_def addr_def entry_key_def wants_access_def)
  also have "\<dots> = addr ` {k \<in> row_key pg ` R. wanted k}" by (simp only: assms)
  also have "\<dots> = {cleanIP (inet_text pg (wr_ip r)) |r. r \<in> R \<and> wr_alias_uuid r = uuid \<and> is_active r}"
    unfolding image_filter_image by (simp add: wanted_def addr_def row_key_def is_active_def)
  finally show ?thesis .
qed

lemma sync_entries_success:
  fixes w :: "('s, 'w) router_world_scheme"
  assumes "alias_api c selected" and "sync_entries pg c uuid iss sub current entries w = (Inr (), w')"
    and "set current = selected (router w) uuid"
    and "wanted = {ip \<in> set (remdups (map (\<lambda>e. cleanIP (fe_ip e)) entries)). list_ex wants_access (entries_of_ip entries ip)}"
    and "\<forall>ip \<in> wanted. plain_address ip"
  shows "selected (router w') = (selected (router w))(uuid := wanted)"
proof -
  define ips where "ips = remdups (map (\<lambda>e. cleanIP (fe_ip e)) entries)"
  define w1 where "w1 = fold (mark_pending pg iss sub entries) ips w"
  define wanted_list where "wanted_list = filter (\<lambda>ip. list_ex wants_access (entries_of_ip entries ip)) ips"
  define ipsToAdd where "ipsToAdd = filter (\<lambda>ip. ip \<notin> set current) wanted_list"
  define ipsToRemove where "ipsToRemove = filter (\<lambda>ip. ip \<notin> set wanted_list) (remdups current)"
  have wanted: "set wanted_list = wanted" by (simp add: wanted_list_def ips_def assms(4))
  have add: "set ipsToAdd = wanted - set current" and remove: "set ipsToRemove = set current - wanted"
    by (auto simp: ipsToAdd_def ipsToRemove_def wanted)
  have w1: "router w1 = router w" unfolding w1_def by (rule mark_pending_router)
  have result: "(selected (router w) uuid - set ipsToRemove) \<union> set ipsToAdd = wanted"
    using assms(3) add remove by auto
  have run: "(if ipsToAdd = [] \<and> ipsToRemove = [] then (Inr (), w1)
      else (case UpdateAlias c uuid ipsToAdd ipsToRemove w1 of
          (Inl e, w2) \<Rightarrow> (Inl (wrap ''failed to update firewall alias: '' e),
             fold (sync_failed pg iss sub (error_text e)) (concat (map (entries_of_ip entries) ips)) w2)
        | (Inr _, w2) \<Rightarrow> (Inr (), w2))) = (Inr (), w')"
    using assms(2) unfolding sync_entries_def Let_def ips_def w1_def wanted_list_def ipsToAdd_def ipsToRemove_def .
  show ?thesis
  proof (cases "ipsToAdd = [] \<and> ipsToRemove = []")
    case True
    then have "set current = wanted" using add remove by auto
    moreover have "w' = w1" using run True by simp
    ultimately show ?thesis using w1 assms(3) by (metis fun_upd_triv)
  next
    case False
    then have "UpdateAlias c uuid ipsToAdd ipsToRemove w1 = (Inr (), w')"
      using run by (auto split: sum.splits prod.splits)
    from UpdateAlias_success [OF assms(1) this] result assms(5) w1 show ?thesis
      by (metis router_world.select_convs(1) router_world.surjective router_world.update_convs(1))
  qed
qed

definition active_addresses :: "pg_types \<Rightarrow> string \<Rightarrow> whitelist_row set \<Rightarrow> string set" where
  "active_addresses pg uuid R = {cleanIP (inet_text pg (wr_ip r)) |r. r \<in> R \<and> wr_alias_uuid r = uuid \<and> is_active r}"

lemma syncAlias_success:
  fixes w :: "('s, 'w) router_world_scheme"
  assumes "alias_api c selected" and "wl_inv (db w)" and "syncAlias pg c a iss sub w = (Inr (), w')"
    and "\<forall>r \<in> set (t_whitelist (db w)). plain_address (cleanIP (inet_text pg (wr_ip r)))"
  shows "selected (router w') = (selected (router w))(al_uuid a := active_addresses pg (al_uuid a) (owned_rows (db w)))"
proof -
  obtain current w1 entries w2 where get: "GetAliasIPs c (al_uuid a) w = (Inr current, w1)"
    and all: "GetAllWhitelistEntries pg w1 = (Inr entries, w2)"
    and sync: "sync_entries pg c (al_uuid a) iss sub current (filter (\<lambda>e. fe_alias_uuid e = al_uuid a) entries) w2 = (Inr (), w')"
    using assms(3) unfolding syncAlias_def by (elim try_db_InrE) blast
  obtain s where s: "w1 = w\<lparr>router := s\<rparr>" "selected s = selected (router w)" "set current = selected (router w) (al_uuid a)"
    using GetAliasIPs_success [OF assms(1) get] .
  have inv: "wl_inv (db w1)" using assms(2) s(1) by simp
  have w2: "w2 = pop_fault w1" using GetAllWhitelistEntries_keys(2) [OF inv all] .
  have "router (pop_fault v) = router v" for v :: "('s, 'w) router_world_scheme" by (simp add: pop_fault_def)
  then have router2: "selected (router w2) = selected (router w)" using s w2 by simp
  have keys: "entry_key ` set entries = row_key pg ` owned_rows (db w)"
    using GetAllWhitelistEntries_keys(1) [OF inv all] s(1) by simp
  have plain: "\<forall>ip \<in> active_addresses pg (al_uuid a) (owned_rows (db w)). plain_address ip"
    using assms(4) by (auto simp: active_addresses_def owned_rows_def)
  show ?thesis
    using sync_entries_success [OF assms(1) sync _ _ plain] s(3) router2 wanted_addresses [OF keys, of "al_uuid a"]
    by (simp add: active_addresses_def)
qed

section \<open>Expiration before a sync\<close>

lemma expired_rows_inactive: "\<not> is_active (set_removed t r)" "\<not> is_expired t (set_removed t r)"
  by (simp_all add: is_expired_def is_active_def set_removed_def)


lemma expireOldIPs_success:
  assumes "wl_reachable pg (db w)" and "expireOldIPs pg w = (Inr (), w')"
  shows "t_whitelist (db w') = map (\<lambda>r. if is_expired (now w) r then set_removed (now w) r else r) (t_whitelist (db w)) \<and>
    wl_inv (db w') \<and> t_users (db w') = t_users (db w)"
proof -
  obtain iss sub n w1 w2 where sys: "GetSystemUser w = (Inr (iss, sub), w1)" and run: "ExpireOldIPs pg iss sub w1 = (Inr n, w2)" and fin: "w' = w2"
    using assms(2) unfolding expireOldIPs_def by (auto elim!: success_elims)
  have w1: "db w1 = db w" "now w1 = now w" using sys unfolding GetSystemUser_def by (auto elim!: success_elims)
  have "wl_inv (db w2)"
    using wl_invariant.expire_keeps [OF _ _ run] wl_reachable_inv [OF assms(1)] wl_inv_remove w1 by metis
  moreover have users: "keeps (\<lambda>d. t_users d = t_users (db w)) (ExpireOldIPs pg iss sub)"
    unfolding ExpireOldIPs_def expire_ids_def record_expired_def CreateWhitelistEvent_def
    by (intro keeps_try keeps_if keeps_ok keeps_for_each keeps_roundtrip)
      (auto simp: sql_select_expired_def sql_remove_def sql_insert_wl_event_def Let_def split: if_splits option.splits)
  have "t_users (db w2) = t_users (db w)" using keepsD [OF users _ run] w1(1) by simp
  ultimately show ?thesis using expire_exact [OF _ run] assms(1) fin w1 by simp
qed

section \<open>Stored identifiers\<close>

text \<open>A stored \<open>UUID\<close> reads back as itself; the law of the type is that reading gives such a value.\<close>

definition canonical_uuids :: "pg_types \<Rightarrow> bool" where
  "canonical_uuids pg \<longleftrightarrow> (\<forall>x y. uuid_in pg x = Some y \<longrightarrow> uuid_in pg y = Some y)"

definition stored_uuids :: "pg_types \<Rightarrow> database \<Rightarrow> bool" where
  "stored_uuids pg d \<longleftrightarrow> (\<forall>r \<in> set (t_whitelist d). uuid_in pg (wr_alias_uuid r) = Some (wr_alias_uuid r))"

lemma stored_uuids_remove: "stored_uuids pg d \<Longrightarrow> sql_remove p t d = (r, d') \<Longrightarrow> stored_uuids pg d'"
  by (auto simp: sql_remove_def set_removed_def stored_uuids_def set_upd_where split: if_splits)

interpretation uuids: whitelist_stable pg "stored_uuids pg" for pg
proof unfold_locales
  fix d d' :: database and p :: "whitelist_row \<Rightarrow> bool" and iss sub reason t q ids
  show "stored_uuids pg d'" if "stored_uuids pg d" "sql_blacklist p iss sub reason t d = (q, d')"
    using that by (auto simp: sql_blacklist_def set_blacklisted_def stored_uuids_def set_upd_where split: if_splits)
  show "stored_uuids pg d'" if "stored_uuids pg d" "sql_mark_added ids t d = (q, d')"
    using that by (auto simp: sql_mark_added_def set_added_def Let_def stored_uuids_def set_upd_where split: if_splits)
  show "stored_uuids pg (rollback d d')" if "stored_uuids pg d" "seq_le (seqs d) (seqs d')"
    using that by (simp add: stored_uuids_def)
qed (auto dest!: sql_insert_wl_event_frame simp: stored_uuids_def)

lemma stored_uuids_call:
  assumes "canonical_uuids pg" and "stored_uuids pg (db w)"
  shows "stored_uuids pg (db (exec_wl_call pg c w))"
proof (cases c)
  case (CallAdd iss sub an uuid ip desc ex ci ua)
  obtain res w' where run: "AddIPToWhitelist pg iss sub an uuid ip desc ex ci ua w = (res, w')" by fastforce
  then have "stored_uuids pg (db w')"
  proof (cases rule: AddIPToWhitelist_cases)
    case failed
    with assms(2) show ?thesis by (metis rollback_sel(12) stored_uuids_def)
  next
    case (added n d1 x)
    have "stored_uuids pg d1"
      using added(1) assms by (auto simp: sql_insert_entry_def with_uuid_def with_inet_def Let_def stored_uuids_def canonical_uuids_def
          split: option.splits if_splits)
    with added(2) show ?thesis by (auto dest!: sql_insert_wl_event_frame simp: stored_uuids_def)
  qed
  with run CallAdd show ?thesis by simp
next
  case (CallRemove i iss sub ci ua)
  have "keeps (stored_uuids pg) (RemoveIPFromWhitelist pg i iss sub ci ua)"
    by (rule uuids.keeps_RemoveIPFromWhitelist) (rule stored_uuids_remove)
  with assms(2) CallRemove show ?thesis by (auto dest: keeps_snd)
next
  case (CallExpire iss sub)
  obtain res w' where run: "ExpireOldIPs pg iss sub w = (res, w')" by fastforce
  have "stored_uuids pg (db w')"
    by (rule uuids.expire_keeps [OF assms(2) _ run]) (rule stored_uuids_remove [OF assms(2)])
  with run CallExpire show ?thesis by simp
qed (use assms(2) in \<open>auto intro: keeps_snd uuids.keeps_BlacklistIP uuids.keeps_BlacklistIPAddress uuids.keeps_MarkIPsAsAdded\<close>)

lemma reachable_stored_uuids: "wl_reachable pg d \<Longrightarrow> canonical_uuids pg \<Longrightarrow> stored_uuids pg d"
proof (induction rule: wl_reachable.induct)
  case start
  then show ?case by (simp add: stored_uuids_def empty_database_def)
next
  case (call w c)
  then show ?case by (simp add: stored_uuids_call)
next
  case (other d d')
  then show ?case by (simp add: stored_uuids_def)
qed

section \<open>Marking before the router answers\<close>

definition quiet :: "('w, 'a) dbop \<Rightarrow> bool" where
  "quiet m \<longleftrightarrow> (\<forall>w. faults w = [] \<longrightarrow> faults (snd (m w)) = [])"

lemma quietD: "quiet m \<Longrightarrow> faults w = [] \<Longrightarrow> faults (snd (m w)) = []"
  by (simp add: quiet_def)

lemma quiet_try:
  fixes m :: "('w, 'a) dbop" and k :: "'a \<Rightarrow> ('w, 'b) dbop"
  assumes "quiet m" and "\<And>x. quiet (k x)"
  shows "quiet (try_db m h k)"
  unfolding quiet_def
proof (intro allI impI)
  fix w :: "'w world_scheme" assume "faults w = []"
  moreover obtain r w1 where "m w = (r, w1)" by (cases "m w")
  ultimately have "m w = (r, w1)" "faults w1 = []" using assms(1) by (auto simp: quiet_def)
  then show "faults (snd (try_db m h k w)) = []"
    using assms(2) by (cases r) (simp_all add: try_db_def quiet_def)
qed

lemma quiet_roundtrip: "quiet (roundtrip stmt)"
  unfolding quiet_def
proof (intro allI impI)
  fix w :: "'w world_scheme" assume "faults w = []"
  then show "faults (snd (roundtrip stmt w)) = []"
    by (cases "stmt (now w) (db w)") (simp add: roundtrip_def)
qed

lemma quiet_ok: "quiet (ok x)"
  by (simp add: quiet_def ok_def)

lemma quiet_for_each: "(\<And>x. quiet (f x)) \<Longrightarrow> quiet (for_each xs f)"
  by (induction xs) (auto intro: quiet_try quiet_ok)

lemma quiet_mark: "quiet (MarkIPsAsAdded pg ids iss sub)"
  unfolding MarkIPsAsAdded_def CreateWhitelistEvent_def by (intro quiet_try quiet_roundtrip quiet_for_each quiet_ok)

definition no_future_requests :: "'w world_scheme \<Rightarrow> bool" where
  "no_future_requests w \<longleftrightarrow> (\<forall>r \<in> set (t_whitelist (db w)). wr_requested_at r \<le> now w)"

lemma MarkIPsAsAdded_rows:
  assumes "faults w = []" and "no_future_requests w"
  shows "t_whitelist (db (snd (MarkIPsAsAdded pg ids iss sub w))) =
    upd_where (\<lambda>r. wr_id r \<in> set ids \<and> wr_status r = StatusRequested) (set_added (now w)) (t_whitelist (db w))"
proof -
  define d1 where "d1 = (db w)\<lparr>t_whitelist :=
    upd_where (\<lambda>r. wr_id r \<in> set ids \<and> wr_status r = StatusRequested) (set_added (now w)) (t_whitelist (db w))\<rparr>"
  have "\<not> touches_future p (now w) (db w)" for p using assms(2) by (auto simp: touches_future_def no_future_requests_def)
  then have mark: "roundtrip (sql_mark_added ids) w =
      (Inr (count_where (\<lambda>r. wr_id r \<in> set ids \<and> wr_status r = StatusRequested) (t_whitelist (db w))), w\<lparr>db := d1\<rparr>)"
    using assms(1) by (simp add: roundtrip_def sql_mark_added_def Let_def d1_def)
  have "keeps (\<lambda>d. t_whitelist d = t_whitelist d1) (for_each ids (\<lambda>i. try_db (CreateWhitelistEvent pg i iss sub ''added'' [] None None)
      (wrap (''failed to create added event for IP '' @ show_int i @ '': '')) ok))"
    unfolding CreateWhitelistEvent_def
    by (intro keeps_for_each keeps_try keeps_ok keeps_roundtrip) (auto dest: sql_insert_wl_event_frame)
  then have "t_whitelist (db (snd (for_each ids (\<lambda>i. try_db (CreateWhitelistEvent pg i iss sub ''added'' [] None None)
      (wrap (''failed to create added event for IP '' @ show_int i @ '': '')) ok) (w\<lparr>db := d1\<rparr>)))) = t_whitelist d1"
    by (rule keeps_snd) simp
  then show ?thesis
    using mark by (simp add: MarkIPsAsAdded_def try_db_def d1_def)
qed

lemma framed_now: "framed m \<Longrightarrow> now (snd (m w)) = now w"
proof -
  assume "framed m"
  obtain r w' where run: "m w = (r, w')" by (cases "m w")
  with \<open>framed m\<close> obtain d fs where "w' = w\<lparr>db := d, faults := fs\<rparr>" by (rule framedE)
  then show ?thesis using run by simp
qed

lemma set_added_sel: "wr_status (set_added t r) = StatusAdded" "wr_id (set_added t r) = wr_id r"
  "wr_alias_uuid (set_added t r) = wr_alias_uuid r" "wr_ip (set_added t r) = wr_ip r"
  by (simp_all add: set_added_def)

lemma mark_step:
  "(\<lambda>r. if wr_status r = StatusRequested \<and> (\<exists>ip \<in> set ips. P ip (wr_id r)) then set_added t r else r)
     (if P x (wr_id r) \<and> wr_status r = StatusRequested then set_added t r else r) =
   (if wr_status r = StatusRequested \<and> (\<exists>ip \<in> set (x # ips). P ip (wr_id r)) then set_added t r else r)"
  by (cases "wr_status r = StatusRequested"; cases "P x (wr_id r)") (simp_all add: set_added_sel)

lemma mark_pending_rows:
  assumes "faults w = []" and "no_future_requests w"
  shows "t_whitelist (db (fold (mark_pending pg iss sub entries) ips w)) =
    map (\<lambda>r. if wr_status r = StatusRequested \<and> (\<exists>ip \<in> set ips. wr_id r \<in> set (pendingIDs (entries_of_ip entries ip)))
             then set_added (now w) r else r) (t_whitelist (db w)) \<and>
    faults (fold (mark_pending pg iss sub entries) ips w) = []"
  using assms
proof (induction ips arbitrary: w)
  case (Cons ip ips)
  define ids where "ids = pendingIDs (entries_of_ip entries ip)"
  define w1 where "w1 = mark_pending pg iss sub entries ip w"
  have rows1: "t_whitelist (db w1) = upd_where (\<lambda>r. wr_id r \<in> set ids \<and> wr_status r = StatusRequested) (set_added (now w)) (t_whitelist (db w))"
    using MarkIPsAsAdded_rows [OF Cons.prems, of pg ids iss sub] by (simp add: w1_def mark_pending_def Let_def upd_where_def flip: ids_def)
  have now1: "now w1 = now w" by (simp add: w1_def mark_pending_def Let_def framed_now [OF MarkIPsAsAdded_framed])
  have f1: "faults w1 = []"
    using Cons.prems(1) by (simp add: w1_def mark_pending_def Let_def quietD [OF quiet_mark])
  have past1: "no_future_requests w1"
    using Cons.prems(2) by (auto simp: no_future_requests_def rows1 now1 set_upd_where set_added_def)
  have "map (\<lambda>r. if wr_status r = StatusRequested \<and> (\<exists>ip \<in> set ips. wr_id r \<in> set (pendingIDs (entries_of_ip entries ip)))
          then set_added (now w1) r else r) (t_whitelist (db w1)) =
      map (\<lambda>r. if wr_status r = StatusRequested \<and> (\<exists>ip \<in> set (ip # ips). wr_id r \<in> set (pendingIDs (entries_of_ip entries ip)))
          then set_added (now w) r else r) (t_whitelist (db w))"
    unfolding rows1 now1 upd_where_def map_map o_def ids_def by (rule map_cong [OF HOL.refl]) (rule mark_step)
  then show ?case using Cons.IH [OF f1 past1] unfolding fold_simps(2) w1_def by simp
qed simp

lemma keeps_send: "keeps I (send c verb url ctype body h1 h2)"
  by (auto simp: keeps_def send_def split: sum.split prod.split)

lemma keeps_UpdateAlias: "keeps I (GetAliasIPs c uuid)" "keeps I (UpdateAlias c uuid ipsToAdd ipsToRemove)"
proof -
  show get: "keeps I (GetAliasIPs c uuid)"
    unfolding GetAliasIPs_def by (intro keeps_try keeps_send keeps_if keeps_fail keeps_lift keeps_ok)
  show "keeps I (UpdateAlias c uuid ipsToAdd ipsToRemove)"
    unfolding UpdateAlias_def write_alias_def
    by (intro keeps_try get keeps_send keeps_if keeps_fail keeps_lift keeps_ok)
qed

lemma sync_entries_rows:
  fixes w :: "('s, 'w) router_world_scheme"
  assumes "faults w = []" and "no_future_requests w"
  shows "t_whitelist (db (snd (sync_entries pg c uuid iss sub current entries w))) =
    map (\<lambda>r. if wr_status r = StatusRequested \<and> (\<exists>e \<in> set entries. fe_id e = wr_id r \<and> fe_status e = StatusRequested)
             then set_added (now w) r else r) (t_whitelist (db w))"
proof -
  define ips where "ips = remdups (map (\<lambda>e. cleanIP (fe_ip e)) entries)"
  define w1 where "w1 = fold (mark_pending pg iss sub entries) ips w"
  have ids: "(\<exists>ip \<in> set ips. wr_id r \<in> set (pendingIDs (entries_of_ip entries ip))) \<longleftrightarrow>
      (\<exists>e \<in> set entries. fe_id e = wr_id r \<and> fe_status e = StatusRequested)" for r :: whitelist_row
    unfolding ips_def pendingIDs_def entries_of_ip_def by (simp add: image_iff) metis
  have rows1: "t_whitelist (db w1) = map (\<lambda>r. if wr_status r = StatusRequested \<and> (\<exists>e \<in> set entries. fe_id e = wr_id r \<and> fe_status e = StatusRequested)
       then set_added (now w) r else r) (t_whitelist (db w))"
    using mark_pending_rows [OF assms, of pg iss sub entries ips] by (simp add: w1_def ids)
  have upd: "t_whitelist (db (snd (UpdateAlias c uuid add rem w1))) = t_whitelist (db w1)" for add rem
    using keeps_UpdateAlias(2) [of "\<lambda>d. t_whitelist d = t_whitelist (db w1)"] unfolding keeps_def by blast
  have failed: "t_whitelist (db (fold (sync_failed pg iss sub msg) es v)) = t_whitelist (db v)" for msg es and v :: "('s, 'w) router_world_scheme"
  proof (induction es arbitrary: v)
    case (Cons e es)
    have "keeps (\<lambda>d. t_whitelist d = t_whitelist (db v)) (CreateWhitelistEvent pg (fe_id e) iss sub ''sync_failed'' msg None None)"
      unfolding CreateWhitelistEvent_def by (intro keeps_try keeps_ok keeps_roundtrip) (auto dest: sql_insert_wl_event_frame)
    then have "t_whitelist (db (sync_failed pg iss sub msg e v)) = t_whitelist (db v)"
      unfolding sync_failed_def by (rule keeps_snd) simp
    then show ?case using Cons by simp
  qed simp
  have after: "t_whitelist (db (snd (case UpdateAlias c uuid add rem w1 of
        (Inl e, w2) \<Rightarrow> (Inl (h e), fold (sync_failed pg iss sub (error_text e)) (concat (map (entries_of_ip entries) ips)) w2)
      | (Inr _, w2) \<Rightarrow> (Inr (), w2)))) = t_whitelist (db w1)" for add rem and h :: "goerror \<Rightarrow> goerror"
    using upd [of add rem] by (cases "UpdateAlias c uuid add rem w1") (auto simp: failed split: sum.split)
  have "t_whitelist (db (snd (sync_entries pg c uuid iss sub current entries w))) = t_whitelist (db w1)"
    unfolding sync_entries_def Let_def ips_def [symmetric] w1_def [symmetric] by (simp only: after snd_conv simp_thms split: if_split)
  then show ?thesis using rows1 by simp
qed

section \<open>Examples\<close>

text \<open>A router that keeps the text of every alias's content and gives its lines back.\<close>

definition toy_fw :: firewall_management where
  "toy_fw = \<lparr>fw_enabled = True, fw_router_endpoint = ''http://r/'', fw_router_api_key = ''k'', fw_router_api_secret = ''s'',
     fw_aliases = [], fw_jobs = None\<rparr>"

definition toy_detail :: "string \<Rightarrow> alias_detail" where
  "toy_detail content =
     \<lparr>ad_enabled = ''1'', ad_name = ''home'', ad_type = [], ad_path_expression = [], ad_proto = [], ad_interface = [], ad_counters = [],
      ad_update_freq = [],
      ad_content = map (\<lambda>l. (l, \<lparr>ci_value = l, ci_selected = 1, ci_description = []\<rparr>)) (filter (\<lambda>l. l \<noteq> []) (strings_Split (CHR 0x0A) content)),
      ad_password = [], ad_username = [], ad_auth_type = [], ad_categories = [], ad_current_items = [], ad_last_updated = [],
      ad_description = []\<rparr>"

definition toy_do :: "http_request \<Rightarrow> (string \<Rightarrow> string) \<Rightarrow> (goerror + http_response) \<times> (string \<Rightarrow> string)" where
  "toy_do q s =
     (if hq_method q = ''GET'' then (Inr \<lparr>hs_status = 200, hs_body = s (drop (length (get_url toy_fw [])) (hq_url q))\<rparr>, s)
      else if hq_url q = reconfigure_url toy_fw then (Inr \<lparr>hs_status = 200, hs_body = []\<rparr>, s)
      else (Inr \<lparr>hs_status = 200, hs_body = []\<rparr>, s(drop (length (set_url toy_fw [])) (hq_url q) := hq_body q)))"

definition toy_router :: "(string \<Rightarrow> string) router_client" where
  "toy_router =
     \<lparr>rc_config = toy_fw,
      rc_http = \<lparr>rh_new_request = \<lambda>url. Inr (), rh_do = toy_do, rh_decode = \<lambda>body. Inr (toy_detail body), rh_encode = \<lambda>q. Inr (as_content q)\<rparr>\<rparr>"

definition toy_selected :: "(string \<Rightarrow> string) \<Rightarrow> string \<Rightarrow> string set" where
  "toy_selected s uuid = set (GetSelectedIPs (toy_detail (s uuid)))"

lemma plain_stripped: "plain_address l \<Longrightarrow> strip_slash l = l"
proof -
  assume "plain_address l"
  then have "cleanIP l = l" by (simp add: plain_address_def)
  then have "CHR ''/'' \<notin> set l" by (metis (mono_tags, lifting) cleanIP_def set_takeWhileD)
  then have "\<not> strings_Contains l ''/''" by (auto simp: strings_Contains_def sublist_def)
  then show ?thesis by (simp add: strip_slash_def)
qed

lemma toy_content:
  assumes "\<forall>l \<in> content_lines content. plain_address l"
  shows "set (GetSelectedIPs (toy_detail content)) = content_lines content"
proof -
  have "filter (\<lambda>(key, item). ci_selected item = 1 \<and> \<not> isInternalAlias key \<and> \<not> isAliasReference key) (ad_content (toy_detail content)) =
      ad_content (toy_detail content)"
    using assms by (auto simp: toy_detail_def content_lines_def plain_address_def filter_id_conv)
  then have "set (GetSelectedIPs (toy_detail content)) = strip_slash ` content_lines content"
    by (auto simp: GetSelectedIPs_def toy_detail_def content_lines_def image_image)
  then show ?thesis using assms plain_stripped by (simp add: image_def)
qed

lemma toy_urls: "drop (length (get_url toy_fw [])) (get_url toy_fw uuid) = uuid" "drop (length (set_url toy_fw [])) (set_url toy_fw uuid) = uuid"
  "set_url toy_fw uuid \<noteq> reconfigure_url toy_fw"
  by (simp_all add: get_url_def set_url_def reconfigure_url_def normalizeEndpoint_def toy_fw_def)

lemma toy_router_api: "alias_api toy_router toy_selected"
  unfolding alias_api_def
  by (auto simp: toy_router_def toy_do_def request_of_def toy_urls toy_content toy_selected_def fun_eq_iff split: if_splits)

lemma toy_update: "\<exists>s. UpdateAlias toy_router uuid ipsToAdd ipsToRemove w = (Inr (), w\<lparr>router := s\<rparr>)"
  by (simp add: UpdateAlias_def write_alias_def GetAliasIPs_def send_def toy_router_def toy_do_def request_of_def toy_urls try_db_def
      lift_result_def ok_def) (rule exI, rule HOL.refl)

lemma toy_update_case:
  "(case UpdateAlias toy_router uuid ipsToAdd ipsToRemove w of (Inl e, w2) \<Rightarrow> f e w2 | (Inr _, w2) \<Rightarrow> (Inr (), w2)) =
    (Inr (), snd (UpdateAlias toy_router uuid ipsToAdd ipsToRemove w))"
proof -
  obtain s where "UpdateAlias toy_router uuid ipsToAdd ipsToRemove w = (Inr (), w\<lparr>router := s\<rparr>)" using toy_update by blast
  then show ?thesis by simp
qed

lemma toy_get: "GetAliasIPs toy_router uuid w = (Inr (GetSelectedIPs (toy_detail (router w uuid))), w)"
  by (simp add: GetAliasIPs_def send_def toy_router_def toy_do_def request_of_def toy_urls try_db_def lift_result_def ok_def)

lemma toy_sync:
  assumes "faults w = []" and "collect_rows pg (db w) (ordered_rows (joined_rows (\<lambda>r. True) (db w))) [] = Inr entries"
  shows "\<exists>w'. syncAlias pg toy_router a iss sub w = (Inr (), w')"
proof -
  have "\<exists>w'. sync_entries pg toy_router uuid iss sub current es v = (Inr (), w')" for uuid current es and v :: "(string \<Rightarrow> string, 'a) router_world_scheme"
    by (simp add: sync_entries_def Let_def toy_update_case)
  then show ?thesis
    using assms by (simp add: syncAlias_def toy_get try_db_def GetAllWhitelistEntries_def db_query_eq lift_result_def)
qed

text \<open>Alice's entry for an address that expires at 20, on a server that reads \<open>UUID\<close>s in lower case.\<close>

definition fw_pg :: pg_types where
  "fw_pg = \<lparr>inet_in = Some, inet_text = (\<lambda>a. a @ ''/32''), inet_family = (\<lambda>_. 4), uuid_in = \<lambda>u. Some (strings_ToLower u)\<rparr>"

definition fw_added :: world where
  "fw_added = exec_wl_call fw_pg (CallAdd ''idp'' ''alice'' ''home'' ''AB'' ''10.0.0.9'' ''d'' (Some 20) None None)
     \<lparr>db = empty_database, now = 10, faults = []\<rparr>"

definition fw_row :: whitelist_row where
  "fw_row =
     \<lparr>wr_id = 1, wr_owner_iss = ''idp'', wr_owner_sub = ''alice'', wr_alias_name = ''home'', wr_alias_uuid = ''ab'',
      wr_ip = ''10.0.0.9'', wr_description = ''d'', wr_status = StatusRequested, wr_requested_at = 10, wr_added_at = None,
      wr_removed_at = None, wr_expires_at = Some 20, wr_removed_by_iss = None, wr_removed_by_sub = None,
      wr_removal_reason = None\<rparr>"

definition alice_row :: user_row where
  "alice_row = \<lparr>ur_iss = ''idp'', ur_sub = ''alice'', ur_username = ''alice'', ur_display_name = ''Alice'',
     ur_email = ''a@b'', ur_is_system = False, ur_last_logged_in = None, ur_created_at = None\<rparr>"

definition fw_system :: user_row where
  "fw_system = \<lparr>ur_iss = ''idp'', ur_sub = ''system'', ur_username = ''system'', ur_display_name = ''System'',
     ur_email = ''noreply@system'', ur_is_system = True, ur_last_logged_in = None, ur_created_at = None\<rparr>"

definition fw_database :: database where
  "fw_database = (db fw_added)\<lparr>t_users := [alice_row, fw_system]\<rparr>"

definition fw_world :: "time \<Rightarrow> (string \<Rightarrow> string) router_world" where
  "fw_world t = \<lparr>db = fw_database, now = t, faults = [], router = \<lambda>_. ''1.2.3.4''\<rparr>"

definition fw_alias :: "string \<Rightarrow> firewall_alias_config" where
  "fw_alias uuid = \<lparr>al_name = ''home'', al_uuid = uuid, al_description = [], al_max_per_user = 1, al_max_total = 1,
     al_default_ttl = None, al_auth_group = ''admin''\<rparr>"

lemma lower_ab: "strings_ToLower ''AB'' = ''ab''"
  by (simp add: strings_ToLower_def to_lower_char_def char_of_def bit_0)

lemma fw_pg_sel [simp]: "inet_in fw_pg = Some" "inet_text fw_pg x = x @ ''/32''" "uuid_in fw_pg x = Some (strings_ToLower x)"
  by (simp_all add: fw_pg_def)

lemma fw_added_db:
  "t_whitelist (db fw_added) = [fw_row]"
  "t_whitelist_events (db fw_added) = [\<lparr>we_id = 1, we_whitelist_id = 1, we_actor_iss = ''idp'', we_actor_sub = ''alice'',
      we_event_type = ''requested'', we_notes = None, we_client_ip = None, we_user_agent = None, we_created_at = 10\<rparr>]"
  by (simp_all add: fw_added_def AddIPToWhitelist_def add_ip_tx_def GetWhitelistEntryByID_def
      GetWhitelistEventsByEntry_def wl_eval empty_database_def fw_row_def lower_ab split: sum.splits)

lemma fw_reachable: "wl_reachable fw_pg fw_database"
proof -
  have "wl_reachable fw_pg (db fw_added)"
    unfolding fw_added_def by (rule wl_reachable.call) (simp add: wl_reachable.start)
  then show ?thesis by (rule wl_reachable.other) (simp_all add: fw_database_def)
qed

lemma fw_plain: "\<forall>r \<in> set (t_whitelist fw_database). plain_address (cleanIP (inet_text fw_pg (wr_ip r)))"
  by (simp add: fw_database_def fw_added_db fw_row_def fw_pg_def cleanIP_def plain_address_def isInternalAlias_def isAliasReference_def)

lemma fw_owned: "owned_rows fw_database = {fw_row}"
  by (auto simp: owned_rows_def fw_database_def fw_added_db fw_row_def find_user_def alice_row_def is_user_def)

lemma fw_listing:
  "\<exists>entries. collect_rows fw_pg fw_database (ordered_rows (joined_rows (\<lambda>r. True) fw_database)) [] = Inr entries"
  by (simp add: joined_rows_def fw_database_def fw_added_db fw_row_def find_user_def alice_row_def is_user_def ordered_rows_def
      order_desc_def actor_row_def Let_def)

lemma fw_sync: "\<exists>w'. syncAlias fw_pg toy_router a iss sub (fw_world t) = (Inr (), w')"
proof -
  obtain entries where e: "collect_rows fw_pg fw_database (ordered_rows (joined_rows (\<lambda>r. True) fw_database)) [] = Inr entries"
    using fw_listing by blast
  show ?thesis by (rule toy_sync) (simp_all add: fw_world_def e)
qed

lemma to_lower_twice: "to_lower_char (to_lower_char c) = to_lower_char c"
proof (cases "65 \<le> (of_char c :: nat) \<and> (of_char c :: nat) \<le> 90")
  case True
  then have "(of_char (char_of ((of_char c :: nat) + 32)) :: nat) = of_char c + 32" by simp
  then show ?thesis using True by (simp add: to_lower_char_def Let_def)
next
  case False
  then show ?thesis by (auto simp: to_lower_char_def Let_def)
qed

lemma fw_canonical: "canonical_uuids fw_pg"
  by (simp add: canonical_uuids_def fw_pg_def strings_ToLower_def to_lower_twice)

section \<open>Properties\<close>






text \<open>
  Entries are reported as added before the router has them. When the sync of an alias gets as far as its entries,
  every requested entry of the alias is marked as added, although the router is only told afterwards: also when
  the router then refuses the update.
\<close>

theorem entries_added_before_router:
  fixes w :: "('s, 'w) router_world_scheme"
  assumes "wl_reachable pg (db w)" and "faults w = []" and "no_future_requests w"
    and "GetAliasIPs c (al_uuid a) w = (Inr current, w1)" and "fst (GetAllWhitelistEntries pg w) = Inr entries"
    and "syncAlias pg c a iss sub w = (res, w')"
    and "r \<in> owned_rows (db w)" and "wr_alias_uuid r = al_uuid a" and "wr_status r = StatusRequested"
  shows "set_added (now w) r \<in> set (t_whitelist (db w'))"
proof -
  have w1: "db w1 = db w" "faults w1 = []" "now w1 = now w"
    using assms(2,4) unfolding GetAliasIPs_def send_def
    by (auto simp: fail_def split: if_splits sum.splits prod.splits elim!: success_elims)
  have "fst (GetAllWhitelistEntries pg w1) = Inr entries"
    using assms(2,5) w1 by (simp add: GetAllWhitelistEntries_def try_db_def db_query_eq lift_result_def)
  moreover have all1: "snd (GetAllWhitelistEntries pg w1) = w1"
    using w1(2) by (simp add: GetAllWhitelistEntries_def try_db_def db_query_eq lift_result_def)
  ultimately have all: "GetAllWhitelistEntries pg w1 = (Inr entries, w1)" by (metis prod.collapse)
  have "wl_inv (db w1)" using wl_reachable_inv [OF assms(1)] w1 by simp
  then have keys: "entry_key ` set entries = row_key pg ` owned_rows (db w)"
    using GetAllWhitelistEntries_keys(1) [OF _ all] w1 by simp
  then obtain e where e: "e \<in> set entries" "entry_key e = row_key pg r" using assms(7) by (metis imageE image_eqI)
  have run: "sync_entries pg c (al_uuid a) iss sub current (filter (\<lambda>e. fe_alias_uuid e = al_uuid a) entries) w1 = (res, w')"
    using assms(4,6) all by (simp add: syncAlias_def try_db_def)
  have past: "no_future_requests w1" using assms(3) w1 by (simp add: no_future_requests_def)
  have "t_whitelist (db w') = map (\<lambda>r. if wr_status r = StatusRequested \<and> (\<exists>e \<in> set (filter (\<lambda>e. fe_alias_uuid e = al_uuid a) entries).
      fe_id e = wr_id r \<and> fe_status e = StatusRequested) then set_added (now w) r else r) (t_whitelist (db w))"
    using sync_entries_rows [OF w1(2) past, of pg c "al_uuid a" iss sub current "filter (\<lambda>e. fe_alias_uuid e = al_uuid a) entries"]
    by (simp only: run snd_conv w1)
  moreover have "r \<in> set (t_whitelist (db w))" using assms(7) by (simp add: owned_rows_def)
  moreover have "fe_id e = wr_id r" "fe_status e = StatusRequested" "fe_alias_uuid e = al_uuid a"
    using e(2) assms(8,9) by (simp_all add: entry_key_def row_key_def)
  ultimately show ?thesis using e(1) assms(9) by (auto simp: image_iff intro!: bexI [of _ r])
qed

text \<open>A router that gives its aliases and refuses every change.\<close>

definition refusing_router :: "(string \<Rightarrow> string) router_client" where
  "refusing_router = toy_router\<lparr>rc_http := (rc_http toy_router)\<lparr>rh_do := \<lambda>q s.
     if hq_method q = ''GET'' then toy_do q s else (Inr \<lparr>hs_status = 500, hs_body = ''read only''\<rparr>, s)\<rparr>\<rparr>"

lemma refusing_get: "GetAliasIPs refusing_router uuid w = (Inr (GetSelectedIPs (toy_detail (router w uuid))), w)"
  by (simp add: GetAliasIPs_def send_def refusing_router_def toy_router_def toy_do_def request_of_def toy_urls try_db_def lift_result_def ok_def)

lemma refusing_update: "fst (UpdateAlias refusing_router uuid ipsToAdd ipsToRemove w) = Inl (Errorf ''set request returned status 500: read only'')"
proof -
  have "show_int 500 = ''500''" by (simp add: show_int_def show_nat.simps digit_char_def char_of_def bit_0)
  then show ?thesis
    by (simp add: UpdateAlias_def write_alias_def GetAliasIPs_def ok_def try_db_def send_def refusing_router_def toy_router_def toy_do_def request_of_def
        toy_urls lift_result_def fail_def status_error_def)
qed

theorem entries_added_before_router_witness:
  "\<exists>e w'. syncAlias fw_pg refusing_router (fw_alias ''ab'') ''idp'' ''system'' (fw_world 15) = (Inl e, w') \<and>
     set_added 15 fw_row \<in> set (t_whitelist (db w'))"
proof -
  obtain entries where e: "collect_rows fw_pg fw_database (ordered_rows (joined_rows (\<lambda>r. True) fw_database)) [] = Inr entries"
    using fw_listing by blast
  obtain res w' where run: "syncAlias fw_pg refusing_router (fw_alias ''ab'') ''idp'' ''system'' (fw_world 15) = (res, w')" by fastforce
  have all: "fst (GetAllWhitelistEntries fw_pg (fw_world 15)) = Inr entries"
    using e by (simp add: GetAllWhitelistEntries_def try_db_def db_query_eq lift_result_def fw_world_def)
  have "set_added (now (fw_world 15)) fw_row \<in> set (t_whitelist (db w'))"
    by (rule entries_added_before_router [OF _ _ _ refusing_get all run])
      (use fw_reachable fw_owned in \<open>simp_all add: fw_world_def no_future_requests_def fw_database_def fw_added_db fw_row_def fw_alias_def\<close>)
  moreover have "\<exists>err. res = Inl err"
  proof -
    obtain x where x: "entries = [x]" "fe_ip x = ''10.0.0.9/32''" "fe_status x = StatusRequested" "fe_alias_uuid x = ''ab''"
      using e by (simp add: joined_rows_def fw_database_def fw_added_db fw_row_def find_user_def alice_row_def is_user_def ordered_rows_def
          order_desc_def actor_row_def Let_def new_entry_def scan_entry_def add_event_to_def) force
    have refused: "UpdateAlias refusing_router uuid ipsToAdd ipsToRemove w \<noteq> (Inr (), w2)"
      for uuid ipsToAdd ipsToRemove and w w2 :: "(string \<Rightarrow> string) router_world"
      using refusing_update [of uuid ipsToAdd ipsToRemove w] by auto
    have "sync_entries fw_pg refusing_router ''ab'' ''idp'' ''system'' [''1.2.3.4''] [x] v \<noteq> (Inr (), v')" for v v' :: "(string \<Rightarrow> string) router_world"
      using refused x
      by (simp add: sync_entries_def Let_def cleanIP_def entries_of_ip_def wants_access_def split: prod.split sum.split)
    moreover have "GetSelectedIPs (toy_detail ''1.2.3.4'') = [''1.2.3.4'']"
      by (simp add: GetSelectedIPs_def toy_detail_def isInternalAlias_def isAliasReference_def strip_slash_def strings_Contains_def sublist_code)
    ultimately show ?thesis
      using run all x
      by (cases res) (auto simp: syncAlias_def refusing_get try_db_def GetAllWhitelistEntries_def db_query_eq lift_result_def fw_world_def
          fw_alias_def split: sum.splits prod.splits)
  qed
  ultimately show ?thesis using run by (auto simp: fw_world_def)
qed

text \<open>
  An alias whose \<open>UUID\<close> is configured in another spelling than the server's loses its addresses. The
  configuration accepts any 36 characters and the database reads them, but the job compares the text: a sync
  that succeeds then empties the alias on the router, whatever entries it has.
\<close>

theorem uuid_spelling_empties_alias:
  fixes w :: "('s, 'w) router_world_scheme"
  assumes "alias_api c selected" and "wl_reachable pg (db w)" and "canonical_uuids pg"
    and "uuid_in pg (al_uuid a) = Some u" and "u \<noteq> al_uuid a" and "syncAlias pg c a iss sub w = (Inr (), w')"
    and "\<forall>r \<in> set (t_whitelist (db w)). plain_address (cleanIP (inet_text pg (wr_ip r)))"
  shows "selected (router w') (al_uuid a) = {}"
proof -
  have "stored_uuids pg (db w)" using reachable_stored_uuids assms(2,3) .
  then have "wr_alias_uuid r \<noteq> al_uuid a" if "r \<in> owned_rows (db w)" for r
    using that assms(4,5) by (auto simp: stored_uuids_def owned_rows_def)
  then have "active_addresses pg (al_uuid a) (owned_rows (db w)) = {}" by (auto simp: active_addresses_def)
  then show ?thesis
    using syncAlias_success [OF assms(1) wl_reachable_inv [OF assms(2)] assms(6,7)] by simp
qed

theorem uuid_spelling_empties_alias_witness:
  "\<exists>w'. syncAlias fw_pg toy_router (fw_alias ''AB'') ''idp'' ''system'' (fw_world 15) = (Inr (), w') \<and> toy_selected (router w') ''AB'' = {}"
proof -
  obtain w' where run: "syncAlias fw_pg toy_router (fw_alias ''AB'') ''idp'' ''system'' (fw_world 15) = (Inr (), w')" using fw_sync by blast
  have "uuid_in fw_pg (al_uuid (fw_alias ''AB'')) = Some ''ab''" "''ab'' \<noteq> al_uuid (fw_alias ''AB'')"
    by (simp_all add: fw_alias_def lower_ab)
  then have "toy_selected (router w') (al_uuid (fw_alias ''AB'')) = {}"
    using uuid_spelling_empties_alias [OF toy_router_api _ fw_canonical _ _ run] fw_reachable fw_plain by (simp add: fw_world_def)
  then show ?thesis using run by (auto simp: fw_alias_def)
qed

end
