(* ===== verification/Migrations.thy ===== *)
theory Migrations
  imports Database "HOL-Library.Char_ord" "HOL-Library.List_Lexorder"
begin

text \<open>
  The schema migrations, \<open>RunMigrations\<close> of \<open>internal/storage/database.go\<close>: every embedded file
  \<open>*.up.sql\<close> is executed once, in the order of the names, in a transaction with the row of
  \<open>schema_migrations\<close> that records it.

  Parameters: the embedded files, and what a script does to the schema. Every statement is a round
  trip that may fail; the row is stored with the schema when the transaction commits.
\<close>

record 's migration_files =
  mf_ReadDir :: "(string \<times> bool) list result"
  mf_ReadFile :: "string \<Rightarrow> string result"
  mf_Exec :: "string \<Rightarrow> 's \<Rightarrow> 's result"

record 's migration_world = world +
  mw_versions :: "string list"
  mw_schema :: 's

definition migration_names :: "(string \<times> bool) list \<Rightarrow> string list" where
  "migration_names entries = sort (map fst (filter (\<lambda>(name, is_dir). \<not> is_dir \<and> suffix ''.up.sql'' name) entries))"

definition version_of :: "string \<Rightarrow> string" where
  "version_of filename = hd (strings_Split (CHR ''_'') filename)"

definition statement :: "('s, 'w) migration_world_scheme \<Rightarrow> unit result \<times> ('s, 'w) migration_world_scheme" where
  "statement = db_query (\<lambda>_. ())"

definition migration_tx :: "'s migration_files \<Rightarrow> string \<Rightarrow> string \<Rightarrow> (('s, 'w) migration_world_ext, unit) dbop" where
  "migration_tx f filename content =
     try_db statement (wrap ''failed to begin transaction: '') (\<lambda>_.
     try_db statement (wrap (''failed to execute migration '' @ filename @ '': '')) (\<lambda>_ w.
     try_db (lift_result (mf_Exec f content (mw_schema w))) (wrap (''failed to execute migration '' @ filename @ '': '')) (\<lambda>s.
     try_db statement (wrap (''failed to record migration '' @ filename @ '': '')) (\<lambda>_ w.
     if version_of filename \<in> set (mw_versions w)
     then (Inl (wrap (''failed to record migration '' @ filename @ '': '') (duplicate_key ''schema_migrations_pkey'')), w)
     else try_db statement (wrap (''failed to commit migration '' @ version_of filename @ '': '')) (\<lambda>_ w.
       (Inr (), w\<lparr>mw_versions := mw_versions w @ [version_of filename], mw_schema := s\<rparr>)) w)) w))"

definition run_migration :: "'s migration_files \<Rightarrow> string \<Rightarrow> (('s, 'w) migration_world_ext, unit) dbop" where
  "run_migration f filename =
     try_db statement (wrap (''failed to check migration status for '' @ version_of filename @ '': '')) (\<lambda>_ w.
       if version_of filename \<in> set (mw_versions w) then (Inr (), w)
       else try_db (lift_result (mf_ReadFile f (''migrations/'' @ filename))) (wrap (''failed to read migration file '' @ filename @ '': ''))
              (migration_tx f filename) w)"

definition RunMigrations :: "'s migration_files \<Rightarrow> (('s, 'w) migration_world_ext, unit) dbop" where
  "RunMigrations f =
     try_db statement (wrap ''failed to acquire connection: '') (\<lambda>_.
     try_db statement (wrap ''failed to create schema_migrations table: '') (\<lambda>_.
     try_db (lift_result (mf_ReadDir f)) (wrap ''failed to read migrations directory: '') (\<lambda>entries.
       for_each (migration_names entries) (run_migration f))))"

section \<open>What a run does\<close>

text \<open>The scripts of the files executed in order.\<close>

fun execute_all :: "'s migration_files \<Rightarrow> string list \<Rightarrow> 's \<Rightarrow> 's result" where
  "execute_all f [] s = Inr s"
| "execute_all f (n # ns) s =
     (case mf_ReadFile f (''migrations/'' @ n) of
        Inl e \<Rightarrow> Inl e
      | Inr content \<Rightarrow> (case mf_Exec f content s of Inl e \<Rightarrow> Inl e | Inr s1 \<Rightarrow> execute_all f ns s1))"

lemma execute_all_append:
  "execute_all f (xs @ ys) s = (case execute_all f xs s of Inl e \<Rightarrow> Inl e | Inr s1 \<Rightarrow> execute_all f ys s1)"
  by (induction xs arbitrary: s) (auto split: sum.split)

text \<open>The first \<open>k\<close> files are executed and recorded, and no other.\<close>

definition applied :: "'s migration_files \<Rightarrow> string list \<Rightarrow> 's \<Rightarrow> nat \<Rightarrow> ('s, 'w) migration_world_scheme \<Rightarrow> bool" where
  "applied f names s0 k w \<longleftrightarrow>
     k \<le> length names \<and> mw_versions w = map version_of (take k names) \<and> execute_all f (take k names) s0 = Inr (mw_schema w)"

lemma statement_cases:
  assumes "statement w = (r, w1)"
  shows "mw_versions w1 = mw_versions w \<and> mw_schema w1 = mw_schema w"
  using assms by (auto simp: statement_def db_query_def roundtrip_def pop_fault_def Let_def split: option.splits)

lemma applied_statement: "statement w = (r, w1) \<Longrightarrow> applied f names s0 k w1 = applied f names s0 k w"
  using statement_cases [of w r w1] by (simp add: applied_def)

lemma migration_tx_applied:
  fixes w :: "('s, 'w) migration_world_scheme"
  assumes "migration_tx f n content w = (r, w')" and "applied f names s0 k w" and "k < length names" and "names ! k = n"
    and "mf_ReadFile f (''migrations/'' @ n) = Inr content"
  shows "applied f names s0 (if is_ok r then Suc k else k) w'"
proof -
  have step: "applied f names s0 (Suc k) (v\<lparr>mw_versions := mw_versions v @ [version_of n], mw_schema := s\<rparr>)"
    if "applied f names s0 k v" "mf_Exec f content (mw_schema v) = Inr s" for v :: "('s, 'w) migration_world_scheme" and s
    using that assms(3-5) by (auto simp: applied_def take_Suc_conv_app_nth execute_all_append)
  obtain a1 w1 where s1: "statement w = (a1, w1)" by fastforce
  obtain a2 w2 where s2: "statement w1 = (a2, w2)" by fastforce
  obtain a3 w3 where s3: "statement w2 = (a3, w3)" by fastforce
  obtain a4 w4 where s4: "statement w3 = (a4, w4)" by fastforce
  have ap: "applied f names s0 k w1" "applied f names s0 k w2" "applied f names s0 k w3" "applied f names s0 k w4"
    using assms(2) by (simp_all add: applied_statement [OF s1] applied_statement [OF s2] applied_statement [OF s3] applied_statement [OF s4])
  have schema: "mw_schema w4 = mw_schema w2"
    using statement_cases [OF s3] statement_cases [OF s4] by simp
  show ?thesis
    using assms(1) ap step [OF ap(4)] schema
    by (auto simp: migration_tx_def try_db_def s1 s2 s3 s4 lift_result_def split: sum.splits if_splits)
qed

lemma nth_in_take: "distinct xs \<Longrightarrow> i < length xs \<Longrightarrow> xs ! i \<in> set (take k xs) \<longleftrightarrow> i < k"
  by (auto simp: in_set_conv_nth nth_eq_iff_index_eq)

lemma run_migration_applied:
  assumes "run_migration f n w = (r, w')" and "applied f names s0 k w" and "i \<le> k" and "i < length names" and "names ! i = n"
    and "distinct (map version_of names)"
  shows "\<exists>k'. k \<le> k' \<and> applied f names s0 k' w' \<and> (is_ok r \<longrightarrow> Suc i \<le> k')"
proof -
  obtain a w1 where s: "statement w = (a, w1)" by fastforce
  have w1: "applied f names s0 k w1"
    using assms(2) by (simp add: applied_statement [OF s])
  have recorded: "version_of n \<in> set (mw_versions w1) \<longleftrightarrow> i < k"
  proof -
    have "version_of n = map version_of names ! i"
      using assms(4,5) by simp
    then show ?thesis
      using w1 assms(4,6) nth_in_take [of "map version_of names" i k] by (simp add: applied_def take_map)
  qed
  show ?thesis
  proof (cases "i < k")
    case True
    then show ?thesis
      using assms(1) w1 recorded by (auto simp: run_migration_def try_db_def s split: sum.splits)
  next
    case False
    then have k: "k = i" using assms(3) by simp
    have new: "version_of n \<notin> set (mw_versions w1)"
      using recorded False by simp
    show ?thesis
    proof (cases "\<exists>content. is_ok a \<and> mf_ReadFile f (''migrations/'' @ n) = Inr content")
      case True
      then obtain content u where c: "a = Inr u" "mf_ReadFile f (''migrations/'' @ n) = Inr content"
        by (auto simp: is_ok_iff)
      with assms(1) new have "migration_tx f n content w1 = (r, w')"
        by (simp add: run_migration_def try_db_def s lift_result_def)
      from migration_tx_applied [OF this w1 _ _ c(2)] k assms(4,5)
      have "applied f names s0 (if is_ok r then Suc k else k) w'" by simp
      then show ?thesis
        using k by (intro exI [of _ "if is_ok r then Suc k else k"]) auto
    next
      case False
      with assms(1) new have "w' = w1" "\<not> is_ok r"
        by (auto simp: run_migration_def try_db_def s lift_result_def is_ok_iff split: sum.splits)
      with w1 show ?thesis by auto
    qed
  qed
qed

lemma run_each_applied:
  assumes "distinct (map version_of names)"
  shows "for_each (drop i names) (run_migration f) w = (r, w') \<Longrightarrow> applied f names s0 k w \<Longrightarrow> i \<le> k \<Longrightarrow>
    \<exists>k'. k \<le> k' \<and> applied f names s0 k' w' \<and> (is_ok r \<longrightarrow> k' = length names)"
proof (induction "drop i names" arbitrary: i k w)
  case Nil
  then show ?case
    by (auto simp: ok_def applied_def)
next
  case (Cons n ns)
  then have i: "i < length names" "names ! i = n" "ns = drop (Suc i) names"
    by (metis drop_eq_Nil list.distinct(1) not_le, metis nth_via_drop, metis drop_Suc list.sel(3) tl_drop)
  obtain a w1 where one: "run_migration f n w = (a, w1)" by fastforce
  obtain k1 where k1: "k \<le> k1" "applied f names s0 k1 w1" "is_ok a \<longrightarrow> Suc i \<le> k1"
    using run_migration_applied [OF one Cons.prems(2,3) i(1,2) assms] by blast
  have run: "try_db (run_migration f n) id (\<lambda>_. for_each ns (run_migration f)) w = (r, w')"
    using Cons.prems(1) Cons.hyps(2) [symmetric] by simp
  show ?case
  proof (cases a)
    case (Inl e)
    with run one k1 show ?thesis by (auto simp: try_db_def)
  next
    case (Inr u)
    with run one have "for_each (drop (Suc i) names) (run_migration f) w1 = (r, w')"
      by (simp add: try_db_def i(3))
    from Cons.hyps(1) [OF i(3) this k1(2)] k1(1,3) Inr show ?thesis
      by (auto intro: le_trans)
  qed
qed

section \<open>Every migration once, in order\<close>

text \<open>
  C23: Migrations are atomic and resumable. Let no two files share a version. If the database holds exactly
  the first \<open>k\<close> files, executed in the order of their names and recorded, then after \<open>RunMigrations\<close>, with
  any round trips failing, it holds exactly the first \<open>k'\<close> files for some \<open>k'\<close> that is at least \<open>k\<close>; and all of
  them if it succeeds, so a second run executes nothing.
\<close>

theorem migrations_apply_once_in_order:
  assumes "mf_ReadDir f = Inr entries" and "names = migration_names entries" and "distinct (map version_of names)"
    and "k \<le> length names" and "mw_versions w = map version_of (take k names)" and "execute_all f (take k names) s0 = Inr (mw_schema w)"
    and "RunMigrations f w = (r, w')"
  shows "\<exists>k'. k \<le> k' \<and> k' \<le> length names \<and> mw_versions w' = map version_of (take k' names) \<and>
    execute_all f (take k' names) s0 = Inr (mw_schema w') \<and> (is_ok r \<longrightarrow> k' = length names)"
proof -
  obtain a1 w1 where s1: "statement w = (a1, w1)" by fastforce
  obtain a2 w2 where s2: "statement w1 = (a2, w2)" by fastforce
  have ap: "applied f names s0 k w1" "applied f names s0 k w2"
    using assms(4-6) statement_cases [OF s1] statement_cases [OF s2] by (simp_all add: applied_def)
  have "\<exists>k'. k \<le> k' \<and> applied f names s0 k' w' \<and> (is_ok r \<longrightarrow> k' = length names)"
  proof (cases "is_ok a1 \<and> is_ok a2")
    case True
    then have "for_each (drop 0 names) (run_migration f) w2 = (r, w')"
      using assms(1,2,7) by (auto simp: RunMigrations_def try_db_def s1 s2 lift_result_def is_ok_iff)
    then show ?thesis
      using run_each_applied [OF assms(3) _ ap(2)] by blast
  next
    case False
    then have "\<not> is_ok r \<and> w' \<in> {w1, w2}"
      using assms(7) by (auto simp: RunMigrations_def try_db_def s1 s2 is_ok_iff split: sum.splits)
    with ap show ?thesis by auto
  qed
  then show ?thesis
    by (auto simp: applied_def)
qed

text \<open>Two scripts that add their table, a file that is not a migration, and a connection that breaks at the second script.\<close>

definition two_files :: "string list migration_files" where
  "two_files = \<lparr>mf_ReadDir = Inr [(''002_b.up.sql'', False), (''001_a.up.sql'', False), (''001_a.down.sql'', False)],
     mf_ReadFile = Inr, mf_Exec = (\<lambda>c s. Inr (s @ [c]))\<rparr>"

definition fresh_schema :: "string list migration_world" where
  "fresh_schema = \<lparr>db = empty_database, now = 5, faults = [None, None, None, None, None, None, None, None, None, Some ''connection reset''],
     mw_versions = [], mw_schema = []\<rparr>"

theorem migrations_apply_once_in_order_witness:
  "\<exists>k' \<le> 2. mw_versions (snd (RunMigrations two_files fresh_schema)) = take k' [''001'', ''002'']"
proof -
  have n: "migration_names [(''002_b.up.sql'', False), (''001_a.up.sql'', False), (''001_a.down.sql'', False)] = [''001_a.up.sql'', ''002_b.up.sql'']"
    by (simp add: migration_names_def suffix_def sorted_sort_id)
  have v: "map version_of [''001_a.up.sql'', ''002_b.up.sql''] = [''001'', ''002'']"
    by (simp add: version_of_def)
  have dir: "mf_ReadDir two_files = Inr [(''002_b.up.sql'', False), (''001_a.up.sql'', False), (''001_a.down.sql'', False)]"
    by (simp add: two_files_def)
  obtain r w' where run: "RunMigrations two_files fresh_schema = (r, w')" by fastforce
  let ?names = "[''001_a.up.sql'', ''002_b.up.sql'']"
  have "\<exists>k'. 0 \<le> k' \<and> k' \<le> length ?names \<and> mw_versions w' = map version_of (take k' ?names) \<and>
      execute_all two_files (take k' ?names) [] = Inr (mw_schema w') \<and> (is_ok r \<longrightarrow> k' = length ?names)"
    by (rule migrations_apply_once_in_order [OF dir n [symmetric] _ _ _ _ run]) (simp_all only: v, simp_all add: fresh_schema_def)
  then have "\<exists>k' \<le> length ?names. mw_versions w' = take k' (map version_of ?names)"
    by (auto simp only: take_map)
  then show ?thesis
    unfolding v using run by (simp add: numeral_2_eq_2)
qed

end
