(* ===== verification/Server_Setup.thy ===== *)
theory Server_Setup
  imports Config_Load Data_Service Job_Manager Election Cert_Jobs Firewall_Jobs Migrations
begin

text \<open>
  Starting the server: \<open>New\<close> of \<open>internal/server/server.go\<close> with what it calls to set up the sessions, the
  data service and its cache, the election, the storage, the certificate provider and the jobs.

  Parameters, in \<open>startup\<close>: whether Redis, the OIDC discovery, the database and Kubernetes answer, what
  \<open>HOSTNAME\<close> holds, a fresh UUID, and the migration files. Reading a field of a section the configuration
  does not have is a nil dereference.
\<close>

section \<open>What the server is made of\<close>

datatype cache_choice = MemoryCache | RedisCache | NilRedisCache

datatype certificate_choice = NoCertificates | KubernetesCertificates | DatabaseCertificates key_algorithm

datatype job_kind =
    DataFetch duration
  | CertificateCreation duration
  | CertificateIssued duration
  | FirewallSync duration
  | FirewallExpiration duration

record session_manager =
  smg_lifetime :: duration
  smg_cookie_name :: string
  smg_secure :: bool

record server =
  sr_sessions :: session_manager
  sr_cache :: cache_choice
  sr_election :: "election option"
  sr_storage :: bool
  sr_certificates :: certificate_choice
  sr_jobs :: "job_kind list"

record 's startup =
  su_session_ping :: "unit result"
  su_oidc :: "unit result"
  su_api :: "string \<Rightarrow> unit result"
  su_cache_ping :: "unit result"
  su_hostname :: string
  su_uuid :: string
  su_connect :: "string \<Rightarrow> unit result"
  su_ping :: "unit result"
  su_migrations :: "'s migration_files"
  su_rest_config :: "string option \<Rightarrow> unit result"
  su_home :: string
  su_clientset :: "unit result"
  su_certmanager :: "unit result"
  su_namespaces :: "unit result"
  su_crypto :: crypto_library
  su_sha256 :: "string \<Rightarrow> string"

text \<open>The world of the start: the migrations and the certificate authority, over the database.\<close>

record 's setup_world = ca_world +
  sw_versions :: "string list"
  sw_schema :: 's

section \<open>The parts\<close>

definition NewSessionManager :: "config \<Rightarrow> unit result \<Rightarrow> session_manager result" where
  "NewSessionManager cfg ping =
     (let s = cfg_sessions cfg;
          sm = \<lparr>smg_lifetime = ses_fixed_timeout s, smg_cookie_name = ses_name s, smg_secure = ses_secure s\<rparr> in
      if ses_store s = ''memory'' then Inr sm
      else if ses_store s = ''redis'' then
        (case cfg_redis cfg of
           None \<Rightarrow> Inl nil_dereference
         | Some r \<Rightarrow> (case ping of Inl e \<Rightarrow> Inl (wrap ''redis connection failed: '' e) | Inr _ \<Rightarrow> Inr sm))
      else Inl (Errorf (''unsupported session store: '' @ ses_store s)))"

text \<open>\<open>NewCacheProvider\<close>: an error comes with a nil \<open>*RedisCache\<close>.\<close>

definition NewCacheProvider :: "config \<Rightarrow> unit result \<Rightarrow> (cache_choice \<times> goerror option) result" where
  "NewCacheProvider cfg ping =
     (if cfg_cache_type cfg = ''redis'' then
        (case cfg_redis cfg of
           None \<Rightarrow> Inl nil_dereference
         | Some r \<Rightarrow> (case ping of
             Inl e \<Rightarrow> Inr (NilRedisCache, Some (wrap ''redis connection failed: '' e)) | Inr _ \<Rightarrow> Inr (RedisCache, None)))
      else Inr (MemoryCache, None))"

definition setupDataService :: "config \<Rightarrow> 's startup \<Rightarrow> cache_choice result" where
  "setupDataService cfg su =
     (case data_basic_auth (cfg_data cfg) of
        None \<Rightarrow> Inl nil_dereference
      | Some ba \<Rightarrow>
          (case su_api su (data_prometheus_url (cfg_data cfg)) of
             Inl e \<Rightarrow> Inl (wrap ''failed to create new mimir client: '' (wrap ''failed to create client: '' e))
           | Inr _ \<Rightarrow>
               (case NewCacheProvider cfg (su_cache_ping su) of
                  Inl e \<Rightarrow> Inl e
                | Inr (cache, err) \<Rightarrow> Inr cache)))"

definition setup_election :: "config \<Rightarrow> 's startup \<Rightarrow> election option result" where
  "setup_election cfg su =
     (case cfg_distributed cfg of
        None \<Rightarrow> Inr None
      | Some d \<Rightarrow>
          if \<not> dist_enabled d then Inr None
          else (case cfg_redis cfg of
              None \<Rightarrow> Inl nil_dereference
            | Some r \<Rightarrow>
                Inr (Some \<lparr>el_InstanceID = (if su_hostname su = [] then su_uuid su else su_hostname su),
                           el_TTL = dist_ttl d, el_isLeader = False\<rparr>)))"

definition GetConnectionStringFromConfig :: "storage_config \<Rightarrow> string" where
  "GetConnectionStringFromConfig s =
     ''host='' @ sto_host s @ '' port='' @ show_int (sto_port s) @ '' user='' @ sto_username s @ '' password='' @ sto_password s @
     '' dbname='' @ sto_database s @ '' sslmode=disable''"

definition NewStorageProvider :: "storage_config \<Rightarrow> 's startup \<Rightarrow> string result" where
  "NewStorageProvider s su =
     (case su_connect su (GetConnectionStringFromConfig s) of
        Inl e \<Rightarrow> Inl (wrap ''failed to connect to database: '' e)
      | Inr _ \<Rightarrow>
          (case su_ping su of
             Inl e \<Rightarrow> Inl (wrap ''failed to ping database: '' e)
           | Inr _ \<Rightarrow>
               if sto_encryption_key s = [] then Inr []
               else (case ParseEncryptionKey (su_crypto su) (sto_encryption_key s) of
                   Inl e \<Rightarrow> Inl (wrap ''failed to parse encryption key: '' e) | Inr key \<Rightarrow> Inr key)))"

text \<open>\<open>RunMigrations\<close> on this world.\<close>

definition on_migrations :: "('s migration_world \<Rightarrow> unit result \<times> 's migration_world) \<Rightarrow> (('s, 'w) setup_world_ext ca_world_ext, unit) dbop" where
  "on_migrations m w =
     (case m \<lparr>db = db w, now = now w, faults = faults w, mw_versions = sw_versions w, mw_schema = sw_schema w\<rparr> of
        (r, v) \<Rightarrow> (r, w\<lparr>db := db v, faults := faults v, sw_versions := mw_versions v, sw_schema := mw_schema v\<rparr>))"

definition setup_storage :: "config \<Rightarrow> 's startup \<Rightarrow> (('s, 'w) setup_world_ext ca_world_ext, string option) dbop" where
  "setup_storage cfg su =
     (case cfg_storage cfg of
        None \<Rightarrow> fail nil_dereference
      | Some s \<Rightarrow>
          if \<not> sto_enabled s then ok None
          else try_db (lift_result (NewStorageProvider s su)) id (\<lambda>key.
               try_db (on_migrations (RunMigrations (su_migrations su))) id (\<lambda>_.
               try_db (EnsureSystemUser (srv_external_url (cfg_server cfg))) (wrap ''failed to ensure system user: '') (\<lambda>_.
               ok (Some key)))))"

definition NewKubernetesClient :: "config \<Rightarrow> 's startup \<Rightarrow> unit result" where
  "NewKubernetesClient cfg su =
     (case cfg_features cfg of
        None \<Rightarrow> Inl (Errorf ''mtls_management is not enabled'')
      | Some f \<Rightarrow>
          if \<not> mtls_enabled (feat_mtls f) then Inl (Errorf ''mtls_management is not enabled'')
          else (case mtls_kubernetes (feat_mtls f) of
              None \<Rightarrow> Inl (Errorf ''kubernetes configuration is nil'')
            | Some k \<Rightarrow>
                if k8s_issuer k = None then Inl (Errorf ''certificate issuer configuration is missing'')
                else if k8s_namespace k = [] then Inl (Errorf ''kubernetes namespace configuration is missing'')
                else (case su_rest_config su
                         (if k8s_in_cluster k then None
                          else Some (if k8s_kubeconfig k \<noteq> [] then k8s_kubeconfig k
                                     else if su_home su \<noteq> [] then su_home su @ ''/.kube/config'' else [])) of
                    Inl e \<Rightarrow> Inl (wrap (if k8s_in_cluster k then ''failed to create in-cluster config: ''
                                         else ''failed to build config from kubeconfig: '') e)
                  | Inr _ \<Rightarrow> (case su_clientset su of
                      Inl e \<Rightarrow> Inl (wrap ''failed to create kubernetes clientset: '' e)
                    | Inr _ \<Rightarrow> (case su_certmanager su of
                        Inl e \<Rightarrow> Inl (wrap ''failed to create cert-manager clientset: '' e)
                      | Inr _ \<Rightarrow> (case su_namespaces su of
                          Inl e \<Rightarrow> Inl (wrap ''failed to verify kubernetes connection: '' e) | Inr _ \<Rightarrow> Inr ()))))))"

text \<open>
  The storage is the nil interface unless it is enabled; \<open>StartupCheck\<close> then calls a method of it.
\<close>

definition setup_certificates ::
  "config \<Rightarrow> 's startup \<Rightarrow> string option \<Rightarrow> (('s, 'w) setup_world_ext ca_world_ext, certificate_choice) dbop" where
  "setup_certificates cfg su storage =
     (case cfg_features cfg of
        None \<Rightarrow> fail nil_dereference
      | Some f \<Rightarrow>
          (let m = feat_mtls f in
           if \<not> mtls_enabled m then ok NoCertificates
           else if is_on k8s_enabled (mtls_kubernetes m) then
             try_db (lift_result (NewKubernetesClient cfg su)) id (\<lambda>_. ok KubernetesCertificates)
           else (case mtls_database m of
               None \<Rightarrow> ok NoCertificates
             | Some d \<Rightarrow>
                 if \<not> dbc_enabled d then ok NoCertificates
                 else try_db (lift_result (ParseKeyAlgorithm (dbc_key_algorithm d))) id (\<lambda>keyAlgorithm.
                   (case storage of
                      None \<Rightarrow> fail nil_dereference
                    | Some key \<Rightarrow>
                        try_db (StartupCheck \<lparr>dp_store = \<lparr>ks_crypto = su_crypto su, ks_key = key\<rparr>, dp_algorithm = keyAlgorithm,
                                  dp_subject = mtls_subject m, dp_sha256 = su_sha256 su\<rparr>) id
                          (\<lambda>_. ok (DatabaseCertificates keyAlgorithm)))))))"

fun minTTL :: "prometheus_query list \<Rightarrow> duration option \<Rightarrow> duration option" where
  "minTTL [] found = found"
| "minTTL (q # qs) found =
     (if pq_disabled q \<or> pq_ttl q \<le> 0 then minTTL qs found
      else minTTL qs (case found of None \<Rightarrow> Some (pq_ttl q) | Some t \<Rightarrow> if pq_ttl q < t then Some (pq_ttl q) else found))"

definition calculateFetchInterval :: "config \<Rightarrow> duration \<Rightarrow> duration" where
  "calculateFetchInterval cfg defaultInterval =
     (let t = (case minTTL (data_queries (cfg_data cfg)) None of None \<Rightarrow> defaultInterval | Some t \<Rightarrow> t)
      in if t < 30 * second then 30 * second else t)"

definition registered_jobs :: "config \<Rightarrow> job_kind list result" where
  "registered_jobs cfg =
     (case cfg_features cfg of
        None \<Rightarrow> Inl nil_dereference
      | Some f \<Rightarrow>
          (case (if mtls_enabled (feat_mtls f) then
                   (case mtls_jobs (feat_mtls f) of
                      None \<Rightarrow> Inl nil_dereference
                    | Some j \<Rightarrow> Inr [CertificateCreation (mbj_approved_interval j), CertificateIssued (mbj_issued_interval j)])
                 else Inr []) of
             Inl e \<Rightarrow> Inl e
           | Inr certificate_jobs \<Rightarrow>
               (case (if fw_enabled (feat_firewall f) then
                        (case fw_jobs (feat_firewall f) of
                           None \<Rightarrow> Inl nil_dereference
                         | Some j \<Rightarrow> Inr [FirewallSync (fbj_sync_interval j), FirewallExpiration (fbj_expiration_interval j)])
                      else Inr []) of
                  Inl e \<Rightarrow> Inl e
                | Inr firewall_jobs \<Rightarrow>
                    Inr (DataFetch (calculateFetchInterval cfg (data_fallback_interval (cfg_data cfg))) # certificate_jobs @ firewall_jobs))))"

definition New :: "config \<Rightarrow> 's startup \<Rightarrow> (('s, 'w) setup_world_ext ca_world_ext, server) dbop" where
  "New cfg su =
     try_db (lift_result (NewSessionManager cfg (su_session_ping su))) id (\<lambda>sessions.
     try_db (lift_result (su_oidc su)) (wrap ''failed to create OIDC provider: '') (\<lambda>_.
     try_db (lift_result (setupDataService cfg su)) id (\<lambda>cache.
     try_db (lift_result (setup_election cfg su)) id (\<lambda>election.
     try_db (setup_storage cfg su) id (\<lambda>storage.
     try_db (setup_certificates cfg su storage) id (\<lambda>certificates.
     try_db (lift_result (registered_jobs cfg)) id (\<lambda>jobs.
       ok \<lparr>sr_sessions = sessions, sr_cache = cache, sr_election = election, sr_storage = (storage \<noteq> None),
           sr_certificates = certificates, sr_jobs = jobs\<rparr>)))))))"

text \<open>The interval and the name of a job, and that they are those of the job itself.\<close>

fun kind_interval :: "job_kind \<Rightarrow> duration" where
  "kind_interval (DataFetch i) = i"
| "kind_interval (CertificateCreation i) = i"
| "kind_interval (CertificateIssued i) = i"
| "kind_interval (FirewallSync i) = i"
| "kind_interval (FirewallExpiration i) = i"

fun kind_name :: "job_kind \<Rightarrow> string" where
  "kind_name (DataFetch i) = ''data_fetch''"
| "kind_name (CertificateCreation i) = ''create_certificate''"
| "kind_name (CertificateIssued i) = ''certificate_issued_status''"
| "kind_name (FirewallSync i) = ''firewall_ip_sync''"
| "kind_name (FirewallExpiration i) = ''firewall_ip_expiration''"

lemma kind_of_job:
  "job_name (data_fetch_job s cache i) = kind_name (DataFetch i) \<and> job_interval (data_fetch_job s cache i) = kind_interval (DataFetch i)"
  "job_name (certificate_creation_job p sha i) = kind_name (CertificateCreation i) \<and>
   job_interval (certificate_creation_job p sha i) = kind_interval (CertificateCreation i)"
  "job_name (certificate_issued_status_job p cl i) = kind_name (CertificateIssued i) \<and>
   job_interval (certificate_issued_status_job p cl i) = kind_interval (CertificateIssued i)"
  "job_name (firewall_sync_job pg c cfg i) = kind_name (FirewallSync i) \<and>
   job_interval (firewall_sync_job pg c cfg i) = kind_interval (FirewallSync i)"
  "job_name (firewall_expiration_job pg i) = kind_name (FirewallExpiration i) \<and>
   job_interval (firewall_expiration_job pg i) = kind_interval (FirewallExpiration i)"
  by (simp_all add: data_fetch_job_def certificate_creation_job_def certificate_issued_status_job_def firewall_sync_job_def
      firewall_expiration_job_def)

text \<open>The cache the data service and its job get; the two providers are those of the theory of the cache.\<close>

definition cache_ref_of :: "'c provider \<Rightarrow> 'c provider \<Rightarrow> cache_choice \<Rightarrow> 'c cache_ref" where
  "cache_ref_of memory redis c = (case c of MemoryCache \<Rightarrow> Cached memory | RedisCache \<Rightarrow> Cached redis | NilRedisCache \<Rightarrow> NilRedis)"

section \<open>Facts of the parts\<close>

lemma New_InrE:
  assumes "New cfg su w = (Inr sv, w')"
  obtains cache jobs where "setupDataService cfg su = Inr cache" "registered_jobs cfg = Inr jobs" "sr_cache sv = cache" "sr_jobs sv = jobs"
  using assms unfolding New_def
  by (elim try_db_InrE ok_InrE) (auto simp: lift_result_def)

lemma NewSessionManager_ok:
  assumes "config_ok cfg" and "ping = Inr ()"
  shows "\<exists>sm. NewSessionManager cfg ping = Inr sm"
  using assms by (auto simp: config_ok_def session_ok_def uses_redis_def NewSessionManager_def Let_def)

lemma NewCacheProvider_ok:
  assumes "config_ok cfg"
  shows "\<exists>cache err. NewCacheProvider cfg ping = Inr (cache, err)"
  using assms by (auto simp: config_ok_def uses_redis_def NewCacheProvider_def split: sum.split)

lemma Min_insert_min: "finite T \<Longrightarrow> Min (insert (min a b) T) = Min (insert a (insert b T))" for a :: "'a::linorder"
  by (cases "T = {}") (simp_all add: min.assoc)

lemma minTTL_Min:
  assumes "\<forall>q \<in> set qs. \<not> pq_disabled q \<longrightarrow> 0 < pq_ttl q"
  shows "minTTL qs found =
    (let ts = set_option found \<union> pq_ttl ` {q \<in> set qs. \<not> pq_disabled q} in if ts = {} then None else Some (Min ts))"
  using assms
proof (induction qs arbitrary: found)
  case Nil
  then show ?case by (cases found) auto
next
  case (Cons q qs)
  let ?T = "pq_ttl ` {q \<in> set qs. \<not> pq_disabled q}"
  show ?case
  proof (cases "pq_disabled q")
    case True
    then have "{x \<in> set (q # qs). \<not> pq_disabled x} = {x \<in> set qs. \<not> pq_disabled x}" by auto
    with Cons True show ?thesis by (simp add: Let_def)
  next
    case False
    then have "{x \<in> set (q # qs). \<not> pq_disabled x} = insert q {x \<in> set qs. \<not> pq_disabled x}" by auto
    moreover have "minTTL (q # qs) found = minTTL qs (Some (case found of None \<Rightarrow> pq_ttl q | Some t \<Rightarrow> min (pq_ttl q) t))"
      using False Cons.prems by (auto simp: min_def split: option.split)
    moreover have "Min (insert (min a b) ?T) = Min (insert a (insert b ?T))" for a b :: duration
      by (rule Min_insert_min) simp
    ultimately show ?thesis
      using Cons by (cases found) (auto simp: Let_def insert_commute)
  qed
qed

section \<open>How the server starts\<close>

text \<open>
  C40: A configuration that loads can still crash the start. If it has no \<open>data.basic_auth\<close> section, no
  \<open>storage\<close> section, or enables \<open>distributed\<close> without a \<open>redis\<close> section, then \<open>New\<close> ends in a nil
  dereference with nothing written, although every service it talks to answers.
\<close>

theorem missing_section_panics:
  assumes "LoadConfig ld path = Inr cfg"
    and "su_session_ping su = Inr ()" and "su_oidc su = Inr ()" and "su_api su (data_prometheus_url (cfg_data cfg)) = Inr ()"
    and "data_basic_auth (cfg_data cfg) = None \<or> cfg_storage cfg = None \<or>
      (\<exists>d. cfg_distributed cfg = Some d \<and> dist_enabled d) \<and> cfg_redis cfg = None"
  shows "New cfg su w = (Inl nil_dereference, w)"
proof -
  have ok: "config_ok cfg"
    using LoadConfig_checked [OF assms(1)] by (rule conjunct1)
  obtain sm where sm: "NewSessionManager cfg (su_session_ping su) = Inr sm"
    using NewSessionManager_ok [OF ok assms(2)] by blast
  obtain cache err where cache: "NewCacheProvider cfg (su_cache_ping su) = Inr (cache, err)"
    using NewCacheProvider_ok [OF ok] by blast
  show ?thesis
  proof (cases "data_basic_auth (cfg_data cfg)")
    case None
    then show ?thesis
      by (simp add: New_def try_db_def lift_result_def sm assms(3) setupDataService_def)
  next
    case (Some ba)
    then have data: "setupDataService cfg su = Inr cache"
      by (simp add: setupDataService_def assms(4) cache)
    have "setup_election cfg su = Inl nil_dereference \<or> (\<exists>el. setup_election cfg su = Inr el) \<and> cfg_storage cfg = None"
      using assms(5) Some by (auto simp: setup_election_def split: option.split)
    then show ?thesis
      by (auto simp: New_def try_db_def lift_result_def sm assms(3) data setup_storage_def fail_def)
  qed
qed

text \<open>
  How often the queries run. In a configuration that loads the interval of the fetch job is the least
  \<open>ttl\<close> of the enabled queries, at least 30 seconds, whatever fallback is configured; only without any
  enabled query is it the fallback, raised to 30 seconds.
\<close>

theorem fetch_interval_is_least_ttl:
  assumes "LoadConfig ld path = Inr cfg" and "ts = pq_ttl ` {q \<in> set (data_queries (cfg_data cfg)). \<not> pq_disabled q}"
  shows "calculateFetchInterval cfg fallback = (if ts = {} then max (30 * second) fallback else Min ts) \<and>
    30 * second \<le> calculateFetchInterval cfg fallback"
proof -
  have "config_ok cfg"
    using LoadConfig_checked [OF assms(1)] by (rule conjunct1)
  then have ttl: "\<forall>q \<in> set (data_queries (cfg_data cfg)). \<not> pq_disabled q \<longrightarrow> 30 * second \<le> pq_ttl q"
    by (auto simp: config_ok_def data_ok_def query_ok_def)
  then have "\<forall>q \<in> set (data_queries (cfg_data cfg)). \<not> pq_disabled q \<longrightarrow> 0 < pq_ttl q"
    by force
  then have m: "minTTL (data_queries (cfg_data cfg)) None = (if ts = {} then None else Some (Min ts))"
    by (simp add: minTTL_Min Let_def assms(2))
  have "30 * second \<le> Min ts" if "ts \<noteq> {}"
    using that ttl by (subst Min_ge_iff) (auto simp: assms(2))
  with m show ?thesis
    by (cases "ts = {}") (auto simp: calculateFetchInterval_def Let_def)
qed

text \<open>
  C32: The jobs of a server that has started. Their names are distinct, so none replaces another in the job
  manager. The data job runs at intervals of at least 30 seconds, the router is synchronised at intervals of at
  least 30 seconds and expired addresses are swept at intervals of at least a minute. Only a job of the
  certificates can have an interval it cannot run with, a negative one, which the validation lets through; such
  a job ends at once with its error and has done nothing.
\<close>

theorem started_jobs_can_run:
  assumes "LoadConfig ld path = Inr cfg" and "New cfg su w = (Inr sv, w')"
  shows "distinct (map kind_name (sr_jobs sv)) \<and>
    (\<forall>k \<in> set (sr_jobs sv). case k of
        DataFetch i \<Rightarrow> 30 * second \<le> i
      | FirewallSync i \<Rightarrow> 30 * second \<le> i
      | FirewallExpiration i \<Rightarrow> minute \<le> i
      | CertificateCreation i \<Rightarrow> 0 < i \<or> Run (certificate_creation_job p sha i) ticks v = (Some (non_positive_ticker i), v)
      | CertificateIssued i \<Rightarrow> 0 < i \<or> Run (certificate_issued_status_job q cl i) ticks2 u = (Some (non_positive_ticker i), u))"
proof -
  have ok: "config_ok cfg"
    using LoadConfig_checked [OF assms(1)] by (rule conjunct1)
  obtain jobs where jobs: "registered_jobs cfg = Inr jobs" "sr_jobs sv = jobs"
    using New_InrE [OF assms(2)] by metis
  have data: "30 * second \<le> calculateFetchInterval cfg d" for d
    by (auto simp: calculateFetchInterval_def Let_def)
  have run: "0 < i \<or> Run (certificate_creation_job p sha i) ticks v = (Some (non_positive_ticker i), v)"
    "0 < i \<or> Run (certificate_issued_status_job q cl i) ticks2 u = (Some (non_positive_ticker i), u)" for i
    by (auto simp: Run_def certificate_creation_job_def certificate_issued_status_job_def)
  show ?thesis
    using jobs(1) ok data run unfolding jobs(2)
    by (auto simp: registered_jobs_def config_ok_def firewall_ok_def split: option.splits if_splits)
qed

text \<open>
  A Redis cache that does not answer does not stop the server from starting, since the error of
  \<open>NewCacheProvider\<close> is only logged. The server then holds a nil cache, and the first pass of its data job
  dereferences it, which ends the program.
\<close>

theorem redis_down_starts_and_panics:
  assumes "New cfg su w = (Inr sv, w')" and "cfg_cache_type cfg = ''redis''" and "su_cache_ping su = Inl e"
  shows "\<exists>i. DataFetch i \<in> set (sr_jobs sv) \<and>
    Run (data_fetch_job s (cache_ref_of mem red (sr_cache sv)) i) ticks v = (Some nil_dereference, v)"
proof -
  obtain cache jobs where c: "setupDataService cfg su = Inr cache" "sr_cache sv = cache" "registered_jobs cfg = Inr jobs" "sr_jobs sv = jobs"
    using New_InrE [OF assms(1)] by metis
  let ?i = "calculateFetchInterval cfg (data_fallback_interval (cfg_data cfg))"
  have "cache = NilRedisCache"
    using c(1) assms(2,3) by (auto simp: setupDataService_def NewCacheProvider_def split: option.splits sum.splits)
  moreover have "DataFetch ?i \<in> set jobs"
    using c(3) by (auto simp: registered_jobs_def split: option.splits if_splits)
  moreover have "0 < ?i"
    by (auto simp: calculateFetchInterval_def Let_def)
  ultimately show ?thesis
    by (intro exI [of _ ?i]) (simp add: c(2,4) Run_def data_fetch_job_def logged_result_def ExecuteQueries_def cache_ref_of_def nil_dereference_def)
qed

section \<open>Witnesses\<close>

text \<open>
  A file with two queries, of which one leaves its \<open>ttl\<close> to the default, a Redis cache and no storage, and
  what the validation makes of it. The credentials of the API are optional.
\<close>

definition disk_config :: prometheus_query where
  "disk_config = disk_query\<lparr>pq_ttl := 0\<rparr>"

definition start_redis :: redis_config where
  "start_redis = zero_redis\<lparr>red_address := ''r:1'', red_cache_index := 1, red_leader_index := 2\<rparr>"

definition start_config :: "basic_auth option \<Rightarrow> config" where
  "start_config ba = file_config
     \<lparr>cfg_data := \<lparr>data_prometheus_url = ''http://mimir'', data_basic_auth = ba, data_queries = [cpu_query\<lparr>pq_ttl := minute\<rparr>, disk_config],
        data_fallback_interval = 0\<rparr>,
      cfg_cache_type := ''redis'', cfg_redis := Some start_redis, cfg_storage := Some zero_storage, cfg_features := None\<rparr>"

definition start_loader :: "basic_auth option \<Rightarrow> loader" where
  "start_loader ba = file_loader\<lparr>ld_Unmarshal := (\<lambda>s. Inr (start_config ba))\<rparr>"

definition start_auth :: basic_auth where
  "start_auth = \<lparr>ba_username = ''conduit'', ba_password = ''p''\<rparr>"

definition started_config :: "basic_auth option \<Rightarrow> config" where
  "started_config ba = projr (LoadConfig (start_loader ba) ''conduit.yaml'')"

lemma start_loads:
  assumes "check_basic_auth ba = Inr ()"
  shows "LoadConfig (start_loader ba) ''conduit.yaml'' = Inr (started_config ba) \<and>
    cfg_data (started_config ba) = (cfg_data (start_config ba))\<lparr>data_queries := [cpu_query\<lparr>pq_ttl := minute\<rparr>, disk_query]\<rparr> \<and>
    cfg_cache_type (started_config ba) = ''redis'' \<and> cfg_storage (started_config ba) = Some zero_storage \<and>
    cfg_features (started_config ba) = Some DefaultFeaturesConfig \<and> cfg_distributed (started_config ba) = None \<and>
    cfg_redis (started_config ba) = Some start_redis \<and>
    ses_store (cfg_sessions (started_config ba)) = ''memory''"
proof -
  have l: "ld_ReadFile (start_loader ba) s = Inr s" "ld_Unmarshal (start_loader ba) s = Inr (start_config ba)"
    "ld_url_scheme (start_loader ba) s = Inr ''https''" for s
    by (simp_all add: start_loader_def file_loader_def)
  have env: "applyEnvironmentOverrides (ld_Getenv (start_loader ba)) (start_config ba) =
      (start_config ba)\<lparr>cfg_oidc := (cfg_oidc (start_config ba))\<lparr>oidc_client_secret := ''s''\<rparr>\<rparr>"
    by (simp add: applyEnvironmentOverrides_def env_overrides_def override_def start_loader_def file_loader_def upd_oidc_def)
  have groups: "check_groups DefaultAuthorizationConfig = Inr ()"
    by (simp add: DefaultAuthorizationConfig_def GetAllValidScopes_def)
  have qs: "validate_queries 0 [cpu_query\<lparr>pq_ttl := minute\<rparr>, disk_config] = Inr [cpu_query\<lparr>pq_ttl := minute\<rparr>, disk_query]"
    by (simp add: validate_query_def cpu_query_def disk_config_def disk_query_def andThen_def)
  have port: "SplitHostPort ''r:1'' = Inr (''r'', ''1'')"
    by (simp add: SplitHostPort_def last_colon_def)
  have redis: "validateRedisConfig c = Inr c" if "cfg_redis c = Some start_redis" for c
    using that port by (simp add: validateRedisConfig_def start_redis_def zero_redis_def default_indices_def check_indices_def andThen_def)
  let ?c = "(start_config ba)\<lparr>cfg_oidc := (cfg_oidc (start_config ba))\<lparr>oidc_client_secret := ''s''\<rparr>\<rparr>"
  have "\<exists>c. validateConfig (start_loader ba) ?c = Inr c \<and>
      cfg_data c = (cfg_data (start_config ba))\<lparr>data_queries := [cpu_query\<lparr>pq_ttl := minute\<rparr>, disk_query]\<rparr> \<and>
      cfg_cache_type c = ''redis'' \<and> cfg_storage c = Some zero_storage \<and>
      cfg_features c = Some DefaultFeaturesConfig \<and> cfg_distributed c = None \<and>
      cfg_redis c = Some start_redis \<and> ses_store (cfg_sessions c) = ''memory''"
    using assms qs
    by (simp add: validateConfig_def validateServerConfig_def start_config_def file_config_def DefaultServerConfig_def validateOIDCConfig_def
        validateURL_def l redis validateLogConfig_def DefaultLogConfig_def rune_of_level_def validateCORSConfig_def validateSessionConfig_def
        default_session_def DefaultSessionConfig_def validateDataConfig_def fallback_interval_def validateCacheConfig_def uses_redis_def
        validateDistributedConfig_def validateStorageConfig_def zero_storage_def validateAuthorizationConfig_def groups
        ValidateFeaturesConfig_def DefaultFeaturesConfig_def DefaultMTLSIssuerConfig_def or_zero_def Let_def)
  then show ?thesis
    by (auto simp: started_config_def LoadConfig_def l env)
qed

text \<open>Every service answers but the Redis of the cache; nothing is enabled but the data.\<close>

definition start_up :: "unit startup" where
  "start_up =
     \<lparr>su_session_ping = Inr (), su_oidc = Inr (), su_api = (\<lambda>s. Inr ()), su_cache_ping = Inl (Errorf ''connection refused''),
      su_hostname = ''conduit-0'', su_uuid = ''u'', su_connect = (\<lambda>s. Inr ()), su_ping = Inr (),
      su_migrations = \<lparr>mf_ReadDir = Inr [], mf_ReadFile = Inr, mf_Exec = (\<lambda>c s. Inr ())\<rparr>, su_rest_config = (\<lambda>s. Inr ()), su_home = [],
      su_clientset = Inr (), su_certmanager = Inr (), su_namespaces = Inr (), su_crypto = toy_crypto, su_sha256 = (\<lambda>s. s)\<rparr>"

definition start_world :: "unit setup_world" where
  "start_world = \<lparr>db = empty_database, now = 5, faults = [], ca_cached = None, sw_versions = [], sw_schema = ()\<rparr>"

lemma auth_ok: "check_basic_auth None = Inr ()" "check_basic_auth (Some start_auth) = Inr ()"
  by (simp_all add: check_basic_auth_def start_auth_def)

lemma started_interval: "calculateFetchInterval (started_config (Some start_auth)) d = 30 * second"
  by (simp add: calculateFetchInterval_def start_loads [OF auth_ok(2)] cpu_query_def disk_query_def)

lemma start_succeeds:
  "\<exists>sv w'. New (started_config (Some start_auth)) start_up start_world = (Inr sv, w') \<and> sr_jobs sv = [DataFetch (30 * second)]"
  by (simp add: New_def try_db_def lift_result_def ok_def NewSessionManager_def setupDataService_def NewCacheProvider_def setup_election_def
      setup_storage_def setup_certificates_def registered_jobs_def started_interval start_loads [OF auth_ok(2)] start_up_def
      start_config_def zero_storage_def DefaultFeaturesConfig_def DefaultMTLSIssuerConfig_def Let_def)

theorem missing_section_panics_witness:
  "New (started_config None) start_up start_world = (Inl nil_dereference, start_world)"
proof (rule missing_section_panics)
  show "LoadConfig (start_loader None) ''conduit.yaml'' = Inr (started_config None)"
    using start_loads [OF auth_ok(1)] by blast
qed (use start_loads [OF auth_ok(1)] in \<open>simp_all add: start_up_def start_config_def\<close>)

theorem fetch_interval_is_least_ttl_witness:
  "calculateFetchInterval (started_config (Some start_auth)) (5 * minute) = Min {minute, 30 * second}"
proof -
  have load: "LoadConfig (start_loader (Some start_auth)) ''conduit.yaml'' = Inr (started_config (Some start_auth))"
    using start_loads [OF auth_ok(2)] by blast
  have ts: "{minute, 30 * second} = pq_ttl ` {q \<in> set (data_queries (cfg_data (started_config (Some start_auth)))). \<not> pq_disabled q}"
  proof -
    have qs: "data_queries (cfg_data (started_config (Some start_auth))) = [cpu_query\<lparr>pq_ttl := minute\<rparr>, disk_query]"
      using start_loads [OF auth_ok(2)] by simp
    have "{q \<in> set [cpu_query\<lparr>pq_ttl := minute\<rparr>, disk_query]. \<not> pq_disabled q} = {cpu_query\<lparr>pq_ttl := minute\<rparr>, disk_query}"
      by (auto simp: cpu_query_def disk_query_def)
    then show ?thesis
      by (simp only: qs) (simp add: disk_query_def)
  qed
  show ?thesis
    using fetch_interval_is_least_ttl [OF load ts, of "5 * minute"] by (simp only: insert_not_empty if_False)
qed

theorem started_jobs_can_run_witness:
  "\<exists>sv w'. New (started_config (Some start_auth)) start_up start_world = (Inr sv, w') \<and> sr_jobs sv = [DataFetch (30 * second)] \<and>
     distinct (map kind_name (sr_jobs sv))"
proof -
  have load: "LoadConfig (start_loader (Some start_auth)) ''conduit.yaml'' = Inr (started_config (Some start_auth))"
    using start_loads [OF auth_ok(2)] by blast
  obtain sv w' where sv: "New (started_config (Some start_auth)) start_up start_world = (Inr sv, w')" "sr_jobs sv = [DataFetch (30 * second)]"
    using start_succeeds by blast
  have "distinct (map kind_name (sr_jobs sv))"
    using started_jobs_can_run [OF load sv(1), where p = "db_provider toy_provider" and q = "db_provider toy_provider" and
        v = approved_ca_world and u = approved_ca_world] by (rule conjunct1)
  with sv show ?thesis by blast
qed

theorem redis_down_starts_and_panics_witness:
  "\<exists>sv w' i. New (started_config (Some start_auth)) start_up start_world = (Inr sv, w') \<and> DataFetch i \<in> set (sr_jobs sv) \<and>
     Run (data_fetch_job dash_service (cache_ref_of mem_provider mem_provider (sr_cache sv)) i) [] (dash_ctx empty_session) =
       (Some nil_dereference, dash_ctx empty_session)"
proof -
  obtain sv w' where sv: "New (started_config (Some start_auth)) start_up start_world = (Inr sv, w')"
    using start_succeeds by blast
  have "cfg_cache_type (started_config (Some start_auth)) = ''redis''" "su_cache_ping start_up = Inl (Errorf ''connection refused'')"
    using start_loads [OF auth_ok(2)] by (simp_all add: start_up_def)
  from redis_down_starts_and_panics [OF sv this, of dash_service mem_provider mem_provider "[]" "dash_ctx empty_session"] sv
  show ?thesis by blast
qed

end
