(* ===== verification/Whole_System.thy ===== *)
theory Whole_System
  imports Table_Safety Server_Setup
begin

text \<open>
  The server as a whole: what its tables satisfy at every moment, whatever starts, requests and jobs have run.
  The requests are those of the theory of the routes; here are the jobs, the start, and all of them together.
\<close>

section \<open>The jobs\<close>

lemma keeps_same: "(\<And>w. db (snd (m w)) = db w) \<Longrightarrow> keeps I m"
  by (simp add: keeps_def)

lemma keeps_same_snd: "keeps I m \<Longrightarrow> (\<And>w. snd (m' w) = snd (m w)) \<Longrightarrow> keeps I m'"
  by (simp add: keeps_def)

lemma fold_safe:
  assumes "\<And>x w. program_inv (db w) \<Longrightarrow> program_inv (db (f x w))" and "program_inv (db w)"
  shows "program_inv (db (fold f xs w))"
  using assms(2) by (induction xs arbitrary: w) (simp_all add: assms(1))

text \<open>What the certificate jobs need of a provider: that it keeps the tables in order too.\<close>

locale safe_issuing =
  fixes p :: "'w cert_provider"
  assumes create_safe: "keeps program_inv (pv_create p request)"
    and data_safe: "keeps program_inv (pv_data p ident)"
    and pv_ready_safe: "keeps program_inv (pv_ready p ident)"
begin

lemma create_or_reuse_safe: "keeps program_inv (create_or_reuse p sha256 iss sub cert)"
  unfolding keeps_def
proof (intro allI impI)
  fix w :: "'w world_scheme" assume I: "program_inv (db w)"
  let ?n = "GenerateCertificateName sha256 (req_owner_sub cert) (req_owner_iss cert) (req_requested_at cert)"
  obtain r w1 where data: "pv_data p ?n w = (r, w1)" by (cases "pv_data p ?n w")
  obtain r2 w2 where create: "pv_create p cert w1 = (r2, w2)" by (cases "pv_create p cert w1")
  have s1: "program_inv (db w1)" using data_safe I data by (rule keepsD)
  have s2: "program_inv (db w2)" using create_safe s1 create by (rule keepsD)
  then have s3: "program_inv (db (snd (UpdateCertificateRequestStatus (req_id cert) st iss sub msg w2)))" for st msg
    by (rule keeps_snd [OF keeps_requests(2)])
  show "program_inv (db (snd (create_or_reuse p sha256 iss sub cert w)))"
    using data create s1 s2 s3 by (auto simp: create_or_reuse_def Let_def split: sum.split)
qed

lemma handle_approved_safe: "program_inv (db w) \<Longrightarrow> program_inv (db (handle_approved p sha256 cert w))"
  unfolding handle_approved_def
  by (rule keeps_snd [where I = program_inv], intro keeps_try keeps_GetSystemUser)
    (auto intro!: keeps_try keeps_requests create_or_reuse_safe)

lemma handle_issued_safe:
  assumes "program_inv (db w)"
  shows "program_inv (db (handle_issued p cl iss sub cert w))"
proof (cases "req_identifier cert")
  case (Some ident)
  have "keeps program_inv (try_db (pv_ready p ident) id
      (\<lambda>ready. if \<not> ready then ok ()
         else try_db (pv_data p ident) id
           (\<lambda>(certPEM, _, _). try_db (lift_result (ParseCertificateDetails cl certPEM)) id
              (\<lambda>details. UpdateCertificateRequestIssued (req_id cert) certPEM (icd_serial_number details)
                 (icd_not_before details) (icd_not_after details) iss sub))))"
    by (auto intro!: keeps_try keeps_ok keeps_lift keeps_requests pv_ready_safe data_safe)
  then show ?thesis using Some assms unfolding handle_issued_def by (simp add: keeps_snd)
qed (simp add: handle_issued_def assms)

lemma creation_pass_safe:
  assumes "program_inv (db w)"
  shows "program_inv (db (creation_pass p sha256 w))"
proof -
  obtain r w1 where run: "GetApprovedCertificateRequests w = (r, w1)" by (cases "GetApprovedCertificateRequests w")
  have "program_inv (db w1)"
    using run assms unfolding GetApprovedCertificateRequests_def
    by (auto simp: try_db_def db_query_eq ok_def split: option.splits)
  with run show ?thesis
    by (auto simp: creation_pass_def handleApprovedCertificates_def split: sum.split intro!: fold_safe handle_approved_safe)
qed

lemma status_pass_safe:
  assumes "program_inv (db w)"
  shows "program_inv (db (status_pass p cl w))"
proof -
  obtain r w1 where run: "GetPendingCertificateRequests w = (r, w1)" by (cases "GetPendingCertificateRequests w")
  have s1: "program_inv (db w1)"
    using run assms unfolding GetPendingCertificateRequests_def
    by (auto simp: try_db_def db_query_eq ok_def split: option.splits)
  obtain r2 w2 where sys: "GetSystemUser w1 = (r2, w2)" by (cases "GetSystemUser w1")
  have "program_inv (db w2)" using keeps_GetSystemUser s1 sys by (rule keepsD)
  with sys have "program_inv (db (snd (handleIssuedCertificates p cl certs w1)))" for certs
    by (cases r2) (auto simp: handleIssuedCertificates_def try_db_def intro!: fold_safe handle_issued_safe)
  with run s1 show ?thesis by (auto simp: status_pass_def split: sum.split)
qed

end

lemma keeps_getCA: "keeps program_inv (getCA d)"
proof (rule keeps_same)
  fix w :: "'w ca_world_scheme"
  obtain r w1 where run: "GetCertificateAuthority (dp_store d) w = (r, w1)" by (cases "GetCertificateAuthority (dp_store d) w")
  then have "db w1 = db w"
    by (auto simp: GetCertificateAuthority_def try_db_def db_query_row_eq lift_result_def split: option.splits if_splits)
  with run show "db (snd (getCA d w)) = db w"
    by (cases r) (auto simp: getCA_def try_db_def split: option.split)
qed

interpretation db_issuing: safe_issuing "db_provider d" for d
proof unfold_locales
  fix request :: certificate_request and ident :: string
  have sign: "keeps program_inv (sign_and_store d request ca t)" for ca t
    unfolding sign_and_store_def Let_def by (intro keeps_try keeps_lift keeps_ok keeps_issuing)
  have "keeps program_inv (\<lambda>w. sign_and_store d request ca (now w) w)" for ca
    using sign unfolding keeps_def by blast
  then show "keeps program_inv (pv_create (db_provider d) request)"
    unfolding db_provider_def cert_provider.simps db_CreateCertificateFromRequest_def by (intro keeps_try keeps_getCA)
  show "keeps program_inv (pv_data (db_provider d) ident)"
    by (simp add: db_provider_def keeps_issuing)
  show "keeps program_inv (pv_ready (db_provider d) ident)"
    by (rule keeps_same_snd [OF keeps_issuing(2) [of "dp_store d" ident]])
      (auto simp: db_provider_def db_IsCertificateReady_def split: prod.split sum.split)
qed

lemma k8s_call_safe: "keeps program_inv (k8s_call f h)"
  by (rule keeps_same) (auto simp: k8s_call_def split: prod.split)

interpretation k8s_issuing: safe_issuing "kubernetes_provider k" for k
proof unfold_locales
  fix request :: certificate_request and ident :: string
  show "keeps program_inv (pv_create (kubernetes_provider k) request)"
    by (auto simp: kubernetes_provider_def k8s_CreateCertificateFromRequest_def Let_def intro!: keeps_try k8s_call_safe keeps_ok)
  show "keeps program_inv (pv_data (kubernetes_provider k) ident)"
    by (auto simp: kubernetes_provider_def k8s_GetCertificateData_def GetCertificate_def getCertificateSecret_def
        intro!: keeps_try keeps_fail keeps_ok k8s_call_safe)
  show "keeps program_inv (pv_ready (kubernetes_provider k) ident)"
    by (auto simp: kubernetes_provider_def k8s_IsCertificateReady_def GetCertificate_def intro!: keeps_try k8s_call_safe keeps_ok)
qed

text \<open>The firewall jobs.\<close>

lemma keeps_expiration: "keeps program_inv (expireOldIPs pg)"
  unfolding expireOldIPs_def
  by (intro keeps_try keeps_GetSystemUser) (auto intro!: keeps_try keeps_addresses keeps_ok)

lemma mark_pending_safe: "program_inv (db w) \<Longrightarrow> program_inv (db (mark_pending pg iss sub entries ip w))"
  by (simp add: mark_pending_def Let_def keeps_snd [OF keeps_addresses(4)])

lemma sync_failed_safe: "program_inv (db w) \<Longrightarrow> program_inv (db (sync_failed pg iss sub msg e w))"
  by (simp add: sync_failed_def keeps_snd [OF keeps_addresses(6)])

lemma update_safe:
  fixes w :: "('s, 'w) router_world_scheme"
  assumes "program_inv (db w)" and "\<And>e x (v :: ('s, 'w) router_world_scheme). program_inv (db v) \<Longrightarrow> program_inv (db (f e x v))"
  shows "program_inv (db (snd (if b then (Inr (), w) else (case UpdateAlias c uuid adds removes w of
     (Inl e, w2) \<Rightarrow> (Inl (g e), fold (f e) xs w2) | (Inr _, w2) \<Rightarrow> (Inr (), w2)))))"
proof -
  obtain r w2 where run: "UpdateAlias c uuid adds removes w = (r, w2)" by fastforce
  have "program_inv (db w2)" using keeps_UpdateAlias(2) assms(1) run by (rule keepsD)
  moreover from this have "program_inv (db (fold (f e) xs w2))" for e
    by (intro fold_safe assms(2))
  ultimately show ?thesis using assms(1) run by (cases r) simp_all
qed

lemma keeps_sync_entries:
  fixes c :: "'s router_client"
  shows "keeps program_inv (sync_entries pg c uuid iss sub current entries :: (('s, 'w) router_world_ext, unit) dbop)"
  unfolding keeps_def sync_entries_def Let_def
  by (intro allI impI update_safe fold_safe mark_pending_safe sync_failed_safe)

lemma keeps_syncAlias: "keeps program_inv (syncAlias pg c a iss sub)"
  unfolding syncAlias_def by (intro keeps_try keeps_UpdateAlias keeps_reading keeps_sync_entries)

lemma keeps_sync_each:
  fixes c :: "'s router_client"
  shows "keeps program_inv (sync_each pg c iss sub as :: (('s, 'w) router_world_ext, unit) dbop)"
  unfolding keeps_def
proof (intro allI impI)
  fix w :: "('s, 'w) router_world_scheme" assume "program_inv (db w)"
  then show "program_inv (db (snd (sync_each pg c iss sub as w)))"
  proof (induction as arbitrary: w)
    case (Cons a as)
    obtain r w1 where run: "syncAlias pg c a iss sub w = (r, w1)" by fastforce
    have "program_inv (db w1)" using keeps_syncAlias Cons.prems run by (rule keepsD)
    with run Cons.IH show ?case by (cases r) simp_all
  qed simp
qed

lemma keeps_sync: "keeps program_inv (syncAllAliases pg c cfg)"
  unfolding syncAllAliases_def
  by (intro keeps_try keeps_GetSystemUser) (auto split: option.split intro: keeps_fail keeps_sync_each)

section \<open>The start\<close>

lemma touches_validation: "touches Elsewhere (ValidateEncryptionKey ks)"
  unfolding touches_def
proof
  fix w :: "'w world_scheme"
  have get: "touches Elsewhere GetEncryptionValidation"
    unfolding GetEncryptionValidation_def by (intro touches_intros)
  have set: "touches Elsewhere (SetEncryptionValidation x)" for x
    unfolding SetEncryptionValidation_def by (intro touches_intros touches_roundtrip) (simp add: outside_def request_view_def)
  have store: "touches Elsewhere (store_validation ks)"
    unfolding store_validation_def try_result_def by (intro touches_intros get set)
  have check: "touches Elsewhere (check_validation ks x)" for x
    unfolding check_validation_def by (auto split: sum.split intro: touches_intros)
  obtain r w1 where run: "GetEncryptionValidation w = (r, w1)" by fastforce
  have "outside Elsewhere (db w) (db w1)" using get run by (rule touchesD)
  moreover have "outside Elsewhere (db w1) (db (snd (try_db (store_validation ks) id (check_validation ks) w1)))"
    by (rule touches_snd [OF touches_try [OF store check]])
  moreover have "outside Elsewhere (db w1) (db (snd (check_validation ks x w1)))" for x
    by (rule touches_snd [OF check])
  ultimately show "outside Elsewhere (db w) (db (snd (ValidateEncryptionKey ks w)))"
    using run by (auto simp: ValidateEncryptionKey_def split: sum.split intro: outside_trans)
qed

lemma touches_authority: "touches Elsewhere (InsertCertificateAuthority ks ca alg)"
  unfolding InsertCertificateAuthority_def try_result_def Let_def
  by (intro touches_intros touches_roundtrip) (simp add: sql_insert_ca_def outside_def request_view_def)

lemma keeps_elsewhere: "touches Elsewhere m \<Longrightarrow> keeps program_inv m"
  by (rule keeps_program [where c = Elsewhere]) (simp_all add: keeps_def)

lemma keeps_load_or_create: "keeps program_inv (load_or_create_ca d)"
  unfolding keeps_def
proof (intro allI impI)
  fix w :: "'w ca_world_scheme" assume I: "program_inv (db w)"
  have create: "keeps program_inv (create_ca d :: ('w ca_world_ext, unit) dbop)"
  proof -
    have "keeps program_inv (\<lambda>w. (Inr (), w\<lparr>ca_cached := Some ca\<rparr>) :: unit result \<times> 'w ca_world_scheme)" for ca
      by (rule keeps_same) simp
    then have "keeps program_inv (try_db (lift_result x) f
       (\<lambda>ca. try_db (InsertCertificateAuthority (dp_store d) ca (dp_algorithm d)) g
          (\<lambda>_ w1. (Inr (), w1\<lparr>ca_cached := Some ca\<rparr>))) :: ('w ca_world_ext, unit) dbop)" for x f g
      by (intro keeps_try keeps_lift keeps_elsewhere [OF touches_authority])
    then show ?thesis unfolding create_ca_def keeps_def by blast
  qed
  obtain r w1 where run: "GetCertificateAuthority (dp_store d) w = (r, w1)" by (cases "GetCertificateAuthority (dp_store d) w")
  have s1: "program_inv (db w1)" using keeps_issuing(3) I run by (rule keepsD)
  then have "program_inv (db (snd (create_ca d w1)))" by (rule keeps_snd [OF create])
  with run s1 show "program_inv (db (snd (load_or_create_ca d w)))"
    by (auto simp: load_or_create_ca_def split: sum.split prod.split)
qed

lemma keeps_startup_check: "keeps program_inv (StartupCheck d)"
  unfolding StartupCheck_def by (intro keeps_try keeps_elsewhere [OF touches_validation] keeps_load_or_create)

text \<open>The migrations work on the schema, not on the rows.\<close>

lemma statement_db: "statement w = (r, w1) \<Longrightarrow> db w1 = db w"
  by (auto simp: statement_def db_query_eq split: option.splits)

lemma migration_tx_db: "db (snd (migration_tx f n content w)) = db w"
proof -
  obtain a1 w1 where s1: "statement w = (a1, w1)" by fastforce
  obtain a2 w2 where s2: "statement w1 = (a2, w2)" by fastforce
  obtain a3 w3 where s3: "statement w2 = (a3, w3)" by fastforce
  obtain a4 w4 where s4: "statement w3 = (a4, w4)" by fastforce
  show ?thesis
    using statement_db [OF s1] statement_db [OF s2] statement_db [OF s3] statement_db [OF s4]
    by (auto simp: migration_tx_def try_db_def s1 s2 s3 s4 lift_result_def split: sum.splits if_splits)
qed

lemma run_migration_db: "db (snd (run_migration f n w)) = db w"
proof -
  obtain a w1 where s: "statement w = (a, w1)" by fastforce
  then show ?thesis
    using statement_db [OF s] by (auto simp: run_migration_def try_db_def lift_result_def migration_tx_db split: sum.splits)
qed

lemma keeps_migrations:
  fixes f :: "'s migration_files"
  shows "keeps program_inv (on_migrations (RunMigrations f) :: (('s, 'w) setup_world_ext ca_world_ext, unit) dbop)"
  unfolding keeps_def
proof (intro allI impI)
  fix w :: "('s, 'w) setup_world_scheme" assume I: "program_inv (db w)"
  have run: "keeps program_inv (RunMigrations f)"
    unfolding RunMigrations_def statement_def
    by (intro keeps_try keeps_query keeps_lift keeps_for_each keeps_same run_migration_db)
  define v where "v = \<lparr>db = db w, now = now w, faults = faults w, mw_versions = sw_versions w, mw_schema = sw_schema w\<rparr>"
  have "program_inv (db v)" using I by (simp add: v_def)
  then have "program_inv (db (snd (RunMigrations f v)))" by (rule keeps_snd [OF run])
  then show "program_inv (db (snd (on_migrations (RunMigrations f) w)))"
    unfolding on_migrations_def v_def [symmetric] by (simp add: case_prod_unfold)
qed

lemma keeps_New: "keeps program_inv (New cfg su)"
proof -
  have storage: "keeps program_inv (setup_storage cfg su)"
    unfolding setup_storage_def
    by (auto split: option.split intro!: keeps_fail keeps_ok keeps_if keeps_try keeps_lift keeps_migrations keeps_system_user)
  have certificates: "keeps program_inv (setup_certificates cfg su storage)" for storage
    unfolding setup_certificates_def Let_def
    by (auto split: option.split intro!: keeps_fail keeps_ok keeps_if keeps_try keeps_lift keeps_startup_check)
  show ?thesis
    unfolding New_def by (intro keeps_try keeps_lift keeps_ok storage certificates)
qed

section \<open>Every table the program can reach\<close>

text \<open>
  The database of an installation with the configuration \<open>cfg\<close>: empty at first, then changed by starts of the
  server, by requests to its routes and by passes of its jobs, in any order, each in a world of its own with
  its clock, its failures, its session, its caches and its router. A review and a request for an address are
  also taken in halves, as their checks may be out of date when they write. The parameters are what the
  starts, the requests and the jobs find outside.
\<close>

inductive system_reachable ::
  "config \<Rightarrow> 's startup set \<Rightarrow> ('c, 't) api_env set \<Rightarrow> 'k k8s_provider set \<Rightarrow> 'r router_client \<Rightarrow> database \<Rightarrow> bool"
  for cfg starts envs clusters rc where
  empty: "system_reachable cfg starts envs clusters rc empty_database"
| start: "system_reachable cfg starts envs clusters rc (db w) \<Longrightarrow> su \<in> starts \<Longrightarrow>
    New cfg su (w :: 's setup_world) = (a, w') \<Longrightarrow> system_reachable cfg starts envs clusters rc (db w')"
| request: "system_reachable cfg starts envs clusters rc (db w) \<Longrightarrow> setupRouter cfg = Inr rs \<Longrightarrow> rt \<in> set rs \<Longrightarrow> env \<in> envs \<Longrightarrow>
    serve cfg env rq rt (w :: 'c cachectx) = (b, w') \<Longrightarrow> system_reachable cfg starts envs clusters rc (db w')"
| review: "system_reachable cfg starts envs clusters rc (db v) \<Longrightarrow> review_check cfg i body p (v :: appctx) = (Inr rv, v') \<Longrightarrow>
    system_reachable cfg starts envs clusters rc (db w) \<Longrightarrow> review_commit rv (w :: appctx) = (c, w') \<Longrightarrow>
    system_reachable cfg starts envs clusters rc (db w')"
| address: "system_reachable cfg starts envs clusters rc (db v) \<Longrightarrow> add_check cfg pg fbody p (v :: appctx) = (Inr aq, v') \<Longrightarrow>
    system_reachable cfg starts envs clusters rc (db w) \<Longrightarrow> add_commit pg pe aq (w :: appctx) = (f, w') \<Longrightarrow>
    system_reachable cfg starts envs clusters rc (db w')"
| creation: "system_reachable cfg starts envs clusters rc (db w) \<Longrightarrow>
    job_pass (certificate_creation_job (db_provider d) sha256 interval) (w :: ca_world) = (e, w') \<Longrightarrow>
    system_reachable cfg starts envs clusters rc (db w')"
| creation_k8s: "system_reachable cfg starts envs clusters rc (db w) \<Longrightarrow> k \<in> clusters \<Longrightarrow>
    job_pass (certificate_creation_job (kubernetes_provider k) sha256 interval) (w :: 'k k8s_world) = (e, w') \<Longrightarrow>
    system_reachable cfg starts envs clusters rc (db w')"
| issuing: "system_reachable cfg starts envs clusters rc (db w) \<Longrightarrow>
    job_pass (certificate_issued_status_job (db_provider d) cl interval) (w :: ca_world) = (e, w') \<Longrightarrow>
    system_reachable cfg starts envs clusters rc (db w')"
| issuing_k8s: "system_reachable cfg starts envs clusters rc (db w) \<Longrightarrow> k \<in> clusters \<Longrightarrow>
    job_pass (certificate_issued_status_job (kubernetes_provider k) cl interval) (w :: 'k k8s_world) = (e, w') \<Longrightarrow>
    system_reachable cfg starts envs clusters rc (db w')"
| sync: "system_reachable cfg starts envs clusters rc (db w) \<Longrightarrow>
    job_pass (firewall_sync_job pg rc cfg interval) (w :: 'r router_world) = (e, w') \<Longrightarrow>
    system_reachable cfg starts envs clusters rc (db w')"
| expiration: "system_reachable cfg starts envs clusters rc (db w) \<Longrightarrow>
    job_pass (firewall_expiration_job pg interval) (w :: world) = (e, w') \<Longrightarrow>
    system_reachable cfg starts envs clusters rc (db w')"

lemma logged_db: "logged f w = (e, w') \<Longrightarrow> db w' = db (f w)"
  by (auto simp: logged_def)

lemma logged_result_safe: "keeps program_inv f \<Longrightarrow> program_inv (db w) \<Longrightarrow> logged_result f w = (e, w') \<Longrightarrow> program_inv (db w')"
  unfolding logged_result_def by (auto split: prod.splits sum.splits dest: keepsD)

lemma safe_run: "safe h \<Longrightarrow> program_inv (db w) \<Longrightarrow> h w = (r, w') \<Longrightarrow> program_inv (db w')"
  by (metis safeD snd_conv)

lemma system_reachable_inv: "system_reachable cfg starts envs clusters rc d \<Longrightarrow> program_inv d"
proof (induction rule: system_reachable.induct)
  case empty
  show ?case by (rule program_inv_empty)
next
  case (start w su a w')
  then show ?case using keeps_New by (blast dest: keepsD)
next
  case (request w rs rt env rq b w')
  then show ?case using safe_serve by (blast dest: safe_run)
next
  case (review v i body p rv v' w c w')
  then show ?case using safe_review_commit by (blast dest: safe_run)
next
  case (address v pg fbody p aq v' w pe f w')
  then show ?case using safe_add_commit by (blast dest: safe_run)
next
  case (creation w d sha256 interval e w')
  then show ?case
    by (simp add: certificate_creation_job_def logged_db db_issuing.creation_pass_safe)
next
  case (creation_k8s w k sha256 interval e w')
  then show ?case
    by (simp add: certificate_creation_job_def logged_db k8s_issuing.creation_pass_safe)
next
  case (issuing w d cl interval e w')
  then show ?case
    by (simp add: certificate_issued_status_job_def logged_db db_issuing.status_pass_safe)
next
  case (issuing_k8s w k cl interval e w')
  then show ?case
    by (simp add: certificate_issued_status_job_def logged_db k8s_issuing.status_pass_safe)
next
  case (sync w pg interval e w')
  then show ?case
    by (auto simp: firewall_sync_job_def intro: logged_result_safe [OF keeps_sync])
next
  case (expiration w pg interval e w')
  then show ?case
    by (auto simp: firewall_expiration_job_def intro: logged_result_safe [OF keeps_expiration])
qed


text \<open>Witness: the first start of an installation with storage, which creates the system user.\<close>

definition stored_config :: config where
  "stored_config = example_config\<lparr>cfg_data := (cfg_data example_config)\<lparr>data_basic_auth := Some start_auth\<rparr>\<rparr>"

lemma stored_migrations: "on_migrations (RunMigrations (su_migrations start_up)) start_world = (Inr (), start_world)"
  by (simp add: on_migrations_def RunMigrations_def statement_def try_db_def db_query_eq lift_result_def migration_names_def start_up_def
      start_world_def ok_def)

lemma stored_system_user: "\<exists>w'. EnsureSystemUser url start_world = (Inr (), w') \<and> length (t_users (db w')) = 1"
  by (simp add: EnsureSystemUser_def with_tx_def ensure_system_user_body_def create_system_user_def db_query_row_eq db_query_eq
      find_system_def find_user_def try_db_def roundtrip_def sql_insert_user_def ok_def start_world_def empty_database_def Let_def)

lemma stored_start:
  "\<exists>sv w'. New stored_config start_up start_world = (Inr sv, w') \<and> length (t_users (db w')) = 1"
proof -
  obtain w' where user: "EnsureSystemUser (srv_external_url (cfg_server stored_config)) start_world = (Inr (), w')" "length (t_users (db w')) = 1"
    using stored_system_user by blast
  have "NewStorageProvider st start_up = Inr []" if "cfg_storage stored_config = Some st" for st
    using that by (auto simp: NewStorageProvider_def start_up_def stored_config_def example_config_def)
  then have storage: "setup_storage stored_config start_up start_world = (Inr (Some []), w')"
    using user(1) by (auto simp: setup_storage_def try_db_def stored_migrations lift_result_def ok_def stored_config_def example_config_def)
  then show ?thesis
    using user(2)
    by (simp add: New_def try_db_def lift_result_def ok_def NewSessionManager_def setupDataService_def NewCacheProvider_def setup_election_def
        setup_certificates_def registered_jobs_def stored_config_def example_config_def start_up_def DefaultSessionConfig_def
        DefaultFeaturesConfig_def DefaultMTLSIssuerConfig_def Let_def)
qed


end
