(* ===== verification/Spec2Isabelle.thy ===== *)
theory Spec2Isabelle
  imports Whole_System
begin

text \<open>
  A verification library for the Conduit dashboard, the Go module \<open>homelab-dashboard\<close>. All paths below are
  relative to \<open>src/internal\<close>.

  \<^bold>\<open>The program.\<close> Conduit is a server for a homelab. Users log in through an OIDC provider and get a session;
  they can create service accounts, which call the same API with bearer tokens. Certificates for mutual TLS are
  requested, reviewed by an administrator, made by background jobs through one of two providers (Kubernetes or
  the database), and downloaded once as a PKCS 12 file behind a one-time token. Addresses are requested for
  the aliases of an OPNsense router, within limits, and a background job writes them to the router. A further job
  runs Prometheus queries and caches the answers for the dashboard. Several instances can run against one Redis;
  the leader they elect runs the jobs that must not run twice. The state is in PostgreSQL, in the session
  store and in the cache.

  \<^bold>\<open>How the model is built.\<close> The code is translated function by function, in the order of its files. A Go struct
  is a record, an enumeration a datatype, an error a value of \<open>goerror\<close>, a result with an error a sum, a nil
  dereference the error \<open>nil_dereference\<close>, which handlers turn into the answer \<open>Panicked\<close>. An operation on the
  storage is a state transformer of type \<open>dbop\<close> on a record \<open>world\<close>, which holds the tables, the clock and a
  schedule of round trips to the database that fail; every lemma about it covers every schedule. The SQL of each
  query is a function on the tables with the constraints of the migrations that can fail, and a transaction rolls
  the tables back. The worlds of the other parts extend this record: by the session (\<open>appctx\<close>), the cache
  (\<open>cachectx\<close>), the Prometheus API (\<open>datactx\<close>), the loaded authority (\<open>ca_world\<close>), the cluster (\<open>k8s_world\<close>)
  and the router (\<open>router_world\<close>). A handler maps the principal in its context and a world to an answer and a
  world. Concurrency is interleaving: the handlers whose checks and writes are separate calls are split there
  (\<open>add_check\<close> and \<open>add_commit\<close>, \<open>review_check\<close> and \<open>review_commit\<close>), timers, instances and events of the job
  manager are step relations or lists of events, what happens between two passes of a job is an argument, and
  \<open>system_reachable\<close> takes starts, requests and passes in any order.

  \<^bold>\<open>The theories.\<close>

  \<^item> \<open>Prelude\<close>: time, errors, the functions of Go's \<open>strings\<close>, \<open>strconv\<close> and \<open>errors\<close> that are used.
    \<open>Net_Addr\<close>: those of \<open>net\<close>, with the round trips of addresses. \<open>Durations\<close>: those of \<open>time\<close>, and
    \<open>utils/time.go\<close> on top; a duration text is read as the sum of its parts.
  \<^item> \<open>Config_Schema\<close>, \<open>Config_Load\<close>: \<open>config/schema.go\<close> and \<open>config/config.go\<close>; the overrides of the
    environment, the defaults and all validations. A configuration that loads is well formed (\<open>config_ok\<close>).
  \<^item> \<open>Principals\<close>: \<open>models/user.go\<close> and \<open>service_account.go\<close>, the interface \<open>Principal\<close> as the locale
    \<open>principal_contract\<close>, scopes and groups.
  \<^item> \<open>Database\<close>: the tables, the combinators for queries and transactions, and which operations keep which
    tables. \<open>Migrations\<close>: \<open>RunMigrations\<close> of \<open>storage/database.go\<close>.
  \<^item> \<open>User_Store\<close>, \<open>Cert_Store\<close>, \<open>Whitelist_Store\<close>, \<open>Service_Account_Store\<close>, \<open>Audit_Store\<close>,
    \<open>Issued_Store\<close>: the query files of \<open>storage\<close>, each with the functional behaviour of its operations on
    success and failure and, where there is one, an invariant of all reachable tables (\<open>user_inv\<close>, \<open>cert_inv\<close>,
    \<open>wl_inv\<close>, \<open>sa_inv\<close>, \<open>issued_inv\<close>). The locales \<open>whitelist_stable\<close> and \<open>sa_stable\<close> are the contract of a
    predicate on the tables that every operation keeps; the invariants and the facts about blacklisted addresses and
    deleted accounts are interpretations.
  \<^item> \<open>Frames\<close>: what a storage operation leaves alone in a handler's world.
  \<^item> \<open>Sessions\<close>, \<open>Auth_Middleware\<close>, \<open>Oidc_Login\<close>: \<open>middlewares\<close> and \<open>authentication\<close>; the session and its
    one-time values (locale \<open>session_slot\<close>), the middlewares against the specification \<open>caller_of\<close>, the login.
    \<open>Service_Tokens\<close>: tokens and their verification. \<open>Client_IP\<close>: the client address behind proxies.
  \<^item> \<open>Cert_Handlers\<close>, \<open>SA_Handlers\<close>, \<open>Firewall_Handlers\<close>, \<open>Cert_Download\<close>: the files of \<open>handlers\<close>, with who may
    do what, on every branch.
  \<^item> \<open>Cache\<close>: \<open>data/mem_cache_provider.go\<close> and \<open>redis_cache_provider.go\<close> behind one interface; the locale
    \<open>one_time_keys\<close> is the contract of a token that works once. \<open>Data_Service\<close>: the queries, their job and the data
    handlers, over the locale \<open>query_cache\<close>.
  \<^item> \<open>Jobs\<close>, \<open>Job_Manager\<close>, \<open>Election\<close>: the shape of a job and its loop, \<open>jobs/job_manager.go\<close> and
    \<open>distributed/election.go\<close>; one run per job, jobs of the leader only, an exclusive lease.
  \<^item> \<open>Cert_Provider\<close>, \<open>Cert_Jobs\<close>: \<open>services/certificate\<close>, whose interface is the locale
    \<open>certificate_manager\<close> with both providers as interpretations, and the two certificate jobs over it.
  \<^item> \<open>Router_Client\<close>, \<open>Firewall_Jobs\<close>: \<open>services/firewall\<close> and the two firewall jobs; after a sync the router
    selects the addresses of the active entries.
  \<^item> \<open>Routes\<close>: \<open>server/handlers.go\<close>, the composition of middlewares and handlers; every route serves only the
    callers it is for. \<open>Server_Setup\<close>: \<open>New\<close> of \<open>server/server.go\<close>, from a loaded configuration to the registered jobs.
  \<^item> \<open>Table_Safety\<close>, \<open>Whole_System\<close>: every storage operation, and so every handler, every job (over the locale
    \<open>safe_issuing\<close>) and the start, keeps the invariants of all tables; \<open>system_reachable\<close> is the relation of all of
    them together, and the invariants hold of every database it reaches.

  \<^bold>\<open>Parameters and what is assumed of them.\<close> What is not in the repository is an argument: the OIDC provider, Argon2,
  AES, X.509, PEM and PKCS 12, the Kubernetes and cert-manager clients, the Redis client, the Prometheus API, the HTTP
  client with the router behind it, JSON and YAML, random bytes and UUIDs, the way PostgreSQL reads INET and UUID
  texts (\<open>pg_types\<close>), and the scripts of the migrations. Where a property needs them to behave, it says so in a
  hypothesis: \<open>redis_lease\<close> is what Redis documents of \<open>SETNX\<close>, \<open>GET\<close> and \<open>EXPIRE\<close> with a time to live,
  \<open>alias_api\<close> what the router's API documents of reading and writing an alias, \<open>opens_sealed\<close> that decryption
  inverts encryption. Each such property has a witness with concrete parameters.

  \<^bold>\<open>Bounds.\<close> Times and durations are integers in nanoseconds; the operations that can overflow 64 bits in a
  range the program reaches (durations in texts, the range of a query) write the wrap-around or the check out.
  There is no fuel: every loop of the source that is modelled recurses on a list, on digits, or on the events given.

  \<^bold>\<open>Not modelled.\<close> Listening, signals and the deadline of a shutdown in \<open>Start\<close> of \<open>server/server.go\<close> and
  \<open>main.go\<close> (what a shutdown does to the jobs and the election is in \<open>Job_Manager\<close> and \<open>Election\<close>); the
  matching of paths, CORS, compression and timeouts of the router package; the store behind the session cookie and
  the opening of Redis and OIDC connections; log lines and Prometheus metrics, which nothing reads back;
  \<open>ParseTimeString\<close> of \<open>utils/time.go\<close>, which nothing calls; the mocks and test helpers; the frontend and the
  charts, which are not Go.
\<close>

end
